(* ===== verification/Go_Prelude.thy ===== *)
theory Go_Prelude
  imports Main "HOL-Library.Char_ord" "HOL-Library.List_Lexorder" "HOL-Library.AList"
begin

text \<open>
  What the Go code of every component uses from the language and its standard library:
  byte strings and the functions of package \<open>strings\<close>, UTF-8 decoding, instants of package
  \<open>time\<close>, dynamically typed values (\<open>any\<close>), computations that thread a state and may return
  an error, and association lists for the Go maps that the code iterates over.
\<close>

named_theorems keeps_intros \<open>rules that compose invariant-preserving computations\<close>
named_theorems act_simps \<open>equations that run a computation on a state\<close>

section \<open>Strings\<close>

text \<open>
  A Go string is a sequence of bytes, and so is an Isabelle \<^typ>\<open>string\<close>. The functions below
  are those of package \<open>strings\<close> on bytes.
\<close>

definition HasPrefix :: "string \<Rightarrow> string \<Rightarrow> bool" where
  "HasPrefix s p \<longleftrightarrow> take (length p) s = p"

definition HasSuffix :: "string \<Rightarrow> string \<Rightarrow> bool" where
  "HasSuffix s p \<longleftrightarrow> HasPrefix (rev s) (rev p)"

definition TrimSuffix :: "string \<Rightarrow> string \<Rightarrow> string" where
  "TrimSuffix s p = (if HasSuffix s p then take (length s - length p) s else s)"

fun str_contains :: "string \<Rightarrow> string \<Rightarrow> bool" where
  "str_contains [] p \<longleftrightarrow> p = []"
| "str_contains (c # s) p \<longleftrightarrow> HasPrefix (c # s) p \<or> str_contains s p"

lemma HasPrefix_append: "HasPrefix s p \<longleftrightarrow> (\<exists>t. s = p @ t)"
  unfolding HasPrefix_def by (metis append_eq_conv_conj append_take_drop_id)

lemma HasSuffix_append: "HasSuffix s p \<longleftrightarrow> (\<exists>t. s = t @ p)"
  unfolding HasSuffix_def HasPrefix_append by (metis rev_append rev_rev_ident)

lemma HasPrefix_Nil [simp]: "HasPrefix s []"
  by (simp add: HasPrefix_def)

lemma HasPrefix_self [simp]: "HasPrefix s s"
  by (simp add: HasPrefix_def)

lemma TrimSuffix_append [simp]: "TrimSuffix (t @ p) p = t"
  by (auto simp: TrimSuffix_def HasSuffix_append)

text \<open>
  \<open>strings.TrimSpace\<close> removes the white space of Unicode at both ends. The encodings of those
  code points are listed as byte sequences; on strings that are not valid UTF-8 the function
  decodes at each end, which finds exactly these sequences.
\<close>

definition space_seqs :: "string list" where
  "space_seqs =
     [[CHR 0x09], [CHR 0x0A], [CHR 0x0B], [CHR 0x0C], [CHR 0x0D], [CHR 0x20],
      [CHR 0xC2, CHR 0x85], [CHR 0xC2, CHR 0xA0], [CHR 0xE1, CHR 0x9A, CHR 0x80],
      [CHR 0xE2, CHR 0x80, CHR 0x80], [CHR 0xE2, CHR 0x80, CHR 0x81],
      [CHR 0xE2, CHR 0x80, CHR 0x82], [CHR 0xE2, CHR 0x80, CHR 0x83],
      [CHR 0xE2, CHR 0x80, CHR 0x84], [CHR 0xE2, CHR 0x80, CHR 0x85],
      [CHR 0xE2, CHR 0x80, CHR 0x86], [CHR 0xE2, CHR 0x80, CHR 0x87],
      [CHR 0xE2, CHR 0x80, CHR 0x88], [CHR 0xE2, CHR 0x80, CHR 0x89],
      [CHR 0xE2, CHR 0x80, CHR 0x8A], [CHR 0xE2, CHR 0x80, CHR 0xA8],
      [CHR 0xE2, CHR 0x80, CHR 0xA9], [CHR 0xE2, CHR 0x80, CHR 0xAF],
      [CHR 0xE2, CHR 0x81, CHR 0x9F], [CHR 0xE3, CHR 0x80, CHR 0x80]]"

function strip_seqs :: "string list \<Rightarrow> string \<Rightarrow> string" where
  "strip_seqs ps s =
     (case List.find (\<lambda>p. p \<noteq> [] \<and> HasPrefix s p) ps of
        None \<Rightarrow> s
      | Some p \<Rightarrow> strip_seqs ps (drop (length p) s))"
  by pat_completeness auto
termination
proof (relation "measure (\<lambda>(ps, s). length s)")
  fix ps :: "string list" and s p
  assume "List.find (\<lambda>p. p \<noteq> [] \<and> HasPrefix s p) ps = Some p"
  then have "p \<noteq> []" "HasPrefix s p"
    by (auto simp: find_Some_iff)
  then have "0 < length p \<and> 0 < length s \<and> length p \<le> length s"
    by (auto simp: HasPrefix_append)
  then have "length s - length p < length s" by linarith
  then show "((ps, drop (length p) s), ps, s) \<in> measure (\<lambda>(ps, s). length s)"
    by simp
qed simp

declare strip_seqs.simps [simp del]

definition TrimSpace :: "string \<Rightarrow> string" where
  "TrimSpace s = rev (strip_seqs (map rev space_seqs) (rev (strip_seqs space_seqs s)))"

lemma strip_seqs_suffix: "\<exists>t. s = t @ strip_seqs ps s"
proof (induction ps s rule: strip_seqs.induct)
  case (1 ps s)
  show ?case
  proof (cases "List.find (\<lambda>p. p \<noteq> [] \<and> HasPrefix s p) ps")
    case None
    then show ?thesis by (simp add: strip_seqs.simps[of ps s])
  next
    case (Some p)
    then obtain t where "drop (length p) s = t @ strip_seqs ps (drop (length p) s)"
      using "1" by blast
    then have "s = (take (length p) s @ t) @ strip_seqs ps (drop (length p) s)"
      by (metis append.assoc append_take_drop_id)
    moreover have "strip_seqs ps s = strip_seqs ps (drop (length p) s)"
      using Some by (simp add: strip_seqs.simps[of ps s])
    ultimately show ?thesis by metis
  qed
qed

text \<open>A character that is in none of the sequences stays.\<close>

lemma strip_seqs_keeps: "c \<in> set s \<Longrightarrow> \<forall>p \<in> set ps. c \<notin> set p \<Longrightarrow> c \<in> set (strip_seqs ps s)"
proof (induction ps s rule: strip_seqs.induct)
  case (1 ps s)
  show ?case
  proof (cases "List.find (\<lambda>p. p \<noteq> [] \<and> HasPrefix s p) ps")
    case None
    with 1 show ?thesis by (simp add: strip_seqs.simps[of ps s])
  next
    case (Some p)
    then obtain t where s: "s = p @ t" and "p \<in> set ps"
      by (auto simp: find_Some_iff HasPrefix_append)
    with "1.prems" have "c \<in> set (drop (length p) s)" by auto
    with Some 1 show ?thesis by (simp add: strip_seqs.simps[of ps s])
  qed
qed

lemma strip_seqs_no_prefix: "p \<in> set ps \<Longrightarrow> p \<noteq> [] \<Longrightarrow> \<not> HasPrefix (strip_seqs ps s) p"
proof (induction ps s rule: strip_seqs.induct)
  case (1 ps s)
  show ?case
  proof (cases "List.find (\<lambda>p. p \<noteq> [] \<and> HasPrefix s p) ps")
    case None
    then have "strip_seqs ps s = s" by (simp add: strip_seqs.simps[of ps s])
    with None "1.prems" show ?thesis by (auto simp: find_None_iff)
  next
    case (Some q)
    with "1.IH" "1.prems" show ?thesis by (simp add: strip_seqs.simps[of ps s])
  qed
qed

lemma strip_seqs_id:
  "(\<And>p. p \<in> set ps \<Longrightarrow> p \<noteq> [] \<Longrightarrow> \<not> HasPrefix s p) \<Longrightarrow> strip_seqs ps s = s"
  by (subst strip_seqs.simps) (fastforce simp: find_Some_iff split: option.split)

lemma strip_seqs_idem [simp]: "strip_seqs ps (strip_seqs ps s) = strip_seqs ps s"
  by (rule strip_seqs_id) (rule strip_seqs_no_prefix)

lemma TrimSpace_Nil [simp]: "TrimSpace [] = []"
  using strip_seqs_suffix[of "[]"] by (simp add: TrimSpace_def)

lemma TrimSpace_idem [simp]: "TrimSpace (TrimSpace s) = TrimSpace s"
proof -
  let ?l = "strip_seqs space_seqs s"
  let ?r = "strip_seqs (map rev space_seqs) (rev ?l)"
  obtain t where "rev ?l = t @ ?r" using strip_seqs_suffix by blast
  then have l: "?l = rev ?r @ rev t" by (metis rev_append rev_rev_ident)
  have "strip_seqs space_seqs (rev ?r) = rev ?r"
  proof (rule strip_seqs_id)
    fix p assume p: "p \<in> set space_seqs" "p \<noteq> []"
    then have "\<not> HasPrefix ?l p" by (rule strip_seqs_no_prefix)
    then show "\<not> HasPrefix (rev ?r) p" by (subst (asm) l) (auto simp: HasPrefix_append)
  qed
  then show ?thesis by (simp add: TrimSpace_def)
qed

text \<open>A string is blank when only white space is in it; the code tests \<open>TrimSpace(s) == ""\<close>.\<close>

abbreviation blank :: "string \<Rightarrow> bool" where
  "blank s \<equiv> TrimSpace s = []"

section \<open>UTF-8\<close>

text \<open>
  \<open>for _, r := range s\<close> decodes UTF-8 and yields U+FFFD for each byte that does not start a
  valid encoding; \<open>WriteRune\<close> encodes. Both are written on the values of the bytes.
\<close>

definition cont :: "nat \<Rightarrow> bool" where
  "cont b \<longleftrightarrow> 0x80 \<le> b \<and> b \<le> 0xBF"

fun decode_rune :: "nat list \<Rightarrow> nat \<times> nat" where
  "decode_rune [] = (0xFFFD, 0)"
| "decode_rune (b0 # bs) =
     (if b0 < 0x80 then (b0, 1)
      else if 0xC2 \<le> b0 \<and> b0 \<le> 0xDF then
        (case bs of
           b1 # _ \<Rightarrow> if cont b1 then ((b0 - 0xC0) * 64 + (b1 - 0x80), 2) else (0xFFFD, 1)
         | _ \<Rightarrow> (0xFFFD, 1))
      else if 0xE0 \<le> b0 \<and> b0 \<le> 0xEF then
        (case bs of
           b1 # b2 # _ \<Rightarrow>
             if cont b1 \<and> (b0 = 0xE0 \<longrightarrow> 0xA0 \<le> b1) \<and> (b0 = 0xED \<longrightarrow> b1 \<le> 0x9F) \<and> cont b2
             then ((b0 - 0xE0) * 4096 + (b1 - 0x80) * 64 + (b2 - 0x80), 3) else (0xFFFD, 1)
         | _ \<Rightarrow> (0xFFFD, 1))
      else if 0xF0 \<le> b0 \<and> b0 \<le> 0xF4 then
        (case bs of
           b1 # b2 # b3 # _ \<Rightarrow>
             if cont b1 \<and> (b0 = 0xF0 \<longrightarrow> 0x90 \<le> b1) \<and> (b0 = 0xF4 \<longrightarrow> b1 \<le> 0x8F) \<and> cont b2 \<and> cont b3
             then ((b0 - 0xF0) * 262144 + (b1 - 0x80) * 4096 + (b2 - 0x80) * 64 + (b3 - 0x80), 4)
             else (0xFFFD, 1)
         | _ \<Rightarrow> (0xFFFD, 1))
      else (0xFFFD, 1))"

function utf8_runes :: "nat list \<Rightarrow> nat list" where
  "utf8_runes [] = []"
| "utf8_runes (b # bs) =
     fst (decode_rune (b # bs)) # utf8_runes (drop (snd (decode_rune (b # bs)) - 1) bs)"
  by pat_completeness auto
termination
  by (relation "measure length") (auto intro: le_imp_less_Suc)

definition runes :: "string \<Rightarrow> nat list" where
  "runes s = utf8_runes (map of_char s)"

definition encode_rune :: "nat \<Rightarrow> string" where
  "encode_rune r0 =
     (let r = (if r0 > 0x10FFFF \<or> (0xD800 \<le> r0 \<and> r0 \<le> 0xDFFF) then 0xFFFD else r0) in
      map char_of
       (if r < 0x80 then [r]
        else if r < 0x800 then [0xC0 + r div 64, 0x80 + r mod 64]
        else if r < 0x10000 then [0xE0 + r div 4096, 0x80 + r div 64 mod 64, 0x80 + r mod 64]
        else [0xF0 + r div 262144, 0x80 + r div 4096 mod 64, 0x80 + r div 64 mod 64,
              0x80 + r mod 64]))"

text \<open>
  The tables of package \<open>unicode\<close> beyond ASCII are a parameter; on ASCII the functions are
  written out.
\<close>

record unicode =
  tbl_lower :: "nat \<Rightarrow> nat"
  tbl_upper :: "nat \<Rightarrow> nat"
  tbl_letter :: "nat \<Rightarrow> bool"
  tbl_digit :: "nat \<Rightarrow> bool"

definition rune_lower :: "unicode \<Rightarrow> nat \<Rightarrow> nat" where
  "rune_lower u r =
     (if r < 0x80 then (if 0x41 \<le> r \<and> r \<le> 0x5A then r + 0x20 else r) else tbl_lower u r)"

definition rune_upper :: "unicode \<Rightarrow> nat \<Rightarrow> nat" where
  "rune_upper u r =
     (if r < 0x80 then (if 0x61 \<le> r \<and> r \<le> 0x7A then r - 0x20 else r) else tbl_upper u r)"

definition rune_letter :: "unicode \<Rightarrow> nat \<Rightarrow> bool" where
  "rune_letter u r \<longleftrightarrow>
     (if r < 0x80 then (0x41 \<le> r \<and> r \<le> 0x5A) \<or> (0x61 \<le> r \<and> r \<le> 0x7A) else tbl_letter u r)"

definition rune_digit :: "unicode \<Rightarrow> nat \<Rightarrow> bool" where
  "rune_digit u r \<longleftrightarrow> (if r < 0x80 then 0x30 \<le> r \<and> r \<le> 0x39 else tbl_digit u r)"

definition ToLower :: "unicode \<Rightarrow> string \<Rightarrow> string" where
  "ToLower u s = concat (map (encode_rune \<circ> rune_lower u) (runes s))"

definition ToUpper :: "unicode \<Rightarrow> string \<Rightarrow> string" where
  "ToUpper u s = concat (map (encode_rune \<circ> rune_upper u) (runes s))"

text \<open>The smallest tables: no letters and digits beyond ASCII. Concrete runs use them.\<close>

definition ascii_tables :: unicode where
  "ascii_tables = \<lparr>tbl_lower = (\<lambda>r. r), tbl_upper = (\<lambda>r. r), tbl_letter = (\<lambda>_. False), tbl_digit = (\<lambda>_. False)\<rparr>"

section \<open>Instants and dynamic values\<close>

text \<open>
  A \<open>time.Time\<close> is the number of nanoseconds since the zero time, so \<open>IsZero\<close> is a comparison
  with 0, \<open>Before\<close>, \<open>After\<close> and \<open>Equal\<close> are the comparisons of integers, and \<open>UTC()\<close>,
  which changes the location only, is the identity. A \<open>time.Duration\<close> is in nanoseconds too.
\<close>

type_synonym gotime = int

definition IsZero :: "gotime \<Rightarrow> bool" where
  "IsZero t \<longleftrightarrow> t = 0"

definition Second :: int where
  "Second = 1000000000"

text \<open>
  An \<open>int64\<close> is an integer with the range written out: \<open>+\<close> and \<open>-\<close> of the code wrap around
  where the model says so, with \<open>add64\<close> and \<open>sub64\<close>.
\<close>

definition MaxInt64 :: int where
  "MaxInt64 = 9223372036854775807"

definition MinInt64 :: int where
  "MinInt64 = -9223372036854775808"

definition int64 :: "int \<Rightarrow> bool" where
  "int64 x \<longleftrightarrow> MinInt64 \<le> x \<and> x \<le> MaxInt64"

definition wrap64 :: "int \<Rightarrow> int" where
  "wrap64 x = (x + 9223372036854775808) mod 18446744073709551616 - 9223372036854775808"

abbreviation add64 :: "int \<Rightarrow> int \<Rightarrow> int" where
  "add64 a b \<equiv> wrap64 (a + b)"

abbreviation sub64 :: "int \<Rightarrow> int \<Rightarrow> int" where
  "sub64 a b \<equiv> wrap64 (a - b)"

text \<open>
  Division of Go truncates towards zero, on \<open>int64\<close> and in \<open>big.Int.Quo\<close>.
\<close>

definition quo :: "int \<Rightarrow> int \<Rightarrow> int" where
  "quo a b = sgn a * sgn b * (\<bar>a\<bar> div \<bar>b\<bar>)"

text \<open>\<open>Time.Sub\<close> saturates at the range of a \<open>Duration\<close>.\<close>

definition time_Sub :: "gotime \<Rightarrow> gotime \<Rightarrow> int" where
  "time_Sub t u =
     (if t - u > MaxInt64 then MaxInt64 else if t - u < MinInt64 then MinInt64 else t - u)"

lemmas int64_defs = int64_def MaxInt64_def MinInt64_def

lemma wrap64_int64 [simp]: "int64 (wrap64 x)"
proof -
  have "0 \<le> (x + 9223372036854775808) mod 18446744073709551616"
    and "(x + 9223372036854775808) mod 18446744073709551616 < 18446744073709551616" by simp_all
  then show ?thesis unfolding wrap64_def int64_defs by linarith
qed

lemma wrap64_id: "int64 x \<Longrightarrow> wrap64 x = x"
proof -
  assume "int64 x"
  then have "0 \<le> x + 9223372036854775808 \<and> x + 9223372036854775808 < 18446744073709551616"
    by (simp add: int64_defs)
  then show ?thesis by (simp add: wrap64_def mod_pos_pos_trivial)
qed

lemma quo_nonneg: "0 \<le> a \<Longrightarrow> 0 < b \<Longrightarrow> quo a b = a div b"
  by (cases "a = 0") (auto simp: quo_def)

lemma time_Sub_exact: "int64 (t - u) \<Longrightarrow> time_Sub t u = t - u"
  by (auto simp: time_Sub_def int64_def)

text \<open>
  A value of type \<open>any\<close>. \<open>VObj\<close> is a \<open>map[string]any\<close> (the association list has distinct
  keys), \<open>VArr\<close> a \<open>[]any\<close>, \<open>VStrs\<close> a \<open>[]string\<close>, \<open>VStringer\<close> a value with a \<open>String()\<close>
  method (with the string it returns), \<open>VMapOf\<close> a map of any other type (with its keys printed)
  and \<open>VListOf\<close> a slice or array of any other type. Every other value is \<open>VNull\<close>,
  \<open>VBool\<close>, \<open>VInt\<close> or \<open>VStr\<close>.
\<close>

datatype val =
    VNull
  | VBool bool
  | VInt int
  | VStr string
  | VStrs "string list"
  | VStringer string
  | VArr "val list"
  | VListOf "val list"
  | VObj "(string \<times> val) list"
  | VMapOf "(string \<times> val) list"

section \<open>Computations with a state and an error\<close>

text \<open>
  A Go function that reads and writes a store and returns \<open>(T, error)\<close> is a function of the
  state: it returns \<open>Inl\<close> the error or \<open>Inr\<close> the value, and the state it leaves, which the
  model keeps on an error too.
\<close>

type_synonym ('s, 'e, 'a) act = "'s \<Rightarrow> ('e + 'a) \<times> 's"

definition ret :: "'a \<Rightarrow> ('s, 'e, 'a) act" where
  "ret a = (\<lambda>s. (Inr a, s))"

definition throw :: "'e \<Rightarrow> ('s, 'e, 'a) act" where
  "throw e = (\<lambda>s. (Inl e, s))"

definition bindE :: "('s, 'e, 'a) act \<Rightarrow> ('a \<Rightarrow> ('s, 'e, 'b) act) \<Rightarrow> ('s, 'e, 'b) act" where
  "bindE m k = (\<lambda>s. case m s of (Inl e, s') \<Rightarrow> (Inl e, s') | (Inr a, s') \<Rightarrow> k a s')"

text \<open>\<open>seqE m k\<close> is \<open>if err := m; err != nil { return err }\<close> followed by \<open>k\<close>.\<close>

definition seqE :: "('s, 'e, unit) act \<Rightarrow> ('s, 'e, 'b) act \<Rightarrow> ('s, 'e, 'b) act" where
  "seqE m k = bindE m (\<lambda>_. k)"

text \<open>\<open>attempt m\<close> hands the outcome of \<open>m\<close> to code that looks at the error itself.\<close>

definition attempt :: "('s, 'e, 'a) act \<Rightarrow> ('s, 'e, 'e + 'a) act" where
  "attempt m = (\<lambda>s. (Inr (fst (m s)), snd (m s)))"

definition of_result :: "'e + 'a \<Rightarrow> ('s, 'e, 'a) act" where
  "of_result r = (\<lambda>s. (r, s))"

definition reads :: "('s \<Rightarrow> 'a) \<Rightarrow> ('s, 'e, 'a) act" where
  "reads f = (\<lambda>s. (Inr (f s), s))"

lemma ret_run [act_simps]: "ret a s = (Inr a, s)"
  by (simp add: ret_def)

lemma throw_run [act_simps]: "throw e s = (Inl e, s)"
  by (simp add: throw_def)

lemma reads_run [act_simps]: "reads f s = (Inr (f s), s)"
  by (simp add: reads_def)

lemma of_result_run [act_simps]: "of_result r s = (r, s)"
  by (simp add: of_result_def)

lemma attempt_run [act_simps]: "attempt m s = (Inr (fst (m s)), snd (m s))"
  by (simp add: attempt_def)

lemma bindE_run [act_simps]:
  "bindE m k s = (case m s of (Inl e, s') \<Rightarrow> (Inl e, s') | (Inr a, s') \<Rightarrow> k a s')"
  by (simp add: bindE_def)

lemma seqE_run [act_simps]:
  "seqE m k s = (case m s of (Inl e, s') \<Rightarrow> (Inl e, s') | (Inr a, s') \<Rightarrow> k s')"
  by (simp add: seqE_def bindE_def)

lemma bindE_Inr [simp]:
  "bindE m k s = (Inr b, s') \<longleftrightarrow> (\<exists>a t. m s = (Inr a, t) \<and> k a t = (Inr b, s'))"
  by (cases "m s") (auto simp: bindE_def split: sum.splits)

lemma bindE_ret [simp]: "bindE (ret a) k = k a"
  by (simp add: bindE_def ret_def)

lemma bindE_throw [simp]: "bindE (throw e) k = throw e"
  by (simp add: bindE_def throw_def)

lemma bindE_assoc: "bindE (bindE m k) l = bindE m (\<lambda>a. bindE (k a) l)"
  by (rule ext) (simp add: bindE_def split: prod.split sum.split)

text \<open>
  \<open>keeps I m\<close>: whatever \<open>m\<close> returns, it takes a state with \<open>I\<close> to a state with \<open>I\<close>.
\<close>

definition keeps :: "('s \<Rightarrow> bool) \<Rightarrow> ('s, 'e, 'a) act \<Rightarrow> bool" where
  "keeps I m \<longleftrightarrow> (\<forall>s. I s \<longrightarrow> I (snd (m s)))"

lemma keepsI: "(\<And>s. I s \<Longrightarrow> I (snd (m s))) \<Longrightarrow> keeps I m"
  by (simp add: keeps_def)

lemma keepsD: "keeps I m \<Longrightarrow> I s \<Longrightarrow> I (snd (m s))"
  by (simp add: keeps_def)

lemma keeps_ret [keeps_intros]: "keeps I (ret a)"
  by (simp add: keeps_def ret_def)

lemma keeps_throw [keeps_intros]: "keeps I (throw e)"
  by (simp add: keeps_def throw_def)

lemma keeps_reads [keeps_intros]: "keeps I (reads f)"
  by (simp add: keeps_def reads_def)

lemma keeps_of_result [keeps_intros]: "keeps I (of_result r)"
  by (simp add: keeps_def of_result_def)

lemma keeps_attempt [keeps_intros]: "keeps I m \<Longrightarrow> keeps I (attempt m)"
  by (simp add: keeps_def attempt_def)

lemma keeps_bindE [keeps_intros]:
  assumes "keeps I m" and "\<And>a. keeps I (k a)"
  shows "keeps I (bindE m k)"
proof (rule keepsI)
  fix s assume "I s"
  with assms(1) have "I (snd (m s))" by (rule keepsD)
  with assms(2) show "I (snd (bindE m k s))"
    by (auto simp: bindE_def keeps_def split: prod.split sum.split)
qed

lemma keeps_seqE [keeps_intros]: "keeps I m \<Longrightarrow> keeps I k \<Longrightarrow> keeps I (seqE m k)"
  unfolding seqE_def by (rule keeps_bindE)

lemma keeps_if [keeps_intros]:
  "(b \<Longrightarrow> keeps I m) \<Longrightarrow> (\<not> b \<Longrightarrow> keeps I k) \<Longrightarrow> keeps I (if b then m else k)"
  by simp

lemma keeps_case_option [keeps_intros]:
  "keeps I m \<Longrightarrow> (\<And>x. keeps I (k x)) \<Longrightarrow> keeps I (case x of None \<Rightarrow> m | Some y \<Rightarrow> k y)"
  by (cases x) auto

lemma keeps_case_sum [keeps_intros]:
  "(\<And>e. keeps I (m e)) \<Longrightarrow> (\<And>a. keeps I (k a)) \<Longrightarrow>
   keeps I (case r of Inl e \<Rightarrow> m e | Inr a \<Rightarrow> k a)"
  by (cases r) auto

lemma keeps_case_prod [keeps_intros]:
  "(\<And>a b. keeps I (k a b)) \<Longrightarrow> keeps I (case p of (a, b) \<Rightarrow> k a b)"
  by (cases p) auto

lemma keeps_let [keeps_intros]: "(\<And>x. x = e \<Longrightarrow> keeps I (k x)) \<Longrightarrow> keeps I (let x = e in k x)"
  by (simp add: Let_def)

section \<open>Go maps that are iterated over\<close>

text \<open>
  Where the code ranges over a map the model keeps it as an association list with distinct keys:
  the list order is one iteration order. \<open>AList.update\<close> is \<open>m[k] = v\<close>.
\<close>

abbreviation wf_map :: "('k \<times> 'v) list \<Rightarrow> bool" where
  "wf_map m \<equiv> distinct (map fst m)"

lemma map_of_update [simp]: "map_of (AList.update k v m) = (map_of m)(k \<mapsto> v)"
  by (simp add: update_conv')

lemma wf_map_update [simp]: "wf_map m \<Longrightarrow> wf_map (AList.update k v m)"
  by (rule distinct_update)

text \<open>Replacing the entry of a key that is present changes a count by at most that entry.\<close>

lemma count_update:
  assumes "wf_map m" and "map_of m k = Some v"
  shows "int (length (filter (\<lambda>e. P (snd e)) (AList.update k v' m))) =
         int (length (filter (\<lambda>e. P (snd e)) m)) - of_bool (P v) + of_bool (P v')"
  using assms
proof (induction m)
  case (Cons e m)
  obtain k1 v1 where e: "e = (k1, v1)" by (cases e)
  show ?case
  proof (cases "k1 = k")
    case True
    with Cons.prems e show ?thesis by auto
  next
    case False
    with Cons e show ?thesis by auto
  qed
qed simp

lemma count_insert_new:
  assumes "map_of m k = None"
  shows "length (filter (\<lambda>e. P (snd e)) (AList.update k v m)) =
         length (filter (\<lambda>e. P (snd e)) m) + of_bool (P v)"
  using assms by (induction m) auto

text \<open>The same for a sum over the rows that satisfy \<open>P\<close>.\<close>

definition sum_rows :: "('v \<Rightarrow> bool) \<Rightarrow> ('v \<Rightarrow> int) \<Rightarrow> ('k \<times> 'v) list \<Rightarrow> int" where
  "sum_rows P f m = sum_list (map f (filter P (map snd m)))"

lemma sum_rows_insert:
  "map_of m k = None \<Longrightarrow>
   sum_rows P f (AList.update k v m) = sum_rows P f m + (if P v then f v else 0)"
  by (induction m) (auto simp: sum_rows_def)

lemma sum_rows_update:
  "wf_map m \<Longrightarrow> map_of m k = Some w \<Longrightarrow>
   sum_rows P f (AList.update k v m) =
   sum_rows P f m - (if P w then f w else 0) + (if P v then f v else 0)"
proof (induction m)
  case (Cons e m)
  obtain k1 v1 where e: "e = (k1, v1)" by (cases e)
  show ?case
  proof (cases "k1 = k")
    case True
    with Cons.prems e show ?thesis by (simp add: sum_rows_def)
  next
    case False
    with Cons.prems e have "map_of m k = Some w" and "wf_map m" by auto
    with Cons.IH False e show ?thesis by (simp add: sum_rows_def)
  qed
qed simp

lemma sum_rows_mono:
  "(\<And>v. v \<in> snd ` set m \<Longrightarrow> P v \<Longrightarrow> Q v) \<Longrightarrow> (\<And>v. v \<in> snd ` set m \<Longrightarrow> 0 \<le> f v) \<Longrightarrow>
   sum_rows P f m \<le> sum_rows Q f m"
  by (induction m) (auto simp: sum_rows_def intro: add_increasing)

lemma sum_rows_nonneg: "(\<And>v. v \<in> snd ` set m \<Longrightarrow> 0 \<le> f v) \<Longrightarrow> 0 \<le> sum_rows P f m"
  by (induction m) (auto simp: sum_rows_def)

lemma sum_rows_none: "(\<And>v. v \<in> snd ` set m \<Longrightarrow> \<not> P v) \<Longrightarrow> sum_rows P f m = 0"
  by (induction m) (auto simp: sum_rows_def)

lemma not_blank_x: "CHR ''x'' \<in> set s \<Longrightarrow> TrimSpace s \<noteq> []"
proof -
  assume "CHR ''x'' \<in> set s"
  then have "CHR ''x'' \<in> set (rev (strip_seqs space_seqs s))"
    by (simp add: strip_seqs_keeps space_seqs_def)
  then have "CHR ''x'' \<in> set (strip_seqs (map rev space_seqs) (rev (strip_seqs space_seqs s)))"
    by (rule strip_seqs_keeps) (simp add: space_seqs_def)
  then show ?thesis by (auto simp: TrimSpace_def)
qed

section \<open>Tables that only grow\<close>

text \<open>\<open>grows R m m'\<close>: no key of \<open>m\<close> is lost, and each value evolves by \<open>R\<close>.\<close>

definition grows :: "('v \<Rightarrow> 'v \<Rightarrow> bool) \<Rightarrow> ('k \<rightharpoonup> 'v) \<Rightarrow> ('k \<rightharpoonup> 'v) \<Rightarrow> bool" where
  "grows R m m' \<longleftrightarrow> (\<forall>k v. m k = Some v \<longrightarrow> (\<exists>v'. m' k = Some v' \<and> R v v'))"

lemma growsI: "(\<And>k v. m k = Some v \<Longrightarrow> \<exists>v'. m' k = Some v' \<and> R v v') \<Longrightarrow> grows R m m'"
  by (simp add: grows_def)

lemma growsD: "grows R m m' \<Longrightarrow> m k = Some v \<Longrightarrow> \<exists>v'. m' k = Some v' \<and> R v v'"
  by (simp add: grows_def)

lemma grows_refl: "(\<And>v. R v v) \<Longrightarrow> grows R m m"
  by (simp add: grows_def)

lemma grows_trans:
  assumes "\<And>x y z. R x y \<Longrightarrow> R y z \<Longrightarrow> R x z" and "grows R a b" and "grows R b c"
  shows "grows R a c"
proof (rule growsI)
  fix k v assume "a k = Some v"
  with assms(2) obtain v' where v': "b k = Some v'" "R v v'" by (blast dest: growsD)
  with assms(3) obtain v'' where "c k = Some v''" "R v' v''" by (blast dest: growsD)
  with v' assms(1) show "\<exists>v'. c k = Some v' \<and> R v v'" by blast
qed

lemma grows_insert: "(\<And>v. R v v) \<Longrightarrow> m k = None \<Longrightarrow> grows R m (m(k \<mapsto> w))"
  by (auto simp: grows_def)

lemma grows_update: "(\<And>v. R v v) \<Longrightarrow> m k = Some v \<Longrightarrow> R v w \<Longrightarrow> grows R m (m(k \<mapsto> w))"
  by (auto simp: grows_def)

section \<open>Properties of tables\<close>

text \<open>\<open>rows P m\<close>: every row satisfies \<open>P\<close>. \<open>apart R m\<close>: any two rows are related by \<open>R\<close>.\<close>

definition rows :: "('k \<Rightarrow> 'v \<Rightarrow> bool) \<Rightarrow> ('k \<rightharpoonup> 'v) \<Rightarrow> bool" where
  "rows P m \<longleftrightarrow> (\<forall>k v. m k = Some v \<longrightarrow> P k v)"

definition apart :: "('v \<Rightarrow> 'v \<Rightarrow> bool) \<Rightarrow> ('k \<rightharpoonup> 'v) \<Rightarrow> bool" where
  "apart R m \<longleftrightarrow> (\<forall>i j v w. m i = Some v \<longrightarrow> m j = Some w \<longrightarrow> i \<noteq> j \<longrightarrow> R v w)"

lemma rowsI: "(\<And>k v. m k = Some v \<Longrightarrow> P k v) \<Longrightarrow> rows P m"
  by (simp add: rows_def)

lemma rowsD: "rows P m \<Longrightarrow> m k = Some v \<Longrightarrow> P k v"
  by (simp add: rows_def)

lemma rows_empty [simp]: "rows P Map.empty"
  by (simp add: rows_def)

lemma rows_update: "rows P m \<Longrightarrow> P k v \<Longrightarrow> rows P (m(k \<mapsto> v))"
  by (simp add: rows_def)

lemma rows_mono: "rows P m \<Longrightarrow> (\<And>k v. m k = Some v \<Longrightarrow> P k v \<Longrightarrow> Q k v) \<Longrightarrow> rows Q m"
  by (simp add: rows_def)

lemma apartD: "apart R m \<Longrightarrow> m i = Some v \<Longrightarrow> m j = Some w \<Longrightarrow> i \<noteq> j \<Longrightarrow> R v w"
  by (auto simp: apart_def)

lemma apart_empty [simp]: "apart R Map.empty"
  by (simp add: apart_def)

lemma apart_update:
  assumes "apart R m" and "\<And>i w. m i = Some w \<Longrightarrow> i \<noteq> k \<Longrightarrow> R v w \<and> R w v"
  shows "apart R (m(k \<mapsto> v))"
  using assms unfolding apart_def by (metis map_upd_Some_unfold)

section \<open>State machines\<close>

text \<open>
  The interface of an object that handlers change step by step: the states a constructor makes,
  the steps its methods take, and an invariant that both respect.
\<close>

locale safe_machine =
  fixes init :: "'s \<Rightarrow> bool"
    and step :: "'s \<Rightarrow> 's \<Rightarrow> bool"
    and inv :: "'s \<Rightarrow> bool"
  assumes inv_init: "init s \<Longrightarrow> inv s"
    and inv_step: "inv s \<Longrightarrow> step s t \<Longrightarrow> inv t"
begin

lemma run_inv: "step\<^sup>*\<^sup>* s t \<Longrightarrow> inv s \<Longrightarrow> inv t"
  by (induction rule: rtranclp_induct) (auto intro: inv_step)

lemma reachable_inv: "init s \<Longrightarrow> step\<^sup>*\<^sup>* s t \<Longrightarrow> inv t"
  by (auto intro: run_inv inv_init)

end

text \<open>
  The objects of the program carry a version that every change increments, and some have final
  states that no method leaves.
\<close>

locale versioned_machine = safe_machine +
  fixes ver :: "'s \<Rightarrow> int"
    and final :: "'s \<Rightarrow> bool"
  assumes step_ver: "inv s \<Longrightarrow> step s t \<Longrightarrow> t = s \<or> ver t = ver s + 1"
    and step_final: "inv s \<Longrightarrow> final s \<Longrightarrow> step s t \<Longrightarrow> t = s"
begin

lemma run_ver: "step\<^sup>*\<^sup>* s t \<Longrightarrow> inv s \<Longrightarrow> t = s \<or> ver s < ver t"
proof (induction rule: rtranclp_induct)
  case (step y z)
  then have "inv y" by (auto intro: run_inv)
  then have "z = y \<or> ver z = ver y + 1" using step.hyps(2) by (rule step_ver)
  with step.IH step.prems show ?case by auto
qed simp

lemma run_final: "step\<^sup>*\<^sup>* s t \<Longrightarrow> inv s \<Longrightarrow> final s \<Longrightarrow> t = s"
  by (induction rule: rtranclp_induct) (auto dest: step_final)

end

end
