(* ===== verification/Kernel_Types.thy ===== *)
theory Kernel_Types
  imports Go_Prelude
begin

text \<open>
  The public contracts of the kernel (\<open>contracts/kernel/v1\<close>): principals and scopes, resources,
  operation states, command metadata, errors, the event and audit envelopes, with the
  validation functions of each, and the domain errors of \<open>internal/kernel/errors.go\<close>.
\<close>

section \<open>Errors\<close>

text \<open>
  An error message is kept as its format and arguments, \<open>[format, arg, ...]\<close>: no code looks at
  the rendered text.
\<close>

type_synonym message = "string list"

abbreviation "CodeInvalidArgument \<equiv> ''INVALID_ARGUMENT''"
abbreviation "CodeNotFound \<equiv> ''NOT_FOUND''"
abbreviation "CodeConflict \<equiv> ''CONFLICT''"
abbreviation "CodeForbidden \<equiv> ''FORBIDDEN''"
abbreviation "CodeIdempotencyConflict \<equiv> ''IDEMPOTENCY_CONFLICT''"
abbreviation "CodeOptimisticLock \<equiv> ''OPTIMISTIC_LOCK_CONFLICT''"
abbreviation "CodeInvalidTransition \<equiv> ''INVALID_OPERATION_TRANSITION''"
abbreviation "CodeLastOwner \<equiv> ''LAST_OWNER_REQUIRED''"
abbreviation "CodeInternal \<equiv> ''INTERNAL''"

text \<open>
  An error value is a \<open>*DomainError\<close> or any other error; \<open>errors.As\<close> finds the first kind.
  The wrapped cause only serves the log and is not kept.
\<close>

datatype kerror =
    DomainError (de_code: string) (de_message: message) (de_retryable: bool)
      (de_details: "(string \<times> val) list option")
  | OtherError message

definition NewError :: "string \<Rightarrow> message \<Rightarrow> kerror" where
  "NewError code m = DomainError code m False None"

definition WrapError :: "string \<Rightarrow> message \<Rightarrow> bool \<Rightarrow> kerror" where
  "WrapError code m retryable = DomainError code m retryable None"

definition ErrorCode :: "kerror \<Rightarrow> string" where
  "ErrorCode e = (case e of DomainError code _ _ _ \<Rightarrow> code | OtherError _ \<Rightarrow> CodeInternal)"

definition invalidArgument :: "message \<Rightarrow> kerror" where
  "invalidArgument m = NewError CodeInvalidArgument m"

definition notFound :: "string \<Rightarrow> kerror" where
  "notFound resource = NewError CodeNotFound [resource @ '' not found'']"

definition conflict :: "message \<Rightarrow> kerror" where
  "conflict m = NewError CodeConflict m"

definition forbidden :: "string \<Rightarrow> kerror" where
  "forbidden m = NewError CodeForbidden [m]"

record public_error =
  pe_code :: string
  pe_message :: message
  pe_operation_id :: string
  pe_retryable :: bool
  pe_details :: "(string \<times> val) list option"

definition ToPublicError :: "kerror \<Rightarrow> string \<Rightarrow> public_error" where
  "ToPublicError e operationID =
     (case e of
        DomainError code m retryable details \<Rightarrow>
          \<lparr>pe_code = code, pe_message = m, pe_operation_id = operationID,
           pe_retryable = retryable, pe_details = details\<rparr>
      | OtherError _ \<Rightarrow>
          \<lparr>pe_code = CodeInternal, pe_message = [''Internal platform error''],
           pe_operation_id = operationID, pe_retryable = True, pe_details = None\<rparr>)"

lemmas error_defs =
  NewError_def WrapError_def ErrorCode_def invalidArgument_def notFound_def conflict_def
  forbidden_def

lemma ToPublicError_code [simp]: "pe_code (ToPublicError e i) = ErrorCode e"
  by (cases e) (auto simp: ToPublicError_def ErrorCode_def)

lemma ToPublicError_operation_id [simp]: "pe_operation_id (ToPublicError e i) = i"
  by (cases e) (auto simp: ToPublicError_def)

section \<open>Principals and scopes\<close>

datatype principal_kind = KindUser | KindAgent | KindService | KindOther string

fun PrincipalKind_Valid :: "principal_kind \<Rightarrow> bool" where
  "PrincipalKind_Valid KindUser \<longleftrightarrow> True"
| "PrincipalKind_Valid KindAgent \<longleftrightarrow> True"
| "PrincipalKind_Valid KindService \<longleftrightarrow> True"
| "PrincipalKind_Valid (KindOther _) \<longleftrightarrow> False"

record principal =
  p_id :: string
  p_tenant :: string
  p_kind :: principal_kind
  p_scopes :: "string list"

definition Principal_Validate :: "principal \<Rightarrow> message + unit" where
  "Principal_Validate p =
     (if blank (p_id p) then Inl [''principal_id is required'']
      else if \<not> PrincipalKind_Valid (p_kind p) then Inl [''invalid principal kind %q'']
      else Inr ())"

definition WithTenant :: "principal \<Rightarrow> string \<Rightarrow> principal" where
  "WithTenant p tenant = p\<lparr>p_tenant := tenant\<rparr>"

text \<open>One turn of the loop of \<open>HasScope\<close>: whether this scope grants the action.\<close>

definition scope_grants :: "string \<Rightarrow> string \<Rightarrow> bool" where
  "scope_grants action scope0 =
     (let scope = TrimSpace scope0 in
      if scope = ''*'' \<or> scope = action then True
      else if HasSuffix scope ''*'' then
        (let prefix = TrimSuffix scope ''*'' in
         if HasPrefix action prefix then True
         else HasSuffix prefix '':'' \<and> HasPrefix action (TrimSuffix prefix '':'' @ ''.''))
      else False)"

fun has_scope_loop :: "string \<Rightarrow> string list \<Rightarrow> bool" where
  "has_scope_loop action [] = False"
| "has_scope_loop action (scope # scopes) =
     (if scope_grants action scope then True else has_scope_loop action scopes)"

definition HasScope :: "principal \<Rightarrow> string \<Rightarrow> bool" where
  "HasScope p action = has_scope_loop action (p_scopes p)"

lemma has_scope_loop_iff:
  "has_scope_loop action scopes \<longleftrightarrow> (\<exists>s \<in> set scopes. scope_grants action s)"
  by (induction scopes) auto

text \<open>
  What a scope means: the action itself, every action that extends the text before a final
  \<open>*\<close>, or, for \<open>ns:*\<close>, every action \<open>ns.x\<close>.
\<close>

definition scope_covers :: "string \<Rightarrow> string \<Rightarrow> bool" where
  "scope_covers scope action \<longleftrightarrow>
     scope = action \<or> (\<exists>pre rest. scope = pre @ ''*'' \<and> action = pre @ rest) \<or>
     (\<exists>ns rest. scope = ns @ '':*'' \<and> action = ns @ ''.'' @ rest)"

lemma scope_grants_iff: "scope_grants action s \<longleftrightarrow> scope_covers (TrimSpace s) action"
proof -
  let ?s = "TrimSpace s"
  have star: "?s = ''*'' \<Longrightarrow> \<exists>pre rest. ?s = pre @ ''*'' \<and> action = pre @ rest"
    by (rule exI[of _ "[]"], rule exI[of _ action]) simp
  show ?thesis
  proof (cases "\<exists>pre. ?s = pre @ ''*''")
    case True
    then obtain pre where pre: "?s = pre @ ''*''" by blast
    have "(HasSuffix pre '':'' \<and> HasPrefix action (TrimSuffix pre '':'' @ ''.'')) \<longleftrightarrow>
          (\<exists>ns rest. pre = ns @ '':'' \<and> action = ns @ ''.'' @ rest)"
    proof
      assume a: "HasSuffix pre '':'' \<and> HasPrefix action (TrimSuffix pre '':'' @ ''.'')"
      then obtain ns where ns: "pre = ns @ '':''" by (auto simp: HasSuffix_append)
      with a obtain rest where "action = (ns @ ''.'') @ rest"
        unfolding HasPrefix_append by (auto simp: TrimSuffix_append)
      with ns show "\<exists>ns rest. pre = ns @ '':'' \<and> action = ns @ ''.'' @ rest" by auto
    next
      assume "\<exists>ns rest. pre = ns @ '':'' \<and> action = ns @ ''.'' @ rest"
      then show "HasSuffix pre '':'' \<and> HasPrefix action (TrimSuffix pre '':'' @ ''.'')"
        by (auto simp: HasSuffix_append HasPrefix_append TrimSuffix_append)
    qed
    moreover have "?s = ns @ '':*'' \<longleftrightarrow> pre = ns @ '':''" for ns
    proof -
      have "ns @ '':*'' = (ns @ '':'') @ ''*''" by simp
      with pre show ?thesis by (simp only: append_same_eq)
    qed
    ultimately show ?thesis
      using pre star unfolding scope_grants_def scope_covers_def Let_def
      by (auto simp: HasSuffix_append HasPrefix_append TrimSuffix_append)
  next
    case False
    moreover have "?s \<noteq> ns @ '':*''" for ns
    proof -
      have "ns @ '':*'' = (ns @ '':'') @ ''*''" by simp
      with False show ?thesis by metis
    qed
    ultimately show ?thesis
      using star unfolding scope_grants_def scope_covers_def Let_def
      by (auto simp: HasSuffix_append)
  qed
qed

section \<open>Resources\<close>

record resource_ref =
  r_tenant :: string
  r_type :: string
  r_id :: string

definition Resource_Validate :: "resource_ref \<Rightarrow> message + unit" where
  "Resource_Validate r =
     (if blank (r_tenant r) then Inl [''resource tenant_id is required'']
      else if blank (r_type r) \<or> blank (r_id r) then Inl [''resource type and id are required'']
      else Inr ())"

section \<open>Operations\<close>

datatype operation_state =
    OperationPending | OperationRunning | OperationWaitingExternal
  | OperationSucceeded | OperationFailed | OperationCanceled | OperationOther string

definition Terminal :: "operation_state \<Rightarrow> bool" where
  "Terminal s \<longleftrightarrow> s = OperationSucceeded \<or> s = OperationFailed \<or> s = OperationCanceled"

record operation_ref =
  or_id :: string
  or_tenant :: string
  or_state :: operation_state

text \<open>\<open>Data\<close> is a \<open>json.RawMessage\<close>; the model keeps the value it encodes.\<close>

record operation_result =
  res_code :: string
  res_data :: "val option"
  res_error :: "public_error option"

record operation_snapshot =
  os_ref :: operation_ref
  os_kind :: string
  os_correlation_id :: string
  os_causation_id :: string
  os_result :: operation_result
  os_version :: int
  os_created_at :: gotime
  os_updated_at :: gotime

section \<open>Command metadata\<close>

record command_meta =
  cm_tenant :: string
  cm_principal :: principal
  cm_correlation_id :: string
  cm_causation_id :: string
  cm_idempotency_key :: string
  cm_command :: string

definition Meta_Validate :: "command_meta \<Rightarrow> message + unit" where
  "Meta_Validate m =
     (case Principal_Validate (cm_principal m) of
        Inl e \<Rightarrow> Inl e
      | Inr _ \<Rightarrow>
          if blank (cm_correlation_id m) then Inl [''correlation_id is required'']
          else if blank (cm_idempotency_key m) then Inl [''idempotency_key is required'']
          else if blank (cm_command m) then Inl [''command is required'']
          else Inr ())"

section \<open>Events and audit records\<close>

record event =
  ev_id :: string
  ev_type :: string
  ev_version :: int
  ev_tenant :: string
  ev_aggregate_id :: string
  ev_correlation_id :: string
  ev_causation_id :: string
  ev_occurred_at :: gotime
  ev_payload :: val

definition Event_Validate :: "event \<Rightarrow> message + unit" where
  "Event_Validate e =
     (if blank (ev_id e) then Inl [''event_id is required'']
      else if blank (ev_type e) then Inl [''event type is required'']
      else if ev_version e \<le> 0 then Inl [''event version must be positive'']
      else if blank (ev_aggregate_id e) then Inl [''aggregate_id is required'']
      else if blank (ev_correlation_id e) then Inl [''correlation_id is required'']
      else if IsZero (ev_occurred_at e) then Inl [''occurred_at is required'']
      else Inr ())"

datatype audit_outcome = AuditSucceeded | AuditDenied | AuditFailed

record audit_envelope =
  au_id :: string
  au_tenant :: string
  au_actor :: principal
  au_action :: string
  au_resource :: resource_ref
  au_correlation_id :: string
  au_outcome :: audit_outcome
  au_error_code :: string
  au_metadata :: "(string \<times> val) list option"
  au_occurred_at :: gotime

lemma Meta_Validate_Inr:
  "Meta_Validate m = Inr u \<longleftrightarrow>
     Principal_Validate (cm_principal m) = Inr () \<and> \<not> blank (cm_correlation_id m) \<and>
     \<not> blank (cm_idempotency_key m) \<and> \<not> blank (cm_command m)"
  by (auto simp: Meta_Validate_def split: sum.splits)

end
