(* ===== verification/Go_Strings.thy ===== *)
theory Go_Strings
  imports Go_Prelude
begin

text \<open>
  Further functions of package \<open>strings\<close>, on bytes: splitting at a separator, searching for a
  character, joining, and trimming of dashes.
\<close>

section \<open>Trimming\<close>

text \<open>\<open>strings.Trim(s, "-")\<close>.\<close>

definition Trim_dash :: "string \<Rightarrow> string" where
  "Trim_dash s = rev (dropWhile (\<lambda>c. c = CHR ''-'') (rev (dropWhile (\<lambda>c. c = CHR ''-'') s)))"

lemma Trim_dash_ends:
  "Trim_dash s \<noteq> [] \<Longrightarrow> hd (Trim_dash s) \<noteq> CHR ''-'' \<and> last (Trim_dash s) \<noteq> CHR ''-''"
proof -
  define l where "l = dropWhile (\<lambda>c. c = CHR ''-'') s"
  define r where "r = dropWhile (\<lambda>c. c = CHR ''-'') (rev l)"
  define t where "t = takeWhile (\<lambda>c. c = CHR ''-'') (rev l)"
  have trim: "Trim_dash s = rev r" by (simp add: Trim_dash_def l_def r_def)
  have "rev l = t @ r" by (simp add: t_def r_def)
  then have l: "l = rev r @ rev t" by (metis rev_append rev_rev_ident)
  assume "Trim_dash s \<noteq> []"
  with trim have ne: "r \<noteq> []" by simp
  with l have "hd (rev r) = hd l" "l \<noteq> []" by auto
  moreover from \<open>l \<noteq> []\<close> have "hd l \<noteq> CHR ''-''"
    using hd_dropWhile[of "\<lambda>c. c = CHR ''-''" s] by (simp add: l_def)
  moreover from ne have "hd r \<noteq> CHR ''-''"
    using hd_dropWhile[of "\<lambda>c. c = CHR ''-''" "rev l"] by (simp add: r_def)
  ultimately show ?thesis using ne by (simp add: trim last_rev)
qed

lemma set_Trim_dash: "set (Trim_dash s) \<subseteq> set s"
  unfolding Trim_dash_def by (auto dest!: set_dropWhileD)

lemma length_Trim_dash: "length (Trim_dash s) \<le> length s"
  unfolding Trim_dash_def by (metis length_dropWhile_le length_rev order_trans)

lemma Trim_dash_keeps: "s \<noteq> [] \<Longrightarrow> hd s \<noteq> CHR ''-'' \<Longrightarrow> Trim_dash s \<noteq> []"
  by (cases s) (auto simp: Trim_dash_def dropWhile_append)

section \<open>Searching\<close>

definition ContainsAny :: "string \<Rightarrow> string \<Rightarrow> bool" where
  "ContainsAny s chars \<longleftrightarrow> list_ex (\<lambda>c. List.member chars c) s"

text \<open>\<open>strings.LastIndex\<close> for a separator of one byte.\<close>

definition LastIndex :: "string \<Rightarrow> char \<Rightarrow> int" where
  "LastIndex s c = int (length (dropWhile (\<lambda>x. x \<noteq> c) (rev s))) - 1"

lemma ContainsAny_set: "ContainsAny s cs \<longleftrightarrow> (\<exists>c \<in> set cs. c \<in> set s)"
  by (auto simp: ContainsAny_def list_ex_iff)

section \<open>Splitting and joining\<close>

text \<open>\<open>strings.Split\<close> for a separator of one byte; the result is never empty.\<close>

fun Split :: "char \<Rightarrow> string \<Rightarrow> string list" where
  "Split c [] = [[]]"
| "Split c (x # xs) =
     (if x = c then [] # Split c xs
      else (case Split c xs of [] \<Rightarrow> [[x]] | p # ps \<Rightarrow> (x # p) # ps))"

fun Join :: "string list \<Rightarrow> string \<Rightarrow> string" where
  "Join [] sep = []"
| "Join [s] sep = s"
| "Join (s # t # ss) sep = s @ sep @ Join (t # ss) sep"

lemma Split_not_Nil [simp]: "Split c s \<noteq> []"
  by (cases s) (auto split: list.splits)

lemma Split_single: "c \<notin> set s \<Longrightarrow> Split c s = [s]"
  by (induction s) auto

lemma Split_append: "c \<notin> set s \<Longrightarrow> Split c (s @ c # t) = s # Split c t"
  by (induction s) auto

lemma Join_Split: "Join (Split c s) [c] = s"
proof (induction s)
  case (Cons x s)
  obtain p ps where "Split c s = p # ps" by (cases "Split c s") auto
  with Cons show ?case by (cases ps) auto
qed simp

lemma Split_parts: "p \<in> set (Split c s) \<Longrightarrow> set p \<subseteq> set s - {c}"
proof (induction s arbitrary: p)
  case (Cons x s)
  obtain q qs where q: "Split c s = q # qs" by (cases "Split c s") auto
  show ?case
  proof (cases "p \<in> set (Split c s)")
    case True
    then show ?thesis using Cons.IH by fastforce
  next
    case False
    with Cons.prems q have "p = [] \<or> (x \<noteq> c \<and> p = x # q)" by (auto split: if_splits)
    then show ?thesis using Cons.IH[of q] q by auto
  qed
qed simp

end
