(* ===== verification/Kernel_Organization.thy ===== *)
theory Kernel_Organization
  imports Kernel_Types Go_Strings
begin

text \<open>
  Memberships and organizations (\<open>internal/kernel/membership.go\<close>, \<open>organization.go\<close>): the
  membership state machine, slugs, and the organization's operations with the guard that keeps
  at least one active owner. A method that changes its receiver returns the changed value here;
  \<open>Clone\<close> has no counterpart, since values are not shared.
\<close>

section \<open>Memberships\<close>

datatype membership_role = RoleOwner | RoleAdmin | RoleDeveloper | RoleViewer | RoleOther string

fun MembershipRole_Valid :: "membership_role \<Rightarrow> bool" where
  "MembershipRole_Valid RoleOwner \<longleftrightarrow> True"
| "MembershipRole_Valid RoleAdmin \<longleftrightarrow> True"
| "MembershipRole_Valid RoleDeveloper \<longleftrightarrow> True"
| "MembershipRole_Valid RoleViewer \<longleftrightarrow> True"
| "MembershipRole_Valid (RoleOther _) \<longleftrightarrow> False"

datatype membership_state =
    MembershipInvited | MembershipActive | MembershipSuspended | MembershipRemoved
  | MembershipOther string

fun MembershipState_Valid :: "membership_state \<Rightarrow> bool" where
  "MembershipState_Valid (MembershipOther _) \<longleftrightarrow> False"
| "MembershipState_Valid _ \<longleftrightarrow> True"

record membership =
  mb_principal_id :: string
  mb_role :: membership_role
  mb_state :: membership_state
  mb_invited_at :: gotime
  mb_accepted_at :: "gotime option"
  mb_updated_at :: gotime
  mb_version :: int

definition NewOwnerMembership :: "string \<Rightarrow> gotime \<Rightarrow> kerror + membership" where
  "NewOwnerMembership principalID now =
     (if blank principalID then Inl (invalidArgument [''creator principal is required''])
      else Inr \<lparr>mb_principal_id = principalID, mb_role = RoleOwner, mb_state = MembershipActive,
                mb_invited_at = now, mb_accepted_at = Some now, mb_updated_at = now,
                mb_version = 1\<rparr>)"

definition NewInvitation :: "string \<Rightarrow> membership_role \<Rightarrow> gotime \<Rightarrow> kerror + membership" where
  "NewInvitation principalID role now =
     (if blank principalID then Inl (invalidArgument [''invited principal is required''])
      else if \<not> MembershipRole_Valid role
        then Inl (invalidArgument [''invalid membership role %q''])
      else Inr \<lparr>mb_principal_id = principalID, mb_role = role, mb_state = MembershipInvited,
                mb_invited_at = now, mb_accepted_at = None, mb_updated_at = now,
                mb_version = 1\<rparr>)"

definition Membership_Accept :: "gotime \<Rightarrow> membership \<Rightarrow> kerror + membership" where
  "Membership_Accept now m =
     (if mb_state m \<noteq> MembershipInvited
      then Inl (conflict [''membership cannot be accepted from %s''])
      else Inr (m\<lparr>mb_state := MembershipActive, mb_accepted_at := Some now,
                  mb_updated_at := now, mb_version := mb_version m + 1\<rparr>))"

definition Membership_ChangeRole ::
  "membership_role \<Rightarrow> gotime \<Rightarrow> membership \<Rightarrow> kerror + membership" where
  "Membership_ChangeRole role now m =
     (if \<not> MembershipRole_Valid role then Inl (invalidArgument [''invalid membership role %q''])
      else if mb_state m \<noteq> MembershipActive
        then Inl (conflict [''only active membership role can be changed''])
      else if mb_role m = role then Inr m
      else Inr (m\<lparr>mb_role := role, mb_updated_at := now, mb_version := mb_version m + 1\<rparr>))"

definition Membership_Suspend :: "gotime \<Rightarrow> membership \<Rightarrow> kerror + membership" where
  "Membership_Suspend now m =
     (if mb_state m = MembershipSuspended then Inr m
      else if mb_state m \<noteq> MembershipActive
        then Inl (conflict [''membership cannot be suspended from %s''])
      else Inr (m\<lparr>mb_state := MembershipSuspended, mb_updated_at := now,
                  mb_version := mb_version m + 1\<rparr>))"

definition Membership_Remove :: "gotime \<Rightarrow> membership \<Rightarrow> kerror + membership" where
  "Membership_Remove now m =
     (if mb_state m = MembershipRemoved then Inr m
      else case mb_state m of
        MembershipOther _ \<Rightarrow> Inl (conflict [''membership cannot be removed from %s''])
      | _ \<Rightarrow> Inr (m\<lparr>mb_state := MembershipRemoved, mb_updated_at := now,
                    mb_version := mb_version m + 1\<rparr>))"

lemmas membership_defs =
  NewOwnerMembership_def NewInvitation_def Membership_Accept_def Membership_ChangeRole_def
  Membership_Suspend_def Membership_Remove_def

section \<open>Slugs\<close>

text \<open>
  \<open>NormalizeSlug\<close>: the loop writes letters and digits, and one dash for each run of other
  runes that follows something written; \<open>Trim\<close> then removes dashes at both ends.
\<close>

fun slug_loop :: "unicode \<Rightarrow> nat list \<Rightarrow> string \<Rightarrow> bool \<Rightarrow> string" where
  "slug_loop u [] b dash = b"
| "slug_loop u (r # rs) b dash =
     (if rune_letter u r \<or> rune_digit u r then slug_loop u rs (b @ encode_rune r) False
      else if b \<noteq> [] \<and> \<not> dash then slug_loop u rs (b @ ''-'') True
      else slug_loop u rs b dash)"

definition NormalizeSlug :: "unicode \<Rightarrow> string \<Rightarrow> string" where
  "NormalizeSlug u input = Trim_dash (slug_loop u (runes (ToLower u (TrimSpace input))) [] False)"

section \<open>Organizations\<close>

record organization =
  org_id :: string
  org_name :: string
  org_slug :: string
  org_memberships :: "(string \<times> membership) list"
  org_version :: int
  org_created_at :: gotime
  org_updated_at :: gotime

definition NewOrganization ::
  "unicode \<Rightarrow> string \<Rightarrow> string \<Rightarrow> string \<Rightarrow> gotime \<Rightarrow> kerror + organization" where
  "NewOrganization u oid name creator now =
     (if blank oid then Inl (invalidArgument [''organization id is required''])
      else let normalizedName = TrimSpace name in
      if normalizedName = [] then Inl (invalidArgument [''organization name is required''])
      else let slug = NormalizeSlug u normalizedName in
      if slug = []
        then Inl (invalidArgument [''organization name does not produce a valid slug''])
      else case NewOwnerMembership creator now of
        Inl e \<Rightarrow> Inl e
      | Inr owner \<Rightarrow>
          Inr \<lparr>org_id = oid, org_name = normalizedName, org_slug = slug,
               org_memberships = [(creator, owner)], org_version = 1,
               org_created_at = now, org_updated_at = now\<rparr>)"

definition touch :: "gotime \<Rightarrow> organization \<Rightarrow> organization" where
  "touch now org = org\<lparr>org_version := org_version org + 1, org_updated_at := now\<rparr>"

definition set_membership :: "string \<Rightarrow> membership \<Rightarrow> organization \<Rightarrow> organization" where
  "set_membership pid m org = org\<lparr>org_memberships := AList.update pid m (org_memberships org)\<rparr>"

definition is_active_owner :: "membership \<Rightarrow> bool" where
  "is_active_owner m \<longleftrightarrow> mb_state m = MembershipActive \<and> mb_role m = RoleOwner"

definition activeOwnerCount :: "organization \<Rightarrow> nat" where
  "activeOwnerCount org = length (filter (\<lambda>e. is_active_owner (snd e)) (org_memberships org))"

definition lastOwnerError :: kerror where
  "lastOwnerError =
     NewError CodeLastOwner [''organization must retain at least one active owner'']"

definition Invite ::
  "string \<Rightarrow> membership_role \<Rightarrow> gotime \<Rightarrow> organization \<Rightarrow> kerror + organization" where
  "Invite principalID role now org =
     (let existing = map_of (org_memberships org) principalID in
      if (case existing of None \<Rightarrow> False | Some m \<Rightarrow> mb_state m \<noteq> MembershipRemoved)
      then Inl (conflict [''principal already has a membership''])
      else case NewInvitation principalID role now of
        Inl e \<Rightarrow> Inl e
      | Inr invitation \<Rightarrow> Inr (touch now (set_membership principalID invitation org)))"

definition AcceptInvitation :: "string \<Rightarrow> gotime \<Rightarrow> organization \<Rightarrow> kerror + organization" where
  "AcceptInvitation principalID now org =
     (case map_of (org_memberships org) principalID of
        None \<Rightarrow> Inl (notFound ''membership invitation'')
      | Some m \<Rightarrow>
          (case Membership_Accept now m of
             Inl e \<Rightarrow> Inl e
           | Inr m' \<Rightarrow> Inr (touch now (set_membership principalID m' org))))"

text \<open>\<open>if membership.Version != before { o.touch(now) }\<close>, as three operations do.\<close>

definition store_member ::
  "string \<Rightarrow> membership \<Rightarrow> membership \<Rightarrow> gotime \<Rightarrow> organization \<Rightarrow> organization" where
  "store_member principalID before m now org =
     (if mb_version m \<noteq> mb_version before then touch now (set_membership principalID m org)
      else set_membership principalID m org)"

definition ChangeMemberRole ::
  "string \<Rightarrow> membership_role \<Rightarrow> gotime \<Rightarrow> organization \<Rightarrow> kerror + organization" where
  "ChangeMemberRole principalID role now org =
     (case map_of (org_memberships org) principalID of
        None \<Rightarrow> Inl (notFound ''membership'')
      | Some m \<Rightarrow>
          if mb_role m = RoleOwner \<and> role \<noteq> RoleOwner \<and> mb_state m = MembershipActive \<and>
             activeOwnerCount org \<le> 1
          then Inl lastOwnerError
          else (case Membership_ChangeRole role now m of
             Inl e \<Rightarrow> Inl e
           | Inr m' \<Rightarrow> Inr (store_member principalID m m' now org)))"

definition SuspendMember :: "string \<Rightarrow> gotime \<Rightarrow> organization \<Rightarrow> kerror + organization" where
  "SuspendMember principalID now org =
     (case map_of (org_memberships org) principalID of
        None \<Rightarrow> Inl (notFound ''membership'')
      | Some m \<Rightarrow>
          if mb_role m = RoleOwner \<and> mb_state m = MembershipActive \<and> activeOwnerCount org \<le> 1
          then Inl lastOwnerError
          else (case Membership_Suspend now m of
             Inl e \<Rightarrow> Inl e
           | Inr m' \<Rightarrow> Inr (store_member principalID m m' now org)))"

definition RemoveMember :: "string \<Rightarrow> gotime \<Rightarrow> organization \<Rightarrow> kerror + organization" where
  "RemoveMember principalID now org =
     (case map_of (org_memberships org) principalID of
        None \<Rightarrow> Inl (notFound ''membership'')
      | Some m \<Rightarrow>
          if mb_role m = RoleOwner \<and> mb_state m = MembershipActive \<and> activeOwnerCount org \<le> 1
          then Inl lastOwnerError
          else (case Membership_Remove now m of
             Inl e \<Rightarrow> Inl e
           | Inr m' \<Rightarrow> Inr (store_member principalID m m' now org)))"

lemmas org_op_defs =
  Invite_def AcceptInvitation_def ChangeMemberRole_def SuspendMember_def RemoveMember_def

section \<open>Slugs have the form the index relies on\<close>

abbreviation no_double_dash :: "string \<Rightarrow> bool" where
  "no_double_dash \<equiv> successively (\<lambda>x y. \<not> (x = CHR ''-'' \<and> y = CHR ''-''))"

lemma char_of_dash: "n < 256 \<Longrightarrow> char_of n = CHR ''-'' \<longleftrightarrow> n = 45"
  for n :: nat
  by (simp add: char_of_eq_iff take_bit_eq_mod)

lemma encode_rune_no_dash:
  assumes "rune_letter u r \<or> rune_digit u r"
  shows "CHR ''-'' \<notin> set (encode_rune r)" and "encode_rune r \<noteq> []"
proof -
  have ascii: "r < 0x80 \<Longrightarrow> r \<noteq> 45"
    using assms by (auto simp: rune_letter_def rune_digit_def)
  define q where "q = (if r > 0x10FFFF \<or> (0xD800 \<le> r \<and> r \<le> 0xDFFF) then 0xFFFD else r)"
  have q: "q \<le> 0x10FFFF" "q < 0x80 \<Longrightarrow> q \<noteq> 45" using ascii by (auto simp: q_def)
  have rw: "encode_rune r = map char_of
      (if q < 0x80 then [q]
       else if q < 0x800 then [0xC0 + q div 64, 0x80 + q mod 64]
       else if q < 0x10000 then [0xE0 + q div 4096, 0x80 + q div 64 mod 64, 0x80 + q mod 64]
       else [0xF0 + q div 262144, 0x80 + q div 4096 mod 64, 0x80 + q div 64 mod 64,
             0x80 + q mod 64])"
    by (simp add: encode_rune_def q_def Let_def)
  have m: "0x80 + x mod 64 < 256" for x :: nat
    using mod_less_divisor[of 64 x] by linarith
  have d: "q < 0x800 \<Longrightarrow> 0xC0 + q div 64 < 256" "q < 0x10000 \<Longrightarrow> 0xE0 + q div 4096 < 256"
    "0xF0 + q div 262144 < 256" using q(1) by linarith+
  show "CHR ''-'' \<notin> set (encode_rune r)"
    unfolding rw using q m d by (auto simp: char_of_dash dest!: sym[of "CHR ''-''"])
  show "encode_rune r \<noteq> []" unfolding rw by simp
qed

lemma successively_no_dash: "CHR ''-'' \<notin> set xs \<Longrightarrow> no_double_dash xs"
  by (induction xs rule: induct_list012) auto

text \<open>The loop: nothing starts with a dash, dashes stand alone, and the flag marks a last dash.\<close>

definition slug_state :: "string \<Rightarrow> bool \<Rightarrow> bool" where
  "slug_state b dash \<longleftrightarrow>
     no_double_dash b \<and> (b \<noteq> [] \<longrightarrow> hd b \<noteq> CHR ''-'' \<and> (dash \<longleftrightarrow> last b = CHR ''-''))"

lemma slug_loop_state:
  "slug_state b dash \<Longrightarrow> \<exists>dash'. slug_state (slug_loop u rs b dash) dash'"
proof (induction u rs b dash rule: slug_loop.induct)
  case (1 u b dash)
  then show ?case by auto
next
  case (2 u r rs b dash)
  show ?case
  proof (cases "rune_letter u r \<or> rune_digit u r")
    case True
    note e = encode_rune_no_dash[OF this]
    have "hd (encode_rune r) \<noteq> CHR ''-''" "last (encode_rune r) \<noteq> CHR ''-''"
      using e by (metis hd_in_set, metis last_in_set)
    then have "slug_state (b @ encode_rune r) False"
      using "2.prems" e successively_no_dash[OF e(1)]
      by (auto simp: slug_state_def successively_append_iff hd_append)
    with True "2.IH"(1) show ?thesis by simp
  next
    case False
    show ?thesis
    proof (cases "b \<noteq> [] \<and> \<not> dash")
      case True
      with "2.prems" have "slug_state (b @ ''-'') True"
        by (auto simp: slug_state_def successively_append_iff hd_append)
      with True False "2.IH"(2) show ?thesis by simp
    next
      case False
      with \<open>\<not> (rune_letter u r \<or> rune_digit u r)\<close> "2.IH"(3) "2.prems" show ?thesis by auto
    qed
  qed
qed

lemma successively_dropWhile: "successively P xs \<Longrightarrow> successively P (dropWhile Q xs)"
  by (metis successively_append_iff takeWhile_dropWhile_id)

lemma no_double_dash_rev: "no_double_dash (rev s) = no_double_dash s"
proof -
  have "(\<lambda>x y. \<not> (y = CHR ''-'' \<and> x = CHR ''-'')) = (\<lambda>x y. \<not> (x = CHR ''-'' \<and> y = CHR ''-''))"
    by (intro ext) blast
  then show ?thesis by (simp only: successively_rev)
qed

lemma Trim_dash_no_double: "no_double_dash s \<Longrightarrow> no_double_dash (Trim_dash s)"
  unfolding Trim_dash_def by (simp only: no_double_dash_rev successively_dropWhile)

text \<open>
  A slug is in canonical form whatever the name: it neither starts nor ends with a dash, and
  it has no two dashes in a row.
\<close>
lemma slug_is_canonical:
  "no_double_dash (NormalizeSlug u name) \<and>
   (NormalizeSlug u name \<noteq> [] \<longrightarrow>
      hd (NormalizeSlug u name) \<noteq> CHR ''-'' \<and> last (NormalizeSlug u name) \<noteq> CHR ''-'')"
proof -
  have "slug_state [] False" by (simp add: slug_state_def)
  from slug_loop_state[OF this] have "no_double_dash (slug_loop u rs [] False)" for rs
    by (auto simp: slug_state_def)
  then have "no_double_dash (NormalizeSlug u name)"
    unfolding NormalizeSlug_def by (rule Trim_dash_no_double)
  moreover have "NormalizeSlug u name \<noteq> [] \<Longrightarrow>
      hd (NormalizeSlug u name) \<noteq> CHR ''-'' \<and> last (NormalizeSlug u name) \<noteq> CHR ''-''"
    unfolding NormalizeSlug_def by (rule Trim_dash_ends)
  ultimately show ?thesis by blast
qed

section \<open>Invariant of an organization\<close>

definition member_inv :: "string \<Rightarrow> membership \<Rightarrow> bool" where
  "member_inv pid m \<longleftrightarrow>
     mb_principal_id m = pid \<and> \<not> blank pid \<and> 1 \<le> mb_version m \<and>
     MembershipRole_Valid (mb_role m) \<and> MembershipState_Valid (mb_state m) \<and>
     (mb_state m = MembershipInvited \<longrightarrow> mb_accepted_at m = None) \<and>
     (mb_state m \<in> {MembershipActive, MembershipSuspended} \<longrightarrow> mb_accepted_at m \<noteq> None)"

definition org_inv :: "organization \<Rightarrow> bool" where
  "org_inv org \<longleftrightarrow>
     wf_map (org_memberships org) \<and>
     (\<forall>pid m. map_of (org_memberships org) pid = Some m \<longrightarrow> member_inv pid m) \<and>
     1 \<le> activeOwnerCount org \<and> 1 \<le> org_version org"

lemma org_inv_member: "org_inv org \<Longrightarrow> map_of (org_memberships org) p = Some m \<Longrightarrow> member_inv p m"
  by (simp add: org_inv_def)

lemma member_inv_new:
  "NewOwnerMembership p now = Inr m \<Longrightarrow> member_inv p m \<and> is_active_owner m"
  "NewInvitation p role now = Inr m \<Longrightarrow>
     member_inv p m \<and> mb_state m = MembershipInvited \<and> mb_role m = role"
  by (auto simp: membership_defs member_inv_def is_active_owner_def split: if_splits)

lemma member_inv_steps:
  assumes "member_inv p m"
  shows "Membership_Accept now m = Inr m' \<Longrightarrow>
           member_inv p m' \<and> mb_state m = MembershipInvited \<and> mb_role m' = mb_role m"
    and "Membership_ChangeRole role now m = Inr m' \<Longrightarrow>
           member_inv p m' \<and> mb_state m' = mb_state m \<and> mb_role m' = role"
    and "Membership_Suspend now m = Inr m' \<Longrightarrow>
           member_inv p m' \<and> mb_state m' = MembershipSuspended"
    and "Membership_Remove now m = Inr m' \<Longrightarrow>
           member_inv p m' \<and> mb_state m' = MembershipRemoved"
  using assms
  by (auto simp: membership_defs member_inv_def split: if_splits membership_state.splits)

lemma member_version_step:
  "Membership_ChangeRole role now m = Inr m' \<Longrightarrow> m' = m \<or> mb_version m' = mb_version m + 1"
  "Membership_Suspend now m = Inr m' \<Longrightarrow> m' = m \<or> mb_version m' = mb_version m + 1"
  "Membership_Remove now m = Inr m' \<Longrightarrow> m' = m \<or> mb_version m' = mb_version m + 1"
  by (auto simp: membership_defs split: if_splits membership_state.splits)

lemma activeOwnerCount_touch [simp]: "activeOwnerCount (touch now org) = activeOwnerCount org"
  by (simp add: touch_def activeOwnerCount_def)

lemma org_memberships_touch [simp]: "org_memberships (touch now org) = org_memberships org"
  by (simp add: touch_def)

lemma org_memberships_set [simp]:
  "org_memberships (set_membership p m org) = AList.update p m (org_memberships org)"
  by (simp add: set_membership_def)

lemma org_version_simps [simp]:
  "org_version (touch now org) = org_version org + 1"
  "org_version (set_membership p m org) = org_version org"
  by (simp_all add: touch_def set_membership_def)

lemma activeOwnerCount_set:
  assumes "org_inv org" and "map_of (org_memberships org) p = Some m"
  shows "int (activeOwnerCount (set_membership p m' org)) =
         int (activeOwnerCount org) - of_bool (is_active_owner m) + of_bool (is_active_owner m')"
  using count_update[of "org_memberships org" p m is_active_owner m'] assms
  by (simp add: activeOwnerCount_def org_inv_def)

lemma org_inv_set:
  assumes "org_inv org" and "map_of (org_memberships org) p = Some m" and "member_inv p m'"
    and "is_active_owner m \<Longrightarrow> is_active_owner m' \<or> 1 < activeOwnerCount org"
  shows "org_inv (set_membership p m' org)"
proof -
  have "1 \<le> activeOwnerCount (set_membership p m' org)"
    using activeOwnerCount_set[OF assms(1,2), of m'] assms(1,4)
    by (cases "is_active_owner m"; cases "is_active_owner m'") (auto simp: org_inv_def)
  with assms(1,3) show ?thesis by (auto simp: org_inv_def)
qed

lemma org_inv_touch [simp]: "org_inv org \<Longrightarrow> org_inv (touch now org)"
  by (simp add: org_inv_def)

lemma org_inv_store_member:
  assumes "org_inv org" and "map_of (org_memberships org) p = Some m" and "member_inv p m'"
    and "is_active_owner m \<Longrightarrow> is_active_owner m' \<or> 1 < activeOwnerCount org"
  shows "org_inv (store_member p m m' now org)"
  using org_inv_set[OF assms] by (simp add: store_member_def)

lemma org_inv_new:
  assumes "NewOrganization u oid name creator now = Inr org"
  shows "org_inv org"
  using assms member_inv_new(1)[of creator now]
  by (auto simp: NewOrganization_def Let_def org_inv_def activeOwnerCount_def
      split: if_splits sum.splits)

lemma org_inv_Invite:
  assumes "org_inv org" and "Invite p role now org = Inr org'"
  shows "org_inv org'"
proof -
  obtain i where i: "NewInvitation p role now = Inr i"
    and org': "org' = touch now (set_membership p i org)"
    using assms(2) by (auto simp: Invite_def Let_def split: if_splits sum.splits)
  note inv_i = member_inv_new(2)[OF i]
  show ?thesis
  proof (cases "map_of (org_memberships org) p")
    case None
    then have "activeOwnerCount (set_membership p i org) =
               activeOwnerCount org + of_bool (is_active_owner i)"
      using count_insert_new[of "org_memberships org" p is_active_owner i]
      by (simp add: activeOwnerCount_def)
    with assms(1) inv_i have "org_inv (set_membership p i org)"
      by (auto simp: org_inv_def)
    with org' show ?thesis by simp
  next
    case (Some m)
    with assms(2) have "mb_state m = MembershipRemoved"
      by (auto simp: Invite_def Let_def split: if_splits)
    with org_inv_set[OF assms(1) Some] inv_i org' show ?thesis
      by (simp add: is_active_owner_def)
  qed
qed

lemma org_inv_Accept:
  assumes "org_inv org" and "AcceptInvitation p now org = Inr org'"
  shows "org_inv org'"
proof -
  obtain m m' where m: "map_of (org_memberships org) p = Some m"
    and m': "Membership_Accept now m = Inr m'" and org': "org' = touch now (set_membership p m' org)"
    using assms(2) by (auto simp: AcceptInvitation_def split: option.splits sum.splits)
  from member_inv_steps(1)[OF org_inv_member[OF assms(1) m] m'] org_inv_set[OF assms(1) m] org'
  show ?thesis by (simp add: is_active_owner_def)
qed

lemma org_inv_ChangeMemberRole:
  assumes "org_inv org" and "ChangeMemberRole p role now org = Inr org'"
  shows "org_inv org'"
proof -
  obtain m m' where m: "map_of (org_memberships org) p = Some m"
    and g: "\<not> (is_active_owner m \<and> role \<noteq> RoleOwner \<and> activeOwnerCount org \<le> 1)"
    and m': "Membership_ChangeRole role now m = Inr m'" and org': "org' = store_member p m m' now org"
    using assms(2)
    by (auto simp: ChangeMemberRole_def is_active_owner_def split: option.splits sum.splits if_splits)
  from member_inv_steps(2)[OF org_inv_member[OF assms(1) m] m'] g
    org_inv_store_member[OF assms(1) m, of m' now] org'
  show ?thesis by (auto simp: is_active_owner_def)
qed

lemma org_inv_SuspendMember:
  assumes "org_inv org" and "SuspendMember p now org = Inr org'"
  shows "org_inv org'"
proof -
  obtain m m' where m: "map_of (org_memberships org) p = Some m"
    and g: "\<not> (is_active_owner m \<and> activeOwnerCount org \<le> 1)"
    and m': "Membership_Suspend now m = Inr m'" and org': "org' = store_member p m m' now org"
    using assms(2)
    by (auto simp: SuspendMember_def is_active_owner_def split: option.splits sum.splits if_splits)
  from member_inv_steps(3)[OF org_inv_member[OF assms(1) m] m'] g
    org_inv_store_member[OF assms(1) m, of m' now] org'
  show ?thesis by auto
qed

lemma org_inv_RemoveMember:
  assumes "org_inv org" and "RemoveMember p now org = Inr org'"
  shows "org_inv org'"
proof -
  obtain m m' where m: "map_of (org_memberships org) p = Some m"
    and g: "\<not> (is_active_owner m \<and> activeOwnerCount org \<le> 1)"
    and m': "Membership_Remove now m = Inr m'" and org': "org' = store_member p m m' now org"
    using assms(2)
    by (auto simp: RemoveMember_def is_active_owner_def split: option.splits sum.splits if_splits)
  from member_inv_steps(4)[OF org_inv_member[OF assms(1) m] m'] g
    org_inv_store_member[OF assms(1) m, of m' now] org'
  show ?thesis by auto
qed

section \<open>The organization as a state machine\<close>

datatype org_op =
    OpInvite string membership_role
  | OpAccept string
  | OpChangeRole string membership_role
  | OpSuspend string
  | OpRemove string

fun org_apply :: "org_op \<Rightarrow> gotime \<Rightarrow> organization \<Rightarrow> kerror + organization" where
  "org_apply (OpInvite p role) now org = Invite p role now org"
| "org_apply (OpAccept p) now org = AcceptInvitation p now org"
| "org_apply (OpChangeRole p role) now org = ChangeMemberRole p role now org"
| "org_apply (OpSuspend p) now org = SuspendMember p now org"
| "org_apply (OpRemove p) now org = RemoveMember p now org"

inductive org_step :: "organization \<Rightarrow> organization \<Rightarrow> bool" where
  org_op: "org_apply op now org = Inr org' \<Longrightarrow> org_step org org'"

inductive_cases org_stepE: "org_step org org'"

lemma org_apply_inv: "org_inv org \<Longrightarrow> org_apply op now org = Inr org' \<Longrightarrow> org_inv org'"
  by (cases op)
    (auto intro: org_inv_Invite org_inv_Accept org_inv_ChangeMemberRole org_inv_SuspendMember
      org_inv_RemoveMember)

lemma set_membership_same: "map_of (org_memberships org) p = Some m \<Longrightarrow> wf_map (org_memberships org) \<Longrightarrow>
   set_membership p m org = org"
proof -
  have "map_of al p = Some m \<Longrightarrow> AList.update p m al = al" for al :: "(string \<times> membership) list"
    by (induction al) (auto split: if_splits)
  then show "map_of (org_memberships org) p = Some m \<Longrightarrow> set_membership p m org = org"
    by (simp add: set_membership_def)
qed

lemma store_member_version:
  "map_of (org_memberships org) p = Some m \<Longrightarrow> wf_map (org_memberships org) \<Longrightarrow>
   m' = m \<or> mb_version m' = mb_version m + 1 \<Longrightarrow>
   store_member p m m' now org = org \<or>
   org_version (store_member p m m' now org) = org_version org + 1"
  by (auto simp: store_member_def set_membership_same)

lemma org_apply_version:
  assumes "org_inv org" and "org_apply op now org = Inr org'"
  shows "org' = org \<or> org_version org' = org_version org + 1"
proof -
  have wf: "wf_map (org_memberships org)" using assms(1) by (simp add: org_inv_def)
  note sv = store_member_version[OF _ wf]
  show ?thesis
  proof (cases op)
    case (OpInvite p role)
    with assms(2) show ?thesis
      by (auto simp: Invite_def Let_def split: if_splits sum.splits)
  next
    case (OpAccept p)
    with assms(2) show ?thesis
      by (auto simp: AcceptInvitation_def split: option.splits sum.splits)
  next
    case (OpChangeRole p role)
    with assms(2) show ?thesis
      by (auto simp: ChangeMemberRole_def split: option.splits sum.splits if_splits
          dest: sv[OF _ member_version_step(1)])
  next
    case (OpSuspend p)
    with assms(2) show ?thesis
      by (auto simp: SuspendMember_def split: option.splits sum.splits if_splits
          dest: sv[OF _ member_version_step(2)])
  next
    case (OpRemove p)
    with assms(2) show ?thesis
      by (auto simp: RemoveMember_def split: option.splits sum.splits if_splits
          dest: sv[OF _ member_version_step(3)])
  qed
qed

definition org_created :: "organization \<Rightarrow> bool" where
  "org_created org \<longleftrightarrow> (\<exists>u oid name creator now. NewOrganization u oid name creator now = Inr org)"

interpretation org_machine: versioned_machine org_created org_step org_inv org_version "\<lambda>_. False"
proof
  show "org_inv org" if "org_created org" for org
    using that by (auto simp: org_created_def intro: org_inv_new)
  show "org_inv org'" if "org_inv org" and "org_step org org'" for org org'
    using that(2,1) by cases (rule org_apply_inv)
  show "org' = org \<or> org_version org' = org_version org + 1"
    if "org_inv org" and "org_step org org'" for org org'
    using that(2,1) by cases (rule org_apply_version)
qed simp

lemma active_owner_exists:
  "1 \<le> activeOwnerCount org \<Longrightarrow> wf_map (org_memberships org) \<Longrightarrow>
   \<exists>p m. map_of (org_memberships org) p = Some m \<and> is_active_owner m"
proof -
  assume "1 \<le> activeOwnerCount org" and wf: "wf_map (org_memberships org)"
  then have "filter (\<lambda>e. is_active_owner (snd e)) (org_memberships org) \<noteq> []"
    by (auto simp: activeOwnerCount_def)
  then obtain e where "e \<in> set (org_memberships org)" "is_active_owner (snd e)"
    by (auto simp: filter_empty_conv)
  then show ?thesis using wf
    by (intro exI[of _ "fst e"] exI[of _ "snd e"]) (auto intro: map_of_is_SomeI)
qed

text \<open>
  C34. Whatever sequence of invitations, acceptances, role changes, suspensions and removals is
  applied to a new organization, one of its members is an active owner.
\<close>
theorem org_always_has_active_owner:
  assumes "NewOrganization u oid name creator now = Inr org" and "org_step\<^sup>*\<^sup>* org org'"
  shows "\<exists>p m. map_of (org_memberships org') p = Some m \<and> is_active_owner m"
proof -
  have "org_created org" using assms(1) unfolding org_created_def by blast
  then have "org_inv org'" using assms(2) by (rule org_machine.reachable_inv)
  then show ?thesis by (intro active_owner_exists) (auto simp: org_inv_def)
qed

lemma sole_owner_iff:
  assumes "wf_map ms" and "map_of ms p = Some m" and "P m"
  shows "length (filter (\<lambda>e. P (snd e)) ms) \<le> 1 \<longleftrightarrow>
         (\<forall>q m'. map_of ms q = Some m' \<and> P m' \<longrightarrow> q = p)"
proof -
  let ?f = "filter (\<lambda>e. P (snd e)) ms"
  have d: "distinct (map fst ?f)" using assms(1) by (rule distinct_map_filter)
  have mem: "(q, m') \<in> set ?f \<longleftrightarrow> map_of ms q = Some m' \<and> P m'" for q m'
    using assms(1) by auto
  have pin: "(p, m) \<in> set ?f" using assms mem by blast
  show ?thesis
  proof
    assume "length ?f \<le> 1"
    with pin have "?f = [(p, m)]" by (cases ?f) auto
    then show "\<forall>q m'. map_of ms q = Some m' \<and> P m' \<longrightarrow> q = p"
      unfolding mem[symmetric] by auto
  next
    assume u: "\<forall>q m'. map_of ms q = Some m' \<and> P m' \<longrightarrow> q = p"
    have "set (map fst ?f) \<subseteq> {p}" using u mem by fastforce
    then have "card (set (map fst ?f)) \<le> card {p}" by (intro card_mono) auto
    with distinct_card[OF d] show "length ?f \<le> 1" by simp
  qed
qed

definition sole_active_owner :: "organization \<Rightarrow> string \<Rightarrow> bool" where
  "sole_active_owner org p \<longleftrightarrow>
     (\<exists>m. map_of (org_memberships org) p = Some m \<and> is_active_owner m) \<and>
     (\<forall>q m. map_of (org_memberships org) q = Some m \<and> is_active_owner m \<longrightarrow> q = p)"

lemma count_le_1_iff:
  "org_inv org \<Longrightarrow> map_of (org_memberships org) p = Some m \<Longrightarrow>
   is_active_owner m \<and> activeOwnerCount org \<le> 1 \<longleftrightarrow> sole_active_owner org p"
  using sole_owner_iff[of "org_memberships org" p m is_active_owner]
  by (auto simp: activeOwnerCount_def sole_active_owner_def org_inv_def)

lemma sole_active_owner_member:
  "sole_active_owner org p \<Longrightarrow> \<exists>m. map_of (org_memberships org) p = Some m"
  by (auto simp: sole_active_owner_def)

lemma not_last_owner_error:
  "notFound r \<noteq> lastOwnerError" "conflict c \<noteq> lastOwnerError" "invalidArgument c \<noteq> lastOwnerError"
  by (auto simp: lastOwnerError_def error_defs)

text \<open>
  The last-owner error is returned exactly when the operation would leave the organization
  without an active owner: for removal, suspension and demotion of its only active owner, and
  for nobody else.
\<close>
lemma last_owner_error_iff:
  assumes "org_inv org"
  shows "(RemoveMember p now org = Inl lastOwnerError \<longleftrightarrow> sole_active_owner org p) \<and>
         (SuspendMember p now org = Inl lastOwnerError \<longleftrightarrow> sole_active_owner org p) \<and>
         (ChangeMemberRole p role now org = Inl lastOwnerError \<longleftrightarrow>
            sole_active_owner org p \<and> role \<noteq> RoleOwner)"
proof (intro conjI)
  have sub: "Membership_Remove now m \<noteq> Inl lastOwnerError"
    "Membership_Suspend now m \<noteq> Inl lastOwnerError"
    "Membership_ChangeRole role now m \<noteq> Inl lastOwnerError" for m
    by (auto simp: membership_defs not_last_owner_error split: membership_state.splits)
  show "RemoveMember p now org = Inl lastOwnerError \<longleftrightarrow> sole_active_owner org p"
  proof (cases "map_of (org_memberships org) p")
    case None
    then show ?thesis by (auto simp: RemoveMember_def sole_active_owner_def not_last_owner_error)
  next
    case (Some m)
    with sub(1) show ?thesis
      by (auto simp: RemoveMember_def is_active_owner_def split: sum.split
          simp flip: count_le_1_iff[OF assms Some])
  qed
  show "SuspendMember p now org = Inl lastOwnerError \<longleftrightarrow> sole_active_owner org p"
  proof (cases "map_of (org_memberships org) p")
    case None
    then show ?thesis by (auto simp: SuspendMember_def sole_active_owner_def not_last_owner_error)
  next
    case (Some m)
    with sub(2) show ?thesis
      by (auto simp: SuspendMember_def is_active_owner_def split: sum.split
          simp flip: count_le_1_iff[OF assms Some])
  qed
  show "ChangeMemberRole p role now org = Inl lastOwnerError \<longleftrightarrow> sole_active_owner org p \<and> role \<noteq> RoleOwner"
  proof (cases "map_of (org_memberships org) p")
    case None
    then show ?thesis by (auto simp: ChangeMemberRole_def sole_active_owner_def not_last_owner_error)
  next
    case (Some m)
    with sub(3) show ?thesis
      by (auto simp: ChangeMemberRole_def is_active_owner_def split: sum.split
          simp flip: count_le_1_iff[OF assms Some])
  qed
qed

text \<open>
  A principal becomes an active member only by accepting: if it is active after an operation
  and was not before, the operation was its own acceptance, and it held an open invitation with
  the role it now has.
\<close>
lemma activation_needs_acceptance:
  assumes "org_apply op now org = Inr org'"
    and "map_of (org_memberships org') p = Some m'" and "mb_state m' = MembershipActive"
    and "\<not> (\<exists>m. map_of (org_memberships org) p = Some m \<and> mb_state m = MembershipActive)"
  shows "op = OpAccept p \<and>
         (\<exists>m. map_of (org_memberships org) p = Some m \<and> mb_state m = MembershipInvited \<and>
              mb_role m' = mb_role m)"
  using assms
  by (cases op)
    (auto simp: org_op_defs membership_defs store_member_def Let_def
      split: if_splits option.splits sum.splits membership_state.splits)

section \<open>A concrete organization\<close>

definition acme :: organization where
  "acme = \<lparr>org_id = ''org_1'', org_name = ''Acme'', org_slug = ''acme'',
           org_memberships = [(''alice'', \<lparr>mb_principal_id = ''alice'', mb_role = RoleOwner,
             mb_state = MembershipActive, mb_invited_at = 5, mb_accepted_at = Some 5,
             mb_updated_at = 5, mb_version = 1\<rparr>)],
           org_version = 1, org_created_at = 5, org_updated_at = 5\<rparr>"

text \<open>The same organization after \<open>bob\<close> was invited, and after \<open>bob\<close> accepted.\<close>

definition acme_invited :: organization where
  "acme_invited = acme\<lparr>org_memberships := org_memberships acme @ [(''bob'',
     \<lparr>mb_principal_id = ''bob'', mb_role = RoleAdmin, mb_state = MembershipInvited,
      mb_invited_at = 6, mb_accepted_at = None, mb_updated_at = 6, mb_version = 1\<rparr>)],
     org_version := 2, org_updated_at := 6\<rparr>"

definition acme_joined :: organization where
  "acme_joined = acme\<lparr>org_memberships := org_memberships acme @ [(''bob'',
     \<lparr>mb_principal_id = ''bob'', mb_role = RoleAdmin, mb_state = MembershipActive,
      mb_invited_at = 6, mb_accepted_at = Some 7, mb_updated_at = 7, mb_version = 2\<rparr>)],
     org_version := 3, org_updated_at := 7\<rparr>"

lemma acme_new: "NewOrganization ascii_tables ''org_1'' ''Acme'' ''alice'' 5 = Inr acme"
proof -
  have t: "TrimSpace ''org_1'' = ''org_1''" "TrimSpace ''Acme'' = ''Acme''"
    "TrimSpace ''alice'' = ''alice''"
    by code_simp+
  have "ToLower ascii_tables ''Acme'' = ''acme''"
    by (simp add: ToLower_def runes_def rune_lower_def encode_rune_def char_of_eq_iff)
  then have "NormalizeSlug ascii_tables ''Acme'' = ''acme''"
    by (simp add: NormalizeSlug_def t runes_def rune_letter_def encode_rune_def char_of_eq_iff
        Trim_dash_def)
  then show ?thesis
    by (simp add: NewOrganization_def t Let_def NewOwnerMembership_def acme_def)
qed

lemma acme_runs:
  "Invite ''bob'' RoleAdmin 6 acme = Inr acme_invited"
  "AcceptInvitation ''bob'' 7 acme_invited = Inr acme_joined"
proof -
  have "TrimSpace ''bob'' = ''bob''" by code_simp
  then show "Invite ''bob'' RoleAdmin 6 acme = Inr acme_invited"
    by (simp add: Invite_def NewInvitation_def acme_def acme_invited_def touch_def set_membership_def)
  show "AcceptInvitation ''bob'' 7 acme_invited = Inr acme_joined"
    by (simp add: AcceptInvitation_def Membership_Accept_def acme_def acme_invited_def
        acme_joined_def touch_def set_membership_def)
qed

lemma acme_steps: "org_step\<^sup>*\<^sup>* acme acme_joined"
  using org_op[of "OpInvite ''bob'' RoleAdmin" 6] org_op[of "OpAccept ''bob''" 7] acme_runs
  by (metis (no_types) converse_rtranclp_into_rtranclp org_apply.simps(1,2) r_into_rtranclp)

lemma acme_inv: "org_inv acme" "org_inv acme_invited" "org_inv acme_joined"
  using org_inv_new[OF acme_new] acme_runs org_inv_Invite org_inv_Accept by blast+

theorem org_always_has_active_owner_witness:
  "\<exists>p m. map_of (org_memberships acme_joined) p = Some m \<and> is_active_owner m"
  by (rule org_always_has_active_owner[OF acme_new acme_steps])

theorem last_owner_error_iff_witness:
  "RemoveMember ''alice'' 8 acme_joined = Inl lastOwnerError \<and> sole_active_owner acme_joined ''alice'' \<and>
   \<not> sole_active_owner acme_joined ''bob''"
  using last_owner_error_iff[OF acme_inv(3), of "''alice''" 8]
    last_owner_error_iff[OF acme_inv(3), of "''bob''" 8]
  by (auto simp: acme_joined_def acme_def RemoveMember_def activeOwnerCount_def is_active_owner_def
      lastOwnerError_def Membership_Remove_def)

theorem activation_needs_acceptance_witness:
  "\<exists>m. map_of (org_memberships acme_invited) ''bob'' = Some m \<and> mb_state m = MembershipInvited"
  using activation_needs_acceptance[of "OpAccept ''bob''" 7 acme_invited acme_joined "''bob''"]
    acme_runs(2) by (simp add: acme_invited_def acme_joined_def acme_def)

theorem slug_is_canonical_witness:
  "hd (NormalizeSlug ascii_tables ''Acme'') \<noteq> CHR ''-''"
proof -
  have "TrimSpace ''Acme'' = ''Acme''" by code_simp
  moreover have "ToLower ascii_tables ''Acme'' = ''acme''"
    by (simp add: ToLower_def runes_def rune_lower_def encode_rune_def char_of_eq_iff)
  ultimately have "NormalizeSlug ascii_tables ''Acme'' = ''acme''"
    by (simp add: NormalizeSlug_def runes_def rune_letter_def encode_rune_def char_of_eq_iff Trim_dash_def)
  with slug_is_canonical[of ascii_tables "''Acme''"] show ?thesis by simp
qed

end
