(* ===== verification/Kernel_Operation.thy ===== *)
theory Kernel_Operation
  imports Kernel_Types
begin

text \<open>
  Operations (\<open>internal/kernel/operation.go\<close>): the record of a long-running command and its
  state machine.
\<close>

record operation =
  op_id :: string
  op_tenant :: string
  op_kind :: string
  op_state :: operation_state
  op_correlation_id :: string
  op_causation_id :: string
  op_result :: operation_result
  op_version :: int
  op_created_at :: gotime
  op_updated_at :: gotime

definition no_result :: operation_result where
  "no_result = \<lparr>res_code = [], res_data = None, res_error = None\<rparr>"

definition NewOperation ::
  "string \<Rightarrow> string \<Rightarrow> string \<Rightarrow> string \<Rightarrow> string \<Rightarrow> gotime \<Rightarrow> kerror + operation" where
  "NewOperation oid tenantID kind correlationID causationID now =
     (if blank oid then Inl (invalidArgument [''operation id is required''])
      else if blank kind then Inl (invalidArgument [''operation kind is required''])
      else if blank correlationID
        then Inl (invalidArgument [''operation correlation id is required''])
      else Inr \<lparr>op_id = oid, op_tenant = tenantID, op_kind = kind, op_state = OperationPending,
                op_correlation_id = correlationID, op_causation_id = causationID,
                op_result = no_result, op_version = 1, op_created_at = now,
                op_updated_at = now\<rparr>)"

fun AllowedOperationTransition :: "operation_state \<Rightarrow> operation_state \<Rightarrow> bool" where
  "AllowedOperationTransition OperationPending to \<longleftrightarrow>
     to = OperationRunning \<or> to = OperationFailed \<or> to = OperationCanceled"
| "AllowedOperationTransition OperationRunning to \<longleftrightarrow>
     to = OperationWaitingExternal \<or> to = OperationSucceeded \<or> to = OperationFailed \<or>
     to = OperationCanceled"
| "AllowedOperationTransition OperationWaitingExternal to \<longleftrightarrow>
     to = OperationRunning \<or> to = OperationSucceeded \<or> to = OperationFailed \<or>
     to = OperationCanceled"
| "AllowedOperationTransition _ to \<longleftrightarrow> False"

definition Operation_Transition ::
  "operation_state \<Rightarrow> operation_result \<Rightarrow> gotime \<Rightarrow> operation \<Rightarrow> kerror + operation" where
  "Operation_Transition to result now op =
     (if op_state op = to \<and> to = OperationCanceled then Inr op
      else if Terminal (op_state op)
        then Inl (NewError CodeInvalidTransition [''terminal operation state is immutable''])
      else if \<not> AllowedOperationTransition (op_state op) to
        then Inl (NewError CodeInvalidTransition
                    [''operation state transition is not allowed''])
      else if to = OperationFailed \<and>
              (case res_error result of None \<Rightarrow> True | Some e \<Rightarrow> blank (pe_code e))
        then Inl (invalidArgument [''failed operation requires a stable error code''])
      else if to = OperationSucceeded \<and> res_error result \<noteq> None
        then Inl (invalidArgument [''successful operation cannot contain an error''])
      else Inr (op\<lparr>op_state := to, op_result := result, op_version := op_version op + 1,
                   op_updated_at := now\<rparr>))"

definition Operation_Cancel :: "gotime \<Rightarrow> operation \<Rightarrow> kerror + operation" where
  "Operation_Cancel now op =
     (if op_state op = OperationCanceled then Inr op
      else Operation_Transition OperationCanceled
             \<lparr>res_code = ''CANCELED'', res_data = None, res_error = None\<rparr> now op)"

definition Snapshot :: "operation \<Rightarrow> operation_snapshot" where
  "Snapshot op =
     \<lparr>os_ref = \<lparr>or_id = op_id op, or_tenant = op_tenant op, or_state = op_state op\<rparr>,
      os_kind = op_kind op, os_correlation_id = op_correlation_id op,
      os_causation_id = op_causation_id op, os_result = op_result op,
      os_version = op_version op, os_created_at = op_created_at op,
      os_updated_at = op_updated_at op\<rparr>"

section \<open>The state machine\<close>

text \<open>What every stored operation satisfies: its final states carry the result they promise.\<close>

definition operation_inv :: "operation \<Rightarrow> bool" where
  "operation_inv op \<longleftrightarrow>
     \<not> blank (op_id op) \<and> \<not> blank (op_kind op) \<and> \<not> blank (op_correlation_id op) \<and>
     1 \<le> op_version op \<and> (\<forall>s. op_state op \<noteq> OperationOther s) \<and>
     (op_state op = OperationFailed \<longrightarrow>
        (\<exists>e. res_error (op_result op) = Some e \<and> \<not> blank (pe_code e))) \<and>
     (op_state op = OperationSucceeded \<longrightarrow> res_error (op_result op) = None) \<and>
     (op_state op = OperationPending \<longrightarrow> op_version op = 1 \<and> op_result op = no_result)"

inductive operation_step :: "operation \<Rightarrow> operation \<Rightarrow> bool" where
  transition: "Operation_Transition to result now op = Inr op' \<Longrightarrow> operation_step op op'"
| cancel: "Operation_Cancel now op = Inr op' \<Longrightarrow> operation_step op op'"

inductive_cases operation_stepE: "operation_step op op'"

definition operation_created :: "operation \<Rightarrow> bool" where
  "operation_created op \<longleftrightarrow>
     (\<exists>oid tenant kind corr caus now. NewOperation oid tenant kind corr caus now = Inr op)"

text \<open>A step is the identity, or an allowed change of state that counts the version up.\<close>

lemma operation_step_cases:
  assumes "operation_step op op'"
  shows "op' = op \<and> op_state op = OperationCanceled \<or>
         AllowedOperationTransition (op_state op) (op_state op') \<and> \<not> Terminal (op_state op) \<and>
         op_version op' = op_version op + 1 \<and> op_id op' = op_id op \<and>
         op_tenant op' = op_tenant op \<and> op_kind op' = op_kind op \<and>
         op_correlation_id op' = op_correlation_id op \<and>
         op_causation_id op' = op_causation_id op \<and> op_created_at op' = op_created_at op"
  using assms
  by cases (auto simp: Operation_Transition_def Operation_Cancel_def split: if_splits)

lemma Allowed_target:
  "AllowedOperationTransition st to \<Longrightarrow> to \<noteq> OperationOther s \<and> to \<noteq> OperationPending"
  by (cases st) auto

lemma operation_inv_created: "operation_created op \<Longrightarrow> operation_inv op"
  by (auto simp: operation_created_def NewOperation_def operation_inv_def split: if_splits)

lemma Operation_Transition_cases:
  assumes "Operation_Transition to result now op = Inr op'"
  obtains "op' = op"
  | "AllowedOperationTransition (op_state op) to"
    "to = OperationFailed \<longrightarrow> (\<exists>e. res_error result = Some e \<and> \<not> blank (pe_code e))"
    "to = OperationSucceeded \<longrightarrow> res_error result = None"
    "op' = op\<lparr>op_state := to, op_result := result, op_version := op_version op + 1,
              op_updated_at := now\<rparr>"
  using assms by (auto simp: Operation_Transition_def split: if_splits option.splits)

lemma operation_inv_Transition:
  assumes "operation_inv op" and "Operation_Transition to result now op = Inr op'"
  shows "operation_inv op'"
  using assms(2)
proof (cases rule: Operation_Transition_cases)
  case 2
  from Allowed_target[OF 2(1)] have "to \<noteq> OperationPending" "\<And>s. to \<noteq> OperationOther s" by auto
  with 2 assms(1) show ?thesis by (simp add: operation_inv_def)
qed (use assms(1) in simp)

lemma operation_inv_step: "operation_inv op \<Longrightarrow> operation_step op op' \<Longrightarrow> operation_inv op'"
  by (erule operation_stepE)
    (auto simp: Operation_Cancel_def intro: operation_inv_Transition split: if_splits)

interpretation operation_machine:
  versioned_machine operation_created operation_step operation_inv op_version
    "\<lambda>op. Terminal (op_state op)"
proof
  show "operation_inv op" if "operation_created op" for op
    using that by (rule operation_inv_created)
  show "operation_inv op'" if "operation_inv op" "operation_step op op'" for op op'
    using that by (rule operation_inv_step)
  show "op' = op \<or> op_version op' = op_version op + 1"
    if "operation_inv op" "operation_step op op'" for op op'
    using operation_step_cases[OF that(2)] by auto
  show "op' = op" if "operation_inv op" "Terminal (op_state op)" "operation_step op op'" for op op'
    using operation_step_cases[OF that(3)] that(2) by auto
qed

text \<open>
  From a new operation every run of transitions and cancellations keeps the promises of the
  final states (a failed operation carries a stable error code, a succeeded one no error), a
  final operation never changes again, and the version goes up with every change.
\<close>
lemma operation_runs_are_sound:
  assumes "NewOperation oid tenant kind corr caus now = Inr op"
    and "operation_step\<^sup>*\<^sup>* op op'" and "operation_step\<^sup>*\<^sup>* op' op''"
  shows "(op_state op' = OperationFailed \<longrightarrow>
            (\<exists>e. res_error (op_result op') = Some e \<and> \<not> blank (pe_code e))) \<and>
         (op_state op' = OperationSucceeded \<longrightarrow> res_error (op_result op') = None) \<and>
         (Terminal (op_state op') \<longrightarrow> op'' = op') \<and>
         (op'' = op' \<or> op_version op' < op_version op'')"
proof -
  have "operation_created op" using assms(1) unfolding operation_created_def by blast
  then have "operation_inv op'" using assms(2) by (rule operation_machine.reachable_inv)
  with operation_machine.run_final[OF assms(3)] operation_machine.run_ver[OF assms(3)]
  show ?thesis by (auto simp: operation_inv_def)
qed

text \<open>
  A transition succeeds exactly on the edges of the state graph, with the result the target
  state requires; the only other success is the repeated cancellation, which changes nothing.
\<close>
lemma operation_transition_iff:
  "(\<exists>op'. Operation_Transition to result now op = Inr op') \<longleftrightarrow>
     op_state op = OperationCanceled \<and> to = OperationCanceled \<or>
     AllowedOperationTransition (op_state op) to \<and>
       (to = OperationFailed \<longrightarrow> (\<exists>e. res_error result = Some e \<and> \<not> blank (pe_code e))) \<and>
       (to = OperationSucceeded \<longrightarrow> res_error result = None)"
proof -
  have "AllowedOperationTransition (op_state op) to \<Longrightarrow> \<not> Terminal (op_state op)"
    by (cases "op_state op") (auto simp: Terminal_def)
  then show ?thesis by (auto simp: Operation_Transition_def Terminal_def split: option.splits)
qed

section \<open>A concrete operation\<close>

definition deploy_op :: operation where
  "deploy_op = \<lparr>op_id = ''op_1'', op_tenant = ''org_1'', op_kind = ''Deploy'',
     op_state = OperationPending, op_correlation_id = ''corr'', op_causation_id = [],
     op_result = no_result, op_version = 1, op_created_at = 5, op_updated_at = 5\<rparr>"

lemma deploy_op_new: "NewOperation ''op_1'' ''org_1'' ''Deploy'' ''corr'' [] 5 = Inr deploy_op"
  by code_simp

lemma deploy_op_cancel:
  "operation_step\<^sup>*\<^sup>* deploy_op (deploy_op\<lparr>op_state := OperationCanceled,
     op_result := \<lparr>res_code = ''CANCELED'', res_data = None, res_error = None\<rparr>,
     op_version := 2, op_updated_at := 9\<rparr>)"
  by (rule r_into_rtranclp, rule cancel[of 9])
    (simp add: deploy_op_def Operation_Cancel_def Operation_Transition_def Terminal_def)

lemma operation_runs_are_sound_witness:
  "\<exists>op'. operation_step\<^sup>*\<^sup>* deploy_op op' \<and> Terminal (op_state op') \<and>
     (\<forall>op''. op'' = deploy_op \<longrightarrow> op_version op'' < op_version op')"
  using operation_runs_are_sound[OF deploy_op_new rtranclp.rtrancl_refl deploy_op_cancel]
    deploy_op_cancel
  by (intro exI conjI) (auto simp: deploy_op_def Terminal_def)

theorem operation_transition_iff_witness:
  "\<exists>op'. Operation_Transition OperationRunning no_result 6 deploy_op = Inr op'"
  using operation_transition_iff[of OperationRunning no_result 6 deploy_op]
  by (simp add: deploy_op_def)

end
