(* ===== verification/Kernel_Audit.thy ===== *)
theory Kernel_Audit
  imports Kernel_Types
begin

text \<open>
  Redaction of audit metadata (\<open>internal/kernel/audit.go\<close>) and of event payloads that cross a
  process boundary (\<open>DomainEventEnvelope.MarshalJSON\<close> in \<open>contracts/kernel/v1/types.go\<close>).
\<close>

definition redactedValue :: val where
  "redactedValue = VStr ''[REDACTED]''"

definition sensitiveKeyFragments :: "string list" where
  "sensitiveKeyFragments =
     [''password'', ''passwd'', ''secret'', ''token'', ''authorization'', ''credential'',
      ''api_key'', ''apikey'', ''private_key'', ''privatekey'', ''access_key'', ''refresh_key'']"

definition dash_to_underscore :: "string \<Rightarrow> string" where
  "dash_to_underscore s = map (\<lambda>c. if c = CHR ''-'' then CHR ''_'' else c) s"

definition sensitiveKey :: "unicode \<Rightarrow> string \<Rightarrow> bool" where
  "sensitiveKey u key =
     (let normalized = dash_to_underscore (ToLower u (TrimSpace key)) in
      list_ex (\<lambda>fragment. str_contains normalized fragment) sensitiveKeyFragments)"

text \<open>
  \<open>redactValue\<close> with \<open>redactReflect\<close>, which it calls on maps, slices and arrays of other
  types. Strings and other plain values are returned as they are.
\<close>

fun redactValue :: "unicode \<Rightarrow> val \<Rightarrow> string \<Rightarrow> val" where
  "redactValue u v key =
     (if sensitiveKey u key then redactedValue
      else case v of
        VObj kvs \<Rightarrow> VObj (map (\<lambda>(childKey, child). (childKey, redactValue u child childKey)) kvs)
      | VArr vs \<Rightarrow> VArr (map (\<lambda>child. redactValue u child key) vs)
      | VStrs ss \<Rightarrow> VStrs ss
      | VStringer s \<Rightarrow> VStr s
      | VMapOf kvs \<Rightarrow> VObj (map (\<lambda>(mapKey, child). (mapKey, redactValue u child mapKey)) kvs)
      | VListOf vs \<Rightarrow> VArr (map (\<lambda>child. redactValue u child key) vs)
      | _ \<Rightarrow> v)"

declare redactValue.simps [simp del]

definition RedactMetadata ::
  "unicode \<Rightarrow> (string \<times> val) list option \<Rightarrow> (string \<times> val) list option" where
  "RedactMetadata u metadata =
     (case metadata of
        None \<Rightarrow> None
      | Some kvs \<Rightarrow> (case redactValue u (VObj kvs) [] of VObj redacted \<Rightarrow> Some redacted | _ \<Rightarrow> None))"

lemma redact_sensitive: "sensitiveKey u key \<Longrightarrow> redactValue u v key = redactedValue"
  by (subst redactValue.simps) simp

lemma redact_insensitive:
  assumes "\<not> sensitiveKey u key"
  shows "redactValue u VNull key = VNull"
    and "redactValue u (VBool b) key = VBool b"
    and "redactValue u (VInt i) key = VInt i"
    and "redactValue u (VStr s) key = VStr s"
    and "redactValue u (VStrs ss) key = VStrs ss"
    and "redactValue u (VStringer s) key = VStr s"
    and "redactValue u (VArr vs) key = VArr (map (\<lambda>c. redactValue u c key) vs)"
    and "redactValue u (VListOf vs) key = VArr (map (\<lambda>c. redactValue u c key) vs)"
    and "redactValue u (VObj kvs) key = VObj (map (\<lambda>(k, c). (k, redactValue u c k)) kvs)"
    and "redactValue u (VMapOf kvs) key = VObj (map (\<lambda>(k, c). (k, redactValue u c k)) kvs)"
  using assms by (subst redactValue.simps; simp)+

lemma sensitiveKey_Nil [simp]: "\<not> sensitiveKey u []"
  by (simp add: sensitiveKey_def ToLower_def runes_def dash_to_underscore_def
      sensitiveKeyFragments_def)

lemma RedactMetadata_Some [simp]:
  "RedactMetadata u (Some kvs) = Some (map (\<lambda>(k, c). (k, redactValue u c k)) kvs)"
  by (simp add: RedactMetadata_def redact_insensitive)

lemma RedactMetadata_None [simp]: "RedactMetadata u None = None"
  by (simp add: RedactMetadata_def)

section \<open>The envelope's own redaction\<close>

definition contractSensitiveKey :: "unicode \<Rightarrow> string \<Rightarrow> bool" where
  "contractSensitiveKey u key =
     (let normalized = ToLower u (dash_to_underscore (TrimSpace key)) in
      list_ex (\<lambda>fragment. str_contains normalized fragment)
        [''password'', ''passwd'', ''secret'', ''token'', ''authorization'', ''credential'',
         ''api_key'', ''apikey'', ''private_key'', ''access_key''])"

text \<open>Its argument was decoded from JSON, so only objects and arrays of plain values occur.\<close>

fun redactContractValue :: "unicode \<Rightarrow> val \<Rightarrow> string \<Rightarrow> val" where
  "redactContractValue u v key =
     (if contractSensitiveKey u key then VStr ''[REDACTED]''
      else case v of
        VObj kvs \<Rightarrow>
          VObj (map (\<lambda>(childKey, child). (childKey, redactContractValue u child childKey)) kvs)
      | VArr vs \<Rightarrow> VArr (map (\<lambda>child. redactContractValue u child key) vs)
      | _ \<Rightarrow> v)"

declare redactContractValue.simps [simp del]

section \<open>Nothing under a sensitive key survives\<close>

text \<open>
  \<open>value_at v path x\<close>: following the keys of \<open>path\<close> through objects (and any position of
  arrays) leads to \<open>x\<close>.
\<close>

inductive value_at :: "val \<Rightarrow> string list \<Rightarrow> val \<Rightarrow> bool" where
  here: "value_at v [] v"
| obj: "(k, c) \<in> set kvs \<Longrightarrow> value_at c ks x \<Longrightarrow> value_at (VObj kvs) (k # ks) x"
| mapof: "(k, c) \<in> set kvs \<Longrightarrow> value_at c ks x \<Longrightarrow> value_at (VMapOf kvs) (k # ks) x"
| arr: "c \<in> set vs \<Longrightarrow> value_at c ks x \<Longrightarrow> value_at (VArr vs) ks x"
| listof: "c \<in> set vs \<Longrightarrow> value_at c ks x \<Longrightarrow> value_at (VListOf vs) ks x"

inductive_cases value_at_VObjE: "value_at (VObj kvs) ks x"
inductive_cases value_at_VArrE: "value_at (VArr vs) ks x"
inductive_cases value_at_VStrE: "value_at (VStr s) ks x"
inductive_cases value_at_VStrsE: "value_at (VStrs s) ks x"
inductive_cases value_at_VNullE: "value_at VNull ks x"
inductive_cases value_at_VBoolE: "value_at (VBool b) ks x"
inductive_cases value_at_VIntE: "value_at (VInt i) ks x"

lemmas value_at_elims =
  value_at_VObjE value_at_VArrE value_at_VStrE value_at_VStrsE value_at_VNullE value_at_VBoolE
  value_at_VIntE

lemma value_at_map_obj:
  "value_at (VObj (map (\<lambda>(a, c). (a, f c a)) kvs)) (k # ks) x \<Longrightarrow>
   \<exists>c. (k, c) \<in> set kvs \<and> value_at (f c k) ks x"
  by (erule value_at_VObjE) auto

lemma value_at_map_arr:
  "value_at (VArr (map f vs)) (k # ks) x \<Longrightarrow> \<exists>c \<in> set vs. value_at (f c) (k # ks) x"
  by (erule value_at_VArrE) auto

lemma redact_no_leak:
  "value_at (redactValue u v key) (ks @ [k]) x \<Longrightarrow> sensitiveKey u k \<Longrightarrow> x = redactedValue"
proof (induction u v key arbitrary: ks rule: redactValue.induct)
  case (1 u v key)
  show ?case
  proof (cases "sensitiveKey u key")
    case True
    with "1.prems" show ?thesis
      by (auto simp: redact_sensitive redactedValue_def elim: value_at_elims)
  next
    case False
    have sub: "x = redactedValue"
      if "value_at (redactValue u c k') ks' x" and "ks' \<noteq> [] \<and> last ks' = k \<or> ks' = [] \<and> k' = k"
        and "\<And>ks. value_at (redactValue u c k') (ks @ [k]) x \<Longrightarrow> x = redactedValue" for c k' ks'
    proof (cases "ks' = []")
      case True
      with that(2) have "redactValue u c k' = redactedValue"
        using "1.prems"(2) by (simp add: redact_sensitive)
      with that(1) True show ?thesis by (auto simp: redactedValue_def elim: value_at_elims)
    next
      case False
      with that(2) have "ks' = butlast ks' @ [k]" by (metis append_butlast_last_id)
      with that(1,3) show ?thesis by metis
    qed
    have last: "ks' \<noteq> [] \<and> last ks' = k \<or> ks' = [] \<and> k' = k" if "ks @ [k] = k' # ks'" for k' ks'
      using that by (cases ks) auto
    obtain k' ks' where path: "ks @ [k] = k' # ks'" by (cases ks) auto
    show ?thesis
    proof (cases v)
      case (VObj kvs)
      with False "1.prems"(1) path obtain c where m: "(k', c) \<in> set kvs"
        "value_at (redactValue u c k') ks' x"
        by (auto simp: redact_insensitive dest: value_at_map_obj)
      show ?thesis by (rule sub[OF m(2) last[OF path]])
        (use "1.IH"(3)[OF False VObj m(1) refl] "1.prems"(2) in blast)
    next
      case (VMapOf kvs)
      with False "1.prems"(1) path obtain c where m: "(k', c) \<in> set kvs"
        "value_at (redactValue u c k') ks' x"
        by (auto simp: redact_insensitive dest: value_at_map_obj)
      show ?thesis by (rule sub[OF m(2) last[OF path]])
        (use "1.IH"(4)[OF False VMapOf m(1) refl] "1.prems"(2) in blast)
    next
      case (VArr vs)
      with False "1.prems"(1) path obtain c where "c \<in> set vs"
        "value_at (redactValue u c key) (ks @ [k]) x"
        by (auto simp: redact_insensitive dest: value_at_map_arr)
      with "1.IH"(1)[OF False VArr] "1.prems"(2) show ?thesis by blast
    next
      case (VListOf vs)
      with False "1.prems"(1) path obtain c where "c \<in> set vs"
        "value_at (redactValue u c key) (ks @ [k]) x"
        by (auto simp: redact_insensitive dest: value_at_map_arr)
      with "1.IH"(2)[OF False VListOf] "1.prems"(2) show ?thesis by blast
    qed (use False "1.prems"(1) in \<open>auto simp: redact_insensitive elim: value_at_elims\<close>)
  qed
qed

lemma redactValue_idem: "redactValue u (redactValue u v key) key = redactValue u v key"
proof (induction u v key rule: redactValue.induct)
  case (1 u v key)
  show ?case
  proof (cases "sensitiveKey u key")
    case True
    then show ?thesis by (simp add: redact_sensitive)
  next
    case False
    with "1.IH" show ?thesis by (cases v) (auto simp: redact_insensitive)
  qed
qed

text \<open>
  Redaction leaks nothing: in redacted metadata every value reached through a sensitive key,
  at any depth and inside arrays, is the redaction marker; and redacting twice changes nothing.
\<close>
lemma redaction_leaks_nothing:
  assumes "RedactMetadata u metadata = Some kvs"
  shows "(\<forall>ks k x. value_at (VObj kvs) (ks @ [k]) x \<and> sensitiveKey u k \<longrightarrow> x = redactedValue) \<and>
         RedactMetadata u (Some kvs) = Some kvs"
proof -
  obtain kvs0 where m: "metadata = Some kvs0" using assms by (cases metadata) auto
  with assms have r: "VObj kvs = redactValue u (VObj kvs0) []" by (auto simp: redact_insensitive)
  have "x = redactedValue" if "value_at (VObj kvs) (ks @ [k]) x" "sensitiveKey u k" for ks k x
    using redact_no_leak[of u "VObj kvs0" "[]" ks k x] that r by simp
  moreover have "redactValue u (VObj kvs) [] = VObj kvs" unfolding r by (rule redactValue_idem)
  ultimately show ?thesis by (auto simp: redact_insensitive)
qed

text \<open>
  The envelope's redaction uses a shorter list of fragments than the audit's: a refresh key
  or a key spelt \<open>privatekey\<close> is removed from audit metadata and passes through an event.
\<close>
lemma contract_redaction_misses_keys:
  "sensitiveKey u ''refresh_key'' \<and> redactContractValue u (VStr secret) ''refresh_key'' = VStr secret \<and>
   sensitiveKey u ''privatekey'' \<and> redactContractValue u (VStr secret) ''privatekey'' = VStr secret"
proof -
  have t: "TrimSpace ''refresh_key'' = ''refresh_key''" "TrimSpace ''privatekey'' = ''privatekey''"
    by code_simp+
  have d: "dash_to_underscore ''refresh_key'' = ''refresh_key''"
    "dash_to_underscore ''privatekey'' = ''privatekey''"
    by code_simp+
  have l: "ToLower u ''refresh_key'' = ''refresh_key''" "ToLower u ''privatekey'' = ''privatekey''"
    by (simp_all add: ToLower_def runes_def rune_lower_def encode_rune_def char_of_eq_iff)
  have c: "\<not> contractSensitiveKey u ''refresh_key''" "\<not> contractSensitiveKey u ''privatekey''"
    unfolding contractSensitiveKey_def t d l by (simp_all add: HasPrefix_def)
  have s: "sensitiveKey u ''refresh_key''" "sensitiveKey u ''privatekey''"
    unfolding sensitiveKey_def t l Let_def d sensitiveKeyFragments_def
    by (simp_all add: HasPrefix_def)
  show ?thesis using s c by (simp add: redactContractValue.simps)
qed

lemma redaction_leaks_nothing_witness:
  "\<exists>kvs. RedactMetadata ascii_tables (Some [(''password'', VStr ''hunter2'')]) = Some kvs \<and>
     \<not> value_at (VObj kvs) [''password''] (VStr ''hunter2'')"
proof -
  have "TrimSpace ''password'' = ''password''" "dash_to_underscore ''password'' = ''password''"
    by code_simp+
  moreover have "ToLower ascii_tables ''password'' = ''password''"
    by (simp add: ToLower_def runes_def rune_lower_def encode_rune_def char_of_eq_iff)
  ultimately have s: "sensitiveKey ascii_tables ''password''"
    by (simp add: sensitiveKey_def sensitiveKeyFragments_def HasPrefix_def)
  obtain kvs where r: "RedactMetadata ascii_tables (Some [(''password'', VStr ''hunter2'')]) = Some kvs"
    using that by (simp add: redact_insensitive)
  have "(VStr ''hunter2'') \<noteq> redactedValue" by (simp add: redactedValue_def)
  with redaction_leaks_nothing[OF r] s r show ?thesis
    by (metis append_Nil)
qed

end
