(* ===== verification/Versioned_Store.thy ===== *)
theory Versioned_Store
  imports Go_Prelude
begin

text \<open>
  What the stores have in common: lookups over a table, and the contract of versioned tables.
\<close>

section \<open>Lookups\<close>

lemma find_row_None:
  "wf_map t \<Longrightarrow> List.find P (map snd t) = None \<longleftrightarrow> (\<forall>k v. map_of t k = Some v \<longrightarrow> \<not> P v)"
  by (auto simp: find_None_iff)

lemma find_row_Some:
  "wf_map t \<Longrightarrow> List.find P (map snd t) = Some v \<Longrightarrow> \<exists>k. map_of t k = Some v \<and> P v"
  by (auto simp: find_Some_iff) (metis map_of_eq_Some_iff nth_mem prod.collapse)

lemma ex_row: "wf_map t \<Longrightarrow> list_ex P (map snd t) \<longleftrightarrow> (\<exists>k v. map_of t k = Some v \<and> P v)"
  by (force simp: list_ex_iff)

section \<open>The contract\<close>

text \<open>
  The contract of every table of the stores: records are inserted once under their key and
  replaced under optimistic locking, where a save names the version its caller has read.
\<close>

locale versioned_store =
  fixes get :: "'db \<Rightarrow> 'k \<Rightarrow> 'v option"
    and ins :: "'v \<Rightarrow> 'db \<Rightarrow> 'e + 'db"
    and save :: "'v \<Rightarrow> int \<Rightarrow> 'db \<Rightarrow> 'e + 'db"
    and key :: "'v \<Rightarrow> 'k"
    and vers :: "'v \<Rightarrow> int"
  assumes ins_law: "ins v db = Inr db' \<Longrightarrow> get db (key v) = None \<and> get db' = (get db)(key v \<mapsto> v)"
    and save_law: "save v n db = Inr db' \<Longrightarrow>
      (\<exists>w. get db (key v) = Some w \<and> vers w = n) \<and> get db' = (get db)(key v \<mapsto> v)"
begin

lemma ins_get: "ins v db = Inr db' \<Longrightarrow> get db' (key v) = Some v"
  by (drule ins_law) simp

lemma ins_other: "ins v db = Inr db' \<Longrightarrow> k \<noteq> key v \<Longrightarrow> get db' k = get db k"
  by (drule ins_law) simp

lemma ins_once: "get db (key v) = Some w \<Longrightarrow> \<exists>e. ins v db = Inl e"
  by (cases "ins v db") (auto dest: ins_law)

lemma save_get: "save v n db = Inr db' \<Longrightarrow> get db' (key v) = Some v"
  by (drule save_law) simp

lemma save_other: "save v n db = Inr db' \<Longrightarrow> k \<noteq> key v \<Longrightarrow> get db' k = get db k"
  by (drule save_law) simp

lemma save_stale: "get db (key v) = Some w \<Longrightarrow> vers w \<noteq> n \<Longrightarrow> \<exists>e. save v n db = Inl e"
  by (cases "save v n db") (auto dest: save_law)

text \<open>
  Two writers that read the same version cannot both write: the second save is refused, so no
  update is lost.
\<close>

lemma no_lost_update:
  assumes "save v1 n db = Inr db1" and "vers v1 \<noteq> n" and "key v2 = key v1"
  shows "\<exists>e. save v2 n db1 = Inl e"
  using save_stale[of db1 v2 v1 n] save_get[OF assms(1)] assms(2,3) by simp

end

text \<open>Some stores also refuse to move a version back.\<close>

locale monotone_store = versioned_store +
  assumes save_mono: "save v n db = Inr db' \<Longrightarrow> n \<le> vers v"
begin

lemma save_version_up:
  "save v n db = Inr db' \<Longrightarrow> get db (key v) = Some w \<Longrightarrow> vers w \<le> vers v"
  using save_law save_mono by fastforce

end

end
