(* ===== verification/Kernel_Store.thy ===== *)
theory Kernel_Store
  imports Kernel_Organization Kernel_Operation Kernel_Audit Versioned_Store
    "HOL-Library.Product_Lexorder" "HOL-Library.Multiset"
begin

text \<open>
  The kernel's store (\<open>internal/kernel/store.go\<close>, \<open>internal/kernel/memory/store.go\<close>) with the
  response records that the service keeps in it (\<open>internal/kernel/service.go\<close>): the tables,
  the operations of a transaction on them, and transactions that commit or leave no trace.
\<close>

section \<open>Snapshots and stored responses\<close>

record membership_snapshot =
  ms_principal_id :: string
  ms_role :: membership_role
  ms_state :: membership_state
  ms_invited_at :: gotime
  ms_accepted_at :: "gotime option"
  ms_updated_at :: gotime
  ms_version :: int

record organization_snapshot =
  sn_organization_id :: string
  sn_name :: string
  sn_slug :: string
  sn_memberships :: "membership_snapshot list"
  sn_version :: int
  sn_created_at :: gotime
  sn_updated_at :: gotime

text \<open>
  The payload of a response is the JSON text of one of three results; the model keeps the
  result. Decoding it again gives the value back.
\<close>

datatype response_payload =
    CreateOrganizationPayload operation_ref organization_snapshot
  | CommandPayload operation_ref
  | OperationRefPayload operation_ref

record stored_response =
  sr_operation :: operation_ref
  sr_payload :: "response_payload option"
  sr_error :: "public_error option"

section \<open>Tables\<close>

datatype idempotency_status = IdempotencyStarted | IdempotencyCompleted

record idempotency_record =
  ir_scope :: string
  ir_key :: string
  ir_fingerprint :: string
  ir_status :: idempotency_status
  ir_response :: "stored_response option"
  ir_operation_id :: string
  ir_created_at :: gotime
  ir_updated_at :: gotime

datatype outbox_state = OutboxPending | OutboxDispatching | OutboxPublished

record outbox_record =
  ob_event :: event
  ob_state :: outbox_state
  ob_attempts :: int
  ob_lease_until :: "gotime option"
  ob_last_error :: message
  ob_created_at :: gotime
  ob_published_at :: "gotime option"

record inbox_record =
  ib_event_id :: string
  ib_fingerprint :: string
  ib_processed_at :: gotime

record kstate =
  organizations :: "string \<rightharpoonup> organization"
  slugIndex :: "string \<rightharpoonup> string"
  operations :: "string \<rightharpoonup> operation"
  idempotency :: "string \<rightharpoonup> idempotency_record"
  outbox :: "string \<rightharpoonup> outbox_record"
  outboxOrder :: "string list"
  inbox :: "string \<rightharpoonup> inbox_record"
  audit :: "audit_envelope list"

definition newState :: kstate where
  "newState = \<lparr>organizations = Map.empty, slugIndex = Map.empty, operations = Map.empty,
               idempotency = Map.empty, outbox = Map.empty, outboxOrder = [],
               inbox = Map.empty, audit = []\<rparr>"

section \<open>Organizations\<close>

definition GetOrganization :: "string \<Rightarrow> kstate \<Rightarrow> kerror + organization" where
  "GetOrganization oid st =
     (case organizations st oid of
        None \<Rightarrow> Inl (NewError CodeNotFound [''organization not found''])
      | Some org \<Rightarrow> Inr org)"

definition FindOrganizationBySlug :: "string \<Rightarrow> kstate \<Rightarrow> kerror + organization option" where
  "FindOrganizationBySlug slug st =
     (case slugIndex st slug of
        None \<Rightarrow> Inl (NewError CodeNotFound [''organization not found''])
      | Some oid \<Rightarrow> Inr (organizations st oid))"

definition InsertOrganization :: "organization \<Rightarrow> kstate \<Rightarrow> kerror + kstate" where
  "InsertOrganization org st =
     (if organizations st (org_id org) \<noteq> None
        then Inl (NewError CodeConflict [''organization already exists''])
      else if slugIndex st (org_slug org) \<noteq> None
        then Inl (NewError CodeConflict [''organization slug already exists''])
      else Inr (st\<lparr>organizations := (organizations st)(org_id org \<mapsto> org),
                   slugIndex := (slugIndex st)(org_slug org \<mapsto> org_id org)\<rparr>))"

definition optimisticLock :: kerror where
  "optimisticLock = NewError CodeOptimisticLock [''Concurrent modification detected'']"

definition SaveOrganization :: "organization \<Rightarrow> int \<Rightarrow> kstate \<Rightarrow> kerror + kstate" where
  "SaveOrganization org expectedVersion st =
     (case organizations st (org_id org) of
        None \<Rightarrow> Inl (NewError CodeNotFound [''organization not found''])
      | Some existing \<Rightarrow>
          if org_version existing \<noteq> expectedVersion \<or> org_version org < expectedVersion
            then Inl optimisticLock
          else if (case slugIndex st (org_slug org) of
                     None \<Rightarrow> False | Some owner \<Rightarrow> owner \<noteq> org_id org)
            then Inl (NewError CodeConflict [''organization slug already exists''])
          else
            (let index = (if org_slug existing \<noteq> org_slug org
                          then ((slugIndex st)(org_slug existing := None))
                                 (org_slug org \<mapsto> org_id org)
                          else slugIndex st)
             in Inr (st\<lparr>slugIndex := index,
                        organizations := (organizations st)(org_id org \<mapsto> org)\<rparr>)))"

section \<open>Operations\<close>

definition GetOperation :: "string \<Rightarrow> kstate \<Rightarrow> kerror + operation" where
  "GetOperation oid st =
     (case operations st oid of
        None \<Rightarrow> Inl (NewError CodeNotFound [''operation not found''])
      | Some op \<Rightarrow> Inr op)"

definition InsertOperation :: "operation \<Rightarrow> kstate \<Rightarrow> kerror + kstate" where
  "InsertOperation op st =
     (if operations st (op_id op) \<noteq> None
        then Inl (NewError CodeConflict [''operation already exists''])
      else Inr (st\<lparr>operations := (operations st)(op_id op \<mapsto> op)\<rparr>))"

definition SaveOperation :: "operation \<Rightarrow> int \<Rightarrow> kstate \<Rightarrow> kerror + kstate" where
  "SaveOperation op expectedVersion st =
     (case operations st (op_id op) of
        None \<Rightarrow> Inl (NewError CodeNotFound [''operation not found''])
      | Some existing \<Rightarrow>
          if op_version existing \<noteq> expectedVersion \<or> op_version op < expectedVersion
          then Inl optimisticLock
          else Inr (st\<lparr>operations := (operations st)(op_id op \<mapsto> op)\<rparr>))"

section \<open>Idempotency records\<close>

definition idempotencyMapKey :: "string \<Rightarrow> string \<Rightarrow> string" where
  "idempotencyMapKey scope key = scope @ [CHR 0x00] @ key"

definition GetIdempotency :: "string \<Rightarrow> string \<Rightarrow> kstate \<Rightarrow> kerror + idempotency_record" where
  "GetIdempotency scope key st =
     (case idempotency st (idempotencyMapKey scope key) of
        None \<Rightarrow> Inl (NewError CodeNotFound [''idempotency record not found''])
      | Some r \<Rightarrow> Inr r)"

text \<open>Returns the record that holds the key already, or \<open>None\<close> when this call claimed it.\<close>

definition ClaimIdempotency ::
  "idempotency_record \<Rightarrow> kstate \<Rightarrow> kerror + idempotency_record option \<times> kstate" where
  "ClaimIdempotency r st =
     (let mapKey = idempotencyMapKey (ir_scope r) (ir_key r) in
      case idempotency st mapKey of
        Some existing \<Rightarrow> Inr (Some existing, st)
      | None \<Rightarrow>
          if ir_scope r = [] \<or> ir_key r = [] \<or> ir_fingerprint r = []
          then Inl (NewError CodeInvalidArgument [''invalid idempotency record''])
          else Inr (None, st\<lparr>idempotency :=
                 (idempotency st)(mapKey \<mapsto> r\<lparr>ir_status := IdempotencyStarted\<rparr>)\<rparr>))"

definition CompleteIdempotency ::
  "string \<Rightarrow> string \<Rightarrow> string \<Rightarrow> stored_response \<Rightarrow> gotime \<Rightarrow> kstate \<Rightarrow> kerror + kstate" where
  "CompleteIdempotency scope key operationID response now st =
     (let mapKey = idempotencyMapKey scope key in
      case idempotency st mapKey of
        None \<Rightarrow> Inl (NewError CodeNotFound [''idempotency record not found''])
      | Some r \<Rightarrow>
          if ir_status r = IdempotencyCompleted
          then (if ir_operation_id r = operationID \<and> ir_response r = Some response then Inr st
                else Inl (NewError CodeConflict [''idempotency record is already completed'']))
          else Inr (st\<lparr>idempotency := (idempotency st)(mapKey \<mapsto>
                 r\<lparr>ir_status := IdempotencyCompleted, ir_operation_id := operationID,
                   ir_response := Some response, ir_updated_at := now\<rparr>)\<rparr>))"

section \<open>Outbox and inbox\<close>

definition AppendOutbox :: "outbox_record \<Rightarrow> kstate \<Rightarrow> kerror + kstate" where
  "AppendOutbox r st =
     (let eventID = ev_id (ob_event r) in
      if eventID = [] then Inl (NewError CodeInvalidArgument [''outbox event id is required''])
      else if outbox st eventID \<noteq> None
        then Inl (NewError CodeConflict [''outbox event already exists''])
      else Inr (st\<lparr>outbox := (outbox st)(eventID \<mapsto> r),
                   outboxOrder := outboxOrder st @ [eventID]\<rparr>))"

definition outbox_eligible :: "gotime \<Rightarrow> outbox_record \<Rightarrow> bool" where
  "outbox_eligible now r \<longleftrightarrow>
     ob_state r = OutboxPending \<or>
     ob_state r = OutboxDispatching \<and>
       (case ob_lease_until r of None \<Rightarrow> False | Some t \<Rightarrow> \<not> now < t)"

text \<open>
  The loop of \<open>ClaimOutbox\<close> over the order of insertion, with the records claimed so far. An
  identifier of the order without a record would be a nil dereference; the invariant of the
  store excludes it, and the model passes over it.
\<close>

fun claim_loop ::
  "int \<Rightarrow> gotime \<Rightarrow> int \<Rightarrow> string list \<Rightarrow> (string \<rightharpoonup> outbox_record) \<Rightarrow> outbox_record list \<Rightarrow>
   (string \<rightharpoonup> outbox_record) \<times> outbox_record list" where
  "claim_loop limit now lease [] tbl claimed = (tbl, claimed)"
| "claim_loop limit now lease (eventID # order) tbl claimed =
     (if int (length claimed) = limit then (tbl, claimed)
      else case tbl eventID of
        None \<Rightarrow> claim_loop limit now lease order tbl claimed
      | Some r \<Rightarrow>
          if \<not> outbox_eligible now r then claim_loop limit now lease order tbl claimed
          else (let r' = r\<lparr>ob_state := OutboxDispatching, ob_lease_until := Some (now + lease)\<rparr>
                in claim_loop limit now lease order (tbl(eventID \<mapsto> r')) (claimed @ [r'])))"

definition ClaimOutbox ::
  "int \<Rightarrow> gotime \<Rightarrow> int \<Rightarrow> kstate \<Rightarrow> kerror + outbox_record list \<times> kstate" where
  "ClaimOutbox limit now lease st =
     (if limit \<le> 0 then Inr ([], st)
      else case claim_loop limit now lease (outboxOrder st) (outbox st) [] of
        (tbl, claimed) \<Rightarrow> Inr (claimed, st\<lparr>outbox := tbl\<rparr>))"

definition MarkOutboxPublished :: "string \<Rightarrow> gotime \<Rightarrow> kstate \<Rightarrow> kerror + kstate" where
  "MarkOutboxPublished eventID now st =
     (case outbox st eventID of
        None \<Rightarrow> Inl (NewError CodeNotFound [''outbox event not found''])
      | Some r \<Rightarrow>
          if ob_state r = OutboxPublished then Inr st
          else Inr (st\<lparr>outbox := (outbox st)(eventID \<mapsto>
                 r\<lparr>ob_state := OutboxPublished, ob_published_at := Some now,
                   ob_lease_until := None, ob_last_error := []\<rparr>)\<rparr>))"

definition MarkOutboxPending :: "string \<Rightarrow> message \<Rightarrow> kstate \<Rightarrow> kerror + kstate" where
  "MarkOutboxPending eventID lastError st =
     (case outbox st eventID of
        None \<Rightarrow> Inl (NewError CodeNotFound [''outbox event not found''])
      | Some r \<Rightarrow>
          if ob_state r = OutboxPublished
          then Inl (NewError CodeConflict [''published outbox event cannot return to pending''])
          else Inr (st\<lparr>outbox := (outbox st)(eventID \<mapsto>
                 r\<lparr>ob_state := OutboxPending, ob_attempts := ob_attempts r + 1,
                   ob_lease_until := None, ob_last_error := lastError\<rparr>)\<rparr>))"

definition ListOutbox :: "kstate \<Rightarrow> outbox_record list" where
  "ListOutbox st = List.map_filter (outbox st) (outboxOrder st)"

definition GetInbox :: "string \<Rightarrow> kstate \<Rightarrow> kerror + inbox_record" where
  "GetInbox eventID st =
     (case inbox st eventID of
        None \<Rightarrow> Inl (NewError CodeNotFound [''inbox event not found''])
      | Some r \<Rightarrow> Inr r)"

definition InsertInbox :: "inbox_record \<Rightarrow> kstate \<Rightarrow> kerror + kstate" where
  "InsertInbox r st =
     (if ib_event_id r = [] \<or> ib_fingerprint r = []
        then Inl (NewError CodeInvalidArgument [''invalid inbox record''])
      else if inbox st (ib_event_id r) \<noteq> None
        then Inl (NewError CodeConflict [''inbox event already exists''])
      else Inr (st\<lparr>inbox := (inbox st)(ib_event_id r \<mapsto> r)\<rparr>))"

section \<open>Audit\<close>

text \<open>
  \<open>cloneAudit\<close> sends the metadata through JSON: typed slices and maps come back as \<open>[]any\<close> and
  \<open>map[string]any\<close>.
\<close>

fun json_norm :: "val \<Rightarrow> val" where
  "json_norm (VStrs ss) = VArr (map VStr ss)"
| "json_norm (VStringer s) = VStr s"
| "json_norm (VArr vs) = VArr (map json_norm vs)"
| "json_norm (VListOf vs) = VArr (map json_norm vs)"
| "json_norm (VObj kvs) = VObj (map (\<lambda>(k, c). (k, json_norm c)) kvs)"
| "json_norm (VMapOf kvs) = VObj (map (\<lambda>(k, c). (k, json_norm c)) kvs)"
| "json_norm v = v"

definition cloneAudit :: "audit_envelope \<Rightarrow> audit_envelope" where
  "cloneAudit r = r\<lparr>au_metadata := map_option (map (\<lambda>(k, c). (k, json_norm c))) (au_metadata r)\<rparr>"

definition AppendAudit :: "audit_envelope \<Rightarrow> kstate \<Rightarrow> kerror + kstate" where
  "AppendAudit r st =
     (if au_id r = [] \<or> au_action r = [] \<or> au_correlation_id r = [] \<or> IsZero (au_occurred_at r)
        then Inl (NewError CodeInvalidArgument [''invalid audit record''])
      else if list_ex (\<lambda>existing. au_id existing = au_id r) (audit st)
        then Inl (NewError CodeConflict [''audit record already exists''])
      else Inr (st\<lparr>audit := audit st @ [cloneAudit r]\<rparr>))"

definition ListAudit :: "string \<Rightarrow> int \<Rightarrow> kstate \<Rightarrow> audit_envelope list" where
  "ListAudit tenantID limit0 st =
     (let limit = (if limit0 \<le> 0 then 100 else limit0);
          records = sort_key (\<lambda>r. (au_occurred_at r, au_id r))
            (map cloneAudit (filter (\<lambda>r. tenantID = [] \<or> au_tenant r = tenantID) (audit st)))
      in if int (length records) > limit then drop (nat (int (length records) - limit)) records
         else records)"

lemmas kstore_defs =
  GetOrganization_def InsertOrganization_def SaveOrganization_def GetOperation_def
  InsertOperation_def SaveOperation_def ClaimIdempotency_def CompleteIdempotency_def
  AppendOutbox_def ClaimOutbox_def MarkOutboxPublished_def MarkOutboxPending_def GetInbox_def
  InsertInbox_def AppendAudit_def

section \<open>Optimistic locking\<close>

interpretation org_store: monotone_store organizations InsertOrganization SaveOrganization
  org_id org_version
  by unfold_locales
    (auto simp: InsertOrganization_def SaveOrganization_def Let_def split: if_splits option.splits)

interpretation op_store: monotone_store operations InsertOperation SaveOperation op_id op_version
  by unfold_locales
    (auto simp: InsertOperation_def SaveOperation_def split: if_splits option.splits)

text \<open>
  Two commands that read an organization in the same version cannot both save a change of
  it: after the first save the second one is refused, so neither change is silently lost.
\<close>
lemma organization_no_lost_update:
  assumes "GetOrganization oid st = Inr org"
    and "SaveOrganization org1 (org_version org) st = Inr st1"
    and "org_version org1 \<noteq> org_version org" and "org_id org1 = oid" and "org_id org2 = oid"
  shows "(\<exists>e. SaveOrganization org2 (org_version org) st1 = Inl e) \<and>
         GetOrganization oid st1 = Inr org1 \<and>
         (\<forall>oid'. oid' \<noteq> oid \<longrightarrow> GetOrganization oid' st1 = GetOrganization oid' st)"
  using org_store.no_lost_update[OF assms(2,3), of org2] org_store.save_get[OF assms(2)]
    org_store.save_other[OF assms(2)] assms(4,5)
  by (auto simp: GetOrganization_def)

section \<open>Invariant of the store\<close>

definition orgs_inv :: "kstate \<Rightarrow> bool" where
  "orgs_inv st \<longleftrightarrow>
     (\<forall>i org. organizations st i = Some org \<longrightarrow>
        org_id org = i \<and> org_inv org \<and> slugIndex st (org_slug org) = Some i) \<and>
     (\<forall>s i. slugIndex st s = Some i \<longrightarrow> (\<exists>org. organizations st i = Some org \<and> org_slug org = s))"

definition ops_inv :: "kstate \<Rightarrow> bool" where
  "ops_inv st \<longleftrightarrow> (\<forall>i op. operations st i = Some op \<longrightarrow> op_id op = i \<and> operation_inv op)"

definition idem_inv :: "kstate \<Rightarrow> bool" where
  "idem_inv st \<longleftrightarrow>
     (\<forall>k r. idempotency st k = Some r \<longrightarrow>
        k = idempotencyMapKey (ir_scope r) (ir_key r) \<and>
        (ir_status r = IdempotencyCompleted \<longrightarrow> ir_response r \<noteq> None))"

definition outbox_record_inv :: "outbox_record \<Rightarrow> bool" where
  "outbox_record_inv r \<longleftrightarrow>
     0 \<le> ob_attempts r \<and>
     (ob_lease_until r \<noteq> None \<longleftrightarrow> ob_state r = OutboxDispatching) \<and>
     (ob_published_at r \<noteq> None \<longleftrightarrow> ob_state r = OutboxPublished)"

definition outbox_inv :: "kstate \<Rightarrow> bool" where
  "outbox_inv st \<longleftrightarrow>
     distinct (outboxOrder st) \<and> set (outboxOrder st) = dom (outbox st) \<and>
     (\<forall>i r. outbox st i = Some r \<longrightarrow> ev_id (ob_event r) = i \<and> outbox_record_inv r)"

definition inbox_inv :: "kstate \<Rightarrow> bool" where
  "inbox_inv st \<longleftrightarrow> (\<forall>i r. inbox st i = Some r \<longrightarrow> ib_event_id r = i)"

definition audit_inv :: "kstate \<Rightarrow> bool" where
  "audit_inv st \<longleftrightarrow> distinct (map au_id (audit st))"

definition kstate_inv :: "kstate \<Rightarrow> bool" where
  "kstate_inv st \<longleftrightarrow>
     orgs_inv st \<and> ops_inv st \<and> idem_inv st \<and> outbox_inv st \<and> inbox_inv st \<and> audit_inv st"

lemmas kstate_inv_defs =
  kstate_inv_def orgs_inv_def ops_inv_def idem_inv_def outbox_inv_def inbox_inv_def audit_inv_def

text \<open>Each part of the invariant depends on its own tables only.\<close>

lemma kstate_frames [simp]:
  "orgs_inv (st\<lparr>operations := x2\<rparr>) = orgs_inv st"
  "orgs_inv (st\<lparr>idempotency := x3\<rparr>) = orgs_inv st"
  "orgs_inv (st\<lparr>outbox := x4\<rparr>) = orgs_inv st"
  "orgs_inv (st\<lparr>outboxOrder := x5\<rparr>) = orgs_inv st"
  "orgs_inv (st\<lparr>inbox := x6\<rparr>) = orgs_inv st"
  "orgs_inv (st\<lparr>audit := x7\<rparr>) = orgs_inv st"
  "ops_inv (st\<lparr>organizations := x0\<rparr>) = ops_inv st"
  "ops_inv (st\<lparr>slugIndex := x1\<rparr>) = ops_inv st"
  "ops_inv (st\<lparr>idempotency := x3\<rparr>) = ops_inv st"
  "ops_inv (st\<lparr>outbox := x4\<rparr>) = ops_inv st"
  "ops_inv (st\<lparr>outboxOrder := x5\<rparr>) = ops_inv st"
  "ops_inv (st\<lparr>inbox := x6\<rparr>) = ops_inv st"
  "ops_inv (st\<lparr>audit := x7\<rparr>) = ops_inv st"
  "idem_inv (st\<lparr>organizations := x0\<rparr>) = idem_inv st"
  "idem_inv (st\<lparr>slugIndex := x1\<rparr>) = idem_inv st"
  "idem_inv (st\<lparr>operations := x2\<rparr>) = idem_inv st"
  "idem_inv (st\<lparr>outbox := x4\<rparr>) = idem_inv st"
  "idem_inv (st\<lparr>outboxOrder := x5\<rparr>) = idem_inv st"
  "idem_inv (st\<lparr>inbox := x6\<rparr>) = idem_inv st"
  "idem_inv (st\<lparr>audit := x7\<rparr>) = idem_inv st"
  "outbox_inv (st\<lparr>organizations := x0\<rparr>) = outbox_inv st"
  "outbox_inv (st\<lparr>slugIndex := x1\<rparr>) = outbox_inv st"
  "outbox_inv (st\<lparr>operations := x2\<rparr>) = outbox_inv st"
  "outbox_inv (st\<lparr>idempotency := x3\<rparr>) = outbox_inv st"
  "outbox_inv (st\<lparr>inbox := x6\<rparr>) = outbox_inv st"
  "outbox_inv (st\<lparr>audit := x7\<rparr>) = outbox_inv st"
  "inbox_inv (st\<lparr>organizations := x0\<rparr>) = inbox_inv st"
  "inbox_inv (st\<lparr>slugIndex := x1\<rparr>) = inbox_inv st"
  "inbox_inv (st\<lparr>operations := x2\<rparr>) = inbox_inv st"
  "inbox_inv (st\<lparr>idempotency := x3\<rparr>) = inbox_inv st"
  "inbox_inv (st\<lparr>outbox := x4\<rparr>) = inbox_inv st"
  "inbox_inv (st\<lparr>outboxOrder := x5\<rparr>) = inbox_inv st"
  "inbox_inv (st\<lparr>audit := x7\<rparr>) = inbox_inv st"
  "audit_inv (st\<lparr>organizations := x0\<rparr>) = audit_inv st"
  "audit_inv (st\<lparr>slugIndex := x1\<rparr>) = audit_inv st"
  "audit_inv (st\<lparr>operations := x2\<rparr>) = audit_inv st"
  "audit_inv (st\<lparr>idempotency := x3\<rparr>) = audit_inv st"
  "audit_inv (st\<lparr>outbox := x4\<rparr>) = audit_inv st"
  "audit_inv (st\<lparr>outboxOrder := x5\<rparr>) = audit_inv st"
  "audit_inv (st\<lparr>inbox := x6\<rparr>) = audit_inv st"
  by (simp_all add: orgs_inv_def ops_inv_def idem_inv_def outbox_inv_def inbox_inv_def audit_inv_def)

lemma orgs_invI:
  "(\<And>i org. organizations st i = Some org \<Longrightarrow>
      org_id org = i \<and> org_inv org \<and> slugIndex st (org_slug org) = Some i) \<Longrightarrow>
   (\<And>s i. slugIndex st s = Some i \<Longrightarrow> \<exists>org. organizations st i = Some org \<and> org_slug org = s) \<Longrightarrow>
   orgs_inv st"
  by (simp add: orgs_inv_def)

lemma orgs_invD:
  "orgs_inv st \<Longrightarrow> organizations st i = Some org \<Longrightarrow>
   org_id org = i \<and> org_inv org \<and> slugIndex st (org_slug org) = Some i"
  by (simp add: orgs_inv_def)

lemma orgs_inv_slugD:
  "orgs_inv st \<Longrightarrow> slugIndex st s = Some i \<Longrightarrow>
   \<exists>org. organizations st i = Some org \<and> org_slug org = s"
  by (simp add: orgs_inv_def)

lemma kstate_inv_new: "kstate_inv newState"
  by (simp add: kstate_inv_defs newState_def)

lemma InsertOrganization_inv:
  assumes "kstate_inv st" and "org_inv org" and "InsertOrganization org st = Inr st'"
  shows "kstate_inv st'"
proof -
  have o: "orgs_inv st" using assms(1) by (simp add: kstate_inv_def)
  have new: "organizations st (org_id org) = None" "slugIndex st (org_slug org) = None"
    and st': "st' = st\<lparr>organizations := (organizations st)(org_id org \<mapsto> org),
                         slugIndex := (slugIndex st)(org_slug org \<mapsto> org_id org)\<rparr>"
    using assms(3) by (auto simp: InsertOrganization_def split: if_splits)
  have "orgs_inv st'"
  proof (rule orgs_invI)
    fix i o' assume "organizations st' i = Some o'"
    with o new assms(2) show "org_id o' = i \<and> org_inv o' \<and> slugIndex st' (org_slug o') = Some i"
      by (auto simp: st' dest: orgs_invD split: if_splits)
  next
    fix t i assume "slugIndex st' t = Some i"
    with o new assms(2) show "\<exists>o'. organizations st' i = Some o' \<and> org_slug o' = t"
      by (auto simp: st' dest: orgs_inv_slugD split: if_splits)
  qed
  with assms(1) show ?thesis by (simp add: kstate_inv_def st')
qed

lemma SaveOrganization_inv:
  assumes "kstate_inv st" and "org_inv org" and "SaveOrganization org n st = Inr st'"
  shows "kstate_inv st'"
proof -
  obtain old where old: "organizations st (org_id org) = Some old"
    and slug: "\<And>i. slugIndex st (org_slug org) = Some i \<Longrightarrow> i = org_id org"
    and st': "st' = st\<lparr>slugIndex := (if org_slug old \<noteq> org_slug org
                then ((slugIndex st)(org_slug old := None))(org_slug org \<mapsto> org_id org)
                else slugIndex st),
              organizations := (organizations st)(org_id org \<mapsto> org)\<rparr>"
    using assms(3) by (auto simp: SaveOrganization_def Let_def split: option.splits if_splits)
  have o: "orgs_inv st" using assms(1) by (simp add: kstate_inv_def)
  have own: "slugIndex st (org_slug old) = Some (org_id org)" using orgs_invD[OF o old] by simp
  have "orgs_inv st'"
  proof (rule orgs_invI)
    fix i o' assume a: "organizations st' i = Some o'"
    show "org_id o' = i \<and> org_inv o' \<and> slugIndex st' (org_slug o') = Some i"
    proof (cases "i = org_id org")
      case True
      with a own assms(2) show ?thesis by (auto simp: st')
    next
      case False
      with a have b: "organizations st i = Some o'" by (simp add: st')
      note c = orgs_invD[OF o b]
      have "org_slug o' \<noteq> org_slug old" "org_slug o' \<noteq> org_slug org"
        using c own slug[of i] False by auto
      with c show ?thesis by (simp add: st')
    qed
  next
    fix t i assume a: "slugIndex st' t = Some i"
    show "\<exists>o'. organizations st' i = Some o' \<and> org_slug o' = t"
    proof (cases "t = org_slug org")
      case True
      with a slug[of i] show ?thesis by (auto simp: st' split: if_splits)
    next
      case False
      with a have b: "slugIndex st t = Some i" and "t \<noteq> org_slug old"
        by (auto simp: st' split: if_splits)
      moreover obtain o' where o': "organizations st i = Some o'" "org_slug o' = t"
        using orgs_inv_slugD[OF o b] by blast
      ultimately have "i \<noteq> org_id org" using old by auto
      with o' show ?thesis by (simp add: st')
    qed
  qed
  with assms(1) show ?thesis by (simp add: kstate_inv_def st')
qed

lemma InsertOperation_inv:
  "kstate_inv st \<Longrightarrow> operation_inv op \<Longrightarrow> InsertOperation op st = Inr st' \<Longrightarrow> kstate_inv st'"
  by (auto simp: kstate_inv_def ops_inv_def InsertOperation_def split: if_splits)

lemma SaveOperation_inv:
  "kstate_inv st \<Longrightarrow> operation_inv op \<Longrightarrow> SaveOperation op n st = Inr st' \<Longrightarrow> kstate_inv st'"
  by (auto simp: kstate_inv_def ops_inv_def SaveOperation_def split: if_splits option.splits)

lemma ClaimIdempotency_inv:
  "kstate_inv st \<Longrightarrow> ClaimIdempotency r st = Inr (x, st') \<Longrightarrow> kstate_inv st'"
  by (auto simp: kstate_inv_def idem_inv_def ClaimIdempotency_def Let_def split: if_splits option.splits)

lemma CompleteIdempotency_inv:
  "kstate_inv st \<Longrightarrow> CompleteIdempotency scope key oid resp now st = Inr st' \<Longrightarrow> kstate_inv st'"
  by (auto simp: kstate_inv_def idem_inv_def CompleteIdempotency_def Let_def split: if_splits option.splits)

lemma AppendOutbox_inv:
  assumes "kstate_inv st" and "outbox_record_inv r" and "AppendOutbox r st = Inr st'"
  shows "kstate_inv st'"
proof -
  have st': "outbox st (ev_id (ob_event r)) = None"
    "st' = st\<lparr>outbox := (outbox st)(ev_id (ob_event r) \<mapsto> r),
               outboxOrder := outboxOrder st @ [ev_id (ob_event r)]\<rparr>"
    using assms(3) by (auto simp: AppendOutbox_def Let_def split: if_splits)
  have "outbox_inv st" using assms(1) by (simp add: kstate_inv_def)
  with st' assms(2) have "outbox_inv st'" by (auto simp: outbox_inv_def domIff)
  with assms(1) show ?thesis by (simp add: kstate_inv_def st'(2))
qed

lemma outbox_invD:
  "kstate_inv st \<Longrightarrow> outbox st i = Some r \<Longrightarrow>
   ev_id (ob_event r) = i \<and> outbox_record_inv r \<and> i \<in> set (outboxOrder st)"
  by (auto simp: kstate_inv_def outbox_inv_def)

lemma outbox_replace_inv:
  assumes "kstate_inv st" and "outbox st i = Some r" and "ob_event r' = ob_event r"
    and "outbox_record_inv r'"
  shows "kstate_inv (st\<lparr>outbox := (outbox st)(i \<mapsto> r')\<rparr>)"
proof -
  have "outbox_inv st" using assms(1) by (simp add: kstate_inv_def)
  with assms(2-4) have "outbox_inv (st\<lparr>outbox := (outbox st)(i \<mapsto> r')\<rparr>)"
    by (auto simp: outbox_inv_def)
  with assms(1) show ?thesis by (simp add: kstate_inv_def)
qed

lemma MarkOutboxPublished_inv:
  assumes "kstate_inv st" and "MarkOutboxPublished i now st = Inr st'"
  shows "kstate_inv st'"
proof (cases "st' = st")
  case False
  then obtain r where r: "outbox st i = Some r" and st': "st' = st\<lparr>outbox := (outbox st)(i \<mapsto>
      r\<lparr>ob_state := OutboxPublished, ob_published_at := Some now, ob_lease_until := None,
        ob_last_error := []\<rparr>)\<rparr>"
    using assms(2) by (auto simp: MarkOutboxPublished_def split: option.splits if_splits)
  from outbox_invD[OF assms(1) r] show ?thesis unfolding st'
    by (intro outbox_replace_inv[OF assms(1) r]) (auto simp: outbox_record_inv_def)
qed (use assms(1) in simp)

lemma MarkOutboxPending_inv:
  assumes "kstate_inv st" and "MarkOutboxPending i err st = Inr st'"
  shows "kstate_inv st'"
proof -
  obtain r where r: "outbox st i = Some r" "ob_state r \<noteq> OutboxPublished"
    and st': "st' = st\<lparr>outbox := (outbox st)(i \<mapsto> r\<lparr>ob_state := OutboxPending,
      ob_attempts := ob_attempts r + 1, ob_lease_until := None, ob_last_error := err\<rparr>)\<rparr>"
    using assms(2) by (auto simp: MarkOutboxPending_def split: option.splits if_splits)
  from outbox_invD[OF assms(1) r(1)] r(2) show ?thesis unfolding st'
    by (intro outbox_replace_inv[OF assms(1) r(1)]) (auto simp: outbox_record_inv_def)
qed

lemma InsertInbox_inv: "kstate_inv st \<Longrightarrow> InsertInbox r st = Inr st' \<Longrightarrow> kstate_inv st'"
  by (auto simp: kstate_inv_def inbox_inv_def InsertInbox_def split: if_splits)

lemma AppendAudit_inv: "kstate_inv st \<Longrightarrow> AppendAudit r st = Inr st' \<Longrightarrow> kstate_inv st'"
  by (force simp: kstate_inv_def audit_inv_def AppendAudit_def list_ex_iff cloneAudit_def
      split: if_splits)

section \<open>Claiming from the outbox\<close>

definition leased :: "gotime \<Rightarrow> int \<Rightarrow> outbox_record \<Rightarrow> outbox_record" where
  "leased now lease r = r\<lparr>ob_state := OutboxDispatching, ob_lease_until := Some (now + lease)\<rparr>"

definition eligible_ids ::
  "gotime \<Rightarrow> (string \<rightharpoonup> outbox_record) \<Rightarrow> string list \<Rightarrow> string list" where
  "eligible_ids now tbl order =
     filter (\<lambda>i. case tbl i of None \<Rightarrow> False | Some r \<Rightarrow> outbox_eligible now r) order"

lemma eligible_ids_upd: "i \<notin> set order \<Longrightarrow> eligible_ids now (tbl(i \<mapsto> r)) order = eligible_ids now tbl order"
  by (auto simp: eligible_ids_def intro!: filter_cong)

lemma eligible_ids_mem:
  "i \<in> set (eligible_ids now tbl order) \<Longrightarrow>
   i \<in> set order \<and> (\<exists>r. tbl i = Some r \<and> outbox_eligible now r)"
  by (cases "tbl i") (auto simp: eligible_ids_def)

lemma claim_loop_spec:
  assumes "distinct order" and "int (length claimed) \<le> limit"
    and "ids = take (nat limit - length claimed) (eligible_ids now tbl order)"
  shows "claim_loop limit now lease order tbl claimed =
           (\<lambda>i. if i \<in> set ids then map_option (leased now lease) (tbl i) else tbl i,
            claimed @ map (\<lambda>i. leased now lease (the (tbl i))) ids)"
  using assms
proof (induction order arbitrary: tbl claimed ids)
  case Nil
  then show ?case by (simp add: eligible_ids_def)
next
  case (Cons e order)
  show ?case
  proof (cases "int (length claimed) = limit")
    case True
    with Cons.prems show ?thesis by simp
  next
    case False
    with Cons.prems(2) have room: "int (length claimed) < limit" by simp
    show ?thesis
    proof (cases "\<exists>r. tbl e = Some r \<and> outbox_eligible now r")
      case False
      then have "claim_loop limit now lease (e # order) tbl claimed =
                 claim_loop limit now lease order tbl claimed"
        using room by (auto split: option.split)
      moreover have "eligible_ids now tbl (e # order) = eligible_ids now tbl order"
        using False by (auto simp: eligible_ids_def split: option.split)
      ultimately show ?thesis using Cons by simp
    next
      case True
      then obtain r where r: "tbl e = Some r" "outbox_eligible now r" by blast
      define ids' where "ids' = take (nat limit - length (claimed @ [leased now lease r]))
                                  (eligible_ids now tbl order)"
      have "e \<notin> set order" using Cons.prems(1) by simp
      then have el: "eligible_ids now (tbl(e \<mapsto> leased now lease r)) order = eligible_ids now tbl order"
        by (rule eligible_ids_upd)
      have sub: "set ids' \<subseteq> set order"
        unfolding ids'_def by (auto simp: eligible_ids_def dest: in_set_takeD)
      with \<open>e \<notin> set order\<close> have e: "e \<notin> set ids'" by blast
      have n: "nat limit - length claimed = Suc (nat limit - length (claimed @ [leased now lease r]))"
        using room by simp
      have ids: "ids = e # ids'"
        unfolding Cons.prems(3) n ids'_def using r by (simp add: eligible_ids_def)
      have "claim_loop limit now lease (e # order) tbl claimed =
            claim_loop limit now lease order (tbl(e \<mapsto> leased now lease r))
              (claimed @ [leased now lease r])"
        using room r by (simp add: Let_def leased_def)
      also have "\<dots> = (\<lambda>i. if i \<in> set ids' then map_option (leased now lease) ((tbl(e \<mapsto> leased now lease r)) i)
                          else (tbl(e \<mapsto> leased now lease r)) i,
            (claimed @ [leased now lease r]) @
              map (\<lambda>i. leased now lease (the ((tbl(e \<mapsto> leased now lease r)) i))) ids')"
      proof (rule Cons.IH)
        show "ids' = take (nat limit - length (claimed @ [leased now lease r]))
          (eligible_ids now (tbl(e \<mapsto> leased now lease r)) order)"
          unfolding el ids'_def ..
      qed (use Cons.prems(1) room in simp_all)
      finally show ?thesis
        using r e by (auto simp: ids fun_eq_iff cong: map_cong)
    qed
  qed
qed

lemma ClaimOutbox_spec:
  assumes "kstate_inv st" and "0 < limit" and "ClaimOutbox limit now lease st = Inr (claimed, st')"
  shows "map (ev_id \<circ> ob_event) claimed =
           take (nat limit) (eligible_ids now (outbox st) (outboxOrder st)) \<and>
         (\<forall>r \<in> set claimed. ob_state r = OutboxDispatching \<and> ob_lease_until r = Some (now + lease) \<and>
            outbox st' (ev_id (ob_event r)) = Some r) \<and>
         (\<forall>i. i \<notin> (ev_id \<circ> ob_event) ` set claimed \<longrightarrow> outbox st' i = outbox st i) \<and>
         outboxOrder st' = outboxOrder st"
proof -
  define ids where "ids = take (nat limit) (eligible_ids now (outbox st) (outboxOrder st))"
  have "distinct (outboxOrder st)" using assms(1) by (simp add: kstate_inv_def outbox_inv_def)
  note loop = claim_loop_spec[OF this, of "[]" limit ids now "outbox st" lease]
  have c: "claimed = map (\<lambda>i. leased now lease (the (outbox st i))) ids"
    and st': "st' = st\<lparr>outbox := (\<lambda>i. if i \<in> set ids then map_option (leased now lease) (outbox st i)
                                   else outbox st i)\<rparr>"
    using assms(2,3) loop by (auto simp: ClaimOutbox_def ids_def)
  have key: "\<exists>r. outbox st i = Some r \<and> ev_id (ob_event r) = i" if "i \<in> set ids" for i
  proof -
    have "i \<in> set (eligible_ids now (outbox st) (outboxOrder st))"
      using that unfolding ids_def by (rule in_set_takeD)
    then obtain r where "outbox st i = Some r" by (blast dest: eligible_ids_mem)
    with outbox_invD[OF assms(1)] show ?thesis by blast
  qed
  have "(ev_id \<circ> ob_event) (leased now lease (the (outbox st i))) = i" if "i \<in> set ids" for i
    using key[OF that] by (auto simp: leased_def)
  then have m: "map (ev_id \<circ> ob_event) claimed = ids" unfolding c by (simp add: map_idI)
  moreover have "ob_state r = OutboxDispatching \<and> ob_lease_until r = Some (now + lease) \<and>
      outbox st' (ev_id (ob_event r)) = Some r" if "r \<in> set claimed" for r
  proof -
    from that obtain i where i: "i \<in> set ids" "r = leased now lease (the (outbox st i))"
      unfolding c by auto
    with key[OF i(1)] show ?thesis by (auto simp: leased_def st')
  qed
  moreover have "set ids = (ev_id \<circ> ob_event) ` set claimed" using m by (metis set_map)
  ultimately show ?thesis by (auto simp: st' ids_def)
qed

text \<open>
  A dispatcher claims the oldest eligible events first, at most as many as it asked for:
  those are leased to it until the lease runs out, and no other record changes. An event that
  was published, or that another dispatcher holds under a running lease, is never claimed.
\<close>
lemma ClaimOutbox_fifo:
  assumes "kstate_inv st" and "0 < limit" and "ClaimOutbox limit now lease st = Inr (claimed, st')"
  shows "map (ev_id \<circ> ob_event) claimed =
           take (nat limit) (eligible_ids now (outbox st) (outboxOrder st)) \<and>
         (\<forall>r \<in> set claimed. ob_state r = OutboxDispatching \<and> ob_lease_until r = Some (now + lease) \<and>
            outbox st' (ev_id (ob_event r)) = Some r) \<and>
         (\<forall>i. i \<notin> (ev_id \<circ> ob_event) ` set claimed \<longrightarrow> outbox st' i = outbox st i) \<and>
         outboxOrder st' = outboxOrder st"
  using assms by (rule ClaimOutbox_spec)

lemma ClaimOutbox_effect:
  assumes "kstate_inv st" and "ClaimOutbox limit now lease st = Inr (claimed, st')"
  obtains ids where "\<And>i. i \<in> ids \<Longrightarrow> \<exists>r. outbox st i = Some r \<and> outbox_eligible now r"
    and "st' = st\<lparr>outbox := (\<lambda>i. if i \<in> ids then map_option (leased now lease) (outbox st i)
                            else outbox st i)\<rparr>"
proof (cases "limit \<le> 0")
  case False
  define ids where "ids = take (nat limit) (eligible_ids now (outbox st) (outboxOrder st))"
  have "distinct (outboxOrder st)" using assms(1) by (simp add: kstate_inv_def outbox_inv_def)
  note loop = claim_loop_spec[OF this, of "[]" limit ids now "outbox st" lease]
  show ?thesis
  proof (rule that)
    show "st' = st\<lparr>outbox := (\<lambda>i. if i \<in> set ids then map_option (leased now lease) (outbox st i)
                            else outbox st i)\<rparr>"
      using False assms(2) loop by (auto simp: ClaimOutbox_def ids_def)
    show "\<exists>r. outbox st i = Some r \<and> outbox_eligible now r" if "i \<in> set ids" for i
      using that eligible_ids_mem[of i now "outbox st" "outboxOrder st"] unfolding ids_def
      by (auto dest!: in_set_takeD)
  qed
next
  case True
  with assms(2) show ?thesis by (intro that[of "{}"]) (auto simp: ClaimOutbox_def)
qed

lemma ClaimOutbox_inv:
  assumes "kstate_inv st" and "ClaimOutbox limit now lease st = Inr (claimed, st')"
  shows "kstate_inv st'"
  using assms
proof (cases rule: ClaimOutbox_effect)
  case (1 ids)
  have o: "outbox_inv st" using assms(1) by (simp add: kstate_inv_def)
  have el: "\<exists>r. outbox st i = Some r \<and> ob_state r \<noteq> OutboxPublished" if "i \<in> ids" for i
    using 1(1)[OF that] by (auto simp: outbox_eligible_def)
  have "outbox_inv st'" unfolding outbox_inv_def
  proof (intro conjI allI impI)
    show "distinct (outboxOrder st')" "set (outboxOrder st') = dom (outbox st')"
      using o by (auto simp: 1(2) outbox_inv_def dom_def)
    fix i r assume r: "outbox st' i = Some r"
    then obtain r0 where r0: "outbox st i = Some r0" by (auto simp: 1(2) split: if_splits)
    with o have inv: "ev_id (ob_event r0) = i" "outbox_record_inv r0" by (auto simp: outbox_inv_def)
    from r r0 inv el[of i] show "ev_id (ob_event r) = i" "outbox_record_inv r"
      by (auto simp: 1(2) leased_def outbox_record_inv_def split: if_splits)
  qed
  with assms(1) show ?thesis by (simp add: kstate_inv_def 1(2))
qed

section \<open>A concrete store\<close>

definition sample_event :: "string \<Rightarrow> event" where
  "sample_event i = \<lparr>ev_id = i, ev_type = ''kernel.sample.v1'', ev_version = 1, ev_tenant = ''org_1'',
     ev_aggregate_id = ''a'', ev_correlation_id = ''corr'', ev_causation_id = [],
     ev_occurred_at = 5, ev_payload = VNull\<rparr>"

definition sample_record :: "string \<Rightarrow> outbox_record" where
  "sample_record i = \<lparr>ob_event = sample_event i, ob_state = OutboxPending, ob_attempts = 0,
     ob_lease_until = None, ob_last_error = [], ob_created_at = 5, ob_published_at = None\<rparr>"

definition sample_store :: kstate where
  "sample_store = newState
     \<lparr>organizations := [''org_1'' \<mapsto> acme], slugIndex := [''acme'' \<mapsto> ''org_1''],
      outbox := [''e1'' \<mapsto> sample_record ''e1'', ''e2'' \<mapsto> sample_record ''e2''],
      outboxOrder := [''e1'', ''e2'']\<rparr>"

lemma sample_store_inv: "kstate_inv sample_store"
  using acme_inv(1)
  by (auto simp: kstate_inv_defs sample_store_def newState_def acme_def sample_record_def
      sample_event_def outbox_record_inv_def)

theorem organization_no_lost_update_witness:
  "\<exists>st1 e. SaveOrganization acme_invited 1 sample_store = Inr st1 \<and>
     SaveOrganization (acme\<lparr>org_version := 2, org_name := ''Acme 2''\<rparr>) 1 st1 = Inl e"
proof -
  have get: "GetOrganization ''org_1'' sample_store = Inr acme"
    by (simp add: GetOrganization_def sample_store_def)
  obtain st1 where save: "SaveOrganization acme_invited (org_version acme) sample_store = Inr st1"
    by (simp add: SaveOrganization_def sample_store_def acme_def acme_invited_def newState_def)
  have "org_version acme = 1" "org_version acme_invited \<noteq> org_version acme"
    "org_id acme_invited = ''org_1''" "org_id (acme\<lparr>org_version := 2, org_name := ''Acme 2''\<rparr>) = ''org_1''"
    by (simp_all add: acme_def acme_invited_def)
  with organization_no_lost_update[OF get save] save show ?thesis by metis
qed

lemma ClaimOutbox_fifo_witness:
  "\<exists>claimed st'. ClaimOutbox 1 10 30 sample_store = Inr (claimed, st') \<and>
     map (ev_id \<circ> ob_event) claimed = [''e1'']"
proof -
  obtain claimed st' where c: "ClaimOutbox 1 10 30 sample_store = Inr (claimed, st')"
    by (cases "claim_loop 1 10 30 (outboxOrder sample_store) (outbox sample_store) []")
      (simp add: ClaimOutbox_def)
  have "take (nat 1) (eligible_ids 10 (outbox sample_store) (outboxOrder sample_store)) = [''e1'']"
    by (simp add: eligible_ids_def sample_store_def sample_record_def outbox_eligible_def)
  with ClaimOutbox_fifo[OF sample_store_inv _ c] c show ?thesis by simp
qed

end
