(* ===== verification/Kernel_Authorization.thy ===== *)
theory Kernel_Authorization
  imports Kernel_Organization
begin

text \<open>
  Authorization (\<open>internal/kernel/authorization.go\<close>): the actions, the actions each role
  permits, and the policy that every command of the kernel asks.
\<close>

abbreviation "ActionOrganizationCreate \<equiv> ''kernel.organization.create''"
abbreviation "ActionOrganizationRead \<equiv> ''kernel.organization.read''"
abbreviation "ActionMembershipInvite \<equiv> ''kernel.membership.invite''"
abbreviation "ActionMembershipAccept \<equiv> ''kernel.membership.accept''"
abbreviation "ActionMembershipManage \<equiv> ''kernel.membership.manage''"
abbreviation "ActionAuditRead \<equiv> ''kernel.audit.read''"
abbreviation "ActionOperationStart \<equiv> ''kernel.operation.start''"
abbreviation "ActionOperationCancel \<equiv> ''kernel.operation.cancel''"
abbreviation "ActionOperationRead \<equiv> ''kernel.operation.read''"

fun roleActions :: "membership_role \<Rightarrow> string list option" where
  "roleActions RoleOwner =
     Some [ActionOrganizationRead, ActionMembershipInvite, ActionMembershipManage,
           ActionAuditRead, ActionOperationStart, ActionOperationCancel, ActionOperationRead]"
| "roleActions RoleAdmin =
     Some [ActionOrganizationRead, ActionMembershipInvite, ActionMembershipManage,
           ActionAuditRead, ActionOperationStart, ActionOperationCancel, ActionOperationRead]"
| "roleActions RoleDeveloper =
     Some [ActionOrganizationRead, ActionOperationStart, ActionOperationRead]"
| "roleActions RoleViewer = Some [ActionOrganizationRead, ActionOperationRead]"
| "roleActions (RoleOther _) = None"

definition Policy_Check ::
  "principal \<Rightarrow> string \<Rightarrow> resource_ref \<Rightarrow> organization option \<Rightarrow> kerror + unit" where
  "Policy_Check pr action resource organization =
     (case Principal_Validate pr of
        Inl _ \<Rightarrow> Inl (forbidden ''invalid principal'')
      | Inr _ \<Rightarrow>
     (case Resource_Validate resource of
        Inl _ \<Rightarrow> Inl (forbidden ''invalid resource context'')
      | Inr _ \<Rightarrow>
     if blank action \<or> \<not> HasScope pr action
       then Inl (forbidden ''principal does not have the required scope'')
     else if p_tenant pr = [] \<or> p_tenant pr \<noteq> r_tenant resource
       then Inl (forbidden ''cross-tenant access is denied'')
     else (case organization of
        None \<Rightarrow> Inl (forbidden ''tenant resource is unavailable'')
      | Some org \<Rightarrow>
     if org_id org \<noteq> r_tenant resource
       then Inl (forbidden ''tenant resource is unavailable'')
     else (case map_of (org_memberships org) (p_id pr) of
        None \<Rightarrow> Inl (forbidden ''active membership is required'')
      | Some m \<Rightarrow>
     if mb_state m \<noteq> MembershipActive
       then Inl (forbidden ''active membership is required'')
     else (case roleActions (mb_role m) of
        None \<Rightarrow> Inl (forbidden ''membership role is not recognized'')
      | Some allowed \<Rightarrow>
     if action \<notin> set allowed
       then Inl (forbidden ''membership role does not permit the action'')
     else Inr ())))))"

section \<open>What the policy grants\<close>

lemma Policy_Check_error:
  "Policy_Check p a r org = Inl e \<Longrightarrow> ErrorCode e = CodeForbidden"
  by (auto simp: Policy_Check_def error_defs split: sum.splits option.splits if_splits)

definition role_permits :: "membership_role \<Rightarrow> string \<Rightarrow> bool" where
  "role_permits role action \<longleftrightarrow>
     (\<exists>allowed. roleActions role = Some allowed \<and> action \<in> set allowed)"

lemma Policy_Check_Inr:
  "Policy_Check p a r org = Inr u \<longleftrightarrow>
     Principal_Validate p = Inr () \<and> Resource_Validate r = Inr () \<and> \<not> blank a \<and>
     HasScope p a \<and> p_tenant p \<noteq> [] \<and> p_tenant p = r_tenant r \<and>
     (\<exists>o' m. org = Some o' \<and> org_id o' = r_tenant r \<and>
        map_of (org_memberships o') (p_id p) = Some m \<and> mb_state m = MembershipActive \<and>
        role_permits (mb_role m) a)"
  by (auto simp: Policy_Check_def role_permits_def split: sum.splits option.splits)

text \<open>
  The policy allows an action exactly when the principal and the resource are well formed,
  a scope of the principal covers the action, the principal acts in the tenant that owns the
  resource, and it is an active member of that tenant whose role lists the action.
\<close>
lemma policy_allows_iff:
  "Policy_Check p a r org = Inr () \<longleftrightarrow>
     Principal_Validate p = Inr () \<and> Resource_Validate r = Inr () \<and> \<not> blank a \<and>
     (\<exists>s \<in> set (p_scopes p). scope_covers (TrimSpace s) a) \<and>
     p_tenant p \<noteq> [] \<and> p_tenant p = r_tenant r \<and>
     (\<exists>o' m allowed. org = Some o' \<and> org_id o' = p_tenant p \<and>
        map_of (org_memberships o') (p_id p) = Some m \<and> mb_state m = MembershipActive \<and>
        roleActions (mb_role m) = Some allowed \<and> a \<in> set allowed)"
  unfolding Policy_Check_Inr HasScope_def has_scope_loop_iff scope_grants_iff role_permits_def
  by auto

text \<open>The administrative actions are for owners and admins only.\<close>

lemma admin_actions:
  "role_permits role a \<Longrightarrow>
   a \<in> {ActionMembershipInvite, ActionMembershipManage, ActionAuditRead, ActionOperationCancel} \<Longrightarrow>
   role = RoleOwner \<or> role = RoleAdmin"
  by (cases role) (auto simp: role_permits_def)

lemma policy_allows_iff_witness:
  "Policy_Check \<lparr>p_id = ''bob'', p_tenant = ''org_1'', p_kind = KindUser,
       p_scopes = [''kernel:*'']\<rparr> ActionMembershipManage
     \<lparr>r_tenant = ''org_1'', r_type = ''membership'', r_id = ''carol''\<rparr> (Some acme_joined) = Inr ()"
proof -
  have "TrimSpace ''bob'' = ''bob''" "TrimSpace ''org_1'' = ''org_1''"
    "TrimSpace ''membership'' = ''membership''" "TrimSpace ''carol'' = ''carol''"
    "TrimSpace ''kernel:*'' = ''kernel:*''" "TrimSpace ActionMembershipManage = ActionMembershipManage"
    by code_simp+
  moreover have "scope_covers ''kernel:*'' ActionMembershipManage"
    unfolding scope_covers_def
    by (intro disjI2 exI[of _ "''kernel''"] exI[of _ "''membership.manage''"]) simp
  ultimately show ?thesis
    unfolding policy_allows_iff
    by (simp add: Principal_Validate_def Resource_Validate_def acme_joined_def acme_def)
qed

end
