(* ===== verification/Go_Transactions.thy ===== *)
theory Go_Transactions
  imports Go_Prelude
begin

text \<open>
  Transactions over the store of a service, whatever the store holds: the state a service
  changes, the operations of a transaction on the store, and a calculus for what the successful
  runs of a transaction leave behind.
\<close>

section \<open>The state of a service\<close>

text \<open>
  The store, and how often the identifier generator and the clock have been asked: both are
  functions of that number in the environment of a call, so that any sequence of identifiers and
  instants is covered.
\<close>

record 'db world =
  db :: 'db
  id_seq :: nat
  clk_seq :: nat

type_synonym ('db, 'e, 'a) tx = "('db world, 'e, 'a) act"

section \<open>Operations on the store\<close>

definition tx_read :: "('db \<Rightarrow> 'e + 'a) \<Rightarrow> ('db, 'e, 'a) tx" where
  "tx_read f = (\<lambda>w. (f (db w), w))"

definition tx_write :: "('db \<Rightarrow> 'e + 'db) \<Rightarrow> ('db, 'e, unit) tx" where
  "tx_write f = (\<lambda>w. case f (db w) of Inl e \<Rightarrow> (Inl e, w) | Inr st \<Rightarrow> (Inr (), w\<lparr>db := st\<rparr>))"

definition tx_update :: "('db \<Rightarrow> 'e + 'a \<times> 'db) \<Rightarrow> ('db, 'e, 'a) tx" where
  "tx_update f =
     (\<lambda>w. case f (db w) of Inl e \<Rightarrow> (Inl e, w) | Inr (a, st) \<Rightarrow> (Inr a, w\<lparr>db := st\<rparr>))"

text \<open>A read that cannot fail.\<close>

definition tx_get :: "('db \<Rightarrow> 'a) \<Rightarrow> ('db, 'e, 'a) tx" where
  "tx_get f = (\<lambda>w. (Inr (f (db w)), w))"

lemma tx_get_run [act_simps]: "tx_get f w = (Inr (f (db w)), w)"
  by (simp add: tx_get_def)

lemma tx_read_run [act_simps]: "tx_read f w = (f (db w), w)"
  by (simp add: tx_read_def)

lemma tx_write_run [act_simps]:
  "tx_write f w = (case f (db w) of Inl e \<Rightarrow> (Inl e, w) | Inr st \<Rightarrow> (Inr (), w\<lparr>db := st\<rparr>))"
  by (simp add: tx_write_def)

lemma tx_update_run [act_simps]:
  "tx_update f w =
     (case f (db w) of Inl e \<Rightarrow> (Inl e, w) | Inr (a, st) \<Rightarrow> (Inr a, w\<lparr>db := st\<rparr>))"
  by (simp add: tx_update_def)

section \<open>Reasoning about transactions\<close>

text \<open>
  \<open>keeps_db P m\<close>: \<open>m\<close> keeps \<open>P\<close> of the store, whatever it returns. Inside a transaction only
  successful runs matter, since any other is rolled back: \<open>triple P m Q\<close> says that a run from a
  store with \<open>P\<close> that returns \<open>a\<close> leaves a store with \<open>Q a\<close>.
\<close>

abbreviation keeps_db :: "('db \<Rightarrow> bool) \<Rightarrow> ('db, 'e, 'a) tx \<Rightarrow> bool" where
  "keeps_db P m \<equiv> keeps (\<lambda>w. P (db w)) m"

definition triple :: "('db \<Rightarrow> bool) \<Rightarrow> ('db, 'e, 'a) tx \<Rightarrow> ('a \<Rightarrow> 'db \<Rightarrow> bool) \<Rightarrow> bool" where
  "triple P m Q \<longleftrightarrow> (\<forall>w a w'. P (db w) \<longrightarrow> m w = (Inr a, w') \<longrightarrow> Q a (db w'))"

lemma tripleD: "triple P m Q \<Longrightarrow> m w = (Inr a, w') \<Longrightarrow> P (db w) \<Longrightarrow> Q a (db w')"
  by (auto simp: triple_def)

lemma triple_post: "triple P m R \<Longrightarrow> (\<And>a st. R a st \<Longrightarrow> Q a st) \<Longrightarrow> triple P m Q"
  by (auto simp: triple_def)

lemma triple_pre: "triple R m Q \<Longrightarrow> (\<And>st. P st \<Longrightarrow> R st) \<Longrightarrow> triple P m Q"
  by (auto simp: triple_def)

text \<open>A fact that no state occurs in may be moved out of the precondition.\<close>

lemma triple_fact: "(F \<Longrightarrow> triple P m Q) \<Longrightarrow> triple (\<lambda>st. P st \<and> F) m Q"
  by (auto simp: triple_def)

lemma triple_ret: "(\<And>st. P st \<Longrightarrow> Q a st) \<Longrightarrow> triple P (ret a) Q"
  by (auto simp: triple_def ret_def)

lemma triple_throw: "triple P (throw e) Q"
  by (auto simp: triple_def throw_def)

lemma triple_bind:
  "triple P m R \<Longrightarrow> (\<And>a. triple (R a) (k a) Q) \<Longrightarrow> triple P (bindE m k) Q"
  by (fastforce simp: triple_def)

lemma triple_seq: "triple P m (\<lambda>_. R) \<Longrightarrow> triple R k Q \<Longrightarrow> triple P (seqE m k) Q"
  unfolding seqE_def by (rule triple_bind)

lemma triple_bind_result:
  "(\<And>a. r = Inr a \<Longrightarrow> triple P (k a) Q) \<Longrightarrow> triple P (bindE (of_result r) k) Q"
  by (auto simp: triple_def of_result_def)

lemma triple_bind_read:
  "(\<And>a. triple (\<lambda>st. P st \<and> f st = Inr a) (k a) Q) \<Longrightarrow> triple P (bindE (tx_read f) k) Q"
  by (rule triple_bind[where R = "\<lambda>a st. P st \<and> f st = Inr a"])
    (auto simp: triple_def tx_read_def)

lemma triple_bind_get:
  "(\<And>a. triple (\<lambda>st. P st \<and> f st = a) (k a) Q) \<Longrightarrow> triple P (bindE (tx_get f) k) Q"
  by (rule triple_bind[where R = "\<lambda>a st. P st \<and> f st = a"]) (auto simp: triple_def tx_get_def)

lemma triple_bind_attempt_read:
  "(\<And>e. triple P (k (Inl e)) Q) \<Longrightarrow>
   (\<And>a. triple (\<lambda>st. P st \<and> f st = Inr a) (k (Inr a)) Q) \<Longrightarrow>
   triple P (bindE (attempt (tx_read f)) k) Q"
  unfolding triple_def bindE_Inr by (auto simp: tx_read_def attempt_def) (metis old.sum.exhaust)

lemma triple_write:
  "(\<And>st st'. P st \<Longrightarrow> f st = Inr st' \<Longrightarrow> Q st') \<Longrightarrow> triple P (tx_write f) (\<lambda>_. Q)"
  by (auto simp: triple_def tx_write_def split: sum.splits)

lemma triple_bind_attempt_write:
  assumes "\<And>st st'. P st \<Longrightarrow> f st = Inr st' \<Longrightarrow> R st'"
    and "\<And>e. triple P (k (Inl e)) Q" and "\<And>u. triple R (k (Inr u)) Q"
  shows "triple P (bindE (attempt (tx_write f)) k) Q"
proof (unfold triple_def, intro allI impI)
  fix w a w' assume p: "P (db w)" and run: "bindE (attempt (tx_write f)) k w = (Inr a, w')"
  show "Q a (db w')"
  proof (cases "f (db w)")
    case (Inl e)
    with run have "k (Inl e) w = (Inr a, w')" by (auto simp: attempt_def tx_write_def)
    with assms(2) p show ?thesis by (auto dest: tripleD)
  next
    case (Inr st)
    with run have "k (Inr ()) (w\<lparr>db := st\<rparr>) = (Inr a, w')" by (auto simp: attempt_def tx_write_def)
    moreover have "R (db (w\<lparr>db := st\<rparr>))" using assms(1)[OF p Inr] by simp
    ultimately show ?thesis using assms(3) by (blast dest: tripleD)
  qed
qed

lemma triple_bind_update:
  assumes "\<And>st a st'. P st \<Longrightarrow> f st = Inr (a, st') \<Longrightarrow> R a st'" and "\<And>a. triple (R a) (k a) Q"
  shows "triple P (bindE (tx_update f) k) Q"
proof (rule triple_bind[where R = R])
  show "triple P (tx_update f) R"
    using assms(1) by (auto simp: triple_def tx_update_def split: sum.splits)
qed (rule assms(2))

text \<open>Branches.\<close>

lemma triple_if:
  "(b \<Longrightarrow> triple P m Q) \<Longrightarrow> (\<not> b \<Longrightarrow> triple P k Q) \<Longrightarrow> triple P (if b then m else k) Q"
  by simp

lemma triple_case_sum:
  "(\<And>e. r = Inl e \<Longrightarrow> triple P (m e) Q) \<Longrightarrow> (\<And>a. r = Inr a \<Longrightarrow> triple P (k a) Q) \<Longrightarrow>
   triple P (case r of Inl e \<Rightarrow> m e | Inr a \<Rightarrow> k a) Q"
  by (cases r) auto

lemma triple_case_option:
  "(x = None \<Longrightarrow> triple P m Q) \<Longrightarrow> (\<And>a. x = Some a \<Longrightarrow> triple P (k a) Q) \<Longrightarrow>
   triple P (case x of None \<Rightarrow> m | Some a \<Rightarrow> k a) Q"
  by (cases x) auto

lemmas triple_branches = triple_if triple_case_sum triple_case_option

section \<open>Symbolic runs\<close>

text \<open>
  In a transaction that starts in \<open>d0\<close> the reads come first: \<open>d = d0\<close> holds until the first
  write, and what the reads returned are facts about \<open>d0\<close>; a write leads to the store it makes.
\<close>

lemma triple_get:
  "triple (\<lambda>d. d = d0) (k (f d0)) Q \<Longrightarrow> triple (\<lambda>d. d = d0) (bindE (tx_get f) k) Q"
  by (auto simp: triple_def tx_get_def)

lemma triple_insert:
  "(\<And>d1. f d0 = Inr d1 \<Longrightarrow> triple (\<lambda>d. d = d1) k Q) \<Longrightarrow>
   triple (\<lambda>d. d = d0) (seqE (tx_write f) k) Q"
  by (rule triple_seq[where R = "\<lambda>d. f d0 = Inr d"])
    (auto simp: triple_def tx_write_def split: sum.splits)

lemma triple_stay: "Q a d0 \<Longrightarrow> triple (\<lambda>d. d = d0) (ret a) Q"
  by (auto intro: triple_ret)

lemma triple_last_write:
  "(\<And>d1. f d0 = Inr d1 \<Longrightarrow> Q () d1) \<Longrightarrow> triple (\<lambda>d. d = d0) (tx_write f) Q"
  by (auto simp: triple_def tx_write_def split: sum.splits)

lemma triple_part:
  "triple (\<lambda>d. d = d0) m R \<Longrightarrow> (\<And>a d1. R a d1 \<Longrightarrow> triple (\<lambda>d. d = d1) (k a) Q) \<Longrightarrow>
   triple (\<lambda>d. d = d0) (bindE m k) Q"
  by (fastforce simp: triple_def)

lemma triple_part_unit:
  "triple (\<lambda>d. d = d0) m (\<lambda>_. R) \<Longrightarrow> (\<And>d1. R d1 \<Longrightarrow> triple (\<lambda>d. d = d1) k Q) \<Longrightarrow>
   triple (\<lambda>d. d = d0) (seqE m k) Q"
  unfolding seqE_def by (rule triple_part)

lemma triple_case_prod:
  "(\<And>a b. x = (a, b) \<Longrightarrow> triple P (k a b) Q) \<Longrightarrow> triple P (case x of (a, b) \<Rightarrow> k a b) Q"
  by (cases x) auto

lemma triple_let: "(\<And>x. x = e \<Longrightarrow> triple P (k x) Q) \<Longrightarrow> triple P (let x = e in k x) Q"
  by (simp add: Let_def)

end
