(* ===== verification/Kernel_Runtime.thy ===== *)
theory Kernel_Runtime
  imports Kernel_Store Kernel_Authorization Go_Transactions
begin

text \<open>
  What the kernel service runs on (\<open>internal/kernel/runtime.go\<close>, \<open>Transact\<close> and \<open>View\<close> of
  \<open>internal/kernel/memory/store.go\<close>): clocks, identifier generators, the request context, and
  transactions over the store.
\<close>

section \<open>Environment\<close>

text \<open>
  The parameters of a call: the tables of package \<open>unicode\<close>, the fingerprint of a payload
  (SHA-256 of its canonical JSON), the identifier the generator returns on its \<open>n\<close>-th call for
  a prefix, the instant the clock shows on its \<open>n\<close>-th reading, and the error the request context
  carries when the transaction starts and when it is about to commit.
\<close>

record kenv =
  uni :: unicode
  CanonicalFingerprint :: "val \<Rightarrow> string"
  ids_New :: "nat \<Rightarrow> string \<Rightarrow> string"
  clock_Now :: "nat \<Rightarrow> gotime"
  ctx_begin :: "kerror option"
  ctx_commit :: "kerror option"

text \<open>The state of the service is the kernel's store with the two counters.\<close>

type_synonym kworld = "kstate world"

type_synonym 'a kact = "(kworld, kerror, 'a) act"

definition Now :: "kenv \<Rightarrow> gotime kact" where
  "Now env = (\<lambda>w. (Inr (clock_Now env (clk_seq w)), w\<lparr>clk_seq := clk_seq w + 1\<rparr>))"

definition New :: "kenv \<Rightarrow> string \<Rightarrow> string kact" where
  "New env prefix = (\<lambda>w. (Inr (ids_New env (id_seq w) prefix), w\<lparr>id_seq := id_seq w + 1\<rparr>))"

text \<open>
  \<open>SequenceIDGenerator\<close>: the prefix, an underscore and the count in at least six digits.
\<close>

fun decimal :: "nat \<Rightarrow> string" where
  "decimal n = (if n < 10 then [char_of (48 + n)] else decimal (n div 10) @ [char_of (48 + n mod 10)])"

declare decimal.simps [simp del]

definition pad6 :: "string \<Rightarrow> string" where
  "pad6 s = replicate (6 - length s) (CHR ''0'') @ s"

definition SequenceID :: "nat \<Rightarrow> string \<Rightarrow> string" where
  "SequenceID n prefix = prefix @ ''_'' @ pad6 (decimal (n + 1))"

section \<open>Transactions\<close>

text \<open>
  \<open>Transact\<close> runs the function on a copy of the store and keeps the copy only when neither the
  function nor the context reports an error; the calls of the clock and of the generator stay.
\<close>

definition Transact :: "kenv \<Rightarrow> 'a kact \<Rightarrow> 'a kact" where
  "Transact env fn = (\<lambda>w.
     case ctx_begin env of
       Some e \<Rightarrow> (Inl e, w)
     | None \<Rightarrow>
         (case fn w of
            (Inl e, w') \<Rightarrow> (Inl e, w'\<lparr>db := db w\<rparr>)
          | (Inr a, w') \<Rightarrow>
              (case ctx_commit env of
                 Some e \<Rightarrow> (Inl e, w'\<lparr>db := db w\<rparr>)
               | None \<Rightarrow> (Inr a, w'))))"

definition View :: "kenv \<Rightarrow> 'a kact \<Rightarrow> 'a kact" where
  "View env fn = (\<lambda>w. case ctx_begin env of Some e \<Rightarrow> (Inl e, w) | None \<Rightarrow> fn w)"

lemma Now_run [act_simps]: "Now env w = (Inr (clock_Now env (clk_seq w)), w\<lparr>clk_seq := clk_seq w + 1\<rparr>)"
  by (simp add: Now_def)

lemma New_run [act_simps]:
  "New env prefix w = (Inr (ids_New env (id_seq w) prefix), w\<lparr>id_seq := id_seq w + 1\<rparr>)"
  by (simp add: New_def)

text \<open>
  A transaction is all or nothing: when it returns an error, from the function, from the
  context before it starts or from the context at the commit, the store is what it was.
\<close>
lemma Transact_error_leaves_no_trace:
  assumes "Transact env fn w = (Inl e, w')"
  shows "db w' = db w"
  using assms by (auto simp: Transact_def split: option.splits prod.splits sum.splits)

lemma transact_Inl: "Transact env fn w = (Inl e, w') \<Longrightarrow> db w' = db w"
  by (auto simp: Transact_def split: option.splits prod.splits sum.splits)

section \<open>Reasoning about transactions\<close>

text \<open>Reading the clock and asking for an identifier leave the store alone.\<close>

lemma triple_bind_Now: "(\<And>t. triple P (k t) Q) \<Longrightarrow> triple P (bindE (Now env) k) Q"
  by (rule triple_bind[where R = "\<lambda>_. P"]) (auto simp: triple_def Now_def)

lemma triple_bind_New: "(\<And>i. triple P (k i) Q) \<Longrightarrow> triple P (bindE (New env prefix) k) Q"
  by (rule triple_bind[where R = "\<lambda>_. P"]) (auto simp: triple_def New_def)

text \<open>A transaction with a kept predicate keeps it whatever happens.\<close>

lemma keeps_Now [keeps_intros]: "keeps_db P (Now env)"
  by (simp add: keeps_def Now_def)

lemma keeps_Transact:
  assumes "triple P m (\<lambda>_. P)"
  shows "keeps_db P (Transact env m)"
proof (rule keepsI)
  fix w :: kworld assume "P (db w)"
  with assms show "P (db (snd (Transact env m w)))"
    by (cases "m w") (auto simp: Transact_def dest: tripleD split: option.splits sum.splits)
qed

lemma Transact_Inr:
  "Transact env m w = (Inr a, w') \<longleftrightarrow>
     m w = (Inr a, w') \<and> ctx_begin env = None \<and> ctx_commit env = None"
  by (auto simp: Transact_def split: option.splits prod.splits sum.splits)

section \<open>A concrete environment\<close>

text \<open>
  Identifiers in sequence, a clock that ticks, a fingerprint that keeps the first text of the
  payload, and a context that never ends.
\<close>

fun first_text :: "val \<Rightarrow> string" where
  "first_text (VObj ((_, VStr s) # _)) = ''fp:'' @ s"
| "first_text _ = ''fp''"

definition demo_env :: kenv where
  "demo_env = \<lparr>uni = ascii_tables, CanonicalFingerprint = first_text,
     ids_New = (\<lambda>n prefix. prefix @ ''_'' @ replicate (n + 1) CHR ''x''), clock_Now = (\<lambda>n. 100 + int n),
     ctx_begin = None, ctx_commit = None\<rparr>"

definition demo_world :: kworld where
  "demo_world = \<lparr>db = sample_store, id_seq = 0, clk_seq = 0\<rparr>"

theorem Transact_error_leaves_no_trace_witness:
  "\<exists>e w'. Transact demo_env (seqE (tx_write (MarkOutboxPublished ''e1'' 50))
            (tx_write (MarkOutboxPublished ''e3'' 50))) demo_world = (Inl e, w') \<and>
     db w' = sample_store"
proof -
  obtain e w' where r: "Transact demo_env (seqE (tx_write (MarkOutboxPublished ''e1'' 50))
            (tx_write (MarkOutboxPublished ''e3'' 50))) demo_world = (Inl e, w')"
    by (simp add: Transact_def demo_env_def demo_world_def act_simps MarkOutboxPublished_def
        sample_store_def newState_def sample_record_def)
  with Transact_error_leaves_no_trace[OF r] show ?thesis by (simp add: demo_world_def)
qed

end
