(* ===== verification/Kernel_Service.thy ===== *)
theory Kernel_Service
  imports Kernel_Runtime
begin

text \<open>
  The kernel service (\<open>internal/kernel/service.go\<close>): the commands on organizations,
  memberships and operations, each claimed under an idempotency key, authorized, executed,
  recorded as an operation, published to the outbox, audited and completed in one transaction.
\<close>

abbreviation "EventOrganizationCreated \<equiv> ''kernel.organization_created.v1''"
abbreviation "EventMembershipChanged \<equiv> ''kernel.membership_changed.v1''"
abbreviation "EventOperationChanged \<equiv> ''kernel.operation_state_changed.v1''"
abbreviation "EventAuditRecorded \<equiv> ''kernel.audit_recorded.v1''"

section \<open>Text of the enumerations\<close>

fun state_text :: "operation_state \<Rightarrow> string" where
  "state_text OperationPending = ''PENDING''"
| "state_text OperationRunning = ''RUNNING''"
| "state_text OperationWaitingExternal = ''WAITING_EXTERNAL''"
| "state_text OperationSucceeded = ''SUCCEEDED''"
| "state_text OperationFailed = ''FAILED''"
| "state_text OperationCanceled = ''CANCELED''"
| "state_text (OperationOther s) = s"

fun role_text :: "membership_role \<Rightarrow> string" where
  "role_text RoleOwner = ''owner''"
| "role_text RoleAdmin = ''admin''"
| "role_text RoleDeveloper = ''developer''"
| "role_text RoleViewer = ''viewer''"
| "role_text (RoleOther s) = s"

fun outcome_text :: "audit_outcome \<Rightarrow> string" where
  "outcome_text AuditSucceeded = ''SUCCEEDED''"
| "outcome_text AuditDenied = ''DENIED''"
| "outcome_text AuditFailed = ''FAILED''"

type_synonym metadata = "(string \<times> val) list"

section \<open>Recording\<close>

definition appendEvent ::
  "kenv \<Rightarrow> string \<Rightarrow> string \<Rightarrow> string \<Rightarrow> command_meta \<Rightarrow> metadata \<Rightarrow> unit kact" where
  "appendEvent env eventType tenantID aggregateID meta payload =
     bindE (New env ''evt'') (\<lambda>eventID.
     bindE (Now env) (\<lambda>occurredAt.
     let ev = \<lparr>ev_id = eventID, ev_type = eventType, ev_version = 1, ev_tenant = tenantID,
               ev_aggregate_id = aggregateID, ev_correlation_id = cm_correlation_id meta,
               ev_causation_id = cm_causation_id meta, ev_occurred_at = occurredAt,
               ev_payload = json_norm (VObj payload)\<rparr> in
     case Event_Validate ev of
       Inl _ \<Rightarrow> throw (WrapError CodeInternal [''Generated domain event is invalid''] False)
     | Inr _ \<Rightarrow>
         bindE (Now env) (\<lambda>createdAt.
         tx_write (AppendOutbox
           \<lparr>ob_event = ev, ob_state = OutboxPending, ob_attempts = 0, ob_lease_until = None,
            ob_last_error = [], ob_created_at = createdAt, ob_published_at = None\<rparr>))))"

definition appendOperationEvent :: "kenv \<Rightarrow> operation \<Rightarrow> command_meta \<Rightarrow> unit kact" where
  "appendOperationEvent env op meta =
     appendEvent env EventOperationChanged (op_tenant op) (op_id op) meta
       [(''operation_id'', VStr (op_id op)), (''kind'', VStr (op_kind op)),
        (''state'', VStr (state_text (op_state op))), (''version'', VInt (op_version op)),
        (''error_code'', VStr (case res_error (op_result op) of None \<Rightarrow> [] | Some e \<Rightarrow> pe_code e))]"

definition appendAudit ::
  "kenv \<Rightarrow> command_meta \<Rightarrow> resource_ref \<Rightarrow> string \<Rightarrow> audit_outcome \<Rightarrow> string \<Rightarrow>
   metadata option \<Rightarrow> unit kact" where
  "appendAudit env meta resource action outcome errorCode metadata =
     bindE (New env ''aud'') (\<lambda>auditID.
     bindE (Now env) (\<lambda>occurredAt.
     let r = \<lparr>au_id = auditID, au_tenant = r_tenant resource, au_actor = cm_principal meta,
              au_action = action, au_resource = resource,
              au_correlation_id = cm_correlation_id meta, au_outcome = outcome,
              au_error_code = errorCode, au_metadata = RedactMetadata (uni env) metadata,
              au_occurred_at = occurredAt\<rparr>;
         payload = [(''audit_id'', VStr auditID), (''actor_id'', VStr (p_id (au_actor r))),
                    (''action'', VStr action),
                    (''resource'', VObj [(''tenant_id'', VStr (r_tenant resource)),
                       (''type'', VStr (r_type resource)), (''id'', VStr (r_id resource))]),
                    (''outcome'', VStr (outcome_text outcome)), (''error_code'', VStr errorCode),
                    (''metadata'', (case au_metadata r of None \<Rightarrow> VNull | Some m \<Rightarrow> VObj m))];
         aggregateID = (if r_id resource = [] then auditID else r_id resource) in
     seqE (tx_write (AppendAudit r))
       (appendEvent env EventAuditRecorded (au_tenant r) aggregateID meta payload)))"

definition recordSuccessfulOperation ::
  "kenv \<Rightarrow> command_meta \<Rightarrow> string \<Rightarrow> string \<Rightarrow> val \<Rightarrow> operation_ref kact" where
  "recordSuccessfulOperation env meta tenantID kind data =
     bindE (New env ''op'') (\<lambda>oid.
     bindE (Now env) (\<lambda>now.
     bindE (of_result (NewOperation oid tenantID kind (cm_correlation_id meta)
                         (cm_causation_id meta) now)) (\<lambda>op.
     seqE (tx_write (InsertOperation op)) (
     seqE (appendOperationEvent env op meta) (
     bindE (Now env) (\<lambda>now1.
     bindE (of_result (Operation_Transition OperationRunning
              \<lparr>res_code = ''RUNNING'', res_data = None, res_error = None\<rparr> now1 op)) (\<lambda>op1.
     seqE (tx_write (SaveOperation op1 (op_version op))) (
     seqE (appendOperationEvent env op1 meta) (
     bindE (Now env) (\<lambda>now2.
     bindE (of_result (Operation_Transition OperationSucceeded
              \<lparr>res_code = ''SUCCEEDED'', res_data = Some (json_norm data), res_error = None\<rparr>
              now2 op1)) (\<lambda>op2.
     seqE (tx_write (SaveOperation op2 (op_version op1))) (
     seqE (appendOperationEvent env op2 meta) (
     ret \<lparr>or_id = op_id op2, or_tenant = op_tenant op2, or_state = op_state op2\<rparr>)))))))))))))"

definition recordFailedOperation ::
  "kenv \<Rightarrow> command_meta \<Rightarrow> string \<Rightarrow> string \<Rightarrow> kerror \<Rightarrow> operation_ref kact" where
  "recordFailedOperation env meta tenantID kind commandErr =
     bindE (New env ''op'') (\<lambda>oid.
     bindE (Now env) (\<lambda>now.
     bindE (of_result (NewOperation oid tenantID kind (cm_correlation_id meta)
                         (cm_causation_id meta) now)) (\<lambda>op.
     seqE (tx_write (InsertOperation op)) (
     seqE (appendOperationEvent env op meta) (
     bindE (Now env) (\<lambda>now1.
     bindE (of_result (Operation_Transition OperationFailed
              \<lparr>res_code = ''FAILED'', res_data = None,
               res_error = Some (ToPublicError commandErr (op_id op))\<rparr> now1 op)) (\<lambda>op1.
     seqE (tx_write (SaveOperation op1 (op_version op))) (
     seqE (appendOperationEvent env op1 meta) (
     ret \<lparr>or_id = op_id op1, or_tenant = op_tenant op1, or_state = op_state op1\<rparr>)))))))))"

section \<open>Claiming and completing a command\<close>

record command_execution =
  ex_scope :: string
  ex_fingerprint :: string
  ex_meta :: command_meta
  ex_action :: string
  ex_resource :: resource_ref

definition prepareCommand ::
  "kenv \<Rightarrow> command_meta \<Rightarrow> string \<Rightarrow> val \<Rightarrow> string \<Rightarrow> resource_ref \<Rightarrow> command_execution" where
  "prepareCommand env meta scope payload action resource =
     \<lparr>ex_scope = scope, ex_fingerprint = CanonicalFingerprint env payload, ex_meta = meta,
      ex_action = action, ex_resource = resource\<rparr>"

text \<open>\<open>None\<close>: claimed by this call; \<open>Some\<close>: the stored response to replay.\<close>

definition claimCommand :: "kenv \<Rightarrow> command_execution \<Rightarrow> stored_response option kact" where
  "claimCommand env ex =
     bindE (Now env) (\<lambda>now.
     bindE (tx_update (ClaimIdempotency
       \<lparr>ir_scope = ex_scope ex, ir_key = cm_idempotency_key (ex_meta ex),
        ir_fingerprint = ex_fingerprint ex, ir_status = IdempotencyStarted, ir_response = None,
        ir_operation_id = [], ir_created_at = now, ir_updated_at = now\<rparr>)) (\<lambda>existing.
     case existing of
       None \<Rightarrow> ret None
     | Some r \<Rightarrow>
         if ir_fingerprint r \<noteq> ex_fingerprint ex
           then throw (NewError CodeIdempotencyConflict
                  [''Idempotency key was already used with a different payload''])
         else if ir_status r \<noteq> IdempotencyCompleted
           then throw (DomainError CodeConflict
                  [''Command with this idempotency key is still in progress''] True None)
         else (case ir_response r of
             None \<Rightarrow> throw (WrapError CodeInternal [''Stored idempotency response is invalid''] False)
           | Some response \<Rightarrow> ret (Some response))))"

definition completeCommand :: "kenv \<Rightarrow> command_execution \<Rightarrow> stored_response \<Rightarrow> unit kact" where
  "completeCommand env ex response =
     bindE (Now env) (\<lambda>now.
     tx_write (CompleteIdempotency (ex_scope ex) (cm_idempotency_key (ex_meta ex))
                 (or_id (sr_operation response)) response now))"

definition recordCommandFailure ::
  "kenv \<Rightarrow> command_execution \<Rightarrow> kerror \<Rightarrow> metadata option \<Rightarrow> stored_response kact" where
  "recordCommandFailure env ex commandErr metadata =
     (let tenantID = (if r_tenant (ex_resource ex) = [] then cm_tenant (ex_meta ex)
                      else r_tenant (ex_resource ex)) in
     bindE (recordFailedOperation env (ex_meta ex) tenantID (cm_command (ex_meta ex)) commandErr)
       (\<lambda>op.
     let publicErr = ToPublicError commandErr (or_id op);
         outcome = (if pe_code publicErr = CodeForbidden then AuditDenied else AuditFailed);
         response = \<lparr>sr_operation = op, sr_payload = None, sr_error = Some publicErr\<rparr> in
     seqE (appendAudit env (ex_meta ex) (ex_resource ex) (ex_action ex) outcome (pe_code publicErr)
             metadata) (
     seqE (completeCommand env ex response) (
     ret response))))"

text \<open>
  The variables a command's transaction assigns: \<open>stored\<close> and \<open>outcomeErr\<close>.
  \<open>fail_command\<close> is \<open>outcomeErr = err; stored, err = s.recordCommandFailure(...); return err\<close>.
\<close>

type_synonym outcome = "stored_response \<times> kerror option"

definition fail_command ::
  "kenv \<Rightarrow> command_execution \<Rightarrow> kerror \<Rightarrow> metadata option \<Rightarrow> outcome kact" where
  "fail_command env ex err metadata =
     bindE (recordCommandFailure env ex err metadata) (\<lambda>stored. ret (stored, Some err))"

text \<open>The opening of every command's transaction: replay, or go on with \<open>fresh\<close>.\<close>

definition claim_or_replay :: "kenv \<Rightarrow> command_execution \<Rightarrow> outcome kact \<Rightarrow> outcome kact" where
  "claim_or_replay env ex fresh =
     bindE (claimCommand env ex) (\<lambda>replay.
     case replay of Some stored \<Rightarrow> ret (stored, None) | None \<Rightarrow> fresh)"

text \<open>The closing: complete the command with its response.\<close>

definition succeed_command ::
  "kenv \<Rightarrow> command_execution \<Rightarrow> operation_ref \<Rightarrow> response_payload \<Rightarrow> outcome kact" where
  "succeed_command env ex op payload =
     (let stored = \<lparr>sr_operation = op, sr_payload = Some payload, sr_error = None\<rparr> in
      seqE (completeCommand env ex stored) (ret (stored, None)))"

definition replayError :: "stored_response \<Rightarrow> kerror option \<Rightarrow> kerror option" where
  "replayError stored fallback =
     (case sr_error stored of
        Some e \<Rightarrow> Some (DomainError (pe_code e) (pe_message e) (pe_retryable e) (pe_details e))
      | None \<Rightarrow> fallback)"

text \<open>What the command returns after its transaction has committed.\<close>

definition command_return ::
  "(response_payload \<Rightarrow> 'a) \<Rightarrow> outcome \<Rightarrow> kerror + 'a" where
  "command_return decode out =
     (case out of (stored, outcomeErr) \<Rightarrow>
        (case replayError stored outcomeErr of
           Some e \<Rightarrow> Inl e
         | None \<Rightarrow>
             (case sr_payload stored of
                None \<Rightarrow> Inl (WrapError CodeInternal [''Stored command response is invalid''] False)
              | Some payload \<Rightarrow> Inr (decode payload))))"

definition no_ref :: operation_ref where
  "no_ref = \<lparr>or_id = [], or_tenant = [], or_state = OperationOther []\<rparr>"

definition no_organization :: organization_snapshot where
  "no_organization = \<lparr>sn_organization_id = [], sn_name = [], sn_slug = [], sn_memberships = [],
                      sn_version = 0, sn_created_at = 0, sn_updated_at = 0\<rparr>"

text \<open>Decoding ignores what the target type has no field for.\<close>

fun decode_create :: "response_payload \<Rightarrow> operation_ref \<times> organization_snapshot" where
  "decode_create (CreateOrganizationPayload r sn) = (r, sn)"
| "decode_create (CommandPayload r) = (r, no_organization)"
| "decode_create (OperationRefPayload r) = (no_ref, no_organization)"

fun decode_command :: "response_payload \<Rightarrow> operation_ref" where
  "decode_command (CreateOrganizationPayload r sn) = r"
| "decode_command (CommandPayload r) = r"
| "decode_command (OperationRefPayload r) = no_ref"

fun decode_ref :: "response_payload \<Rightarrow> operation_ref" where
  "decode_ref (OperationRefPayload r) = r"
| "decode_ref _ = no_ref"

section \<open>Helpers of the commands\<close>

definition validateMeta :: "command_meta \<Rightarrow> kerror + unit" where
  "validateMeta meta =
     (case Meta_Validate meta of Inl m \<Rightarrow> Inl (invalidArgument m) | Inr _ \<Rightarrow> Inr ())"

definition deriveTenant :: "principal \<Rightarrow> string \<Rightarrow> principal" where
  "deriveTenant pr tenantID = (if p_tenant pr = [] then WithTenant pr tenantID else pr)"

definition platformScope :: "command_meta \<Rightarrow> string \<Rightarrow> string" where
  "platformScope meta command =
     ''platform'' @ ''/'' @ p_id (cm_principal meta) @ ''/'' @ command"

definition tenantScope :: "command_meta \<Rightarrow> string \<Rightarrow> string \<Rightarrow> string" where
  "tenantScope meta tenantID command =
     ''tenant'' @ ''/'' @ tenantID @ ''/'' @ p_id (cm_principal meta) @ ''/'' @ command"

definition snapshotMembership :: "membership \<Rightarrow> membership_snapshot" where
  "snapshotMembership m =
     \<lparr>ms_principal_id = mb_principal_id m, ms_role = mb_role m, ms_state = mb_state m,
      ms_invited_at = mb_invited_at m, ms_accepted_at = mb_accepted_at m,
      ms_updated_at = mb_updated_at m, ms_version = mb_version m\<rparr>"

text \<open>
  The two nested loops that order the memberships: one pass of the inner loop compares
  \<open>Memberships[i]\<close> with every later element and swaps a smaller one in.
\<close>

fun order_pass ::
  "membership_snapshot \<Rightarrow> membership_snapshot list \<Rightarrow> membership_snapshot \<times> membership_snapshot list" where
  "order_pass x [] = (x, [])"
| "order_pass x (y # ys) =
     (if ms_principal_id y < ms_principal_id x
      then (case order_pass y ys of (m, rest) \<Rightarrow> (m, x # rest))
      else (case order_pass x ys of (m, rest) \<Rightarrow> (m, y # rest)))"

lemma order_pass_length: "length (snd (order_pass x ys)) = length ys"
  by (induction x ys rule: order_pass.induct) (auto split: prod.splits)

function order_memberships :: "membership_snapshot list \<Rightarrow> membership_snapshot list" where
  "order_memberships [] = []"
| "order_memberships (x # xs) =
     fst (order_pass x xs) # order_memberships (snd (order_pass x xs))"
  by pat_completeness auto
termination
  by (relation "measure length") (auto simp: order_pass_length)

definition snapshotOrganization :: "organization \<Rightarrow> organization_snapshot" where
  "snapshotOrganization org =
     \<lparr>sn_organization_id = org_id org, sn_name = org_name org, sn_slug = org_slug org,
      sn_memberships =
        order_memberships (map (\<lambda>(_, m). snapshotMembership m) (org_memberships org)),
      sn_version = org_version org, sn_created_at = org_created_at org,
      sn_updated_at = org_updated_at org\<rparr>"

section \<open>Commands on organizations\<close>

definition CreateOrganization_fresh ::
  "kenv \<Rightarrow> command_execution \<Rightarrow> command_meta \<Rightarrow> string \<Rightarrow> outcome kact" where
  "CreateOrganization_fresh env ex meta name =
     (let nameData = Some [(''name'', VStr name)] in
     if \<not> HasScope (cm_principal meta) ActionOrganizationCreate
       then fail_command env ex (forbidden ''principal does not have the required scope'') nameData
     else
     bindE (New env ''org'') (\<lambda>organizationID.
     bindE (Now env) (\<lambda>now.
     case NewOrganization (uni env) organizationID name (p_id (cm_principal meta)) now of
       Inl domainErr \<Rightarrow> fail_command env ex domainErr nameData
     | Inr org \<Rightarrow>
     bindE (attempt (tx_write (InsertOrganization org))) (\<lambda>inserted.
     case inserted of
       Inl err \<Rightarrow> fail_command env ex err nameData
     | Inr _ \<Rightarrow>
     bindE (recordSuccessfulOperation env meta (org_id org) (cm_command meta)
              (VObj [(''organization_id'', VStr (org_id org))])) (\<lambda>op.
     let resource = \<lparr>r_tenant = org_id org, r_type = ''organization'', r_id = org_id org\<rparr> in
     seqE (appendEvent env EventOrganizationCreated (org_id org) (org_id org) meta
             [(''organization_id'', VStr (org_id org)), (''name'', VStr (org_name org)),
              (''slug'', VStr (org_slug org)),
              (''creator_id'', VStr (p_id (cm_principal meta)))]) (
     seqE (appendAudit env meta resource ActionOrganizationCreate AuditSucceeded []
             (Some [(''name'', VStr (org_name org)), (''slug'', VStr (org_slug org))])) (
     succeed_command env ex op (CreateOrganizationPayload op (snapshotOrganization org)))))))))"

definition CreateOrganization ::
  "kenv \<Rightarrow> command_meta \<Rightarrow> string \<Rightarrow> (operation_ref \<times> organization_snapshot) kact" where
  "CreateOrganization env meta0 name =
     (let meta = meta0\<lparr>cm_command := ''CreateOrganization''\<rparr> in
     case validateMeta meta of Inl e \<Rightarrow> throw e | Inr _ \<Rightarrow>
     let ex = prepareCommand env meta (platformScope meta (cm_command meta))
                (VObj [(''name'', VStr name)]) ActionOrganizationCreate
                \<lparr>r_tenant = [], r_type = ''organization'', r_id = ''new''\<rparr> in
     bindE (Transact env (claim_or_replay env ex (CreateOrganization_fresh env ex meta name)))
       (\<lambda>out. of_result (command_return decode_create out)))"

text \<open>
  \<open>canManageTarget\<close>: \<open>metaRole\<close> is \<open>metadata["role"].(MembershipRole)\<close>, when the metadata has a
  role.
\<close>

definition canManageTarget ::
  "organization \<Rightarrow> string \<Rightarrow> string \<Rightarrow> membership_role option \<Rightarrow> bool" where
  "canManageTarget org actor targetID metaRole =
     (case map_of (org_memberships org) actor of
        None \<Rightarrow> False
      | Some actorMembership \<Rightarrow>
          if mb_role actorMembership = RoleOwner then True
          else if (case map_of (org_memberships org) targetID of
                     None \<Rightarrow> False | Some target \<Rightarrow> mb_role target = RoleOwner) then False
          else if metaRole = Some RoleOwner then False
          else True)"

text \<open>
  \<open>mutateMembership\<close>: \<open>mutate\<close> is the closure, which reads the clock and applies one
  operation of the organization. The metadata always names the target principal; the state or
  role it also carries is in \<open>extra\<close>, and \<open>metaRole\<close> is its role.
\<close>

definition member_metadata ::
  "string \<Rightarrow> membership_role option \<Rightarrow> metadata \<Rightarrow> metadata" where
  "member_metadata target metaRole extra =
     [(''target_principal_id'', VStr target)] @
     (case metaRole of None \<Rightarrow> [] | Some role \<Rightarrow> [(''role'', VStr (role_text role))]) @ extra"

definition mutateMembership_fresh ::
  "kenv \<Rightarrow> command_execution \<Rightarrow> command_meta \<Rightarrow> string \<Rightarrow> string \<Rightarrow> string \<Rightarrow>
   (gotime \<Rightarrow> organization \<Rightarrow> kerror + organization) \<Rightarrow> membership_role option \<Rightarrow> metadata \<Rightarrow>
   outcome kact" where
  "mutateMembership_fresh env ex meta organizationID action resourceID mutate metaRole auditMetadata =
     (let resource = ex_resource ex in
     bindE (attempt (tx_read (GetOrganization organizationID))) (\<lambda>found.
     case found of
       Inl err \<Rightarrow> fail_command env ex err (Some auditMetadata)
     | Inr org \<Rightarrow>
     let pr = deriveTenant (cm_principal meta) organizationID in
     (case Policy_Check pr action resource (Some org) of
       Inl err \<Rightarrow> fail_command env ex err (Some auditMetadata)
     | Inr _ \<Rightarrow>
     if action = ActionMembershipManage \<and> \<not> canManageTarget org (p_id pr) resourceID metaRole
       then fail_command env ex (forbidden ''only an owner can manage owner memberships'')
              (Some auditMetadata)
     else
     bindE (Now env) (\<lambda>now.
     case mutate now org of
       Inl err \<Rightarrow> fail_command env ex err (Some auditMetadata)
     | Inr org' \<Rightarrow>
     seqE (tx_write (SaveOrganization org' (org_version org))) (
     bindE (recordSuccessfulOperation env meta (org_id org') (cm_command meta)
              (VObj auditMetadata)) (\<lambda>op.
     seqE (appendEvent env EventMembershipChanged (org_id org') resourceID meta
             (auditMetadata @ [(''organization_id'', VStr (org_id org'))])) (
     seqE (appendAudit env meta resource action AuditSucceeded [] (Some auditMetadata)) (
     succeed_command env ex op (CommandPayload op)))))))))"

definition mutateMembership ::
  "kenv \<Rightarrow> command_meta \<Rightarrow> string \<Rightarrow> string \<Rightarrow> val \<Rightarrow>
   (gotime \<Rightarrow> organization \<Rightarrow> kerror + organization) \<Rightarrow> string \<Rightarrow> membership_role option \<Rightarrow>
   metadata \<Rightarrow> operation_ref kact" where
  "mutateMembership env meta organizationID action payload mutate target metaRole extra =
     (case validateMeta meta of Inl e \<Rightarrow> throw e | Inr _ \<Rightarrow>
     let resource = \<lparr>r_tenant = organizationID, r_type = ''membership'', r_id = target\<rparr>;
         ex = prepareCommand env meta (tenantScope meta organizationID (cm_command meta))
                payload action resource in
     bindE (Transact env (claim_or_replay env ex
              (mutateMembership_fresh env ex meta organizationID action target mutate metaRole
                 (member_metadata target metaRole extra))))
       (\<lambda>out. of_result (command_return decode_command out)))"

definition InviteMember ::
  "kenv \<Rightarrow> command_meta \<Rightarrow> string \<Rightarrow> string \<Rightarrow> membership_role \<Rightarrow> operation_ref kact" where
  "InviteMember env meta0 organizationID target role =
     mutateMembership env (meta0\<lparr>cm_command := ''InviteMember''\<rparr>) organizationID
       ActionMembershipInvite
       (VObj [(''organization_id'', VStr organizationID), (''principal_id'', VStr target),
              (''role'', VStr (role_text role))])
       (Invite target role) target (Some role) [(''state'', VStr ''INVITED'')]"

definition ChangeMemberRole_cmd ::
  "kenv \<Rightarrow> command_meta \<Rightarrow> string \<Rightarrow> string \<Rightarrow> membership_role \<Rightarrow> operation_ref kact" where
  "ChangeMemberRole_cmd env meta0 organizationID target role =
     mutateMembership env (meta0\<lparr>cm_command := ''ChangeMemberRole''\<rparr>) organizationID
       ActionMembershipManage
       (VObj [(''organization_id'', VStr organizationID), (''principal_id'', VStr target),
              (''role'', VStr (role_text role))])
       (ChangeMemberRole target role) target (Some role) []"

definition SuspendMembership ::
  "kenv \<Rightarrow> command_meta \<Rightarrow> string \<Rightarrow> string \<Rightarrow> operation_ref kact" where
  "SuspendMembership env meta0 organizationID target =
     mutateMembership env (meta0\<lparr>cm_command := ''SuspendMembership''\<rparr>) organizationID
       ActionMembershipManage
       (VObj [(''organization_id'', VStr organizationID), (''principal_id'', VStr target)])
       (SuspendMember target) target None [(''state'', VStr ''SUSPENDED'')]"

definition RemoveMembership ::
  "kenv \<Rightarrow> command_meta \<Rightarrow> string \<Rightarrow> string \<Rightarrow> operation_ref kact" where
  "RemoveMembership env meta0 organizationID target =
     mutateMembership env (meta0\<lparr>cm_command := ''RemoveMembership''\<rparr>) organizationID
       ActionMembershipManage
       (VObj [(''organization_id'', VStr organizationID), (''principal_id'', VStr target)])
       (RemoveMember target) target None [(''state'', VStr ''REMOVED'')]"

definition AcceptInvitation_fresh ::
  "kenv \<Rightarrow> command_execution \<Rightarrow> command_meta \<Rightarrow> string \<Rightarrow> outcome kact" where
  "AcceptInvitation_fresh env ex meta organizationID =
     (let resource = ex_resource ex in
     bindE (attempt (tx_read (GetOrganization organizationID))) (\<lambda>found.
     case found of
       Inl err \<Rightarrow> fail_command env ex err None
     | Inr org \<Rightarrow>
     let pr = deriveTenant (cm_principal meta) organizationID in
     if \<not> HasScope pr ActionMembershipAccept
       then fail_command env ex (forbidden ''principal does not have the required scope'') None
     else (case map_of (org_memberships org) (p_id pr) of
       None \<Rightarrow> fail_command env ex (forbidden ''an invitation for the principal is required'') None
     | Some m \<Rightarrow>
     if mb_state m \<noteq> MembershipInvited
       then fail_command env ex (forbidden ''an invitation for the principal is required'') None
     else
     bindE (Now env) (\<lambda>now.
     case AcceptInvitation (p_id pr) now org of
       Inl err \<Rightarrow> fail_command env ex err None
     | Inr org' \<Rightarrow>
     seqE (tx_write (SaveOrganization org' (org_version org))) (
     bindE (recordSuccessfulOperation env meta (org_id org') (cm_command meta)
              (VObj [(''principal_id'', VStr (p_id pr))])) (\<lambda>op.
     seqE (appendEvent env EventMembershipChanged (org_id org') (p_id pr) meta
             [(''organization_id'', VStr (org_id org')), (''principal_id'', VStr (p_id pr)),
              (''role'', VStr (role_text (mb_role m))), (''state'', VStr ''ACTIVE'')]) (
     seqE (appendAudit env meta resource ActionMembershipAccept AuditSucceeded []
             (Some [(''role'', VStr (role_text (mb_role m)))])) (
     succeed_command env ex op (CommandPayload op)))))))))"

definition AcceptInvitation_cmd :: "kenv \<Rightarrow> command_meta \<Rightarrow> string \<Rightarrow> operation_ref kact" where
  "AcceptInvitation_cmd env meta0 organizationID =
     (let meta = meta0\<lparr>cm_command := ''AcceptInvitation''\<rparr> in
     case validateMeta meta of Inl e \<Rightarrow> throw e | Inr _ \<Rightarrow>
     let resource = \<lparr>r_tenant = organizationID, r_type = ''membership'',
                     r_id = p_id (cm_principal meta)\<rparr>;
         ex = prepareCommand env meta (tenantScope meta organizationID (cm_command meta))
                (VObj [(''organization_id'', VStr organizationID)]) ActionMembershipAccept resource in
     bindE (Transact env (claim_or_replay env ex (AcceptInvitation_fresh env ex meta organizationID)))
       (\<lambda>out. of_result (command_return decode_command out)))"

section \<open>Reads that are audited\<close>

definition read_meta :: "string \<Rightarrow> principal \<Rightarrow> string \<Rightarrow> string \<Rightarrow> command_meta" where
  "read_meta tenantID pr correlationID command =
     \<lparr>cm_tenant = tenantID, cm_principal = pr, cm_correlation_id = correlationID,
      cm_causation_id = [], cm_idempotency_key = ''read'', cm_command = command\<rparr>"

text \<open>
  \<open>GetOrganization\<close>, \<open>ListAuditEvents\<close> and \<open>GetOperationForPrincipal\<close> commit the audit record
  of a denied read and return the error afterwards: their transaction returns a sum.
\<close>

definition GetOrganization_cmd ::
  "kenv \<Rightarrow> principal \<Rightarrow> string \<Rightarrow> string \<Rightarrow> organization_snapshot kact" where
  "GetOrganization_cmd env pr organizationID correlationID =
     (let resource = \<lparr>r_tenant = organizationID, r_type = ''organization'', r_id = organizationID\<rparr> in
     bindE (Transact env (
       bindE (attempt (tx_read (GetOrganization organizationID))) (\<lambda>found.
       case found of
         Inl err \<Rightarrow> ret (Inl err)
       | Inr org \<Rightarrow>
       let scoped = deriveTenant pr organizationID;
           meta = read_meta organizationID pr correlationID ''GetOrganization'' in
       (case Policy_Check scoped ActionOrganizationRead resource (Some org) of
         Inl err \<Rightarrow>
           seqE (appendAudit env meta resource ActionOrganizationRead AuditDenied (ErrorCode err) None)
             (ret (Inl err))
       | Inr _ \<Rightarrow>
           seqE (appendAudit env meta resource ActionOrganizationRead AuditSucceeded [] None)
             (ret (Inr (snapshotOrganization org)))))))
     of_result)"

definition ListAuditEvents ::
  "kenv \<Rightarrow> principal \<Rightarrow> string \<Rightarrow> string \<Rightarrow> int \<Rightarrow> audit_envelope list kact" where
  "ListAuditEvents env pr organizationID correlationID limit =
     (let resource = \<lparr>r_tenant = organizationID, r_type = ''audit'', r_id = ''events''\<rparr> in
     bindE (Transact env (
       bindE (attempt (tx_read (GetOrganization organizationID))) (\<lambda>found.
       case found of
         Inl err \<Rightarrow> ret (Inl err)
       | Inr org \<Rightarrow>
       let scoped = deriveTenant pr organizationID;
           meta = read_meta organizationID pr correlationID ''ListAuditEvents'' in
       (case Policy_Check scoped ActionAuditRead resource (Some org) of
         Inl err \<Rightarrow>
           seqE (appendAudit env meta resource ActionAuditRead AuditDenied (ErrorCode err) None)
             (ret (Inl err))
       | Inr _ \<Rightarrow>
           bindE (tx_read (\<lambda>st. Inr (ListAudit organizationID limit st)))
             (\<lambda>records. ret (Inr records))))))
     of_result)"

definition GetOperationForPrincipal ::
  "kenv \<Rightarrow> principal \<Rightarrow> string \<Rightarrow> string \<Rightarrow> operation_snapshot kact" where
  "GetOperationForPrincipal env pr oid correlationID =
     bindE (Transact env (
       bindE (attempt (tx_read (GetOperation oid))) (\<lambda>found.
       case found of
         Inl err \<Rightarrow> ret (Inl err)
       | Inr op \<Rightarrow>
       let resource = \<lparr>r_tenant = op_tenant op, r_type = ''operation'', r_id = op_id op\<rparr>;
           meta = read_meta (op_tenant op) pr correlationID ''GetOperation'';
           denied = (\<lambda>err. seqE (appendAudit env meta resource ActionOperationRead AuditDenied
                                    (ErrorCode err) None) (ret (Inl err)));
           granted = seqE (appendAudit env meta resource ActionOperationRead AuditSucceeded [] None)
                       (ret (Inr (Snapshot op))) in
       if op_tenant op = [] then
         (if \<not> HasScope pr ActionOperationRead
          then denied (forbidden ''principal does not have the required scope'')
          else granted)
       else
         bindE (attempt (tx_read (GetOrganization (op_tenant op)))) (\<lambda>owner.
         case owner of
           Inl err \<Rightarrow> ret (Inl err)
         | Inr org \<Rightarrow>
             (case Policy_Check (deriveTenant pr (op_tenant op)) ActionOperationRead resource
                     (Some org) of
                Inl err \<Rightarrow> denied err
              | Inr _ \<Rightarrow> granted)))))
     of_result"

definition Get :: "kenv \<Rightarrow> string \<Rightarrow> operation_snapshot kact" where
  "Get env oid =
     View env (bindE (tx_read (GetOperation oid)) (\<lambda>op. ret (Snapshot op)))"

section \<open>Commands on operations\<close>

definition Start_fresh :: "kenv \<Rightarrow> command_execution \<Rightarrow> command_meta \<Rightarrow> outcome kact" where
  "Start_fresh env ex meta =
     (let start =
        bindE (New env ''op'') (\<lambda>oid.
        bindE (Now env) (\<lambda>now.
        bindE (of_result (NewOperation oid (cm_tenant meta) (cm_command meta)
                 (cm_correlation_id meta) (cm_causation_id meta) now)) (\<lambda>op.
        seqE (tx_write (InsertOperation op)) (
        let ref = \<lparr>or_id = op_id op, or_tenant = op_tenant op, or_state = op_state op\<rparr> in
        seqE (appendOperationEvent env op meta) (
        seqE (appendAudit env meta
                \<lparr>r_tenant = cm_tenant meta, r_type = ''operation'', r_id = op_id op\<rparr>
                ActionOperationStart AuditSucceeded [] None) (
        succeed_command env ex ref (OperationRefPayload ref))))))) in
     if cm_tenant meta \<noteq> [] then
       bindE (attempt (tx_read (GetOrganization (cm_tenant meta)))) (\<lambda>found.
       case found of
         Inl err \<Rightarrow> fail_command env ex err None
       | Inr org \<Rightarrow>
           (case Policy_Check (deriveTenant (cm_principal meta) (cm_tenant meta))
                   ActionOperationStart (ex_resource ex) (Some org) of
              Inl err \<Rightarrow> fail_command env ex err None
            | Inr _ \<Rightarrow> start))
     else if \<not> HasScope (cm_principal meta) ActionOperationStart
       then fail_command env ex (forbidden ''principal does not have the required scope'') None
     else start)"

definition Start :: "kenv \<Rightarrow> command_meta \<Rightarrow> operation_ref kact" where
  "Start env meta0 =
     (let meta = (if cm_command meta0 = [] then meta0\<lparr>cm_command := ''StartOperation''\<rparr>
                  else meta0) in
     case validateMeta meta of Inl e \<Rightarrow> throw e | Inr _ \<Rightarrow>
     let ex = prepareCommand env meta (tenantScope meta (cm_tenant meta) ''StartOperation'')
                (VObj [(''tenant_id'', VStr (cm_tenant meta)), (''kind'', VStr (cm_command meta))])
                ActionOperationStart
                \<lparr>r_tenant = cm_tenant meta, r_type = ''operation'', r_id = ''new''\<rparr> in
     bindE (Transact env (claim_or_replay env ex (Start_fresh env ex meta)))
       (\<lambda>out. of_result (command_return decode_ref out)))"

definition transition_meta :: "operation \<Rightarrow> string \<Rightarrow> operation_state \<Rightarrow> command_meta" where
  "transition_meta op oid to =
     \<lparr>cm_tenant = op_tenant op,
      cm_principal = \<lparr>p_id = ''svc_kernel_operation'', p_tenant = op_tenant op,
                      p_kind = KindService, p_scopes = [''kernel:*'']\<rparr>,
      cm_correlation_id = op_correlation_id op, cm_causation_id = op_causation_id op,
      cm_idempotency_key = ''transition-'' @ oid @ ''-'' @ state_text to,
      cm_command = ''TransitionOperation''\<rparr>"

definition Transition ::
  "kenv \<Rightarrow> string \<Rightarrow> operation_state \<Rightarrow> operation_result \<Rightarrow> unit kact" where
  "Transition env oid to result =
     Transact env (
       bindE (tx_read (GetOperation oid)) (\<lambda>op.
       bindE (Now env) (\<lambda>now.
       bindE (of_result (Operation_Transition to result now op)) (\<lambda>op'.
       if op_version op' = op_version op then ret ()
       else
         seqE (tx_write (SaveOperation op' (op_version op))) (
         let meta = transition_meta op' oid to in
         seqE (appendOperationEvent env op' meta) (
         appendAudit env meta
           \<lparr>r_tenant = op_tenant op', r_type = ''operation'', r_id = op_id op'\<rparr>
           ''kernel.operation.transition'' AuditSucceeded []
           (Some [(''state'', VStr (state_text to))])))))))"

definition CancelOperation_fresh ::
  "kenv \<Rightarrow> command_execution \<Rightarrow> command_meta \<Rightarrow> string \<Rightarrow> outcome kact" where
  "CancelOperation_fresh env ex meta operationID =
     bindE (attempt (tx_read (GetOperation operationID))) (\<lambda>found.
     case found of
       Inl err \<Rightarrow> fail_command env ex err None
     | Inr op \<Rightarrow>
     bindE (attempt (tx_read (GetOrganization (op_tenant op)))) (\<lambda>owner.
     case owner of
       Inl err \<Rightarrow> fail_command env ex err None
     | Inr org \<Rightarrow>
     let resource = \<lparr>r_tenant = op_tenant op, r_type = ''operation'', r_id = op_id op\<rparr>;
         pr = deriveTenant (cm_principal meta) (op_tenant op) in
     (case Policy_Check pr ActionOperationCancel resource (Some org) of
       Inl err \<Rightarrow> fail_command env (ex\<lparr>ex_resource := resource\<rparr>) err None
     | Inr _ \<Rightarrow>
     bindE (Now env) (\<lambda>now.
     case Operation_Cancel now op of
       Inl err \<Rightarrow> fail_command env (ex\<lparr>ex_resource := resource\<rparr>) err None
     | Inr op' \<Rightarrow>
     seqE (if op_version op' = op_version op then ret ()
           else seqE (tx_write (SaveOperation op' (op_version op)))
                  (appendOperationEvent env op' meta)) (
     let ref = \<lparr>or_id = op_id op', or_tenant = op_tenant op', or_state = op_state op'\<rparr> in
     seqE (appendAudit env meta resource ActionOperationCancel AuditSucceeded [] None) (
     succeed_command env ex ref (CommandPayload ref)))))))"

definition CancelOperation :: "kenv \<Rightarrow> command_meta \<Rightarrow> string \<Rightarrow> operation_ref kact" where
  "CancelOperation env meta0 operationID =
     (let meta = meta0\<lparr>cm_command := ''CancelOperation''\<rparr> in
     case validateMeta meta of Inl e \<Rightarrow> throw e | Inr _ \<Rightarrow>
     let ex = prepareCommand env meta
                (platformScope meta (cm_command meta @ '':'' @ operationID))
                (VObj [(''operation_id'', VStr operationID)]) ActionOperationCancel
                \<lparr>r_tenant = [], r_type = ''operation'', r_id = operationID\<rparr> in
     bindE (Transact env (claim_or_replay env ex (CancelOperation_fresh env ex meta operationID)))
       (\<lambda>out. of_result (command_return decode_command out)))"

section \<open>Snapshots do not depend on the order of the map\<close>

lemma order_pass_mset: "order_pass x ys = (m, rest) \<Longrightarrow> add_mset m (mset rest) = add_mset x (mset ys)"
proof (induction x ys arbitrary: m rest rule: order_pass.induct)
  case (2 x y ys)
  then show ?case by (fastforce split: if_splits prod.splits)
qed simp

lemma order_pass_least:
  "order_pass x ys = (m, rest) \<Longrightarrow> \<forall>z \<in> insert x (set ys). ms_principal_id m \<le> ms_principal_id z"
proof (induction x ys arbitrary: m rest rule: order_pass.induct)
  case (2 x y ys)
  then show ?case by (fastforce split: if_splits prod.splits)
qed simp

lemma order_memberships_mset: "mset (order_memberships xs) = mset xs"
proof (induction xs rule: order_memberships.induct)
  case (2 x xs)
  obtain m rest where p: "order_pass x xs = (m, rest)" by fastforce
  with order_pass_mset[OF p] 2 show ?case by simp
qed simp

lemma order_memberships_sorted: "sorted (map ms_principal_id (order_memberships xs))"
proof (induction xs rule: order_memberships.induct)
  case (2 x xs)
  obtain m rest where p: "order_pass x xs = (m, rest)" by fastforce
  have "set (order_memberships rest) = set rest" by (metis order_memberships_mset set_mset_mset)
  moreover have "set rest \<subseteq> insert x (set xs)"
    using order_pass_mset[OF p] by (metis insert_subset set_mset_add_mset_insert set_mset_mset subset_insertI)
  ultimately show ?case using 2 p order_pass_least[OF p] by auto
qed simp

text \<open>
  The snapshot of an organization, which is part of a command's stored answer, does not
  depend on the order in which the map of memberships is iterated over: it lists the memberships
  by principal.
\<close>
lemma snapshot_ignores_map_order:
  assumes "org_inv org" and "mset ms' = mset (org_memberships org)"
  shows "snapshotOrganization (org\<lparr>org_memberships := ms'\<rparr>) = snapshotOrganization org \<and>
         sorted (map ms_principal_id (sn_memberships (snapshotOrganization org)))"
proof -
  define f where "f = (\<lambda>e :: string \<times> membership. case e of (_, m) \<Rightarrow> snapshotMembership m)"
  let ?ms = "org_memberships org"
  have id: "ms_principal_id (f e) = fst e" if "e \<in> set ?ms" for e
  proof -
    have "map_of ?ms (fst e) = Some (snd e)" using that assms(1) by (simp add: org_inv_def)
    then have "member_inv (fst e) (snd e)" by (rule org_inv_member[OF assms(1)])
    then show ?thesis by (cases e) (simp add: f_def snapshotMembership_def member_inv_def)
  qed
  have "inj_on fst (set ?ms)" using assms(1) by (simp add: org_inv_def distinct_map)
  then have inj: "inj_on ms_principal_id (set (map f ?ms))"
    using id by (auto simp: inj_on_def)
  have "mset (map f ms') = mset (map f ?ms)" using assms(2) by simp
  then have "mset (order_memberships (map f ms')) = mset (map f ?ms)"
    by (simp only: order_memberships_mset)
  from sort_key_inj_key_eq[OF this[symmetric] inj order_memberships_sorted]
    sort_key_inj_key_eq[OF order_memberships_mset[of "map f ?ms", symmetric] inj order_memberships_sorted]
  have "order_memberships (map f ms') = order_memberships (map f ?ms)" by simp
  then show ?thesis
    using order_memberships_sorted by (simp add: snapshotOrganization_def f_def)
qed

lemma snapshot_ignores_map_order_witness:
  "snapshotOrganization (acme_joined\<lparr>org_memberships := rev (org_memberships acme_joined)\<rparr>) =
   snapshotOrganization acme_joined"
  using snapshot_ignores_map_order[OF acme_inv(3), of "rev (org_memberships acme_joined)"] by simp

end
