(* ===== verification/Kernel_History.thy ===== *)
theory Kernel_History
  imports Kernel_Service "HOL-Library.Sublist"
begin

text \<open>
  What the kernel does to its store, as a step relation on stores: the writes its commands, its
  dispatcher and its inbox processor are made of. A run of them keeps the store's invariant and
  only adds to its history.
\<close>

section \<open>Effects\<close>

inductive kernel_effect :: "kstate \<Rightarrow> kstate \<Rightarrow> bool" where
  claim_key: "ClaimIdempotency r st = Inr (x, st') \<Longrightarrow> kernel_effect st st'"
| complete_key: "CompleteIdempotency scope key oid resp now st = Inr st' \<Longrightarrow> kernel_effect st st'"
| event: "ob_state r = OutboxPending \<Longrightarrow> outbox_record_inv r \<Longrightarrow> AppendOutbox r st = Inr st' \<Longrightarrow>
    kernel_effect st st'"
| audit: "AppendAudit a st = Inr st' \<Longrightarrow> kernel_effect st st'"
| new_operation: "operation_created op \<Longrightarrow> InsertOperation op st = Inr st' \<Longrightarrow> kernel_effect st st'"
| step_operation: "operations st (op_id op') = Some op \<Longrightarrow> operation_step op op' \<Longrightarrow>
    SaveOperation op' n st = Inr st' \<Longrightarrow> kernel_effect st st'"
| new_organization: "org_created org \<Longrightarrow> InsertOrganization org st = Inr st' \<Longrightarrow> kernel_effect st st'"
| step_organization: "organizations st (org_id org') = Some org \<Longrightarrow> org_step org org' \<Longrightarrow>
    SaveOrganization org' n st = Inr st' \<Longrightarrow> kernel_effect st st'"
| lease_events: "ClaimOutbox limit now lease st = Inr (claimed, st') \<Longrightarrow> kernel_effect st st'"
| publish_event: "MarkOutboxPublished i now st = Inr st' \<Longrightarrow> kernel_effect st st'"
| release_event: "MarkOutboxPending i err st = Inr st' \<Longrightarrow> kernel_effect st st'"
| receive_event: "InsertInbox b st = Inr st' \<Longrightarrow> kernel_effect st st'"

lemma kernel_effect_inv: "kernel_effect st st' \<Longrightarrow> kstate_inv st \<Longrightarrow> kstate_inv st'"
proof (induction rule: kernel_effect.induct)
  case (step_operation st op' op n st')
  from step_operation.prems step_operation.hyps(1) have "operation_inv op"
    by (simp add: kstate_inv_def ops_inv_def)
  then have "operation_inv op'" using step_operation.hyps(2) by (rule operation_inv_step)
  with step_operation show ?case by (blast intro: SaveOperation_inv)
next
  case (step_organization st org' org n st')
  then have "org_inv org" by (auto simp: kstate_inv_def dest: orgs_invD)
  then have "org_inv org'" using step_organization.hyps(2) by (rule org_machine.inv_step)
  with step_organization show ?case by (blast intro: SaveOrganization_inv)
qed (blast intro: ClaimIdempotency_inv CompleteIdempotency_inv AppendOutbox_inv AppendAudit_inv
    InsertOperation_inv operation_inv_created InsertOrganization_inv org_machine.inv_init
    ClaimOutbox_inv MarkOutboxPublished_inv MarkOutboxPending_inv InsertInbox_inv)+

interpretation kernel_store: safe_machine "\<lambda>st. st = newState" kernel_effect kstate_inv
  by unfold_locales (auto intro: kstate_inv_new kernel_effect_inv)

section \<open>History\<close>

text \<open>How the records of each table may evolve.\<close>

definition key_later :: "idempotency_record \<Rightarrow> idempotency_record \<Rightarrow> bool" where
  "key_later r r' \<longleftrightarrow> ir_fingerprint r' = ir_fingerprint r \<and>
     (ir_status r = IdempotencyCompleted \<longrightarrow> r' = r)"

definition operation_later :: "operation \<Rightarrow> operation \<Rightarrow> bool" where
  "operation_later op op' \<longleftrightarrow> op_version op \<le> op_version op' \<and> op_kind op' = op_kind op \<and>
     op_tenant op' = op_tenant op \<and> (Terminal (op_state op) \<longrightarrow> op' = op)"

definition organization_later :: "organization \<Rightarrow> organization \<Rightarrow> bool" where
  "organization_later org org' \<longleftrightarrow> org_version org \<le> org_version org' \<and>
     org_slug org' = org_slug org \<and> org_created_at org' = org_created_at org"

definition outbox_later :: "outbox_record \<Rightarrow> outbox_record \<Rightarrow> bool" where
  "outbox_later r r' \<longleftrightarrow> ob_event r' = ob_event r \<and> (ob_state r = OutboxPublished \<longrightarrow> r' = r)"

lemmas later_defs = key_later_def operation_later_def organization_later_def outbox_later_def

lemma later_refl [simp]:
  "key_later r1 r1" "operation_later r2 r2" "organization_later r3 r3" "outbox_later r4 r4"
  by (simp_all add: later_defs)

lemma later_trans:
  "key_later a1 b1 \<Longrightarrow> key_later b1 c1 \<Longrightarrow> key_later a1 c1"
  "operation_later a2 b2 \<Longrightarrow> operation_later b2 c2 \<Longrightarrow> operation_later a2 c2"
  "organization_later a3 b3 \<Longrightarrow> organization_later b3 c3 \<Longrightarrow> organization_later a3 c3"
  "outbox_later a4 b4 \<Longrightarrow> outbox_later b4 c4 \<Longrightarrow> outbox_later a4 c4"
  by (auto simp: later_defs)

definition grown :: "kstate \<Rightarrow> kstate \<Rightarrow> bool" where
  "grown st st' \<longleftrightarrow>
     prefix (audit st) (audit st') \<and> prefix (outboxOrder st) (outboxOrder st') \<and>
     grows key_later (idempotency st) (idempotency st') \<and>
     grows operation_later (operations st) (operations st') \<and>
     grows organization_later (organizations st) (organizations st') \<and>
     grows outbox_later (outbox st) (outbox st') \<and>
     grows (=) (inbox st) (inbox st')"

lemma grown_refl [simp]: "grown st st"
  by (simp add: grown_def grows_refl)

lemma grown_trans: "grown a b \<Longrightarrow> grown b c \<Longrightarrow> grown a c"
  unfolding grown_def
  by (elim conjE, intro conjI)
    (erule (1) prefix_order.trans grows_trans[rotated] | blast intro: later_trans)+

text \<open>One table changes, the others stay.\<close>

lemma grownI [intro]:
  "grows key_later (idempotency st) m1 \<Longrightarrow> grown st (st\<lparr>idempotency := m1\<rparr>)"
  "grows operation_later (operations st) m2 \<Longrightarrow> grown st (st\<lparr>operations := m2\<rparr>)"
  "grows organization_later (organizations st) m3 \<Longrightarrow>
     grown st (st\<lparr>organizations := m3, slugIndex := m4\<rparr>)"
  "grows outbox_later (outbox st) m5 \<Longrightarrow> grown st (st\<lparr>outbox := m5\<rparr>)"
  "grows outbox_later (outbox st) m6 \<Longrightarrow>
     grown st (st\<lparr>outbox := m6, outboxOrder := outboxOrder st @ l6\<rparr>)"
  "grows (=) (inbox st) m7 \<Longrightarrow> grown st (st\<lparr>inbox := m7\<rparr>)"
  "grown st (st\<lparr>audit := audit st @ l8\<rparr>)"
  by (simp_all add: grown_def grows_refl)

lemma org_step_frame:
  "org_step org org' \<Longrightarrow>
   org_id org' = org_id org \<and> org_slug org' = org_slug org \<and> org_created_at org' = org_created_at org"
proof (erule org_stepE)
  fix op now assume "org_apply op now org = Inr org'"
  then show ?thesis
    by (cases op)
      (auto simp: org_op_defs touch_def set_membership_def store_member_def Let_def
        split: if_splits option.splits sum.splits)
qed

lemma operation_step_frame:
  "operation_step op op' \<Longrightarrow> op_id op' = op_id op \<and> operation_later op op'"
  using operation_step_cases[of op op'] by (auto simp: operation_later_def)

lemma kernel_effect_grown:
  assumes "kernel_effect st st'" and "kstate_inv st"
  shows "grown st st'"
  using assms
proof (cases rule: kernel_effect.cases)
  case (step_operation op' op n)
  then have "st' = st\<lparr>operations := (operations st)(op_id op' \<mapsto> op')\<rparr>"
    by (auto simp: SaveOperation_def split: if_splits)
  moreover have "grows operation_later (operations st) ((operations st)(op_id op' \<mapsto> op'))"
    by (rule grows_update)
      (use step_operation(1) operation_step_frame[OF step_operation(2)] in auto)
  ultimately show ?thesis by blast
next
  case (step_organization org' org n)
  have inv: "org_inv org" using assms(2) step_organization(1) by (auto simp: kstate_inv_def dest: orgs_invD)
  have "organization_later org org'"
    using org_machine.step_ver[OF inv step_organization(2)] org_step_frame[OF step_organization(2)]
    by (auto simp: organization_later_def)
  with step_organization(1)
  have g: "grows organization_later (organizations st) ((organizations st)(org_id org' \<mapsto> org'))"
    by (intro grows_update) auto
  from step_organization(1,3) show ?thesis
    by (auto simp: SaveOrganization_def Let_def grown_def grows_refl g split: if_splits)
next
  case (lease_events limit now lease claimed)
  from assms(2) lease_events show ?thesis
  proof (cases rule: ClaimOutbox_effect)
    case (1 ids)
    have "grows outbox_later (outbox st)
      (\<lambda>i. if i \<in> ids then map_option (leased now lease) (outbox st i) else outbox st i)"
      using 1(1) by (fastforce simp: grows_def outbox_later_def leased_def outbox_eligible_def)
    then show ?thesis unfolding 1(2) by blast
  qed
next
  case (complete_key scope key oid resp now)
  then show ?thesis
    by (auto simp: CompleteIdempotency_def Let_def key_later_def intro!: grownI grows_update
        split: if_splits option.splits)
next
  case (publish_event i now)
  then show ?thesis
    by (auto simp: MarkOutboxPublished_def outbox_later_def intro!: grownI grows_update
        split: if_splits option.splits)
next
  case (release_event i err)
  then show ?thesis
    by (auto simp: MarkOutboxPending_def outbox_later_def intro!: grownI grows_update
        split: if_splits option.splits)
qed (auto simp: kstore_defs Let_def intro!: grownI grows_insert split: if_splits option.splits)

lemma effects_grown: "kernel_effect\<^sup>*\<^sup>* st st' \<Longrightarrow> kstate_inv st \<Longrightarrow> grown st st'"
proof (induction rule: rtranclp_induct)
  case (step y z)
  then have "kstate_inv y" by (blast intro: kernel_store.run_inv)
  with step show ?case by (blast intro: grown_trans kernel_effect_grown)
qed simp

end
