(* ===== verification/Kernel_Recording.thy ===== *)
theory Kernel_Recording
  imports Kernel_History
begin

text \<open>
  What the service's recording steps do to the store: events, audit records, operations and
  idempotency records, as triples over the tables that the guarantees speak of.
\<close>

section \<open>Runs since a store\<close>

text \<open>
  \<open>since st0 A S T st\<close>: \<open>st\<close> is reached from \<open>st0\<close> by effects of the kernel, and its audit
  log, organizations and operations are \<open>A\<close>, \<open>S\<close> and \<open>T\<close>.
\<close>

definition since ::
  "kstate \<Rightarrow> audit_envelope list \<Rightarrow> (string \<rightharpoonup> organization) \<Rightarrow> (string \<rightharpoonup> operation) \<Rightarrow>
   kstate \<Rightarrow> bool" where
  "since st0 A S T st \<longleftrightarrow> kstate_inv st \<and> kernel_effect\<^sup>*\<^sup>* st0 st \<and>
     audit st = A \<and> organizations st = S \<and> operations st = T"

lemma since_refl: "kstate_inv st \<Longrightarrow> since st (audit st) (organizations st) (operations st) st"
  by (simp add: since_def)

lemma sinceD:
  assumes "since st0 A S T st"
  shows "kstate_inv st" "kernel_effect\<^sup>*\<^sup>* st0 st" "audit st = A" "organizations st = S"
    "operations st = T"
  using assms by (simp_all add: since_def)

lemma since_effect:
  "since st0 A S T st \<Longrightarrow> kernel_effect st st' \<Longrightarrow>
   audit st' = A' \<Longrightarrow> organizations st' = S' \<Longrightarrow> operations st' = T' \<Longrightarrow> since st0 A' S' T' st'"
  unfolding since_def by (metis kernel_effect_inv rtranclp.rtrancl_into_rtrancl)

lemma since_AppendOutbox:
  assumes "since st0 A S T st" and "ob_state r = OutboxPending" and "outbox_record_inv r"
    and "AppendOutbox r st = Inr st'"
  shows "since st0 A S T st'"
  by (rule since_effect[OF assms(1) event[OF assms(2-4)]])
    (use assms(1,4) in \<open>auto simp: since_def AppendOutbox_def Let_def split: if_splits\<close>)

lemma since_AppendAudit:
  assumes "since st0 A S T st" and "AppendAudit a st = Inr st'"
  shows "since st0 (A @ [cloneAudit a]) S T st'"
  by (rule since_effect[OF assms(1) audit[OF assms(2)]])
    (use assms in \<open>auto simp: since_def AppendAudit_def split: if_splits\<close>)

lemma since_InsertOperation:
  assumes "since st0 A S T st" and "operation_created op" and "InsertOperation op st = Inr st'"
  shows "since st0 A S (T(op_id op \<mapsto> op)) st'"
  by (rule since_effect[OF assms(1) new_operation[OF assms(2,3)]])
    (use assms(1,3) in \<open>auto simp: since_def InsertOperation_def split: if_splits\<close>)

lemma since_SaveOperation:
  assumes "since st0 A S T st" and "T (op_id op') = Some op" and "operation_step op op'"
    and "SaveOperation op' n st = Inr st'"
  shows "since st0 A S (T(op_id op' \<mapsto> op')) st'"
proof (rule since_effect[OF assms(1)])
  show "kernel_effect st st'"
    using assms sinceD(5)[OF assms(1)] by (intro step_operation[of st op' op n]) auto
qed (use assms(1,4) in \<open>auto simp: since_def SaveOperation_def split: if_splits option.splits\<close>)

lemma since_ClaimIdempotency:
  assumes "since st0 A S T st" and "ClaimIdempotency r st = Inr (x, st')"
  shows "since st0 A S T st'"
  by (rule since_effect[OF assms(1) claim_key[OF assms(2)]])
    (use assms in \<open>auto simp: since_def ClaimIdempotency_def Let_def split: if_splits option.splits\<close>)

lemma since_CompleteIdempotency:
  assumes "since st0 A S T st" and "CompleteIdempotency scope key oid resp now st = Inr st'"
  shows "since st0 A S T st'"
  by (rule since_effect[OF assms(1) complete_key[OF assms(2)]])
    (use assms in \<open>auto simp: since_def CompleteIdempotency_def Let_def split: if_splits option.splits\<close>)

lemma since_InsertOrganization:
  assumes "since st0 A S T st" and "org_created org" and "InsertOrganization org st = Inr st'"
  shows "since st0 A (S(org_id org \<mapsto> org)) T st'" and "S (org_id org) = None"
  by (rule since_effect[OF assms(1) new_organization[OF assms(2,3)]])
    (use assms(1,3) in \<open>auto simp: since_def InsertOrganization_def split: if_splits\<close>)

lemma since_SaveOrganization:
  assumes "since st0 A S T st" and "S (org_id org') = Some org" and "org_step org org'"
    and "SaveOrganization org' n st = Inr st'"
  shows "since st0 A (S(org_id org' \<mapsto> org')) T st'"
proof (rule since_effect[OF assms(1)])
  show "kernel_effect st st'"
    using assms sinceD(4)[OF assms(1)] by (intro step_organization[of st org' org n]) auto
qed (use assms(1,4) in \<open>auto simp: since_def SaveOrganization_def Let_def split: if_splits option.splits\<close>)

section \<open>Events and audit records\<close>

lemma triple_append_pending:
  "triple (since st0 A S T) (tx_write (AppendOutbox \<lparr>ob_event = e, ob_state = OutboxPending,
      ob_attempts = 0, ob_lease_until = None, ob_last_error = [], ob_created_at = t,
      ob_published_at = None\<rparr>)) (\<lambda>_. since st0 A S T)"
  by (rule triple_write, erule since_AppendOutbox) (auto simp: outbox_record_inv_def)

lemma triple_appendEvent:
  "triple (since st0 A S T) (appendEvent env ty tenant agg meta payload) (\<lambda>_. since st0 A S T)"
  unfolding appendEvent_def Let_def
  by (intro triple_bind_New triple_bind_Now)
    (auto split: sum.split intro!: triple_throw triple_bind_Now triple_append_pending)

lemma triple_appendOperationEvent:
  "triple (since st0 A S T) (appendOperationEvent env op meta) (\<lambda>_. since st0 A S T)"
  unfolding appendOperationEvent_def by (rule triple_appendEvent)

text \<open>Who did what with which outcome.\<close>

definition audited ::
  "command_meta \<Rightarrow> resource_ref \<Rightarrow> string \<Rightarrow> audit_outcome \<Rightarrow> string \<Rightarrow> audit_envelope \<Rightarrow> bool" where
  "audited meta resource action outcome code a \<longleftrightarrow>
     au_actor a = cm_principal meta \<and> au_correlation_id a = cm_correlation_id meta \<and>
     au_resource a = resource \<and> au_tenant a = r_tenant resource \<and> au_action a = action \<and>
     au_outcome a = outcome \<and> au_error_code a = code"

lemma triple_audit_event:
  assumes "audited meta resource action outcome code (cloneAudit a)"
  shows "triple (since st0 A S T)
     (seqE (tx_write (AppendAudit a)) (appendEvent env ty tenant agg meta payload))
     (\<lambda>_ st. \<exists>a. since st0 (A @ [a]) S T st \<and> audited meta resource action outcome code a)"
  by (rule triple_seq[OF triple_write triple_post[OF triple_appendEvent]])
    (use assms in \<open>blast intro: since_AppendAudit\<close>)+

lemma triple_appendAudit:
  "triple (since st0 A S T) (appendAudit env meta resource action outcome code metadata)
     (\<lambda>_ st. \<exists>a. since st0 (A @ [a]) S T st \<and> audited meta resource action outcome code a)"
  unfolding appendAudit_def Let_def
  by (intro triple_bind_New triple_bind_Now triple_audit_event) (simp add: audited_def cloneAudit_def)

section \<open>Operations\<close>

text \<open>The operation that a response names is stored, in the state the response gives.\<close>

definition names_operation :: "operation_ref \<Rightarrow> operation_state \<Rightarrow> (string \<rightharpoonup> operation) \<Rightarrow> bool" where
  "names_operation ref s T \<longleftrightarrow> or_state ref = s \<and>
     (\<exists>op. T (or_id ref) = Some op \<and> op_tenant op = or_tenant ref \<and> op_state op = s)"

lemma operation_created_New: "NewOperation i tenant kind corr caus now = Inr op \<Longrightarrow> operation_created op"
  unfolding operation_created_def by blast

lemma Transition_frame:
  "Operation_Transition to result now op = Inr op' \<Longrightarrow>
   operation_step op op' \<and> op_id op' = op_id op \<and> op_tenant op' = op_tenant op \<and> op_state op' = to"
  by (frule transition) (auto simp: Operation_Transition_def split: if_splits)

lemma triple_save_step:
  assumes "operation_step op op'" and "T (op_id op) = Some op" and "op_id op' = op_id op"
    and "triple (since st0 A S (T(op_id op \<mapsto> op'))) m Q"
  shows "triple (since st0 A S T) (seqE (tx_write (SaveOperation op' n)) m) Q"
proof (rule triple_seq[OF triple_write assms(4)])
  fix st st' assume "since st0 A S T st" and "SaveOperation op' n st = Inr st'"
  with since_SaveOperation[of st0 A S T st op' op n st'] assms(1-3)
  show "since st0 A S (T(op_id op \<mapsto> op')) st'" by simp
qed

lemma triple_insert_operation:
  assumes "NewOperation i tenant kind corr caus now = Inr op"
    and "triple (since st0 A S (T(op_id op \<mapsto> op))) m Q"
  shows "triple (since st0 A S T) (seqE (tx_write (InsertOperation op)) m) Q"
  by (rule triple_seq[OF triple_write assms(2)])
    (use operation_created_New[OF assms(1)] in \<open>blast intro: since_InsertOperation\<close>)

lemma triple_operation_event:
  "triple (since st0 A S T) m Q \<Longrightarrow>
   triple (since st0 A S T) (seqE (appendOperationEvent env op meta) m) Q"
  by (rule triple_seq[OF triple_appendOperationEvent])

lemma triple_recordSuccessfulOperation:
  "triple (since st0 A S T) (recordSuccessfulOperation env meta tenant kind payload)
     (\<lambda>ref st. \<exists>T'. since st0 A S T' st \<and> names_operation ref OperationSucceeded T')"
  unfolding recordSuccessfulOperation_def
  by (rule triple_bind_New, rule triple_bind_Now, rule triple_bind_result,
      erule triple_insert_operation, rule triple_operation_event, rule triple_bind_Now,
      rule triple_bind_result)
    (auto dest!: Transition_frame simp: names_operation_def intro!: triple_operation_event
      triple_bind_Now triple_bind_result triple_save_step triple_ret)

lemma triple_recordFailedOperation:
  "triple (since st0 A S T) (recordFailedOperation env meta tenant kind err)
     (\<lambda>ref st. \<exists>T'. since st0 A S T' st \<and> names_operation ref OperationFailed T')"
  unfolding recordFailedOperation_def
  by (rule triple_bind_New, rule triple_bind_Now, rule triple_bind_result,
      erule triple_insert_operation, rule triple_operation_event, rule triple_bind_Now,
      rule triple_bind_result)
    (auto dest!: Transition_frame simp: names_operation_def intro!: triple_operation_event
      triple_bind_Now triple_bind_result triple_save_step triple_ret)

section \<open>Completed commands\<close>

definition command_key :: "command_execution \<Rightarrow> string" where
  "command_key ex = idempotencyMapKey (ex_scope ex) (cm_idempotency_key (ex_meta ex))"

definition completed :: "command_execution \<Rightarrow> stored_response \<Rightarrow> kstate \<Rightarrow> bool" where
  "completed ex stored st \<longleftrightarrow>
     (\<exists>r. idempotency st (command_key ex) = Some r \<and> ir_status r = IdempotencyCompleted \<and>
          ir_response r = Some stored)"

text \<open>
  An outcome is settled when the stored response alone gives the same answer: it carries an
  error if the command has failed, and a payload if it has not.
\<close>

definition settled :: "outcome \<Rightarrow> bool" where
  "settled out \<longleftrightarrow>
     (if snd out = None then sr_error (fst out) = None \<and> sr_payload (fst out) \<noteq> None
      else \<exists>i. sr_error (fst out) = Some (ToPublicError (the (snd out)) i))"

lemma settled_return:
  "settled out \<Longrightarrow> command_return decode (fst out, None) = command_return decode out"
  by (cases out) (auto simp: settled_def command_return_def replayError_def split: if_splits option.splits)

lemma triple_complete:
  assumes "\<And>st. P st \<Longrightarrow> \<exists>A S T. since st0 A S T st"
    and "\<And>A S T st st'. P st \<Longrightarrow> since st0 A S T st \<Longrightarrow> since st0 A S T st' \<Longrightarrow> P st'"
  shows "triple P (completeCommand env ex stored) (\<lambda>_ st. P st \<and> completed ex stored st)"
  unfolding completeCommand_def
proof (intro triple_bind_Now triple_write conjI)
  fix t st st'
  assume p: "P st" and w: "CompleteIdempotency (ex_scope ex) (cm_idempotency_key (ex_meta ex))
                      (or_id (sr_operation stored)) stored t st = Inr st'"
  from assms(1)[OF p] obtain A S T where "since st0 A S T st" by blast
  with assms(2) p w show "P st'" by (blast intro: since_CompleteIdempotency)
  show "completed ex stored st'"
    using w by (auto simp: CompleteIdempotency_def Let_def completed_def command_key_def
        split: option.splits if_splits)
qed

definition failure_outcome :: "kerror \<Rightarrow> audit_outcome" where
  "failure_outcome err = (if ErrorCode err = CodeForbidden then AuditDenied else AuditFailed)"

text \<open>
  A command that ran and failed: one audit record says so, the organizations are unchanged, and
  the stored response answers every repetition with the error.
\<close>

definition failed_since ::
  "kstate \<Rightarrow> audit_envelope list \<Rightarrow> (string \<rightharpoonup> organization) \<Rightarrow> command_execution \<Rightarrow> kerror \<Rightarrow>
   outcome \<Rightarrow> kstate \<Rightarrow> bool" where
  "failed_since st0 A S ex err out st \<longleftrightarrow>
     (\<exists>a T. since st0 (A @ [a]) S T st \<and>
        audited (ex_meta ex) (ex_resource ex) (ex_action ex) (failure_outcome err) (ErrorCode err) a \<and>
        names_operation (sr_operation (fst out)) OperationFailed T) \<and>
     completed ex (fst out) st \<and> settled out \<and> snd out = Some err"

lemma triple_fail_command:
  "triple (since st0 A S T) (fail_command env ex err md) (failed_since st0 A S ex err)"
proof -
  have fact: "triple (\<lambda>st. \<exists>T'. since st0 A S T' st \<and> names_operation ref OperationFailed T') m Q"
    if "\<And>T'. names_operation ref OperationFailed T' \<Longrightarrow> triple (since st0 A S T') m Q"
    for ref and m :: "stored_response kact" and Q
    using that unfolding triple_def by blast
  let ?done = "\<lambda>ref st. \<exists>a T'. since st0 (A @ [a]) S T' st \<and>
        audited (ex_meta ex) (ex_resource ex) (ex_action ex) (failure_outcome err) (ErrorCode err) a \<and>
        names_operation ref OperationFailed T'"
  have audit: "triple (since st0 A S T') (appendAudit env (ex_meta ex) (ex_resource ex) (ex_action ex)
      (failure_outcome err) (ErrorCode err) md) (\<lambda>_. ?done ref)"
    if "names_operation ref OperationFailed T'" for ref T'
    by (rule triple_post[OF triple_appendAudit]) (use that in blast)
  have complete: "triple (?done ref) (completeCommand env ex stored)
      (\<lambda>_ st. ?done ref st \<and> completed ex stored st)" for ref stored
    by (rule triple_complete[where ?st0.0 = st0]) (auto simp: since_def)
  let ?stored = "\<lambda>ref. \<lparr>sr_operation = ref, sr_payload = None,
                        sr_error = Some (ToPublicError err (or_id ref))\<rparr>"
  have "triple (since st0 A S T) (recordCommandFailure env ex err md)
     (\<lambda>stored st. failed_since st0 A S ex err (stored, Some err) st)"
    unfolding recordCommandFailure_def Let_def
    apply (rule triple_bind[OF triple_recordFailedOperation], rule fact)
    apply (unfold ToPublicError_code failure_outcome_def[symmetric])
    apply (rule triple_seq[OF audit], assumption, rule triple_seq[OF complete], rule triple_ret)
    by (auto simp: failed_since_def settled_def)
  then show ?thesis
    unfolding fail_command_def by (rule triple_bind) (rule triple_ret)
qed

text \<open>The closing of a command that has succeeded.\<close>

definition succeeded_since ::
  "kstate \<Rightarrow> audit_envelope list \<Rightarrow> (string \<rightharpoonup> organization) \<Rightarrow> command_execution \<Rightarrow>
   resource_ref \<Rightarrow> operation_state \<Rightarrow> outcome \<Rightarrow> kstate \<Rightarrow> bool" where
  "succeeded_since st0 A S ex resource s out st \<longleftrightarrow>
     (\<exists>a T. since st0 (A @ [a]) S T st \<and>
        audited (ex_meta ex) resource (ex_action ex) AuditSucceeded [] a \<and>
        names_operation (sr_operation (fst out)) s T) \<and>
     completed ex (fst out) st \<and> settled out \<and> snd out = None"

lemma triple_succeed_command:
  assumes "names_operation ref s T" and "meta = ex_meta ex" and "action = ex_action ex"
  shows "triple (since st0 A S T)
     (seqE (appendAudit env meta resource action AuditSucceeded [] md) (succeed_command env ex ref payload))
     (succeeded_since st0 A S ex resource s)"
proof (rule triple_seq)
  let ?done = "\<lambda>st. \<exists>a T. since st0 (A @ [a]) S T st \<and>
        audited (ex_meta ex) resource (ex_action ex) AuditSucceeded [] a \<and> names_operation ref s T"
  show "triple (since st0 A S T) (appendAudit env meta resource action AuditSucceeded [] md) (\<lambda>_. ?done)"
    by (rule triple_post[OF triple_appendAudit]) (use assms in blast)
  have complete: "triple ?done (completeCommand env ex stored) (\<lambda>_ st. ?done st \<and> completed ex stored st)"
    for stored
    by (rule triple_complete[where ?st0.0 = st0]) (auto simp: since_def)
  show "triple ?done (succeed_command env ex ref payload) (succeeded_since st0 A S ex resource s)"
    unfolding succeed_command_def Let_def
    by (rule triple_seq[OF complete], rule triple_ret) (auto simp: succeeded_since_def settled_def)
qed

end
