(* ===== verification/Kernel_Commands.thy ===== *)
theory Kernel_Commands
  imports Kernel_Recording
begin

text \<open>
  The commands of the kernel service, taken together: what the body of each one leaves behind,
  and the contract that makes a command run once under its idempotency key.
\<close>

section \<open>The contract of a command\<close>

definition guarded_command ::
  "kenv \<Rightarrow> command_meta \<Rightarrow> command_execution \<Rightarrow> outcome kact \<Rightarrow> (response_payload \<Rightarrow> 'a) \<Rightarrow> 'a kact" where
  "guarded_command env meta ex fresh decode =
     (case validateMeta meta of Inl e \<Rightarrow> throw e | Inr _ \<Rightarrow>
      bindE (Transact env (claim_or_replay env ex fresh))
        (\<lambda>out. of_result (command_return decode out)))"

text \<open>
  A command that ran: it is completed under its key with an answer that repeats, and exactly one
  audit record was added, which names the principal, the action and the outcome. If it failed the
  organizations are unchanged.
\<close>

definition executed ::
  "kstate \<Rightarrow> audit_envelope list \<Rightarrow> (string \<rightharpoonup> organization) \<Rightarrow> command_execution \<Rightarrow> outcome \<Rightarrow>
   kstate \<Rightarrow> bool" where
  "executed st0 A S ex out st \<longleftrightarrow>
     completed ex (fst out) st \<and> settled out \<and>
     (\<exists>a S' T. since st0 (A @ [a]) S' T st \<and> au_actor a = cm_principal (ex_meta ex) \<and>
        au_action a = ex_action ex \<and>
        (case snd out of
           None \<Rightarrow> au_outcome a = AuditSucceeded
         | Some err \<Rightarrow> au_outcome a = failure_outcome err \<and> au_error_code a = ErrorCode err \<and> S' = S))"

lemma executed_failed: "failed_since st0 A S (ex\<lparr>ex_resource := r\<rparr>) err out st \<Longrightarrow> executed st0 A S ex out st"
  unfolding failed_since_def executed_def audited_def completed_def command_key_def by fastforce

lemma executed_failed': "failed_since st0 A S ex err out st \<Longrightarrow> executed st0 A S ex out st"
  using executed_failed[of st0 A S "ex_resource ex" ex] by simp

lemma executed_succeeded: "succeeded_since st0 A S' ex r s out st \<Longrightarrow> executed st0 A S ex out st"
  unfolding succeeded_since_def executed_def audited_def by fastforce

text \<open>A command on operations leaves the organizations alone in any case.\<close>

definition executed_still ::
  "kstate \<Rightarrow> audit_envelope list \<Rightarrow> (string \<rightharpoonup> organization) \<Rightarrow> command_execution \<Rightarrow> outcome \<Rightarrow>
   kstate \<Rightarrow> bool" where
  "executed_still st0 A S ex out st \<longleftrightarrow> executed st0 A S ex out st \<and> organizations st = S"

lemma still_failed:
  "failed_since st0 A S (ex\<lparr>ex_resource := r\<rparr>) err out st \<Longrightarrow> executed_still st0 A S ex out st"
  using executed_failed[of st0 A S r ex err out st]
  by (auto simp: executed_still_def failed_since_def since_def)

lemma still_succeeded: "succeeded_since st0 A S ex r s out st \<Longrightarrow> executed_still st0 A S ex out st"
  using executed_succeeded[of st0 A S ex r s out st]
  by (auto simp: executed_still_def succeeded_since_def since_def)

lemma triple_failed_at:
  "triple (since st0 A S T) (fail_command env (ex\<lparr>ex_resource := r\<rparr>) err md) (executed_still st0 A S ex)"
  by (rule triple_post[OF triple_fail_command]) (rule still_failed)

lemma triple_failed: "triple (since st0 A S T) (fail_command env ex err md) (executed_still st0 A S ex)"
  using triple_failed_at[of st0 A S T env "ex_resource ex" ex] by simp

section \<open>Membership commands\<close>

text \<open>A membership command fails, or the policy allowed it and it applied one operation.\<close>

definition mutated ::
  "kstate \<Rightarrow> audit_envelope list \<Rightarrow> (string \<rightharpoonup> organization) \<Rightarrow> command_execution \<Rightarrow>
   command_meta \<Rightarrow> string \<Rightarrow> string \<Rightarrow> string \<Rightarrow> org_op \<Rightarrow> membership_role option \<Rightarrow> outcome \<Rightarrow>
   kstate \<Rightarrow> bool" where
  "mutated st0 A S ex meta oid action target o' metaRole out st \<longleftrightarrow>
     (\<exists>err. failed_since st0 A S ex err out st) \<or>
     (\<exists>org org' t. S oid = Some org \<and>
        Policy_Check (deriveTenant (cm_principal meta) oid) action (ex_resource ex) (Some org) = Inr () \<and>
        (action = ActionMembershipManage \<longrightarrow>
           canManageTarget org (p_id (deriveTenant (cm_principal meta) oid)) target metaRole) \<and>
        org_apply o' t org = Inr org' \<and>
        succeeded_since st0 A (S(oid \<mapsto> org')) ex (ex_resource ex) OperationSucceeded out st)"

lemma read_organization:
  "since st0 A S T st \<Longrightarrow> GetOrganization oid st = Inr org \<Longrightarrow> S oid = Some org \<and> org_id org = oid \<and> org_inv org"
  by (auto simp: GetOrganization_def since_def kstate_inv_def split: option.splits dest: orgs_invD)

lemma triple_ex_ref:
  "(\<And>T'. names_operation ref s T' \<Longrightarrow> triple (since st0 A S T') m Q) \<Longrightarrow>
   triple (\<lambda>st. \<exists>T'. since st0 A S T' st \<and> names_operation ref s T') m Q"
  unfolding triple_def by blast

text \<open>The tail of a successful change of an organization.\<close>

lemma triple_organization_changed:
  assumes "S oid = Some org" and "org_id org = oid" and "org_step org org'"
    and "action = ex_action ex" and "meta = ex_meta ex"
    and "\<And>out st. succeeded_since st0 A (S(oid \<mapsto> org')) ex resource OperationSucceeded out st \<Longrightarrow> Q out st"
  shows "triple (since st0 A S T)
     (seqE (tx_write (SaveOrganization org' n)) (
      bindE (recordSuccessfulOperation env meta tenant kind data) (\<lambda>op.
      seqE (appendEvent env ty tenant' agg meta payload) (
      seqE (appendAudit env meta resource action AuditSucceeded [] md) (
      succeed_command env ex op (f op)))))) Q"
proof -
  have i: "org_id org' = oid" using org_step_frame[OF assms(3)] assms(2) by simp
  have tail: "triple (since st0 A (S(oid \<mapsto> org')) T')
      (seqE (appendAudit env meta resource action AuditSucceeded [] md) (succeed_command env ex op (f op))) Q"
    if "names_operation op OperationSucceeded T'" for op T'
    by (rule triple_post[OF triple_succeed_command[OF that assms(5,4)] assms(6)])
  have rest: "triple (since st0 A (S(oid \<mapsto> org')) T)
     (bindE (recordSuccessfulOperation env meta tenant kind data) (\<lambda>op.
      seqE (appendEvent env ty tenant' agg meta payload) (
      seqE (appendAudit env meta resource action AuditSucceeded [] md) (
      succeed_command env ex op (f op))))) Q"
    by (rule triple_bind[OF triple_recordSuccessfulOperation], rule triple_ex_ref,
        rule triple_seq[OF triple_appendEvent], rule tail)
  show ?thesis
  proof (rule triple_seq[OF triple_write rest])
    fix st st' assume "since st0 A S T st" and "SaveOrganization org' n st = Inr st'"
    with since_SaveOrganization[of st0 A S T st org' org n] assms(1,3) i
    show "since st0 A (S(oid \<mapsto> org')) T st'" by simp
  qed
qed

lemma triple_mutateMembership_fresh:
  assumes "ex_meta ex = meta" and "ex_action ex = action" and "mutate = org_apply o'"
  shows "triple (since st0 A S T)
     (mutateMembership_fresh env ex meta oid action target mutate metaRole md)
     (mutated st0 A S ex meta oid action target o' metaRole)"
proof -
  have fail: "triple (since st0 A S T) (fail_command env ex err md')
      (mutated st0 A S ex meta oid action target o' metaRole)" for err md'
    by (rule triple_post[OF triple_fail_command]) (auto simp: mutated_def)
  show ?thesis
    unfolding mutateMembership_fresh_def Let_def
  proof (rule triple_bind_attempt_read, goal_cases)
    case (1 e)
    show ?case by (simp add: fail)
  next
    case (2 org)
    let ?pr = "deriveTenant (cm_principal meta) oid"
    have pre: "triple (\<lambda>st. since st0 A S T st \<and> GetOrganization oid st = Inr org) m Q"
      if "S oid = Some org \<Longrightarrow> org_id org = oid \<Longrightarrow> triple (since st0 A S T) m Q" for m :: "outcome kact" and Q
      using that read_organization[of st0 A S T _ oid org] unfolding triple_def by blast
    have change: "triple (since st0 A S T)
     (seqE (tx_write (SaveOrganization org' (org_version org))) (
      bindE (recordSuccessfulOperation env meta (org_id org') (cm_command meta) (VObj md)) (\<lambda>op.
      seqE (appendEvent env EventMembershipChanged (org_id org') target meta
             (md @ [(''organization_id'', VStr (org_id org'))])) (
      seqE (appendAudit env meta (ex_resource ex) action AuditSucceeded [] (Some md)) (
      succeed_command env ex op (CommandPayload op))))))
      (mutated st0 A S ex meta oid action target o' metaRole)"
      if "S oid = Some org" "org_id org = oid" "Policy_Check ?pr action (ex_resource ex) (Some org) = Inr ()"
        "\<not> (action = ActionMembershipManage \<and> \<not> canManageTarget org (p_id ?pr) target metaRole)"
        "mutate t org = Inr org'" for org' t
    proof (rule triple_organization_changed)
      show "org_step org org'" using that(5) unfolding assms(3) by (rule org_op)
    qed (use that assms in \<open>auto simp: mutated_def\<close>)
    show ?case unfolding sum.case
      by (rule pre, intro triple_branches triple_bind_Now fail, rule change) simp_all
  qed
qed

lemma mutated_executed: "mutated st0 A S ex meta oid action target o' metaRole out st \<Longrightarrow> executed st0 A S ex out st"
  by (auto simp: mutated_def dest: executed_failed' executed_succeeded)

text \<open>An acceptance fails, or the principal held an open invitation of the organization.\<close>

definition accepted ::
  "kstate \<Rightarrow> audit_envelope list \<Rightarrow> (string \<rightharpoonup> organization) \<Rightarrow> command_execution \<Rightarrow>
   command_meta \<Rightarrow> string \<Rightarrow> outcome \<Rightarrow> kstate \<Rightarrow> bool" where
  "accepted st0 A S ex meta oid out st \<longleftrightarrow>
     (\<exists>err. failed_since st0 A S ex err out st) \<or>
     (\<exists>org org' t. S oid = Some org \<and>
        HasScope (deriveTenant (cm_principal meta) oid) ActionMembershipAccept \<and>
        org_apply (OpAccept (p_id (cm_principal meta))) t org = Inr org' \<and>
        succeeded_since st0 A (S(oid \<mapsto> org')) ex (ex_resource ex) OperationSucceeded out st)"

lemma deriveTenant_p_id [simp]: "p_id (deriveTenant pr oid) = p_id pr"
  by (simp add: deriveTenant_def WithTenant_def)

lemma triple_AcceptInvitation_fresh:
  assumes "ex_meta ex = meta" and "ex_action ex = ActionMembershipAccept"
  shows "triple (since st0 A S T) (AcceptInvitation_fresh env ex meta oid)
     (accepted st0 A S ex meta oid)"
proof -
  have fail: "triple (since st0 A S T) (fail_command env ex err md')
      (accepted st0 A S ex meta oid)" for err md'
    by (rule triple_post[OF triple_fail_command]) (auto simp: accepted_def)
  show ?thesis
    unfolding AcceptInvitation_fresh_def Let_def
  proof (rule triple_bind_attempt_read, goal_cases)
    case (1 e)
    show ?case by (simp add: fail)
  next
    case (2 org)
    let ?pr = "deriveTenant (cm_principal meta) oid"
    have pre: "triple (\<lambda>st. since st0 A S T st \<and> GetOrganization oid st = Inr org) m Q"
      if "S oid = Some org \<Longrightarrow> org_id org = oid \<Longrightarrow> triple (since st0 A S T) m Q" for m :: "outcome kact" and Q
      using that read_organization[of st0 A S T _ oid org] unfolding triple_def by blast
    have change: "triple (since st0 A S T)
     (seqE (tx_write (SaveOrganization org' n)) (
      bindE (recordSuccessfulOperation env meta tenant kind data) (\<lambda>op.
      seqE (appendEvent env ty tenant' agg meta payload) (
      seqE (appendAudit env meta (ex_resource ex) ActionMembershipAccept AuditSucceeded [] md) (
      succeed_command env ex op (f op))))))
      (accepted st0 A S ex meta oid)"
      if "S oid = Some org" "org_id org = oid" "HasScope ?pr ActionMembershipAccept"
        "AcceptInvitation (p_id ?pr) t org = Inr org'" for org' t n tenant kind data ty tenant' agg payload md f
    proof (rule triple_organization_changed)
      show "org_step org org'" using that(4) org_op[of "OpAccept (p_id ?pr)" t] by simp
    qed (use that assms in \<open>auto simp: accepted_def\<close>)
    show ?case unfolding sum.case
      by (rule pre, intro triple_branches triple_bind_Now fail, rule change) simp_all
  qed
qed

lemma accepted_executed: "accepted st0 A S ex meta oid out st \<Longrightarrow> executed st0 A S ex out st"
  by (auto simp: accepted_def dest: executed_failed' executed_succeeded)

section \<open>The other commands\<close>

text \<open>Creating an organization fails, or adds one organization under a new identifier.\<close>

definition created ::
  "kstate \<Rightarrow> audit_envelope list \<Rightarrow> (string \<rightharpoonup> organization) \<Rightarrow> command_execution \<Rightarrow> outcome \<Rightarrow>
   kstate \<Rightarrow> bool" where
  "created st0 A S ex out st \<longleftrightarrow>
     (\<exists>err. failed_since st0 A S ex err out st) \<or>
     (\<exists>org r. S (org_id org) = None \<and> org_created org \<and>
        HasScope (cm_principal (ex_meta ex)) ActionOrganizationCreate \<and>
        succeeded_since st0 A (S(org_id org \<mapsto> org)) ex r OperationSucceeded out st)"

lemma created_executed: "created st0 A S ex out st \<Longrightarrow> executed st0 A S ex out st"
  by (auto simp: created_def dest: executed_failed' executed_succeeded)

lemma triple_CreateOrganization_fresh:
  assumes "ex_meta ex = meta" and "ex_action ex = ActionOrganizationCreate"
  shows "triple (since st0 A S T) (CreateOrganization_fresh env ex meta name) (created st0 A S ex)"
proof -
  have fail: "triple (since st0 A S T) (fail_command env ex err md') (created st0 A S ex)" for err md'
    by (rule triple_post[OF triple_fail_command]) (auto simp: created_def)
  have insert: "triple (since st0 A S T)
    (bindE (attempt (tx_write (InsertOrganization org))) (\<lambda>inserted.
     case inserted of
       Inl err \<Rightarrow> fail_command env ex err (md err)
     | Inr _ \<Rightarrow>
     bindE (recordSuccessfulOperation env meta tenant kind data) (\<lambda>op.
     seqE (appendEvent env ty tenant' agg meta payload) (
     seqE (appendAudit env meta r ActionOrganizationCreate AuditSucceeded [] md') (
     succeed_command env ex op (f op)))))) (created st0 A S ex)"
    if new: "NewOrganization u i name creator t = Inr org"
      and scope: "HasScope (cm_principal meta) ActionOrganizationCreate"
    for u i creator t org md tenant kind data ty tenant' agg payload r md' f
  proof -
    have org: "org_created org" using new unfolding org_created_def by blast
    show ?thesis
    proof (rule triple_bind_attempt_write[where R = "\<lambda>st. since st0 A (S(org_id org \<mapsto> org)) T st \<and>
          S (org_id org) = None"], goal_cases)
      case (1 st st')
      with org show ?case by (blast intro: since_InsertOrganization)
    next
      case (2 e)
      show ?case by (simp add: fail)
    next
      case (3 u)
      have "triple (since st0 A (S(org_id org \<mapsto> org)) T')
          (seqE (appendAudit env meta r ActionOrganizationCreate AuditSucceeded [] md')
            (succeed_command env ex op (f op))) (created st0 A S ex)"
        if "names_operation op OperationSucceeded T'" "S (org_id org) = None" for op T'
        by (rule triple_post[OF triple_succeed_command[OF that(1)]])
          (use assms org scope that(2) in \<open>auto simp: created_def\<close>)
      then show ?case unfolding sum.case
        by (intro triple_fact triple_bind[OF triple_recordSuccessfulOperation] triple_ex_ref)
          (rule triple_seq[OF triple_appendEvent], simp)
    qed
  qed
  show ?thesis
    unfolding CreateOrganization_fresh_def Let_def
    by (intro triple_branches triple_bind_New triple_bind_Now fail) (rule insert, assumption, simp)
qed

lemma triple_started:
  assumes "NewOperation i tenant kind corr caus t = Inr op" and "ex_meta ex = meta"
    and "ex_action ex = ActionOperationStart"
  shows "triple (since st0 A S T)
     (seqE (tx_write (InsertOperation op)) (
      seqE (appendOperationEvent env op meta) (
      seqE (appendAudit env meta r ActionOperationStart AuditSucceeded [] md) (
      succeed_command env ex \<lparr>or_id = op_id op, or_tenant = op_tenant op, or_state = op_state op\<rparr> p))))
     (executed_still st0 A S ex)"
  by (rule triple_insert_operation[OF assms(1)], rule triple_operation_event,
      rule triple_post[OF triple_succeed_command still_succeeded])
    (simp_all add: names_operation_def assms)

lemma triple_Start_fresh:
  assumes "ex_meta ex = meta" and "ex_action ex = ActionOperationStart"
  shows "triple (since st0 A S T) (Start_fresh env ex meta) (executed_still st0 A S ex)"
proof -
  have pre: "triple (\<lambda>st. since st0 A S T st \<and> F st) m Q" if "triple (since st0 A S T) m Q"
    for m :: "outcome kact" and Q F
    using that by (rule triple_pre) simp
  show ?thesis
    unfolding Start_fresh_def Let_def
    by (intro triple_branches triple_bind_New triple_bind_Now triple_bind_result triple_failed
        triple_bind_attempt_read) (auto split: sum.split intro!: pre triple_bind_New triple_bind_Now
        triple_bind_result triple_failed triple_started assms)
qed

lemma read_operation:
  "since st0 A S T st \<Longrightarrow> GetOperation oid st = Inr op \<Longrightarrow> T oid = Some op \<and> op_id op = oid"
  by (auto simp: GetOperation_def since_def kstate_inv_def ops_inv_def split: option.splits)

lemma Cancel_frame:
  assumes "Operation_Cancel now op = Inr op'"
  shows "operation_step op op' \<and> op_id op' = op_id op \<and> op_state op' = OperationCanceled \<and>
         (op_version op' = op_version op \<longrightarrow> op' = op)"
proof -
  have s: "operation_step op op'" using assms by (rule cancel)
  moreover have "op_state op' = OperationCanceled"
    using assms by (auto simp: Operation_Cancel_def Operation_Transition_def split: if_splits)
  ultimately show ?thesis using operation_step_cases[OF s] by auto
qed

lemma triple_canceled:
  assumes "Operation_Cancel t op = Inr op'" and "T oid = Some op" and "op_id op = oid"
    and "ex_meta ex = meta" and "ex_action ex = ActionOperationCancel"
  shows "triple (since st0 A S T)
     (seqE (if op_version op' = op_version op then ret ()
            else seqE (tx_write (SaveOperation op' (op_version op))) (appendOperationEvent env op' meta)) (
      seqE (appendAudit env meta r ActionOperationCancel AuditSucceeded [] md) (
      succeed_command env ex \<lparr>or_id = op_id op', or_tenant = op_tenant op', or_state = op_state op'\<rparr> p)))
     (executed_still st0 A S ex)"
proof -
  note f = Cancel_frame[OF assms(1)]
  have T: "T(oid \<mapsto> op') = T" if "op' = op" using that assms(2) by auto
  have save: "triple (since st0 A S T)
     (if op_version op' = op_version op then ret ()
      else seqE (tx_write (SaveOperation op' (op_version op))) (appendOperationEvent env op' meta))
     (\<lambda>_. since st0 A S (T(oid \<mapsto> op')))"
  proof (intro triple_branches)
    assume "op_version op' = op_version op"
    with f T show "triple (since st0 A S T) (ret ()) (\<lambda>_. since st0 A S (T(oid \<mapsto> op')))"
      by (intro triple_ret) auto
  next
    show "triple (since st0 A S T)
        (seqE (tx_write (SaveOperation op' (op_version op))) (appendOperationEvent env op' meta))
        (\<lambda>_. since st0 A S (T(oid \<mapsto> op')))"
      by (rule triple_save_step[where op = op, unfolded assms(3)])
        (use f assms(2,3) triple_appendOperationEvent in auto)
  qed
  show ?thesis
    by (rule triple_seq[OF save], rule triple_post[OF triple_succeed_command still_succeeded])
      (use assms f in \<open>simp_all add: names_operation_def\<close>)
qed

lemma triple_CancelOperation_fresh:
  assumes "ex_meta ex = meta" and "ex_action ex = ActionOperationCancel"
  shows "triple (since st0 A S T) (CancelOperation_fresh env ex meta oid) (executed_still st0 A S ex)"
proof -
  have pre_op: "triple (\<lambda>st. since st0 A S T st \<and> GetOperation oid st = Inr op) m Q"
    if "T oid = Some op \<Longrightarrow> op_id op = oid \<Longrightarrow> triple (since st0 A S T) m Q" for m :: "outcome kact" and Q op
    using that read_operation[of st0 A S T _ oid op] unfolding triple_def by blast
  have pre: "triple (\<lambda>st. since st0 A S T st \<and> F st) m Q" if "triple (since st0 A S T) m Q"
    for m :: "outcome kact" and Q F
    using that by (rule triple_pre) simp
  show ?thesis
    unfolding CancelOperation_fresh_def Let_def
    apply (rule triple_bind_attempt_read)
     apply (simp add: triple_failed)
    apply (unfold sum.case, rule pre_op, rule triple_bind_attempt_read)
     apply (simp add: triple_failed)
    apply (unfold sum.case, rule pre, intro triple_branches triple_bind_Now triple_failed_at)
    by (rule triple_canceled[OF _ _ _ assms])
qed

section \<open>All commands\<close>

datatype kernel_command =
    CmdCreateOrganization string
  | CmdInviteMember string string membership_role
  | CmdAcceptInvitation string
  | CmdChangeMemberRole string string membership_role
  | CmdSuspendMembership string string
  | CmdRemoveMembership string string
  | CmdStart
  | CmdCancelOperation string

datatype kernel_answer =
    AnsOrganization operation_ref organization_snapshot
  | AnsOperation operation_ref

definition map_act :: "('a \<Rightarrow> 'b) \<Rightarrow> 'a kact \<Rightarrow> 'b kact" where
  "map_act f m = bindE m (\<lambda>a. ret (f a))"

fun exec_command :: "kenv \<Rightarrow> command_meta \<Rightarrow> kernel_command \<Rightarrow> kernel_answer kact" where
  "exec_command env meta (CmdCreateOrganization name) =
     map_act (\<lambda>(r, sn). AnsOrganization r sn) (CreateOrganization env meta name)"
| "exec_command env meta (CmdInviteMember oid target role) =
     map_act AnsOperation (InviteMember env meta oid target role)"
| "exec_command env meta (CmdAcceptInvitation oid) =
     map_act AnsOperation (AcceptInvitation_cmd env meta oid)"
| "exec_command env meta (CmdChangeMemberRole oid target role) =
     map_act AnsOperation (ChangeMemberRole_cmd env meta oid target role)"
| "exec_command env meta (CmdSuspendMembership oid target) =
     map_act AnsOperation (SuspendMembership env meta oid target)"
| "exec_command env meta (CmdRemoveMembership oid target) =
     map_act AnsOperation (RemoveMembership env meta oid target)"
| "exec_command env meta CmdStart = map_act AnsOperation (Start env meta)"
| "exec_command env meta (CmdCancelOperation oid) =
     map_act AnsOperation (CancelOperation env meta oid)"

text \<open>The same command in the form of the contract.\<close>

fun command_meta_of :: "command_meta \<Rightarrow> kernel_command \<Rightarrow> command_meta" where
  "command_meta_of meta (CmdCreateOrganization name) = meta\<lparr>cm_command := ''CreateOrganization''\<rparr>"
| "command_meta_of meta (CmdInviteMember oid target role) = meta\<lparr>cm_command := ''InviteMember''\<rparr>"
| "command_meta_of meta (CmdAcceptInvitation oid) = meta\<lparr>cm_command := ''AcceptInvitation''\<rparr>"
| "command_meta_of meta (CmdChangeMemberRole oid target role) = meta\<lparr>cm_command := ''ChangeMemberRole''\<rparr>"
| "command_meta_of meta (CmdSuspendMembership oid target) = meta\<lparr>cm_command := ''SuspendMembership''\<rparr>"
| "command_meta_of meta (CmdRemoveMembership oid target) = meta\<lparr>cm_command := ''RemoveMembership''\<rparr>"
| "command_meta_of meta CmdStart =
     (if cm_command meta = [] then meta\<lparr>cm_command := ''StartOperation''\<rparr> else meta)"
| "command_meta_of meta (CmdCancelOperation oid) = meta\<lparr>cm_command := ''CancelOperation''\<rparr>"

fun command_ex :: "kenv \<Rightarrow> command_meta \<Rightarrow> kernel_command \<Rightarrow> command_execution" where
  "command_ex env meta (CmdCreateOrganization name) =
     prepareCommand env meta (platformScope meta (cm_command meta)) (VObj [(''name'', VStr name)])
       ActionOrganizationCreate \<lparr>r_tenant = [], r_type = ''organization'', r_id = ''new''\<rparr>"
| "command_ex env meta (CmdInviteMember oid target role) =
     prepareCommand env meta (tenantScope meta oid (cm_command meta))
       (VObj [(''organization_id'', VStr oid), (''principal_id'', VStr target),
              (''role'', VStr (role_text role))])
       ActionMembershipInvite \<lparr>r_tenant = oid, r_type = ''membership'', r_id = target\<rparr>"
| "command_ex env meta (CmdAcceptInvitation oid) =
     prepareCommand env meta (tenantScope meta oid (cm_command meta))
       (VObj [(''organization_id'', VStr oid)]) ActionMembershipAccept
       \<lparr>r_tenant = oid, r_type = ''membership'', r_id = p_id (cm_principal meta)\<rparr>"
| "command_ex env meta (CmdChangeMemberRole oid target role) =
     prepareCommand env meta (tenantScope meta oid (cm_command meta))
       (VObj [(''organization_id'', VStr oid), (''principal_id'', VStr target),
              (''role'', VStr (role_text role))])
       ActionMembershipManage \<lparr>r_tenant = oid, r_type = ''membership'', r_id = target\<rparr>"
| "command_ex env meta (CmdSuspendMembership oid target) =
     prepareCommand env meta (tenantScope meta oid (cm_command meta))
       (VObj [(''organization_id'', VStr oid), (''principal_id'', VStr target)])
       ActionMembershipManage \<lparr>r_tenant = oid, r_type = ''membership'', r_id = target\<rparr>"
| "command_ex env meta (CmdRemoveMembership oid target) =
     prepareCommand env meta (tenantScope meta oid (cm_command meta))
       (VObj [(''organization_id'', VStr oid), (''principal_id'', VStr target)])
       ActionMembershipManage \<lparr>r_tenant = oid, r_type = ''membership'', r_id = target\<rparr>"
| "command_ex env meta CmdStart =
     prepareCommand env meta (tenantScope meta (cm_tenant meta) ''StartOperation'')
       (VObj [(''tenant_id'', VStr (cm_tenant meta)), (''kind'', VStr (cm_command meta))])
       ActionOperationStart \<lparr>r_tenant = cm_tenant meta, r_type = ''operation'', r_id = ''new''\<rparr>"
| "command_ex env meta (CmdCancelOperation oid) =
     prepareCommand env meta (platformScope meta (cm_command meta @ '':'' @ oid))
       (VObj [(''operation_id'', VStr oid)]) ActionOperationCancel
       \<lparr>r_tenant = [], r_type = ''operation'', r_id = oid\<rparr>"

fun command_fresh :: "kenv \<Rightarrow> command_meta \<Rightarrow> kernel_command \<Rightarrow> outcome kact" where
  "command_fresh env meta (CmdCreateOrganization name) =
     CreateOrganization_fresh env (command_ex env meta (CmdCreateOrganization name)) meta name"
| "command_fresh env meta (CmdInviteMember oid target role) =
     mutateMembership_fresh env (command_ex env meta (CmdInviteMember oid target role)) meta oid
       ActionMembershipInvite target (Invite target role) (Some role)
       (member_metadata target (Some role) [(''state'', VStr ''INVITED'')])"
| "command_fresh env meta (CmdAcceptInvitation oid) =
     AcceptInvitation_fresh env (command_ex env meta (CmdAcceptInvitation oid)) meta oid"
| "command_fresh env meta (CmdChangeMemberRole oid target role) =
     mutateMembership_fresh env (command_ex env meta (CmdChangeMemberRole oid target role)) meta oid
       ActionMembershipManage target (ChangeMemberRole target role) (Some role)
       (member_metadata target (Some role) [])"
| "command_fresh env meta (CmdSuspendMembership oid target) =
     mutateMembership_fresh env (command_ex env meta (CmdSuspendMembership oid target)) meta oid
       ActionMembershipManage target (SuspendMember target) None
       (member_metadata target None [(''state'', VStr ''SUSPENDED'')])"
| "command_fresh env meta (CmdRemoveMembership oid target) =
     mutateMembership_fresh env (command_ex env meta (CmdRemoveMembership oid target)) meta oid
       ActionMembershipManage target (RemoveMember target) None
       (member_metadata target None [(''state'', VStr ''REMOVED'')])"
| "command_fresh env meta CmdStart = Start_fresh env (command_ex env meta CmdStart) meta"
| "command_fresh env meta (CmdCancelOperation oid) =
     CancelOperation_fresh env (command_ex env meta (CmdCancelOperation oid)) meta oid"

fun command_decode :: "kernel_command \<Rightarrow> response_payload \<Rightarrow> kernel_answer" where
  "command_decode (CmdCreateOrganization name) p = (case decode_create p of (r, sn) \<Rightarrow> AnsOrganization r sn)"
| "command_decode CmdStart p = AnsOperation (decode_ref p)"
| "command_decode _ p = AnsOperation (decode_command p)"

lemma map_act_return:
  "map_act f (bindE m (\<lambda>out. of_result (command_return decode out))) =
   bindE m (\<lambda>out. of_result (command_return (\<lambda>p. f (decode p)) out))"
  by (rule ext)
    (auto simp: map_act_def act_simps command_return_def split: sum.splits prod.splits option.splits)

lemma map_act_throw: "map_act f (throw e) = throw e"
  by (simp add: map_act_def)

lemma command_decode_eta:
  "command_decode (CmdCreateOrganization name) =
     (\<lambda>p. AnsOrganization (fst (decode_create p)) (snd (decode_create p)))"
  "command_decode CmdStart = (\<lambda>p. AnsOperation (decode_ref p))"
  "command_decode (CmdInviteMember oid target role) = (\<lambda>p. AnsOperation (decode_command p))"
  "command_decode (CmdAcceptInvitation oid) = (\<lambda>p. AnsOperation (decode_command p))"
  "command_decode (CmdChangeMemberRole oid target role) = (\<lambda>p. AnsOperation (decode_command p))"
  "command_decode (CmdSuspendMembership oid target) = (\<lambda>p. AnsOperation (decode_command p))"
  "command_decode (CmdRemoveMembership oid target) = (\<lambda>p. AnsOperation (decode_command p))"
  "command_decode (CmdCancelOperation oid) = (\<lambda>p. AnsOperation (decode_command p))"
  by (simp_all add: fun_eq_iff case_prod_beta)

lemmas command_defs =
  CreateOrganization_def InviteMember_def AcceptInvitation_cmd_def ChangeMemberRole_cmd_def
  SuspendMembership_def RemoveMembership_def Start_def CancelOperation_def mutateMembership_def

lemma exec_command_guarded:
  "exec_command env meta0 c =
     (let meta = command_meta_of meta0 c in
      guarded_command env meta (command_ex env meta c) (command_fresh env meta c) (command_decode c))"
proof (cases "validateMeta (command_meta_of meta0 c)")
  case (Inl e)
  then show ?thesis
    by (cases c) (simp_all add: guarded_command_def command_defs Let_def map_act_throw)
next
  case (Inr u)
  then show ?thesis
    by (cases c)
      (simp_all add: guarded_command_def command_defs Let_def map_act_return case_prod_beta
        command_decode_eta)
qed

lemma command_ex_meta [simp]: "ex_meta (command_ex env meta c) = meta"
  by (cases c) (simp_all add: prepareCommand_def)

fun command_action :: "kernel_command \<Rightarrow> string" where
  "command_action (CmdCreateOrganization name) = ActionOrganizationCreate"
| "command_action (CmdInviteMember oid target role) = ActionMembershipInvite"
| "command_action (CmdAcceptInvitation oid) = ActionMembershipAccept"
| "command_action CmdStart = ActionOperationStart"
| "command_action (CmdCancelOperation oid) = ActionOperationCancel"
| "command_action _ = ActionMembershipManage"

lemma command_ex_action [simp]: "ex_action (command_ex env meta c) = command_action c"
  by (cases c) (simp_all add: prepareCommand_def)

text \<open>The organization, the target, the operation and the role of a membership command.\<close>

fun membership_change ::
  "kernel_command \<Rightarrow> (string \<times> string \<times> org_op \<times> membership_role option) option" where
  "membership_change (CmdInviteMember oid target role) = Some (oid, target, OpInvite target role, Some role)"
| "membership_change (CmdChangeMemberRole oid target role) =
     Some (oid, target, OpChangeRole target role, Some role)"
| "membership_change (CmdSuspendMembership oid target) = Some (oid, target, OpSuspend target, None)"
| "membership_change (CmdRemoveMembership oid target) = Some (oid, target, OpRemove target, None)"
| "membership_change _ = None"

lemma triple_membership_command:
  assumes "membership_change c = Some (oid, target, o', metaRole)"
  shows "triple (since st0 A S T) (command_fresh env meta c)
     (mutated st0 A S (command_ex env meta c) meta oid (command_action c) target o' metaRole)"
proof -
  have m: "Invite target role = org_apply (OpInvite target role)"
    "ChangeMemberRole target role = org_apply (OpChangeRole target role)"
    "SuspendMember target = org_apply (OpSuspend target)"
    "RemoveMember target = org_apply (OpRemove target)" for role
    by (simp_all add: fun_eq_iff)
  note t = triple_mutateMembership_fresh[where ex = "command_ex env meta c" and meta = meta]
  from assms m t show ?thesis
    by (cases c) (auto simp del: command_ex.simps)
qed

lemma triple_command_fresh:
  "triple (since st0 A S T) (command_fresh env meta c) (executed st0 A S (command_ex env meta c))"
proof (cases "membership_change c")
  case (Some x)
  then show ?thesis
    by (cases x) (auto intro: triple_post[OF triple_membership_command] mutated_executed)
next
  case None
  have a: "ex_action (command_ex env meta c) = command_action c" by simp
  have still: "executed_still st0 A S ex out st \<Longrightarrow> executed st0 A S ex out st" for ex out st
    by (simp add: executed_still_def)
  from None show ?thesis
    by (cases c)
      (simp_all del: command_ex.simps add: triple_post[OF triple_CreateOrganization_fresh created_executed]
        triple_post[OF triple_AcceptInvitation_fresh accepted_executed]
        triple_post[OF triple_Start_fresh still] triple_post[OF triple_CancelOperation_fresh still])
qed

end
