(* ===== verification/Kernel_Guarantees.thy ===== *)
theory Kernel_Guarantees
  imports Kernel_Commands
begin

text \<open>
  What the kernel promises of every command: it runs once under its idempotency key and its
  answer never changes, it leaves one audit record, it changes an organization only with
  authority, and whatever is executed keeps the store's invariant and its history.
\<close>

section \<open>Running once\<close>

text \<open>The store holds the final answer to a command.\<close>

definition answered :: "command_execution \<Rightarrow> stored_response \<Rightarrow> kstate \<Rightarrow> bool" where
  "answered ex stored st \<longleftrightarrow>
     (\<exists>r. idempotency st (command_key ex) = Some r \<and> ir_fingerprint r = ex_fingerprint ex \<and>
          ir_status r = IdempotencyCompleted \<and> ir_response r = Some stored)"

lemma answered_later: "answered ex stored st \<Longrightarrow> grown st st' \<Longrightarrow> answered ex stored st'"
  by (fastforce simp: answered_def grown_def key_later_def dest: growsD)

text \<open>The contract: the body of the command, run as the first one under its key, completes it.\<close>

locale run_once =
  fixes ex :: command_execution and fresh :: "outcome kact"
  assumes fresh_executed: "triple (since st0 A S T) fresh (executed st0 A S ex)"
begin

definition first_run :: "kworld \<Rightarrow> outcome \<Rightarrow> kworld \<Rightarrow> bool" where
  "first_run w out w' \<longleftrightarrow> idempotency (db w) (command_key ex) = None \<and>
     executed (db w) (audit (db w)) (organizations (db w)) ex out (db w') \<and>
     (\<exists>w1. since (db w) (audit (db w)) (organizations (db w)) (operations (db w)) (db w1) \<and>
           fresh w1 = (Inr out, w'))"

lemma claim_cases:
  assumes "kstate_inv (db w)" and "claim_or_replay env ex fresh w = (Inr out, w')"
  shows "first_run w out w' \<and> answered ex (fst out) (db w') \<or>
         db w' = db w \<and> answered ex (fst out) (db w) \<and> snd out = None"
proof (cases "idempotency (db w) (command_key ex)")
  case (Some r)
  with assms(2) show ?thesis
    by (auto simp: claim_or_replay_def claimCommand_def Now_def tx_update_def ClaimIdempotency_def
        command_key_def answered_def throw_def ret_def split: if_splits option.splits)
next
  case None
  define t where "t = clock_Now env (clk_seq w)"
  define r where "r = \<lparr>ir_scope = ex_scope ex, ir_key = cm_idempotency_key (ex_meta ex),
        ir_fingerprint = ex_fingerprint ex, ir_status = IdempotencyStarted, ir_response = None,
        ir_operation_id = [], ir_created_at = t, ir_updated_at = t\<rparr>"
  define st1 where "st1 = (db w)\<lparr>idempotency := (idempotency (db w))(command_key ex \<mapsto> r)\<rparr>"
  define w1 where "w1 = w\<lparr>clk_seq := clk_seq w + 1, db := st1\<rparr>"
  from None assms(2) have claim: "ClaimIdempotency r (db w) = Inr (None, st1)"
    and run: "fresh w1 = (Inr out, w')"
    by (auto simp: claim_or_replay_def claimCommand_def Now_def tx_update_def ClaimIdempotency_def
        command_key_def throw_def ret_def r_def t_def w1_def st1_def Let_def split: if_splits)
  have kdb1: "db w1 = st1" by (simp add: w1_def)
  have since1: "since (db w) (audit (db w)) (organizations (db w)) (operations (db w)) st1"
    by (rule since_ClaimIdempotency[OF since_refl[OF assms(1)] claim])
  then have x: "executed (db w) (audit (db w)) (organizations (db w)) ex out (db w')"
    using tripleD[OF fresh_executed run] by (simp add: kdb1)
  have inv1: "kstate_inv st1" using since1 by (rule sinceD(1))
  then have "executed st1 (audit st1) (organizations st1) ex out (db w')"
    using tripleD[OF fresh_executed run] since_refl[OF inv1] by (simp add: kdb1)
  then have "kernel_effect\<^sup>*\<^sup>* st1 (db w')" and c: "completed ex (fst out) (db w')"
    by (auto simp: executed_def since_def)
  then have "grown st1 (db w')" using inv1 by (blast intro: effects_grown)
  then have g: "grows key_later (idempotency st1) (idempotency (db w'))" by (simp add: grown_def)
  have "idempotency st1 (command_key ex) = Some r" by (simp add: st1_def)
  from growsD[OF g this] obtain r' where "idempotency (db w') (command_key ex) = Some r'"
    "ir_fingerprint r' = ex_fingerprint ex"
    by (auto simp: key_later_def r_def)
  with c have "answered ex (fst out) (db w')" by (auto simp: answered_def completed_def)
  with x None since1 run show ?thesis unfolding first_run_def kdb1[symmetric] by blast
qed

lemma replay:
  assumes "answered ex stored (db w)"
  shows "claim_or_replay env ex fresh w = (Inr (stored, None), w\<lparr>clk_seq := clk_seq w + 1\<rparr>)"
  using assms
  by (auto simp: claim_or_replay_def claimCommand_def act_simps ClaimIdempotency_def Let_def
      command_key_def answered_def)

lemma key_conflict:
  assumes "idempotency (db w) (command_key ex) = Some r" and "ir_fingerprint r \<noteq> ex_fingerprint ex"
  shows "claim_or_replay env ex fresh w = (Inl (NewError CodeIdempotencyConflict
           [''Idempotency key was already used with a different payload'']), w\<lparr>clk_seq := clk_seq w + 1\<rparr>)"
  using assms
  by (auto simp: claim_or_replay_def claimCommand_def act_simps ClaimIdempotency_def Let_def
      command_key_def)

text \<open>The whole command: it leaves the store alone, or it is the first run under its key.\<close>

lemma guarded_cases:
  assumes "kstate_inv (db w)" and "guarded_command env meta ex fresh decode w = (r, w')"
    and "db w' \<noteq> db w \<or> (\<exists>a. r = Inr a)"
  shows "validateMeta meta = Inr () \<and>
     (\<exists>out. r = command_return decode out \<and> r = command_return decode (fst out, None) \<and>
        answered ex (fst out) (db w') \<and> (db w' \<noteq> db w \<longrightarrow> first_run w out w'))"
proof -
  from assms(2,3) have v: "validateMeta meta = Inr ()"
    by (auto simp: guarded_command_def throw_def split: sum.splits)
  with assms(2) obtain t w1 where t: "Transact env (claim_or_replay env ex fresh) w = (t, w1)"
    and r: "(case t of Inl e \<Rightarrow> (Inl e, w1) | Inr out \<Rightarrow> (command_return decode out, w1)) = (r, w')"
    by (cases "Transact env (claim_or_replay env ex fresh) w") (auto simp: guarded_command_def act_simps
        split: sum.splits)
  have w1: "w1 = w'" using r by (auto split: sum.splits)
  from t r assms(3) obtain out where "t = Inr out"
    by (cases t) (auto dest: transact_Inl)
  with t w1 have "claim_or_replay env ex fresh w = (Inr out, w')" by (simp add: Transact_Inr)
  from claim_cases[OF assms(1) this] have c: "answered ex (fst out) (db w')"
      "db w' \<noteq> db w \<Longrightarrow> first_run w out w'" "settled out \<or> snd out = None"
    by (auto simp: first_run_def executed_def)
  have "command_return decode (fst out, None) = command_return decode out"
    using c(3) settled_return[of out decode] by (cases out) auto
  with v c(1,2) r w1 \<open>t = Inr out\<close> show ?thesis by (intro conjI exI[of _ out]) auto
qed

end

interpretation command: run_once "command_ex env meta c" "command_fresh env meta c" for env meta c
  by unfold_locales (rule triple_command_fresh)

section \<open>Answers are final\<close>

lemma exec_cases:
  assumes "kstate_inv (db w)" and "exec_command env meta c w = (r, w1)"
    and "db w1 \<noteq> db w \<or> (\<exists>a. r = Inr a)"
    and "meta' = command_meta_of meta c" and "ex = command_ex env meta' c"
  shows "\<exists>out. validateMeta meta' = Inr () \<and> r = command_return (command_decode c) out \<and>
     r = command_return (command_decode c) (fst out, None) \<and> answered ex (fst out) (db w1) \<and>
     (db w1 \<noteq> db w \<longrightarrow> run_once.first_run ex (command_fresh env meta' c) w out w1)"
  using command.guarded_cases[OF assms(1) assms(2)[unfolded exec_command_guarded Let_def] assms(3)]
  unfolding assms(4,5) by blast

lemma command_effects:
  assumes "kstate_inv (db w)" and "exec_command env meta c w = (r, w1)"
  shows "kernel_effect\<^sup>*\<^sup>* (db w) (db w1)"
proof (cases "db w1 = db w")
  case False
  then obtain out where "run_once.first_run (command_ex env (command_meta_of meta c) c)
      (command_fresh env (command_meta_of meta c) c) w out w1"
    using exec_cases[OF assms _ refl refl] by blast
  then show ?thesis by (auto simp: command.first_run_def executed_def since_def)
qed simp

lemma command_keeps_inv:
  "kstate_inv (db w) \<Longrightarrow> exec_command env meta c w = (r, w1) \<Longrightarrow> kstate_inv (db w1)"
  using command_effects kernel_store.run_inv by blast

text \<open>
  C4. A command runs once. When it has run, whether it succeeded or failed, and after whatever
  the kernel did since, its repetition under the same idempotency key returns the same answer
  and does not touch the store.
\<close>
theorem command_answer_is_final:
  assumes "kstate_inv (db w)" and "exec_command env meta c w = (r, w1)"
    and "db w1 \<noteq> db w \<or> (\<exists>a. r = Inr a)"
    and "kernel_effect\<^sup>*\<^sup>* (db w1) (db w2)" and "kstate_inv (db w1)"
    and "CanonicalFingerprint env' = CanonicalFingerprint env"
    and "ctx_begin env' = None" and "ctx_commit env' = None"
  shows "exec_command env' meta c w2 = (r, w2\<lparr>clk_seq := clk_seq w2 + 1\<rparr>)"
proof -
  define meta' ex where m: "meta' = command_meta_of meta c" "ex = command_ex env meta' c"
  obtain out :: outcome where v: "validateMeta meta' = Inr ()"
    "r = command_return (command_decode c) (fst out, None)" and a: "answered ex (fst out) (db w1)"
    using exec_cases[OF assms(1-3) m] by blast
  have "command_ex env' meta' c = ex"
    unfolding m(2) by (cases c) (simp_all add: prepareCommand_def assms(6))
  moreover have "answered ex (fst out) (db w2)"
    using a effects_grown[OF assms(4,5)] by (rule answered_later)
  ultimately have "claim_or_replay env' (command_ex env' meta' c) (command_fresh env' meta' c) w2 =
      (Inr (fst out, None), w2\<lparr>clk_seq := clk_seq w2 + 1\<rparr>)"
    by (metis command.replay)
  then have "Transact env' (claim_or_replay env' (command_ex env' meta' c) (command_fresh env' meta' c)) w2 =
      (Inr (fst out, None), w2\<lparr>clk_seq := clk_seq w2 + 1\<rparr>)"
    by (simp add: Transact_Inr assms)
  then show ?thesis
    unfolding exec_command_guarded Let_def m(1)[symmetric]
    by (simp add: guarded_command_def v act_simps)
qed

text \<open>
  C35. The key of a command protects its payload: a command that comes with a key that was used
  in its scope for another payload is refused and does not touch the store.
\<close>
theorem key_reuse_is_refused:
  assumes "meta' = command_meta_of meta c" and "ex = command_ex env meta' c"
    and "validateMeta meta' = Inr ()" and "ctx_begin env = None"
    and "idempotency (db w) (command_key ex) = Some r" and "ir_fingerprint r \<noteq> ex_fingerprint ex"
  shows "\<exists>e w'. exec_command env meta c w = (Inl e, w') \<and> ErrorCode e = CodeIdempotencyConflict \<and>
     db w' = db w"
  using command.key_conflict[of w env meta' c r env] assms
  unfolding exec_command_guarded Let_def guarded_command_def
  by (auto simp: Transact_def act_simps error_defs)

section \<open>Audit\<close>

text \<open>
  C26. A command that touches the store appends exactly one record to the audit log, after all
  earlier ones. It names the principal and the action, it says SUCCEEDED exactly if the command
  was answered without an error, DENIED exactly if the error is a refused authorization, and it
  carries the code of the error.
\<close>
theorem command_is_audited_once:
  assumes "kstate_inv (db w)" and "exec_command env meta c w = (r, w1)" and "db w1 \<noteq> db w"
  shows "\<exists>a. audit (db w1) = audit (db w) @ [a] \<and> au_actor a = cm_principal meta \<and>
     au_action a = command_action c \<and>
     (case r of
        Inr _ \<Rightarrow> au_outcome a = AuditSucceeded
      | Inl e \<Rightarrow> au_outcome a = (if ErrorCode e = CodeForbidden then AuditDenied else AuditFailed) \<and>
                 au_error_code a = ErrorCode e)"
proof -
  define meta' ex where m: "meta' = command_meta_of meta c" "ex = command_ex env meta' c"
  obtain stored err where r: "r = command_return (command_decode c) (stored, err)"
    and f: "run_once.first_run ex (command_fresh env meta' c) w (stored, err) w1"
    using exec_cases[OF assms(1,2) _ m] assms(3) by (metis surj_pair)
  have p: "cm_principal meta' = cm_principal meta" unfolding m(1) by (cases c) auto
  from f have "executed (db w) (audit (db w)) (organizations (db w)) ex (stored, err) (db w1)"
    unfolding m(2) command.first_run_def by blast
  then obtain a where a: "audit (db w1) = audit (db w) @ [a]" "au_actor a = cm_principal meta"
      "au_action a = command_action c"
    and o: "case err of None \<Rightarrow> au_outcome a = AuditSucceeded
            | Some e \<Rightarrow> au_outcome a = failure_outcome e \<and> au_error_code a = ErrorCode e"
    and s: "settled (stored, err)"
    unfolding executed_def by (auto simp: since_def p m(2) split: option.splits)
  show ?thesis
  proof (cases err)
    case None
    with s obtain p where "sr_error stored = None" "sr_payload stored = Some p" by (auto simp: settled_def)
    with None r o a show ?thesis by (auto simp: command_return_def replayError_def)
  next
    case (Some e)
    with s obtain i where i: "sr_error stored = Some (ToPublicError e i)" by (auto simp: settled_def)
    with Some r obtain e' where e': "r = Inl e'" "ErrorCode e' = ErrorCode e"
      by (auto simp: command_return_def replayError_def ErrorCode_def[of "DomainError _ _ _ _"])
    with Some o a show ?thesis by (auto simp: failure_outcome_def)
  qed
qed

section \<open>Authority\<close>

lemma first_run_triple:
  assumes "run_once.first_run (command_ex env meta c) (command_fresh env meta c) w out w1"
    and "\<And>st0 A S T. triple (since st0 A S T) (command_fresh env meta c) (Q st0 A S)"
  shows "Q (db w) (audit (db w)) (organizations (db w)) out (db w1)"
  using assms(1) unfolding command.first_run_def by (blast dest: tripleD[OF assms(2)])

text \<open>The reasons for which a command may change an organization.\<close>

definition authorized_change ::
  "command_meta \<Rightarrow> kernel_command \<Rightarrow> (string \<rightharpoonup> organization) \<Rightarrow> (string \<rightharpoonup> organization) \<Rightarrow> bool" where
  "authorized_change meta c S S' \<longleftrightarrow>
     (\<exists>name org. c = CmdCreateOrganization name \<and>
        HasScope (cm_principal meta) ActionOrganizationCreate \<and>
        S (org_id org) = None \<and> org_created org \<and> S' = S(org_id org \<mapsto> org)) \<or>
     (\<exists>oid org org' t. c = CmdAcceptInvitation oid \<and> S oid = Some org \<and>
        HasScope (deriveTenant (cm_principal meta) oid) ActionMembershipAccept \<and>
        org_apply (OpAccept (p_id (cm_principal meta))) t org = Inr org' \<and> S' = S(oid \<mapsto> org')) \<or>
     (\<exists>oid target o' role org org' t. membership_change c = Some (oid, target, o', role) \<and>
        S oid = Some org \<and>
        Policy_Check (deriveTenant (cm_principal meta) oid) (command_action c)
          \<lparr>r_tenant = oid, r_type = ''membership'', r_id = target\<rparr> (Some org) = Inr () \<and>
        (command_action c = ActionMembershipManage \<longrightarrow>
           canManageTarget org (p_id (cm_principal meta)) target role) \<and>
        org_apply o' t org = Inr org' \<and> S' = S(oid \<mapsto> org'))"

lemma since_organizations: "since st0 A S T st \<Longrightarrow> organizations st = S"
  by (simp add: since_def)

lemma failed_organizations: "failed_since st0 A S ex err out st \<Longrightarrow> organizations st = S"
  by (auto simp: failed_since_def since_def)

lemma succeeded_organizations: "succeeded_since st0 A S ex r s out st \<Longrightarrow> organizations st = S"
  by (auto simp: succeeded_since_def since_def)

lemma first_run_authorized:
  assumes "run_once.first_run (command_ex env meta c) (command_fresh env meta c) w out w1"
  shows "organizations (db w1) = organizations (db w) \<or>
         authorized_change meta c (organizations (db w)) (organizations (db w1))"
proof (cases "membership_change c")
  case (Some x)
  then obtain oid target o' role where c: "membership_change c = Some (oid, target, o', role)"
    by (cases x) auto
  then have "ex_resource (command_ex env meta c) = \<lparr>r_tenant = oid, r_type = ''membership'', r_id = target\<rparr>"
    by (cases c) (auto simp: prepareCommand_def)
  with first_run_triple[OF assms triple_membership_command[OF c]] c show ?thesis
    by (auto simp: mutated_def authorized_change_def dest!: failed_organizations succeeded_organizations)
next
  case None
  then show ?thesis
  proof (cases c)
    case (CmdCreateOrganization name)
    have "triple (since st0 A S T) (command_fresh env meta c) (created st0 A S (command_ex env meta c))"
      for st0 A S T
      using triple_CreateOrganization_fresh[of "command_ex env meta c" meta]
      by (simp add: CmdCreateOrganization del: command_ex.simps)
    from first_run_triple[OF assms this] show ?thesis
      by (auto simp: created_def authorized_change_def CmdCreateOrganization simp del: command_ex.simps
          dest!: failed_organizations succeeded_organizations)
  next
    case (CmdAcceptInvitation oid)
    have "triple (since st0 A S T) (command_fresh env meta c)
        (accepted st0 A S (command_ex env meta c) meta oid)" for st0 A S T
      using triple_AcceptInvitation_fresh[of "command_ex env meta c" meta]
      by (simp add: CmdAcceptInvitation del: command_ex.simps)
    from first_run_triple[OF assms this] show ?thesis
      by (auto simp: accepted_def authorized_change_def CmdAcceptInvitation simp del: command_ex.simps
          dest!: failed_organizations succeeded_organizations)
  next
    case CmdStart
    have "triple (since st0 A S T) (command_fresh env meta c)
        (executed_still st0 A S (command_ex env meta c))" for st0 A S T
      using triple_Start_fresh[of "command_ex env meta c" meta]
      by (simp add: CmdStart del: command_ex.simps)
    from first_run_triple[OF assms this] show ?thesis by (auto simp: executed_still_def)
  next
    case (CmdCancelOperation oid)
    have "triple (since st0 A S T) (command_fresh env meta c)
        (executed_still st0 A S (command_ex env meta c))" for st0 A S T
      using triple_CancelOperation_fresh[of "command_ex env meta c" meta]
      by (simp add: CmdCancelOperation del: command_ex.simps)
    from first_run_triple[OF assms this] show ?thesis by (auto simp: executed_still_def)
  qed auto
qed

lemma command_meta_of_principal [simp]: "cm_principal (command_meta_of meta c) = cm_principal meta"
  by (cases c) auto

lemma change_is_authorized:
  assumes "kstate_inv (db w)" and "exec_command env meta c w = (r, w1)"
    and "organizations (db w1) \<noteq> organizations (db w)"
  shows "authorized_change meta c (organizations (db w)) (organizations (db w1))"
proof -
  from assms(3) have d: "db w1 \<noteq> db w" by auto
  obtain out where "run_once.first_run (command_ex env (command_meta_of meta c) c)
      (command_fresh env (command_meta_of meta c) c) w out w1"
    using exec_cases[OF assms(1,2) _ refl refl] d by blast
  from first_run_authorized[OF this] assms(3)
  have "authorized_change (command_meta_of meta c) c (organizations (db w)) (organizations (db w1))"
    by blast
  then show ?thesis by (simp add: authorized_change_def)
qed

text \<open>
  C22. A command changes organizations only with authority. It creates one, for a principal with
  that scope; or it accepts the principal's own invitation; or the policy allows the action on
  that tenant (scope, same tenant, active membership, role) and, for the managing actions, the
  guard on owners passes. It then applies exactly the command's operation to that organization
  and leaves every other organization as it was.
\<close>
theorem organization_change_needs_authority:
  assumes "kstate_inv (db w)" and "exec_command env meta c w = (r, w1)"
    and "organizations (db w1) \<noteq> organizations (db w)"
  shows "authorized_change meta c (organizations (db w)) (organizations (db w1))"
  using assms by (rule change_is_authorized)

lemma org_apply_other:
  assumes "org_apply op t org = Inr org'"
    and "p \<noteq> (case op of OpInvite q _ \<Rightarrow> q | OpAccept q \<Rightarrow> q | OpChangeRole q _ \<Rightarrow> q | OpSuspend q \<Rightarrow> q | OpRemove q \<Rightarrow> q)"
  shows "map_of (org_memberships org') p = map_of (org_memberships org) p"
  using assms
  by (cases op)
    (auto simp: org_op_defs store_member_def Let_def split: if_splits option.splits sum.splits)

lemma policy_active_member:
  assumes "Policy_Check pr a r (Some org) = Inr ()"
  shows "\<exists>m. map_of (org_memberships org) (p_id pr) = Some m \<and> mb_state m = MembershipActive"
  using assms unfolding Policy_Check_Inr by auto

lemma managed_owner:
  assumes "canManageTarget org actor target role"
    and "map_of (org_memberships org) target = Some m" and "mb_role m = RoleOwner"
  shows "\<exists>m. map_of (org_memberships org) actor = Some m \<and> mb_role m = RoleOwner"
  using assms by (auto simp: canManageTarget_def split: option.splits if_splits)

text \<open>
  C28. Only an active owner can change the membership of an active owner: whatever command takes
  an owner's role, state or place in the organization, its principal is an active owner itself.
\<close>
theorem owners_are_changed_by_owners:
  assumes "kstate_inv (db w)" and "exec_command env meta c w = (r, w1)"
    and "organizations (db w) oid = Some org" and "map_of (org_memberships org) p = Some m"
    and "is_active_owner m"
    and "organizations (db w1) oid = Some org1" and "map_of (org_memberships org1) p \<noteq> Some m"
  shows "\<exists>ma. map_of (org_memberships org) (p_id (cm_principal meta)) = Some ma \<and> is_active_owner ma"
proof -
  let ?actor = "p_id (cm_principal meta)"
  from assms(3,4,6,7) have "organizations (db w1) \<noteq> organizations (db w)" by auto
  with change_is_authorized[OF assms(1,2)]
  consider (create) org' where "organizations (db w) (org_id org') = None"
      "organizations (db w1) = (organizations (db w))(org_id org' \<mapsto> org')"
    | (accept) oid' org0 org' t where "organizations (db w) oid' = Some org0"
      "org_apply (OpAccept ?actor) t org0 = Inr org'"
      "organizations (db w1) = (organizations (db w))(oid' \<mapsto> org')"
    | (change) oid' target o' role org0 org' t where "membership_change c = Some (oid', target, o', role)"
      "organizations (db w) oid' = Some org0"
      "Policy_Check (deriveTenant (cm_principal meta) oid') (command_action c)
          \<lparr>r_tenant = oid', r_type = ''membership'', r_id = target\<rparr> (Some org0) = Inr ()"
      "command_action c = ActionMembershipManage \<longrightarrow> canManageTarget org0 ?actor target role"
      "org_apply o' t org0 = Inr org'"
      "organizations (db w1) = (organizations (db w))(oid' \<mapsto> org')"
    unfolding authorized_change_def by blast
  then show ?thesis
  proof cases
    case create
    with assms(3,4,6,7) show ?thesis by (auto split: if_splits)
  next
    case accept
    with assms(3,4,6,7) have o: "org0 = org" "org1 = org'" by (auto split: if_splits)
    with org_apply_other[OF accept(2), of p] assms(4,7) have "p = ?actor" by auto
    with accept(2) o(1) assms(4,5) show ?thesis
      by (auto simp: AcceptInvitation_def Membership_Accept_def is_active_owner_def split: if_splits)
  next
    case change
    with assms(3,4,6,7) have o: "org0 = org" "org1 = org'" by (auto split: if_splits)
    from policy_active_member[OF change(3)] obtain ma
      where ma: "map_of (org_memberships org) ?actor = Some ma" "mb_state ma = MembershipActive"
      by (auto simp: o)
    have p: "p = target"
    proof (rule ccontr)
      assume "p \<noteq> target"
      with org_apply_other[OF change(5), of p] change(1) assms(4,7) o show False
        by (cases c) auto
    qed
    show ?thesis
    proof (cases "command_action c = ActionMembershipManage")
      case True
      with change(4) managed_owner[of org ?actor target role m] assms(4,5) ma p o(1)
      show ?thesis by (auto simp: is_active_owner_def)
    next
      case False
      with change(1,5) assms(4,5) p o(1) show ?thesis
        by (cases c) (auto simp: Invite_def is_active_owner_def)
    qed
  qed
qed

section \<open>A concrete command\<close>

text \<open>\<open>bob\<close>, an admin of the sample organization, invites \<open>carol\<close> as an owner.\<close>

definition bob_meta :: command_meta where
  "bob_meta = \<lparr>cm_tenant = ''org_1'', cm_principal = \<lparr>p_id = ''bob'', p_tenant = ''org_1'',
     p_kind = KindUser, p_scopes = [''kernel:*'']\<rparr>, cm_correlation_id = ''corr'',
     cm_causation_id = [], cm_idempotency_key = ''k1'', cm_command = []\<rparr>"

definition bob_world :: kworld where
  "bob_world = \<lparr>db = newState\<lparr>organizations := [''org_1'' \<mapsto> acme_joined],
                              slugIndex := [''acme'' \<mapsto> ''org_1'']\<rparr>, id_seq = 0, clk_seq = 0\<rparr>"

abbreviation "invite_carol \<equiv> CmdInviteMember ''org_1'' ''carol'' RoleOwner"

lemma bob_world_inv: "kstate_inv (db bob_world)"
  using acme_inv(3) by (auto simp: kstate_inv_defs bob_world_def newState_def acme_joined_def acme_def)

lemma literals:
  "TrimSpace ''bob'' = ''bob''" "TrimSpace ''org_1'' = ''org_1''" "TrimSpace ''corr'' = ''corr''"
  "TrimSpace ''k1'' = ''k1''" "TrimSpace ''carol'' = ''carol''" "TrimSpace ''InviteMember'' = ''InviteMember''"
  "TrimSpace ''membership'' = ''membership''" "TrimSpace ''kernel:*'' = ''kernel:*''"
  "TrimSpace ActionMembershipInvite = ActionMembershipInvite"
  by code_simp+

lemma bob_policy:
  "Policy_Check (cm_principal bob_meta) ActionMembershipInvite
     \<lparr>r_tenant = ''org_1'', r_type = ''membership'', r_id = ''carol''\<rparr> (Some acme_joined) = Inr ()"
proof -
  have "scope_covers ''kernel:*'' ActionMembershipInvite"
    unfolding scope_covers_def
    by (intro disjI2 exI[of _ "''kernel''"] exI[of _ "''membership.invite''"]) simp
  then show ?thesis
    unfolding Policy_Check_Inr
    by (simp add: literals bob_meta_def Principal_Validate_def Resource_Validate_def HasScope_def
        has_scope_loop_iff scope_grants_iff role_permits_def acme_joined_def acme_def)
qed

end
