(* ===== verification/Kernel_Progress.thy ===== *)
theory Kernel_Progress
  imports Kernel_Guarantees
begin

text \<open>
  Commands do return: with a generator of fresh identifiers, a running clock and a live context,
  a well-formed membership command is carried out and answered, and its answer is the verdict of
  the policy, the guard on owners and the organization's own rules.
\<close>

section \<open>Healthy environments\<close>

text \<open>
  What the commands rely on: the context is live, the clock does not show the zero instant, a
  fingerprint is never empty, and identifiers are not blank, do not repeat and are not yet in use.
\<close>

definition unused_ids :: "kenv \<Rightarrow> nat \<Rightarrow> kstate \<Rightarrow> bool" where
  "unused_ids env n st \<longleftrightarrow> (\<forall>m \<ge> n.
     outbox st (ids_New env m ''evt'') = None \<and> operations st (ids_New env m ''op'') = None \<and>
     \<not> list_ex (\<lambda>a. au_id a = ids_New env m ''aud'') (audit st))"

definition sound_env :: "kenv \<Rightarrow> bool" where
  "sound_env env \<longleftrightarrow>
     ctx_begin env = None \<and> ctx_commit env = None \<and> (\<forall>n. clock_Now env n \<noteq> 0) \<and>
     (\<forall>v. CanonicalFingerprint env v \<noteq> []) \<and> (\<forall>n p. \<not> blank (ids_New env n p)) \<and>
     (\<forall>n m p. ids_New env n p = ids_New env m p \<longrightarrow> n = m)"

definition healthy :: "kenv \<Rightarrow> kworld \<Rightarrow> bool" where
  "healthy env w \<longleftrightarrow> sound_env env \<and> unused_ids env (id_seq w) (db w)"

lemma healthy_env:
  assumes "healthy env w"
  shows "ctx_begin env = None" "ctx_commit env = None" "clock_Now env n \<noteq> 0"
    "CanonicalFingerprint env v \<noteq> []" "\<not> blank (ids_New env n p)"
  using assms by (auto simp: healthy_def sound_env_def)

lemma healthy_fresh:
  assumes "healthy env w"
  shows "outbox (db w) (ids_New env (id_seq w) ''evt'') = None"
    and "operations (db w) (ids_New env (id_seq w) ''op'') = None"
    and "\<not> list_ex (\<lambda>a. au_id a = ids_New env (id_seq w) ''aud'') (audit (db w))"
  using assms by (simp_all add: healthy_def unused_ids_def)

text \<open>Using up the next identifier in any one of the tables keeps the rest unused.\<close>

lemma healthy_used:
  assumes "healthy env w" and "id_seq w' = Suc (id_seq w)"
    and "\<And>i. i \<noteq> ids_New env (id_seq w) ''evt'' \<Longrightarrow> outbox (db w) i = None \<Longrightarrow> outbox (db w') i = None"
    and "\<And>i. i \<noteq> ids_New env (id_seq w) ''op'' \<Longrightarrow> operations (db w) i = None \<Longrightarrow> operations (db w') i = None"
    and "\<And>i. i \<noteq> ids_New env (id_seq w) ''aud'' \<Longrightarrow> \<not> list_ex (\<lambda>a. au_id a = i) (audit (db w)) \<Longrightarrow>
           \<not> list_ex (\<lambda>a. au_id a = i) (audit (db w'))"
  shows "healthy env w'"
proof -
  have ne: "ids_New env m p \<noteq> ids_New env (id_seq w) p" if "Suc (id_seq w) \<le> m" for m p
    using that assms(1) unfolding healthy_def sound_env_def by (metis Suc_n_not_le_n)
  show ?thesis unfolding healthy_def unused_ids_def assms(2)
    using assms(1) assms(3-5) ne by (auto simp: healthy_def unused_ids_def dest: Suc_leD)
qed

section \<open>Total runs\<close>

definition returns :: "(kworld \<Rightarrow> bool) \<Rightarrow> 'a kact \<Rightarrow> ('a \<Rightarrow> kworld \<Rightarrow> bool) \<Rightarrow> bool" where
  "returns P m Q \<longleftrightarrow> (\<forall>w. P w \<longrightarrow> (\<exists>a w'. m w = (Inr a, w') \<and> Q a w'))"

lemma returnsI: "(\<And>w. P w \<Longrightarrow> \<exists>a w'. m w = (Inr a, w') \<and> Q a w') \<Longrightarrow> returns P m Q"
  by (simp add: returns_def)

lemma returnsD: "returns P m Q \<Longrightarrow> P w \<Longrightarrow> \<exists>a w'. m w = (Inr a, w') \<and> Q a w'"
  by (simp add: returns_def)

lemma returns_bind: "returns P m R \<Longrightarrow> (\<And>a. returns (R a) (k a) Q) \<Longrightarrow> returns P (bindE m k) Q"
  unfolding returns_def by (fastforce simp: bindE_run)

lemma returns_seq: "returns P m (\<lambda>_. R) \<Longrightarrow> returns R k Q \<Longrightarrow> returns P (seqE m k) Q"
  unfolding seqE_def by (rule returns_bind)

lemma returns_ret: "(\<And>w. P w \<Longrightarrow> Q a w) \<Longrightarrow> returns P (ret a) Q"
  by (simp add: returns_def ret_def)

lemma returns_post: "returns P m R \<Longrightarrow> (\<And>a w. R a w \<Longrightarrow> Q a w) \<Longrightarrow> returns P m Q"
  unfolding returns_def by blast

lemma returns_pre: "returns R m Q \<Longrightarrow> (\<And>w. P w \<Longrightarrow> R w) \<Longrightarrow> returns P m Q"
  unfolding returns_def by blast

lemma returns_ex: "(\<And>x. returns (P x) m Q) \<Longrightarrow> returns (\<lambda>w. \<exists>x. P x w) m Q"
  unfolding returns_def by blast

lemma returns_fact: "(F \<Longrightarrow> returns P m Q) \<Longrightarrow> returns (\<lambda>w. P w \<and> F) m Q"
  unfolding returns_def by blast

text \<open>The tables that later steps read.\<close>

definition live ::
  "kenv \<Rightarrow> (string \<rightharpoonup> organization) \<Rightarrow> (string \<rightharpoonup> string) \<Rightarrow> (string \<rightharpoonup> operation) \<Rightarrow>
   (string \<rightharpoonup> idempotency_record) \<Rightarrow> kworld \<Rightarrow> bool" where
  "live env S X T K w \<longleftrightarrow> healthy env w \<and> organizations (db w) = S \<and> slugIndex (db w) = X \<and>
     operations (db w) = T \<and> idempotency (db w) = K"

lemma returns_Now:
  assumes "\<And>t. t \<noteq> 0 \<Longrightarrow> returns (live env S X T K) (k t) Q"
  shows "returns (live env S X T K) (bindE (Now env) k) Q"
proof (rule returnsI)
  fix w assume w: "live env S X T K w"
  then have "clock_Now env (clk_seq w) \<noteq> 0" "live env S X T K (w\<lparr>clk_seq := clk_seq w + 1\<rparr>)"
    by (auto simp: live_def healthy_def sound_env_def)
  with returnsD[OF assms] show "\<exists>a w'. bindE (Now env) k w = (Inr a, w') \<and> Q a w'"
    by (simp add: act_simps)
qed

lemma not_blank_nonempty: "\<not> blank s \<Longrightarrow> s \<noteq> []"
  by (auto simp: TrimSpace_Nil)

text \<open>An event is appended whenever its fields are not blank.\<close>

lemma appendEvent_run:
  assumes "healthy env w" and "\<not> blank ty" and "\<not> blank agg" and "\<not> blank (cm_correlation_id meta)"
  shows "\<exists>r. appendEvent env ty tenant agg meta payload w =
     (Inr (), w\<lparr>id_seq := Suc (id_seq w), clk_seq := clk_seq w + 2,
        db := (db w)\<lparr>outbox := (outbox (db w))(ids_New env (id_seq w) ''evt'' \<mapsto> r),
                       outboxOrder := outboxOrder (db w) @ [ids_New env (id_seq w) ''evt'']\<rparr>\<rparr>)"
  using assms healthy_fresh(1)[OF assms(1)] not_blank_nonempty[OF healthy_env(5)[OF assms(1)]]
    healthy_env(3,5)[OF assms(1)]
  by (auto simp: appendEvent_def act_simps Event_Validate_def IsZero_def AppendOutbox_def Let_def)

lemma returns_appendEvent:
  assumes "\<not> blank ty" and "\<not> blank agg" and "\<not> blank (cm_correlation_id meta)"
  shows "returns (live env S X T K) (appendEvent env ty tenant agg meta payload) (\<lambda>_. live env S X T K)"
proof (rule returnsI)
  fix w assume w: "live env S X T K w"
  then have h: "healthy env w" by (simp add: live_def)
  obtain r where run: "appendEvent env ty tenant agg meta payload w =
     (Inr (), w\<lparr>id_seq := Suc (id_seq w), clk_seq := clk_seq w + 2,
        db := (db w)\<lparr>outbox := (outbox (db w))(ids_New env (id_seq w) ''evt'' \<mapsto> r),
                       outboxOrder := outboxOrder (db w) @ [ids_New env (id_seq w) ''evt'']\<rparr>\<rparr>)"
    (is "_ = (_, ?w)") using appendEvent_run[OF h assms] by blast
  have "healthy env ?w" by (rule healthy_used[OF h]) simp_all
  with w have "live env S X T K ?w" by (simp add: live_def)
  with run show "\<exists>a w'. appendEvent env ty tenant agg meta payload w = (Inr a, w') \<and> live env S X T K w'"
    by blast
qed

lemma event_types:
  "\<not> blank EventOrganizationCreated" "\<not> blank EventMembershipChanged" "\<not> blank EventOperationChanged"
  "\<not> blank EventAuditRecorded"
  by code_simp+

lemma returns_appendAudit:
  assumes "r_id resource = [] \<or> \<not> blank (r_id resource)" and "action \<noteq> []"
    and "\<not> blank (cm_correlation_id meta)"
  shows "returns (live env S X T K) (appendAudit env meta resource action outcome code md)
     (\<lambda>_. live env S X T K)"
proof (rule returnsI)
  fix w assume w: "live env S X T K w"
  then have h: "healthy env w" by (simp add: live_def)
  define i where "i = ids_New env (id_seq w) ''aud''"
  define a where "a = \<lparr>au_id = i, au_tenant = r_tenant resource, au_actor = cm_principal meta,
     au_action = action, au_resource = resource, au_correlation_id = cm_correlation_id meta,
     au_outcome = outcome, au_error_code = code, au_metadata = RedactMetadata (uni env) md,
     au_occurred_at = clock_Now env (clk_seq w)\<rparr>"
  define w1 where "w1 = w\<lparr>id_seq := Suc (id_seq w), clk_seq := Suc (clk_seq w),
     db := (db w)\<lparr>audit := audit (db w) @ [cloneAudit a]\<rparr>\<rparr>"
  have i: "\<not> blank i" "i \<noteq> []" using healthy_env(5)[OF h] not_blank_nonempty by (auto simp: i_def)
  have "AppendAudit a (db w) = Inr (db w1)"
    using i healthy_fresh(3)[OF h] healthy_env(3)[OF h] assms(2) not_blank_nonempty[OF assms(3)]
    by (auto simp: AppendAudit_def a_def w1_def i_def IsZero_def)
  then have run: "appendAudit env meta resource action outcome code md w =
     appendEvent env EventAuditRecorded (r_tenant resource) (if r_id resource = [] then i else r_id resource) meta
       [(''audit_id'', VStr i), (''actor_id'', VStr (p_id (cm_principal meta))),
        (''action'', VStr action),
        (''resource'', VObj [(''tenant_id'', VStr (r_tenant resource)),
           (''type'', VStr (r_type resource)), (''id'', VStr (r_id resource))]),
        (''outcome'', VStr (outcome_text outcome)), (''error_code'', VStr code),
        (''metadata'', (case RedactMetadata (uni env) md of None \<Rightarrow> VNull | Some m \<Rightarrow> VObj m))] w1"
    by (simp add: appendAudit_def act_simps Let_def a_def i_def w1_def)
  have "healthy env w1"
    by (rule healthy_used[OF h]) (auto simp: w1_def a_def i_def cloneAudit_def)
  with w have "live env S X T K w1" by (simp add: live_def w1_def)
  with returnsD[OF returns_appendEvent] event_types(4) i(1) assms(1,3)
  show "\<exists>u w'. appendAudit env meta resource action outcome code md w = (Inr u, w') \<and> live env S X T K w'"
    unfolding run by auto
qed

section \<open>Operations and completion\<close>

lemma returns_result: "r = Inr a \<Longrightarrow> returns P (k a) Q \<Longrightarrow> returns P (bindE (of_result r) k) Q"
  by (simp add: returns_def act_simps)

lemma returns_new_operation:
  assumes "\<not> blank kind" and "\<not> blank corr"
    and "\<And>op. op_state op = OperationPending \<Longrightarrow> op_version op = 1 \<Longrightarrow> \<not> blank (op_id op) \<Longrightarrow>
           returns (live env S X (T(op_id op \<mapsto> op)) K) (k op) Q"
  shows "returns (live env S X T K)
     (bindE (New env ''op'') (\<lambda>oid. bindE (Now env) (\<lambda>now.
      bindE (of_result (NewOperation oid tenant kind corr caus now)) (\<lambda>op.
      seqE (tx_write (InsertOperation op)) (k op))))) Q"
proof (rule returnsI)
  fix w assume w: "live env S X T K w"
  then have h: "healthy env w" by (simp add: live_def)
  define i where "i = ids_New env (id_seq w) ''op''"
  have i: "\<not> blank i" using healthy_env(5)[OF h] by (simp add: i_def)
  obtain op where op: "NewOperation i tenant kind corr caus (clock_Now env (clk_seq w)) = Inr op"
    and o: "op_id op = i" "op_state op = OperationPending" "op_version op = 1"
    using i assms(1,2) by (simp add: NewOperation_def)
  define w1 where "w1 = w\<lparr>id_seq := Suc (id_seq w), clk_seq := Suc (clk_seq w),
     db := (db w)\<lparr>operations := (operations (db w))(op_id op \<mapsto> op)\<rparr>\<rparr>"
  have "healthy env w1" by (rule healthy_used[OF h]) (simp_all add: w1_def o i_def)
  with w have "live env S X (T(op_id op \<mapsto> op)) K w1" by (simp add: live_def w1_def)
  moreover have "InsertOperation op (db w) = Inr (db w1)"
    using healthy_fresh(2)[OF h] by (simp add: InsertOperation_def o i_def w1_def)
  ultimately show "\<exists>a w'. bindE (New env ''op'') (\<lambda>oid. bindE (Now env) (\<lambda>now.
      bindE (of_result (NewOperation oid tenant kind corr caus now)) (\<lambda>op.
      seqE (tx_write (InsertOperation op)) (k op)))) w = (Inr a, w') \<and> Q a w'"
    using returnsD[OF assms(3), of op w1] i o op
    by (simp add: act_simps i_def w1_def)
qed

lemma returns_save:
  assumes "T (op_id op') = Some op" and "n = op_version op" and "n \<le> op_version op'"
    and "returns (live env S X (T(op_id op' \<mapsto> op')) K) k Q"
  shows "returns (live env S X T K) (seqE (tx_write (SaveOperation op' n)) k) Q"
proof (rule returnsI)
  fix w assume w: "live env S X T K w"
  define w1 where "w1 = w\<lparr>db := (db w)\<lparr>operations := (operations (db w))(op_id op' \<mapsto> op')\<rparr>\<rparr>"
  from w assms(1) have "live env S X (T(op_id op' \<mapsto> op')) K w1"
    by (auto simp: live_def w1_def healthy_def unused_ids_def)
  with returnsD[OF assms(4)] w assms(1-3)
  show "\<exists>a w'. seqE (tx_write (SaveOperation op' n)) k w = (Inr a, w') \<and> Q a w'"
    by (auto simp: act_simps SaveOperation_def live_def w1_def)
qed

lemma returns_operation_event:
  assumes "\<not> blank (op_id op)" and "\<not> blank (cm_correlation_id meta)"
    and "returns (live env S X T K) k Q"
  shows "returns (live env S X T K) (seqE (appendOperationEvent env op meta) k) Q"
  unfolding appendOperationEvent_def
  by (rule returns_seq[OF returns_appendEvent assms(3)]) (use assms event_types in auto)

lemma Transition_ok:
  assumes "AllowedOperationTransition (op_state op) to" and "\<not> Terminal (op_state op)"
    and "to = OperationFailed \<Longrightarrow> \<exists>e. res_error res = Some e \<and> \<not> blank (pe_code e)"
    and "to = OperationSucceeded \<Longrightarrow> res_error res = None"
  shows "Operation_Transition to res now op =
     Inr (op\<lparr>op_state := to, op_result := res, op_version := op_version op + 1, op_updated_at := now\<rparr>)"
  using assms by (auto simp: Operation_Transition_def Terminal_def)

lemma returns_recordSuccessfulOperation:
  assumes "\<not> blank kind" and "\<not> blank (cm_correlation_id meta)"
  shows "returns (live env S X T K) (recordSuccessfulOperation env meta tenant kind payload)
     (\<lambda>_ w. \<exists>T'. live env S X T' K w)"
  unfolding recordSuccessfulOperation_def
  by (rule returns_new_operation[OF assms], rule returns_operation_event, assumption, rule assms,
      rule returns_Now, rule returns_result, rule Transition_ok)
    (auto simp: Terminal_def assms intro!: returns_save returns_operation_event returns_Now
      returns_result[OF Transition_ok] returns_ret)

lemma returns_recordFailedOperation:
  assumes "\<not> blank kind" and "\<not> blank (cm_correlation_id meta)" and "\<not> blank (ErrorCode err)"
  shows "returns (live env S X T K) (recordFailedOperation env meta tenant kind err)
     (\<lambda>_ w. \<exists>T'. live env S X T' K w)"
  unfolding recordFailedOperation_def
  by (rule returns_new_operation[OF assms(1,2)], rule returns_operation_event, assumption, rule assms,
      rule returns_Now, rule returns_result, rule Transition_ok)
    (auto simp: Terminal_def assms intro!: returns_save returns_operation_event returns_ret)

lemma returns_completeCommand:
  assumes "K (command_key ex) = Some r" and "ir_status r = IdempotencyStarted"
  shows "returns (live env S X T K) (completeCommand env ex stored) (\<lambda>_ w. organizations (db w) = S)"
  unfolding completeCommand_def
proof (rule returns_Now, rule returnsI)
  fix t w assume "live env S X T K w"
  with assms show "\<exists>a w'. tx_write (CompleteIdempotency (ex_scope ex) (cm_idempotency_key (ex_meta ex))
      (or_id (sr_operation stored)) stored t) w = (Inr a, w') \<and> organizations (db w') = S"
    by (auto simp: act_simps CompleteIdempotency_def Let_def live_def command_key_def)
qed

text \<open>What a command must bring: a name, a correlation, and a resource that an event can name.\<close>

definition well_formed :: "command_execution \<Rightarrow> bool" where
  "well_formed ex \<longleftrightarrow> \<not> blank (cm_command (ex_meta ex)) \<and> \<not> blank (cm_correlation_id (ex_meta ex)) \<and>
     (r_id (ex_resource ex) = [] \<or> \<not> blank (r_id (ex_resource ex))) \<and> ex_action ex \<noteq> []"

lemma returns_fail_command:
  assumes "well_formed ex" and "\<not> blank (ErrorCode err)"
    and "K (command_key ex) = Some r" and "ir_status r = IdempotencyStarted"
  shows "returns (live env S X T K) (fail_command env ex err md)
     (\<lambda>out w. snd out = Some err \<and> organizations (db w) = S)"
proof -
  have c: "returns (live env S X T' K) (seqE (completeCommand env ex stored) (ret stored))
      (\<lambda>_ w. organizations (db w) = S)" for T' stored
    by (rule returns_seq[OF returns_completeCommand[where K = K, OF assms(3,4)] returns_ret])
  have "returns (live env S X T K) (recordCommandFailure env ex err md) (\<lambda>_ w. organizations (db w) = S)"
    unfolding recordCommandFailure_def Let_def
    by (rule returns_bind[OF returns_recordFailedOperation], use assms in \<open>simp add: well_formed_def\<close>,
        use assms in \<open>simp add: well_formed_def\<close>, use assms in simp, rule returns_ex,
        rule returns_seq[OF returns_appendAudit c], use assms in \<open>simp_all add: well_formed_def\<close>)
  then show ?thesis unfolding fail_command_def by (rule returns_bind) (rule returns_ret, simp)
qed

section \<open>Membership commands decide\<close>

text \<open>
  The specification of a membership command: who may do it, and what the organization's rules
  say. Nothing here mentions keys, operations, events or the audit log.
\<close>

definition membership_verdict ::
  "(string \<rightharpoonup> organization) \<Rightarrow> principal \<Rightarrow> string \<Rightarrow> string \<Rightarrow> string \<Rightarrow> org_op \<Rightarrow>
   membership_role option \<Rightarrow> gotime \<Rightarrow> kerror + organization" where
  "membership_verdict S pr oid action target o' role t =
     (case S oid of
        None \<Rightarrow> Inl (NewError CodeNotFound [''organization not found''])
      | Some org \<Rightarrow>
          (case Policy_Check (deriveTenant pr oid) action
                  \<lparr>r_tenant = oid, r_type = ''membership'', r_id = target\<rparr> (Some org) of
             Inl e \<Rightarrow> Inl e
           | Inr _ \<Rightarrow>
               if action = ActionMembershipManage \<and> \<not> canManageTarget org (p_id pr) target role
               then Inl (forbidden ''only an owner can manage owner memberships'')
               else org_apply o' t org))"

lemma codes_not_blank:
  "\<not> blank CodeNotFound" "\<not> blank CodeForbidden" "\<not> blank CodeConflict" "\<not> blank CodeInvalidArgument"
  "\<not> blank CodeLastOwner"
  by code_simp+

lemma org_apply_code: "org_apply op t org = Inl e \<Longrightarrow> \<not> blank (ErrorCode e)"
  using codes_not_blank
  by (cases op)
    (auto simp: org_op_defs membership_defs lastOwnerError_def error_defs Let_def
      split: if_splits option.splits sum.splits membership_state.splits)

definition decided ::
  "(string \<rightharpoonup> organization) \<Rightarrow> string \<Rightarrow> kerror + organization \<Rightarrow> kerror option \<Rightarrow>
   (string \<rightharpoonup> organization) \<Rightarrow> bool" where
  "decided S oid verdict err S' \<longleftrightarrow>
     (case verdict of Inl e \<Rightarrow> err = Some e \<and> S' = S | Inr org' \<Rightarrow> err = None \<and> S' = S(oid \<mapsto> org'))"

lemma returns_attempt_read:
  assumes "\<And>w. P w \<Longrightarrow> f (db w) = v" and "returns P (k v) Q"
  shows "returns P (bindE (attempt (tx_read f)) k) Q"
proof (rule returnsI)
  fix w assume "P w"
  with assms(1) returnsD[OF assms(2)]
  show "\<exists>a w'. bindE (attempt (tx_read f)) k w = (Inr a, w') \<and> Q a w'" by (simp add: act_simps)
qed

lemma returns_if:
  "(b \<Longrightarrow> returns P m Q) \<Longrightarrow> (\<not> b \<Longrightarrow> returns P k Q) \<Longrightarrow> returns P (if b then m else k) Q"
  by simp

lemma returns_case_sum:
  "(\<And>e. r = Inl e \<Longrightarrow> returns P (m e) Q) \<Longrightarrow> (\<And>a. r = Inr a \<Longrightarrow> returns P (k a) Q) \<Longrightarrow>
   returns P (case r of Inl e \<Rightarrow> m e | Inr a \<Rightarrow> k a) Q"
  by (cases r) auto

lemma returns_mutateMembership_fresh:
  assumes "well_formed ex" and "ex_meta ex = meta" and "ex_action ex = action"
    and "ex_resource ex = \<lparr>r_tenant = oid, r_type = ''membership'', r_id = target\<rparr>"
    and "mutate = org_apply o'"
    and "K (command_key ex) = Some r" and "ir_status r = IdempotencyStarted"
    and orgs: "\<And>i org. S i = Some org \<Longrightarrow> org_id org = i \<and> org_inv org \<and> X (org_slug org) = Some i"
  shows "returns (live env S X T K)
     (mutateMembership_fresh env ex meta oid action target mutate role md)
     (\<lambda>out w. \<exists>t. decided S oid (membership_verdict S (cm_principal meta) oid action target o' role t)
                    (snd out) (organizations (db w)))"
    (is "returns ?P _ ?Q")
proof -
  let ?pr = "deriveTenant (cm_principal meta) oid"
  have verdict_code: "\<not> blank (ErrorCode e)"
    if "membership_verdict S (cm_principal meta) oid action target o' role t = Inl e" for e t
    using that codes_not_blank org_apply_code
    by (auto simp: membership_verdict_def error_defs dest: Policy_Check_error
        split: option.splits sum.splits if_splits)
  have fail: "returns ?P (fail_command env ex err md') ?Q"
    if "membership_verdict S (cm_principal meta) oid action target o' role t = Inl err" for err t md'
  proof (rule returns_post[OF returns_fail_command[where K = K, OF assms(1) _ assms(6,7)]])
    show "\<not> blank (ErrorCode err)" using that by (rule verdict_code)
    fix out :: outcome and w :: kworld assume "snd out = Some err \<and> organizations (db w) = S"
    with that show "?Q out w" by (intro exI[of _ t]) (simp add: decided_def)
  qed
  have change: "returns ?P
     (seqE (tx_write (SaveOrganization org' (org_version org))) (
      bindE (recordSuccessfulOperation env meta (org_id org') (cm_command meta) (VObj md)) (\<lambda>op.
      seqE (appendEvent env EventMembershipChanged (org_id org') target meta
             (md @ [(''organization_id'', VStr (org_id org'))])) (
      seqE (appendAudit env meta (ex_resource ex) action AuditSucceeded [] (Some md)) (
      succeed_command env ex op (CommandPayload op)))))) ?Q"
    if v: "membership_verdict S (cm_principal meta) oid action target o' role t = Inr org'"
      and org: "S oid = Some org" and step: "org_apply o' t org = Inr org'"
      and pol: "Policy_Check ?pr action (ex_resource ex) (Some org) = Inr ()" for t org org'
  proof (rule returns_seq)
    note o = orgs[OF org]
    have s: "org_step org org'" using step by (rule org_op)
    note f = org_step_frame[OF s]
    have ver: "org_version org \<le> org_version org'"
      using org_machine.step_ver[of org org'] o s by auto
    let ?S = "S(oid \<mapsto> org')"
    show "returns ?P (tx_write (SaveOrganization org' (org_version org))) (\<lambda>_. live env ?S X T K)"
    proof (rule returnsI)
      fix w assume "live env S X T K w"
      then show "\<exists>a w'. tx_write (SaveOrganization org' (org_version org)) w = (Inr a, w') \<and> live env ?S X T K w'"
        using o f ver org
        by (auto simp: act_simps SaveOrganization_def live_def Let_def healthy_def unused_ids_def)
    qed
    have t: "\<not> blank target" using pol assms(4) by (auto simp: Policy_Check_Inr Resource_Validate_def split: if_splits)
    have complete: "returns (live env ?S X T' K) (succeed_command env ex op p) ?Q" for T' op p
      unfolding succeed_command_def Let_def
      by (rule returns_seq[OF returns_completeCommand[where K = K, OF assms(6,7)]], rule returns_ret,
          rule exI[of _ t], simp add: v decided_def)
    show "returns (live env ?S X T K)
      (bindE (recordSuccessfulOperation env meta (org_id org') (cm_command meta) (VObj md)) (\<lambda>op.
      seqE (appendEvent env EventMembershipChanged (org_id org') target meta
             (md @ [(''organization_id'', VStr (org_id org'))])) (
      seqE (appendAudit env meta (ex_resource ex) action AuditSucceeded [] (Some md)) (
      succeed_command env ex op (CommandPayload op))))) ?Q"
      by (rule returns_bind[OF returns_recordSuccessfulOperation], use assms in \<open>simp add: well_formed_def\<close>,
          use assms in \<open>simp add: well_formed_def\<close>, rule returns_ex,
          rule returns_seq[OF returns_appendEvent returns_seq[OF returns_appendAudit complete]])
        (use assms t event_types in \<open>auto simp: well_formed_def\<close>)
  qed
  show ?thesis
  proof (cases "S oid")
    case None
    have read: "GetOrganization oid (db w) = Inl (NewError CodeNotFound [''organization not found''])"
      if "live env S X T K w" for w
      using that None by (simp add: live_def GetOrganization_def)
    show ?thesis
      unfolding mutateMembership_fresh_def Let_def
      by (rule returns_attempt_read, erule read, unfold sum.case)
        (rule fail, simp add: membership_verdict_def None)
  next
    case (Some org)
    have read: "GetOrganization oid (db w) = Inr org" if "live env S X T K w" for w
      using that Some by (simp add: live_def GetOrganization_def)
    show ?thesis
      unfolding mutateMembership_fresh_def Let_def
    proof (rule returns_attempt_read, erule read, unfold sum.case,
        intro returns_case_sum returns_if returns_Now, goal_cases)
      case (1 e)
      then show ?case by (intro fail) (simp add: membership_verdict_def Some assms(4))
    next
      case (2 u)
      then show ?case by (intro fail) (simp add: membership_verdict_def Some assms(4))
    next
      case (3 u t e)
      then show ?case
        by (intro fail[of t]) (auto simp: membership_verdict_def Some assms(4,5))
    next
      case (4 u t org')
      then show ?case
        by (intro change[of t org' org]) (auto simp: membership_verdict_def Some assms(4,5))
    qed
  qed
qed

lemma command_actions: "command_action c \<noteq> []"
  by (cases c) simp_all

text \<open>
  The first run of a membership command, seen from outside: it is answered, it is recorded, and
  its answer and the organizations are those of the verdict.
\<close>

lemma membership_command_run:
  assumes "kstate_inv (db w)" and "healthy env w"
    and c: "membership_change c = Some (oid, target, o', role)"
    and v: "validateMeta meta' = Inr ()" and m: "meta' = command_meta_of meta c"
    and ex: "ex = command_ex env meta' c"
    and "target = [] \<or> \<not> blank target" and new: "idempotency (db w) (command_key ex) = None"
  shows "\<exists>r w1 t err. exec_command env meta c w = (r, w1) \<and> db w1 \<noteq> db w \<and>
     decided (organizations (db w)) oid
       (membership_verdict (organizations (db w)) (cm_principal meta) oid (command_action c) target o' role t)
       err (organizations (db w1)) \<and>
     (case err of None \<Rightarrow> (\<exists>ref. r = Inr (AnsOperation ref))
                | Some e \<Rightarrow> (\<exists>e'. r = Inl e' \<and> ErrorCode e' = ErrorCode e))"
proof -
  note h = healthy_env[OF assms(2)]
  have meta_ok: "\<not> blank (cm_correlation_id meta')" "\<not> blank (cm_idempotency_key meta')" "\<not> blank (cm_command meta')"
    using v by (auto simp: validateMeta_def Meta_Validate_def split: sum.splits if_splits)
  have exf: "ex_meta ex = meta'" "ex_action ex = command_action c"
    "ex_resource ex = \<lparr>r_tenant = oid, r_type = ''membership'', r_id = target\<rparr>"
    "ex_scope ex \<noteq> []" "ex_fingerprint ex \<noteq> []"
    using c h(4) unfolding ex by (cases c; auto simp: prepareCommand_def tenantScope_def)+
  define w0 where "w0 = w\<lparr>clk_seq := Suc (clk_seq w)\<rparr>"
  define rec where "rec = \<lparr>ir_scope = ex_scope ex, ir_key = cm_idempotency_key (ex_meta ex),
        ir_fingerprint = ex_fingerprint ex, ir_status = IdempotencyStarted, ir_response = None,
        ir_operation_id = [], ir_created_at = clock_Now env (clk_seq w),
        ir_updated_at = clock_Now env (clk_seq w)\<rparr>"
  define w1 where "w1 = w0\<lparr>db := (db w)\<lparr>idempotency := (idempotency (db w))(command_key ex \<mapsto> rec)\<rparr>\<rparr>"
  have "cm_idempotency_key meta' \<noteq> []" using meta_ok(2) by (rule not_blank_nonempty)
  then have claim: "claim_or_replay env ex fresh w = fresh w1" for fresh
    using new exf by (simp add: claim_or_replay_def claimCommand_def act_simps ClaimIdempotency_def
        command_key_def Let_def rec_def w1_def w0_def)
  have live1: "live env (organizations (db w)) (slugIndex (db w)) (operations (db w))
      ((idempotency (db w))(command_key ex \<mapsto> rec)) w1"
    using assms(2) by (simp add: live_def w1_def w0_def healthy_def unused_ids_def)
  have wf: "well_formed ex"
    using meta_ok assms(7) command_actions by (auto simp: well_formed_def exf)
  have orgs: "org_id org = i \<and> org_inv org \<and> slugIndex (db w) (org_slug org) = Some i"
    if "organizations (db w) i = Some org" for i org
    using that assms(1) by (auto simp: kstate_inv_def dest: orgs_invD)
  have mut: "returns (live env (organizations (db w)) (slugIndex (db w)) (operations (db w))
      ((idempotency (db w))(command_key ex \<mapsto> rec))) (command_fresh env meta' c)
     (\<lambda>out w'. \<exists>t. decided (organizations (db w)) oid
        (membership_verdict (organizations (db w)) (cm_principal meta') oid (command_action c) target o' role t)
                    (snd out) (organizations (db w')))"
  proof -
    have eta: "Invite target role = org_apply (OpInvite target role)"
      "ChangeMemberRole target role = org_apply (OpChangeRole target role)"
      "SuspendMember target = org_apply (OpSuspend target)"
      "RemoveMember target = org_apply (OpRemove target)" for role
      by (simp_all add: fun_eq_iff)
    note body = returns_mutateMembership_fresh[OF wf exf(1,2,3), where
        K = "(idempotency (db w))(command_key ex \<mapsto> rec)" and r = rec and S = "organizations (db w)" and
        X = "slugIndex (db w)", OF _ _ _ orgs]
    from c eta body show ?thesis
      unfolding ex by (cases c) (simp_all add: rec_def del: command_ex.simps)
  qed
  from returnsD[OF mut live1] obtain out w2 t
    where run: "command_fresh env meta' c w1 = (Inr out, w2)"
    and d: "decided (organizations (db w)) oid
        (membership_verdict (organizations (db w)) (cm_principal meta') oid (command_action c) target o' role t)
                    (snd out) (organizations (db w2))"
    by blast
  have cr: "claim_or_replay env ex (command_fresh env meta' c) w = (Inr out, w2)"
    unfolding claim by (rule run)
  have "run_once.first_run ex (command_fresh env meta' c) w out w2"
    using command.claim_cases[OF assms(1) cr[unfolded ex]] new
    by (auto simp: ex answered_def)
  then have x: "executed (db w) (audit (db w)) (organizations (db w)) ex out (db w2)"
    unfolding ex command.first_run_def by blast
  then have s: "settled out" and neq: "db w2 \<noteq> db w" by (auto simp: executed_def since_def)
  have res: "exec_command env meta c w = (command_return (command_decode c) out, w2)"
    unfolding exec_command_guarded Let_def m[symmetric] ex[symmetric]
    using v h(1,2) cr by (simp add: guarded_command_def act_simps Transact_def)
  have ans: "case snd out of None \<Rightarrow> (\<exists>ref. command_return (command_decode c) out = Inr (AnsOperation ref))
     | Some e \<Rightarrow> (\<exists>e'. command_return (command_decode c) out = Inl e' \<and> ErrorCode e' = ErrorCode e)"
  proof (cases "snd out")
    case None
    have "\<exists>ref. command_decode c p = AnsOperation ref" for p using c by (cases c) simp_all
    with None s show ?thesis
      by (cases out) (auto simp: settled_def command_return_def replayError_def)
  next
    case (Some e)
    with s show ?thesis
      by (cases out)
        (auto simp: settled_def command_return_def replayError_def ErrorCode_def[of "DomainError _ _ _ _"])
  qed
  from res neq d ans show ?thesis by (auto simp: m)
qed

text \<open>
  C1. Membership commands refine their specification. In a healthy environment a well-formed
  command with a new idempotency key always returns and is always recorded. It fails with the
  code the verdict gives (unknown organization, policy, guard on owners, the organization's own
  rules) and then changes no organization, or it succeeds and the organization is the one the
  verdict gives.
\<close>
theorem membership_command_refines_verdict:
  assumes "kstate_inv (db w)" and "healthy env w"
    and "membership_change c = Some (oid, target, o', role)"
    and "validateMeta (command_meta_of meta c) = Inr ()" and "target = [] \<or> \<not> blank target"
    and "idempotency (db w) (command_key (command_ex env (command_meta_of meta c) c)) = None"
  shows "\<exists>r w1 t. exec_command env meta c w = (r, w1) \<and> db w1 \<noteq> db w \<and>
     (case membership_verdict (organizations (db w)) (cm_principal meta) oid (command_action c) target o' role t of
        Inl e \<Rightarrow> (\<exists>e'. r = Inl e' \<and> ErrorCode e' = ErrorCode e) \<and>
                 organizations (db w1) = organizations (db w)
      | Inr org' \<Rightarrow> (\<exists>ref. r = Inr (AnsOperation ref)) \<and>
                    organizations (db w1) = (organizations (db w))(oid \<mapsto> org'))"
proof -
  obtain r w1 t err where run: "exec_command env meta c w = (r, w1)" "db w1 \<noteq> db w"
    and d: "decided (organizations (db w)) oid (membership_verdict (organizations (db w))
       (cm_principal meta) oid (command_action c) target o' role t) err (organizations (db w1))"
    and a: "case err of None \<Rightarrow> (\<exists>ref. r = Inr (AnsOperation ref))
                | Some e \<Rightarrow> (\<exists>e'. r = Inl e' \<and> ErrorCode e' = ErrorCode e)"
    using membership_command_run[OF assms(1-4) refl refl assms(5,6)] by blast
  show ?thesis
    by (intro exI[of _ r] exI[of _ w1] exI[of _ t])
      (use run d a in \<open>auto simp: decided_def split: sum.splits\<close>)
qed

section \<open>An admin can make an owner\<close>

text \<open>
  C40. The guard that keeps admins from granting ownership does not cover invitations. An admin
  whom it refuses to make \<open>target\<close> an owner can invite \<open>target\<close> as an owner: the command
  succeeds and the stored invitation has the role of an owner, to be accepted by \<open>target\<close> alone.
\<close>
theorem admin_can_invite_an_owner:
  assumes "kstate_inv (db w)" and "healthy env w"
    and "organizations (db w) oid = Some org"
    and "map_of (org_memberships org) (p_id (cm_principal meta)) = Some m" and "mb_role m = RoleAdmin"
    and "map_of (org_memberships org) target = None"
    and "Policy_Check (deriveTenant (cm_principal meta) oid) ActionMembershipInvite
           \<lparr>r_tenant = oid, r_type = ''membership'', r_id = target\<rparr> (Some org) = Inr ()"
    and "validateMeta (meta\<lparr>cm_command := ''InviteMember''\<rparr>) = Inr ()"
    and "idempotency (db w) (command_key (command_ex env (meta\<lparr>cm_command := ''InviteMember''\<rparr>)
           (CmdInviteMember oid target RoleOwner))) = None"
  shows "\<not> canManageTarget org (p_id (cm_principal meta)) target (Some RoleOwner) \<and>
     (\<exists>ref w1 org1 i. InviteMember env meta oid target RoleOwner w = (Inr ref, w1) \<and>
        organizations (db w1) oid = Some org1 \<and> map_of (org_memberships org1) target = Some i \<and>
        mb_role i = RoleOwner \<and> mb_state i = MembershipInvited)"
proof
  show "\<not> canManageTarget org (p_id (cm_principal meta)) target (Some RoleOwner)"
    using assms(4-6) by (simp add: canManageTarget_def)
  have t: "\<not> blank target" using assms(7) by (auto simp: Policy_Check_Inr Resource_Validate_def split: if_splits)
  let ?c = "CmdInviteMember oid target RoleOwner"
  have v: "membership_verdict (organizations (db w)) (cm_principal meta) oid ActionMembershipInvite target
      (OpInvite target RoleOwner) (Some RoleOwner) now = Inr (touch now (set_membership target
        \<lparr>mb_principal_id = target, mb_role = RoleOwner, mb_state = MembershipInvited, mb_invited_at = now,
         mb_accepted_at = None, mb_updated_at = now, mb_version = 1\<rparr> org))" for now
    using assms(3,6,7) t by (simp add: membership_verdict_def Invite_def NewInvitation_def)
  obtain r w1 now err where run: "exec_command env meta ?c w = (r, w1)"
    and d: "decided (organizations (db w)) oid (membership_verdict (organizations (db w))
       (cm_principal meta) oid (command_action ?c) target (OpInvite target RoleOwner) (Some RoleOwner) now) err
       (organizations (db w1))"
    and a: "case err of None \<Rightarrow> (\<exists>ref. r = Inr (AnsOperation ref))
                | Some e \<Rightarrow> (\<exists>e'. r = Inl e' \<and> ErrorCode e' = ErrorCode e)"
    using membership_command_run[OF assms(1,2), of ?c oid target "OpInvite target RoleOwner" "Some RoleOwner"
        "command_meta_of meta ?c" meta] assms(8,9) t by (auto simp del: command_ex.simps)
  from d a obtain ref where r: "r = Inr (AnsOperation ref)"
    and o: "organizations (db w1) oid = Some (touch now (set_membership target
        \<lparr>mb_principal_id = target, mb_role = RoleOwner, mb_state = MembershipInvited, mb_invited_at = now,
         mb_accepted_at = None, mb_updated_at = now, mb_version = 1\<rparr> org))"
    by (auto simp: v decided_def)
  have "InviteMember env meta oid target RoleOwner w = (Inr ref, w1)"
    using run unfolding r
    by (cases "InviteMember env meta oid target RoleOwner w") (auto simp: map_act_def act_simps split: sum.splits)
  with o show "\<exists>ref w1 org1 i. InviteMember env meta oid target RoleOwner w = (Inr ref, w1) \<and>
        organizations (db w1) oid = Some org1 \<and> map_of (org_memberships org1) target = Some i \<and>
        mb_role i = RoleOwner \<and> mb_state i = MembershipInvited"
    by auto
qed

section \<open>Concrete runs\<close>
text \<open>\<open>bob\<close>'s world is healthy, and his command is well formed.\<close>

lemma bob_healthy: "healthy demo_env bob_world"
proof -
  have "CHR ''x'' \<in> set (p @ ''_'' @ replicate (n + 1) CHR ''x'')" for p n by simp
  from not_blank_x[OF this] have b: "\<not> blank (p @ ''_'' @ replicate (n + 1) CHR ''x'')" for p n .
  have "first_text v \<noteq> []" for v by (cases v rule: first_text.cases) simp_all
  with b show ?thesis
    by (auto simp: healthy_def sound_env_def unused_ids_def demo_env_def bob_world_def newState_def)
qed

lemma bob_meta_valid: "validateMeta (command_meta_of bob_meta invite_carol) = Inr ()"
  by (simp add: validateMeta_def Meta_Validate_def Principal_Validate_def literals bob_meta_def)

lemma bob_key_new:
  "idempotency (db bob_world) (command_key (command_ex demo_env (command_meta_of bob_meta invite_carol) invite_carol)) = None"
  by (simp add: bob_world_def newState_def)

lemma bob_verdict:
  "membership_verdict (organizations (db bob_world)) (cm_principal bob_meta) ''org_1'' ActionMembershipInvite
     ''carol'' (OpInvite ''carol'' RoleOwner) (Some RoleOwner) t =
   Inr (touch t (set_membership ''carol'' \<lparr>mb_principal_id = ''carol'', mb_role = RoleOwner,
     mb_state = MembershipInvited, mb_invited_at = t, mb_accepted_at = None, mb_updated_at = t,
     mb_version = 1\<rparr> acme_joined))"
proof -
  have d: "deriveTenant (cm_principal bob_meta) ''org_1'' = cm_principal bob_meta"
    by (simp add: deriveTenant_def bob_meta_def)
  have m: "map_of (org_memberships acme_joined) ''carol'' = None" by (simp add: acme_joined_def acme_def)
  have "organizations (db bob_world) ''org_1'' = Some acme_joined" by (simp add: bob_world_def)
  then show ?thesis
    by (simp add: membership_verdict_def d bob_policy Invite_def m NewInvitation_def literals)
qed

theorem membership_command_refines_verdict_witness:
  "\<exists>ref w1. exec_command demo_env bob_meta invite_carol bob_world = (Inr (AnsOperation ref), w1)"
proof -
  have t: "''carol'' = [] \<or> \<not> blank ''carol''" by (simp add: literals)
  show ?thesis
    using membership_command_refines_verdict[OF bob_world_inv bob_healthy _ bob_meta_valid t bob_key_new]
      bob_verdict by (auto simp: bob_verdict)
qed

theorem admin_can_invite_an_owner_witness:
  "\<exists>ref w1. InviteMember demo_env bob_meta ''org_1'' ''carol'' RoleOwner bob_world = (Inr ref, w1)"
proof -
  have o: "organizations (db bob_world) ''org_1'' = Some acme_joined" by (simp add: bob_world_def)
  have m: "map_of (org_memberships acme_joined) (p_id (cm_principal bob_meta)) =
      Some \<lparr>mb_principal_id = ''bob'', mb_role = RoleAdmin, mb_state = MembershipActive, mb_invited_at = 6,
            mb_accepted_at = Some 7, mb_updated_at = 7, mb_version = 2\<rparr>"
    "map_of (org_memberships acme_joined) ''carol'' = None"
    by (simp_all add: acme_joined_def acme_def bob_meta_def)
  have d: "deriveTenant (cm_principal bob_meta) ''org_1'' = cm_principal bob_meta"
    by (simp add: deriveTenant_def bob_meta_def)
  have p: "Policy_Check (deriveTenant (cm_principal bob_meta) ''org_1'') ActionMembershipInvite
     \<lparr>r_tenant = ''org_1'', r_type = ''membership'', r_id = ''carol''\<rparr> (Some acme_joined) = Inr ()"
    unfolding d by (rule bob_policy)
  from admin_can_invite_an_owner[OF bob_world_inv bob_healthy o m(1) _ m(2) p] bob_meta_valid bob_key_new
  show ?thesis by (auto simp del: command_ex.simps)
qed

lemma bob_run:
  obtains a w1 where "exec_command demo_env bob_meta invite_carol bob_world = (Inr a, w1)"
    and "db w1 \<noteq> db bob_world" and "organizations (db w1) \<noteq> organizations (db bob_world)"
proof -
  have t: "''carol'' = [] \<or> \<not> blank ''carol''" by (simp add: literals)
  have ne: "organizations (db bob_world) ''org_1'' = Some acme_joined" by (simp add: bob_world_def)
  have v: "org_version (touch t (set_membership p m acme_joined)) \<noteq> org_version acme_joined" for t p m by simp
  obtain r w1 t err where run: "exec_command demo_env bob_meta invite_carol bob_world = (r, w1)"
    "db w1 \<noteq> db bob_world"
    and d: "decided (organizations (db bob_world)) ''org_1'' (membership_verdict (organizations (db bob_world))
       (cm_principal bob_meta) ''org_1'' (command_action invite_carol) ''carol'' (OpInvite ''carol'' RoleOwner)
       (Some RoleOwner) t) err (organizations (db w1))"
    and a: "case err of None \<Rightarrow> (\<exists>ref. r = Inr (AnsOperation ref))
                | Some e \<Rightarrow> (\<exists>e'. r = Inl e' \<and> ErrorCode e' = ErrorCode e)"
    using membership_command_run[OF bob_world_inv bob_healthy _ bob_meta_valid refl refl t bob_key_new] by auto
  from d a obtain ref org' where "r = Inr (AnsOperation ref)"
    "organizations (db w1) ''org_1'' = Some org'" "org_version org' \<noteq> org_version acme_joined"
    using v by (auto simp: bob_verdict decided_def)
  with run ne show thesis by (intro that[of "AnsOperation ref" w1]) auto
qed

theorem command_answer_is_final_witness:
  "\<exists>r w1. exec_command demo_env bob_meta invite_carol bob_world = (r, w1) \<and>
     (\<exists>w2. exec_command demo_env bob_meta invite_carol w1 = (r, w2) \<and> db w2 = db w1)"
proof -
  obtain a w1 where run: "exec_command demo_env bob_meta invite_carol bob_world = (Inr a, w1)"
    and d: "db w1 \<noteq> db bob_world" by (rule bob_run)
  have "kstate_inv (db w1)" by (rule command_keeps_inv[OF bob_world_inv run])
  from command_answer_is_final[OF bob_world_inv run _ _ this, of w1 demo_env] d run
  show ?thesis by (auto simp: demo_env_def)
qed

theorem key_reuse_is_refused_witness:
  "\<exists>w e w'. exec_command demo_env bob_meta (CmdInviteMember ''org_1'' ''dave'' RoleOwner) w = (Inl e, w') \<and>
     ErrorCode e = CodeIdempotencyConflict"
proof -
  let ?c = "CmdInviteMember ''org_1'' ''dave'' RoleOwner"
  define meta' where m: "meta' = command_meta_of bob_meta ?c"
  define ex where ex: "ex = command_ex demo_env meta' ?c"
  define r where "r = \<lparr>ir_scope = ex_scope ex, ir_key = ''k1'', ir_fingerprint = ''other'',
     ir_status = IdempotencyStarted, ir_response = None, ir_operation_id = [], ir_created_at = 1,
     ir_updated_at = 1\<rparr>"
  define w where "w = bob_world\<lparr>db := (db bob_world)\<lparr>idempotency := [command_key ex \<mapsto> r]\<rparr>\<rparr>"
  have v: "validateMeta meta' = Inr ()" using bob_meta_valid by (simp add: m)
  have "ex_fingerprint ex = ''fp:org_1''" by (simp add: ex prepareCommand_def demo_env_def)
  then have f: "ir_fingerprint r \<noteq> ex_fingerprint ex" by (simp add: r_def)
  have i: "idempotency (db w) (command_key ex) = Some r" by (simp add: w_def)
  have "ctx_begin demo_env = None" by (simp add: demo_env_def)
  from key_reuse_is_refused[OF m ex v this i f] show ?thesis by blast
qed

theorem command_is_audited_once_witness:
  "\<exists>r w1 a. exec_command demo_env bob_meta invite_carol bob_world = (r, w1) \<and> audit (db w1) = [a] \<and>
     au_outcome a = AuditSucceeded \<and> au_actor a = cm_principal bob_meta"
proof -
  obtain a w1 where run: "exec_command demo_env bob_meta invite_carol bob_world = (Inr a, w1)"
    and d: "db w1 \<noteq> db bob_world" by (rule bob_run)
  have "audit (db bob_world) = []" by (simp add: bob_world_def newState_def)
  with command_is_audited_once[OF bob_world_inv run d] run show ?thesis by auto
qed

theorem organization_change_needs_authority_witness:
  "\<exists>w1 :: kworld. authorized_change bob_meta invite_carol (organizations (db bob_world)) (organizations (db w1)) \<and>
     organizations (db w1) \<noteq> organizations (db bob_world)"
proof -
  obtain a w1 where "exec_command demo_env bob_meta invite_carol bob_world = (Inr a, w1)"
    and "organizations (db w1) \<noteq> organizations (db bob_world)" by (rule bob_run)
  with organization_change_needs_authority[OF bob_world_inv] show ?thesis by blast
qed

text \<open>With \<open>bob\<close> as a second owner, \<open>bob\<close> removes \<open>alice\<close>.\<close>

definition acme_two :: organization where
  "acme_two = acme\<lparr>org_memberships := org_memberships acme @ [(''bob'',
     \<lparr>mb_principal_id = ''bob'', mb_role = RoleOwner, mb_state = MembershipActive,
      mb_invited_at = 6, mb_accepted_at = Some 7, mb_updated_at = 7, mb_version = 2\<rparr>)],
     org_version := 3, org_updated_at := 7\<rparr>"

definition two_world :: kworld where
  "two_world = bob_world\<lparr>db := (db bob_world)\<lparr>organizations := [''org_1'' \<mapsto> acme_two]\<rparr>\<rparr>"

abbreviation "remove_alice \<equiv> CmdRemoveMembership ''org_1'' ''alice''"

lemma two_literals:
  "TrimSpace ''alice'' = ''alice''" "TrimSpace ''RemoveMembership'' = ''RemoveMembership''"
  "TrimSpace ActionMembershipManage = ActionMembershipManage"
  by code_simp+

lemma acme_two_inv: "org_inv acme_two"
  by (auto simp: org_inv_def acme_two_def acme_def member_inv_def literals two_literals
      activeOwnerCount_def is_active_owner_def)

lemma two_world_inv: "kstate_inv (db two_world)"
  using acme_two_inv
  by (auto simp: kstate_inv_defs two_world_def bob_world_def newState_def acme_two_def acme_def)

lemma two_healthy: "healthy demo_env two_world"
  using bob_healthy by (simp add: healthy_def unused_ids_def two_world_def)

lemma two_policy:
  "Policy_Check (deriveTenant (cm_principal bob_meta) ''org_1'') ActionMembershipManage
     \<lparr>r_tenant = ''org_1'', r_type = ''membership'', r_id = ''alice''\<rparr> (Some acme_two) = Inr ()"
proof -
  have "scope_covers ''kernel:*'' ActionMembershipManage"
    unfolding scope_covers_def
    by (intro disjI2 exI[of _ "''kernel''"] exI[of _ "''membership.manage''"]) simp
  then show ?thesis
    unfolding Policy_Check_Inr
    by (simp add: literals two_literals bob_meta_def Principal_Validate_def Resource_Validate_def HasScope_def
        has_scope_loop_iff scope_grants_iff role_permits_def acme_two_def acme_def deriveTenant_def)
qed

lemma two_removed: "\<exists>org'. RemoveMember ''alice'' t acme_two = Inr org' \<and>
   (\<exists>m. map_of (org_memberships org') ''alice'' = Some m \<and> mb_state m = MembershipRemoved)"
  by (simp add: RemoveMember_def acme_two_def acme_def activeOwnerCount_def is_active_owner_def
      Membership_Remove_def store_member_def)

theorem owners_are_changed_by_owners_witness:
  "\<exists>m. map_of (org_memberships acme_two) ''bob'' = Some m \<and> is_active_owner m"
proof -
  have o: "organizations (db two_world) ''org_1'' = Some acme_two" by (simp add: two_world_def)
  have m: "map_of (org_memberships acme_two) ''alice'' = Some \<lparr>mb_principal_id = ''alice'', mb_role = RoleOwner,
             mb_state = MembershipActive, mb_invited_at = 5, mb_accepted_at = Some 5,
             mb_updated_at = 5, mb_version = 1\<rparr>" (is "_ = Some ?m")
    by (simp add: acme_two_def acme_def)
  have v: "validateMeta (command_meta_of bob_meta remove_alice) = Inr ()"
    by (simp add: validateMeta_def Meta_Validate_def Principal_Validate_def literals two_literals bob_meta_def)
  have k: "idempotency (db two_world) (command_key (command_ex demo_env
      (command_meta_of bob_meta remove_alice) remove_alice)) = None"
    by (simp add: two_world_def bob_world_def newState_def)
  have t: "''alice'' = [] \<or> \<not> blank ''alice''" by (simp add: two_literals)
  obtain r w1 now err where run: "exec_command demo_env bob_meta remove_alice two_world = (r, w1)"
    and d: "decided (organizations (db two_world)) ''org_1'' (membership_verdict (organizations (db two_world))
       (cm_principal bob_meta) ''org_1'' (command_action remove_alice) ''alice'' (OpRemove ''alice'') None now)
       err (organizations (db w1))"
    using membership_command_run[OF two_world_inv two_healthy _ v refl refl t k] by auto
  have g: "canManageTarget acme_two ''bob'' ''alice'' None"
    by (simp add: canManageTarget_def acme_two_def acme_def)
  have b: "p_id (cm_principal bob_meta) = ''bob''" by (simp add: bob_meta_def)
  obtain org' m' where x: "RemoveMember ''alice'' now acme_two = Inr org'"
    "map_of (org_memberships org') ''alice'' = Some m'" "mb_state m' = MembershipRemoved"
    using two_removed by blast
  then have o': "organizations (db w1) ''org_1'' = Some org'"
    using d g by (simp add: membership_verdict_def o two_policy b decided_def)
  have "map_of (org_memberships org') ''alice'' \<noteq> Some ?m" using x by auto
  from owners_are_changed_by_owners[OF two_world_inv run o m _ o' this]
  show ?thesis by (simp add: is_active_owner_def b)
qed

end
