(* ===== verification/Kernel_Messaging.thy ===== *)
theory Kernel_Messaging
  imports Kernel_Progress
begin

text \<open>
  The two ends of the kernel's messaging (\<open>internal/kernel/messaging.go\<close>): the dispatcher that
  publishes the outbox and the processor that handles each event once; the authorizer over the
  store (\<open>internal/kernel/authorization.go\<close>); and all of the kernel's activity as one machine.
\<close>

section \<open>Outbox dispatcher\<close>

text \<open>
  The publisher is a parameter: \<open>publish n e\<close> is the error of the \<open>n\<close>-th call in a dispatch, or
  \<open>None\<close>. The environment is given per transaction (\<open>envs\<close>, counted from 0), since the context
  may end between two of them. \<open>dispatch_loop\<close> is the loop over the claimed records: \<open>k\<close> is the
  number of calls made so far, \<open>published\<close> and \<open>errs\<close> the two variables.
\<close>

fun error_text :: "kerror \<Rightarrow> message" where
  "error_text (DomainError code m retryable details) = m"
| "error_text (OtherError m) = m"

fun dispatch_loop ::
  "(nat \<Rightarrow> kenv) \<Rightarrow> (nat \<Rightarrow> event \<Rightarrow> kerror option) \<Rightarrow> nat \<Rightarrow> outbox_record list \<Rightarrow> int \<Rightarrow>
   kerror list \<Rightarrow> kworld \<Rightarrow> (int \<times> kerror list) \<times> kworld" where
  "dispatch_loop envs publish k [] published errs w = ((published, errs), w)"
| "dispatch_loop envs publish k (r # rs) published errs w =
     (case publish k (ob_event r) of
        Some err \<Rightarrow>
          (case Transact (envs (k + 1))
                  (bindE (Now (envs (k + 1))) (\<lambda>_.
                     tx_write (MarkOutboxPending (ev_id (ob_event r)) (error_text err)))) w of
             (Inl markErr, w') \<Rightarrow>
               dispatch_loop envs publish (k + 1) rs published (errs @ [err, markErr]) w'
           | (Inr _, w') \<Rightarrow> dispatch_loop envs publish (k + 1) rs published (errs @ [err]) w')
      | None \<Rightarrow>
          (case Transact (envs (k + 1))
                  (bindE (Now (envs (k + 1))) (\<lambda>now.
                     tx_write (MarkOutboxPublished (ev_id (ob_event r)) now))) w of
             (Inl e, w') \<Rightarrow> dispatch_loop envs publish (k + 1) rs published (errs @ [e]) w'
           | (Inr _, w') \<Rightarrow> dispatch_loop envs publish (k + 1) rs (published + 1) errs w'))"

text \<open>
  \<open>Dispatch\<close> returns the number of events published and the errors it joined; a lease that is
  not positive becomes thirty seconds.
\<close>

definition Dispatch ::
  "(nat \<Rightarrow> kenv) \<Rightarrow> (nat \<Rightarrow> event \<Rightarrow> kerror option) \<Rightarrow> int \<Rightarrow> int \<Rightarrow> kworld \<Rightarrow>
   (int \<times> kerror list) \<times> kworld" where
  "Dispatch envs publish lease0 limit w =
     (if limit \<le> 0 then ((0, []), w)
      else
        (let lease = (if lease0 \<le> 0 then 30 * Second else lease0) in
         case Transact (envs 0)
                (bindE (Now (envs 0)) (\<lambda>now. tx_update (ClaimOutbox limit now lease))) w of
           (Inl e, w') \<Rightarrow> ((0, [e]), w')
         | (Inr claimed, w') \<Rightarrow> dispatch_loop envs publish 0 claimed 0 [] w'))"

section \<open>Inbox processor\<close>

text \<open>
  The handler works on the transaction; its error, or that of any step, rolls everything back.
  \<open>event_val\<close> stands for the encoding of the envelope that is fingerprinted.
\<close>

definition Process ::
  "kenv \<Rightarrow> (event \<Rightarrow> val) \<Rightarrow> (event \<Rightarrow> unit kact) \<Rightarrow> event \<Rightarrow> bool kact" where
  "Process env event_val handler ev =
     (case Event_Validate ev of
        Inl m \<Rightarrow> throw (invalidArgument (''invalid event envelope: %v'' # m))
      | Inr _ \<Rightarrow>
          let fingerprint = CanonicalFingerprint env (event_val ev) in
          Transact env (
            bindE (attempt (tx_read (GetInbox (ev_id ev)))) (\<lambda>existing.
            case existing of
              Inr r \<Rightarrow>
                if ib_fingerprint r \<noteq> fingerprint
                then throw (NewError CodeConflict [''event id was already processed with a different payload''])
                else ret True
            | Inl getErr \<Rightarrow>
                if ErrorCode getErr \<noteq> CodeNotFound then throw getErr
                else
                  seqE (handler ev) (
                  bindE (Now env) (\<lambda>now.
                  seqE (tx_write (InsertInbox \<lparr>ib_event_id = ev_id ev, ib_fingerprint = fingerprint,
                                               ib_processed_at = now\<rparr>)) (
                  ret False))))))"

section \<open>Authorizer over the store\<close>

definition StoreAuthorizer_Check :: "kenv \<Rightarrow> principal \<Rightarrow> string \<Rightarrow> resource_ref \<Rightarrow> unit kact" where
  "StoreAuthorizer_Check env pr action resource =
     View env (
       bindE (tx_read (GetOrganization (r_tenant resource))) (\<lambda>org.
       of_result (Policy_Check pr action resource (Some org))))"

section \<open>Everything the kernel does is made of its effects\<close>

definition effects :: "'a kact \<Rightarrow> bool" where
  "effects m \<longleftrightarrow> (\<forall>w r w'. kstate_inv (db w) \<longrightarrow> m w = (r, w') \<longrightarrow> kernel_effect\<^sup>*\<^sup>* (db w) (db w'))"

lemma effectsD: "effects m \<Longrightarrow> kstate_inv (db w) \<Longrightarrow> m w = (r, w') \<Longrightarrow> kernel_effect\<^sup>*\<^sup>* (db w) (db w')"
  unfolding effects_def by blast

lemma effects_exec_command: "effects (exec_command env meta c)"
  unfolding effects_def using command_effects by blast

text \<open>A run from \<open>st0\<close>, whatever the tables are by now.\<close>

definition reached :: "kstate \<Rightarrow> kstate \<Rightarrow> bool" where
  "reached st0 st \<longleftrightarrow> (\<exists>A S T. since st0 A S T st)"

lemma reached_iff: "reached st0 st \<longleftrightarrow> kstate_inv st \<and> kernel_effect\<^sup>*\<^sup>* st0 st"
  by (auto simp: reached_def since_def)

lemma reached_step: "reached st0 st \<Longrightarrow> kernel_effect st st' \<Longrightarrow> reached st0 st'"
  unfolding reached_iff by (meson kernel_effect_inv rtranclp.rtrancl_into_rtrancl)

lemma triple_reached:
  "(\<And>A S T. triple (since st0 A S T) m (\<lambda>_. reached st0)) \<Longrightarrow> triple (reached st0) m (\<lambda>_. reached st0)"
  unfolding triple_def reached_def by blast

lemma effects_Transact:
  assumes "\<And>st0. triple (reached st0) m (\<lambda>_. reached st0)"
  shows "effects (Transact env m)"
  unfolding effects_def
proof (intro allI impI)
  fix w r w' assume inv: "kstate_inv (db w)" and run: "Transact env m w = (r, w')"
  show "kernel_effect\<^sup>*\<^sup>* (db w) (db w')"
  proof (cases r)
    case (Inl e)
    with run transact_Inl show ?thesis by fastforce
  next
    case (Inr a)
    with run have "m w = (Inr a, w')" by (simp add: Transact_Inr)
    from tripleD[OF assms this, of "db w"] inv have "reached (db w) (db w')"
      by (simp add: reached_iff)
    then show ?thesis by (simp add: reached_iff)
  qed
qed

lemma effects_bind_result: "effects m \<Longrightarrow> effects (bindE m (\<lambda>a. of_result (f a)))"
  unfolding effects_def by (fastforce simp: act_simps split: prod.splits sum.splits)

lemma triple_reached_audit: "triple (reached st0) (appendAudit env meta r action outcome code md) (\<lambda>_. reached st0)"
  by (rule triple_reached, rule triple_post[OF triple_appendAudit]) (auto simp: reached_def)

lemma triple_reached_event: "triple (reached st0) (appendOperationEvent env op meta) (\<lambda>_. reached st0)"
  by (rule triple_reached, rule triple_post[OF triple_appendOperationEvent]) (auto simp: reached_def)

lemma triple_forget: "triple P m Q \<Longrightarrow> triple (\<lambda>st. P st \<and> F st) m Q"
  unfolding triple_def by blast

lemmas reached_intros =
  triple_bind_attempt_read triple_forget triple_branches triple_ret triple_seq[OF triple_reached_audit]
  triple_bind_read

lemma effects_GetOrganization: "effects (GetOrganization_cmd env pr oid corr)"
  unfolding GetOrganization_cmd_def Let_def
  by (intro effects_bind_result effects_Transact reached_intros) (auto split: sum.split intro!: reached_intros)

lemma effects_ListAuditEvents: "effects (ListAuditEvents env pr oid corr limit)"
  unfolding ListAuditEvents_def Let_def
  by (intro effects_bind_result effects_Transact reached_intros) (auto split: sum.split intro!: reached_intros)

lemma effects_GetOperation: "effects (GetOperationForPrincipal env pr oid corr)"
  unfolding GetOperationForPrincipal_def Let_def
  by (intro effects_bind_result effects_Transact reached_intros) (auto split: sum.split intro!: reached_intros)

lemma effects_Transition: "effects (Transition env oid to result)"
  unfolding Transition_def Let_def
proof (intro effects_Transact triple_bind_read triple_bind_Now triple_bind_result triple_branches)
  fix st0 op t op'
  assume tr: "Operation_Transition to result t op = Inr op'"
  show "triple (\<lambda>st. reached st0 st \<and> GetOperation oid st = Inr op) (ret ()) (\<lambda>_. reached st0)"
    by (rule triple_ret) simp
  show "triple (\<lambda>st. reached st0 st \<and> GetOperation oid st = Inr op)
     (seqE (tx_write (SaveOperation op' (op_version op)))
       (seqE (appendOperationEvent env op' (transition_meta op' oid to))
         (appendAudit env (transition_meta op' oid to)
           \<lparr>r_tenant = op_tenant op', r_type = ''operation'', r_id = op_id op'\<rparr>
           ''kernel.operation.transition'' AuditSucceeded [] (Some [(''state'', VStr (state_text to))]))))
     (\<lambda>_. reached st0)"
  proof (rule triple_seq[OF triple_write triple_seq[OF triple_reached_event triple_reached_audit]])
    fix st st' assume st: "reached st0 st \<and> GetOperation oid st = Inr op"
      and save: "SaveOperation op' (op_version op) st = Inr st'"
    from st have "operations st (op_id op') = Some op"
      using Transition_frame[OF tr]
      by (auto simp: reached_iff GetOperation_def kstate_inv_def ops_inv_def split: option.splits)
    with save tr have "kernel_effect st st'" by (blast intro: step_operation transition)
    with st show "reached st0 st'" by (blast intro: reached_step)
  qed
qed

section \<open>The dispatcher publishes what was delivered\<close>

definition published_in :: "kstate \<Rightarrow> string \<Rightarrow> bool" where
  "published_in st i \<longleftrightarrow> (\<exists>r. outbox st i = Some r \<and> ob_state r = OutboxPublished)"

text \<open>The transaction that marks one record, as the loop uses it.\<close>

lemma mark_run:
  "Transact env (bindE (Now env) (\<lambda>now. tx_write (f now))) w = (r, w') \<Longrightarrow>
   (case r of Inl e \<Rightarrow> db w' = db w | Inr u \<Rightarrow> \<exists>now. f now (db w) = Inr (db w'))"
  by (auto simp: Transact_def act_simps split: option.splits sum.splits prod.splits)

definition leased_records :: "outbox_record list \<Rightarrow> kstate \<Rightarrow> bool" where
  "leased_records rs st \<longleftrightarrow> distinct (map (ev_id \<circ> ob_event) rs) \<and>
     (\<forall>r \<in> set rs. \<exists>q. outbox st (ev_id (ob_event r)) = Some q \<and> ob_state q \<noteq> OutboxPublished \<and>
                      ob_event q = ob_event r)"

lemma leased_records_tail:
  assumes "leased_records (r # rs) st"
    and "\<And>i. i \<noteq> ev_id (ob_event r) \<Longrightarrow> outbox st' i = outbox st i"
  shows "leased_records rs st'"
proof -
  have "outbox st' (ev_id (ob_event q)) = outbox st (ev_id (ob_event q))" if "q \<in> set rs" for q
  proof (rule assms(2))
    have "ev_id (ob_event q) \<in> (ev_id \<circ> ob_event) ` set rs" using that by simp
    then show "ev_id (ob_event q) \<noteq> ev_id (ob_event r)"
      using assms(1) unfolding leased_records_def by auto
  qed
  with assms(1) show ?thesis by (auto simp: leased_records_def)
qed

lemma MarkOutboxPublished_cases:
  assumes "MarkOutboxPublished i now st = Inr st'"
  shows "(\<forall>j. j \<noteq> i \<longrightarrow> outbox st' j = outbox st j) \<and> published_in st' i"
  using assms by (auto simp: MarkOutboxPublished_def published_in_def split: option.splits if_splits)

lemma MarkOutboxPending_cases:
  assumes "MarkOutboxPending i m st = Inr st'"
  shows "(\<forall>j. j \<noteq> i \<longrightarrow> outbox st' j = outbox st j) \<and> \<not> published_in st' i \<and> \<not> published_in st i"
  using assms by (auto simp: MarkOutboxPending_def published_in_def split: option.splits if_splits)

lemma published_other: "outbox st' j = outbox st j \<Longrightarrow> published_in st' j = published_in st j"
  by (simp add: published_in_def)

text \<open>
  A context that lets transactions through, and what the dispatcher does with the \<open>k\<close>-th record:
  the event is delivered when the publisher takes it and the transaction that marks it goes through.
\<close>

definition goes_through :: "kenv \<Rightarrow> bool" where
  "goes_through env \<longleftrightarrow> ctx_begin env = None \<and> ctx_commit env = None"

definition delivered ::
  "(nat \<Rightarrow> kenv) \<Rightarrow> (nat \<Rightarrow> event \<Rightarrow> kerror option) \<Rightarrow> nat \<Rightarrow> event list \<Rightarrow> nat set" where
  "delivered envs publish k es =
     {j. j < length es \<and> publish (k + j) (es ! j) = None \<and> goes_through (envs (k + j + 1))}"

lemma delivered_Nil [simp]: "delivered envs publish k [] = {}"
  by (simp add: delivered_def)

lemma finite_delivered [simp]: "finite (delivered envs publish k es)"
  by (simp add: delivered_def)

lemma delivered_Cons:
  "delivered envs publish k (e # es) =
     (if publish k e = None \<and> goes_through (envs (k + 1)) then {0} else {}) \<union>
     Suc ` delivered envs publish (k + 1) es"
proof -
  have "j \<in> delivered envs publish k (e # es) \<longleftrightarrow>
     j \<in> (if publish k e = None \<and> goes_through (envs (k + 1)) then {0} else {}) \<union>
     Suc ` delivered envs publish (k + 1) es" for j
    by (cases j) (auto simp: delivered_def)
  then show ?thesis by blast
qed

lemma card_delivered_Cons:
  "card (delivered envs publish k (e # es)) =
     (if publish k e = None \<and> goes_through (envs (k + 1)) then 1 else 0) +
     card (delivered envs publish (k + 1) es)"
  by (simp add: delivered_Cons card_image)

definition delivered_ids ::
  "(nat \<Rightarrow> kenv) \<Rightarrow> (nat \<Rightarrow> event \<Rightarrow> kerror option) \<Rightarrow> nat \<Rightarrow> event list \<Rightarrow> string set" where
  "delivered_ids envs publish k es = (\<lambda>j. ev_id (es ! j)) ` delivered envs publish k es"

lemma delivered_ids_Cons:
  "delivered_ids envs publish k (e # es) =
     (if publish k e = None \<and> goes_through (envs (k + 1)) then {ev_id e} else {}) \<union>
     delivered_ids envs publish (k + 1) es"
  by (auto simp: delivered_ids_def delivered_Cons image_image)

text \<open>One transaction of the loop goes through exactly when its context lets it.\<close>

lemma mark_exact:
  assumes "Transact env (bindE (Now env) (\<lambda>now. tx_write (f now))) w = (res, w')"
    and "\<And>now. \<exists>st. f now (db w) = Inr st"
  shows "if goes_through env then (\<exists>u. res = Inr u) \<and> (\<exists>now. f now (db w) = Inr (db w'))
    else (\<exists>e. res = Inl e) \<and> db w' = db w"
proof -
  from assms(2)[of "clock_Now env (clk_seq w)"] obtain st where "f (clock_Now env (clk_seq w)) (db w) = Inr st" by blast
  with assms(1) show ?thesis
    by (auto simp: Transact_def goes_through_def act_simps split: option.splits prod.splits)
qed

lemma dispatch_loop_exact:
  assumes "dispatch_loop envs publish k rs n errs w = ((n', errs'), w')" and "leased_records rs (db w)"
  shows "n' = n + int (card (delivered envs publish k (map ob_event rs))) \<and>
    (\<forall>i. published_in (db w') i \<longleftrightarrow> published_in (db w) i \<or> i \<in> delivered_ids envs publish k (map ob_event rs))"
  using assms
proof (induction rs arbitrary: k n errs w)
  case Nil
  then show ?case by (simp add: delivered_ids_def)
next
  case (Cons r rs)
  let ?i = "ev_id (ob_event r)"
  obtain q where q: "outbox (db w) ?i = Some q" "ob_state q \<noteq> OutboxPublished"
    using Cons.prems(2) by (auto simp: leased_records_def)
  then have unpub: "\<not> published_in (db w) ?i" by (simp add: published_in_def)
  show ?case
  proof (cases "publish k (ob_event r)")
    case (Some err)
    obtain res w1 where t: "Transact (envs (k + 1))
                  (bindE (Now (envs (k + 1))) (\<lambda>_.
                     tx_write (MarkOutboxPending ?i (error_text err)))) w = (res, w1)" by fastforce
    obtain errs1 where loop: "dispatch_loop envs publish (k + 1) rs n errs1 w1 = ((n', errs'), w')"
      using Cons.prems(1) Some t by (cases res) auto
    have keep: "outbox (db w1) j = outbox (db w) j" if "j \<noteq> ?i" for j
      using mark_run[OF t] MarkOutboxPending_cases that by (auto split: sum.splits)
    have "\<not> published_in (db w1) ?i"
      using mark_run[OF t] MarkOutboxPending_cases unpub by (cases res) auto
    with keep unpub have same: "published_in (db w1) j = published_in (db w) j" for j
      using published_other[OF keep[of j]] by (cases "j = ?i") auto
    have tail: "leased_records rs (db w1)"
      by (rule leased_records_tail[OF Cons.prems(2)]) (rule keep)
    from Cons.IH[OF loop tail] same Some show ?thesis
      by (simp add: delivered_ids_Cons card_delivered_Cons)
  next
    case None
    obtain res w1 where t: "Transact (envs (k + 1))
                  (bindE (Now (envs (k + 1))) (\<lambda>now.
                     tx_write (MarkOutboxPublished ?i now))) w = (res, w1)" by fastforce
    note mark = mark_exact[OF t]
    have writes: "\<exists>st. MarkOutboxPublished ?i now (db w) = Inr st" for now
      using q by (simp add: MarkOutboxPublished_def)
    have keep: "outbox (db w1) j = outbox (db w) j" if "j \<noteq> ?i" for j
      using mark_run[OF t] MarkOutboxPublished_cases that by (fastforce split: sum.splits)
    have tail: "leased_records rs (db w1)"
      by (rule leased_records_tail[OF Cons.prems(2)]) (rule keep)
    have pj: "published_in (db w1) j = published_in (db w) j" if "j \<noteq> ?i" for j
      by (rule published_other) (rule keep[OF that])
    show ?thesis
    proof (cases "goes_through (envs (k + 1))")
      case False
      with mark writes obtain e where "res = Inl e" "db w1 = db w" by auto
      moreover from this Cons.prems(1) None t
      have "dispatch_loop envs publish (k + 1) rs n (errs @ [e]) w1 = ((n', errs'), w')" by simp
      ultimately show ?thesis
        using Cons.IH[OF _ tail] False by (simp add: delivered_ids_Cons card_delivered_Cons)
    next
      case True
      with mark writes obtain u now where m: "res = Inr u" "MarkOutboxPublished ?i now (db w) = Inr (db w1)" by auto
      with Cons.prems(1) None t
      have loop: "dispatch_loop envs publish (k + 1) rs (n + 1) errs w1 = ((n', errs'), w')" by simp
      have "published_in (db w1) ?i" using MarkOutboxPublished_cases[OF m(2)] by blast
      with pj have "published_in (db w1) j \<longleftrightarrow> published_in (db w) j \<or> j = ?i" for j by (cases "j = ?i") auto
      with Cons.IH[OF loop tail] True None show ?thesis
        by (auto simp: delivered_ids_Cons card_delivered_Cons)
    qed
  qed
qed



lemma ClaimOutbox_leased:
  assumes "kstate_inv st" and "0 < limit" and "ClaimOutbox limit now lease st = Inr (claimed, st')"
  shows "leased_records claimed st' \<and> (\<forall>i. published_in st' i = published_in st i)"
proof -
  note spec = ClaimOutbox_spec[OF assms]
  have inv': "kstate_inv st'" using assms(1,3) by (rule ClaimOutbox_inv)
  have "distinct (outboxOrder st)" using assms(1) by (simp add: kstate_inv_def outbox_inv_def)
  then have "distinct (eligible_ids now (outbox st) (outboxOrder st))"
    unfolding eligible_ids_def by (rule distinct_filter)
  then have d: "distinct (map (ev_id \<circ> ob_event) claimed)"
    using spec by (metis distinct_take)
  have "\<exists>q. outbox st' (ev_id (ob_event r)) = Some q \<and> ob_state q \<noteq> OutboxPublished \<and> ob_event q = ob_event r"
    if "r \<in> set claimed" for r
    using spec that by (intro exI[of _ r]) auto
  with d have "leased_records claimed st'" by (simp add: leased_records_def)
  moreover from assms(1,3) have "published_in st' i = published_in st i" for i
  proof (cases rule: ClaimOutbox_effect)
    case (1 ids)
    from 1(1)[of i] show ?thesis
      by (auto simp: published_in_def 1(2) leased_def outbox_eligible_def)
  qed
  ultimately show ?thesis by blast
qed

text \<open>The events a dispatch claims: none when it asks for none or the context refuses the claim.\<close>

definition claimable :: "kenv \<Rightarrow> int \<Rightarrow> kworld \<Rightarrow> event list" where
  "claimable env limit w =
     (if 0 < limit \<and> goes_through env
      then map (\<lambda>i. ob_event (the (outbox (db w) i)))
             (take (nat limit) (eligible_ids (clock_Now env (clk_seq w)) (outbox (db w)) (outboxOrder (db w))))
      else [])"

lemma ClaimOutbox_events:
  assumes "kstate_inv st" and "0 < limit" and "ClaimOutbox limit now lease st = Inr (claimed, st')"
  shows "map ob_event claimed =
    map (\<lambda>i. ob_event (the (outbox st i))) (take (nat limit) (eligible_ids now (outbox st) (outboxOrder st)))"
proof -
  have "distinct (outboxOrder st)" using assms(1) by (simp add: kstate_inv_def outbox_inv_def)
  from claim_loop_spec[OF this, of "[]" limit _ now "outbox st" lease] assms(2,3) show ?thesis
    by (auto simp: ClaimOutbox_def leased_def)
qed

lemma claim_exact:
  assumes "kstate_inv (db w)" and "0 < limit"
    and "Transact env (bindE (Now env) (\<lambda>now. tx_update (ClaimOutbox limit now lease))) w = (res, w1)"
  shows "case res of
      Inl e \<Rightarrow> \<not> goes_through env \<and> db w1 = db w
    | Inr claimed \<Rightarrow> leased_records claimed (db w1) \<and> (\<forall>i. published_in (db w1) i = published_in (db w) i) \<and>
        map ob_event claimed = claimable env limit w"
proof (cases res)
  case (Inl e)
  obtain x where "ClaimOutbox limit (clock_Now env (clk_seq w)) lease (db w) = Inr x"
    by (cases "ClaimOutbox limit (clock_Now env (clk_seq w)) lease (db w)")
      (auto simp: ClaimOutbox_def split: if_splits prod.splits)
  with assms(3) Inl have "\<not> goes_through env"
    by (auto simp: Transact_def goes_through_def act_simps split: option.splits prod.splits)
  with transact_Inl assms(3) Inl show ?thesis by simp
next
  case (Inr claimed)
  with assms(3) have c: "ClaimOutbox limit (clock_Now env (clk_seq w)) lease (db w) = Inr (claimed, db w1)"
    and g: "goes_through env"
    by (auto simp: Transact_Inr goes_through_def act_simps split: sum.splits prod.splits)
  from ClaimOutbox_leased[OF assms(1,2) c] ClaimOutbox_events[OF assms(1,2) c] g assms(2) Inr show ?thesis
    by (simp add: claimable_def)
qed

text \<open>
  C33. The dispatcher counts and marks exactly what was delivered: of the events it claims (the
  oldest eligible ones, at most as many as it was asked for, and none when the claim does not go
  through) those, and no others, become published whose call of the publisher succeeds and whose
  marking transaction goes through, and its result is their number.
\<close>

theorem dispatch_publishes_what_was_delivered:
  assumes "kstate_inv (db w)" and "Dispatch envs publish lease limit w = ((n, errs), w')"
  shows "n = int (card (delivered envs publish 0 (claimable (envs 0) limit w))) \<and>
     (\<forall>i. published_in (db w') i \<longleftrightarrow>
        published_in (db w) i \<or> i \<in> delivered_ids envs publish 0 (claimable (envs 0) limit w))"
proof (cases "limit \<le> 0")
  case True
  with assms(2) show ?thesis by (simp add: Dispatch_def claimable_def delivered_ids_def)
next
  case False
  define lease' where "lease' = (if lease \<le> 0 then 30 * Second else lease)"
  obtain res w1 where t: "Transact (envs 0)
      (bindE (Now (envs 0)) (\<lambda>now. tx_update (ClaimOutbox limit now lease'))) w = (res, w1)" by fastforce
  note claim = claim_exact[OF assms(1) _ t]
  show ?thesis
  proof (cases res)
    case (Inl e)
    with t False assms(2) have "n = 0" "w' = w1" by (simp_all add: Dispatch_def flip: lease'_def)
    with claim Inl False show ?thesis by (simp add: claimable_def delivered_ids_def)
  next
    case (Inr claimed)
    with t False assms(2) have "dispatch_loop envs publish 0 claimed 0 [] w1 = ((n, errs), w')"
      by (simp add: Dispatch_def flip: lease'_def)
    from dispatch_loop_exact[OF this] claim Inr False show ?thesis by simp
  qed
qed

section \<open>Each event is handled once\<close>

text \<open>
  The inbox makes handling idempotent: once an event was processed, a second delivery, at
  any later time and whatever its handler would do, is reported as a duplicate and changes
  nothing; and if it carries another payload it is refused as a conflict.
\<close>
lemma inbox_handles_once:
  assumes "Process env event_val handler ev w = (Inr d, w1)" and "kstate_inv (db w1)"
    and "kernel_effect\<^sup>*\<^sup>* (db w1) (db w2)"
    and "ctx_begin env' = None" and "ctx_commit env' = None"
    and "ev_id ev' = ev_id ev" and "Event_Validate ev' = Inr ()"
  shows "if CanonicalFingerprint env' (event_val ev') = CanonicalFingerprint env (event_val ev)
         then Process env' event_val handler' ev' w2 = (Inr True, w2)
         else \<exists>e. Process env' event_val handler' ev' w2 = (Inl e, w2) \<and> ErrorCode e = CodeConflict"
proof -
  have "\<exists>r. inbox (db w1) (ev_id ev) = Some r \<and> ib_fingerprint r = CanonicalFingerprint env (event_val ev)"
    using assms(1)
    by (auto simp: Process_def Let_def Transact_Inr act_simps throw_def ret_def GetInbox_def InsertInbox_def
        split: sum.splits option.splits if_splits prod.splits)
  then obtain r where r: "inbox (db w1) (ev_id ev) = Some r"
    "ib_fingerprint r = CanonicalFingerprint env (event_val ev)" by blast
  have "grows (=) (inbox (db w1)) (inbox (db w2))"
    using effects_grown[OF assms(3,2)] by (simp add: grown_def)
  from growsD[OF this r(1)] have "inbox (db w2) (ev_id ev) = Some r" by auto
  with r(2) assms(4-7) show ?thesis
    by (auto simp: Process_def Let_def Transact_def act_simps GetInbox_def error_defs)
qed

section \<open>All activity\<close>

lemma effects_mark_published:
  "effects (Transact env (bindE (Now env) (\<lambda>now. tx_write (MarkOutboxPublished i now))))"
  by (intro effects_Transact triple_bind_Now triple_write) (blast intro: reached_step publish_event)

lemma effects_mark_pending:
  "effects (Transact env (bindE (Now env) (\<lambda>_. tx_write (MarkOutboxPending i m))))"
  by (intro effects_Transact triple_bind_Now triple_write) (blast intro: reached_step release_event)

lemma effects_claim:
  "effects (Transact env (bindE (Now env) (\<lambda>now. tx_update (ClaimOutbox limit now lease))))"
proof (intro effects_Transact triple_bind_Now)
  fix st0 t
  show "triple (reached st0) (tx_update (ClaimOutbox limit t lease)) (\<lambda>_. reached st0)"
    by (auto simp: triple_def tx_update_def split: sum.splits intro: reached_step lease_events)
qed

lemma dispatch_loop_effects:
  "dispatch_loop envs publish k rs n errs w = (x, w') \<Longrightarrow> kstate_inv (db w) \<Longrightarrow>
   kernel_effect\<^sup>*\<^sup>* (db w) (db w')"
proof (induction rs arbitrary: k n errs w)
  case (Cons r rs)
  let ?i = "ev_id (ob_event r)"
  obtain m :: "unit kact" where m: "effects m" and step: "\<And>res w1. m w = (res, w1) \<Longrightarrow>
      \<exists>n1 errs1. dispatch_loop envs publish (k + 1) rs n1 errs1 w1 = (x, w')"
  proof (cases "publish k (ob_event r)")
    case None
    with Cons.prems(1) show thesis
      by (intro that[OF effects_mark_published[of "envs (k + 1)" ?i]]) (auto split: sum.splits)
  next
    case (Some err)
    with Cons.prems(1) show thesis
      by (intro that[OF effects_mark_pending[of "envs (k + 1)" ?i "error_text err"]]) (auto split: sum.splits)
  qed
  obtain res w1 where w1: "m w = (res, w1)" by (cases "m w")
  from step[OF this] obtain n1 errs1 where
    loop: "dispatch_loop envs publish (k + 1) rs n1 errs1 w1 = (x, w')" by blast
  from effectsD[OF m Cons.prems(2) w1] have e: "kernel_effect\<^sup>*\<^sup>* (db w) (db w1)" .
  with Cons.prems(2) have "kstate_inv (db w1)" by (blast intro: kernel_store.run_inv)
  from Cons.IH[OF loop this] e show ?case by (rule rtranclp_trans[rotated])
qed simp

lemma Dispatch_effects:
  assumes "Dispatch envs publish lease limit w = (x, w')" and "kstate_inv (db w)"
  shows "kernel_effect\<^sup>*\<^sup>* (db w) (db w')"
proof (cases "limit \<le> 0")
  case False
  define lease' where "lease' = (if lease \<le> 0 then 30 * Second else lease)"
  obtain res w1 where t: "Transact (envs 0)
        (bindE (Now (envs 0)) (\<lambda>now. tx_update (ClaimOutbox limit now lease'))) w = (res, w1)" by fastforce
  from effectsD[OF effects_claim assms(2) t] have e: "kernel_effect\<^sup>*\<^sup>* (db w) (db w1)" .
  then have inv: "kstate_inv (db w1)" using assms(2) by (blast intro: kernel_store.run_inv)
  show ?thesis
  proof (cases res)
    case (Inl err)
    with t assms(1) False have "w' = w1" by (auto simp: Dispatch_def lease'_def[symmetric])
    with e show ?thesis by simp
  next
    case (Inr claimed)
    with t assms(1) False have "dispatch_loop envs publish 0 claimed 0 [] w1 = (x, w')"
      by (simp add: Dispatch_def lease'_def[symmetric])
    from dispatch_loop_effects[OF this inv] e show ?thesis by (rule rtranclp_trans[rotated])
  qed
qed (use assms in \<open>simp add: Dispatch_def\<close>)

lemma effects_Process:
  assumes "effects (handler ev)"
  shows "effects (Process env event_val handler ev)"
proof (cases "Event_Validate ev")
  case (Inl m)
  then show ?thesis by (simp add: Process_def effects_def throw_def)
next
  case (Inr u)
  have h: "triple (reached st0) (handler ev) (\<lambda>_. reached st0)" for st0
    using assms unfolding triple_def effects_def reached_iff
    by (meson kernel_store.run_inv rtranclp_trans)
  have ins: "triple (reached st0) (tx_write (InsertInbox b)) (\<lambda>_. reached st0)" for st0 b
    by (rule triple_write) (blast intro: reached_step receive_event)
  show ?thesis unfolding Process_def Inr sum.case Let_def
    by (intro effects_Transact triple_bind_attempt_read triple_forget)
      (auto intro!: triple_forget triple_throw triple_ret triple_seq[OF h] triple_bind_Now triple_seq[OF ins])
qed

text \<open>One call of the kernel from outside, in any environment.\<close>

inductive kernel_call :: "kworld \<Rightarrow> kworld \<Rightarrow> bool" where
  call_command: "exec_command env meta c w = (r1, w') \<Longrightarrow> kernel_call w w'"
| call_get_organization: "GetOrganization_cmd env pr oid corr w = (r2, w') \<Longrightarrow> kernel_call w w'"
| call_list_audit: "ListAuditEvents env pr oid corr limit w = (r3, w') \<Longrightarrow> kernel_call w w'"
| call_get_operation: "GetOperationForPrincipal env pr oid corr w = (r4, w') \<Longrightarrow> kernel_call w w'"
| call_transition: "Transition env oid to result w = (r5, w') \<Longrightarrow> kernel_call w w'"
| call_dispatch: "Dispatch envs publish lease limit w = (r6, w') \<Longrightarrow> kernel_call w w'"
| call_process: "effects (handler ev) \<Longrightarrow> Process env event_val handler ev w = (r7, w') \<Longrightarrow> kernel_call w w'"

lemma kernel_call_effects: "kernel_call w w' \<Longrightarrow> kstate_inv (db w) \<Longrightarrow> kernel_effect\<^sup>*\<^sup>* (db w) (db w')"
  by (induction rule: kernel_call.induct)
    (blast intro: effectsD effects_exec_command effects_GetOrganization effects_ListAuditEvents
      effects_GetOperation effects_Transition Dispatch_effects effects_Process)+

interpretation kernel: safe_machine "\<lambda>w. db w = newState" kernel_call "\<lambda>w. kstate_inv (db w)"
  by unfold_locales (auto simp: kstate_inv_new dest: kernel_call_effects intro: kernel_store.run_inv)

text \<open>
  C17. From an empty store, whatever sequence of commands, reads, transitions, dispatches and
  inbox deliveries the kernel serves: its tables stay consistent (every organization is found
  under its identifier and its slug and has an active owner, operations satisfy their state
  machine, completed keys have a response, the outbox order lists exactly the stored events,
  audit identifiers do not repeat).
\<close>
theorem kernel_store_stays_consistent:
  assumes "db w = newState" and "kernel_call\<^sup>*\<^sup>* w w'"
  shows "kstate_inv (db w')"
  using kernel.reachable_inv[of w w'] assms by blast

lemma kernel_runs_grow: "kernel_call\<^sup>*\<^sup>* w w' \<Longrightarrow> kstate_inv (db w) \<Longrightarrow> grown (db w) (db w')"
proof (induction rule: rtranclp_induct)
  case (step y z)
  from step.hyps(1) step.prems have inv: "kstate_inv (db y)" by (rule kernel.run_inv)
  with kernel_call_effects[OF step.hyps(2) inv] step show ?case by (blast intro: grown_trans effects_grown)
qed simp

text \<open>
  C13. The kernel never rewrites history. Whatever it serves, the audit log and the order of the
  outbox only get longer, a completed command keeps its response, an operation in a final state
  and a published event never change, an event keeps its content, no organization or operation
  disappears, and no version goes back.
\<close>
theorem kernel_history_only_grows:
  assumes "db w = newState" and "kernel_call\<^sup>*\<^sup>* w w1" and "kernel_call\<^sup>*\<^sup>* w1 w2"
  shows "prefix (audit (db w1)) (audit (db w2)) \<and>
     prefix (outboxOrder (db w1)) (outboxOrder (db w2)) \<and>
     grows key_later (idempotency (db w1)) (idempotency (db w2)) \<and>
     grows operation_later (operations (db w1)) (operations (db w2)) \<and>
     grows organization_later (organizations (db w1)) (organizations (db w2)) \<and>
     grows outbox_later (outbox (db w1)) (outbox (db w2))"
proof -
  have "kstate_inv (db w1)" using kernel.reachable_inv[of w w1] assms by blast
  from kernel_runs_grow[OF assms(3) this] show ?thesis by (simp add: grown_def)
qed

section \<open>Concrete runs of the messaging\<close>

text \<open>A publisher that refuses its first call: the second of the two claimed events gets published.\<close>

definition first_refused :: "nat \<Rightarrow> event \<Rightarrow> kerror option" where
  "first_refused n e = (if n = 0 then Some (OtherError []) else None)"

lemma demo_claimable: "claimable demo_env 2 demo_world = [sample_event ''e1'', sample_event ''e2'']"
  by (simp add: claimable_def goes_through_def demo_env_def demo_world_def eligible_ids_def sample_store_def
      newState_def sample_record_def outbox_eligible_def)

theorem dispatch_publishes_what_was_delivered_witness:
  "\<exists>w'. Dispatch (\<lambda>_. demo_env) first_refused 0 2 demo_world = ((1, [OtherError []]), w') \<and>
     published_in (db w') ''e2'' \<and> \<not> published_in (db w') ''e1''"
proof -
  have inv: "kstate_inv (db demo_world)" using sample_store_inv by (simp add: demo_world_def)
  obtain w' where run: "Dispatch (\<lambda>_. demo_env) first_refused 0 2 demo_world = ((1, [OtherError []]), w')"
    by (simp add: Dispatch_def Transact_def act_simps demo_env_def demo_world_def ClaimOutbox_def
      sample_store_def newState_def sample_record_def sample_event_def outbox_eligible_def Let_def
      MarkOutboxPublished_def MarkOutboxPending_def first_refused_def Second_def)
  have "goes_through demo_env" by (simp add: goes_through_def demo_env_def)
  then have "delivered_ids (\<lambda>_. demo_env) first_refused 0 [sample_event ''e1'', sample_event ''e2''] = {''e2''}"
    by (simp add: delivered_ids_Cons first_refused_def) (simp add: delivered_ids_def sample_event_def)
  moreover have "\<not> published_in (db demo_world) ''e1''"
    by (simp add: published_in_def demo_world_def sample_store_def newState_def sample_record_def)
  ultimately show ?thesis
    using dispatch_publishes_what_was_delivered[OF inv run] run by (auto simp: demo_claimable)
qed

definition received :: event where
  "received = sample_event ''e9''"

lemma received_valid: "Event_Validate received = Inr ()"
proof -
  have "TrimSpace ''e9'' = ''e9''" "TrimSpace ''kernel.sample.v1'' = ''kernel.sample.v1''"
    "TrimSpace ''a'' = ''a''" "TrimSpace ''corr'' = ''corr''"
    by code_simp+
  then show ?thesis by (simp add: Event_Validate_def received_def sample_event_def IsZero_def)
qed

lemma received_run:
  obtains w1 where "Process demo_env (\<lambda>_. VNull) (\<lambda>_. ret ()) received demo_world = (Inr False, w1)"
proof -
  have i: "ev_id received = ''e9''" by (simp add: received_def sample_event_def)
  show thesis
    by (rule that, simp add: Process_def received_valid Let_def)
      (simp add: i Transact_def act_simps GetInbox_def InsertInbox_def demo_env_def demo_world_def
        sample_store_def newState_def error_defs)
qed

lemma inbox_handles_once_witness:
  "\<exists>w1. Process demo_env (\<lambda>_. VNull) (\<lambda>_. ret ()) received demo_world = (Inr False, w1) \<and>
     Process demo_env (\<lambda>_. VNull) (\<lambda>_. throw (OtherError [])) received w1 = (Inr True, w1)"
proof -
  obtain w1 where run: "Process demo_env (\<lambda>_. VNull) (\<lambda>_. ret ()) received demo_world = (Inr False, w1)"
    by (rule received_run)
  have "effects (ret ())" by (simp add: effects_def ret_def)
  from effectsD[OF effects_Process[of "\<lambda>_. ret ()", OF this] _ run] sample_store_inv
  have e: "kernel_effect\<^sup>*\<^sup>* (db demo_world) (db w1)" by (simp add: demo_world_def)
  have "kstate_inv (db demo_world)" using sample_store_inv by (simp add: demo_world_def)
  with e have inv: "kstate_inv (db w1)" by (rule kernel_store.run_inv)
  have "ctx_begin demo_env = None" "ctx_commit demo_env = None" by (simp_all add: demo_env_def)
  from inbox_handles_once[OF run inv rtranclp.rtrancl_refl this refl received_valid, of "\<lambda>_. throw (OtherError [])"]
    run show ?thesis by auto
qed

lemma empty_world_call:
  "\<exists>w'. kernel_call \<lparr>db = newState, id_seq = 0, clk_seq = 0\<rparr> w'"
  using call_command[of demo_env bob_meta invite_carol "\<lparr>db = newState, id_seq = 0, clk_seq = 0\<rparr>"]
  by (metis surj_pair)

theorem kernel_store_stays_consistent_witness:
  "\<exists>w'. kernel_call \<lparr>db = newState, id_seq = 0, clk_seq = 0\<rparr> w' \<and> kstate_inv (db w')"
proof -
  obtain w' where c: "kernel_call \<lparr>db = newState, id_seq = 0, clk_seq = 0\<rparr> w'"
    using empty_world_call by blast
  then have s: "kernel_call\<^sup>*\<^sup>* \<lparr>db = newState, id_seq = 0, clk_seq = 0\<rparr> w'"
    by (rule r_into_rtranclp[of kernel_call])
  from kernel_store_stays_consistent[OF _ s] c show ?thesis by auto
qed

theorem kernel_history_only_grows_witness:
  "\<exists>w' :: kworld. prefix (audit newState) (audit (db w')) \<and>
     kernel_call \<lparr>db = newState, id_seq = 0, clk_seq = 0\<rparr> w'"
proof -
  obtain w' where c: "kernel_call \<lparr>db = newState, id_seq = 0, clk_seq = 0\<rparr> w'"
    using empty_world_call by blast
  then have s: "kernel_call\<^sup>*\<^sup>* \<lparr>db = newState, id_seq = 0, clk_seq = 0\<rparr> w'"
    by (rule r_into_rtranclp[of kernel_call])
  from kernel_history_only_grows[OF _ rtranclp.rtrancl_refl s] c show ?thesis by auto
qed

end
