(* ===== verification/Commerce_Types.thy ===== *)
theory Commerce_Types
  imports Go_Transactions "HOL-Library.Product_Lexorder"
begin

text \<open>
  The values of the commerce component: the contract types of
  \<open>pkg/contracts/commerce/v1/contracts.go\<close> (meters, prices, plan specifications, requests,
  usage events, invoices) and the errors of \<open>internal/commerce/domain/errors.go\<close>.
\<close>

section \<open>Errors\<close>

datatype commerce_code =
    InvalidArgument
  | NotFound
  | PermissionDenied
  | Conflict
  | StaleVersion
  | QuotaExceeded
  | Unavailable
  | Overflow
  | Internal

text \<open>
  An \<open>error\<close> is a domain error, with the error it wraps, or one that some other package made.
\<close>

datatype cerror =
    ErrorString string
  | DomainError (err_code: commerce_code) (err_message: string) (err_cause: "cerror option")

definition Err :: "commerce_code \<Rightarrow> string \<Rightarrow> cerror" where
  "Err c m = DomainError c m None"

definition Wrap :: "commerce_code \<Rightarrow> string \<Rightarrow> cerror \<Rightarrow> cerror" where
  "Wrap c m cause = DomainError c m (Some cause)"

fun HasCode :: "cerror \<Rightarrow> commerce_code \<Rightarrow> bool" where
  "HasCode (ErrorString _) c \<longleftrightarrow> False"
| "HasCode (DomainError c' _ _) c \<longleftrightarrow> c' = c"

lemma HasCode_Err [simp]: "HasCode (Err c m) c' \<longleftrightarrow> c = c'"
  by (simp add: Err_def)

lemma HasCode_Wrap [simp]: "HasCode (Wrap c m e) c' \<longleftrightarrow> c = c'"
  by (simp add: Wrap_def)

section \<open>Meters\<close>

text \<open>\<open>Meter\<close> is a string type, and invoices order meters as strings.\<close>

type_synonym meter = string

definition MeterRuntimeUnitSeconds :: meter where
  "MeterRuntimeUnitSeconds = ''runtime.unit_seconds''"

definition MeterBuildCPUSeconds :: meter where
  "MeterBuildCPUSeconds = ''build.cpu_seconds''"

definition MeterBuildMemoryGiBSeconds :: meter where
  "MeterBuildMemoryGiBSeconds = ''build.memory_gib_seconds''"

definition MeterBuildDockerVMSeconds :: meter where
  "MeterBuildDockerVMSeconds = ''build.docker_vm_seconds''"

definition meterCatalog :: "meter list" where
  "meterCatalog =
     [MeterRuntimeUnitSeconds, ''runtime.extra_replica_seconds'',
      MeterBuildCPUSeconds, MeterBuildMemoryGiBSeconds, MeterBuildDockerVMSeconds,
      ''artifact.storage_gib_hours'', ''persistent.storage_gib_hours'',
      ''database.plan_seconds'', ''object_storage.gib_hours'',
      ''egress.bytes'', ''logs.ingested_bytes'', ''logs.retained_gib_hours'']"

definition ValidMeter :: "meter \<Rightarrow> bool" where
  "ValidMeter m \<longleftrightarrow> list_ex (\<lambda>item. m = item) meterCatalog"

lemmas meter_defs = MeterRuntimeUnitSeconds_def MeterBuildCPUSeconds_def
  MeterBuildMemoryGiBSeconds_def MeterBuildDockerVMSeconds_def meterCatalog_def ValidMeter_def

section \<open>Prices and plan specifications\<close>

record price =
  MinorUnits :: int
  PerQuantity :: int

definition Price_Validate :: "price \<Rightarrow> cerror + unit" where
  "Price_Validate p =
     (if MinorUnits p < 0 \<or> PerQuantity p \<le> 0 then Inl (ErrorString ''invalid integer price'')
      else Inr ())"

text \<open>
  The maps that \<open>Validate\<close> ranges over are association lists; \<open>Features\<close> is only looked up.
\<close>

record plan_spec =
  Currency :: string
  Features :: "string \<rightharpoonup> bool"
  Quotas :: "(string \<times> int) list"
  Prices :: "(meter \<times> price) list"
  Included :: "(meter \<times> int) list"
  ChargeUserBuildFailures :: bool

definition Spec_Validate :: "unicode \<Rightarrow> plan_spec \<Rightarrow> cerror + unit" where
  "Spec_Validate u s =
     (if length (Currency s) \<noteq> 3 \<or> ToUpper u (Currency s) \<noteq> Currency s
        then Inl (ErrorString ''currency must be uppercase ISO-like code'')
      else if list_ex (\<lambda>(key, v). TrimSpace key = [] \<or> v < 0) (Quotas s)
        then Inl (ErrorString ''invalid quota'')
      else if list_ex (\<lambda>(m, p). \<not> ValidMeter m \<or> Price_Validate p \<noteq> Inr ()) (Prices s)
        then Inl (ErrorString ''invalid meter price'')
      else if list_ex (\<lambda>(m, q). \<not> ValidMeter m \<or> q < 0) (Included s)
        then Inl (ErrorString ''invalid included allowance'')
      else Inr ())"

text \<open>The numbers of a specification are \<open>int64\<close>.\<close>

definition spec_typed :: "plan_spec \<Rightarrow> bool" where
  "spec_typed s \<longleftrightarrow>
     (\<forall>(_, v)\<in>set (Quotas s). int64 v) \<and>
     (\<forall>(_, p)\<in>set (Prices s). int64 (MinorUnits p) \<and> int64 (PerQuantity p)) \<and>
     (\<forall>(_, q)\<in>set (Included s). int64 q)"

text \<open>What a specification that passes promises to the code that reads quotas and prices.\<close>

lemma Price_valid: "Price_Validate p = Inr () \<longleftrightarrow> 0 \<le> MinorUnits p \<and> 0 < PerQuantity p"
  by (auto simp: Price_Validate_def)

lemma Spec_Validate_quota:
  "Spec_Validate u s = Inr () \<Longrightarrow> map_of (Quotas s) r = Some v \<Longrightarrow> 0 \<le> v"
  by (auto simp: Spec_Validate_def list_ex_iff split: if_splits dest!: map_of_SomeD)

lemma Spec_Validate_price:
  "Spec_Validate u s = Inr () \<Longrightarrow> map_of (Prices s) m = Some p \<Longrightarrow> 0 \<le> MinorUnits p \<and> 0 < PerQuantity p"
  by (fastforce simp: Spec_Validate_def list_ex_iff Price_valid split: if_splits dest!: map_of_SomeD)

lemma Spec_Validate_included:
  "Spec_Validate u s = Inr () \<Longrightarrow> map_of (Included s) m = Some q \<Longrightarrow> 0 \<le> q"
  by (auto simp: Spec_Validate_def list_ex_iff split: if_splits dest!: map_of_SomeD)

section \<open>Requests, decisions and reservations\<close>

record entitlement_request =
  er_tenant :: string
  er_feature :: string
  er_resource :: string
  er_quantity :: int
  er_at :: gotime

record entitlement_decision =
  ed_allowed :: bool
  ed_reason :: string
  ed_policy_version :: string
  ed_plan_version_id :: string
  ed_limit :: int
  ed_remaining :: int

record quota_request =
  qq_tenant :: string
  qq_resource :: string
  qq_quantity :: int
  qq_key :: string
  qq_expires_at :: gotime
  qq_at :: gotime

datatype quota_state = QuotaReserved | QuotaCommitted | QuotaReleased | QuotaRejected

text \<open>The reservation as the contract shows it, without its key and fingerprint.\<close>

record quota_contract =
  qc_id :: string
  qc_tenant :: string
  qc_resource :: string
  qc_policy_version :: string
  qc_reason :: string
  qc_quantity :: int
  qc_state :: quota_state
  qc_expires_at :: gotime
  qc_version :: int
  qc_created_at :: gotime
  qc_updated_at :: gotime

section \<open>Usage\<close>

text \<open>\<open>UsageKind\<close> is a string type, and invoices order kinds as strings.\<close>

type_synonym usage_kind = string

definition UsageStandard :: usage_kind where
  "UsageStandard = ''STANDARD''"

definition UsageCredit :: usage_kind where
  "UsageCredit = ''CREDIT''"

definition UsageCorrection :: usage_kind where
  "UsageCorrection = ''CORRECTION''"

lemmas kind_defs = UsageStandard_def UsageCredit_def UsageCorrection_def

record usage_event =
  ue_id :: string
  ue_tenant :: string
  ue_period :: string
  ue_resource_type :: string
  ue_resource_id :: string
  ue_meter :: meter
  ue_kind :: usage_kind
  ue_quantity :: int
  ue_key :: string
  ue_occurred_at :: gotime
  ue_window_start :: gotime
  ue_window_end :: gotime
  ue_metadata :: "string \<rightharpoonup> string"
  ue_version :: int
  ue_created_at :: gotime

datatype build_outcome =
  BuildSucceeded | BuildUserFailed | BuildPlatformFailed | BuildCanceled | BuildOther string

fun outcome_string :: "build_outcome \<Rightarrow> string" where
  "outcome_string BuildSucceeded = ''SUCCEEDED''"
| "outcome_string BuildUserFailed = ''USER_FAILED''"
| "outcome_string BuildPlatformFailed = ''PLATFORM_FAILED''"
| "outcome_string BuildCanceled = ''CANCELED''"
| "outcome_string (BuildOther s) = s"

record build_usage =
  bu_tenant :: string
  bu_build :: string
  bu_outcome :: build_outcome
  bu_started_at :: gotime
  bu_finished_at :: gotime
  bu_cpu_seconds :: int
  bu_memory_gib_seconds :: int
  bu_docker_vm_seconds :: int
  bu_key :: string

record runtime_observation =
  ro_at :: gotime
  ro_replicas :: int
  ro_unit_weight :: int
  ro_suspended :: bool

section \<open>Invoices\<close>

record invoice_line =
  il_resource_type :: string
  il_resource_id :: string
  il_meter :: meter
  il_kind :: usage_kind
  il_quantity :: int
  il_billable :: int
  il_amount :: int

record invoice_preview =
  ip_tenant :: string
  ip_period :: string
  ip_currency :: string
  ip_plan_version_id :: string
  ip_policy_version :: string
  ip_lines :: "invoice_line list"
  ip_total :: int

text \<open>
  \<open>sort.Slice\<close> with the comparison of the four fields in turn is a sort by the tuple of them;
  it need not be stable, so equal keys come in the order of the model only where there are none.
\<close>

definition line_key :: "invoice_line \<Rightarrow> string \<times> string \<times> meter \<times> usage_kind" where
  "line_key l = (il_resource_type l, il_resource_id l, il_meter l, il_kind l)"

definition Normalize :: "invoice_preview \<Rightarrow> invoice_preview" where
  "Normalize p = p\<lparr>ip_lines := sort_key line_key (ip_lines p)\<rparr>"

section \<open>Commercial states\<close>

datatype commercial_state =
  CommercialActive | CommercialGrace | CommercialSuspended | CommercialCanceled | CommercialOther string

record runtime_intent =
  ri_tenant :: string
  ri_action :: string
  ri_retain :: bool
  ri_at :: gotime

end
