(* ===== verification/Commerce_Domain.thy ===== *)
theory Commerce_Domain
  imports Commerce_Types
begin

text \<open>
  The entities of \<open>internal/commerce/domain/model.go\<close> with their constructors and methods:
  plan definitions and versions, subscriptions, billing periods, commercial accounts and quota
  reservations. A version counter is incremented as an integer: \<open>2^63\<close> changes of one row are
  out of reach.
\<close>

section \<open>Plan definitions and versions\<close>

record plan_definition =
  pd_id :: string
  pd_name :: string
  pd_version :: int
  pd_created_at :: gotime
  pd_updated_at :: gotime

definition NewPlanDefinition :: "string \<Rightarrow> string \<Rightarrow> gotime \<Rightarrow> cerror + plan_definition" where
  "NewPlanDefinition i n now =
     (if TrimSpace i = [] \<or> TrimSpace n = []
        then Inl (Err InvalidArgument ''plan definition identity is required'')
      else Inr \<lparr>pd_id = TrimSpace i, pd_name = TrimSpace n, pd_version = 1,
                pd_created_at = now, pd_updated_at = now\<rparr>)"

datatype plan_state = PlanDraft | PlanActive | PlanDisabled

record plan_version =
  pv_id :: string
  pv_definition_id :: string
  pv_policy_version :: string
  pv_number :: int
  pv_spec :: plan_spec
  pv_state :: plan_state
  pv_effective_from :: gotime
  pv_version :: int
  pv_created_at :: gotime
  pv_updated_at :: gotime

text \<open>A clone is a copy of the maps, which are values in the model.\<close>

definition ClonePlanSpec :: "plan_spec \<Rightarrow> plan_spec" where
  "ClonePlanSpec spec = spec"

definition NewPlanVersion ::
  "unicode \<Rightarrow> string \<Rightarrow> string \<Rightarrow> string \<Rightarrow> int \<Rightarrow> plan_spec \<Rightarrow> gotime \<Rightarrow> gotime \<Rightarrow> cerror + plan_version" where
  "NewPlanVersion u i definitionID policyVersion number spec effectiveFrom now =
     (if TrimSpace i = [] \<or> TrimSpace definitionID = [] \<or> TrimSpace policyVersion = [] \<or> number \<le> 0
        then Inl (Err InvalidArgument ''plan version identity is invalid'')
      else case Spec_Validate u spec of
        Inl e \<Rightarrow> Inl (Wrap InvalidArgument ''plan specification is invalid'' e)
      | Inr _ \<Rightarrow>
          Inr \<lparr>pv_id = TrimSpace i, pv_definition_id = TrimSpace definitionID,
               pv_policy_version = TrimSpace policyVersion, pv_number = number,
               pv_spec = ClonePlanSpec spec, pv_state = PlanDraft,
               pv_effective_from = effectiveFrom, pv_version = 1,
               pv_created_at = now, pv_updated_at = now\<rparr>)"

definition Activate :: "gotime \<Rightarrow> plan_version \<Rightarrow> cerror + plan_version" where
  "Activate now p =
     (if pv_state p = PlanActive then Inr p
      else if pv_state p \<noteq> PlanDraft
        then Inl (Err Conflict ''only draft plan versions can be activated'')
      else Inr (p\<lparr>pv_state := PlanActive, pv_version := pv_version p + 1, pv_updated_at := now\<rparr>))"

definition Disable :: "gotime \<Rightarrow> plan_version \<Rightarrow> cerror + plan_version" where
  "Disable now p =
     (if pv_state p = PlanDisabled then Inr p
      else if pv_state p \<noteq> PlanDraft \<and> pv_state p \<noteq> PlanActive
        then Inl (Err Conflict ''plan version cannot be disabled'')
      else Inr (p\<lparr>pv_state := PlanDisabled, pv_version := pv_version p + 1, pv_updated_at := now\<rparr>))"

definition ReplaceSpec :: "unicode \<Rightarrow> plan_spec \<Rightarrow> gotime \<Rightarrow> plan_version \<Rightarrow> cerror + plan_version" where
  "ReplaceSpec u spec now p =
     (if pv_state p \<noteq> PlanDraft then Inl (Err Conflict ''active plan version is immutable'')
      else case Spec_Validate u spec of
        Inl e \<Rightarrow> Inl (Wrap InvalidArgument ''plan specification is invalid'' e)
      | Inr _ \<Rightarrow> Inr (p\<lparr>pv_spec := ClonePlanSpec spec, pv_version := pv_version p + 1,
                        pv_updated_at := now\<rparr>))"

section \<open>Subscriptions\<close>

text \<open>The state in a command is any string; the empty one stands for \<open>ACTIVE\<close>.\<close>

datatype subscription_state =
    SubscriptionTrial
  | SubscriptionActive
  | SubscriptionGrace
  | SubscriptionSuspended
  | SubscriptionCanceled
  | SubscriptionOther string

record subscription =
  sub_id :: string
  sub_tenant :: string
  sub_plan_version_id :: string
  sub_state :: subscription_state
  sub_trial_ends_at :: gotime
  sub_version :: int
  sub_created_at :: gotime
  sub_updated_at :: gotime

fun startable :: "subscription_state \<Rightarrow> bool" where
  "startable SubscriptionCanceled \<longleftrightarrow> False"
| "startable (SubscriptionOther _) \<longleftrightarrow> False"
| "startable _ \<longleftrightarrow> True"

definition NewSubscription ::
  "string \<Rightarrow> string \<Rightarrow> string \<Rightarrow> subscription_state \<Rightarrow> gotime \<Rightarrow> gotime \<Rightarrow> cerror + subscription" where
  "NewSubscription i tenantID planVersionID state0 trialEndsAt now =
     (let state = (if state0 = SubscriptionOther [] then SubscriptionActive else state0) in
      if TrimSpace i = [] \<or> TrimSpace tenantID = [] \<or> TrimSpace planVersionID = []
        then Inl (Err InvalidArgument ''subscription identity is required'')
      else if \<not> startable state then Inl (Err InvalidArgument ''invalid subscription state'')
      else if state = SubscriptionTrial \<and> IsZero trialEndsAt
        then Inl (Err InvalidArgument ''trial end is required'')
      else Inr \<lparr>sub_id = TrimSpace i, sub_tenant = TrimSpace tenantID,
                sub_plan_version_id = TrimSpace planVersionID, sub_state = state,
                sub_trial_ends_at = trialEndsAt, sub_version = 1,
                sub_created_at = now, sub_updated_at = now\<rparr>)"

definition AllowsAllocation :: "gotime \<Rightarrow> subscription \<Rightarrow> bool" where
  "AllowsAllocation at s =
     (case sub_state s of
        SubscriptionActive \<Rightarrow> True
      | SubscriptionGrace \<Rightarrow> True
      | SubscriptionTrial \<Rightarrow> \<not> IsZero (sub_trial_ends_at s) \<and> at < sub_trial_ends_at s
      | _ \<Rightarrow> False)"

section \<open>Billing periods\<close>

datatype period_state = PeriodOpen | PeriodClosing | PeriodClosed | PeriodInvoiced

record billing_period =
  bp_id :: string
  bp_tenant :: string
  bp_subscription_id :: string
  bp_plan_version_id :: string
  bp_start :: gotime
  bp_end :: gotime
  bp_state :: period_state
  bp_version :: int
  bp_created_at :: gotime
  bp_updated_at :: gotime

definition NewBillingPeriod ::
  "string \<Rightarrow> string \<Rightarrow> string \<Rightarrow> string \<Rightarrow> gotime \<Rightarrow> gotime \<Rightarrow> gotime \<Rightarrow> cerror + billing_period" where
  "NewBillingPeriod i tenantID subscriptionID planVersionID start stop now =
     (if TrimSpace i = [] \<or> TrimSpace tenantID = [] \<or> TrimSpace subscriptionID = [] \<or>
         TrimSpace planVersionID = [] \<or> \<not> start < stop
        then Inl (Err InvalidArgument ''billing period is invalid'')
      else Inr \<lparr>bp_id = TrimSpace i, bp_tenant = TrimSpace tenantID,
                bp_subscription_id = TrimSpace subscriptionID,
                bp_plan_version_id = TrimSpace planVersionID, bp_start = start, bp_end = stop,
                bp_state = PeriodOpen, bp_version = 1, bp_created_at = now, bp_updated_at = now\<rparr>)"

definition Contains :: "gotime \<Rightarrow> billing_period \<Rightarrow> bool" where
  "Contains at p \<longleftrightarrow> \<not> at < bp_start p \<and> at < bp_end p"

definition AcceptsUsage :: "gotime \<Rightarrow> gotime \<Rightarrow> billing_period \<Rightarrow> bool" where
  "AcceptsUsage windowStart windowEnd p \<longleftrightarrow>
     bp_state p = PeriodOpen \<and> \<not> windowStart < bp_start p \<and> \<not> windowEnd > bp_end p \<and>
     windowStart < windowEnd"

section \<open>Commercial accounts\<close>

record commercial_account =
  ca_tenant :: string
  ca_state :: commercial_state
  ca_version :: int
  ca_created_at :: gotime
  ca_updated_at :: gotime

fun openable :: "commercial_state \<Rightarrow> bool" where
  "openable CommercialCanceled \<longleftrightarrow> False"
| "openable (CommercialOther _) \<longleftrightarrow> False"
| "openable _ \<longleftrightarrow> True"

definition NewCommercialAccount :: "string \<Rightarrow> commercial_state \<Rightarrow> gotime \<Rightarrow> cerror + commercial_account" where
  "NewCommercialAccount tenantID state0 now =
     (let state = (if state0 = CommercialOther [] then CommercialActive else state0) in
      if TrimSpace tenantID = [] then Inl (Err InvalidArgument ''tenant is required'')
      else if \<not> openable state then Inl (Err InvalidArgument ''invalid commercial state'')
      else Inr \<lparr>ca_tenant = TrimSpace tenantID, ca_state = state, ca_version = 1,
                ca_created_at = now, ca_updated_at = now\<rparr>)"

definition account_transitions :: "(commercial_state \<times> commercial_state list) list" where
  "account_transitions =
     [(CommercialActive, [CommercialGrace, CommercialSuspended, CommercialCanceled]),
      (CommercialGrace, [CommercialSuspended, CommercialActive, CommercialCanceled]),
      (CommercialSuspended, [CommercialActive, CommercialCanceled])]"

definition account_allowed :: "commercial_state \<Rightarrow> commercial_state \<Rightarrow> bool" where
  "account_allowed s t =
     (case map_of account_transitions s of None \<Rightarrow> False | Some ts \<Rightarrow> t \<in> set ts)"

definition Account_Transition ::
  "commercial_state \<Rightarrow> gotime \<Rightarrow> commercial_account \<Rightarrow> cerror + commercial_account" where
  "Account_Transition t now a =
     (if ca_state a = t then Inr a
      else if \<not> account_allowed (ca_state a) t
        then Inl (Err Conflict ''invalid commercial account transition'')
      else Inr (a\<lparr>ca_state := t, ca_version := ca_version a + 1, ca_updated_at := now\<rparr>))"

section \<open>Quota reservations\<close>

record quota_reservation =
  qr_id :: string
  qr_tenant :: string
  qr_resource :: string
  qr_policy_version :: string
  qr_reason :: string
  qr_quantity :: int
  qr_state :: quota_state
  qr_key :: string
  qr_fingerprint :: string
  qr_expires_at :: gotime
  qr_version :: int
  qr_created_at :: gotime
  qr_updated_at :: gotime

definition NewQuotaReservation ::
  "string \<Rightarrow> string \<Rightarrow> string \<Rightarrow> string \<Rightarrow> string \<Rightarrow> string \<Rightarrow> int \<Rightarrow> gotime \<Rightarrow> gotime \<Rightarrow>
   cerror + quota_reservation" where
  "NewQuotaReservation i tenantID resource policyVersion key fp quantity expiresAt now =
     (if TrimSpace i = [] \<or> TrimSpace tenantID = [] \<or> TrimSpace resource = [] \<or>
         TrimSpace policyVersion = [] \<or> TrimSpace key = [] \<or> quantity \<le> 0 \<or> \<not> expiresAt > now
        then Inl (Err InvalidArgument ''quota reservation is invalid'')
      else Inr \<lparr>qr_id = TrimSpace i, qr_tenant = TrimSpace tenantID,
                qr_resource = TrimSpace resource, qr_policy_version = TrimSpace policyVersion,
                qr_reason = [], qr_quantity = quantity, qr_state = QuotaReserved,
                qr_key = TrimSpace key, qr_fingerprint = fp, qr_expires_at = expiresAt,
                qr_version = 1, qr_created_at = now, qr_updated_at = now\<rparr>)"

definition Quota_Commit :: "gotime \<Rightarrow> quota_reservation \<Rightarrow> cerror + quota_reservation" where
  "Quota_Commit now q =
     (if qr_state q = QuotaCommitted then Inr q
      else if qr_state q \<noteq> QuotaReserved then Inl (Err Conflict ''reservation cannot be committed'')
      else if \<not> now < qr_expires_at q then Inl (Err Conflict ''reservation expired'')
      else Inr (q\<lparr>qr_state := QuotaCommitted, qr_version := qr_version q + 1, qr_updated_at := now\<rparr>))"

definition Quota_Release :: "gotime \<Rightarrow> quota_reservation \<Rightarrow> cerror + quota_reservation" where
  "Quota_Release now q =
     (if qr_state q = QuotaReleased then Inr q
      else if qr_state q \<noteq> QuotaReserved \<and> qr_state q \<noteq> QuotaCommitted
        then Inl (Err Conflict ''reservation cannot be released'')
      else Inr (q\<lparr>qr_state := QuotaReleased, qr_version := qr_version q + 1, qr_updated_at := now\<rparr>))"

definition CountsAgainstLimit :: "gotime \<Rightarrow> quota_reservation \<Rightarrow> bool" where
  "CountsAgainstLimit now q \<longleftrightarrow>
     qr_state q = QuotaCommitted \<or> (qr_state q = QuotaReserved \<and> now < qr_expires_at q)"

definition Contract :: "quota_reservation \<Rightarrow> quota_contract" where
  "Contract q =
     \<lparr>qc_id = qr_id q, qc_tenant = qr_tenant q, qc_resource = qr_resource q,
      qc_policy_version = qr_policy_version q, qc_reason = qr_reason q,
      qc_quantity = qr_quantity q, qc_state = qr_state q, qc_expires_at = qr_expires_at q,
      qc_version = qr_version q, qc_created_at = qr_created_at q, qc_updated_at = qr_updated_at q\<rparr>"

text \<open>A reservation that counts at an instant counted at every earlier one.\<close>

lemma CountsAgainstLimit_anti: "t \<le> t' \<Longrightarrow> CountsAgainstLimit t' q \<Longrightarrow> CountsAgainstLimit t q"
  by (auto simp: CountsAgainstLimit_def)

section \<open>The life of each entity\<close>

text \<open>
  The methods as step relations. Each object is a state machine whose version counts its
  changes: the same contract as the kernel's aggregates.
\<close>

inductive plan_step :: "plan_version \<Rightarrow> plan_version \<Rightarrow> bool" where
  activate: "Activate now p = Inr p' \<Longrightarrow> plan_step p p'"
| disable: "Disable now p = Inr p' \<Longrightarrow> plan_step p p'"
| replace_spec: "spec_typed spec \<Longrightarrow> ReplaceSpec u spec now p = Inr p' \<Longrightarrow> plan_step p p'"

inductive quota_step :: "quota_reservation \<Rightarrow> quota_reservation \<Rightarrow> bool" where
  commit: "Quota_Commit now q = Inr q' \<Longrightarrow> quota_step q q'"
| release: "Quota_Release now q = Inr q' \<Longrightarrow> quota_step q q'"

inductive account_step :: "commercial_account \<Rightarrow> commercial_account \<Rightarrow> bool" where
  move: "Account_Transition t now a = Inr a' \<Longrightarrow> account_step a a'"

text \<open>Every plan version carries a valid specification.\<close>

definition plan_valid :: "plan_version \<Rightarrow> bool" where
  "plan_valid p \<longleftrightarrow> (\<exists>u. Spec_Validate u (pv_spec p) = Inr ()) \<and> spec_typed (pv_spec p)"

lemma plan_step_cases:
  "plan_step p p' \<Longrightarrow> p' = p \<or> pv_version p' = pv_version p + 1 \<and> pv_state p \<noteq> PlanDisabled \<and>
     (pv_spec p' = pv_spec p \<or> pv_state p = PlanDraft \<and> plan_valid p') \<and>
     (pv_state p \<noteq> PlanDraft \<longrightarrow> pv_state p' \<noteq> PlanDraft) \<and>
     pv_id p' = pv_id p \<and> pv_definition_id p' = pv_definition_id p \<and>
     pv_policy_version p' = pv_policy_version p \<and> pv_number p' = pv_number p"
  by (induction rule: plan_step.induct)
    (auto simp: Activate_def Disable_def ReplaceSpec_def ClonePlanSpec_def plan_valid_def
       split: if_splits sum.splits)

interpretation plan_machine: versioned_machine
  "\<lambda>p. \<exists>u i d v n spec ef now. spec_typed spec \<and> NewPlanVersion u i d v n spec ef now = Inr p"
  plan_step plan_valid pv_version "\<lambda>p. pv_state p = PlanDisabled"
proof
  fix p p'
  show "\<exists>u i d v n spec ef now. spec_typed spec \<and> NewPlanVersion u i d v n spec ef now = Inr p \<Longrightarrow> plan_valid p"
    by (auto simp: NewPlanVersion_def plan_valid_def ClonePlanSpec_def split: if_splits sum.splits)
  show "plan_valid p \<Longrightarrow> plan_step p p' \<Longrightarrow> plan_valid p'"
    by (drule plan_step_cases) (auto simp: plan_valid_def)
  show "plan_valid p \<Longrightarrow> plan_step p p' \<Longrightarrow> p' = p \<or> pv_version p' = pv_version p + 1"
    and "plan_valid p \<Longrightarrow> pv_state p = PlanDisabled \<Longrightarrow> plan_step p p' \<Longrightarrow> p' = p"
    by (auto dest: plan_step_cases)
qed

lemma quota_step_cases:
  "quota_step q q' \<Longrightarrow> q' = q \<or>
     qr_version q' = qr_version q + 1 \<and> qr_state q \<noteq> QuotaReleased \<and>
     (qr_state q' = QuotaReleased \<or> qr_state q = QuotaReserved \<and> qr_state q' = QuotaCommitted) \<and>
     qr_id q' = qr_id q \<and> qr_tenant q' = qr_tenant q \<and> qr_resource q' = qr_resource q \<and>
     qr_quantity q' = qr_quantity q \<and> qr_key q' = qr_key q \<and>
     qr_fingerprint q' = qr_fingerprint q \<and> qr_expires_at q' = qr_expires_at q"
  by (induction rule: quota_step.induct)
    (auto simp: Quota_Commit_def Quota_Release_def split: if_splits)

interpretation quota_machine: versioned_machine
  "\<lambda>q. \<exists>i t r p k f n e now. NewQuotaReservation i t r p k f n e now = Inr q"
  quota_step "\<lambda>q. 0 < qr_quantity q" qr_version "\<lambda>q. qr_state q = QuotaReleased"
  by unfold_locales
    (auto simp: NewQuotaReservation_def split: if_splits dest: quota_step_cases)

lemma account_step_cases:
  "account_step a a' \<Longrightarrow> a' = a \<or>
     ca_version a' = ca_version a + 1 \<and> account_allowed (ca_state a) (ca_state a') \<and>
     ca_tenant a' = ca_tenant a"
  by (induction rule: account_step.induct) (auto simp: Account_Transition_def split: if_splits)

definition account_state_known :: "commercial_account \<Rightarrow> bool" where
  "account_state_known a \<longleftrightarrow> (\<forall>s. ca_state a \<noteq> CommercialOther s)"

lemma account_allowed_target: "account_allowed s t \<Longrightarrow> t \<noteq> CommercialOther x"
  by (auto simp: account_allowed_def account_transitions_def split: if_splits)

lemma account_canceled_final: "\<not> account_allowed CommercialCanceled t"
  by (simp add: account_allowed_def account_transitions_def)

interpretation account_machine: versioned_machine
  "\<lambda>a. \<exists>t s now. NewCommercialAccount t s now = Inr a"
  account_step account_state_known ca_version "\<lambda>a. ca_state a = CommercialCanceled"
proof
  fix a a'
  show "\<exists>t s now. NewCommercialAccount t s now = Inr a \<Longrightarrow> account_state_known a"
    by (auto simp: NewCommercialAccount_def account_state_known_def Let_def split: if_splits)
  show "account_state_known a \<Longrightarrow> account_step a a' \<Longrightarrow> account_state_known a'"
    by (drule account_step_cases) (auto simp: account_state_known_def dest: account_allowed_target)
  show "account_state_known a \<Longrightarrow> account_step a a' \<Longrightarrow> a' = a \<or> ca_version a' = ca_version a + 1"
    and "account_state_known a \<Longrightarrow> ca_state a = CommercialCanceled \<Longrightarrow> account_step a a' \<Longrightarrow> a' = a"
    by (auto dest: account_step_cases simp: account_canceled_final)
qed

end
