(* ===== verification/Commerce_Store.thy ===== *)
theory Commerce_Store
  imports Commerce_Domain Versioned_Store
begin

text \<open>
  The store of the commerce component: the records of \<open>internal/commerce/application/ports.go\<close>
  and the tables and transaction operations of \<open>internal/commerce/memory/store.go\<close>. A table that
  the code ranges over is an association list, whose order is one iteration order of the map.
\<close>

section \<open>Serialised values\<close>

record reconcile_command =
  rc_tenant :: string
  rc_period :: string
  rc_resource_type :: string
  rc_resource_id :: string
  rc_meter :: meter
  rc_window_start :: gotime
  rc_window_end :: gotime
  rc_observed :: int

text \<open>
  What the component hands to \<open>json.Marshal\<close>, for the payload of an event or for a fingerprint.
  The JSON text is represented by the value itself; serialisation fails exactly when an instant
  of the value is outside the years 0 to 9999.
\<close>

datatype json_value =
    JDefinition plan_definition
  | JPlanVersion plan_version
  | JStrings "(string \<times> string) list"
  | JQuota quota_contract
  | JQuotaRequest quota_request
  | JUsage usage_event
  | JIntent runtime_intent
  | JReconcile reconcile_command

definition json_time :: "gotime \<Rightarrow> bool" where
  "json_time t \<longleftrightarrow> - 366 * 86400 * Second \<le> t \<and> t < 3652059 * 86400 * Second"

fun json_times :: "json_value \<Rightarrow> gotime list" where
  "json_times (JDefinition d) = [pd_created_at d, pd_updated_at d]"
| "json_times (JPlanVersion p) = [pv_effective_from p, pv_created_at p, pv_updated_at p]"
| "json_times (JStrings _) = []"
| "json_times (JQuota q) = [qc_expires_at q, qc_created_at q, qc_updated_at q]"
| "json_times (JQuotaRequest r) = [qq_expires_at r, qq_at r]"
| "json_times (JUsage e) =
     [ue_occurred_at e, ue_window_start e, ue_window_end e, ue_created_at e]"
| "json_times (JIntent i) = [ri_at i]"
| "json_times (JReconcile c) = [rc_window_start c, rc_window_end c]"

definition Marshal :: "json_value \<Rightarrow> cerror + json_value" where
  "Marshal v =
     (if list_all json_time (json_times v) then Inr v
      else Inl (ErrorString ''Time.MarshalJSON: year outside of range [0,9999]''))"

section \<open>Records\<close>

record commerce_idempotency =
  ci_tenant :: string
  ci_scope :: string
  ci_key :: string
  ci_fingerprint :: string
  ci_resource_id :: string
  ci_created_at :: gotime

record commerce_outbox =
  co_id :: string
  co_tenant :: string
  co_topic :: string
  co_aggregate :: string
  co_payload :: json_value
  co_created_at :: gotime

record commerce_audit =
  cu_id :: string
  cu_tenant :: string
  cu_actor :: string
  cu_action :: string
  cu_resource_type :: string
  cu_resource_id :: string
  cu_data :: json_value
  cu_created_at :: gotime

record reconciliation_alert =
  al_id :: string
  al_tenant :: string
  al_period :: string
  al_meter :: string
  al_resource_id :: string
  al_reason :: string
  al_drift :: int
  al_created_at :: gotime

record commerce_data =
  definitions :: "string \<rightharpoonup> plan_definition"
  versions :: "(string \<times> plan_version) list"
  subscriptions :: "(string \<times> subscription) list"
  periods :: "(string \<times> billing_period) list"
  accounts :: "string \<rightharpoonup> commercial_account"
  quotas :: "(string \<times> quota_reservation) list"
  usage :: "(string \<times> usage_event) list"
  idempotency_records :: "string \<rightharpoonup> commerce_idempotency"
  outbox_log :: "commerce_outbox list"
  audit_log :: "commerce_audit list"
  alerts :: "reconciliation_alert list"

definition newData :: commerce_data where
  "newData = \<lparr>definitions = Map.empty, versions = [], subscriptions = [], periods = [],
              accounts = Map.empty, quotas = [], usage = [], idempotency_records = Map.empty,
              outbox_log = [], audit_log = [], alerts = []\<rparr>"

section \<open>Plans\<close>

definition GetPlanDefinition :: "string \<Rightarrow> commerce_data \<Rightarrow> plan_definition option" where
  "GetPlanDefinition i d = definitions d i"

definition InsertPlanDefinition :: "plan_definition \<Rightarrow> commerce_data \<Rightarrow> cerror + commerce_data" where
  "InsertPlanDefinition v d =
     (case definitions d (pd_id v) of
        Some _ \<Rightarrow> Inl (Err Conflict ''plan definition exists'')
      | None \<Rightarrow> Inr (d\<lparr>definitions := (definitions d)(pd_id v \<mapsto> v)\<rparr>))"

definition UpdatePlanDefinition ::
  "plan_definition \<Rightarrow> int \<Rightarrow> commerce_data \<Rightarrow> cerror + commerce_data" where
  "UpdatePlanDefinition v expected d =
     (case definitions d (pd_id v) of
        None \<Rightarrow> Inl (Err NotFound ''plan definition not found'')
      | Some old \<Rightarrow>
          if pd_version old \<noteq> expected then Inl (Err StaleVersion ''plan definition stale'')
          else Inr (d\<lparr>definitions := (definitions d)(pd_id v \<mapsto> v)\<rparr>))"

definition GetPlanVersion :: "string \<Rightarrow> commerce_data \<Rightarrow> plan_version option" where
  "GetPlanVersion i d = map_of (versions d) i"

definition ListPlanVersions :: "string \<Rightarrow> commerce_data \<Rightarrow> plan_version list" where
  "ListPlanVersions definition d =
     sort_key pv_number (filter (\<lambda>v. pv_definition_id v = definition) (map snd (versions d)))"

definition InsertPlanVersion :: "plan_version \<Rightarrow> commerce_data \<Rightarrow> cerror + commerce_data" where
  "InsertPlanVersion v d =
     (case map_of (versions d) (pv_id v) of
        Some _ \<Rightarrow> Inl (Err Conflict ''plan version exists'')
      | None \<Rightarrow> Inr (d\<lparr>versions := AList.update (pv_id v) v (versions d)\<rparr>))"

definition UpdatePlanVersion :: "plan_version \<Rightarrow> int \<Rightarrow> commerce_data \<Rightarrow> cerror + commerce_data" where
  "UpdatePlanVersion v expected d =
     (case map_of (versions d) (pv_id v) of
        None \<Rightarrow> Inl (Err NotFound ''plan version not found'')
      | Some old \<Rightarrow>
          if pv_version old \<noteq> expected then Inl (Err StaleVersion ''plan version stale'')
          else if pv_state old \<noteq> PlanDraft \<and>
                  (Currency (pv_spec old) \<noteq> Currency (pv_spec v) \<or>
                   pv_policy_version old \<noteq> pv_policy_version v \<or>
                   pv_definition_id old \<noteq> pv_definition_id v \<or> pv_number old \<noteq> pv_number v)
            then Inl (Err Conflict ''active plan immutable'')
          else Inr (d\<lparr>versions := AList.update (pv_id v) v (versions d)\<rparr>))"

section \<open>Subscriptions, billing periods and accounts\<close>

definition GetSubscription :: "string \<Rightarrow> commerce_data \<Rightarrow> subscription option" where
  "GetSubscription i d = map_of (subscriptions d) i"

fun newest_loop ::
  "string \<Rightarrow> subscription option \<Rightarrow> (string \<times> subscription) list \<Rightarrow> subscription option" where
  "newest_loop tenant found [] = found"
| "newest_loop tenant found ((_, v) # rest) =
     (if sub_tenant v = tenant \<and>
         (case found of None \<Rightarrow> True | Some f \<Rightarrow> sub_created_at v > sub_created_at f)
      then newest_loop tenant (Some v) rest else newest_loop tenant found rest)"

definition FindSubscriptionByTenant :: "string \<Rightarrow> commerce_data \<Rightarrow> subscription option" where
  "FindSubscriptionByTenant tenant d = newest_loop tenant None (subscriptions d)"

definition InsertSubscription :: "subscription \<Rightarrow> commerce_data \<Rightarrow> cerror + commerce_data" where
  "InsertSubscription v d =
     (case map_of (subscriptions d) (sub_id v) of
        Some _ \<Rightarrow> Inl (Err Conflict ''subscription exists'')
      | None \<Rightarrow> Inr (d\<lparr>subscriptions := AList.update (sub_id v) v (subscriptions d)\<rparr>))"

definition UpdateSubscription :: "subscription \<Rightarrow> int \<Rightarrow> commerce_data \<Rightarrow> cerror + commerce_data" where
  "UpdateSubscription v expected d =
     (case map_of (subscriptions d) (sub_id v) of
        None \<Rightarrow> Inl (Err NotFound ''subscription not found'')
      | Some old \<Rightarrow>
          if sub_version old \<noteq> expected then Inl (Err StaleVersion ''subscription stale'')
          else Inr (d\<lparr>subscriptions := AList.update (sub_id v) v (subscriptions d)\<rparr>))"

definition GetBillingPeriod :: "string \<Rightarrow> commerce_data \<Rightarrow> billing_period option" where
  "GetBillingPeriod i d = map_of (periods d) i"

definition ListBillingPeriods :: "string \<Rightarrow> commerce_data \<Rightarrow> billing_period list" where
  "ListBillingPeriods tenant d =
     sort_key bp_start (filter (\<lambda>v. bp_tenant v = tenant) (map snd (periods d)))"

definition overlaps :: "billing_period \<Rightarrow> billing_period \<Rightarrow> bool" where
  "overlaps v p \<longleftrightarrow> bp_start v < bp_end p \<and> bp_start p < bp_end v"

definition InsertBillingPeriod :: "billing_period \<Rightarrow> commerce_data \<Rightarrow> cerror + commerce_data" where
  "InsertBillingPeriod v d =
     (case map_of (periods d) (bp_id v) of
        Some _ \<Rightarrow> Inl (Err Conflict ''billing period exists'')
      | None \<Rightarrow>
          if list_ex (\<lambda>(_, p). bp_subscription_id p = bp_subscription_id v \<and> overlaps v p) (periods d)
            then Inl (Err Conflict ''billing periods overlap'')
          else Inr (d\<lparr>periods := AList.update (bp_id v) v (periods d)\<rparr>))"

definition UpdateBillingPeriod :: "billing_period \<Rightarrow> int \<Rightarrow> commerce_data \<Rightarrow> cerror + commerce_data" where
  "UpdateBillingPeriod v expected d =
     (case map_of (periods d) (bp_id v) of
        None \<Rightarrow> Inl (Err NotFound ''billing period not found'')
      | Some old \<Rightarrow>
          if bp_version old \<noteq> expected then Inl (Err StaleVersion ''billing period stale'')
          else Inr (d\<lparr>periods := AList.update (bp_id v) v (periods d)\<rparr>))"

definition GetCommercialAccount :: "string \<Rightarrow> commerce_data \<Rightarrow> commercial_account option" where
  "GetCommercialAccount tenant d = accounts d tenant"

definition InsertCommercialAccount :: "commercial_account \<Rightarrow> commerce_data \<Rightarrow> cerror + commerce_data" where
  "InsertCommercialAccount v d =
     (case accounts d (ca_tenant v) of
        Some _ \<Rightarrow> Inl (Err Conflict ''account exists'')
      | None \<Rightarrow> Inr (d\<lparr>accounts := (accounts d)(ca_tenant v \<mapsto> v)\<rparr>))"

definition UpdateCommercialAccount ::
  "commercial_account \<Rightarrow> int \<Rightarrow> commerce_data \<Rightarrow> cerror + commerce_data" where
  "UpdateCommercialAccount v expected d =
     (case accounts d (ca_tenant v) of
        None \<Rightarrow> Inl (Err NotFound ''account not found'')
      | Some old \<Rightarrow>
          if ca_version old \<noteq> expected then Inl (Err StaleVersion ''account stale'')
          else Inr (d\<lparr>accounts := (accounts d)(ca_tenant v \<mapsto> v)\<rparr>))"

section \<open>Quota reservations\<close>

definition GetQuotaReservation :: "string \<Rightarrow> commerce_data \<Rightarrow> quota_reservation option" where
  "GetQuotaReservation i d = map_of (quotas d) i"

definition FindQuotaReservation :: "string \<Rightarrow> string \<Rightarrow> commerce_data \<Rightarrow> quota_reservation option" where
  "FindQuotaReservation tenant key d =
     List.find (\<lambda>v. qr_tenant v = tenant \<and> qr_key v = key) (map snd (quotas d))"

definition ListQuotaReservations :: "string \<Rightarrow> string \<Rightarrow> commerce_data \<Rightarrow> quota_reservation list" where
  "ListQuotaReservations tenant resource d =
     filter (\<lambda>v. qr_tenant v = tenant \<and> (resource = [] \<or> qr_resource v = resource)) (map snd (quotas d))"

definition InsertQuotaReservation :: "quota_reservation \<Rightarrow> commerce_data \<Rightarrow> cerror + commerce_data" where
  "InsertQuotaReservation v d =
     (case map_of (quotas d) (qr_id v) of
        Some _ \<Rightarrow> Inl (Err Conflict ''quota reservation exists'')
      | None \<Rightarrow>
          (case FindQuotaReservation (qr_tenant v) (qr_key v) d of
             Some _ \<Rightarrow> Inl (Err Conflict ''quota idempotency exists'')
           | None \<Rightarrow> Inr (d\<lparr>quotas := AList.update (qr_id v) v (quotas d)\<rparr>)))"

definition UpdateQuotaReservation ::
  "quota_reservation \<Rightarrow> int \<Rightarrow> commerce_data \<Rightarrow> cerror + commerce_data" where
  "UpdateQuotaReservation v expected d =
     (case map_of (quotas d) (qr_id v) of
        None \<Rightarrow> Inl (Err NotFound ''quota reservation not found'')
      | Some old \<Rightarrow>
          if qr_version old \<noteq> expected then Inl (Err StaleVersion ''quota reservation stale'')
          else Inr (d\<lparr>quotas := AList.update (qr_id v) v (quotas d)\<rparr>))"

section \<open>Usage, idempotency and the logs\<close>

definition usageKey :: "string \<Rightarrow> string \<Rightarrow> string" where
  "usageKey tenant key = tenant @ [CHR 0x00] @ key"

definition FindUsageByKey :: "string \<Rightarrow> string \<Rightarrow> commerce_data \<Rightarrow> usage_event option" where
  "FindUsageByKey tenant key d = map_of (usage d) (usageKey tenant key)"

definition ListUsage :: "string \<Rightarrow> string \<Rightarrow> commerce_data \<Rightarrow> usage_event list" where
  "ListUsage tenant period d =
     sort_key (\<lambda>v. (ue_occurred_at v, ue_id v))
       (filter (\<lambda>v. ue_tenant v = tenant \<and> (period = [] \<or> ue_period v = period)) (map snd (usage d)))"

definition InsertUsage :: "usage_event \<Rightarrow> commerce_data \<Rightarrow> cerror + commerce_data" where
  "InsertUsage v d =
     (let k = usageKey (ue_tenant v) (ue_key v) in
      case map_of (usage d) k of
        Some _ \<Rightarrow> Inl (Err Conflict ''usage key exists'')
      | None \<Rightarrow> Inr (d\<lparr>usage := AList.update k v (usage d)\<rparr>))"

definition idemKey :: "string \<Rightarrow> string \<Rightarrow> string \<Rightarrow> string" where
  "idemKey tenant scope key = tenant @ [CHR 0x00] @ scope @ [CHR 0x00] @ key"

definition Commerce_GetIdempotency ::
  "string \<Rightarrow> string \<Rightarrow> string \<Rightarrow> commerce_data \<Rightarrow> commerce_idempotency option" where
  "Commerce_GetIdempotency tenant scope key d = idempotency_records d (idemKey tenant scope key)"

definition InsertIdempotency :: "commerce_idempotency \<Rightarrow> commerce_data \<Rightarrow> cerror + commerce_data" where
  "InsertIdempotency v d =
     (let k = idemKey (ci_tenant v) (ci_scope v) (ci_key v) in
      case idempotency_records d k of
        Some _ \<Rightarrow> Inl (Err Conflict ''idempotency exists'')
      | None \<Rightarrow> Inr (d\<lparr>idempotency_records := (idempotency_records d)(k \<mapsto> v)\<rparr>))"

definition Commerce_AppendOutbox :: "commerce_outbox \<Rightarrow> commerce_data \<Rightarrow> cerror + commerce_data" where
  "Commerce_AppendOutbox v d = Inr (d\<lparr>outbox_log := outbox_log d @ [v]\<rparr>)"

definition Commerce_AppendAudit :: "commerce_audit \<Rightarrow> commerce_data \<Rightarrow> cerror + commerce_data" where
  "Commerce_AppendAudit v d = Inr (d\<lparr>audit_log := audit_log d @ [v]\<rparr>)"

definition AppendAlert :: "reconciliation_alert \<Rightarrow> commerce_data \<Rightarrow> cerror + commerce_data" where
  "AppendAlert v d = Inr (d\<lparr>alerts := alerts d @ [v]\<rparr>)"

definition ListAlerts :: "string \<Rightarrow> string \<Rightarrow> commerce_data \<Rightarrow> reconciliation_alert list" where
  "ListAlerts tenant period d =
     filter (\<lambda>v. al_tenant v = tenant \<and> (period = [] \<or> al_period v = period)) (alerts d)"

section \<open>What every table promises\<close>

interpretation plan_definitions: versioned_store
  "\<lambda>d i. GetPlanDefinition i d" InsertPlanDefinition UpdatePlanDefinition pd_id pd_version
  by unfold_locales (auto simp: GetPlanDefinition_def InsertPlanDefinition_def UpdatePlanDefinition_def
      split: option.splits if_splits)

interpretation plan_versions: versioned_store
  "\<lambda>d i. GetPlanVersion i d" InsertPlanVersion UpdatePlanVersion pv_id pv_version
  by unfold_locales (auto simp: GetPlanVersion_def InsertPlanVersion_def UpdatePlanVersion_def
      split: option.splits if_splits)

interpretation tenant_subscriptions: versioned_store
  "\<lambda>d i. GetSubscription i d" InsertSubscription UpdateSubscription sub_id sub_version
  by unfold_locales (auto simp: GetSubscription_def InsertSubscription_def UpdateSubscription_def
      split: option.splits if_splits)

interpretation billing_periods: versioned_store
  "\<lambda>d i. GetBillingPeriod i d" InsertBillingPeriod UpdateBillingPeriod bp_id bp_version
  by unfold_locales (auto simp: GetBillingPeriod_def InsertBillingPeriod_def UpdateBillingPeriod_def
      split: option.splits if_splits)

interpretation commercial_accounts: versioned_store
  "\<lambda>d i. GetCommercialAccount i d" InsertCommercialAccount UpdateCommercialAccount ca_tenant ca_version
  by unfold_locales (auto simp: GetCommercialAccount_def InsertCommercialAccount_def
      UpdateCommercialAccount_def split: option.splits if_splits)

interpretation quota_reservations: versioned_store
  "\<lambda>d i. GetQuotaReservation i d" InsertQuotaReservation UpdateQuotaReservation qr_id qr_version
  by unfold_locales (auto simp: GetQuotaReservation_def InsertQuotaReservation_def
      UpdateQuotaReservation_def split: option.splits if_splits)

end
