(* ===== verification/Commerce_Runtime.thy ===== *)
theory Commerce_Runtime
  imports Commerce_Store
begin

text \<open>
  What the commerce service runs on: the fields of \<open>Service\<close> in
  \<open>internal/commerce/application/ports.go\<close>, \<open>Transact\<close> of \<open>internal/commerce/memory/store.go\<close>,
  and the journal entry that every change writes.
\<close>

section \<open>The service\<close>

text \<open>
  The fields of the service and of the call: the tables of package \<open>unicode\<close>, whether the
  service and its store are there, the hexadecimal SHA-256 of the JSON text of a value (of no
  text when serialisation fails), the identifier generator when there is one, the clock, the
  ownership service when there is one, the alert threshold, and the error of the context.
\<close>

record cenv =
  cv_unicode :: unicode
  cv_store :: bool
  cv_hash :: "json_value option \<Rightarrow> string"
  cv_ids :: "(nat \<Rightarrow> string \<Rightarrow> string) option"
  cv_clock :: "nat \<Rightarrow> gotime"
  cv_ownership :: "(string \<Rightarrow> string \<Rightarrow> string \<Rightarrow> cerror + bool) option"
  cv_threshold :: int
  cv_ctx :: "cerror option"

type_synonym cworld = "commerce_data world"

type_synonym 'a cact = "(commerce_data, cerror, 'a) tx"

definition require_store :: "cenv \<Rightarrow> unit cact" where
  "require_store env =
     (if cv_store env then ret () else throw (Err Unavailable ''commerce store is unavailable''))"

definition service_now :: "cenv \<Rightarrow> gotime cact" where
  "service_now env = (\<lambda>w. (Inr (cv_clock env (clk_seq w)), w\<lparr>clk_seq := clk_seq w + 1\<rparr>))"

definition newID :: "cenv \<Rightarrow> string \<Rightarrow> string cact" where
  "newID env prefix =
     (case cv_ids env of
        None \<Rightarrow> ret (prefix @ ''-generated'')
      | Some ids \<Rightarrow> (\<lambda>w. (Inr (ids (id_seq w) prefix), w\<lparr>id_seq := id_seq w + 1\<rparr>)))"

text \<open>Without an ownership service, \<open>DenyAllOwnership\<close> answers.\<close>

definition Owns :: "cenv \<Rightarrow> string \<Rightarrow> string \<Rightarrow> string \<Rightarrow> cerror + bool" where
  "Owns env tenant resourceType resourceID =
     (case cv_ownership env of None \<Rightarrow> Inr False | Some owns \<Rightarrow> owns tenant resourceType resourceID)"

definition fingerprint :: "cenv \<Rightarrow> json_value \<Rightarrow> string" where
  "fingerprint env v = cv_hash env (case Marshal v of Inl _ \<Rightarrow> None | Inr raw \<Rightarrow> Some raw)"

text \<open>
  \<open>Transact\<close> looks at the context once, runs the function on a copy of the data and keeps the
  copy when the function returns no error.
\<close>

definition Commerce_Transact :: "cenv \<Rightarrow> 'a cact \<Rightarrow> 'a cact" where
  "Commerce_Transact env fn = (\<lambda>w.
     case cv_ctx env of
       Some e \<Rightarrow> (Inl e, w)
     | None \<Rightarrow> (case fn w of (Inl e, w') \<Rightarrow> (Inl e, w'\<lparr>db := db w\<rparr>) | (Inr a, w') \<Rightarrow> (Inr a, w')))"

text \<open>The method \<open>record\<close>: one event and one audit entry with the same payload.\<close>

definition record_change :: "cenv \<Rightarrow> string \<Rightarrow> string \<Rightarrow> string \<Rightarrow> json_value \<Rightarrow> unit cact" where
  "record_change env tenant topic aggregate payload =
     (case Marshal payload of
        Inl e \<Rightarrow> throw (Wrap Internal ''event serialization failed'' e)
      | Inr raw \<Rightarrow>
          bindE (service_now env) (\<lambda>now.
          bindE (newID env ''evt'') (\<lambda>evt.
          seqE (tx_write (Commerce_AppendOutbox
            \<lparr>co_id = evt, co_tenant = tenant, co_topic = topic, co_aggregate = aggregate,
             co_payload = raw, co_created_at = now\<rparr>))
          (bindE (newID env ''audit'') (\<lambda>aid.
            tx_write (Commerce_AppendAudit
              \<lparr>cu_id = aid, cu_tenant = tenant, cu_actor = ''system'', cu_action = topic,
               cu_resource_type = ''commerce'', cu_resource_id = aggregate, cu_data = raw,
               cu_created_at = now\<rparr>))))))"

lemma service_now_run [act_simps]:
  "service_now env w = (Inr (cv_clock env (clk_seq w)), w\<lparr>clk_seq := clk_seq w + 1\<rparr>)"
  by (simp add: service_now_def)

section \<open>Reasoning about transactions\<close>

lemma triple_bind_now: "(\<And>t. triple P (k t) Q) \<Longrightarrow> triple P (bindE (service_now env) k) Q"
  by (rule triple_bind[where R = "\<lambda>_. P"]) (auto simp: triple_def service_now_def)

lemma newID_db: "newID env prefix w = (Inr a, w') \<Longrightarrow> db w' = db w"
  by (auto simp: newID_def ret_def split: option.splits)

lemma triple_bind_newID: "(\<And>i. triple P (k i) Q) \<Longrightarrow> triple P (bindE (newID env prefix) k) Q"
  by (rule triple_bind[where R = "\<lambda>_. P"]) (auto simp: triple_def dest: newID_db)

text \<open>The journal: an event and an audit entry that tell the same story.\<close>

definition same_story :: "commerce_outbox \<Rightarrow> commerce_audit \<Rightarrow> bool" where
  "same_story ev au \<longleftrightarrow>
     cu_tenant au = co_tenant ev \<and> cu_action au = co_topic ev \<and>
     cu_resource_id au = co_aggregate ev \<and> cu_data au = co_payload ev \<and>
     cu_created_at au = co_created_at ev"

definition journaled ::
  "string \<Rightarrow> string \<Rightarrow> string \<Rightarrow> json_value \<Rightarrow> commerce_data \<Rightarrow> commerce_data \<Rightarrow> bool" where
  "journaled tenant topic aggregate payload d d' \<longleftrightarrow>
     (\<exists>ev au. d' = d\<lparr>outbox_log := outbox_log d @ [ev], audit_log := audit_log d @ [au]\<rparr> \<and>
        same_story ev au \<and> co_tenant ev = tenant \<and> co_topic ev = topic \<and>
        co_aggregate ev = aggregate \<and> co_payload ev = payload)"

lemma journaledI:
  "same_story ev au \<Longrightarrow> co_tenant ev = tenant \<Longrightarrow> co_topic ev = topic \<Longrightarrow> co_aggregate ev = aggregate \<Longrightarrow>
   co_payload ev = payload \<Longrightarrow>
   journaled tenant topic aggregate payload d
     (d\<lparr>outbox_log := outbox_log d @ [ev], audit_log := audit_log d @ [au]\<rparr>)"
  unfolding journaled_def by blast

lemma triple_record:
  assumes "\<And>d d'. P d \<Longrightarrow> journaled tenant topic aggregate payload d d' \<Longrightarrow> Q d'"
  shows "triple P (record_change env tenant topic aggregate payload) (\<lambda>_. Q)"
proof (cases "Marshal payload")
  case (Inl e)
  then show ?thesis by (simp add: record_change_def triple_throw)
next
  case (Inr raw)
  then have raw: "raw = payload" by (simp add: Marshal_def split: if_splits)
  show ?thesis
    unfolding triple_def
  proof (intro allI impI)
    fix w :: cworld and a w' assume "P (db w)"
      and "record_change env tenant topic aggregate payload w = (Inr a, w')"
    with Inr raw have "journaled tenant topic aggregate payload (db w) (db w')"
      by (auto simp: record_change_def same_story_def seqE_def service_now_def
          tx_write_def Commerce_AppendOutbox_def Commerce_AppendAudit_def
          dest!: newID_db intro!: journaledI)
    with \<open>P (db w)\<close> assms show "Q (db w')" by blast
  qed
qed

lemma triple_Transact:
  "triple P fn Q \<Longrightarrow> triple P (Commerce_Transact env fn) Q"
  by (auto simp: triple_def Commerce_Transact_def split: option.splits prod.splits sum.splits)

lemma Transact_keeps_on_error:
  "Commerce_Transact env fn w = (Inl e, w') \<Longrightarrow> db w' = db w"
  by (auto simp: Commerce_Transact_def split: option.splits prod.splits sum.splits)

lemma Commerce_Transact_Inr:
  "Commerce_Transact env fn w = (Inr a, w') \<longleftrightarrow> cv_ctx env = None \<and> fn w = (Inr a, w')"
  by (auto simp: Commerce_Transact_def split: option.splits prod.splits sum.splits)

section \<open>Operations of the service\<close>

text \<open>
  \<open>service R m\<close>: a call of \<open>m\<close> leaves the store as it is or changes it by \<open>R\<close>, and it leaves it
  when it returns an error. Operations are such calls because they write in one transaction.
\<close>

definition service :: "(commerce_data \<Rightarrow> commerce_data \<Rightarrow> bool) \<Rightarrow> 'a cact \<Rightarrow> bool" where
  "service R m \<longleftrightarrow>
     (\<forall>w. case m w of
        (Inl _, w') \<Rightarrow> db w' = db w
      | (Inr _, w') \<Rightarrow> db w' = db w \<or> R (db w) (db w'))"

lemma serviceI:
  "(\<And>w e w'. m w = (Inl e, w') \<Longrightarrow> db w' = db w) \<Longrightarrow>
   (\<And>w a w'. m w = (Inr a, w') \<Longrightarrow> db w' = db w \<or> R (db w) (db w')) \<Longrightarrow> service R m"
  by (auto simp: service_def split: prod.split sum.split)

lemma service_error: "service R m \<Longrightarrow> m w = (Inl e, w') \<Longrightarrow> db w' = db w"
  unfolding service_def by (drule spec[of _ w]) simp

lemma service_change: "service R m \<Longrightarrow> m w = (Inr a, w') \<Longrightarrow> db w' = db w \<or> R (db w) (db w')"
  unfolding service_def by (drule spec[of _ w]) simp

lemma serviceD: "service R m \<Longrightarrow> db (snd (m w)) = db w \<or> R (db w) (db (snd (m w)))"
  by (cases "m w"; cases "fst (m w)") (auto dest: service_error service_change)

lemma service_Transact:
  assumes "\<And>d0. triple (\<lambda>d. d = d0) fn (\<lambda>_ d. d = d0 \<or> R d0 d)"
  shows "service R (Commerce_Transact env fn)"
proof (rule serviceI)
  fix w a w' assume "Commerce_Transact env fn w = (Inr a, w')"
  then have "fn w = (Inr a, w')" by (simp add: Commerce_Transact_Inr)
  with assms[of "db w"] show "db w' = db w \<or> R (db w) (db w')" by (auto dest: tripleD)
qed (rule Transact_keeps_on_error)

text \<open>Steps before and after the transaction that do not touch the store.\<close>

lemma service_ret: "service R (ret a)"
  by (simp add: service_def ret_def)

lemma service_throw: "service R (throw e)"
  by (simp add: service_def throw_def)

lemma service_bind_now:
  assumes "\<And>t. service R (k t)"
  shows "service R (bindE (service_now env) k)"
proof (rule serviceI)
  fix w e w' assume "bindE (service_now env) k w = (Inl e, w')"
  then show "db w' = db w" by (auto simp: service_now_def bindE_def dest: service_error[OF assms])
next
  fix w a w' assume "bindE (service_now env) k w = (Inr a, w')"
  then show "db w' = db w \<or> R (db w) (db w')"
    by (auto simp: service_now_def dest: service_change[OF assms])
qed

lemma service_bind_result: "(\<And>a. r = Inr a \<Longrightarrow> service R (k a)) \<Longrightarrow> service R (bindE (of_result r) k)"
  by (cases r) (auto simp: service_def bindE_def of_result_def)

lemma service_require: "service R k \<Longrightarrow> service R (seqE (require_store env) k)"
  by (auto simp: service_def seqE_def require_store_def ret_def throw_def bindE_def)

lemma service_bind_ret:
  assumes "service R m"
  shows "service R (bindE m (\<lambda>a. ret (f a)))"
proof (rule serviceI)
  fix w e w' assume "bindE m (\<lambda>a. ret (f a)) w = (Inl e, w')"
  then show "db w' = db w"
    by (auto simp: bindE_def ret_def dest: service_error[OF assms] split: prod.splits sum.splits)
next
  fix w a w' assume "bindE m (\<lambda>a. ret (f a)) w = (Inr a, w')"
  then show "db w' = db w \<or> R (db w) (db w')" by (auto simp: ret_def dest: service_change[OF assms])
qed

lemma service_if: "(b \<Longrightarrow> service R m) \<Longrightarrow> (\<not> b \<Longrightarrow> service R k) \<Longrightarrow> service R (if b then m else k)"
  by simp

lemma service_let: "(\<And>x. x = e \<Longrightarrow> service R (k x)) \<Longrightarrow> service R (let x = e in k x)"
  by (simp add: Let_def)

end
