(* ===== verification/Commerce_Arith.thy ===== *)
theory Commerce_Arith
  imports Commerce_Domain
begin

text \<open>
  The arithmetic of \<open>internal/commerce/application/service.go\<close>: checked sums on \<open>int64\<close> and
  the rating of a quantity.
\<close>

section \<open>Checked arithmetic\<close>

definition min64 :: "int \<Rightarrow> int \<Rightarrow> int" where
  "min64 a b = (if a < b then a else b)"

definition max64 :: "int \<Rightarrow> int \<Rightarrow> int" where
  "max64 a b = (if a > b then a else b)"

definition safeAdd :: "int \<Rightarrow> int \<Rightarrow> int option" where
  "safeAdd a b =
     (if b > 0 \<and> a > sub64 MaxInt64 b then None
      else if b < 0 \<and> a < sub64 MinInt64 b then None
      else Some (add64 a b))"

definition safeSub :: "int \<Rightarrow> int \<Rightarrow> int option" where
  "safeSub a b =
     (if b = MinInt64 then (if a \<ge> 0 then None else Some (sub64 a b))
      else safeAdd a (sub64 0 b))"

definition abs64 :: "int \<Rightarrow> int" where
  "abs64 v = (if v = MinInt64 then MaxInt64 else if v < 0 then sub64 0 v else v)"

lemma min64_min [simp]: "min64 a b = min a b"
  by (simp add: min64_def min_def)

lemma max64_max [simp]: "max64 a b = max a b"
  by (simp add: max64_def max_def)

lemma safeAdd_exact:
  assumes "int64 a" and "int64 b"
  shows "safeAdd a b = (if int64 (a + b) then Some (a + b) else None)"
proof -
  have "b > 0 \<Longrightarrow> sub64 MaxInt64 b = MaxInt64 - b" and "b < 0 \<Longrightarrow> sub64 MinInt64 b = MinInt64 - b"
    using assms by (auto intro!: wrap64_id simp: int64_defs)
  moreover have "add64 a b = a + b" if "int64 (a + b)" using that by (rule wrap64_id)
  moreover have "int64 (a + b) \<longleftrightarrow> \<not> (b > 0 \<and> a > MaxInt64 - b) \<and> \<not> (b < 0 \<and> a < MinInt64 - b)"
    using assms by (auto simp: int64_def)
  ultimately show ?thesis by (auto simp: safeAdd_def)
qed

lemma safeSub_exact:
  assumes a: "int64 a" and b: "int64 b"
  shows "safeSub a b = (if int64 (a - b) then Some (a - b) else None)"
proof (cases "b = MinInt64")
  case True
  with a have "int64 (a - b) \<longleftrightarrow> a < 0" by (auto simp: int64_defs)
  with True show ?thesis by (auto simp: safeSub_def intro: wrap64_id)
next
  case False
  with b have n: "int64 (- b)" by (auto simp: int64_defs)
  then have "sub64 0 b = - b" by (simp add: wrap64_id)
  with False safeAdd_exact[OF a n] show ?thesis by (simp add: safeSub_def)
qed

lemma safeAdd_int64: "safeAdd a b = Some c \<Longrightarrow> int64 c"
  by (auto simp: safeAdd_def split: if_splits)

lemma safeSub_int64: "safeSub a b = Some c \<Longrightarrow> int64 c"
  by (auto simp: safeSub_def dest: safeAdd_int64 split: if_splits)

lemma abs64_exact: "int64 v \<Longrightarrow> abs64 v = (if v = MinInt64 then MaxInt64 else \<bar>v\<bar>)"
proof -
  assume v: "int64 v"
  show ?thesis
  proof (cases "v < 0 \<and> v \<noteq> MinInt64")
    case True
    with v have "int64 (- v)" by (auto simp: int64_defs)
    with True show ?thesis by (simp add: abs64_def wrap64_id)
  next
    case False
    then show ?thesis by (auto simp: abs64_def)
  qed
qed

text \<open>A running sum, as the loops over the ledger keep it.\<close>

fun sum64 :: "int \<Rightarrow> int list \<Rightarrow> int option" where
  "sum64 acc [] = Some acc"
| "sum64 acc (x # xs) = (case safeAdd acc x of None \<Rightarrow> None | Some next \<Rightarrow> sum64 next xs)"

lemma sum64_Some:
  "int64 acc \<Longrightarrow> \<forall>x\<in>set xs. int64 x \<Longrightarrow> sum64 acc xs = Some s \<Longrightarrow> s = acc + sum_list xs \<and> int64 s"
proof (induction xs arbitrary: acc)
  case (Cons x xs)
  then have "int64 (acc + x)" and "sum64 (acc + x) xs = Some s"
    by (auto simp: safeAdd_exact split: if_splits)
  with Cons.IH[of "acc + x"] Cons.prems(2) show ?case by (simp only: list.set sum_list_simps) auto
qed simp

section \<open>Rating\<close>

definition RateQuantity :: "int \<Rightarrow> price \<Rightarrow> cerror + int" where
  "RateQuantity quantity price =
     (case Price_Validate price of
        Inl e \<Rightarrow> Inl (Wrap InvalidArgument ''price is invalid'' e)
      | Inr _ \<Rightarrow>
          (let n = quantity * MinorUnits price;
               negative = n < 0;
               n = (if negative then \<bar>n\<bar> else n);
               d = PerQuantity price;
               half = quo d 2;
               n = quo (n + half) d;
               n = (if negative then - n else n)
           in if \<not> int64 n then Inl (Err Overflow ''rated amount overflow'') else Inr n))"

end
