(* ===== verification/Commerce_Metering.thy ===== *)
theory Commerce_Metering
  imports Commerce_Arith
begin

text \<open>
  \<open>CalculateRuntimeUnitSeconds\<close> of \<open>internal/commerce/application/service.go\<close>: the unit
  seconds that a sequence of runtime observations amounts to in a window. The code sorts,
  removes duplicate instants and walks over segments; it is compared with a sum over the
  stretches between two changes and, for whole seconds, over the single seconds of the window.
\<close>

section \<open>The code\<close>

definition clampObservation :: "runtime_observation \<Rightarrow> runtime_observation" where
  "clampObservation o1 =
     (let o2 = (if ro_replicas o1 < 0 then o1\<lparr>ro_replicas := 0\<rparr> else o1)
      in if ro_unit_weight o2 < 0 then o2\<lparr>ro_unit_weight := 0\<rparr> else o2)"

text \<open>The stable sort by instant, then by index in the input.\<close>

definition indexed_sort :: "runtime_observation list \<Rightarrow> runtime_observation list" where
  "indexed_sort obs =
     map fst (sort_key (\<lambda>(ob, i). (ro_at ob, i)) (zip (map clampObservation obs) [0..<length obs]))"

fun dedup_loop :: "runtime_observation list \<Rightarrow> runtime_observation list \<Rightarrow> runtime_observation list" where
  "dedup_loop acc [] = acc"
| "dedup_loop acc (ob # obs) =
     (if acc \<noteq> [] \<and> ro_at (last acc) = ro_at ob then dedup_loop (butlast acc @ [ob]) obs
      else dedup_loop (acc @ [ob]) obs)"

fun skip_loop ::
  "gotime \<Rightarrow> runtime_observation \<Rightarrow> runtime_observation list \<Rightarrow>
   runtime_observation \<times> runtime_observation list" where
  "skip_loop start current [] = (current, [])"
| "skip_loop start current (ob # obs) =
     (if \<not> ro_at ob > start then skip_loop start ob obs else (current, ob # obs))"

text \<open>The closure \<open>add\<close> changes the cursor and the total.\<close>

definition add_until ::
  "gotime \<Rightarrow> runtime_observation \<Rightarrow> gotime \<Rightarrow> gotime \<times> int \<Rightarrow> gotime \<times> int" where
  "add_until stop current until0 = (\<lambda>(cursor, tot).
     let until = (if until0 > stop then stop else until0) in
     if \<not> until > cursor then (cursor, tot)
     else (until,
       if \<not> ro_suspended current \<and> ro_replicas current > 0 \<and> ro_unit_weight current > 0
       then tot + quo (time_Sub until cursor) Second * ro_replicas current * ro_unit_weight current
       else tot))"

fun walk_loop ::
  "gotime \<Rightarrow> runtime_observation \<Rightarrow> runtime_observation list \<Rightarrow> gotime \<times> int \<Rightarrow>
   runtime_observation \<times> gotime \<times> int" where
  "walk_loop stop current [] st = (current, st)"
| "walk_loop stop current (ob # obs) st =
     (if ro_at ob < stop then
        walk_loop stop ob obs (if ro_at ob > fst st then add_until stop current (ro_at ob) st else st)
      else (current, st))"

definition CalculateRuntimeUnitSeconds ::
  "runtime_observation list \<Rightarrow> gotime \<Rightarrow> gotime \<Rightarrow> int" where
  "CalculateRuntimeUnitSeconds observations start stop =
     (if \<not> start < stop then 0
      else
        (let dedup = dedup_loop [] (indexed_sort observations);
             zero = \<lparr>ro_at = start, ro_replicas = 0, ro_unit_weight = 0, ro_suspended = False\<rparr>;
             (current, rest) = skip_loop start zero dedup;
             (current, st) = walk_loop stop current rest (start, 0);
             tot = snd (add_until stop current stop st)
         in if \<not> int64 tot then MaxInt64 else tot))"

section \<open>The reference\<close>

text \<open>
  The observation in force at an instant is the latest one made by then; of several with the same
  instant the last of the input counts. Its rate is the number of units per second.
\<close>

fun in_force :: "gotime \<Rightarrow> runtime_observation option \<Rightarrow> runtime_observation list \<Rightarrow> runtime_observation option" where
  "in_force t best [] = best"
| "in_force t best (ob # obs) =
     (if ro_at ob \<le> t \<and> (case best of None \<Rightarrow> True | Some b \<Rightarrow> ro_at b \<le> ro_at ob)
      then in_force t (Some ob) obs else in_force t best obs)"

definition unit_rate :: "runtime_observation option \<Rightarrow> int" where
  "unit_rate ob =
     (case ob of None \<Rightarrow> 0
      | Some b \<Rightarrow> if ro_suspended b then 0 else max 0 (ro_replicas b) * max 0 (ro_unit_weight b))"

text \<open>The sum over the seconds of the window of the rate at the start of each second.\<close>

definition unit_seconds :: "runtime_observation list \<Rightarrow> gotime \<Rightarrow> nat \<Rightarrow> int" where
  "unit_seconds obs start n =
     (\<Sum>k<n. unit_rate (in_force (start + int k * Second) None obs))"

section \<open>The latest observation in a sorted list\<close>

definition last_by :: "gotime \<Rightarrow> runtime_observation list \<Rightarrow> runtime_observation option" where
  "last_by t obs =
     (let os = filter (\<lambda>ob. ro_at ob \<le> t) obs in if os = [] then None else Some (last os))"

lemma last_by_snoc [simp]:
  "last_by t (obs @ [ob]) = (if ro_at ob \<le> t then Some ob else last_by t obs)"
  by (simp add: last_by_def)

lemma last_by_Nil [simp]: "last_by t [] = None"
  by (simp add: last_by_def)

lemma last_by_append:
  "last_by t (xs @ ys) = (case last_by t ys of None \<Rightarrow> last_by t xs | Some ob \<Rightarrow> Some ob)"
  by (simp add: last_by_def Let_def)

lemma last_by_Cons:
  "last_by t (ob # obs) =
     (case last_by t obs of None \<Rightarrow> if ro_at ob \<le> t then Some ob else None | Some b \<Rightarrow> Some b)"
  using last_by_append[of t "[ob]" obs] by (simp add: last_by_def[of t "[ob]"] split: option.splits)

text \<open>
  In terms of the keys by which the code sorts: the observation in force is the one whose key
  is the greatest among those made by then.
\<close>

definition keyed :: "runtime_observation list \<Rightarrow> (runtime_observation \<times> nat) list" where
  "keyed obs = zip obs [0..<length obs]"

abbreviation obs_key :: "runtime_observation \<times> nat \<Rightarrow> gotime \<times> nat" where
  "obs_key \<equiv> \<lambda>(ob, i). (ro_at ob, i)"

lemma keyed_snoc: "keyed (obs @ [ob]) = keyed obs @ [(ob, length obs)]"
  by (simp add: keyed_def)

lemma keyed_index: "(ob, i) \<in> set (keyed obs) \<Longrightarrow> i < length obs"
  by (auto simp: keyed_def dest: set_zip_rightD)

lemma in_force_snoc:
  "in_force t best (obs @ [ob]) =
     (if ro_at ob \<le> t \<and> (case in_force t best obs of None \<Rightarrow> True | Some b \<Rightarrow> ro_at b \<le> ro_at ob)
      then Some ob else in_force t best obs)"
  by (induction obs arbitrary: best) auto

definition greatest_by :: "gotime \<Rightarrow> (runtime_observation \<times> nat) set \<Rightarrow> runtime_observation \<times> nat \<Rightarrow> bool" where
  "greatest_by t K e \<longleftrightarrow> e \<in> K \<and> ro_at (fst e) \<le> t \<and>
     (\<forall>e'\<in>K. ro_at (fst e') \<le> t \<longrightarrow> obs_key e' \<le> obs_key e)"

lemma in_force_greatest:
  "case in_force t None obs of
     None \<Rightarrow> \<forall>e\<in>set (keyed obs). \<not> ro_at (fst e) \<le> t
   | Some b \<Rightarrow> \<exists>i. greatest_by t (set (keyed obs)) (b, i)"
proof (induction obs rule: rev_induct)
  case Nil
  then show ?case by (simp add: keyed_def)
next
  case (snoc ob obs)
  show ?case
  proof (cases "in_force t None obs")
    case None
    with snoc show ?thesis
      by (auto simp: in_force_snoc keyed_snoc greatest_by_def)
  next
    case (Some b)
    with snoc obtain i where g: "greatest_by t (set (keyed obs)) (b, i)" by auto
    then have i: "i < length obs" by (auto simp: greatest_by_def intro: keyed_index)
    show ?thesis
    proof (cases "ro_at ob \<le> t \<and> ro_at b \<le> ro_at ob")
      case True
      have "greatest_by t (set (keyed (obs @ [ob]))) (ob, length obs)"
        unfolding greatest_by_def
      proof (intro conjI ballI impI)
        fix e' assume "e' \<in> set (keyed (obs @ [ob]))" and "ro_at (fst e') \<le> t"
        with g have "e' = (ob, length obs) \<or> obs_key e' \<le> (ro_at b, i)"
          by (auto simp: keyed_snoc greatest_by_def)
        with True i show "obs_key e' \<le> obs_key (ob, length obs)"
          by (auto simp: less_eq_prod_def split: prod.splits)
      qed (use True in \<open>auto simp: keyed_snoc\<close>)
      with True Some show ?thesis by (auto simp: in_force_snoc)
    next
      case False
      with g have "greatest_by t (set (keyed (obs @ [ob]))) (b, i)"
        by (auto simp: greatest_by_def keyed_snoc)
      with False Some show ?thesis by (auto simp: in_force_snoc)
    qed
  qed
qed

lemma last_by_map_fst:
  "last_by t (map fst es) =
     (let ts = filter (\<lambda>e. ro_at (fst e) \<le> t) es in if ts = [] then None else Some (fst (last ts)))"
  by (simp add: last_by_def filter_map comp_def last_map Let_def)

lemma sorted_last_greatest:
  assumes "sorted (map obs_key es)" and "filter (\<lambda>e. ro_at (fst e) \<le> t) es \<noteq> []"
  shows "greatest_by t (set es) (last (filter (\<lambda>e. ro_at (fst e) \<le> t) es))"
proof -
  let ?f = "filter (\<lambda>e. ro_at (fst e) \<le> t) es"
  have s: "sorted (map obs_key ?f)" using assms(1) by (rule sorted_filter)
  have "obs_key e \<le> obs_key (last ?f)" if "e \<in> set ?f" for e
  proof -
    obtain xs x where xs: "?f = xs @ [x]" using assms(2) by (cases ?f rule: rev_cases) auto
    then have "e \<in> set xs \<or> e = x" using that by (metis Un_iff empty_iff empty_set insert_iff list.set(2) set_append)
    moreover have "sorted (map obs_key (xs @ [x]))" using s unfolding xs .
    ultimately have "obs_key e \<le> obs_key x" by (auto simp: sorted_append)
    then show ?thesis unfolding xs by simp
  qed
  moreover have "last ?f \<in> set es \<and> ro_at (fst (last ?f)) \<le> t"
    using last_in_set[OF assms(2)] by simp
  ultimately show ?thesis unfolding greatest_by_def by simp
qed

lemma keyed_unique: "(a, i) \<in> set (keyed obs) \<Longrightarrow> (b, i) \<in> set (keyed obs) \<Longrightarrow> a = b"
  by (auto simp: keyed_def in_set_zip)

lemma greatest_by_unique:
  "greatest_by t (set (keyed obs)) (a, i) \<Longrightarrow> greatest_by t (set (keyed obs)) (b, j) \<Longrightarrow> a = b"
  unfolding greatest_by_def by (metis (no_types, lifting) antisym case_prod_conv fst_conv keyed_unique prod.inject)

lemma indexed_sort_keyed:
  "indexed_sort obs = map fst (sort_key obs_key (keyed (map clampObservation obs)))"
  by (simp add: indexed_sort_def keyed_def)

lemma last_by_indexed_sort:
  "last_by t (indexed_sort obs) = in_force t None (map clampObservation obs)"
proof -
  let ?c = "map clampObservation obs"
  let ?s = "sort_key obs_key (keyed ?c)"
  show ?thesis
  proof (cases "filter (\<lambda>e. ro_at (fst e) \<le> t) ?s = []")
    case True
    then have "in_force t None ?c = None"
      using in_force_greatest[of ?c t]
      by (auto simp: filter_empty_conv greatest_by_def split: option.splits)
    with True show ?thesis by (simp add: indexed_sort_keyed last_by_map_fst)
  next
    case False
    have "greatest_by t (set (keyed ?c)) (last (filter (\<lambda>e. ro_at (fst e) \<le> t) ?s))"
      using sorted_last_greatest[OF _ False] by simp
    then obtain b i where l: "last (filter (\<lambda>e. ro_at (fst e) \<le> t) ?s) = (b, i)"
      and g: "greatest_by t (set (keyed ?c)) (b, i)" by (metis surj_pair)
    then obtain a where "in_force t None ?c = Some a"
      using in_force_greatest[of ?c t] by (auto simp: greatest_by_def split: option.splits)
    with in_force_greatest[of ?c t] g greatest_by_unique have "in_force t None ?c = Some b" by fastforce
    with False l show ?thesis by (simp add: indexed_sort_keyed last_by_map_fst Let_def)
  qed
qed

lemma sorted_indexed_sort: "sorted (map ro_at (indexed_sort obs))"
proof -
  let ?s = "sort_key obs_key (keyed (map clampObservation obs))"
  have "sorted (map obs_key ?s)" by simp
  then have "sorted_wrt (\<lambda>a b. obs_key a \<le> obs_key b) ?s" by (simp add: sorted_map)
  then have "sorted_wrt (\<lambda>a b. ro_at (fst a) \<le> ro_at (fst b)) ?s"
    by (rule sorted_wrt_mono_rel[rotated]) (auto simp: less_eq_prod_def split: prod.splits)
  then show ?thesis by (simp add: indexed_sort_keyed sorted_map comp_def)
qed

section \<open>The loops\<close>

lemma last_by_dedup: "last_by t (dedup_loop acc obs) = last_by t (acc @ obs)"
proof (induction acc obs rule: dedup_loop.induct)
  case (2 acc ob obs)
  show ?case
  proof (cases "acc \<noteq> [] \<and> ro_at (last acc) = ro_at ob")
    case True
    then obtain xs a where acc: "acc = xs @ [a]" by (cases acc rule: rev_cases) auto
    have "last_by t (xs @ ob # obs) = last_by t (xs @ a # ob # obs)"
      using True by (simp add: last_by_append last_by_Cons acc split: option.splits)
    with True "2.IH"(1) show ?thesis by (simp add: acc)
  next
    case False
    with "2.IH"(2) show ?thesis by auto
  qed
qed simp

lemma set_dedup: "set (dedup_loop acc obs) \<subseteq> set acc \<union> set obs"
  by (induction acc obs rule: dedup_loop.induct) (auto dest: in_set_butlastD)

lemma sorted_dedup:
  "sorted_wrt (<) (map ro_at acc) \<Longrightarrow> sorted (map ro_at (acc @ obs)) \<Longrightarrow>
   sorted_wrt (<) (map ro_at (dedup_loop acc obs))"
proof (induction acc obs rule: dedup_loop.induct)
  case (2 acc ob obs)
  show ?case
  proof (cases "acc \<noteq> [] \<and> ro_at (last acc) = ro_at ob")
    case True
    then obtain xs a where acc: "acc = xs @ [a]" and a: "ro_at a = ro_at ob"
      by (cases acc rule: rev_cases) auto
    with "2.prems" have "sorted_wrt (<) (map ro_at (xs @ [ob]))"
      and "sorted (map ro_at ((xs @ [ob]) @ obs))" by (auto simp: sorted_append sorted_wrt_append)
    with True "2.IH"(1) show ?thesis by (simp add: acc)
  next
    case False
    have "sorted_wrt (<) (map ro_at (acc @ [ob]))"
    proof (cases acc rule: rev_cases)
      case (snoc xs a)
      with False "2.prems" have "ro_at a < ro_at ob" by (auto simp: sorted_append)
      with snoc "2.prems" show ?thesis by (auto simp: sorted_wrt_append intro: less_trans)
    qed simp
    with False "2.prems" "2.IH"(2) show ?thesis by auto
  qed
qed simp

text \<open>The observation a loop has in hand, and those it has still to see.\<close>

definition lookup_from :: "runtime_observation \<Rightarrow> runtime_observation list \<Rightarrow> gotime \<Rightarrow> runtime_observation" where
  "lookup_from current obs t = (case last_by t obs of None \<Rightarrow> current | Some b \<Rightarrow> b)"

lemma lookup_early: "(\<And>ob. ob \<in> set obs \<Longrightarrow> t < ro_at ob) \<Longrightarrow> lookup_from current obs t = current"
proof -
  assume "\<And>ob. ob \<in> set obs \<Longrightarrow> t < ro_at ob"
  then have "filter (\<lambda>ob. ro_at ob \<le> t) obs = []" by (fastforce simp: filter_empty_conv)
  then show ?thesis by (simp add: lookup_from_def last_by_def)
qed

lemma lookup_Cons: "ro_at ob \<le> t \<Longrightarrow> lookup_from current (ob # obs) t = lookup_from ob obs t"
  by (simp add: lookup_from_def last_by_Cons split: option.splits)

lemma skip_loop_spec:
  assumes "sorted_wrt (<) (map ro_at obs)" and "skip_loop start current obs = (current', rest)"
  shows "sorted_wrt (<) (map ro_at rest) \<and> (\<forall>ob\<in>set rest. start < ro_at ob) \<and> set rest \<subseteq> set obs \<and>
    (\<forall>t\<ge>start. lookup_from current' rest t = lookup_from current obs t)"
  using assms
proof (induction obs arbitrary: current)
  case (Cons ob obs)
  show ?case
  proof (cases "ro_at ob > start")
    case True
    with Cons.prems show ?thesis by (auto intro: less_trans)
  next
    case False
    with Cons.prems have "sorted_wrt (<) (map ro_at obs)"
      and "skip_loop start ob obs = (current', rest)" by auto
    from Cons.IH[OF this] False show ?thesis by (auto simp: lookup_Cons)
  qed
qed simp

abbreviation obs_rate :: "runtime_observation \<Rightarrow> int" where
  "obs_rate ob \<equiv> unit_rate (Some ob)"

lemma add_until_spec:
  assumes "c < u" and "u \<le> stop" and "int64 (u - c)"
  shows "add_until stop current u (c, tot) = (u, tot + (u - c) div Second * obs_rate current)"
proof -
  have "quo (time_Sub u c) Second = (u - c) div Second"
    using assms by (simp add: time_Sub_exact quo_nonneg Second_def)
  with assms(1,2) show ?thesis
    by (cases "ro_replicas current > 0"; cases "ro_unit_weight current > 0")
      (auto simp: add_until_def unit_rate_def Let_def max_def)
qed

lemma add_until_end:
  assumes "c \<le> stop" and "int64 (stop - c)"
  shows "snd (add_until stop current stop (c, tot)) = tot + (stop - c) div Second * obs_rate current"
  using assms by (cases "c < stop") (simp_all add: add_until_spec, simp add: add_until_def)

text \<open>A sum over the seconds from \<open>c\<close> is split where the next observation takes over.\<close>

definition seconds_sum :: "(gotime \<Rightarrow> int) \<Rightarrow> gotime \<Rightarrow> nat \<Rightarrow> int" where
  "seconds_sum f c n = (\<Sum>k<n. f (c + int k * Second))"

lemma seconds_sum_split:
  "seconds_sum f c (m + n) = seconds_sum f c m + seconds_sum f (c + int m * Second) n"
  by (induction n) (simp_all add: seconds_sum_def algebra_simps)

lemma seconds_sum_cong:
  "(\<And>t. c \<le> t \<Longrightarrow> t < c + int n * Second \<Longrightarrow> f t = g t) \<Longrightarrow> seconds_sum f c n = seconds_sum g c n"
  unfolding seconds_sum_def by (rule sum.cong) (auto simp: Second_def)

lemma seconds_sum_const: "seconds_sum (\<lambda>_. r) c n = int n * r"
  by (simp add: seconds_sum_def)

lemma whole_seconds: "0 \<le> d \<Longrightarrow> Second dvd d \<Longrightarrow> int (nat (d div Second)) * Second = d"
  by (simp add: Second_def pos_imp_zdiv_nonneg_iff)

definition window_sum :: "(gotime \<Rightarrow> int) \<Rightarrow> gotime \<Rightarrow> gotime \<Rightarrow> int" where
  "window_sum f c stop = seconds_sum f c (nat ((stop - c) div Second))"

lemma window_sum_const:
  assumes "c \<le> stop" and "Second dvd stop - c"
    and "\<And>t. c \<le> t \<Longrightarrow> t < stop \<Longrightarrow> f t = r"
  shows "window_sum f c stop = (stop - c) div Second * r"
proof -
  have "window_sum f c stop = seconds_sum (\<lambda>_. r) c (nat ((stop - c) div Second))"
    unfolding window_sum_def
    using whole_seconds[of "stop - c"] assms by (intro seconds_sum_cong) auto
  with assms(1) show ?thesis by (simp add: seconds_sum_const Second_def pos_imp_zdiv_nonneg_iff)
qed

lemma window_sum_split:
  assumes "c \<le> u" and "u \<le> stop" and "Second dvd u - c" and "Second dvd stop - c"
  shows "window_sum f c stop = window_sum f c u + window_sum f u stop"
proof -
  have "Second dvd stop - u" using dvd_diff[OF assms(4,3)] by simp
  with assms(3) have "(stop - c) div Second = (u - c) div Second + (stop - u) div Second"
    using div_add[of Second "u - c" "stop - u"] by (simp add: algebra_simps)
  with assms have "nat ((stop - c) div Second) = nat ((u - c) div Second) + nat ((stop - u) div Second)"
    by (simp add: nat_add_distrib Second_def pos_imp_zdiv_nonneg_iff)
  moreover have "c + int (nat ((u - c) div Second)) * Second = u"
    using whole_seconds[of "u - c"] assms by simp
  ultimately show ?thesis by (simp add: window_sum_def seconds_sum_split)
qed

lemma walk_loop_spec:
  assumes "sorted_wrt (<) (map ro_at obs)" and "\<forall>ob\<in>set obs. c < ro_at ob \<and> Second dvd ro_at ob - c"
    and "c \<le> stop" and "Second dvd stop - c" and "int64 (stop - c)"
    and "walk_loop stop current obs (c, tot) = (current', st)"
  shows "snd (add_until stop current' stop st) =
    tot + window_sum (\<lambda>t. obs_rate (lookup_from current obs t)) c stop"
  using assms
proof (induction obs arbitrary: current c tot)
  case Nil
  have "window_sum (\<lambda>t. obs_rate (lookup_from current [] t)) c stop = (stop - c) div Second * obs_rate current"
    using Nil.prems by (intro window_sum_const) (simp_all add: lookup_from_def)
  with Nil.prems show ?case by (auto simp: add_until_end)
next
  case (Cons ob obs)
  let ?f = "\<lambda>t. obs_rate (lookup_from current (ob # obs) t)"
  have after: "ro_at ob < ro_at ob'" if "ob' \<in> set obs" for ob' using Cons.prems(1) that by auto
  show ?case
  proof (cases "ro_at ob < stop")
    case True
    let ?u = "ro_at ob"
    have u: "c < ?u" "Second dvd ?u - c" "int64 (?u - c)" "int64 (stop - ?u)"
      using Cons.prems True by (auto simp: int64_def MinInt64_def)
    have d: "Second dvd x - ?u" if "Second dvd x - c" for x using dvd_diff[OF that u(2)] by simp
    have "walk_loop stop ob obs (?u, tot + (?u - c) div Second * obs_rate current) = (current', st)"
      using Cons.prems(6) True u by (simp add: add_until_spec)
    then have "snd (add_until stop current' stop st) =
        tot + (?u - c) div Second * obs_rate current +
        window_sum (\<lambda>t. obs_rate (lookup_from ob obs t)) ?u stop"
      using Cons.prems True u(4) after by (intro Cons.IH) (auto intro: d)
    also have "window_sum (\<lambda>t. obs_rate (lookup_from ob obs t)) ?u stop = window_sum ?f ?u stop"
      unfolding window_sum_def using whole_seconds[of "stop - ?u"] True
      by (intro seconds_sum_cong) (simp add: lookup_Cons)
    also have "(?u - c) div Second * obs_rate current = window_sum ?f c ?u"
      using u after by (intro window_sum_const[symmetric]) (auto intro!: lookup_early arg_cong[where f = unit_rate] dest!: after)
    finally show ?thesis using window_sum_split[of c ?u stop ?f] u True Cons.prems by simp
  next
    case False
    with Cons.prems(6) have "current' = current" "st = (c, tot)" by auto
    moreover have "lookup_from current (ob # obs) t = current" if "t < stop" for t
      using False that after by (intro lookup_early) (auto dest: after)
    then have "window_sum ?f c stop = (stop - c) div Second * obs_rate current"
      using Cons.prems by (intro window_sum_const) auto
    ultimately show ?thesis using Cons.prems(3,5) by (simp add: add_until_end)
  qed
qed

section \<open>The meaning of the meter\<close>

lemma clamp_at [simp]: "ro_at (clampObservation ob) = ro_at ob"
  by (simp add: clampObservation_def Let_def)

lemma rate_clamp [simp]: "obs_rate (clampObservation ob) = obs_rate ob"
  by (simp add: clampObservation_def unit_rate_def Let_def)

lemma in_force_clamp:
  "in_force t (map_option clampObservation best) (map clampObservation obs) =
   map_option clampObservation (in_force t best obs)"
proof (induction obs arbitrary: best)
  case (Cons ob obs)
  show ?case using Cons[of best] Cons[of "Some ob"] by (cases best) auto
qed simp

lemma rate_in_force_clamp:
  "unit_rate (in_force t None (map clampObservation obs)) = unit_rate (in_force t None obs)"
proof -
  have "unit_rate (map_option clampObservation x) = unit_rate x" for x
    by (cases x) simp_all
  with in_force_clamp[of t None obs] show ?thesis by simp
qed

text \<open>
  All instants are whole seconds away from the start of the window, and the window is shorter
  than the 292 years a \<open>Duration\<close> can hold.
\<close>

definition whole_second_window :: "runtime_observation list \<Rightarrow> gotime \<Rightarrow> gotime \<Rightarrow> bool" where
  "whole_second_window obs start stop \<longleftrightarrow>
     start \<le> stop \<and> int64 (stop - start) \<and> Second dvd stop - start \<and>
     (\<forall>ob\<in>set obs. Second dvd ro_at ob - start)"

lemma unit_seconds_nonneg: "0 \<le> unit_seconds obs start n"
  unfolding unit_seconds_def by (rule sum_nonneg) (simp add: unit_rate_def split: option.split)

lemma unit_seconds_reference:
  assumes "whole_second_window obs start stop"
  shows "CalculateRuntimeUnitSeconds obs start stop =
    min MaxInt64 (unit_seconds obs start (nat ((stop - start) div Second)))"
proof (cases "start < stop")
  case False
  with assms have "stop = start" by (simp add: whole_second_window_def)
  then show ?thesis by (simp add: CalculateRuntimeUnitSeconds_def unit_seconds_def MaxInt64_def)
next
  case True
  define zero where "zero = \<lparr>ro_at = start, ro_replicas = 0, ro_unit_weight = 0, ro_suspended = False\<rparr>"
  let ?d = "dedup_loop [] (indexed_sort obs)"
  obtain cur rest where sk: "skip_loop start zero ?d = (cur, rest)" by (metis surj_pair)
  obtain cur' st where wk: "walk_loop stop cur rest (start, 0) = (cur', st)" by (metis surj_pair)
  have "sorted_wrt (<) (map ro_at ?d)"
    by (rule sorted_dedup) (simp_all add: sorted_indexed_sort)
  note skip = skip_loop_spec[OF this sk]
  have "set ?d \<subseteq> clampObservation ` set obs"
    using set_dedup[of "[]" "indexed_sort obs"]
    by (auto simp: indexed_sort_def dest!: set_zip_leftD)
  with skip assms have al: "\<forall>ob\<in>set rest. start < ro_at ob \<and> Second dvd ro_at ob - start"
    by (auto simp: whole_second_window_def)
  have look: "obs_rate (lookup_from cur rest t) = unit_rate (in_force t None obs)" if "start \<le> t" for t
  proof -
    have "lookup_from cur rest t = lookup_from zero ?d t" using skip that by blast
    also have "\<dots> = (case in_force t None (map clampObservation obs) of None \<Rightarrow> zero | Some b \<Rightarrow> b)"
      by (simp add: lookup_from_def last_by_dedup last_by_indexed_sort)
    finally have "obs_rate (lookup_from cur rest t) = unit_rate (in_force t None (map clampObservation obs))"
      by (simp add: zero_def unit_rate_def split: option.split)
    then show ?thesis by (simp only: rate_in_force_clamp)
  qed
  have "snd (add_until stop cur' stop st) =
      0 + window_sum (\<lambda>t. obs_rate (lookup_from cur rest t)) start stop"
    using skip al assms wk by (intro walk_loop_spec) (auto simp: whole_second_window_def)
  also have "\<dots> = unit_seconds obs start (nat ((stop - start) div Second))"
    unfolding window_sum_def seconds_sum_def unit_seconds_def
    by (simp add: look Second_def)
  finally have tot: "snd (add_until stop cur' stop st) = unit_seconds obs start (nat ((stop - start) div Second))" .
  have "MinInt64 \<le> unit_seconds obs start n" for n
    using unit_seconds_nonneg[of obs start n] by (simp add: MinInt64_def)
  with True tot show ?thesis
    by (auto simp: CalculateRuntimeUnitSeconds_def sk wk int64_def min_def Let_def simp flip: zero_def)
qed

text \<open>The rate of what the loops have in hand after skipping.\<close>

lemma rate_in_hand:
  "obs_rate (lookup_from \<lparr>ro_at = start, ro_replicas = 0, ro_unit_weight = 0, ro_suspended = False\<rparr>
     (dedup_loop [] (indexed_sort obs)) t) = unit_rate (in_force t None obs)"
proof -
  have "obs_rate (lookup_from \<lparr>ro_at = start, ro_replicas = 0, ro_unit_weight = 0, ro_suspended = False\<rparr>
      (dedup_loop [] (indexed_sort obs)) t) = unit_rate (in_force t None (map clampObservation obs))"
    by (simp add: lookup_from_def last_by_dedup last_by_indexed_sort unit_rate_def split: option.split)
  then show ?thesis by (simp only: rate_in_force_clamp)
qed

section \<open>Segment by segment\<close>

text \<open>
  Without any condition on the instants: between two changes the code counts the whole seconds of
  the stretch, a stretch longer than a \<open>Duration\<close> as the longest one.
\<close>

fun segment_units :: "(gotime \<Rightarrow> int) \<Rightarrow> gotime list \<Rightarrow> int" where
  "segment_units f (c # u # us) = min MaxInt64 (u - c) div Second * f c + segment_units f (u # us)"
| "segment_units f _ = 0"

definition change_points :: "runtime_observation list \<Rightarrow> gotime \<Rightarrow> gotime \<Rightarrow> gotime list" where
  "change_points obs start stop =
     sorted_list_of_set ({start, stop} \<union> {t \<in> ro_at ` set obs. start < t \<and> t < stop})"

lemma segment_units_cong:
  "(\<And>t. t \<in> set us \<Longrightarrow> f t = g t) \<Longrightarrow> segment_units f us = segment_units g us"
  by (induction f us rule: segment_units.induct) auto

lemma segment_units_nonneg:
  "sorted_wrt (<) us \<Longrightarrow> (\<And>t. 0 \<le> f t) \<Longrightarrow> 0 \<le> segment_units f us"
proof (induction f us rule: segment_units.induct)
  case (1 f c u us)
  have "0 \<le> min MaxInt64 (u - c) div Second"
    using 1(2) by (simp add: Second_def int64_defs pos_imp_zdiv_nonneg_iff)
  with 1 show ?case by simp
qed simp_all

lemma add_until_segment:
  assumes "c < u" and "u \<le> stop"
  shows "add_until stop current u (c, tot) = (u, tot + min MaxInt64 (u - c) div Second * obs_rate current)"
proof -
  have "quo (time_Sub u c) Second = min MaxInt64 (u - c) div Second"
    using assms by (auto simp: time_Sub_def quo_def Second_def int64_defs min_def sgn_if)
  with assms show ?thesis
    by (cases "ro_replicas current > 0"; cases "ro_unit_weight current > 0")
      (auto simp: add_until_def unit_rate_def Let_def max_def)
qed

lemma walk_loop_segments:
  assumes "sorted_wrt (<) (map ro_at obs)" and "\<forall>ob\<in>set obs. c < ro_at ob" and "c < stop"
    and "walk_loop stop current obs (c, tot) = (current', st)"
  shows "snd (add_until stop current' stop st) =
    tot + segment_units (\<lambda>t. obs_rate (lookup_from current obs t))
      (c # filter (\<lambda>t. t < stop) (map ro_at obs) @ [stop])"
  using assms
proof (induction obs arbitrary: current c tot)
  case Nil
  then show ?case by (auto simp: add_until_segment lookup_from_def)
next
  case (Cons ob obs)
  let ?u = "ro_at ob" and ?us = "filter (\<lambda>t. t < stop) (map ro_at obs) @ [stop]"
  let ?f = "\<lambda>t. obs_rate (lookup_from current (ob # obs) t)"
  have after: "\<forall>ob'\<in>set obs. ?u < ro_at ob'" and sorted: "sorted_wrt (<) (map ro_at obs)"
    using Cons.prems(1) by auto
  have now: "?f c = obs_rate current"
    using Cons.prems(2) by (intro arg_cong[where f = obs_rate] lookup_early) auto
  show ?case
  proof (cases "?u < stop")
    case True
    have "walk_loop stop ob obs (?u, tot + min MaxInt64 (?u - c) div Second * obs_rate current) = (current', st)"
      using Cons.prems(2-4) True by (simp add: add_until_segment)
    from Cons.IH[OF sorted after True this]
    have "snd (add_until stop current' stop st) = tot + min MaxInt64 (?u - c) div Second * ?f c +
        segment_units (\<lambda>t. obs_rate (lookup_from ob obs t)) (?u # ?us)" by (simp only: now)
    also have "segment_units (\<lambda>t. obs_rate (lookup_from ob obs t)) (?u # ?us) = segment_units ?f (?u # ?us)"
      using after True by (intro segment_units_cong) (auto simp: lookup_Cons less_imp_le)
    finally show ?thesis using True by simp
  next
    case False
    with after have "filter (\<lambda>t. t < stop) (map ro_at (ob # obs)) = []" by (auto simp: filter_empty_conv)
    moreover from False Cons.prems(4) have "current' = current" "st = (c, tot)" by auto
    ultimately show ?thesis using Cons.prems(3) now by (simp add: add_until_segment del: filter.simps)
  qed
qed

text \<open>The instants at which the loops stop.\<close>

lemma skip_loop_instants:
  "sorted_wrt (<) (map ro_at obs) \<Longrightarrow> skip_loop start current obs = (current', rest) \<Longrightarrow>
   ro_at ` set rest = {t \<in> ro_at ` set obs. start < t}"
proof (induction obs arbitrary: current)
  case (Cons ob obs)
  show ?case
  proof (cases "ro_at ob > start")
    case True
    with Cons.prems show ?thesis by (auto intro: less_trans)
  next
    case False
    with Cons show ?thesis by auto
  qed
qed simp

lemma dedup_loop_instants: "ro_at ` set (dedup_loop acc obs) = ro_at ` set acc \<union> ro_at ` set obs"
proof (induction acc obs rule: dedup_loop.induct)
  case (2 acc ob obs)
  show ?case
  proof (cases "acc \<noteq> [] \<and> ro_at (last acc) = ro_at ob")
    case True
    then obtain xs a where "acc = xs @ [a]" by (cases acc rule: rev_cases) auto
    with True "2.IH"(1) show ?thesis by auto
  qed (use "2.IH"(2) in auto)
qed simp

lemma indexed_sort_instants: "ro_at ` set (indexed_sort obs) = ro_at ` set obs"
proof -
  have "map fst (zip (map clampObservation obs) [0..<length obs]) = map clampObservation obs" by simp
  then have "fst ` set (zip (map clampObservation obs) [0..<length obs]) = clampObservation ` set obs"
    by (metis set_map)
  then have "set (indexed_sort obs) = clampObservation ` set obs" by (simp add: indexed_sort_def)
  then show ?thesis by (auto simp: image_iff)
qed

lemma change_points_list:
  assumes "start < stop" and "sorted_wrt (<) us" and "set us = {t \<in> ro_at ` set obs. start < t}"
  shows "change_points obs start stop = start # filter (\<lambda>t. t < stop) us @ [stop]"
proof -
  let ?ps = "start # filter (\<lambda>t. t < stop) us @ [stop]"
  have "sorted_wrt (<) ?ps" using assms by (auto simp: sorted_wrt_append sorted_wrt_filter)
  then have "sorted_list_of_set (set ?ps) = ?ps"
    by (intro sorted_list_of_set.idem_if_sorted_distinct) (use strict_sorted_iff in blast)+
  moreover have "set ?ps = {start, stop} \<union> {t \<in> ro_at ` set obs. start < t \<and> t < stop}"
    using assms(3) by auto
  ultimately show ?thesis unfolding change_points_def by metis
qed

lemma unit_seconds_segments:
  "CalculateRuntimeUnitSeconds obs start stop =
    (if start < stop
     then min MaxInt64 (segment_units (\<lambda>t. unit_rate (in_force t None obs)) (change_points obs start stop))
     else 0)"
proof (cases "start < stop")
  case False
  then show ?thesis by (simp add: CalculateRuntimeUnitSeconds_def)
next
  case True
  let ?f = "\<lambda>t. unit_rate (in_force t None obs)"
  define zero where "zero = \<lparr>ro_at = start, ro_replicas = 0, ro_unit_weight = 0, ro_suspended = False\<rparr>"
  let ?d = "dedup_loop [] (indexed_sort obs)"
  obtain cur rest where sk: "skip_loop start zero ?d = (cur, rest)" by (metis surj_pair)
  obtain cur' st where wk: "walk_loop stop cur rest (start, 0) = (cur', st)" by (metis surj_pair)
  have sorted: "sorted_wrt (<) (map ro_at ?d)"
    by (rule sorted_dedup) (simp_all add: sorted_indexed_sort)
  note skip = skip_loop_spec[OF this sk]
  have look: "obs_rate (lookup_from cur rest t) = ?f t" if "start \<le> t" for t
    using skip that by (simp add: zero_def rate_in_hand)
  have "set (map ro_at rest) = {t \<in> ro_at ` set obs. start < t}"
    using skip_loop_instants[OF sorted sk] by (simp add: dedup_loop_instants indexed_sort_instants)
  with True skip have points: "change_points obs start stop = start # filter (\<lambda>t. t < stop) (map ro_at rest) @ [stop]"
    by (intro change_points_list) auto
  have "snd (add_until stop cur' stop st) = segment_units (\<lambda>t. obs_rate (lookup_from cur rest t)) (change_points obs start stop)"
    using walk_loop_segments[OF _ _ True wk] skip by (simp add: points)
  also have "\<dots> = segment_units ?f (change_points obs start stop)"
    using True skip unfolding points by (intro segment_units_cong look) auto
  finally have tot: "snd (add_until stop cur' stop st) = segment_units ?f (change_points obs start stop)" .
  have "0 \<le> segment_units ?f (change_points obs start stop)"
    unfolding change_points_def
    by (rule segment_units_nonneg[OF strict_sorted_list_of_set]) (simp add: unit_rate_def split: option.split)
  with True tot show ?thesis
    by (auto simp: CalculateRuntimeUnitSeconds_def sk wk int64_defs min_def Let_def simp flip: zero_def)
qed

end
