(* ===== verification/Commerce_Service.thy ===== *)
theory Commerce_Service
  imports Commerce_Runtime Commerce_Metering
begin

text \<open>
  The operations of \<open>internal/commerce/application/service.go\<close>. Where the code returns a value
  next to an error the model returns the error; callers look at the value only without one.
\<close>

section \<open>Plans\<close>

record create_plan_version_command =
  cp_id :: string
  cp_definition_id :: string
  cp_policy_version :: string
  cp_number :: int
  cp_spec :: plan_spec
  cp_effective_from :: gotime

definition CreatePlanDefinition :: "cenv \<Rightarrow> string \<Rightarrow> string \<Rightarrow> plan_definition cact" where
  "CreatePlanDefinition env i n =
     seqE (require_store env)
     (bindE (service_now env) (\<lambda>now.
      bindE (of_result (NewPlanDefinition i n now)) (\<lambda>v.
      bindE (Commerce_Transact env
        (seqE (tx_write (InsertPlanDefinition v))
          (record_change env ''platform'' ''commerce.plan_definition.created'' (pd_id v) (JDefinition v))))
      (\<lambda>_. ret v))))"

definition CreatePlanVersion :: "cenv \<Rightarrow> create_plan_version_command \<Rightarrow> plan_version cact" where
  "CreatePlanVersion env cmd =
     seqE (require_store env)
     (bindE (service_now env) (\<lambda>now.
      bindE (of_result (NewPlanVersion (cv_unicode env) (cp_id cmd) (cp_definition_id cmd)
               (cp_policy_version cmd) (cp_number cmd) (cp_spec cmd) (cp_effective_from cmd) now)) (\<lambda>v.
      bindE (Commerce_Transact env
        (bindE (tx_get (GetPlanDefinition (pv_definition_id v))) (\<lambda>def.
         if def = None then throw (Err NotFound ''plan definition not found'')
         else
           bindE (tx_get (ListPlanVersions (pv_definition_id v))) (\<lambda>existing.
           if list_ex (\<lambda>e. pv_number e = pv_number v) existing
             then throw (Err Conflict ''plan version number exists'')
           else
             seqE (tx_write (InsertPlanVersion v))
               (record_change env ''platform'' ''commerce.plan_version.created'' (pv_id v) (JPlanVersion v))))))
      (\<lambda>_. ret v))))"

text \<open>What follows the change of a plan version: the guarded save and the journal entry.\<close>

definition transitionPlan :: "cenv \<Rightarrow> string \<Rightarrow> string \<Rightarrow> plan_version cact" where
  "transitionPlan env i action =
     seqE (require_store env)
     (Commerce_Transact env
       (bindE (tx_get (GetPlanVersion (TrimSpace i))) (\<lambda>found.
        case found of
          None \<Rightarrow> throw (Err NotFound ''plan version not found'')
        | Some v \<Rightarrow>
            bindE (service_now env) (\<lambda>now.
            bindE (of_result (if action = ''activate'' then Activate now v else Disable now v)) (\<lambda>v'.
            seqE (tx_write (UpdatePlanVersion v' (pv_version v)))
            (seqE (record_change env ''platform'' (''commerce.plan_version.'' @ action) (pv_id v') (JPlanVersion v'))
            (ret v')))))))"

definition ActivatePlanVersion :: "cenv \<Rightarrow> string \<Rightarrow> plan_version cact" where
  "ActivatePlanVersion env i = transitionPlan env i ''activate''"

definition DisablePlanVersion :: "cenv \<Rightarrow> string \<Rightarrow> plan_version cact" where
  "DisablePlanVersion env i = transitionPlan env i ''disable''"

definition ReplacePlanSpec :: "cenv \<Rightarrow> string \<Rightarrow> plan_spec \<Rightarrow> plan_version cact" where
  "ReplacePlanSpec env i spec =
     seqE (require_store env)
     (Commerce_Transact env
       (bindE (tx_get (GetPlanVersion (TrimSpace i))) (\<lambda>found.
        case found of
          None \<Rightarrow> throw (Err NotFound ''plan version not found'')
        | Some v \<Rightarrow>
            bindE (service_now env) (\<lambda>now.
            bindE (of_result (ReplaceSpec (cv_unicode env) spec now v)) (\<lambda>v'.
            seqE (tx_write (UpdatePlanVersion v' (pv_version v)))
            (seqE (record_change env ''platform'' ''commerce.plan_version.spec_replaced'' (pv_id v')
                    (JStrings [(''plan_version_id'', pv_id v')]))
            (ret v')))))))"

section \<open>Subscriptions\<close>

record start_subscription_command =
  ss_id :: string
  ss_tenant :: string
  ss_plan_version_id :: string
  ss_period_id :: string
  ss_state :: subscription_state
  ss_trial_ends_at :: gotime
  ss_period_start :: gotime
  ss_period_end :: gotime

definition StartSubscription ::
  "cenv \<Rightarrow> start_subscription_command \<Rightarrow> (subscription \<times> billing_period) cact" where
  "StartSubscription env cmd =
     seqE (require_store env)
     (bindE (service_now env) (\<lambda>now.
      bindE (of_result (NewSubscription (ss_id cmd) (ss_tenant cmd) (ss_plan_version_id cmd)
               (ss_state cmd) (ss_trial_ends_at cmd) now)) (\<lambda>sub.
      bindE (of_result (NewBillingPeriod (ss_period_id cmd) (ss_tenant cmd) (ss_id cmd)
               (ss_plan_version_id cmd) (ss_period_start cmd) (ss_period_end cmd) now)) (\<lambda>period.
      bindE (Commerce_Transact env
        (bindE (tx_get (GetPlanVersion (ss_plan_version_id cmd))) (\<lambda>found.
         case found of
           None \<Rightarrow> throw (Err NotFound ''plan version not found'')
         | Some pv \<Rightarrow>
             if pv_state pv \<noteq> PlanActive then throw (Err Conflict ''plan version is not active'')
             else
               bindE (tx_get (FindSubscriptionByTenant (ss_tenant cmd))) (\<lambda>existing.
               if (case existing of None \<Rightarrow> False | Some e \<Rightarrow> sub_state e \<noteq> SubscriptionCanceled)
                 then throw (Err Conflict ''tenant already has a subscription'')
               else
                 seqE (tx_write (InsertSubscription sub))
                 (seqE (tx_write (InsertBillingPeriod period))
                 (bindE (of_result (NewCommercialAccount (ss_tenant cmd) CommercialActive now)) (\<lambda>account.
                  seqE (tx_write (InsertCommercialAccount account))
                    (record_change env (ss_tenant cmd) ''commerce.subscription.started'' (sub_id sub)
                      (JStrings [(''subscription_id'', sub_id sub), (''period_id'', bp_id period),
                                 (''plan_version_id'', pv_id pv)])))))))))
      (\<lambda>_. ret (sub, period))))))"

section \<open>Entitlements and quotas\<close>

fun quota_loop :: "gotime \<Rightarrow> int \<Rightarrow> quota_reservation list \<Rightarrow> int" where
  "quota_loop at tot [] = tot"
| "quota_loop at tot (q # qs) =
     (if CountsAgainstLimit at q then
        (if qr_quantity q > sub64 MaxInt64 tot then MaxInt64
         else quota_loop at (add64 tot (qr_quantity q)) qs)
      else quota_loop at tot qs)"

definition activeQuota :: "string \<Rightarrow> string \<Rightarrow> gotime \<Rightarrow> commerce_data \<Rightarrow> int" where
  "activeQuota tenant resource at d = quota_loop at 0 (ListQuotaReservations tenant resource d)"

definition account_denies :: "commercial_account \<Rightarrow> bool" where
  "account_denies a \<longleftrightarrow> ca_state a = CommercialSuspended \<or> ca_state a = CommercialCanceled"

text \<open>The transaction of \<open>Check\<close> reads only, so its result is a function of the data.\<close>

definition decide :: "entitlement_request \<Rightarrow> gotime \<Rightarrow> commerce_data \<Rightarrow> cerror + entitlement_decision" where
  "decide req at d =
     (case FindSubscriptionByTenant (er_tenant req) d of
        None \<Rightarrow> Inl (Err NotFound ''subscription not found'')
      | Some sub \<Rightarrow>
     (case GetPlanVersion (sub_plan_version_id sub) d of
        None \<Rightarrow> Inl (Err Unavailable ''subscription plan is unavailable'')
      | Some pv \<Rightarrow>
     (case GetCommercialAccount (er_tenant req) d of
        None \<Rightarrow> Inl (Err Unavailable ''commercial account is unavailable'')
      | Some account \<Rightarrow>
          (let decision = \<lparr>ed_allowed = False, ed_reason = [], ed_policy_version = pv_policy_version pv,
                           ed_plan_version_id = pv_id pv, ed_limit = 0, ed_remaining = 0\<rparr> in
           if account_denies account \<or> \<not> AllowsAllocation at sub
             then Inr (decision\<lparr>ed_reason := ''commercial account does not allow allocation''\<rparr>)
           else if Features (pv_spec pv) (er_feature req) \<noteq> Some True
             then Inr (decision\<lparr>ed_reason := ''feature is not included in the active plan''\<rparr>)
           else
             (let decision = decision\<lparr>ed_allowed := True,
                                      ed_reason := ''feature is included in the active plan''\<rparr> in
              if er_resource req = [] then Inr decision
              else case map_of (Quotas (pv_spec pv)) (er_resource req) of
                None \<Rightarrow> Inr (decision\<lparr>ed_allowed := False, ed_reason := ''resource quota is not defined''\<rparr>)
              | Some limit \<Rightarrow>
                  (let used = activeQuota (er_tenant req) (er_resource req) at d;
                       remaining = max64 0 (sub64 limit used);
                       decision = decision\<lparr>ed_limit := limit, ed_remaining := remaining\<rparr> in
                   if er_quantity req > remaining
                     then Inr (decision\<lparr>ed_allowed := False,
                                        ed_reason := ''resource quota would be exceeded''\<rparr>)
                   else Inr decision))))))"

definition Check :: "cenv \<Rightarrow> entitlement_request \<Rightarrow> entitlement_decision cact" where
  "Check env req0 =
     seqE (require_store env)
     (let req = req0\<lparr>er_tenant := TrimSpace (er_tenant req0), er_feature := TrimSpace (er_feature req0),
                     er_resource := TrimSpace (er_resource req0)\<rparr> in
      if er_tenant req = [] \<or> er_feature req = [] \<or> er_quantity req < 0
        then throw (Err InvalidArgument ''entitlement request is invalid'')
      else
        bindE (if IsZero (er_at req) then service_now env else ret (er_at req)) (\<lambda>at.
          Commerce_Transact env (tx_read (decide req at))))"

definition CheckAs :: "cenv \<Rightarrow> string \<Rightarrow> entitlement_request \<Rightarrow> entitlement_decision cact" where
  "CheckAs env actorTenant req =
     (if TrimSpace actorTenant = [] \<or> actorTenant \<noteq> er_tenant req
        then throw (Err PermissionDenied ''cross-tenant entitlement lookup denied'')
      else Check env req)"

definition Reserve_request :: "quota_request \<Rightarrow> quota_request" where
  "Reserve_request req =
     req\<lparr>qq_tenant := TrimSpace (qq_tenant req), qq_resource := TrimSpace (qq_resource req),
         qq_key := TrimSpace (qq_key req)\<rparr>"

definition Reserve_tx :: "cenv \<Rightarrow> quota_request \<Rightarrow> gotime \<Rightarrow> string \<Rightarrow> quota_contract cact" where
  "Reserve_tx env req at fp =
     bindE (tx_get (FindQuotaReservation (qq_tenant req) (qq_key req))) (\<lambda>existing.
     case existing of
       Some q \<Rightarrow>
         if qr_fingerprint q \<noteq> fp then throw (Err Conflict ''quota idempotency payload mismatch'')
         else ret (Contract q)
     | None \<Rightarrow>
     bindE (tx_get (FindSubscriptionByTenant (qq_tenant req))) (\<lambda>found.
     case found of None \<Rightarrow> throw (Err NotFound ''subscription not found'') | Some sub \<Rightarrow>
     bindE (tx_get (GetCommercialAccount (qq_tenant req))) (\<lambda>found.
     case found of None \<Rightarrow> throw (Err Unavailable ''commercial account unavailable'') | Some account \<Rightarrow>
     if \<not> AllowsAllocation at sub \<or> account_denies account
       then throw (Err PermissionDenied ''commercial state denies allocation'')
     else
     bindE (tx_get (GetPlanVersion (sub_plan_version_id sub))) (\<lambda>found.
     case found of None \<Rightarrow> throw (Err Unavailable ''plan version unavailable'') | Some pv \<Rightarrow>
     (case map_of (Quotas (pv_spec pv)) (qq_resource req) of
        None \<Rightarrow> throw (Err PermissionDenied ''resource is not included in plan'')
      | Some limit \<Rightarrow>
     bindE (tx_get (activeQuota (qq_tenant req) (qq_resource req) at)) (\<lambda>used.
     if qq_quantity req > sub64 limit used then throw (Err QuotaExceeded ''quota exceeded'')
     else
     bindE (newID env ''quota'') (\<lambda>i.
     bindE (of_result (NewQuotaReservation i (qq_tenant req) (qq_resource req) (pv_policy_version pv)
              (qq_key req) fp (qq_quantity req) (qq_expires_at req) at)) (\<lambda>q.
     seqE (tx_write (InsertQuotaReservation q))
     (seqE (record_change env (qq_tenant req) ''commerce.quota.reserved'' (qr_id q) (JQuota (Contract q)))
     (ret (Contract q)))))))))))"

definition Reserve :: "cenv \<Rightarrow> quota_request \<Rightarrow> quota_contract cact" where
  "Reserve env req0 =
     seqE (require_store env)
     (let req = Reserve_request req0 in
      if qq_tenant req = [] \<or> qq_resource req = [] \<or> qq_key req = [] \<or> qq_quantity req \<le> 0
        then throw (Err InvalidArgument ''quota request is invalid'')
      else
        bindE (if IsZero (qq_at req) then service_now env else ret (qq_at req)) (\<lambda>at.
        if \<not> qq_expires_at req > at
          then throw (Err InvalidArgument ''quota reservation expiry is invalid'')
        else Commerce_Transact env (Reserve_tx env req at (fingerprint env (JQuotaRequest req)))))"

definition changeQuota :: "cenv \<Rightarrow> bool \<Rightarrow> quota_reservation \<Rightarrow> gotime \<Rightarrow> unit cact" where
  "changeQuota env commit q now =
     bindE (of_result (if commit then Quota_Commit now q else Quota_Release now q)) (\<lambda>q'.
     if qr_version q' = qr_version q then ret ()
     else
       seqE (tx_write (UpdateQuotaReservation q' (qr_version q)))
         (record_change env (qr_tenant q')
           (''commerce.quota.'' @ (if commit then ''committed'' else ''released''))
           (qr_id q') (JQuota (Contract q'))))"

definition transitionQuota :: "cenv \<Rightarrow> string \<Rightarrow> bool \<Rightarrow> unit cact" where
  "transitionQuota env i commit =
     seqE (require_store env)
     (Commerce_Transact env
       (bindE (tx_get (GetQuotaReservation (TrimSpace i))) (\<lambda>found.
        case found of
          None \<Rightarrow> throw (Err NotFound ''quota reservation not found'')
        | Some q \<Rightarrow> bindE (service_now env) (changeQuota env commit q))))"

definition Commit :: "cenv \<Rightarrow> string \<Rightarrow> unit cact" where
  "Commit env i = transitionQuota env i True"

definition Release :: "cenv \<Rightarrow> string \<Rightarrow> unit cact" where
  "Release env i = transitionQuota env i False"

section \<open>Usage\<close>

definition trimUsage :: "usage_event \<Rightarrow> usage_event" where
  "trimUsage event =
     event\<lparr>ue_tenant := TrimSpace (ue_tenant event), ue_period := TrimSpace (ue_period event),
           ue_resource_type := TrimSpace (ue_resource_type event),
           ue_resource_id := TrimSpace (ue_resource_id event), ue_key := TrimSpace (ue_key event),
           ue_kind := (if ue_kind event = [] then UsageStandard else ue_kind event)\<rparr>"

definition checkOwner :: "cenv \<Rightarrow> string \<Rightarrow> string \<Rightarrow> string \<Rightarrow> string \<Rightarrow> string \<Rightarrow> cerror + unit" where
  "checkOwner env tenant resourceType resourceID unavailable denied =
     (case Owns env tenant resourceType resourceID of
        Inl e \<Rightarrow> Inl (Wrap Unavailable unavailable e)
      | Inr owned \<Rightarrow> if \<not> owned then Inl (Err PermissionDenied denied) else Inr ())"

definition normalizeUsage :: "cenv \<Rightarrow> usage_event \<Rightarrow> usage_event cact" where
  "normalizeUsage env event0 =
     (let event = trimUsage event0 in
      if ue_tenant event = [] \<or> ue_resource_type event = [] \<or> ue_resource_id event = [] \<or>
         ue_key event = [] \<or> \<not> ValidMeter (ue_meter event)
        then throw (Err InvalidArgument ''usage event is invalid'')
      else if ue_kind event \<noteq> UsageStandard \<and> ue_kind event \<noteq> UsageCredit \<and> ue_kind event \<noteq> UsageCorrection
        then throw (Err InvalidArgument ''usage kind is invalid'')
      else if ue_quantity event < 0 \<and> ue_kind event = UsageStandard
        then throw (Err InvalidArgument ''negative standard usage is invalid'')
      else
        bindE (if IsZero (ue_occurred_at event) then service_now env else ret (ue_occurred_at event)) (\<lambda>occurred.
        if IsZero (ue_window_start event) \<or> IsZero (ue_window_end event) \<or>
           \<not> ue_window_start event < ue_window_end event
          then throw (Err InvalidArgument ''usage window is invalid'')
        else
          seqE (of_result (checkOwner env (ue_tenant event) (ue_resource_type event) (ue_resource_id event)
                  ''resource ownership unavailable'' ''resource is not owned by tenant''))
          (ret (event\<lparr>ue_occurred_at := occurred\<rparr>))))"

definition findPeriod ::
  "string \<Rightarrow> gotime \<Rightarrow> gotime \<Rightarrow> gotime \<Rightarrow> commerce_data \<Rightarrow> billing_period option" where
  "findPeriod tenant occurred start stop d =
     List.find (\<lambda>p. AcceptsUsage start stop p \<and> Contains occurred p) (ListBillingPeriods tenant d)"

text \<open>The transaction after the period has been chosen.\<close>

definition recordUsage :: "cenv \<Rightarrow> usage_event \<Rightarrow> unit cact" where
  "recordUsage env event =
     (let fp = fingerprint env (JUsage (event\<lparr>ue_id := [], ue_created_at := 0, ue_version := 0\<rparr>)) in
      bindE (tx_get (Commerce_GetIdempotency (ue_tenant event) ''usage'' (ue_key event))) (\<lambda>existing.
      case existing of
        Some r \<Rightarrow>
          if ci_fingerprint r \<noteq> fp then throw (Err Conflict ''usage idempotency payload mismatch'')
          else ret ()
      | None \<Rightarrow>
          bindE (newID env ''usage'') (\<lambda>i.
          bindE (service_now env) (\<lambda>created.
          let event = event\<lparr>ue_id := i, ue_created_at := created, ue_version := 1\<rparr> in
          seqE (tx_write (InsertUsage event))
          (bindE (service_now env) (\<lambda>now.
           seqE (tx_write (InsertIdempotency
             \<lparr>ci_tenant = ue_tenant event, ci_scope = ''usage'', ci_key = ue_key event,
              ci_fingerprint = fp, ci_resource_id = ue_id event, ci_created_at = now\<rparr>))
           (record_change env (ue_tenant event) ''commerce.usage.appended'' (ue_id event) (JUsage event))))))))"

definition choosePeriod :: "usage_event \<Rightarrow> usage_event cact" where
  "choosePeriod event =
     (if ue_period event = [] then
        bindE (tx_get (findPeriod (ue_tenant event) (ue_occurred_at event) (ue_window_start event)
                 (ue_window_end event))) (\<lambda>found.
        case found of
          None \<Rightarrow> throw (Err InvalidArgument ''no open billing period accepts usage'')
        | Some period \<Rightarrow> ret (event\<lparr>ue_period := bp_id period\<rparr>))
      else ret event)"

definition appendUsageTx :: "cenv \<Rightarrow> usage_event \<Rightarrow> unit cact" where
  "appendUsageTx env event0 =
     bindE (choosePeriod event0) (\<lambda>event.
     bindE (tx_get (GetBillingPeriod (ue_period event))) (\<lambda>found.
     case found of
       None \<Rightarrow> throw (Err NotFound ''billing period not found'')
     | Some period \<Rightarrow>
         if bp_tenant period \<noteq> ue_tenant event
           then throw (Err PermissionDenied ''billing period belongs to another tenant'')
         else if \<not> AcceptsUsage (ue_window_start event) (ue_window_end event) period \<or>
                 \<not> Contains (ue_occurred_at event) period
           then throw (Err InvalidArgument ''usage is outside billing period'')
         else recordUsage env event))"

definition Append :: "cenv \<Rightarrow> usage_event \<Rightarrow> unit cact" where
  "Append env event =
     seqE (require_store env)
     (bindE (normalizeUsage env event) (\<lambda>normalized.
      Commerce_Transact env (appendUsageTx env normalized)))"

definition buildEvent :: "build_usage \<Rightarrow> string \<Rightarrow> meter \<Rightarrow> int \<Rightarrow> usage_event" where
  "buildEvent b period m q =
     \<lparr>ue_id = [], ue_tenant = bu_tenant b, ue_period = period, ue_resource_type = ''build'',
      ue_resource_id = bu_build b, ue_meter = m, ue_kind = UsageStandard, ue_quantity = q,
      ue_key = bu_key b @ '':'' @ m, ue_occurred_at = bu_finished_at b,
      ue_window_start = bu_started_at b, ue_window_end = bu_finished_at b,
      ue_metadata = [''outcome'' \<mapsto> outcome_string (bu_outcome b)], ue_version = 0, ue_created_at = 0\<rparr>"

fun build_loop :: "cenv \<Rightarrow> build_usage \<Rightarrow> string \<Rightarrow> (meter \<times> int) list \<Rightarrow> unit cact" where
  "build_loop env b period [] = ret ()"
| "build_loop env b period ((m, q) # items) =
     (if q = 0 then build_loop env b period items
      else seqE (appendUsageTx env (buildEvent b period m q)) (build_loop env b period items))"

definition RecordBuildUsage :: "cenv \<Rightarrow> build_usage \<Rightarrow> unit cact" where
  "RecordBuildUsage env b =
     seqE (require_store env)
     (if bu_outcome b = BuildPlatformFailed \<or>
         (bu_outcome b = BuildCanceled \<and> \<not> bu_finished_at b > bu_started_at b)
        then ret ()
      else if TrimSpace (bu_tenant b) = [] \<or> TrimSpace (bu_build b) = [] \<or> TrimSpace (bu_key b) = [] \<or>
              bu_finished_at b < bu_started_at b \<or> bu_cpu_seconds b < 0 \<or>
              bu_memory_gib_seconds b < 0 \<or> bu_docker_vm_seconds b < 0
        then throw (Err InvalidArgument ''build usage is invalid'')
      else
        seqE (of_result (checkOwner env (bu_tenant b) ''build'' (bu_build b)
                ''build ownership unavailable'' ''build is not owned by tenant''))
        (Commerce_Transact env
          (bindE (tx_get (findPeriod (bu_tenant b) (bu_started_at b) (bu_started_at b) (bu_finished_at b)))
           (\<lambda>found.
           case found of
             None \<Rightarrow> throw (Err InvalidArgument ''build is outside an open billing period'')
           | Some period \<Rightarrow>
               bindE (tx_get (GetPlanVersion (bp_plan_version_id period))) (\<lambda>found.
               case found of
                 None \<Rightarrow> throw (Err Unavailable ''billing plan unavailable'')
               | Some pv \<Rightarrow>
                   if bu_outcome b = BuildUserFailed \<and> \<not> ChargeUserBuildFailures (pv_spec pv) then ret ()
                   else build_loop env b (bp_id period)
                     [(MeterBuildCPUSeconds, bu_cpu_seconds b),
                      (MeterBuildMemoryGiBSeconds, bu_memory_gib_seconds b),
                      (MeterBuildDockerVMSeconds, bu_docker_vm_seconds b)])))))"

end
