(* ===== verification/Commerce_Billing.thy ===== *)
theory Commerce_Billing
  imports Commerce_Service
begin

text \<open>
  The rest of \<open>internal/commerce/application/service.go\<close>: invoice previews, the commercial
  states of a tenant, and the reconciliation of the ledger with observed quantities.
\<close>

section \<open>Invoice previews\<close>

type_synonym invoice_key = "string \<times> string \<times> meter \<times> usage_kind"

definition usage_key :: "usage_event \<Rightarrow> invoice_key" where
  "usage_key e = (ue_resource_type e, ue_resource_id e, ue_meter e, ue_kind e)"

text \<open>The quantities per key; a missing key counts as 0, as an absent entry of a Go map does.\<close>

definition quantity_at :: "(invoice_key \<times> int) list \<Rightarrow> invoice_key \<Rightarrow> int" where
  "quantity_at quantities k = (case map_of quantities k of None \<Rightarrow> 0 | Some q \<Rightarrow> q)"

fun tally_loop :: "(invoice_key \<times> int) list \<Rightarrow> usage_event list \<Rightarrow> cerror + (invoice_key \<times> int) list" where
  "tally_loop quantities [] = Inr quantities"
| "tally_loop quantities (e # es) =
     (case safeAdd (quantity_at quantities (usage_key e)) (ue_quantity e) of
        None \<Rightarrow> Inl (Err Overflow ''usage quantity overflow'')
      | Some next \<Rightarrow> tally_loop (AList.update (usage_key e) next quantities) es)"

text \<open>The allowance a standard line draws from its meter.\<close>

definition drawn :: "usage_kind \<Rightarrow> int \<Rightarrow> int \<Rightarrow> int" where
  "drawn kind q allowance =
     (if kind = UsageStandard \<and> q > 0 \<and> allowance > 0 then min64 q allowance else 0)"

definition line_amount :: "plan_spec \<Rightarrow> meter \<Rightarrow> int \<Rightarrow> cerror + int" where
  "line_amount spec m billable =
     (case map_of (Prices spec) m of None \<Rightarrow> Inr 0 | Some price \<Rightarrow> RateQuantity billable price)"

fun rate_loop ::
  "plan_spec \<Rightarrow> (invoice_key \<times> int) list \<Rightarrow> invoice_key list \<Rightarrow> (meter \<Rightarrow> int) \<Rightarrow> int \<Rightarrow>
   cerror + invoice_line list \<times> int" where
  "rate_loop spec quantities [] remaining tot = Inr ([], tot)"
| "rate_loop spec quantities ((rt, ri, m, kind) # ks) remaining tot =
     (let q = quantity_at quantities (rt, ri, m, kind);
          used = drawn kind q (remaining m);
          billable = sub64 q used in
      case line_amount spec m billable of
        Inl e \<Rightarrow> Inl e
      | Inr amount \<Rightarrow>
          (case safeAdd tot amount of
             None \<Rightarrow> Inl (Err Overflow ''invoice total overflow'')
           | Some next \<Rightarrow>
               (case rate_loop spec quantities ks (remaining(m := sub64 (remaining m) used)) next of
                  Inl e \<Rightarrow> Inl e
                | Inr (lines, final) \<Rightarrow>
                    Inr (\<lparr>il_resource_type = rt, il_resource_id = ri, il_meter = m, il_kind = kind,
                          il_quantity = q, il_billable = billable, il_amount = amount\<rparr> # lines, final))))"

definition included_allowance :: "plan_spec \<Rightarrow> meter \<Rightarrow> int" where
  "included_allowance spec m = (case map_of (Included spec) m of None \<Rightarrow> 0 | Some q \<Rightarrow> q)"

text \<open>The transaction reads only, so the preview is a function of the data.\<close>

definition invoice :: "string \<Rightarrow> string \<Rightarrow> commerce_data \<Rightarrow> cerror + invoice_preview" where
  "invoice tenantID periodID d =
     (case GetBillingPeriod periodID d of
        None \<Rightarrow> Inl (Err NotFound ''billing period not found'')
      | Some p \<Rightarrow>
     if bp_tenant p \<noteq> tenantID
       then Inl (Err PermissionDenied ''billing period belongs to another tenant'')
     else
     (case GetPlanVersion (bp_plan_version_id p) d of
        None \<Rightarrow> Inl (Err Unavailable ''plan version unavailable'')
      | Some pv \<Rightarrow>
     (case tally_loop [] (ListUsage tenantID periodID d) of
        Inl e \<Rightarrow> Inl e
      | Inr quantities \<Rightarrow>
     (case rate_loop (pv_spec pv) quantities (sort (map fst quantities))
             (included_allowance (pv_spec pv)) 0 of
        Inl e \<Rightarrow> Inl e
      | Inr (lines, tot) \<Rightarrow>
          Inr (Normalize
            \<lparr>ip_tenant = tenantID, ip_period = periodID, ip_currency = Currency (pv_spec pv),
             ip_plan_version_id = pv_id pv, ip_policy_version = pv_policy_version pv,
             ip_lines = lines, ip_total = tot\<rparr>)))))"

definition PreviewInvoice :: "cenv \<Rightarrow> string \<Rightarrow> string \<Rightarrow> invoice_preview cact" where
  "PreviewInvoice env tenantID periodID =
     seqE (require_store env)
     (if TrimSpace tenantID = [] \<or> TrimSpace periodID = []
        then throw (Err InvalidArgument ''invoice preview identity is required'')
      else Commerce_Transact env (tx_read (invoice (TrimSpace tenantID) (TrimSpace periodID))))"

section \<open>Commercial states\<close>

fun subscription_state_for :: "commercial_state \<Rightarrow> subscription_state \<Rightarrow> subscription_state" where
  "subscription_state_for CommercialGrace s = SubscriptionGrace"
| "subscription_state_for CommercialSuspended s = SubscriptionSuspended"
| "subscription_state_for CommercialActive s = SubscriptionActive"
| "subscription_state_for _ s = s"

definition follow_account :: "cenv \<Rightarrow> string \<Rightarrow> commercial_state \<Rightarrow> unit cact" where
  "follow_account env tenant target =
     bindE (tx_get (FindSubscriptionByTenant tenant)) (\<lambda>found.
     case found of
       None \<Rightarrow> ret ()
     | Some sub \<Rightarrow>
         bindE (service_now env) (\<lambda>now.
         tx_write (UpdateSubscription
           (sub\<lparr>sub_state := subscription_state_for target (sub_state sub),
                sub_version := sub_version sub + 1, sub_updated_at := now\<rparr>) (sub_version sub))))"

definition transitionCommercial ::
  "cenv \<Rightarrow> string \<Rightarrow> commercial_state \<Rightarrow> string \<Rightarrow> runtime_intent cact" where
  "transitionCommercial env tenant0 target action =
     seqE (require_store env)
     (let tenant = TrimSpace tenant0 in
      if tenant = [] then throw (Err InvalidArgument ''tenant is required'')
      else
        bindE (service_now env) (\<lambda>now.
        let intent = \<lparr>ri_tenant = tenant, ri_action = action, ri_retain = True, ri_at = now\<rparr> in
        bindE (Commerce_Transact env
          (bindE (tx_get (GetCommercialAccount tenant)) (\<lambda>found.
           case found of
             None \<Rightarrow> throw (Err NotFound ''commercial account not found'')
           | Some account \<Rightarrow>
               if ca_state account = target then ret ()
               else
                 bindE (service_now env) (\<lambda>changed.
                 bindE (of_result (Account_Transition target changed account)) (\<lambda>account'.
                 seqE (tx_write (UpdateCommercialAccount account' (ca_version account)))
                 (seqE (follow_account env tenant target)
                   (record_change env tenant (''commerce.runtime_intent.'' @ action) tenant (JIntent intent))))))))
        (\<lambda>_. ret intent)))"

definition SetGrace :: "cenv \<Rightarrow> string \<Rightarrow> runtime_intent cact" where
  "SetGrace env tenant = transitionCommercial env tenant CommercialGrace ''retain''"

definition Suspend :: "cenv \<Rightarrow> string \<Rightarrow> runtime_intent cact" where
  "Suspend env tenant = transitionCommercial env tenant CommercialSuspended ''suspend''"

definition Resume :: "cenv \<Rightarrow> string \<Rightarrow> runtime_intent cact" where
  "Resume env tenant = transitionCommercial env tenant CommercialActive ''resume''"

section \<open>Reconciliation\<close>

definition trimReconcile :: "reconcile_command \<Rightarrow> reconcile_command" where
  "trimReconcile cmd =
     cmd\<lparr>rc_tenant := TrimSpace (rc_tenant cmd), rc_period := TrimSpace (rc_period cmd),
         rc_resource_type := TrimSpace (rc_resource_type cmd),
         rc_resource_id := TrimSpace (rc_resource_id cmd)\<rparr>"

text \<open>The usage a command is about: one meter of one resource, inside the window.\<close>

definition in_scope :: "reconcile_command \<Rightarrow> usage_event \<Rightarrow> bool" where
  "in_scope cmd e \<longleftrightarrow>
     ue_resource_type e = rc_resource_type cmd \<and> ue_resource_id e = rc_resource_id cmd \<and>
     ue_meter e = rc_meter cmd \<and> \<not> ue_window_start e < rc_window_start cmd \<and>
     \<not> ue_window_end e > rc_window_end cmd"

definition ledger_quantities :: "reconcile_command \<Rightarrow> commerce_data \<Rightarrow> int list" where
  "ledger_quantities cmd d =
     map ue_quantity (filter (in_scope cmd) (ListUsage (rc_tenant cmd) (rc_period cmd) d))"

definition correctionEvent :: "cenv \<Rightarrow> reconcile_command \<Rightarrow> int \<Rightarrow> usage_event" where
  "correctionEvent env cmd drift =
     \<lparr>ue_id = [], ue_tenant = rc_tenant cmd, ue_period = rc_period cmd,
      ue_resource_type = rc_resource_type cmd, ue_resource_id = rc_resource_id cmd,
      ue_meter = rc_meter cmd, ue_kind = UsageCorrection, ue_quantity = drift,
      ue_key = ''reconcile:'' @ fingerprint env (JReconcile cmd),
      ue_occurred_at = rc_window_end cmd, ue_window_start = rc_window_start cmd,
      ue_window_end = rc_window_end cmd, ue_metadata = [''source'' \<mapsto> ''allocation_reconciler''],
      ue_version = 0, ue_created_at = 0\<rparr>"

definition raiseAlert :: "cenv \<Rightarrow> reconcile_command \<Rightarrow> int \<Rightarrow> unit cact" where
  "raiseAlert env cmd drift =
     (if cv_threshold env > 0 \<and> abs64 drift > cv_threshold env then
        bindE (newID env ''alert'') (\<lambda>i.
        bindE (service_now env) (\<lambda>now.
          tx_write (AppendAlert
            \<lparr>al_id = i, al_tenant = rc_tenant cmd, al_period = rc_period cmd, al_meter = rc_meter cmd,
             al_resource_id = rc_resource_id cmd, al_reason = ''usage drift exceeds threshold'',
             al_drift = drift, al_created_at = now\<rparr>)))
      else ret ())"

definition reconcile_tx :: "cenv \<Rightarrow> reconcile_command \<Rightarrow> int cact" where
  "reconcile_tx env cmd =
     bindE (tx_get (ledger_quantities cmd)) (\<lambda>qs.
     case sum64 0 qs of
       None \<Rightarrow> throw (Err Overflow ''ledger quantity overflow'')
     | Some ledger \<Rightarrow>
         (case safeSub (rc_observed cmd) ledger of
            None \<Rightarrow> throw (Err Overflow ''reconciliation drift overflow'')
          | Some drift \<Rightarrow>
              if drift = 0 then ret drift
              else seqE (appendUsageTx env (correctionEvent env cmd drift))
                   (seqE (raiseAlert env cmd drift) (ret drift))))"

definition ReconcileUsage :: "cenv \<Rightarrow> reconcile_command \<Rightarrow> int cact" where
  "ReconcileUsage env cmd0 =
     seqE (require_store env)
     (let cmd = trimReconcile cmd0 in
      if rc_tenant cmd = [] \<or> rc_period cmd = [] \<or> rc_resource_type cmd = [] \<or>
         rc_resource_id cmd = [] \<or> \<not> ValidMeter (rc_meter cmd) \<or>
         \<not> rc_window_start cmd < rc_window_end cmd
        then throw (Err InvalidArgument ''reconciliation command is invalid'')
      else
        seqE (of_result (checkOwner env (rc_tenant cmd) (rc_resource_type cmd) (rc_resource_id cmd)
                ''resource ownership unavailable'' ''resource is not owned by tenant''))
        (Commerce_Transact env (reconcile_tx env cmd)))"

end
