(* ===== verification/Commerce_Effects.thy ===== *)
theory Commerce_Effects
  imports Commerce_Billing
begin

text \<open>
  What a call of the commerce service may do to the store: one effect per kind of change, with
  the guards the service has checked, and the lemma for each operation that it has no other
  effect. Invariants of the store are then proved effect by effect.
\<close>

section \<open>Effects\<close>

text \<open>
  One usage event is recorded: in an open billing period of its tenant that covers it, once per
  idempotency key, together with the record of that key and a journal entry.
\<close>

definition usable :: "usage_event \<Rightarrow> bool" where
  "usable e \<longleftrightarrow>
     ValidMeter (ue_meter e) \<and> ue_kind e \<in> {UsageStandard, UsageCredit, UsageCorrection} \<and>
     (ue_kind e = UsageStandard \<longrightarrow> 0 \<le> ue_quantity e) \<and> int64 (ue_quantity e)"

definition covers :: "billing_period \<Rightarrow> usage_event \<Rightarrow> bool" where
  "covers p e \<longleftrightarrow>
     bp_tenant p = ue_tenant e \<and> bp_start p \<le> ue_window_start e \<and>
     ue_window_start e < ue_window_end e \<and> ue_window_end e \<le> bp_end p \<and>
     bp_start p \<le> ue_occurred_at e \<and> ue_occurred_at e < bp_end p"

inductive usage_effect :: "commerce_data \<Rightarrow> commerce_data \<Rightarrow> bool" where
  usage_recorded:
    "GetBillingPeriod (ue_period e) d = Some p \<Longrightarrow> bp_state p = PeriodOpen \<Longrightarrow> covers p e \<Longrightarrow>
     usable e \<Longrightarrow>
     Commerce_GetIdempotency (ue_tenant e) ''usage'' (ue_key e) d = None \<Longrightarrow>
     InsertUsage e d = Inr d1 \<Longrightarrow>
     ci_tenant r = ue_tenant e \<Longrightarrow> ci_scope r = ''usage'' \<Longrightarrow> ci_key r = ue_key e \<Longrightarrow>
     ci_resource_id r = ue_id e \<Longrightarrow> InsertIdempotency r d1 = Inr d2 \<Longrightarrow>
     journaled (ue_tenant e) ''commerce.usage.appended'' (ue_id e) (JUsage e) d2 d3 \<Longrightarrow>
     usage_effect d d3"

text \<open>
  The parameter of \<open>commerce_effect\<close> is the set of instants at which quotas have been judged.
\<close>

inductive commerce_effect :: "gotime set \<Rightarrow> commerce_data \<Rightarrow> commerce_data \<Rightarrow> bool"
  for T :: "gotime set" where
  definition_created:
    "InsertPlanDefinition v d = Inr d1 \<Longrightarrow>
     journaled ''platform'' topic (pd_id v) (JDefinition v) d1 d2 \<Longrightarrow> commerce_effect T d d2"
| plan_created:
    "spec_typed spec \<Longrightarrow> NewPlanVersion u i def pol n spec ef now = Inr v \<Longrightarrow> InsertPlanVersion v d = Inr d1 \<Longrightarrow>
     journaled ''platform'' topic (pv_id v) payload d1 d2 \<Longrightarrow> commerce_effect T d d2"
| plan_changed:
    "GetPlanVersion i d = Some v \<Longrightarrow> plan_step v v' \<Longrightarrow> UpdatePlanVersion v' (pv_version v) d = Inr d1 \<Longrightarrow>
     journaled ''platform'' topic (pv_id v') payload d1 d2 \<Longrightarrow> commerce_effect T d d2"
| subscription_started:
    "GetPlanVersion i d = Some pv \<Longrightarrow> pv_state pv = PlanActive \<Longrightarrow>
     NewSubscription si tenant i st trial now = Inr sub \<Longrightarrow>
     NewBillingPeriod bi tenant si i start stop now = Inr period \<Longrightarrow>
     NewCommercialAccount tenant CommercialActive now = Inr account \<Longrightarrow>
     InsertSubscription sub d = Inr d1 \<Longrightarrow> InsertBillingPeriod period d1 = Inr d2 \<Longrightarrow>
     InsertCommercialAccount account d2 = Inr d3 \<Longrightarrow>
     journaled tenant topic (sub_id sub) payload d3 d4 \<Longrightarrow> commerce_effect T d d4"
| quota_reserved:
    "t \<in> T \<Longrightarrow> FindSubscriptionByTenant (qr_tenant q) d = Some sub \<Longrightarrow>
     GetPlanVersion (sub_plan_version_id sub) d = Some pv \<Longrightarrow>
     map_of (Quotas (pv_spec pv)) (qr_resource q) = Some limit \<Longrightarrow>
     qr_quantity q \<le> sub64 limit (activeQuota (qr_tenant q) (qr_resource q) t d) \<Longrightarrow>
     0 < qr_quantity q \<Longrightarrow> int64 (qr_quantity q) \<Longrightarrow> qr_state q = QuotaReserved \<Longrightarrow> qr_resource q \<noteq> [] \<Longrightarrow>
     InsertQuotaReservation q d = Inr d1 \<Longrightarrow>
     journaled (qr_tenant q) topic (qr_id q) payload d1 d2 \<Longrightarrow> commerce_effect T d d2"
| quota_changed:
    "t \<in> T \<Longrightarrow> GetQuotaReservation i d = Some q \<Longrightarrow>
     Quota_Commit t q = Inr q' \<or> Quota_Release t q = Inr q' \<Longrightarrow>
     UpdateQuotaReservation q' (qr_version q) d = Inr d1 \<Longrightarrow>
     journaled (qr_tenant q') topic (qr_id q') payload d1 d2 \<Longrightarrow> commerce_effect T d d2"
| usage_appended: "usage_effect\<^sup>*\<^sup>* d d' \<Longrightarrow> commerce_effect T d d'"
| account_moved:
    "GetCommercialAccount tenant d = Some a \<Longrightarrow> Account_Transition target now a = Inr a' \<Longrightarrow>
     UpdateCommercialAccount a' (ca_version a) d = Inr d1 \<Longrightarrow>
     (FindSubscriptionByTenant tenant d1 = None \<and> d2 = d1) \<or>
     (\<exists>s. FindSubscriptionByTenant tenant d1 = Some s \<and>
        UpdateSubscription (s\<lparr>sub_state := subscription_state_for target (sub_state s),
          sub_version := sub_version s + 1, sub_updated_at := now'\<rparr>) (sub_version s) d1 = Inr d2) \<Longrightarrow>
     journaled tenant topic tenant payload d2 d3 \<Longrightarrow> commerce_effect T d d3"
| usage_reconciled:
    "usage_effect\<^sup>*\<^sup>* d d1 \<Longrightarrow> AppendAlert al d1 = Inr d2 \<Longrightarrow> commerce_effect T d d2"

lemma commerce_effect_mono: "commerce_effect T d d' \<Longrightarrow> T \<subseteq> T' \<Longrightarrow> commerce_effect T' d d'"
  by (induction rule: commerce_effect.induct) (blast intro: commerce_effect.intros)+

lemma commerce_effect_refl: "commerce_effect T d d"
  by (rule usage_appended) simp

section \<open>Steps of a transaction\<close>

text \<open>A transaction that ends with its journal entry.\<close>

lemma triple_journal:
  "(\<And>d'. journaled tenant topic aggregate payload d0 d' \<Longrightarrow> Q d') \<Longrightarrow>
   triple (\<lambda>d. d = d0) (record_change env tenant topic aggregate payload) (\<lambda>_. Q)"
  by (rule triple_record) blast

lemma triple_journal_ret:
  "(\<And>d'. journaled tenant topic aggregate payload d0 d' \<Longrightarrow> Q a d') \<Longrightarrow>
   triple (\<lambda>d. d = d0) (seqE (record_change env tenant topic aggregate payload) (ret a)) Q"
  by (rule triple_seq[where R = "\<lambda>d. Q a d"]) (auto intro: triple_journal triple_ret)

lemmas triple_steps = triple_get triple_insert triple_journal triple_journal_ret triple_throw
  triple_bind_now triple_bind_newID triple_bind_result

lemma service_effect:
  assumes "\<And>d0. triple (\<lambda>d. d = d0) fn (\<lambda>_. commerce_effect T d0)"
  shows "service (commerce_effect T) (Commerce_Transact env fn)"
  by (rule service_Transact) (rule triple_post[OF assms], simp)

lemmas service_steps = service_require service_bind_now service_bind_result service_bind_ret
  service_ret service_throw service_if service_let

section \<open>Plans and subscriptions\<close>

lemma CreatePlanDefinition_effect: "service (commerce_effect T) (CreatePlanDefinition env i n)"
  unfolding CreatePlanDefinition_def
  by (intro service_steps service_Transact triple_steps disjI2) (rule definition_created)

lemma CreatePlanVersion_effect: "spec_typed (cp_spec cmd) \<Longrightarrow> service (commerce_effect T) (CreatePlanVersion env cmd)"
  unfolding CreatePlanVersion_def
  by (intro service_steps service_Transact triple_steps triple_if disjI2) (rule plan_created)

lemma transition_plan_step: "(if b then Activate now v else Disable now v) = Inr v' \<Longrightarrow> plan_step v v'"
  by (auto intro: plan_step.intros split: if_splits)

lemma transitionPlan_effect: "service (commerce_effect T) (transitionPlan env i action)"
  unfolding transitionPlan_def
  by (intro service_steps service_Transact triple_steps triple_branches disjI2)
    (rule plan_changed, assumption, rule transition_plan_step, assumption+)

lemma ReplacePlanSpec_effect: "spec_typed spec \<Longrightarrow> service (commerce_effect T) (ReplacePlanSpec env i spec)"
  unfolding ReplacePlanSpec_def
  by (intro service_steps service_Transact triple_steps triple_branches disjI2)
    (rule plan_changed, assumption, rule replace_spec, assumption+)

lemma StartSubscription_effect: "service (commerce_effect T) (StartSubscription env cmd)"
  unfolding StartSubscription_def
  by (intro service_steps service_Transact triple_steps triple_branches disjI2)
    (rule subscription_started, auto)

section \<open>Quotas\<close>

lemma triple_read_only: "triple (\<lambda>d. d = d0) (tx_read f) (\<lambda>_ d. d = d0)"
  by (auto simp: triple_def tx_read_def)

lemma service_read: "service R (Commerce_Transact env (tx_read f))"
  by (rule service_Transact) (rule triple_post[OF triple_read_only], simp)

lemma service_bind_instant:
  "(\<And>t. service R (k t)) \<Longrightarrow> service R (bindE (if b then service_now env else ret x) k)"
  by (cases b) (auto intro: service_bind_now)

lemma Check_effect: "service R (Check env req)"
  unfolding Check_def
  by (intro service_require service_let service_if service_throw service_bind_instant service_read)

lemma CheckAs_effect: "service R (CheckAs env actor req)"
  unfolding CheckAs_def by (intro service_if service_throw Check_effect)

lemma NewQuotaReservation_fields:
  "NewQuotaReservation i tenant r p k fp n e now = Inr q \<Longrightarrow>
   qr_tenant q = TrimSpace tenant \<and> qr_resource q = TrimSpace r \<and> qr_quantity q = n \<and> 0 < n \<and>
   qr_state q = QuotaReserved \<and> qr_resource q \<noteq> [] \<and> qr_tenant q \<noteq> [] \<and> qr_key q = TrimSpace k \<and>
   qr_fingerprint q = fp \<and> qr_expires_at q = e \<and> now < e \<and> qr_id q = TrimSpace i"
  by (auto simp: NewQuotaReservation_def split: if_splits)

lemma Reserve_tx_effect:
  assumes "TrimSpace (qq_tenant req) = qq_tenant req" and "TrimSpace (qq_resource req) = qq_resource req"
    and "int64 (qq_quantity req)" and "t \<in> T"
  shows "triple (\<lambda>d. d = d0) (Reserve_tx env req t fp) (\<lambda>_ d. d = d0 \<or> commerce_effect T d0 d)"
  unfolding Reserve_tx_def
proof (intro triple_steps triple_branches triple_stay disjI2, goal_cases)
  case (1 sub account pv limit i q d1 d')
  note new = NewQuotaReservation_fields[OF 1(8)]
  show ?case
    by (rule quota_reserved[OF assms(4), of q d0 sub pv limit d1]) (use 1 new assms in auto)
qed (rule commerce_effect_refl)

lemma int64_Reserve_request [simp]:
  "qq_quantity (Reserve_request req) = qq_quantity req" "qq_at (Reserve_request req) = qq_at req"
  "TrimSpace (qq_tenant (Reserve_request req)) = qq_tenant (Reserve_request req)"
  "TrimSpace (qq_resource (Reserve_request req)) = qq_resource (Reserve_request req)"
  by (simp_all add: Reserve_request_def)

lemma Reserve_effect: "int64 (qq_quantity req) \<Longrightarrow> service (commerce_effect UNIV) (Reserve env req)"
  unfolding Reserve_def
  by (intro service_require service_let service_if service_throw service_bind_instant service_Transact)
    (auto intro!: Reserve_tx_effect)

lemma changeQuota_effect:
  assumes "GetQuotaReservation i d0 = Some q" and "t \<in> T"
  shows "triple (\<lambda>d. d = d0) (changeQuota env commit q t) (\<lambda>_. commerce_effect T d0)"
  unfolding changeQuota_def
proof (intro triple_steps triple_branches triple_stay commerce_effect_refl, goal_cases)
  case (1 q' d1 d')
  show ?case
    by (rule quota_changed[of t T i d0 q q' d1]) (use 1 assms in \<open>auto split: if_splits\<close>)
qed

lemma transitionQuota_effect: "service (commerce_effect UNIV) (transitionQuota env i commit)"
  unfolding transitionQuota_def
  by (intro service_require service_effect triple_get triple_branches triple_throw triple_bind_now
      changeQuota_effect) simp_all

section \<open>Usage\<close>

text \<open>Appending changes the ledger by at most one event; the build loop by several.\<close>

lemma recordUsage_effect:
  assumes "GetBillingPeriod (ue_period e) d0 = Some p" and "bp_state p = PeriodOpen"
    and "covers p e" and "usable e"
  shows "triple (\<lambda>d. d = d0) (recordUsage env e) (\<lambda>_. usage_effect\<^sup>*\<^sup>* d0)"
  unfolding recordUsage_def Let_def
proof (intro triple_steps triple_branches triple_stay, goal_cases)
  case (1 i created d1 now d2 d')
  show ?case
    by (rule r_into_rtranclp, rule usage_recorded[where e = "e\<lparr>ue_id := i, ue_created_at := created, ue_version := 1\<rparr>" and p = p])
      (use 1 assms in \<open>auto simp: covers_def usable_def\<close>)
qed simp

lemma choosePeriod_run:
  "triple (\<lambda>d. d = d0) (choosePeriod e)
     (\<lambda>e' d. d = d0 \<and> (\<exists>i. e' = e\<lparr>ue_period := i\<rparr>))"
  unfolding choosePeriod_def
  by (intro triple_steps triple_branches triple_stay) (auto intro: exI[of _ "ue_period e"])

lemma appendUsageTx_effect:
  assumes "usable e"
  shows "triple (\<lambda>d. d = d0) (appendUsageTx env e) (\<lambda>_. usage_effect\<^sup>*\<^sup>* d0)"
  unfolding appendUsageTx_def
proof (rule triple_bind[OF choosePeriod_run], rule triple_fact)
  fix e' assume "\<exists>i. e' = e\<lparr>ue_period := i\<rparr>"
  with assms have u: "usable e'" by (auto simp: usable_def)
  show "triple (\<lambda>d. d = d0)
     (bindE (tx_get (GetBillingPeriod (ue_period e'))) (\<lambda>found.
       case found of
         None \<Rightarrow> throw (Err NotFound ''billing period not found'')
       | Some period \<Rightarrow>
           if bp_tenant period \<noteq> ue_tenant e'
             then throw (Err PermissionDenied ''billing period belongs to another tenant'')
           else if \<not> AcceptsUsage (ue_window_start e') (ue_window_end e') period \<or>
                   \<not> Contains (ue_occurred_at e') period
             then throw (Err InvalidArgument ''usage is outside billing period'')
           else recordUsage env e'))
     (\<lambda>_. usage_effect\<^sup>*\<^sup>* d0)"
    by (intro triple_steps triple_branches recordUsage_effect)
      (use u in \<open>auto simp: AcceptsUsage_def Contains_def covers_def\<close>)
qed

text \<open>From any state that usage effects lead to, further ones do.\<close>

lemma triple_usage_more:
  assumes "\<And>d. triple (\<lambda>x. x = d) m (\<lambda>_. usage_effect\<^sup>*\<^sup>* d)"
  shows "triple (usage_effect\<^sup>*\<^sup>* d0) m (\<lambda>_. usage_effect\<^sup>*\<^sup>* d0)"
  unfolding triple_def
proof (intro allI impI)
  fix w :: cworld and a w' assume "usage_effect\<^sup>*\<^sup>* d0 (db w)" and "m w = (Inr a, w')"
  with assms[of "db w"] show "usage_effect\<^sup>*\<^sup>* d0 (db w')" by (auto dest!: tripleD)
qed

lemma build_loop_effect:
  "\<forall>(m, q)\<in>set items. ValidMeter m \<and> 0 \<le> q \<and> int64 q \<Longrightarrow>
   triple (usage_effect\<^sup>*\<^sup>* d0) (build_loop env b period items) (\<lambda>_. usage_effect\<^sup>*\<^sup>* d0)"
proof (induction items)
  case (Cons item items)
  obtain m q where item: "item = (m, q)" by (cases item)
  with Cons.prems have "usable (buildEvent b period m q)" by (simp add: usable_def buildEvent_def)
  then have "triple (usage_effect\<^sup>*\<^sup>* d0) (appendUsageTx env (buildEvent b period m q)) (\<lambda>_. usage_effect\<^sup>*\<^sup>* d0)"
    by (intro triple_usage_more appendUsageTx_effect)
  with Cons item show ?case by (auto intro: triple_seq)
qed (simp add: triple_ret)

lemma usage_service:
  assumes "\<And>d0. triple (\<lambda>d. d = d0) m (\<lambda>_. usage_effect\<^sup>*\<^sup>* d0)"
  shows "service (commerce_effect T) (Commerce_Transact env m)"
  by (rule service_Transact) (auto intro: triple_post[OF assms] usage_appended)

text \<open>\<open>normalizeUsage\<close> leaves the store alone and returns a usable event.\<close>

lemma trimUsage_quantity [simp]: "ue_quantity (trimUsage e) = ue_quantity e"
  by (simp add: trimUsage_def)

lemma normalizeUsage_run:
  assumes "normalizeUsage env e w = (r, w')" and "int64 (ue_quantity e)"
  shows "db w' = db w \<and>
    (\<forall>e'. r = Inr e' \<longrightarrow> (\<exists>t. e' = (trimUsage e)\<lparr>ue_occurred_at := t\<rparr>) \<and> usable e')"
proof -
  have self: "\<exists>t. x = x\<lparr>ue_occurred_at := t\<rparr>" for x :: usage_event
    by (rule exI[of _ "ue_occurred_at x"]) simp
  show ?thesis
    using assms self[of "trimUsage e"] unfolding normalizeUsage_def Let_def
    by (cases "IsZero (ue_occurred_at (trimUsage e))")
      (auto simp: act_simps usable_def split: if_splits sum.splits)
qed

lemma Append_effect: "int64 (ue_quantity event) \<Longrightarrow> service (commerce_effect T) (Append env event)"
  unfolding Append_def
proof (rule service_require, rule serviceI)
  assume q: "int64 (ue_quantity event)"
  let ?m = "bindE (normalizeUsage env event) (\<lambda>n. Commerce_Transact env (appendUsageTx env n))"
  have s: "service (commerce_effect T) (Commerce_Transact env (appendUsageTx env n))" if "usable n" for n
    using that by (intro usage_service appendUsageTx_effect)
  fix w w'
  obtain r w1 where n: "normalizeUsage env event w = (r, w1)" by fastforce
  note run = normalizeUsage_run[OF n q]
  show "db w' = db w" if "?m w = (Inl x, w')" for x
    using that n run s service_error[OF s, of _ w1 x w'] by (cases r) (auto simp: bindE_def)
  show "db w' = db w \<or> commerce_effect T (db w) (db w')" if "?m w = (Inr x, w')" for x
    using that n run service_change[OF s, of _ w1 x w'] by (cases r) auto
qed

lemma service_check_owner:
  "service R m \<Longrightarrow> service R (seqE (of_result (checkOwner env a b c d e)) m)"
  unfolding seqE_def by (rule service_bind_result)

lemma RecordBuildUsage_effect:
  "int64 (bu_cpu_seconds b) \<Longrightarrow> int64 (bu_memory_gib_seconds b) \<Longrightarrow> int64 (bu_docker_vm_seconds b) \<Longrightarrow>
   service (commerce_effect T) (RecordBuildUsage env b)"
  unfolding RecordBuildUsage_def
  by (intro service_require service_if service_ret service_throw service_check_owner usage_service
      triple_steps triple_branches triple_stay rtranclp.rtrancl_refl
      triple_pre[OF build_loop_effect])
    (auto simp: meter_defs)

section \<open>Invoices, accounts and reconciliation\<close>

lemma PreviewInvoice_effect: "service R (PreviewInvoice env tenant period)"
  unfolding PreviewInvoice_def
  by (intro service_require service_if service_throw service_read)

lemma follow_account_effect:
  "triple (\<lambda>d. d = d1) (follow_account env tenant target) (\<lambda>_ d2.
     (FindSubscriptionByTenant tenant d1 = None \<and> d2 = d1) \<or>
     (\<exists>s now'. FindSubscriptionByTenant tenant d1 = Some s \<and>
        UpdateSubscription (s\<lparr>sub_state := subscription_state_for target (sub_state s),
          sub_version := sub_version s + 1, sub_updated_at := now'\<rparr>) (sub_version s) d1 = Inr d2))"
  unfolding follow_account_def
  by (intro triple_steps triple_branches triple_stay)
    (auto simp: triple_def tx_write_def split: sum.splits)

lemma move_account_effect:
  assumes "GetCommercialAccount tenant d0 = Some a" and "Account_Transition target now a = Inr a'"
    and "UpdateCommercialAccount a' (ca_version a) d0 = Inr d1"
  shows "triple (\<lambda>d. d = d1)
     (seqE (follow_account env tenant target) (record_change env tenant topic tenant payload))
     (\<lambda>_. commerce_effect T d0)"
proof (rule triple_seq[OF follow_account_effect], rule triple_record, elim disjE conjE exE)
  fix d d' assume j: "journaled tenant topic tenant payload d d'"
  show "commerce_effect T d0 d'" if "FindSubscriptionByTenant tenant d1 = None" and "d = d1"
    using account_moved[OF assms _ j] that by blast
  show "commerce_effect T d0 d'" if "FindSubscriptionByTenant tenant d1 = Some s"
    and "UpdateSubscription (s\<lparr>sub_state := subscription_state_for target (sub_state s),
          sub_version := sub_version s + 1, sub_updated_at := now'\<rparr>) (sub_version s) d1 = Inr d" for s now'
    using account_moved[OF assms _ j] that by blast
qed

lemma transitionCommercial_effect: "service (commerce_effect T) (transitionCommercial env tenant target action)"
  unfolding transitionCommercial_def Let_def
  by (intro service_require service_if service_throw service_bind_now service_bind_ret service_effect
      triple_steps triple_branches triple_stay commerce_effect_refl move_account_effect)

lemma raiseAlert_effect:
  "triple (usage_effect\<^sup>*\<^sup>* d0) (raiseAlert env cmd drift) (\<lambda>_. commerce_effect T d0)"
  unfolding raiseAlert_def
proof (intro triple_if triple_bind_now triple_bind_newID)
  fix al show "triple (usage_effect\<^sup>*\<^sup>* d0) (tx_write (AppendAlert al)) (\<lambda>_. commerce_effect T d0)"
    by (rule triple_write) (rule usage_reconciled)
qed (auto intro: triple_ret usage_appended)

lemma usable_correction:
  "ValidMeter (rc_meter cmd) \<Longrightarrow> int64 drift \<Longrightarrow> usable (correctionEvent env cmd drift)"
  by (simp add: usable_def correctionEvent_def kind_defs)

lemma reconcile_tx_effect:
  assumes "ValidMeter (rc_meter cmd)"
  shows "triple (\<lambda>d. d = d0) (reconcile_tx env cmd) (\<lambda>_. commerce_effect T d0)"
  unfolding reconcile_tx_def
proof (intro triple_get triple_branches triple_throw triple_stay commerce_effect_refl)
  fix drift ledger assume "safeSub (rc_observed cmd) ledger = Some drift"
  then have "int64 drift" by (rule safeSub_int64)
  note usable = usable_correction[OF assms this]
  show "triple (\<lambda>d. d = d0)
      (seqE (appendUsageTx env (correctionEvent env cmd drift)) (seqE (raiseAlert env cmd drift) (ret drift)))
      (\<lambda>_. commerce_effect T d0)"
    by (rule triple_seq[OF appendUsageTx_effect[OF usable]],
        rule triple_seq[OF raiseAlert_effect]) (rule triple_ret)
qed

lemma ReconcileUsage_effect: "service (commerce_effect T) (ReconcileUsage env cmd)"
  unfolding ReconcileUsage_def Let_def
  by (intro service_require service_if service_throw service_check_owner service_effect
      reconcile_tx_effect) simp

section \<open>Calls of the service\<close>

datatype commerce_call =
    CallCreatePlanDefinition string string
  | CallCreatePlanVersion create_plan_version_command
  | CallActivatePlanVersion string
  | CallDisablePlanVersion string
  | CallReplacePlanSpec string plan_spec
  | CallStartSubscription start_subscription_command
  | CallCheckAs string entitlement_request
  | CallCheck entitlement_request
  | CallReserve quota_request
  | CallCommit string
  | CallRelease string
  | CallAppend usage_event
  | CallRecordBuildUsage build_usage
  | CallPreviewInvoice string string
  | CallSetGrace string
  | CallSuspend string
  | CallResume string
  | CallReconcileUsage reconcile_command

text \<open>A call, with its result left out.\<close>

definition quiet :: "'a cact \<Rightarrow> unit cact" where
  "quiet m = bindE m (\<lambda>_. ret ())"

fun perform :: "cenv \<Rightarrow> commerce_call \<Rightarrow> unit cact" where
  "perform env (CallCreatePlanDefinition i n) = quiet (CreatePlanDefinition env i n)"
| "perform env (CallCreatePlanVersion cmd) = quiet (CreatePlanVersion env cmd)"
| "perform env (CallActivatePlanVersion i) = quiet (ActivatePlanVersion env i)"
| "perform env (CallDisablePlanVersion i) = quiet (DisablePlanVersion env i)"
| "perform env (CallReplacePlanSpec i spec) = quiet (ReplacePlanSpec env i spec)"
| "perform env (CallStartSubscription cmd) = quiet (StartSubscription env cmd)"
| "perform env (CallCheckAs actor req) = quiet (CheckAs env actor req)"
| "perform env (CallCheck req) = quiet (Check env req)"
| "perform env (CallReserve req) = quiet (Reserve env req)"
| "perform env (CallCommit i) = Commit env i"
| "perform env (CallRelease i) = Release env i"
| "perform env (CallAppend e) = Append env e"
| "perform env (CallRecordBuildUsage b) = RecordBuildUsage env b"
| "perform env (CallPreviewInvoice t p) = quiet (PreviewInvoice env t p)"
| "perform env (CallSetGrace t) = quiet (SetGrace env t)"
| "perform env (CallSuspend t) = quiet (Suspend env t)"
| "perform env (CallResume t) = quiet (Resume env t)"
| "perform env (CallReconcileUsage cmd) = quiet (ReconcileUsage env cmd)"

text \<open>The arguments have the types of the code: quantities are \<open>int64\<close>.\<close>

fun typed_call :: "commerce_call \<Rightarrow> bool" where
  "typed_call (CallCreatePlanVersion cmd) \<longleftrightarrow> spec_typed (cp_spec cmd)"
| "typed_call (CallReplacePlanSpec i spec) \<longleftrightarrow> spec_typed spec"
| "typed_call (CallReserve req) \<longleftrightarrow> int64 (qq_quantity req)"
| "typed_call (CallAppend e) \<longleftrightarrow> int64 (ue_quantity e)"
| "typed_call (CallRecordBuildUsage b) \<longleftrightarrow>
     int64 (bu_cpu_seconds b) \<and> int64 (bu_memory_gib_seconds b) \<and> int64 (bu_docker_vm_seconds b)"
| "typed_call (CallReconcileUsage cmd) \<longleftrightarrow> int64 (rc_observed cmd)"
| "typed_call _ \<longleftrightarrow> True"

lemma service_quiet: "service R m \<Longrightarrow> service R (quiet m)"
  unfolding quiet_def by (rule service_bind_ret)

lemma perform_effect: "typed_call c \<Longrightarrow> service (commerce_effect UNIV) (perform env c)"
  by (cases c)
    (simp_all add: service_quiet CreatePlanDefinition_effect CreatePlanVersion_effect
      ActivatePlanVersion_def DisablePlanVersion_def transitionPlan_effect ReplacePlanSpec_effect
      StartSubscription_effect CheckAs_effect Check_effect Reserve_effect Commit_def Release_def
      transitionQuota_effect Append_effect RecordBuildUsage_effect PreviewInvoice_effect
      SetGrace_def Suspend_def Resume_def transitionCommercial_effect ReconcileUsage_effect)

text \<open>
  A step is a call of a service with the given clock, whatever its other fields are and whatever
  it returns.
\<close>

definition commerce_step ::
  "(nat \<Rightarrow> gotime) \<Rightarrow> (commerce_call \<Rightarrow> bool) \<Rightarrow> cworld \<Rightarrow> cworld \<Rightarrow> bool" where
  "commerce_step clock A w w' \<longleftrightarrow>
     (\<exists>env c. cv_clock env = clock \<and> typed_call c \<and> A c \<and> w' = snd (perform env c w))"

lemma step_effect: "commerce_step clock A w w' \<Longrightarrow> commerce_effect UNIV (db w) (db w')"
  unfolding commerce_step_def using serviceD[OF perform_effect] commerce_effect_refl by metis

lemma run_effects: "(commerce_step clock A)\<^sup>*\<^sup>* w w' \<Longrightarrow> (commerce_effect UNIV)\<^sup>*\<^sup>* (db w) (db w')"
  by (induction rule: rtranclp_induct) (auto intro: rtranclp.rtrancl_into_rtrancl step_effect)

end
