(* ===== verification/Commerce_Invariants.thy ===== *)
theory Commerce_Invariants
  imports Commerce_Effects
begin

text \<open>
  The invariant of the commerce store, table by table, and its proof effect by effect.
\<close>

section \<open>Writes as equations\<close>

lemma InsertPlanDefinition_Inr: "InsertPlanDefinition v d = Inr d1 \<longleftrightarrow>
    definitions d (pd_id v) = None \<and> d1 = d\<lparr>definitions := (definitions d)(pd_id v \<mapsto> v)\<rparr>"
  by (auto simp: InsertPlanDefinition_def split: option.splits)

lemma InsertPlanVersion_Inr: "InsertPlanVersion v d = Inr d1 \<longleftrightarrow>
    map_of (versions d) (pv_id v) = None \<and> d1 = d\<lparr>versions := AList.update (pv_id v) v (versions d)\<rparr>"
  by (auto simp: InsertPlanVersion_def split: option.splits)

lemma UpdatePlanVersion_Inr: "UpdatePlanVersion v n d = Inr d1 \<Longrightarrow>
    \<exists>old. map_of (versions d) (pv_id v) = Some old \<and> pv_version old = n \<and>
      d1 = d\<lparr>versions := AList.update (pv_id v) v (versions d)\<rparr>"
  by (auto simp: UpdatePlanVersion_def split: option.splits if_splits)

lemma InsertSubscription_Inr: "InsertSubscription v d = Inr d1 \<longleftrightarrow>
    map_of (subscriptions d) (sub_id v) = None \<and>
    d1 = d\<lparr>subscriptions := AList.update (sub_id v) v (subscriptions d)\<rparr>"
  by (auto simp: InsertSubscription_def split: option.splits)

lemma UpdateSubscription_Inr: "UpdateSubscription v n d = Inr d1 \<longleftrightarrow>
    (\<exists>old. map_of (subscriptions d) (sub_id v) = Some old \<and> sub_version old = n) \<and>
    d1 = d\<lparr>subscriptions := AList.update (sub_id v) v (subscriptions d)\<rparr>"
  by (auto simp: UpdateSubscription_def split: option.splits if_splits)

lemma InsertBillingPeriod_Inr: "InsertBillingPeriod v d = Inr d1 \<longleftrightarrow>
    map_of (periods d) (bp_id v) = None \<and>
    (\<forall>(_, p)\<in>set (periods d). bp_subscription_id p = bp_subscription_id v \<longrightarrow> \<not> overlaps v p) \<and>
    d1 = d\<lparr>periods := AList.update (bp_id v) v (periods d)\<rparr>"
  by (auto simp: InsertBillingPeriod_def list_ex_iff split: option.splits)

lemma InsertCommercialAccount_Inr: "InsertCommercialAccount v d = Inr d1 \<longleftrightarrow>
    accounts d (ca_tenant v) = None \<and> d1 = d\<lparr>accounts := (accounts d)(ca_tenant v \<mapsto> v)\<rparr>"
  by (auto simp: InsertCommercialAccount_def split: option.splits)

lemma UpdateCommercialAccount_Inr: "UpdateCommercialAccount v n d = Inr d1 \<longleftrightarrow>
    (\<exists>old. accounts d (ca_tenant v) = Some old \<and> ca_version old = n) \<and>
    d1 = d\<lparr>accounts := (accounts d)(ca_tenant v \<mapsto> v)\<rparr>"
  by (auto simp: UpdateCommercialAccount_def split: option.splits if_splits)

lemma InsertQuotaReservation_Inr: "InsertQuotaReservation v d = Inr d1 \<longleftrightarrow>
    map_of (quotas d) (qr_id v) = None \<and> FindQuotaReservation (qr_tenant v) (qr_key v) d = None \<and>
    d1 = d\<lparr>quotas := AList.update (qr_id v) v (quotas d)\<rparr>"
  by (auto simp: InsertQuotaReservation_def split: option.splits)

lemma UpdateQuotaReservation_Inr: "UpdateQuotaReservation v n d = Inr d1 \<longleftrightarrow>
    (\<exists>old. map_of (quotas d) (qr_id v) = Some old \<and> qr_version old = n) \<and>
    d1 = d\<lparr>quotas := AList.update (qr_id v) v (quotas d)\<rparr>"
  by (auto simp: UpdateQuotaReservation_def split: option.splits if_splits)

lemma InsertUsage_Inr: "InsertUsage v d = Inr d1 \<longleftrightarrow>
    map_of (usage d) (usageKey (ue_tenant v) (ue_key v)) = None \<and>
    d1 = d\<lparr>usage := AList.update (usageKey (ue_tenant v) (ue_key v)) v (usage d)\<rparr>"
  by (auto simp: InsertUsage_def Let_def split: option.splits)

lemma InsertIdempotency_Inr: "InsertIdempotency v d = Inr d1 \<longleftrightarrow>
    idempotency_records d (idemKey (ci_tenant v) (ci_scope v) (ci_key v)) = None \<and>
    d1 = d\<lparr>idempotency_records :=
      (idempotency_records d)(idemKey (ci_tenant v) (ci_scope v) (ci_key v) \<mapsto> v)\<rparr>"
  by (auto simp: InsertIdempotency_def Let_def split: option.splits)

lemma AppendAlert_Inr: "AppendAlert v d = Inr d1 \<longleftrightarrow> d1 = d\<lparr>alerts := alerts d @ [v]\<rparr>"
  by (auto simp: AppendAlert_def)

lemmas write_Inr = InsertPlanDefinition_Inr InsertPlanVersion_Inr InsertSubscription_Inr
  UpdateSubscription_Inr InsertBillingPeriod_Inr InsertCommercialAccount_Inr
  UpdateCommercialAccount_Inr InsertQuotaReservation_Inr UpdateQuotaReservation_Inr
  InsertUsage_Inr InsertIdempotency_Inr AppendAlert_Inr

lemma journaled_tables:
  "journaled tenant topic aggregate payload d d' \<Longrightarrow>
   definitions d' = definitions d \<and> versions d' = versions d \<and> subscriptions d' = subscriptions d \<and>
   periods d' = periods d \<and> accounts d' = accounts d \<and> quotas d' = quotas d \<and> usage d' = usage d \<and>
   idempotency_records d' = idempotency_records d \<and> alerts d' = alerts d"
  by (auto simp: journaled_def)

section \<open>What the store looks like from the tables\<close>

lemma newest_loop_Some:
  "newest_loop tenant found subs = Some s \<Longrightarrow>
   found = Some s \<or> (\<exists>i. (i, s) \<in> set subs) \<and> sub_tenant s = tenant"
proof (induction tenant found subs rule: newest_loop.induct)
  case (2 tenant found i v rest)
  then show ?case by (auto split: if_splits)
qed simp

lemma newest_loop_None:
  "newest_loop tenant found subs = None \<Longrightarrow> found = None \<and> (\<forall>(i, s)\<in>set subs. sub_tenant s \<noteq> tenant)"
proof (induction tenant found subs rule: newest_loop.induct)
  case (2 tenant found i v rest)
  then show ?case by (cases found) (auto split: if_splits)
qed simp

lemma newest_loop_skip:
  "\<forall>(i, s)\<in>set subs. sub_tenant s \<noteq> tenant \<Longrightarrow> newest_loop tenant found subs = found"
  by (induction subs) auto

lemma FindSubscription_Some:
  "wf_map (subscriptions d) \<Longrightarrow> FindSubscriptionByTenant tenant d = Some s \<Longrightarrow>
   sub_tenant s = tenant \<and> (\<exists>i. map_of (subscriptions d) i = Some s)"
  by (auto simp: FindSubscriptionByTenant_def dest!: newest_loop_Some)

lemma FindSubscription_None:
  "FindSubscriptionByTenant tenant d = None \<Longrightarrow> map_of (subscriptions d) i = Some s \<Longrightarrow>
   sub_tenant s \<noteq> tenant"
  by (auto simp: FindSubscriptionByTenant_def dest!: newest_loop_None map_of_SomeD)

lemma FindQuota_None:
  "FindQuotaReservation tenant key d = None \<Longrightarrow> map_of (quotas d) i = Some q \<Longrightarrow>
   \<not> (qr_tenant q = tenant \<and> qr_key q = key)"
  by (fastforce simp: FindQuotaReservation_def find_None_iff dest: map_of_SomeD)

section \<open>The invariant\<close>

text \<open>
  Every plan version is stored under its own identifier, names a policy and has a valid
  specification.
\<close>

definition plan_row :: "string \<Rightarrow> plan_version \<Rightarrow> bool" where
  "plan_row i v \<longleftrightarrow> pv_id v = i \<and> TrimSpace i = i \<and> plan_valid v \<and>
     TrimSpace (pv_policy_version v) = pv_policy_version v \<and> pv_policy_version v \<noteq> []"

definition plans_ok :: "(string \<times> plan_version) list \<Rightarrow> bool" where
  "plans_ok vs \<longleftrightarrow> wf_map vs \<and> rows plan_row (map_of vs)"

text \<open>
  A tenant has at most one subscription, on a plan version that is out of the draft state, and
  a commercial account.
\<close>

definition published :: "(string \<rightharpoonup> plan_version) \<Rightarrow> string \<Rightarrow> bool" where
  "published vs i \<longleftrightarrow> (\<exists>v. vs i = Some v \<and> pv_state v \<noteq> PlanDraft)"

definition subscription_row ::
  "(string \<rightharpoonup> plan_version) \<Rightarrow> (string \<rightharpoonup> commercial_account) \<Rightarrow> string \<Rightarrow> subscription \<Rightarrow> bool" where
  "subscription_row vs accs i s \<longleftrightarrow>
     sub_id s = i \<and> accs (sub_tenant s) \<noteq> None \<and> published vs (sub_plan_version_id s)"

definition tenants_ok ::
  "(string \<times> plan_version) list \<Rightarrow> (string \<rightharpoonup> commercial_account) \<Rightarrow> (string \<times> subscription) list \<Rightarrow> bool" where
  "tenants_ok vs accs subs \<longleftrightarrow> wf_map subs \<and> rows (subscription_row (map_of vs) accs) (map_of subs) \<and>
     apart (\<lambda>s t. sub_tenant s \<noteq> sub_tenant t) (map_of subs)"

text \<open>Billing periods are not empty, and those of one subscription do not overlap.\<close>

definition period_row :: "string \<Rightarrow> billing_period \<Rightarrow> bool" where
  "period_row i p \<longleftrightarrow> bp_id p = i \<and> bp_start p < bp_end p"

definition periods_ok :: "(string \<times> billing_period) list \<Rightarrow> bool" where
  "periods_ok ps \<longleftrightarrow> wf_map ps \<and> rows period_row (map_of ps) \<and>
     apart (\<lambda>p q. bp_subscription_id p = bp_subscription_id q \<longrightarrow> \<not> overlaps p q) (map_of ps)"

text \<open>A reservation is positive, of a subscribed tenant, and alone under its idempotency key.\<close>

definition subscribed :: "(string \<rightharpoonup> subscription) \<Rightarrow> string \<Rightarrow> bool" where
  "subscribed subs tenant \<longleftrightarrow> (\<exists>i s. subs i = Some s \<and> sub_tenant s = tenant)"

definition quota_row :: "(string \<rightharpoonup> subscription) \<Rightarrow> string \<Rightarrow> quota_reservation \<Rightarrow> bool" where
  "quota_row subs i q \<longleftrightarrow> qr_id q = i \<and> 0 < qr_quantity q \<and> int64 (qr_quantity q) \<and>
     qr_resource q \<noteq> [] \<and> subscribed subs (qr_tenant q)"

definition quotas_ok :: "(string \<times> subscription) list \<Rightarrow> (string \<times> quota_reservation) list \<Rightarrow> bool" where
  "quotas_ok subs qs \<longleftrightarrow> wf_map qs \<and> rows (quota_row (map_of subs)) (map_of qs) \<and>
     apart (\<lambda>p q. \<not> (qr_tenant p = qr_tenant q \<and> qr_key p = qr_key q)) (map_of qs)"

text \<open>
  A usage event is stored under its tenant and key, lies in a billing period of its tenant, and
  is the resource of the idempotency record of its key.
\<close>

definition usage_row ::
  "(string \<rightharpoonup> billing_period) \<Rightarrow> (string \<rightharpoonup> commerce_idempotency) \<Rightarrow> string \<Rightarrow> usage_event \<Rightarrow> bool" where
  "usage_row ps idem k e \<longleftrightarrow> k = usageKey (ue_tenant e) (ue_key e) \<and> usable e \<and>
     (\<exists>p. ps (ue_period e) = Some p \<and> covers p e) \<and>
     (\<exists>r. idem (idemKey (ue_tenant e) ''usage'' (ue_key e)) = Some r \<and> ci_resource_id r = ue_id e)"

definition ledger_ok ::
  "(string \<times> billing_period) list \<Rightarrow> (string \<rightharpoonup> commerce_idempotency) \<Rightarrow> (string \<times> usage_event) list \<Rightarrow> bool" where
  "ledger_ok ps idem us \<longleftrightarrow> wf_map us \<and> rows (usage_row (map_of ps) idem) (map_of us)"

text \<open>Events and audit entries come in pairs that tell the same story.\<close>

definition journal_ok :: "commerce_outbox list \<Rightarrow> commerce_audit list \<Rightarrow> bool" where
  "journal_ok ob au \<longleftrightarrow> list_all2 same_story ob au"

definition commerce_ok :: "commerce_data \<Rightarrow> bool" where
  "commerce_ok d \<longleftrightarrow> plans_ok (versions d) \<and> tenants_ok (versions d) (accounts d) (subscriptions d) \<and>
     periods_ok (periods d) \<and> quotas_ok (subscriptions d) (quotas d) \<and>
     ledger_ok (periods d) (idempotency_records d) (usage d) \<and> journal_ok (outbox_log d) (audit_log d)"

lemma commerce_okD:
  "commerce_ok d \<Longrightarrow> plans_ok (versions d)"
  "commerce_ok d \<Longrightarrow> tenants_ok (versions d) (accounts d) (subscriptions d)"
  "commerce_ok d \<Longrightarrow> periods_ok (periods d)"
  "commerce_ok d \<Longrightarrow> quotas_ok (subscriptions d) (quotas d)"
  "commerce_ok d \<Longrightarrow> ledger_ok (periods d) (idempotency_records d) (usage d)"
  "commerce_ok d \<Longrightarrow> journal_ok (outbox_log d) (audit_log d)"
  by (simp_all add: commerce_ok_def)

section \<open>Each table on its own\<close>

lemma plans_ok_update:
  "plans_ok vs \<Longrightarrow> plan_row (pv_id v) v \<Longrightarrow> plans_ok (AList.update (pv_id v) v vs)"
  by (simp add: plans_ok_def rows_update)

lemma plan_row_step: "plan_row i v \<Longrightarrow> plan_step v v' \<Longrightarrow> plan_row i v'"
  by (drule plan_step_cases) (auto simp: plan_row_def plan_valid_def)

lemma published_update:
  "published vs i \<Longrightarrow> (\<And>w. vs k = Some w \<Longrightarrow> pv_state w \<noteq> PlanDraft \<Longrightarrow> pv_state v \<noteq> PlanDraft) \<Longrightarrow>
   published (vs(k \<mapsto> v)) i"
  by (auto simp: published_def)

lemma tenants_ok_plan:
  assumes "tenants_ok vs accs subs"
    and "\<And>w. map_of vs k = Some w \<Longrightarrow> pv_state w \<noteq> PlanDraft \<Longrightarrow> pv_state v \<noteq> PlanDraft"
  shows "tenants_ok (AList.update k v vs) accs subs"
proof -
  have "subscription_row (map_of (AList.update k v vs)) accs i s"
    if "subscription_row (map_of vs) accs i s" for i s
    using that published_update[OF _ assms(2)] by (simp add: subscription_row_def)
  with assms(1) show ?thesis unfolding tenants_ok_def by (blast intro: rows_mono)
qed

lemma tenants_ok_account: "tenants_ok vs accs subs \<Longrightarrow> tenants_ok vs (accs(t \<mapsto> a)) subs"
  unfolding tenants_ok_def by (auto elim!: rows_mono simp: subscription_row_def)

text \<open>The two halves of a table predicate are updated together.\<close>

lemma tenants_ok_update:
  assumes "tenants_ok vs accs subs" and "subscription_row (map_of vs) accs i s"
    and "\<And>j t. map_of subs j = Some t \<Longrightarrow> j \<noteq> i \<Longrightarrow> sub_tenant t \<noteq> sub_tenant s"
  shows "tenants_ok vs accs (AList.update i s subs)"
proof -
  have "apart (\<lambda>s t. sub_tenant s \<noteq> sub_tenant t) (map_of (AList.update i s subs))"
    unfolding map_of_update
    by (rule apart_update) (use assms(1) in \<open>simp add: tenants_ok_def\<close>, use assms(3) in metis)
  with assms(1,2) show ?thesis by (simp add: tenants_ok_def rows_update)
qed

lemma tenants_ok_subscribe:
  assumes "tenants_ok vs accs subs" and "accs (sub_tenant s) = None"
    and "published (map_of vs) (sub_plan_version_id s)"
  shows "tenants_ok vs (accs(sub_tenant s \<mapsto> a)) (AList.update (sub_id s) s subs)"
proof -
  have "sub_tenant t \<noteq> sub_tenant s" if "map_of subs i = Some t" for i t
    using assms(1,2) that by (auto simp: tenants_ok_def subscription_row_def dest!: rowsD)
  then show ?thesis
    using assms(3) by (intro tenants_ok_update tenants_ok_account assms(1)) (auto simp: subscription_row_def)
qed

lemma tenants_ok_row: "tenants_ok vs accs subs \<Longrightarrow> map_of subs i = Some s \<Longrightarrow> subscription_row (map_of vs) accs i s"
  unfolding tenants_ok_def by (blast dest: rowsD)

lemma tenants_ok_unique:
  "tenants_ok vs accs subs \<Longrightarrow> map_of subs i = Some s \<Longrightarrow> map_of subs j = Some t \<Longrightarrow>
   sub_tenant s = sub_tenant t \<Longrightarrow> i = j"
  unfolding tenants_ok_def by (metis (mono_tags, lifting) apartD)

lemma tenants_ok_follow:
  assumes "tenants_ok vs accs subs" and "map_of subs i = Some s" and "sub_id s' = i"
    and "sub_tenant s' = sub_tenant s" and "sub_plan_version_id s' = sub_plan_version_id s"
  shows "tenants_ok vs accs (AList.update i s' subs)"
proof (rule tenants_ok_update[OF assms(1)])
  show "subscription_row (map_of vs) accs i s'"
    using tenants_ok_row[OF assms(1,2)] assms(3-5) by (simp add: subscription_row_def)
  show "sub_tenant t \<noteq> sub_tenant s'" if "map_of subs j = Some t" and "j \<noteq> i" for j t
    using tenants_ok_unique[OF assms(1) that(1) assms(2)] that(2) assms(4) by auto
qed

lemma overlaps_sym: "overlaps p q = overlaps q p"
  by (auto simp: overlaps_def)

lemma periods_ok_insert:
  assumes "periods_ok ps" and "bp_start p < bp_end p"
    and "\<forall>(_, q)\<in>set ps. bp_subscription_id q = bp_subscription_id p \<longrightarrow> \<not> overlaps p q"
  shows "periods_ok (AList.update (bp_id p) p ps)"
proof -
  have "\<not> overlaps p q \<and> \<not> overlaps q p"
    if "map_of ps i = Some q" and "bp_subscription_id q = bp_subscription_id p" for i q
    using that assms(3) by (auto simp: overlaps_sym dest!: map_of_SomeD)
  then have "apart (\<lambda>p q. bp_subscription_id p = bp_subscription_id q \<longrightarrow> \<not> overlaps p q)
      (map_of (AList.update (bp_id p) p ps))"
    unfolding map_of_update using assms(1) by (intro apart_update) (auto simp: periods_ok_def)
  with assms(1,2) show ?thesis by (simp add: periods_ok_def rows_update period_row_def)
qed

lemma quotas_ok_subs:
  "quotas_ok subs qs \<Longrightarrow> (\<And>t. subscribed (map_of subs) t \<Longrightarrow> subscribed (map_of subs') t) \<Longrightarrow>
   quotas_ok subs' qs"
  unfolding quotas_ok_def by (auto simp: quota_row_def elim!: rows_mono)

lemma subscribed_update:
  "subscribed subs t \<Longrightarrow> (\<And>w. subs k = Some w \<Longrightarrow> sub_tenant s = sub_tenant w) \<Longrightarrow>
   subscribed (subs(k \<mapsto> s)) t"
  unfolding subscribed_def by (metis map_upd_Some_unfold)

lemma quotas_ok_subscription:
  assumes "quotas_ok subs qs" and "\<And>w. map_of subs k = Some w \<Longrightarrow> sub_tenant s = sub_tenant w"
  shows "quotas_ok (AList.update k s subs) qs"
  by (rule quotas_ok_subs[OF assms(1)]) (use subscribed_update[OF _ assms(2)] in simp)

lemma quotas_ok_update:
  assumes "quotas_ok subs qs" and "quota_row (map_of subs) (qr_id q) q"
    and "\<And>i p. map_of qs i = Some p \<Longrightarrow> i \<noteq> qr_id q \<Longrightarrow> \<not> (qr_tenant p = qr_tenant q \<and> qr_key p = qr_key q)"
  shows "quotas_ok subs (AList.update (qr_id q) q qs)"
proof -
  have "apart (\<lambda>p q. \<not> (qr_tenant p = qr_tenant q \<and> qr_key p = qr_key q))
      (map_of (AList.update (qr_id q) q qs))"
    unfolding map_of_update
    by (rule apart_update) (use assms(1) in \<open>simp add: quotas_ok_def\<close>, use assms(3) in metis)
  with assms(1,2) show ?thesis by (simp add: quotas_ok_def rows_update)
qed

lemma quota_step_same:
  "quota_step q q' \<Longrightarrow> qr_id q' = qr_id q \<and> qr_quantity q' = qr_quantity q \<and> qr_tenant q' = qr_tenant q \<and>
   qr_key q' = qr_key q \<and> qr_resource q' = qr_resource q"
  by (induction rule: quota_step.induct) (auto simp: Quota_Commit_def Quota_Release_def split: if_splits)

lemma quotas_ok_unique:
  "quotas_ok subs qs \<Longrightarrow> map_of qs i = Some p \<Longrightarrow> map_of qs j = Some q \<Longrightarrow> qr_tenant p = qr_tenant q \<Longrightarrow>
   qr_key p = qr_key q \<Longrightarrow> i = j"
  unfolding quotas_ok_def by (metis (mono_tags, lifting) apartD)

lemma quotas_ok_step:
  assumes "quotas_ok subs qs" and "map_of qs i = Some q" and "quota_step q q'"
  shows "quotas_ok subs (AList.update (qr_id q') q' qs)"
proof (rule quotas_ok_update[OF assms(1)])
  have row: "quota_row (map_of subs) i q" using assms(1,2) by (auto simp: quotas_ok_def dest: rowsD)
  then show "quota_row (map_of subs) (qr_id q') q'"
    using quota_step_same[OF assms(3)] by (simp add: quota_row_def)
  fix j p assume "map_of qs j = Some p" and "j \<noteq> qr_id q'"
  moreover have "qr_id q' = i" using row quota_step_same[OF assms(3)] by (simp add: quota_row_def)
  ultimately have "\<not> (qr_tenant p = qr_tenant q \<and> qr_key p = qr_key q)"
    using quotas_ok_unique[OF assms(1) _ assms(2)] by auto
  then show "\<not> (qr_tenant p = qr_tenant q' \<and> qr_key p = qr_key q')"
    using quota_step_same[OF assms(3)] by simp
qed

lemma ledger_ok_periods:
  "ledger_ok ps idem us \<Longrightarrow> map_of ps k = None \<Longrightarrow> ledger_ok (AList.update k p ps) idem us"
  unfolding ledger_ok_def by (auto simp: usage_row_def elim!: rows_mono)

lemma ledger_ok_insert:
  assumes "ledger_ok ps idem us" and "map_of ps (ue_period e) = Some p" and "covers p e" and "usable e"
    and "idem (idemKey (ue_tenant e) ''usage'' (ue_key e)) = None" and "ci_resource_id r = ue_id e"
  shows "ledger_ok ps (idem(idemKey (ue_tenant e) ''usage'' (ue_key e) \<mapsto> r))
    (AList.update (usageKey (ue_tenant e) (ue_key e)) e us)"
proof -
  let ?idem = "idem(idemKey (ue_tenant e) ''usage'' (ue_key e) \<mapsto> r)"
  have "rows (usage_row (map_of ps) ?idem) (map_of us)"
    using assms(1,5) unfolding ledger_ok_def by (auto simp: usage_row_def elim!: rows_mono)
  moreover have "usage_row (map_of ps) ?idem (usageKey (ue_tenant e) (ue_key e)) e"
    using assms by (simp add: usage_row_def)
  ultimately show ?thesis using assms(1) by (simp add: ledger_ok_def rows_update)
qed

lemma journal_ok_journaled:
  "journaled tenant topic aggregate payload d d' \<Longrightarrow> journal_ok (outbox_log d) (audit_log d) \<Longrightarrow>
   journal_ok (outbox_log d') (audit_log d')"
  by (auto simp: journaled_def journal_ok_def intro: list_all2_appendI)

section \<open>Every effect keeps the invariant\<close>

lemma commerce_ok_new: "commerce_ok newData"
  by (simp add: commerce_ok_def newData_def plans_ok_def tenants_ok_def periods_ok_def quotas_ok_def
      ledger_ok_def journal_ok_def)

lemma commerce_ok_alert: "commerce_ok (d\<lparr>alerts := als\<rparr>) \<longleftrightarrow> commerce_ok d"
  by (simp add: commerce_ok_def)

lemma commerce_ok_journaled:
  "journaled tenant topic aggregate payload d d' \<Longrightarrow> commerce_ok d \<Longrightarrow> commerce_ok d'"
  using journaled_tables[of tenant topic aggregate payload d d']
    journal_ok_journaled[of tenant topic aggregate payload d d']
  by (simp add: commerce_ok_def)

lemma usage_effect_ok: "usage_effect d d' \<Longrightarrow> commerce_ok d \<Longrightarrow> commerce_ok d'"
proof (induction rule: usage_effect.induct)
  case (usage_recorded e d p d1 r d2 d3)
  have "ledger_ok (periods d) (idempotency_records d2) (usage d2) \<and> periods d2 = periods d \<and>
      versions d2 = versions d \<and> accounts d2 = accounts d \<and> subscriptions d2 = subscriptions d \<and>
      quotas d2 = quotas d \<and> outbox_log d2 = outbox_log d \<and> audit_log d2 = audit_log d"
    using usage_recorded ledger_ok_insert[OF commerce_okD(5)[OF usage_recorded.prems], of e p r]
    by (simp add: write_Inr GetBillingPeriod_def Commerce_GetIdempotency_def)
  with usage_recorded.prems have "commerce_ok d2" by (simp add: commerce_ok_def)
  with usage_recorded.hyps(12) show ?case by (rule commerce_ok_journaled)
qed

lemma usage_effects_ok: "usage_effect\<^sup>*\<^sup>* d d' \<Longrightarrow> commerce_ok d \<Longrightarrow> commerce_ok d'"
  by (induction rule: rtranclp_induct) (auto intro: usage_effect_ok)

text \<open>
  A subscription starts with a fresh account, so the tenant had no subscription before; the plan
  version was found under the identifier that the subscription keeps.
\<close>

lemma NewSubscription_fields:
  "NewSubscription si tenant i st trial now = Inr sub \<Longrightarrow>
   sub_id sub = TrimSpace si \<and> sub_tenant sub = TrimSpace tenant \<and> sub_plan_version_id sub = TrimSpace i \<and>
   sub_created_at sub = now \<and> sub_version sub = 1 \<and> sub_tenant sub \<noteq> []"
  by (auto simp: NewSubscription_def Let_def split: if_splits)

lemma NewBillingPeriod_fields:
  "NewBillingPeriod bi tenant si i start stop now = Inr p \<Longrightarrow>
   bp_id p = TrimSpace bi \<and> bp_tenant p = TrimSpace tenant \<and> bp_start p = start \<and> bp_end p = stop \<and>
   start < stop \<and> bp_state p = PeriodOpen \<and> bp_plan_version_id p = TrimSpace i"
  by (auto simp: NewBillingPeriod_def split: if_splits)

lemma NewCommercialAccount_fields:
  "NewCommercialAccount tenant s now = Inr a \<Longrightarrow> ca_tenant a = TrimSpace tenant"
  by (auto simp: NewCommercialAccount_def Let_def split: if_splits)

lemma NewPlanVersion_row:
  assumes "spec_typed spec" and "NewPlanVersion u i def pol n spec ef now = Inr v"
  shows "plan_row (pv_id v) v \<and> pv_state v = PlanDraft"
proof -
  have "plan_valid v" using assms plan_machine.inv_init[of v] by blast
  with assms(2) show ?thesis by (auto simp: NewPlanVersion_def plan_row_def split: if_splits sum.splits)
qed

lemma subscribe_ok:
  assumes ok: "commerce_ok d" and plan: "GetPlanVersion i d = Some pv" "pv_state pv = PlanActive"
    and new: "NewSubscription si tenant i st trial now = Inr sub"
      "NewBillingPeriod bi tenant si i start stop now = Inr period"
      "NewCommercialAccount tenant CommercialActive now = Inr account"
    and ins: "InsertSubscription sub d = Inr d1" "InsertBillingPeriod period d1 = Inr d2"
      "InsertCommercialAccount account d2 = Inr d3"
  shows "commerce_ok d3"
proof -
  note n = NewSubscription_fields[OF new(1)] NewBillingPeriod_fields[OF new(2)]
    NewCommercialAccount_fields[OF new(3)]
  have same: "ca_tenant account = sub_tenant sub" using n by simp
  have "TrimSpace i = i" using plan(1) commerce_okD(1)[OF ok]
    by (auto simp: GetPlanVersion_def plans_ok_def plan_row_def dest!: rowsD)
  with plan n have pub: "published (map_of (versions d)) (sub_plan_version_id sub)"
    by (simp add: published_def GetPlanVersion_def)
  have "tenants_ok (versions d3) (accounts d3) (subscriptions d3)"
    using tenants_ok_subscribe[OF commerce_okD(2)[OF ok] _ pub, of account] ins same
    by (auto simp: write_Inr)
  moreover have "periods_ok (periods d3)"
    using periods_ok_insert[OF commerce_okD(3)[OF ok], of period] ins n by (auto simp: write_Inr)
  moreover have "quotas_ok (subscriptions d3) (quotas d3)"
    using quotas_ok_subscription[OF commerce_okD(4)[OF ok], of "sub_id sub" sub] ins
    by (auto simp: write_Inr)
  moreover have "ledger_ok (periods d3) (idempotency_records d3) (usage d3)"
    using ledger_ok_periods[OF commerce_okD(5)[OF ok]] ins by (auto simp: write_Inr)
  ultimately show ?thesis using ok ins by (auto simp: commerce_ok_def write_Inr)
qed

lemma move_account_ok:
  assumes ok: "commerce_ok d" and "UpdateCommercialAccount a' n d = Inr d1"
    and "(FindSubscriptionByTenant tenant d1 = None \<and> d2 = d1) \<or>
     (\<exists>s. FindSubscriptionByTenant tenant d1 = Some s \<and>
        UpdateSubscription (s\<lparr>sub_state := st s, sub_version := v s, sub_updated_at := now'\<rparr>) (sub_version s) d1 = Inr d2)"
  shows "commerce_ok d2"
proof -
  have d1: "commerce_ok d1"
    using ok assms(2) tenants_ok_account[OF commerce_okD(2)[OF ok]] by (auto simp: commerce_ok_def write_Inr)
  from assms(3) show ?thesis
  proof (elim disjE conjE exE)
    fix s assume f: "FindSubscriptionByTenant tenant d1 = Some s"
      and u: "UpdateSubscription (s\<lparr>sub_state := st s, sub_version := v s, sub_updated_at := now'\<rparr>) (sub_version s) d1 = Inr d2"
    from d1 have "wf_map (subscriptions d1)" by (simp add: commerce_ok_def tenants_ok_def)
    from FindSubscription_Some[OF this f] obtain i where i: "map_of (subscriptions d1) i = Some s" by blast
    from tenants_ok_row[OF commerce_okD(2)[OF d1] this] have id: "sub_id s = i" by (simp add: subscription_row_def)
    let ?s = "s\<lparr>sub_state := st s, sub_version := v s, sub_updated_at := now'\<rparr>"
    have "tenants_ok (versions d2) (accounts d2) (subscriptions d2)"
      using tenants_ok_follow[OF commerce_okD(2)[OF d1] i, of ?s] u id by (auto simp: write_Inr)
    moreover have "quotas_ok (subscriptions d2) (quotas d2)"
      using quotas_ok_subscription[OF commerce_okD(4)[OF d1], of i ?s] u id i
      by (auto simp: write_Inr)
    ultimately show ?thesis using d1 u by (auto simp: commerce_ok_def write_Inr)
  qed (use d1 in simp)
qed

lemma plan_ok_write:
  assumes "commerce_ok d" and "plan_row (pv_id v) v"
    and "\<And>w. map_of (versions d) (pv_id v) = Some w \<Longrightarrow> pv_state w \<noteq> PlanDraft \<Longrightarrow> pv_state v \<noteq> PlanDraft"
  shows "commerce_ok (d\<lparr>versions := AList.update (pv_id v) v (versions d)\<rparr>)"
  using assms plans_ok_update[of "versions d" v] tenants_ok_plan[of "versions d" _ _ "pv_id v" v]
  by (simp add: commerce_ok_def)

lemma quota_ok_write:
  "commerce_ok d \<Longrightarrow> quotas_ok (subscriptions d) (AList.update k q (quotas d)) \<Longrightarrow>
   commerce_ok (d\<lparr>quotas := AList.update k q (quotas d)\<rparr>)"
  by (simp add: commerce_ok_def)

lemma commerce_effect_ok: "commerce_effect T d d' \<Longrightarrow> commerce_ok d \<Longrightarrow> commerce_ok d'"
proof (induction rule: commerce_effect.induct)
  case (definition_created v d d1 topic d2)
  then have "commerce_ok d1" by (simp add: commerce_ok_def write_Inr)
  with definition_created show ?case by (blast intro: commerce_ok_journaled)
next
  case (plan_created spec u i def pol n ef now v d d1 topic payload d2)
  then have "commerce_ok d1"
    using plan_ok_write[of d v] NewPlanVersion_row[OF plan_created.hyps(1,2)] by (auto simp: write_Inr)
  with plan_created show ?case by (blast intro: commerce_ok_journaled)
next
  case (plan_changed i d v v' d1 topic payload d2)
  have row: "plan_row i v" and v: "map_of (versions d) i = Some v"
    using plan_changed.hyps(1) commerce_okD(1)[OF plan_changed.prems]
    by (auto simp: GetPlanVersion_def plans_ok_def dest!: rowsD)
  have row': "plan_row i v'" using row plan_changed.hyps(2) by (rule plan_row_step)
  then have id: "pv_id v' = i" by (simp add: plan_row_def)
  have "commerce_ok (d\<lparr>versions := AList.update (pv_id v') v' (versions d)\<rparr>)"
    using row' id v plan_step_cases[OF plan_changed.hyps(2)] plan_changed.prems
    by (intro plan_ok_write) auto
  with UpdatePlanVersion_Inr[OF plan_changed.hyps(3)] plan_changed.hyps(4) show ?case
    by (auto intro: commerce_ok_journaled)
next
  case (subscription_started i d pv si tenant st trial now sub bi start stop period account d1 d2 d3 topic payload d4)
  from subscribe_ok[OF subscription_started.prems subscription_started.hyps(1-8)] have "commerce_ok d3" .
  with subscription_started.hyps(9) show ?case by (rule commerce_ok_journaled)
next
  case (quota_reserved t q d sub pv limit d1 topic payload d2)
  have wf: "wf_map (subscriptions d)" using commerce_okD(2)[OF quota_reserved.prems] by (simp add: tenants_ok_def)
  have "subscribed (map_of (subscriptions d)) (qr_tenant q)"
    using FindSubscription_Some[OF wf quota_reserved.hyps(2)] by (auto simp: subscribed_def)
  then have "quotas_ok (subscriptions d) (AList.update (qr_id q) q (quotas d))"
    using quota_reserved FindQuota_None[of _ _ d]
    by (intro quotas_ok_update commerce_okD(4)) (auto simp: quota_row_def InsertQuotaReservation_Inr)
  then have "commerce_ok d1"
    using quota_reserved quota_ok_write[of d] by (auto simp: write_Inr)
  with quota_reserved show ?case by (blast intro: commerce_ok_journaled)
next
  case (quota_changed t i d q q' d1 topic payload d2)
  have st: "quota_step q q'" using quota_changed.hyps(3) by (auto intro: quota_step.intros)
  have "map_of (quotas d) i = Some q" using quota_changed.hyps(2) by (simp add: GetQuotaReservation_def)
  from quotas_ok_step[OF commerce_okD(4)[OF quota_changed.prems] this st]
  have "commerce_ok d1"
    using quota_changed quota_ok_write[of d] by (auto simp: write_Inr)
  with quota_changed show ?case by (blast intro: commerce_ok_journaled)
next
  case (usage_appended d d')
  then show ?case by (rule usage_effects_ok)
next
  case (account_moved tenant d a target now a' d1 d2 now' topic payload d3)
  from move_account_ok[OF account_moved.prems account_moved.hyps(3,4)] have "commerce_ok d2" .
  with account_moved.hyps(5) show ?case by (rule commerce_ok_journaled)
next
  case (usage_reconciled d d1 al d2)
  then show ?case by (auto simp: write_Inr commerce_ok_alert intro: usage_effects_ok)
qed

text \<open>The service over its store is a safe machine, whatever its clock and the calls it gets.\<close>

interpretation commerce: safe_machine
  "\<lambda>w :: cworld. db w = newData" "commerce_step clock A" "\<lambda>w. commerce_ok (db w)" for clock A
  by unfold_locales (auto simp: commerce_ok_new intro: commerce_effect_ok step_effect)

end
