(* ===== verification/Commerce_Quota.thy ===== *)
theory Commerce_Quota
  imports Commerce_Invariants
begin

text \<open>
  Quotas: what a tenant holds of a resource at an instant, that \<open>activeQuota\<close> computes it with
  saturation, and that reservations judged at the time of the clock never exceed the plan.
\<close>

section \<open>The quantity in use\<close>

definition holds :: "gotime \<Rightarrow> string \<Rightarrow> string \<Rightarrow> quota_reservation \<Rightarrow> bool" where
  "holds t tenant resource q \<longleftrightarrow>
     CountsAgainstLimit t q \<and> qr_tenant q = tenant \<and> qr_resource q = resource"

definition reserved :: "gotime \<Rightarrow> string \<Rightarrow> string \<Rightarrow> commerce_data \<Rightarrow> int" where
  "reserved t tenant resource d = sum_rows (holds t tenant resource) qr_quantity (quotas d)"

lemma quota_positive: "commerce_ok d \<Longrightarrow> q \<in> snd ` set (quotas d) \<Longrightarrow> 0 < qr_quantity q \<and> int64 (qr_quantity q)"
  by (auto simp: commerce_ok_def quotas_ok_def quota_row_def dest!: rowsD)

lemma reserved_nonneg: "commerce_ok d \<Longrightarrow> 0 \<le> reserved t tenant resource d"
  unfolding reserved_def by (rule sum_rows_nonneg) (auto dest: quota_positive intro: less_imp_le)

lemma reserved_anti:
  "commerce_ok d \<Longrightarrow> t \<le> t' \<Longrightarrow> reserved t' tenant resource d \<le> reserved t tenant resource d"
  unfolding reserved_def
  by (rule sum_rows_mono) (auto simp: holds_def dest: CountsAgainstLimit_anti quota_positive intro: less_imp_le)

text \<open>The loop stops at the largest \<open>int64\<close> instead of wrapping around.\<close>

lemma quota_loop_exact:
  "\<forall>q\<in>set qs. 0 < qr_quantity q \<and> int64 (qr_quantity q) \<Longrightarrow> 0 \<le> tot \<Longrightarrow> int64 tot \<Longrightarrow>
   quota_loop t tot qs = min MaxInt64 (tot + sum_list (map qr_quantity (filter (CountsAgainstLimit t) qs)))"
proof (induction qs arbitrary: tot)
  case (Cons q qs)
  have tail: "0 \<le> sum_list (map qr_quantity (filter (CountsAgainstLimit t) qs))"
    using Cons.prems(1) by (intro sum_list_nonneg) auto
  have room: "sub64 MaxInt64 tot = MaxInt64 - tot"
    using Cons.prems(2,3) by (intro wrap64_id) (auto simp: int64_defs)
  show ?case
  proof (cases "CountsAgainstLimit t q")
    case True
    show ?thesis
    proof (cases "qr_quantity q > MaxInt64 - tot")
      case True
      with \<open>CountsAgainstLimit t q\<close> room tail show ?thesis by simp
    next
      case False
      with Cons.prems have "int64 (tot + qr_quantity q)" by (auto simp: int64_defs)
      with False True room Cons.IH[of "tot + qr_quantity q"] Cons.prems show ?thesis
        by (simp add: wrap64_id add.assoc)
    qed
  qed (use Cons in simp)
qed (auto simp: int64_def)

lemma activeQuota_exact:
  assumes "commerce_ok d" and "resource \<noteq> []"
  shows "activeQuota tenant resource t d = min MaxInt64 (reserved t tenant resource d)"
proof -
  have "\<forall>q\<in>set (ListQuotaReservations tenant resource d). 0 < qr_quantity q \<and> int64 (qr_quantity q)"
    using quota_positive[OF assms(1)] by (fastforce simp: ListQuotaReservations_def)
  from quota_loop_exact[OF this, of 0] assms(2) show ?thesis
    by (simp add: activeQuota_def reserved_def sum_rows_def ListQuotaReservations_def filter_filter
        holds_def[abs_def] int64_defs conj_comms)
qed

section \<open>The limit of the plan\<close>

text \<open>The quota of a resource in the plan a tenant is subscribed to.\<close>

definition quota_limit :: "string \<Rightarrow> string \<Rightarrow> commerce_data \<Rightarrow> int option" where
  "quota_limit tenant resource d =
     (case FindSubscriptionByTenant tenant d of
        None \<Rightarrow> None
      | Some sub \<Rightarrow>
          (case GetPlanVersion (sub_plan_version_id sub) d of
             None \<Rightarrow> None
           | Some pv \<Rightarrow> map_of (Quotas (pv_spec pv)) resource))"

definition within_limits :: "gotime \<Rightarrow> commerce_data \<Rightarrow> bool" where
  "within_limits t d \<longleftrightarrow>
     (\<forall>tenant resource limit. quota_limit tenant resource d = Some limit \<longrightarrow>
        reserved t tenant resource d \<le> limit)"

lemma within_limits_later: "commerce_ok d \<Longrightarrow> within_limits t d \<Longrightarrow> t \<le> t' \<Longrightarrow> within_limits t' d"
  unfolding within_limits_def using reserved_anti order_trans by blast

lemma plan_row_of: "commerce_ok d \<Longrightarrow> GetPlanVersion i d = Some pv \<Longrightarrow> plan_row i pv"
  by (auto simp: commerce_ok_def plans_ok_def GetPlanVersion_def dest: rowsD)

lemma limit_typed: "commerce_ok d \<Longrightarrow> quota_limit tenant resource d = Some limit \<Longrightarrow> 0 \<le> limit \<and> int64 limit \<and> resource \<noteq> []"
proof -
  assume ok: "commerce_ok d" and "quota_limit tenant resource d = Some limit"
  then obtain i pv where pv: "GetPlanVersion i d = Some pv" and l: "map_of (Quotas (pv_spec pv)) resource = Some limit"
    by (auto simp: quota_limit_def split: option.splits)
  from plan_row_of[OF ok pv] obtain u where "Spec_Validate u (pv_spec pv) = Inr ()" and "spec_typed (pv_spec pv)"
    by (auto simp: plan_row_def plan_valid_def)
  with l show ?thesis
    by (fastforce simp: Spec_Validate_def spec_typed_def list_ex_iff split: if_splits dest!: map_of_SomeD)
qed

text \<open>Looking a tenant up gives its only subscription.\<close>

lemma FindSubscription_only:
  assumes "commerce_ok d" and "map_of (subscriptions d) i = Some s" and "sub_tenant s = tenant"
  shows "FindSubscriptionByTenant tenant d = Some s"
proof -
  have wf: "wf_map (subscriptions d)" using commerce_okD(2)[OF assms(1)] by (simp add: tenants_ok_def)
  from FindSubscription_None[OF _ assms(2)] assms(3) obtain t
    where t: "FindSubscriptionByTenant tenant d = Some t" by fastforce
  from FindSubscription_Some[OF wf t] obtain j where "map_of (subscriptions d) j = Some t" "sub_tenant t = tenant"
    by blast
  with tenants_ok_unique[OF commerce_okD(2)[OF assms(1)] assms(2)] assms(2,3) t show ?thesis by fastforce
qed

lemma FindSubscription_iff:
  assumes "commerce_ok d"
  shows "FindSubscriptionByTenant tenant d = Some s \<longleftrightarrow>
    (\<exists>i. map_of (subscriptions d) i = Some s) \<and> sub_tenant s = tenant"
proof -
  have "wf_map (subscriptions d)" using commerce_okD(2)[OF assms] by (simp add: tenants_ok_def)
  with FindSubscription_Some FindSubscription_only[OF assms] show ?thesis by blast
qed

section \<open>Limits never change under a tenant\<close>

text \<open>
  What every effect does to the limit of a tenant: nothing, unless the tenant had no
  subscription before, and then it held nothing.
\<close>

definition limits_kept :: "commerce_data \<Rightarrow> commerce_data \<Rightarrow> bool" where
  "limits_kept d d' \<longleftrightarrow>
     (\<forall>tenant resource. quota_limit tenant resource d' = quota_limit tenant resource d \<or>
        \<not> subscribed (map_of (subscriptions d)) tenant)"

lemma reserved_unsubscribed:
  assumes "commerce_ok d" and "\<not> subscribed (map_of (subscriptions d)) tenant"
  shows "reserved t tenant resource d = 0"
  unfolding reserved_def
proof (rule sum_rows_none)
  fix q assume "q \<in> snd ` set (quotas d)"
  with assms(1) have "subscribed (map_of (subscriptions d)) (qr_tenant q)"
    by (auto simp: commerce_ok_def quotas_ok_def quota_row_def dest!: rowsD)
  with assms(2) show "\<not> holds t tenant resource q" by (auto simp: holds_def)
qed

lemma within_limits_kept:
  assumes "commerce_ok d" and "commerce_ok d'" and "within_limits t d" and "quotas d' = quotas d"
    and "limits_kept d d'"
  shows "within_limits t d'"
  unfolding within_limits_def
proof (intro allI impI)
  fix tenant resource limit assume l: "quota_limit tenant resource d' = Some limit"
  have same: "reserved t tenant resource d' = reserved t tenant resource d"
    using assms(4) by (simp add: reserved_def)
  show "reserved t tenant resource d' \<le> limit"
  proof (cases "subscribed (map_of (subscriptions d)) tenant")
    case True
    with assms(3,5) l same show ?thesis by (metis limits_kept_def within_limits_def)
  next
    case False
    with assms(1) same limit_typed[OF assms(2) l] show ?thesis by (simp add: reserved_unsubscribed)
  qed
qed

lemma quota_limit_same:
  "subscriptions d' = subscriptions d \<Longrightarrow> versions d' = versions d \<Longrightarrow>
   quota_limit tenant resource d' = quota_limit tenant resource d"
  by (simp add: quota_limit_def FindSubscriptionByTenant_def GetPlanVersion_def split: option.split)

lemma limits_kept_same: "subscriptions d' = subscriptions d \<Longrightarrow> versions d' = versions d \<Longrightarrow> limits_kept d d'"
  unfolding limits_kept_def using quota_limit_same by blast

lemma usage_effect_tables:
  "usage_effect d d' \<Longrightarrow> subscriptions d' = subscriptions d \<and> versions d' = versions d \<and> quotas d' = quotas d"
  by (induction rule: usage_effect.induct) (auto simp: write_Inr dest!: journaled_tables)

lemma usage_effects_tables:
  "usage_effect\<^sup>*\<^sup>* d d' \<Longrightarrow> subscriptions d' = subscriptions d \<and> versions d' = versions d \<and> quotas d' = quotas d"
  by (induction rule: rtranclp_induct) (auto dest: usage_effect_tables)

text \<open>The limit depends on the published plan versions only, and those keep their specification.\<close>

lemma limits_kept_plans:
  assumes ok: "commerce_ok d" and ok': "commerce_ok d'" and subs: "subscriptions d' = subscriptions d"
    and plans: "\<And>i v. map_of (versions d) i = Some v \<Longrightarrow> pv_state v \<noteq> PlanDraft \<Longrightarrow>
      \<exists>v'. map_of (versions d') i = Some v' \<and> pv_spec v' = pv_spec v"
  shows "limits_kept d d'"
  unfolding limits_kept_def
proof (intro allI disjI1)
  fix tenant resource
  show "quota_limit tenant resource d' = quota_limit tenant resource d"
  proof (cases "FindSubscriptionByTenant tenant d")
    case None
    with subs show ?thesis by (simp add: quota_limit_def FindSubscriptionByTenant_def)
  next
    case (Some s)
    then obtain i where "map_of (subscriptions d) i = Some s" using FindSubscription_iff[OF ok] by blast
    from tenants_ok_row[OF commerce_okD(2)[OF ok] this] obtain v
      where v: "map_of (versions d) (sub_plan_version_id s) = Some v" "pv_state v \<noteq> PlanDraft"
      by (auto simp: subscription_row_def published_def)
    from plans[OF this] v Some subs show ?thesis
      by (auto simp: quota_limit_def FindSubscriptionByTenant_def GetPlanVersion_def)
  qed
qed

lemma limits_kept_subscriptions:
  assumes ok: "commerce_ok d" and ok': "commerce_ok d'" and vs: "versions d' = versions d"
    and subs: "\<And>i s. map_of (subscriptions d) i = Some s \<Longrightarrow>
      \<exists>s'. map_of (subscriptions d') i = Some s' \<and> sub_tenant s' = sub_tenant s \<and>
        sub_plan_version_id s' = sub_plan_version_id s"
  shows "limits_kept d d'"
  unfolding limits_kept_def
proof (intro allI)
  fix tenant resource
  show "quota_limit tenant resource d' = quota_limit tenant resource d \<or>
    \<not> subscribed (map_of (subscriptions d)) tenant"
  proof (cases "subscribed (map_of (subscriptions d)) tenant")
    case True
    then obtain i s where s: "map_of (subscriptions d) i = Some s" "sub_tenant s = tenant"
      by (auto simp: subscribed_def)
    from subs[OF s(1)] obtain s' where s': "map_of (subscriptions d') i = Some s'"
      "sub_tenant s' = tenant" "sub_plan_version_id s' = sub_plan_version_id s" using s(2) by auto
    from FindSubscription_only[OF ok s] FindSubscription_only[OF ok' s'(1,2)] s'(3) vs show ?thesis
      by (simp add: quota_limit_def GetPlanVersion_def)
  qed simp
qed

section \<open>Effects on the limits\<close>

text \<open>Effects other than those on quotas leave the reservations alone and keep the limits.\<close>

lemma journaled_limits:
  assumes "journaled tenant topic aggregate payload d d'"
  shows "quotas d' = quotas d \<and> (limits_kept d0 d' \<longleftrightarrow> limits_kept d0 d)"
proof -
  note t = journaled_tables[OF assms]
  then have eq: "quota_limit x y d' = quota_limit x y d" for x y
    by (intro quota_limit_same) simp_all
  show ?thesis using t by (simp only: limits_kept_def eq simp_thms)
qed

lemma plan_write_limits:
  assumes "commerce_ok d" and "commerce_ok (d\<lparr>versions := AList.update k v (versions d)\<rparr>)"
    and "\<And>w. map_of (versions d) k = Some w \<Longrightarrow> pv_state w \<noteq> PlanDraft \<Longrightarrow> pv_spec v = pv_spec w"
  shows "limits_kept d (d\<lparr>versions := AList.update k v (versions d)\<rparr>)"
  by (rule limits_kept_plans[OF assms(1,2)]) (auto dest: assms(3))

lemma subscription_write_limits:
  assumes "commerce_ok d" and "commerce_ok d'" and "versions d' = versions d"
    and "subscriptions d' = AList.update k s (subscriptions d)"
    and "\<And>w. map_of (subscriptions d) k = Some w \<Longrightarrow>
      sub_tenant s = sub_tenant w \<and> sub_plan_version_id s = sub_plan_version_id w"
  shows "limits_kept d d'"
proof (rule limits_kept_subscriptions[OF assms(1-3)])
  fix i w assume w: "map_of (subscriptions d) i = Some w"
  show "\<exists>s'. map_of (subscriptions d') i = Some s' \<and> sub_tenant s' = sub_tenant w \<and>
      sub_plan_version_id s' = sub_plan_version_id w"
    unfolding assms(4) map_of_update
    using w assms(5) by (cases "i = k") auto
qed

text \<open>Of the effects judged at no instant, none touches a reservation.\<close>

lemma effect_limits:
  "commerce_effect T d d' \<Longrightarrow> T = {} \<Longrightarrow> commerce_ok d \<Longrightarrow> quotas d' = quotas d \<and> limits_kept d d'"
proof (induction rule: commerce_effect.induct)
  case (definition_created v d d1 topic d2)
  then show ?case using journaled_limits[of _ _ _ _ d1 d2 d]
    by (auto simp: write_Inr intro: limits_kept_same)
next
  case (plan_created spec u i def pol n ef now v d d1 topic payload d2)
  then have "commerce_ok d2" by (blast intro: commerce_effect_ok commerce_effect.plan_created)
  with plan_created have "limits_kept d d1"
    using NewPlanVersion_row[OF plan_created.hyps(1,2)] plan_ok_write[of d v]
    by (auto simp: write_Inr intro!: plan_write_limits)
  with plan_created journaled_limits[of _ _ _ _ d1 d2 d] show ?case by (auto simp: write_Inr)
next
  case (plan_changed i d v v' d1 topic payload d2)
  have v: "map_of (versions d) i = Some v" and i: "pv_id v = i"
    using plan_changed plan_row_of by (auto simp: GetPlanVersion_def plan_row_def)
  note c = plan_step_cases[OF plan_changed.hyps(2)]
  have d1: "d1 = d\<lparr>versions := AList.update i v' (versions d)\<rparr>"
    using UpdatePlanVersion_Inr[OF plan_changed.hyps(3)] c i by auto
  have "commerce_ok d1"
    using plan_ok_write[of d v'] plan_row_step[OF _ plan_changed.hyps(2), of i] c v i d1
      plan_row_of[OF plan_changed.prems(2) plan_changed.hyps(1)] plan_changed.prems(2) by auto
  then have "limits_kept d d1"
    using c v plan_changed.prems(2) unfolding d1 by (intro plan_write_limits) auto
  with d1 journaled_limits[OF plan_changed.hyps(4), of d] show ?case by simp
next
  case (subscription_started i d pv si tenant st trial now sub bi start stop period account d1 d2 d3 topic payload d4)
  have "commerce_ok d3" by (rule subscribe_ok[OF subscription_started.prems(2) subscription_started.hyps(1-8)])
  with subscription_started have "limits_kept d d3"
    by (intro subscription_write_limits[where k = "sub_id sub" and s = sub]) (auto simp: write_Inr)
  with subscription_started journaled_limits[of _ _ _ _ d3 d4 d] show ?case by (auto simp: write_Inr)
next
  case (usage_appended d d')
  then show ?case using usage_effects_tables[of d d'] by (auto intro: limits_kept_same)
next
  case (account_moved tenant d a target now a' d1 d2 now' topic payload d3)
  have d2: "commerce_ok d2" by (rule move_account_ok[OF account_moved.prems(2) account_moved.hyps(3,4)])
  have wf: "wf_map (subscriptions d1)"
    using account_moved commerce_okD(2)[OF account_moved.prems(2)] by (auto simp: write_Inr tenants_ok_def)
  have "limits_kept d d2 \<and> quotas d2 = quotas d"
    using account_moved.hyps(4)
  proof (elim disjE conjE exE)
    assume "d2 = d1"
    with account_moved show ?thesis by (auto simp: write_Inr intro: limits_kept_same)
  next
    fix s assume f: "FindSubscriptionByTenant tenant d1 = Some s"
      and u: "UpdateSubscription (s\<lparr>sub_state := subscription_state_for target (sub_state s),
            sub_version := sub_version s + 1, sub_updated_at := now'\<rparr>) (sub_version s) d1 = Inr d2"
    from FindSubscription_Some[OF wf f] obtain i where i: "map_of (subscriptions d1) i = Some s" by blast
    with account_moved have i0: "map_of (subscriptions d) i = Some s" by (auto simp: write_Inr)
    from tenants_ok_row[OF commerce_okD(2)[OF account_moved.prems(2)] this] have "sub_id s = i"
      by (simp add: subscription_row_def)
    with u account_moved.hyps(3) account_moved.prems(2) d2 i0 show ?thesis
      by (auto simp: write_Inr intro!: subscription_write_limits)
  qed
  with journaled_limits[OF account_moved.hyps(5), of d] show ?case by simp
next
  case (usage_reconciled d d1 al d2)
  then show ?case using usage_effects_tables[of d d1] by (auto simp: write_Inr intro: limits_kept_same)
qed simp_all

text \<open>The two effects that do touch the reservations, in terms of the tables.\<close>

definition reserve_change :: "gotime \<Rightarrow> commerce_data \<Rightarrow> commerce_data \<Rightarrow> bool" where
  "reserve_change t d d' \<longleftrightarrow>
     (\<exists>q limit. quota_limit (qr_tenant q) (qr_resource q) d = Some limit \<and>
        qr_quantity q \<le> sub64 limit (activeQuota (qr_tenant q) (qr_resource q) t d) \<and>
        0 < qr_quantity q \<and> map_of (quotas d) (qr_id q) = None \<and>
        quotas d' = AList.update (qr_id q) q (quotas d) \<and>
        subscriptions d' = subscriptions d \<and> versions d' = versions d)"

definition quota_change :: "gotime \<Rightarrow> commerce_data \<Rightarrow> commerce_data \<Rightarrow> bool" where
  "quota_change t d d' \<longleftrightarrow>
     (\<exists>i q q'. map_of (quotas d) i = Some q \<and> (Quota_Commit t q = Inr q' \<or> Quota_Release t q = Inr q') \<and>
        quotas d' = AList.update i q' (quotas d) \<and>
        subscriptions d' = subscriptions d \<and> versions d' = versions d)"

lemma effect_split:
  assumes "commerce_effect {t} d d'" and "commerce_ok d"
  shows "commerce_effect {} d d' \<or> reserve_change t d d' \<or> quota_change t d d'"
  using assms
proof (induction rule: commerce_effect.induct)
  case (quota_reserved s q d sub pv limit d1 topic payload d2)
  then have "reserve_change t d d2"
    unfolding reserve_change_def quota_limit_def
    by (intro exI[of _ q] exI[of _ limit]) (auto simp: write_Inr dest!: journaled_tables)
  then show ?case by simp
next
  case (quota_changed s i d q q' d1 topic payload d2)
  have q: "map_of (quotas d) i = Some q" using quota_changed by (simp add: GetQuotaReservation_def)
  have "quota_row (map_of (subscriptions d)) i q"
    using q commerce_okD(4)[OF quota_changed.prems] by (auto simp: quotas_ok_def dest: rowsD)
  moreover have "quota_step q q'" using quota_changed.hyps(3) by (auto intro: quota_step.intros)
  ultimately have "qr_id q' = i" using quota_step_same by (simp add: quota_row_def)
  with quota_changed q have "quota_change t d d2"
    unfolding quota_change_def
    by (intro exI[of _ i] exI[of _ q] exI[of _ q']) (auto simp: write_Inr dest!: journaled_tables)
  then show ?case by simp
qed (blast intro: commerce_effect.intros)+

lemma within_limits_change:
  assumes "subscriptions d' = subscriptions d" and "versions d' = versions d" and "within_limits t d"
    and "\<And>tenant resource limit. quota_limit tenant resource d = Some limit \<Longrightarrow>
      reserved t tenant resource d \<le> limit \<Longrightarrow> reserved t tenant resource d' \<le> limit"
  shows "within_limits t d'"
  using assms(3,4) unfolding within_limits_def quota_limit_same[OF assms(1,2)] by blast

lemma reserve_within:
  assumes "reserve_change t d d'" and "commerce_ok d" and "within_limits t d"
  shows "within_limits t d'"
proof -
  obtain q limit where l: "quota_limit (qr_tenant q) (qr_resource q) d = Some limit"
    and le: "qr_quantity q \<le> sub64 limit (activeQuota (qr_tenant q) (qr_resource q) t d)"
    and pos: "0 < qr_quantity q" and new: "map_of (quotas d) (qr_id q) = None"
    and d': "quotas d' = AList.update (qr_id q) q (quotas d)"
    and same: "subscriptions d' = subscriptions d" "versions d' = versions d"
    using assms(1) by (auto simp: reserve_change_def)
  let ?used = "reserved t (qr_tenant q) (qr_resource q) d"
  have lim: "0 \<le> limit" "int64 limit" "qr_resource q \<noteq> []" using limit_typed[OF assms(2) l] by auto
  have used: "0 \<le> ?used" using assms(2) by (rule reserved_nonneg)
  have "int64 (limit - min MaxInt64 ?used)" using lim used by (auto simp: int64_defs)
  with le lim have "qr_quantity q \<le> limit - min MaxInt64 ?used"
    using activeQuota_exact[OF assms(2)] by (simp add: wrap64_id)
  with pos lim(2) have room: "qr_quantity q + ?used \<le> limit" by (auto simp: int64_def min_def split: if_splits)
  show ?thesis
  proof (rule within_limits_change[OF same assms(3)])
    fix tenant resource m
    assume m: "quota_limit tenant resource d = Some m" and "reserved t tenant resource d \<le> m"
    with room l show "reserved t tenant resource d' \<le> m"
      by (auto simp: reserved_def d' sum_rows_insert[OF new] holds_def)
  qed
qed

lemma quota_change_within:
  assumes "quota_change t d d'" and "commerce_ok d" and "within_limits t d"
  shows "within_limits t d'"
proof -
  obtain i q q' where q: "map_of (quotas d) i = Some q"
    and step: "Quota_Commit t q = Inr q' \<or> Quota_Release t q = Inr q'"
    and d': "quotas d' = AList.update i q' (quotas d)"
    and same: "subscriptions d' = subscriptions d" "versions d' = versions d"
    using assms(1) by (auto simp: quota_change_def)
  have wf: "wf_map (quotas d)" using commerce_okD(4)[OF assms(2)] by (simp add: quotas_ok_def)
  have pos: "0 < qr_quantity q"
    using quota_positive[OF assms(2), of q] map_of_SomeD[OF q] by force
  have less: "holds t tenant resource q' \<Longrightarrow> holds t tenant resource q" for tenant resource
    using step by (auto simp: holds_def CountsAgainstLimit_def Quota_Commit_def Quota_Release_def split: if_splits)
  have "qr_quantity q' = qr_quantity q"
    using step quota_step_same by (metis quota_step.intros)
  with less pos have "reserved t tenant resource d' \<le> reserved t tenant resource d" for tenant resource
    by (auto simp: reserved_def d' sum_rows_update[OF wf q])
  then show ?thesis by (intro within_limits_change[OF same assms(3)]) (meson order_trans)
qed

lemma effect_within:
  assumes "commerce_effect {t} d d'" and ok: "commerce_ok d" and "within_limits t d"
  shows "within_limits t d'"
  using effect_split[OF assms(1,2)]
proof (elim disjE)
  assume e: "commerce_effect {} d d'"
  with effect_limits[OF e _ ok] within_limits_kept[OF ok commerce_effect_ok[OF e ok] assms(3)]
  show ?thesis by simp
qed (use reserve_within quota_change_within assms in blast)+

section \<open>Calls judged by the clock\<close>

text \<open>A call never turns the clock back: it reads it some number of times.\<close>

abbreviation clock_runs :: "nat \<Rightarrow> 'a cact \<Rightarrow> bool" where
  "clock_runs n m \<equiv> keeps (\<lambda>w. n \<le> clk_seq w) m"

lemma clock_runs_basic [keeps_intros]:
  "clock_runs n (service_now env)" "clock_runs n (newID env prefix)" "clock_runs n (tx_get f)"
  "clock_runs n (tx_read g)" "clock_runs n (tx_write h)" "clock_runs n (require_store env)"
  by (auto simp: keeps_def service_now_def newID_def tx_get_def tx_read_def tx_write_def require_store_def
      ret_def throw_def split: option.splits sum.splits)

lemma clock_runs_Transact [keeps_intros]: "clock_runs n m \<Longrightarrow> clock_runs n (Commerce_Transact env m)"
  unfolding keeps_def Commerce_Transact_def
  by (auto split: option.split prod.split sum.split)

lemma clock_runs_record [keeps_intros]: "clock_runs n (record_change env a b c d)"
  unfolding record_change_def by (intro keeps_intros)

lemma clock_runs_usage [keeps_intros]: "clock_runs n (appendUsageTx env e)"
  unfolding appendUsageTx_def choosePeriod_def recordUsage_def by (intro keeps_intros)

lemma clock_runs_build [keeps_intros]: "clock_runs n (build_loop env b p items)"
  by (induction items rule: build_loop.induct[of _ env b p]) (auto intro: keeps_intros)

lemma clock_runs_changeQuota [keeps_intros]: "clock_runs n (changeQuota env commit q t)"
  unfolding changeQuota_def by (intro keeps_intros)

lemma perform_clock: "clock_runs n (perform env c)"
  by (cases c)
    (simp_all only: perform.simps quiet_def CreatePlanDefinition_def CreatePlanVersion_def ActivatePlanVersion_def
      DisablePlanVersion_def transitionPlan_def ReplacePlanSpec_def StartSubscription_def CheckAs_def
      Check_def Reserve_def Reserve_tx_def Commit_def Release_def transitionQuota_def Append_def
      normalizeUsage_def RecordBuildUsage_def PreviewInvoice_def SetGrace_def Suspend_def Resume_def
      transitionCommercial_def follow_account_def ReconcileUsage_def reconcile_tx_def raiseAlert_def,
     (intro keeps_intros)+)

text \<open>
  A call is judged by the clock when it does not bring its own instant. Then the instant of every
  decision about quotas is the first reading of the clock in the call.
\<close>

fun server_timed :: "commerce_call \<Rightarrow> bool" where
  "server_timed (CallReserve req) \<longleftrightarrow> IsZero (qq_at req)"
| "server_timed _ \<longleftrightarrow> True"

lemma quiet_state [simp]: "snd (quiet m w) = snd (m w)"
  by (simp add: quiet_def bindE_def ret_def split: prod.split sum.split)

lemma Reserve_timed:
  assumes "int64 (qq_quantity req)" and "IsZero (qq_at req)"
  shows "commerce_effect {cv_clock env (clk_seq w)} (db w) (db (snd (Reserve env req w)))"
proof -
  let ?t = "cv_clock env (clk_seq w)" and ?req = "Reserve_request req" and ?w = "w\<lparr>clk_seq := clk_seq w + 1\<rparr>"
  let ?tx = "Commerce_Transact env (Reserve_tx env ?req ?t (fingerprint env (JQuotaRequest ?req)))"
  have "service (commerce_effect {?t}) ?tx"
    using assms(1) by (intro service_Transact Reserve_tx_effect) auto
  from serviceD[OF this, of ?w] have e: "commerce_effect {?t} (db w) (db (snd (?tx ?w)))"
    by (auto simp: commerce_effect_refl)
  show ?thesis
    using assms(2) e commerce_effect_refl[of "{?t}" "db w"]
    by (simp add: Reserve_def require_store_def act_simps Let_def)
qed

lemma transitionQuota_timed:
  "commerce_effect {cv_clock env (clk_seq w)} (db w) (db (snd (transitionQuota env i commit w)))"
proof -
  let ?t = "cv_clock env (clk_seq w)" and ?w = "w\<lparr>clk_seq := clk_seq w + 1\<rparr>"
  note stay = commerce_effect_refl[of "{?t}" "db w"]
  show ?thesis
  proof (cases "GetQuotaReservation (TrimSpace i) (db w)")
    case None
    with stay show ?thesis
      by (simp add: transitionQuota_def require_store_def act_simps Commerce_Transact_def split: option.split)
  next
    case (Some q)
    have "commerce_effect {?t} (db w) (db w')" if "changeQuota env commit q ?t ?w = (Inr a, w')" for a w'
      using tripleD[OF changeQuota_effect[OF Some, of ?t "{?t}"] that] by simp
    with Some stay show ?thesis
      by (auto simp: transitionQuota_def require_store_def act_simps Commerce_Transact_def
          split: option.split prod.split sum.split)
  qed
qed

lemma service_run: "service (commerce_effect T) m \<Longrightarrow> commerce_effect T (db w) (db (snd (m w)))"
  using serviceD[of "commerce_effect T" m w] commerce_effect_refl by metis

lemma perform_timed:
  assumes "typed_call c" and "server_timed c"
  shows "commerce_effect {cv_clock env (clk_seq w)} (db w) (db (snd (perform env c w)))"
  using assms
  by (cases c)
    (simp_all add: service_run CreatePlanDefinition_effect CreatePlanVersion_effect ActivatePlanVersion_def
      DisablePlanVersion_def transitionPlan_effect ReplacePlanSpec_effect StartSubscription_effect
      CheckAs_effect Check_effect Commit_def Release_def Append_effect RecordBuildUsage_effect
      PreviewInvoice_effect SetGrace_def Suspend_def Resume_def transitionCommercial_effect
      ReconcileUsage_effect Reserve_timed transitionQuota_timed)

text \<open>With a clock that does not run backwards the limits hold at every reachable state.\<close>

definition never_over :: "(nat \<Rightarrow> gotime) \<Rightarrow> cworld \<Rightarrow> bool" where
  "never_over clock w \<longleftrightarrow>
     commerce_ok (db w) \<and> (mono clock \<longrightarrow> within_limits (clock (clk_seq w)) (db w))"

lemma never_over_step:
  assumes "never_over clock w" and "commerce_step clock server_timed w w'"
  shows "never_over clock w'"
proof -
  obtain env c where env: "cv_clock env = clock" and c: "typed_call c" "server_timed c"
    and w': "w' = snd (perform env c w)" using assms(2) by (auto simp: commerce_step_def)
  have ok: "commerce_ok (db w)" using assms(1) by (simp add: never_over_def)
  have e: "commerce_effect {clock (clk_seq w)} (db w) (db w')"
    using perform_timed[OF c, of env w] by (simp add: env w')
  have ok': "commerce_ok (db w')" using e ok by (rule commerce_effect_ok)
  have "clk_seq w \<le> clk_seq w'" using keepsD[OF perform_clock, of "clk_seq w" w env c] by (simp add: w')
  then have "within_limits (clock (clk_seq w')) (db w')" if "mono clock"
    using within_limits_later[OF ok' effect_within[OF e ok]] assms(1) that
    by (auto simp: never_over_def dest: monoD)
  with ok' show ?thesis by (simp add: never_over_def)
qed

lemma within_limits_new: "within_limits t newData"
  by (simp add: within_limits_def quota_limit_def FindSubscriptionByTenant_def newData_def)

interpretation metered: safe_machine
  "\<lambda>w :: cworld. db w = newData" "commerce_step clock server_timed" "never_over clock" for clock
proof
  show "never_over clock w" if "db w = newData" for w :: cworld
    using that commerce_ok_new within_limits_new by (simp add: never_over_def)
qed (rule never_over_step)

end
