(* ===== verification/Commerce_History.thy ===== *)
theory Commerce_History
  imports Commerce_Quota "HOL-Library.Sublist"
begin

text \<open>
  What no call of the commerce service ever takes back: usage events, billing periods and
  idempotency records stay as they were written, the logs only grow, and a plan version that has
  left the draft state keeps its specification.
\<close>

section \<open>Growth\<close>

definition plan_evolves :: "plan_version \<Rightarrow> plan_version \<Rightarrow> bool" where
  "plan_evolves v v' \<longleftrightarrow>
     pv_id v' = pv_id v \<and> pv_definition_id v' = pv_definition_id v \<and>
     pv_policy_version v' = pv_policy_version v \<and> pv_number v' = pv_number v \<and>
     (pv_state v \<noteq> PlanDraft \<longrightarrow> pv_state v' \<noteq> PlanDraft \<and> pv_spec v' = pv_spec v) \<and>
     (pv_state v = PlanDisabled \<longrightarrow> v' = v)"

definition record_kept :: "commerce_data \<Rightarrow> commerce_data \<Rightarrow> bool" where
  "record_kept d d' \<longleftrightarrow>
     grows (=) (map_of (usage d)) (map_of (usage d')) \<and>
     grows (=) (map_of (periods d)) (map_of (periods d')) \<and>
     grows (=) (idempotency_records d) (idempotency_records d') \<and>
     grows plan_evolves (map_of (versions d)) (map_of (versions d')) \<and>
     prefix (outbox_log d) (outbox_log d') \<and> prefix (audit_log d) (audit_log d') \<and>
     prefix (alerts d) (alerts d')"

lemma plan_evolves_refl: "plan_evolves v v"
  by (simp add: plan_evolves_def)

lemma plan_evolves_trans: "plan_evolves u v \<Longrightarrow> plan_evolves v w \<Longrightarrow> plan_evolves u w"
  by (auto simp: plan_evolves_def)

lemma plan_evolves_step: "plan_step v v' \<Longrightarrow> plan_evolves v v'"
  by (drule plan_step_cases) (auto simp: plan_evolves_def)

lemma grows_same [simp]: "grows (=) m m"
  by (simp add: grows_refl)

lemma grows_plans_same [simp]: "grows plan_evolves m m"
  by (simp add: grows_refl plan_evolves_refl)

lemma record_kept_refl [simp]: "record_kept d d"
  by (simp add: record_kept_def)

lemma grows_same_trans: "grows (=) a b \<Longrightarrow> grows (=) b c \<Longrightarrow> grows (=) a c"
  by (erule grows_trans[rotated]) simp_all

lemma grows_plans_trans: "grows plan_evolves a b \<Longrightarrow> grows plan_evolves b c \<Longrightarrow> grows plan_evolves a c"
  by (erule grows_trans[rotated]) (auto intro: plan_evolves_trans)

lemma record_kept_trans: "record_kept a b \<Longrightarrow> record_kept b c \<Longrightarrow> record_kept a c"
  unfolding record_kept_def
  by (auto intro: prefix_order.trans grows_same_trans grows_plans_trans)

lemma record_kept_journaled:
  "journaled tenant topic aggregate payload d d' \<Longrightarrow> record_kept d0 d \<Longrightarrow> record_kept d0 d'"
  by (auto simp: journaled_def record_kept_def intro: prefix_prefix)

section \<open>Every effect keeps the record\<close>

lemma grows_insert_same: "m k = None \<Longrightarrow> grows (=) m (m(k \<mapsto> v))"
  by (rule grows_insert) simp_all

lemma usage_effect_kept: "usage_effect d d' \<Longrightarrow> record_kept d d'"
proof (induction rule: usage_effect.induct)
  case (usage_recorded e d p d1 r d2 d3)
  then have "record_kept d d2"
    by (auto simp: record_kept_def write_Inr intro!: grows_insert_same)
  with usage_recorded.hyps(12) show ?case by (rule record_kept_journaled)
qed

lemma usage_effects_kept: "usage_effect\<^sup>*\<^sup>* d d' \<Longrightarrow> record_kept d d'"
  by (induction rule: rtranclp_induct) (auto intro: record_kept_trans usage_effect_kept)

lemma commerce_effect_kept: "commerce_effect T d d' \<Longrightarrow> commerce_ok d \<Longrightarrow> record_kept d d'"
proof (induction rule: commerce_effect.induct)
  case (definition_created v d d1 topic d2)
  then have "record_kept d d1" by (auto simp: record_kept_def write_Inr)
  with definition_created.hyps(2) show ?case by (rule record_kept_journaled)
next
  case (plan_created spec u i def pol n ef now v d d1 topic payload d2)
  then have "record_kept d d1"
    by (auto simp: record_kept_def write_Inr intro!: grows_insert plan_evolves_refl)
  with plan_created.hyps(4) show ?case by (rule record_kept_journaled)
next
  case (plan_changed i d v v' d1 topic payload d2)
  have v: "map_of (versions d) i = Some v" and "pv_id v = i"
    using plan_changed plan_row_of by (auto simp: GetPlanVersion_def plan_row_def)
  moreover have ev: "plan_evolves v v'" using plan_changed.hyps(2) by (rule plan_evolves_step)
  ultimately have "record_kept d d1"
    using UpdatePlanVersion_Inr[OF plan_changed.hyps(3)]
    by (auto simp: record_kept_def plan_evolves_def[of v v'] intro!: grows_update plan_evolves_refl)
  with plan_changed.hyps(4) show ?case by (rule record_kept_journaled)
next
  case (subscription_started i d pv si tenant st trial now sub bi start stop period account d1 d2 d3 topic payload d4)
  then have "record_kept d d3" by (auto simp: record_kept_def write_Inr intro!: grows_insert_same)
  with subscription_started.hyps(9) show ?case by (rule record_kept_journaled)
next
  case (quota_reserved t q d sub pv limit d1 topic payload d2)
  then have "record_kept d d1" by (auto simp: record_kept_def write_Inr)
  with quota_reserved.hyps(11) show ?case by (rule record_kept_journaled)
next
  case (quota_changed t i d q q' d1 topic payload d2)
  then have "record_kept d d1" by (auto simp: record_kept_def write_Inr)
  with quota_changed.hyps(5) show ?case by (rule record_kept_journaled)
next
  case (usage_appended d d')
  then show ?case by (auto intro: usage_effects_kept)
next
  case (account_moved tenant d a target now a' d1 d2 now' topic payload d3)
  then have "record_kept d d2" by (auto simp: record_kept_def write_Inr)
  with account_moved.hyps(5) show ?case by (rule record_kept_journaled)
next
  case (usage_reconciled d d1 al d2)
  then have "record_kept d d1" by (auto intro: usage_effects_kept)
  with usage_reconciled.hyps(2) show ?case
    by (auto simp: record_kept_def write_Inr intro: prefix_prefix)
qed

lemma run_record_kept:
  assumes "(commerce_step clock A)\<^sup>*\<^sup>* w w'" and "commerce_ok (db w)"
  shows "record_kept (db w) (db w')"
  using assms(1)
proof (induction rule: rtranclp_induct)
  case (step y z)
  have "commerce_ok (db y)" using commerce.run_inv[OF step.hyps(1)] assms(2) by simp
  with step_effect[OF step.hyps(2)] have "record_kept (db y) (db z)" by (rule commerce_effect_kept)
  with step.IH show ?case by (rule record_kept_trans)
qed simp

end
