(* ===== verification/Commerce_Usage.thy ===== *)
theory Commerce_Usage
  imports Commerce_History "HOL-Library.Multiset"
begin

text \<open>
  The usage ledger: an event is recorded once per idempotency key, and a reconciliation makes the
  ledger say what was observed.
\<close>

section \<open>Recording once\<close>

definition usage_fingerprint :: "cenv \<Rightarrow> usage_event \<Rightarrow> string" where
  "usage_fingerprint env e = fingerprint env (JUsage (e\<lparr>ue_id := [], ue_created_at := 0, ue_version := 0\<rparr>))"

text \<open>The key of an event is taken, by an event with the same fingerprint.\<close>

definition key_taken :: "cenv \<Rightarrow> usage_event \<Rightarrow> commerce_data \<Rightarrow> bool" where
  "key_taken env e d \<longleftrightarrow>
     (\<exists>r. Commerce_GetIdempotency (ue_tenant e) ''usage'' (ue_key e) d = Some r \<and>
        ci_fingerprint r = usage_fingerprint env e)"

lemma recordUsage_taken: "triple (\<lambda>d. d = d0) (recordUsage env e) (\<lambda>_. key_taken env e)"
  unfolding recordUsage_def Let_def
proof (intro triple_steps triple_branches triple_stay, goal_cases)
  case (1 i created d1 now d2 d')
  then show ?case
    by (auto simp: key_taken_def Commerce_GetIdempotency_def usage_fingerprint_def write_Inr dest!: journaled_tables)
next
  case (2 r)
  then show ?case by (simp add: key_taken_def usage_fingerprint_def)
qed

lemma recordUsage_again: "key_taken env e (db w) \<Longrightarrow> recordUsage env e w = (Inr (), w)"
  by (auto simp: recordUsage_def key_taken_def usage_fingerprint_def Let_def act_simps)

text \<open>The guards of \<open>appendUsageTx\<close> for an event that names its period.\<close>

definition accepted_by :: "usage_event \<Rightarrow> commerce_data \<Rightarrow> bool" where
  "accepted_by e d \<longleftrightarrow>
     (\<exists>p. GetBillingPeriod (ue_period e) d = Some p \<and> bp_tenant p = ue_tenant e \<and>
        AcceptsUsage (ue_window_start e) (ue_window_end e) p \<and> Contains (ue_occurred_at e) p)"

lemma appendUsageTx_named:
  assumes "ue_period e \<noteq> []"
  shows "appendUsageTx env e w = (r, w') \<longleftrightarrow>
    (if accepted_by e (db w) then recordUsage env e w = (r, w')
     else w' = w \<and> r = Inl (case GetBillingPeriod (ue_period e) (db w) of
        None \<Rightarrow> Err NotFound ''billing period not found''
      | Some p \<Rightarrow>
          if bp_tenant p \<noteq> ue_tenant e
            then Err PermissionDenied ''billing period belongs to another tenant''
          else Err InvalidArgument ''usage is outside billing period''))"
  using assms
  by (auto simp: appendUsageTx_def choosePeriod_def accepted_by_def act_simps split: option.splits)

text \<open>With its instant given, an event is normalised without looking at the clock.\<close>

lemma normalizeUsage_given:
  assumes "\<not> IsZero (ue_occurred_at e)" and "normalizeUsage env e w = (Inr n, w1)"
  shows "n = trimUsage e \<and> w1 = w \<and> (\<forall>v. normalizeUsage env e v = (Inr n, v))"
proof -
  have "ue_occurred_at (trimUsage e) = ue_occurred_at e" by (simp add: trimUsage_def)
  with assms show ?thesis
    unfolding normalizeUsage_def Let_def
    by (auto simp: act_simps split: if_splits sum.splits)
qed

lemma Append_Inr:
  "Append env e w = (Inr u, w') \<longleftrightarrow>
     cv_store env \<and> cv_ctx env = None \<and>
     (\<exists>n w1. normalizeUsage env e w = (Inr n, w1) \<and> appendUsageTx env n w1 = (Inr u, w'))"
  by (auto simp: Append_def seqE_def require_store_def Commerce_Transact_Inr throw_def ret_def bindE_def
      split: if_splits prod.splits sum.splits)

lemma accepted_kept: "accepted_by e d \<Longrightarrow> record_kept d d' \<Longrightarrow> accepted_by e d'"
  unfolding accepted_by_def record_kept_def GetBillingPeriod_def by (blast dest: growsD)

lemma key_taken_kept: "key_taken env e d \<Longrightarrow> record_kept d d' \<Longrightarrow> key_taken env e d'"
  unfolding key_taken_def record_kept_def Commerce_GetIdempotency_def by (blast dest: growsD)

lemma Append_again:
  assumes "Append env e w = (Inr (), w1)" and "\<not> IsZero (ue_occurred_at e)"
    and "TrimSpace (ue_period e) \<noteq> []" and "record_kept (db w1) (db w2)" and "int64 (ue_quantity e)"
    and "commerce_ok (db w)"
  shows "Append env e w2 = (Inr (), w2)"
proof -
  obtain n w0 where env: "cv_store env" "cv_ctx env = None"
    and n: "normalizeUsage env e w = (Inr n, w0)" and a: "appendUsageTx env n w0 = (Inr (), w1)"
    using assms(1) by (auto simp: Append_Inr)
  note fixed = normalizeUsage_given[OF assms(2) n]
  have named: "ue_period n \<noteq> []" using fixed assms(3) by (simp add: trimUsage_def)
  from a named have acc: "accepted_by n (db w0)" and rec: "recordUsage env n w0 = (Inr (), w1)"
    by (auto simp: appendUsageTx_named split: if_splits)
  have "record_kept (db w) (db w1)"
    using service_run[OF Append_effect[OF assms(5), of "{}" env], of w] assms(1,6) commerce_effect_kept by fastforce
  with assms(4) acc fixed have "accepted_by n (db w2)"
    by (auto intro: accepted_kept record_kept_trans)
  moreover have "key_taken env n (db w2)"
    using tripleD[OF recordUsage_taken rec refl] assms(4) by (rule key_taken_kept)
  ultimately have "appendUsageTx env n w2 = (Inr (), w2)"
    using named by (simp add: appendUsageTx_named recordUsage_again)
  with env fixed show ?thesis by (auto simp: Append_Inr)
qed

lemma appendUsageTx_Inr:
  assumes "appendUsageTx env e w = (Inr u, w')"
  shows "\<exists>p. recordUsage env (e\<lparr>ue_period := p\<rparr>) w = (Inr u, w') \<and> accepted_by (e\<lparr>ue_period := p\<rparr>) (db w) \<and>
    (ue_period e \<noteq> [] \<longrightarrow> p = ue_period e)"
proof -
  obtain n where n: "choosePeriod e w = (Inr n, w)" and a: "accepted_by n (db w)" and r: "recordUsage env n w = (Inr u, w')"
    using assms by (auto simp: appendUsageTx_def choosePeriod_def accepted_by_def act_simps throw_def
        split: option.splits if_splits)
  have "\<exists>p. n = e\<lparr>ue_period := p\<rparr> \<and> (ue_period e \<noteq> [] \<longrightarrow> p = ue_period e)"
    using n by (auto simp: choosePeriod_def act_simps throw_def intro: exI[of _ "ue_period e"] split: option.splits if_splits)
  with a r show ?thesis by blast
qed

text \<open>Normalising keeps the identity of an event and the store.\<close>

lemma normalizeUsage_keeps:
  assumes "normalizeUsage env e w = (res, w1)"
  shows "db w1 = db w \<and> (\<forall>n. res = Inr n \<longrightarrow> ue_tenant n = TrimSpace (ue_tenant e) \<and> ue_key n = TrimSpace (ue_key e))"
  using assms unfolding normalizeUsage_def Let_def
  by (auto simp: act_simps trimUsage_def split: if_splits sum.splits)

text \<open>An event under a key that is taken changes nothing, whatever else it says.\<close>

lemma Append_taken:
  assumes "Commerce_GetIdempotency (TrimSpace (ue_tenant e)) ''usage'' (TrimSpace (ue_key e)) (db w) = Some r"
  shows "db (snd (Append env e w)) = db w"
proof -
  have stay: "db (snd (Commerce_Transact env (appendUsageTx env n) w1)) = db w1"
    if taken: "Commerce_GetIdempotency (ue_tenant n) ''usage'' (ue_key n) (db w1) = Some r" for n w1
  proof -
    have "w2 = w1" if x: "appendUsageTx env n w1 = (Inr (), w2)" for w2
    proof -
      obtain p where "recordUsage env (n\<lparr>ue_period := p\<rparr>) w1 = (Inr (), w2)" using appendUsageTx_Inr[OF x] by blast
      with taken show ?thesis
        by (auto simp: recordUsage_def Let_def act_simps throw_def split: if_splits)
    qed
    then show ?thesis
      by (auto simp: Commerce_Transact_def split: option.split prod.split sum.split)
  qed
  obtain res w1 where n: "normalizeUsage env e w = (res, w1)" by fastforce
  note norm = normalizeUsage_keeps[OF n]
  show ?thesis
  proof (cases res)
    case (Inr m)
    then have "db (snd (Commerce_Transact env (appendUsageTx env m) w1)) = db w1"
      using norm assms by (intro stay) auto
    with n norm Inr show ?thesis by (simp add: Append_def require_store_def act_simps)
  qed (use n norm in \<open>simp add: Append_def require_store_def act_simps\<close>)
qed

text \<open>What a successful call leaves under the key of its event.\<close>

lemma Append_takes:
  assumes "Append env e w = (Inr u, w')"
  shows "\<exists>r. Commerce_GetIdempotency (TrimSpace (ue_tenant e)) ''usage'' (TrimSpace (ue_key e)) (db w') = Some r"
proof -
  obtain n w1 where n: "normalizeUsage env e w = (Inr n, w1)" and a: "appendUsageTx env n w1 = (Inr u, w')"
    using assms by (auto simp: Append_Inr)
  from appendUsageTx_Inr[OF a] obtain p where "recordUsage env (n\<lparr>ue_period := p\<rparr>) w1 = (Inr u, w')" by blast
  from tripleD[OF recordUsage_taken this refl] normalizeUsage_keeps[OF n] show ?thesis
    by (auto simp: key_taken_def)
qed

lemma used_key_kept:
  "Commerce_GetIdempotency t s k d = Some r \<Longrightarrow> record_kept d d' \<Longrightarrow> \<exists>r. Commerce_GetIdempotency t s k d' = Some r"
  unfolding record_kept_def Commerce_GetIdempotency_def by (blast dest: growsD)

section \<open>Sums over the ledger\<close>

lemma sum_list_sort_key: "sum_list (map f (sort_key g xs)) = sum_list (map f xs)" for f :: "'a \<Rightarrow> int"
proof -
  have "mset (map f (sort_key g xs)) = mset (map f xs)" by simp
  then show ?thesis by (metis sum_mset_sum_list)
qed

text \<open>The rows a reconciliation looks at.\<close>

definition reconciled_rows :: "reconcile_command \<Rightarrow> usage_event \<Rightarrow> bool" where
  "reconciled_rows cmd e \<longleftrightarrow>
     ue_tenant e = rc_tenant cmd \<and> ue_period e = rc_period cmd \<and> in_scope cmd e"

definition ledger_total :: "reconcile_command \<Rightarrow> commerce_data \<Rightarrow> int" where
  "ledger_total cmd d = sum_rows (reconciled_rows cmd) ue_quantity (usage d)"

lemma ledger_quantities_total:
  "rc_period cmd \<noteq> [] \<Longrightarrow> sum_list (ledger_quantities cmd d) = ledger_total cmd d"
  by (simp add: ledger_quantities_def ListUsage_def ledger_total_def filter_sort sum_list_sort_key
      sum_rows_def reconciled_rows_def[abs_def])

lemma ledger_quantities_int64: "commerce_ok d \<Longrightarrow> \<forall>q\<in>set (ledger_quantities cmd d). int64 q"
  by (auto simp: ledger_quantities_def ListUsage_def commerce_ok_def ledger_ok_def usage_row_def usable_def
      dest!: rowsD)

section \<open>Reconciliation\<close>

definition corrected :: "cenv \<Rightarrow> reconcile_command \<Rightarrow> int \<Rightarrow> commerce_data \<Rightarrow> commerce_data \<Rightarrow> bool" where
  "corrected env cmd drift d d' \<longleftrightarrow>
     (\<exists>e. usage d' = AList.update (usageKey (ue_tenant e) (ue_key e)) e (usage d) \<and>
        map_of (usage d) (usageKey (ue_tenant e) (ue_key e)) = None \<and>
        reconciled_rows cmd e \<and> ue_quantity e = drift)"

definition fresh_correction :: "cenv \<Rightarrow> reconcile_command \<Rightarrow> commerce_data \<Rightarrow> bool" where
  "fresh_correction env cmd d \<longleftrightarrow>
     Commerce_GetIdempotency (rc_tenant cmd) ''usage'' (''reconcile:'' @ fingerprint env (JReconcile cmd)) d = None"

lemma recordUsage_new:
  assumes "Commerce_GetIdempotency (ue_tenant e) ''usage'' (ue_key e) d0 = None"
  shows "triple (\<lambda>d. d = d0) (recordUsage env e) (\<lambda>_ d. \<exists>i c.
    usage d = AList.update (usageKey (ue_tenant e) (ue_key e)) (e\<lparr>ue_id := i, ue_created_at := c, ue_version := 1\<rparr>) (usage d0) \<and>
    map_of (usage d0) (usageKey (ue_tenant e) (ue_key e)) = None)"
  unfolding recordUsage_def Let_def
proof (intro triple_steps triple_branches triple_stay, goal_cases)
  case (1 i created d1 now d2 d')
  then show ?case
    by (intro exI[of _ i] exI[of _ created]) (auto simp: write_Inr dest!: journaled_tables)
qed (use assms in simp)

lemma raiseAlert_usage: "triple (\<lambda>d. P (usage d)) (raiseAlert env cmd drift) (\<lambda>_ d. P (usage d))"
  unfolding raiseAlert_def
  by (intro triple_if triple_bind_newID triple_bind_now triple_write triple_ret) (auto simp: write_Inr)

lemma correction_recorded:
  assumes "fresh_correction env cmd d0" and "rc_period cmd \<noteq> []"
  shows "triple (\<lambda>d. d = d0) (appendUsageTx env (correctionEvent env cmd drift)) (\<lambda>_. corrected env cmd drift d0)"
  unfolding triple_def
proof (intro allI impI)
  fix w :: cworld and a w'
  let ?e = "correctionEvent env cmd drift"
  assume w: "db w = d0" and "appendUsageTx env ?e w = (Inr a, w')"
  then have "recordUsage env ?e w = (Inr a, w')"
    using assms(2) by (auto simp: appendUsageTx_named correctionEvent_def split: if_splits)
  moreover have "Commerce_GetIdempotency (ue_tenant ?e) ''usage'' (ue_key ?e) d0 = None"
    using assms(1) by (simp add: fresh_correction_def correctionEvent_def)
  ultimately obtain i c where
    "usage (db w') = AList.update (usageKey (ue_tenant ?e) (ue_key ?e))
        (?e\<lparr>ue_id := i, ue_created_at := c, ue_version := 1\<rparr>) (usage d0)"
    "map_of (usage d0) (usageKey (ue_tenant ?e) (ue_key ?e)) = None"
    using tripleD[OF recordUsage_new _ w] by blast
  then show "corrected env cmd drift d0 (db w')"
    unfolding corrected_def
    by (intro exI[of _ "?e\<lparr>ue_id := i, ue_created_at := c, ue_version := 1\<rparr>"])
      (simp add: correctionEvent_def reconciled_rows_def in_scope_def)
qed

lemma corrected_total: "corrected env cmd drift d d' \<Longrightarrow> ledger_total cmd d' = ledger_total cmd d + drift"
  by (auto simp: corrected_def ledger_total_def sum_rows_insert)

lemma reconcile_tx_settles:
  assumes ok: "commerce_ok d0" and fresh: "fresh_correction env cmd d0" and named: "rc_period cmd \<noteq> []"
    and obs: "int64 (rc_observed cmd)"
  shows "triple (\<lambda>d. d = d0) (reconcile_tx env cmd) (\<lambda>drift d.
    drift = rc_observed cmd - ledger_total cmd d0 \<and> ledger_total cmd d = rc_observed cmd)"
  unfolding reconcile_tx_def
proof (intro triple_get triple_branches triple_throw triple_stay)
  fix ledger drift
  assume s: "sum64 0 (ledger_quantities cmd d0) = Some ledger" and d: "safeSub (rc_observed cmd) ledger = Some drift"
  have l: "ledger = ledger_total cmd d0 \<and> int64 ledger"
    using sum64_Some[OF _ ledger_quantities_int64[OF ok] s] named
    by (simp add: ledger_quantities_total int64_defs)
  with obs have "safeSub (rc_observed cmd) ledger =
      (if int64 (rc_observed cmd - ledger) then Some (rc_observed cmd - ledger) else None)"
    by (intro safeSub_exact) auto
  with d l have drift: "drift = rc_observed cmd - ledger_total cmd d0" by (auto split: if_splits)
  then show "drift = rc_observed cmd - ledger_total cmd d0 \<and> ledger_total cmd d0 = rc_observed cmd"
    if "drift = 0" using that by simp
  let ?m = "seqE (appendUsageTx env (correctionEvent env cmd drift)) (seqE (raiseAlert env cmd drift) (ret drift))"
  have "triple (\<lambda>d. d = d0) ?m (\<lambda>a d. a = drift \<and> corrected env cmd drift d0 d)"
    unfolding corrected_def
    by (rule triple_seq[OF correction_recorded[OF fresh named, unfolded corrected_def]],
        rule triple_seq[OF raiseAlert_usage], rule triple_ret) simp
  then show "triple (\<lambda>d. d = d0) ?m
     (\<lambda>drift d. drift = rc_observed cmd - ledger_total cmd d0 \<and> ledger_total cmd d = rc_observed cmd)"
    by (rule triple_post) (use drift in \<open>auto dest: corrected_total\<close>)
qed

lemma ReconcileUsage_Inr:
  assumes "ReconcileUsage env cmd w = (Inr drift, w')"
  shows "reconcile_tx env (trimReconcile cmd) w = (Inr drift, w') \<and> rc_period (trimReconcile cmd) \<noteq> [] \<and>
    ValidMeter (rc_meter (trimReconcile cmd))"
  using assms unfolding ReconcileUsage_def Let_def seqE_def require_store_def
  by (auto simp: Commerce_Transact_Inr ret_def throw_def of_result_def split: if_splits)

lemma trimReconcile_observed [simp]: "rc_observed (trimReconcile cmd) = rc_observed cmd"
  by (simp add: trimReconcile_def)

lemma ReconcileUsage_settles:
  assumes "ReconcileUsage env cmd w = (Inr drift, w')" and "commerce_ok (db w)"
    and "fresh_correction env (trimReconcile cmd) (db w)" and "int64 (rc_observed cmd)"
  shows "drift = rc_observed cmd - sum_list (ledger_quantities (trimReconcile cmd) (db w)) \<and>
    sum_list (ledger_quantities (trimReconcile cmd) (db w')) = rc_observed cmd"
proof -
  let ?c = "trimReconcile cmd"
  have run: "reconcile_tx env ?c w = (Inr drift, w')" and named: "rc_period ?c \<noteq> []"
    using ReconcileUsage_Inr[OF assms(1)] by auto
  from tripleD[OF reconcile_tx_settles[OF assms(2,3) named] run] assms(4) named show ?thesis
    by (simp add: ledger_quantities_total)
qed

end
