(* ===== verification/Commerce_Invoice.thy ===== *)
theory Commerce_Invoice
  imports Commerce_Usage
begin

text \<open>
  What an invoice preview says: one line per resource, meter and kind of usage in the period, in
  order, with the allowance of the plan used up before anything is billed.
\<close>

section \<open>The specification\<close>

definition quantity_of :: "usage_event list \<Rightarrow> invoice_key \<Rightarrow> int" where
  "quantity_of es k = sum_list (map ue_quantity (filter (\<lambda>e. usage_key e = k) es))"

text \<open>What a line takes from the allowance, and what it could take.\<close>

definition covered :: "meter \<Rightarrow> invoice_line list \<Rightarrow> int" where
  "covered m lines = sum_list (map (\<lambda>l. il_quantity l - il_billable l) (filter (\<lambda>l. il_meter l = m) lines))"

definition coverable :: "meter \<Rightarrow> invoice_line list \<Rightarrow> int" where
  "coverable m lines =
     sum_list (map (\<lambda>l. max 0 (il_quantity l)) (filter (\<lambda>l. il_meter l = m \<and> il_kind l = UsageStandard) lines))"

definition line_rated :: "plan_spec \<Rightarrow> invoice_line \<Rightarrow> bool" where
  "line_rated spec l \<longleftrightarrow>
     line_amount spec (il_meter l) (il_billable l) = Inr (il_amount l) \<and>
     il_billable l \<le> il_quantity l \<and>
     (il_billable l < il_quantity l \<longrightarrow> il_kind l = UsageStandard \<and> 0 \<le> il_billable l)"

definition accounts_for :: "plan_spec \<Rightarrow> usage_event list \<Rightarrow> invoice_preview \<Rightarrow> bool" where
  "accounts_for spec es preview \<longleftrightarrow>
     sorted_wrt (<) (map line_key (ip_lines preview)) \<and>
     line_key ` set (ip_lines preview) = usage_key ` set es \<and>
     (\<forall>l\<in>set (ip_lines preview). il_quantity l = quantity_of es (line_key l) \<and> line_rated spec l) \<and>
     (\<forall>m. covered m (ip_lines preview) = min (included_allowance spec m) (coverable m (ip_lines preview))) \<and>
     ip_total preview = sum_list (map il_amount (ip_lines preview)) \<and> int64 (ip_total preview) \<and>
     ip_currency preview = Currency spec"

section \<open>Adding up the usage\<close>

lemma quantity_of_simps [simp]:
  "quantity_of [] k = 0"
  "quantity_of (e # es) k = (if usage_key e = k then ue_quantity e else 0) + quantity_of es k"
  by (simp_all add: quantity_of_def)

lemma quantity_at_update:
  "quantity_at (AList.update k v qs) k' = (if k' = k then v else quantity_at qs k')"
  by (simp add: quantity_at_def update_conv')

lemma tally_loop_spec:
  "tally_loop qs es = Inr qs' \<Longrightarrow> \<forall>k. int64 (quantity_at qs k) \<Longrightarrow> \<forall>e\<in>set es. int64 (ue_quantity e) \<Longrightarrow>
   distinct (map fst qs) \<Longrightarrow>
   distinct (map fst qs') \<and> set (map fst qs') = set (map fst qs) \<union> usage_key ` set es \<and>
   (\<forall>k. quantity_at qs' k = quantity_at qs k + quantity_of es k) \<and> (\<forall>k. int64 (quantity_at qs' k))"
proof (induction qs es rule: tally_loop.induct)
  case (2 qs e es)
  then obtain n where sum: "safeAdd (quantity_at qs (usage_key e)) (ue_quantity e) = Some n"
    and rest: "tally_loop (AList.update (usage_key e) n qs) es = Inr qs'"
    by (auto split: option.splits)
  from sum 2(3,4) have n: "n = quantity_at qs (usage_key e) + ue_quantity e" "int64 n"
    by (auto simp: safeAdd_exact split: if_splits)
  have step: "\<forall>k. int64 (quantity_at (AList.update (usage_key e) n qs) k)"
    "wf_map (AList.update (usage_key e) n qs)" "\<forall>e\<in>set es. int64 (ue_quantity e)"
    using 2(3-5) n by (simp_all add: quantity_at_update distinct_update)
  note IH = 2(1)[OF sum rest step(1,3,2)]
  then have "\<forall>k. quantity_at qs' k = quantity_at qs k + quantity_of (e # es) k"
    using n(1) by (simp add: quantity_at_update del: split_paired_All)
  with IH show ?case by (simp add: dom_update del: split_paired_All)
qed simp

section \<open>Rating the lines\<close>

lemma included_allowance_ok:
  "Spec_Validate u spec = Inr () \<Longrightarrow> spec_typed spec \<Longrightarrow>
   0 \<le> included_allowance spec m \<and> int64 (included_allowance spec m)"
  by (auto simp: included_allowance_def spec_typed_def int64_defs split: option.split
      dest: Spec_Validate_included map_of_SomeD)

lemma line_amount_int64: "line_amount spec m q = Inr a \<Longrightarrow> int64 a"
  by (auto simp: line_amount_def RateQuantity_def Let_def int64_defs split: option.splits sum.splits if_splits)

lemma drawn_range:
  "0 \<le> allowance \<Longrightarrow>
   drawn kind q allowance = (if kind = UsageStandard then min (max 0 q) allowance else 0)"
  by (auto simp: drawn_def)

text \<open>The first line, and the state that the loop goes on from.\<close>

lemma rate_loop_Cons:
  assumes run: "rate_loop spec quantities (k # ks) remaining tot = Inr (lines, final)"
    and q: "\<forall>k. int64 (quantity_at quantities k)" and r: "\<forall>m. 0 \<le> remaining m \<and> int64 (remaining m)"
    and tot: "int64 tot"
  obtains l ls where "lines = l # ls" and "line_key l = k" and "il_quantity l = quantity_at quantities k"
    and "line_rated spec l" and "int64 (tot + il_amount l)"
    and "il_quantity l - il_billable l = drawn (il_kind l) (il_quantity l) (remaining (il_meter l))"
    and "rate_loop spec quantities ks
      (remaining(il_meter l := remaining (il_meter l) - (il_quantity l - il_billable l))) (tot + il_amount l)
      = Inr (ls, final)"
proof -
  obtain rt ri m kind where k: "k = (rt, ri, m, kind)" by (cases k)
  define q used where "q = quantity_at quantities k" and "used = drawn kind q (remaining m)"
  have used: "0 \<le> used" "used \<le> max 0 q" "used \<le> remaining m" "0 < used \<longrightarrow> kind = UsageStandard"
    using r by (auto simp: used_def drawn_range)
  have "int64 q" "int64 (remaining m)" using q r by (simp_all add: q_def del: split_paired_All)
  then have sub: "sub64 q used = q - used" "sub64 (remaining m) used = remaining m - used"
    using used by (auto intro!: wrap64_id simp: int64_defs)
  have "rate_loop spec quantities (k # ks) remaining tot =
      (case line_amount spec m (q - used) of
         Inl e \<Rightarrow> Inl e
       | Inr amount \<Rightarrow>
           (case safeAdd tot amount of
              None \<Rightarrow> Inl (Err Overflow ''invoice total overflow'')
            | Some n \<Rightarrow>
                (case rate_loop spec quantities ks (remaining(m := remaining m - used)) n of
                   Inl e \<Rightarrow> Inl e
                 | Inr (lines, final) \<Rightarrow>
                     Inr (\<lparr>il_resource_type = rt, il_resource_id = ri, il_meter = m, il_kind = kind,
                           il_quantity = q, il_billable = q - used, il_amount = amount\<rparr> # lines, final))))"
    unfolding k rate_loop.simps Let_def q_def[unfolded k, symmetric] used_def[symmetric] sub ..
  with run obtain a n ls where a: "line_amount spec m (q - used) = Inr a" and n: "safeAdd tot a = Some n"
    and ls: "rate_loop spec quantities ks (remaining(m := remaining m - used)) n = Inr (ls, final)"
    and lines: "lines = \<lparr>il_resource_type = rt, il_resource_id = ri, il_meter = m, il_kind = kind,
      il_quantity = q, il_billable = q - used, il_amount = a\<rparr> # ls"
    by (auto split: sum.splits option.splits)
  have t: "n = tot + a" "int64 n"
    using n safeAdd_exact[OF tot line_amount_int64[OF a]] by (auto split: if_splits)
  show ?thesis
  proof (rule that[OF lines])
    have "q - used \<le> q" "used > 0 \<longrightarrow> kind = UsageStandard \<and> 0 \<le> q - used" using used by auto
    with a show "line_rated spec (\<lparr>il_resource_type = rt, il_resource_id = ri, il_meter = m, il_kind = kind,
      il_quantity = q, il_billable = q - used, il_amount = a\<rparr>)"
      by (simp add: line_rated_def)
  qed (use t ls in \<open>simp_all add: k line_key_def q_def used_def\<close>)
qed

lemma covered_step: "0 \<le> r \<Longrightarrow> 0 \<le> q \<Longrightarrow> 0 \<le> c \<Longrightarrow> min q r + min (r - min q r) c = min r (q + c)" for r :: int
  by (simp add: min_def)

lemma rate_loop_spec:
  assumes "rate_loop spec quantities ks remaining tot = Inr (lines, final)"
    and "\<forall>k. int64 (quantity_at quantities k)" and "\<forall>m. 0 \<le> remaining m \<and> int64 (remaining m)" and "int64 tot"
  shows "map line_key lines = ks \<and>
    (\<forall>l\<in>set lines. il_quantity l = quantity_at quantities (line_key l) \<and> line_rated spec l) \<and>
    (\<forall>m. covered m lines = min (remaining m) (coverable m lines)) \<and>
    final = tot + sum_list (map il_amount lines) \<and> int64 final"
  using assms
proof (induction ks arbitrary: remaining tot lines)
  case Nil
  then show ?case by (auto simp: covered_def coverable_def)
next
  case (Cons k ks)
  obtain l ls where l: "lines = l # ls" "line_key l = k" "il_quantity l = quantity_at quantities k"
      "line_rated spec l" "int64 (tot + il_amount l)"
    and d: "il_quantity l - il_billable l = drawn (il_kind l) (il_quantity l) (remaining (il_meter l))"
    and rest: "rate_loop spec quantities ks
      (remaining(il_meter l := remaining (il_meter l) - (il_quantity l - il_billable l))) (tot + il_amount l)
      = Inr (ls, final)"
    using rate_loop_Cons[OF Cons.prems] by blast
  let ?r = "remaining(il_meter l := remaining (il_meter l) - (il_quantity l - il_billable l))"
  have d': "il_quantity l - il_billable l =
      (if il_kind l = UsageStandard then min (max 0 (il_quantity l)) (remaining (il_meter l)) else 0)"
    using d Cons.prems(3) by (simp add: drawn_range)
  have r: "\<forall>m. 0 \<le> ?r m \<and> int64 (?r m)"
  proof
    fix m
    have "0 \<le> remaining m \<and> int64 (remaining m)" using Cons.prems(3) by blast
    then show "0 \<le> ?r m \<and> int64 (?r m)" using d' by (auto simp: int64_defs)
  qed
  note IH = Cons.IH[OF rest Cons.prems(2) r l(5)]
  have "covered m lines = min (remaining m) (coverable m lines)" for m
  proof -
    have "covered m ls = min (?r m) (coverable m ls)" using IH by blast
    moreover have "0 \<le> coverable m ls" unfolding coverable_def by (rule sum_list_nonneg) auto
    ultimately show ?thesis
      using Cons.prems(3)[rule_format, of m] d'
      by (auto simp: l(1) covered_def coverable_def covered_step)
  qed
  with IH l show ?case by auto
qed

section \<open>The preview\<close>

lemma usage_int64: "commerce_ok d \<Longrightarrow> e \<in> set (ListUsage tenant period d) \<Longrightarrow> int64 (ue_quantity e)"
  by (auto simp: ListUsage_def commerce_ok_def ledger_ok_def usage_row_def usable_def dest!: rowsD)

lemma Normalize_sorted: "sorted (map line_key (ip_lines p)) \<Longrightarrow> Normalize p = p"
  by (simp add: Normalize_def sort_key_id_if_sorted)

lemma invoice_accounts:
  assumes "commerce_ok d" and "invoice tenant period d = Inr preview"
  shows "\<exists>p pv. GetBillingPeriod period d = Some p \<and> bp_tenant p = tenant \<and>
    GetPlanVersion (bp_plan_version_id p) d = Some pv \<and> ip_plan_version_id preview = pv_id pv \<and>
    accounts_for (pv_spec pv) (ListUsage tenant period d) preview"
proof -
  let ?es = "ListUsage tenant period d"
  obtain p pv qs lines tot where p: "GetBillingPeriod period d = Some p" "bp_tenant p = tenant"
    and pv: "GetPlanVersion (bp_plan_version_id p) d = Some pv"
    and qs: "tally_loop [] ?es = Inr qs"
    and lines: "rate_loop (pv_spec pv) qs (sort (map fst qs)) (included_allowance (pv_spec pv)) 0 = Inr (lines, tot)"
    and preview: "preview = Normalize \<lparr>ip_tenant = tenant, ip_period = period, ip_currency = Currency (pv_spec pv),
      ip_plan_version_id = pv_id pv, ip_policy_version = pv_policy_version pv, ip_lines = lines, ip_total = tot\<rparr>"
    using assms(2) by (auto simp: invoice_def split: option.splits sum.splits prod.splits if_splits)
  have t: "distinct (map fst qs)" "set (map fst qs) = usage_key ` set ?es"
      "\<forall>k. quantity_at qs k = quantity_of ?es k" "\<forall>k. int64 (quantity_at qs k)"
    using tally_loop_spec[OF qs] usage_int64[OF assms(1)]
    by (auto simp: quantity_at_def int64_defs)
  have "\<forall>m. 0 \<le> included_allowance (pv_spec pv) m \<and> int64 (included_allowance (pv_spec pv) m)"
    using plan_row_of[OF assms(1) pv] by (auto simp: plan_row_def plan_valid_def dest: included_allowance_ok)
  from rate_loop_spec[OF lines t(4) this] have r: "map line_key lines = sort (map fst qs)"
      "\<forall>l\<in>set lines. il_quantity l = quantity_at qs (line_key l) \<and> line_rated (pv_spec pv) l"
      "\<forall>m. covered m lines = min (included_allowance (pv_spec pv) m) (coverable m lines)"
      "tot = sum_list (map il_amount lines)" "int64 tot"
    by (auto simp: int64_defs)
  have keys: "line_key ` set lines = usage_key ` set ?es"
    using arg_cong[OF r(1), of set] t(2) by simp
  have sorted: "sorted_wrt (<) (map line_key lines)"
    using t(1) by (simp add: r(1) strict_sorted_iff)
  then have "sorted (map line_key lines)" by (simp add: strict_sorted_iff)
  with preview have "ip_lines preview = lines" "ip_total preview = tot" "ip_currency preview = Currency (pv_spec pv)"
      "ip_plan_version_id preview = pv_id pv"
    by (simp_all add: Normalize_sorted)
  with p pv sorted keys r t(3) show ?thesis by (auto simp: accounts_for_def)
qed

lemma PreviewInvoice_Inr:
  "PreviewInvoice env tenant period w = (Inr preview, w') \<Longrightarrow>
   w' = w \<and> invoice (TrimSpace tenant) (TrimSpace period) (db w) = Inr preview"
  unfolding PreviewInvoice_def seqE_def require_store_def
  by (auto simp: Commerce_Transact_Inr act_simps split: if_splits)

end
