(* ===== verification/Commerce_Entitlement.thy ===== *)
theory Commerce_Entitlement
  imports Commerce_Usage
begin

text \<open>
  \<open>Check\<close> and \<open>Reserve\<close> decide by the same rule, the feature apart that only \<open>Check\<close> looks at; and
  the instant at which a reservation is judged.
\<close>

definition allocation :: "gotime \<Rightarrow> string \<Rightarrow> string \<Rightarrow> int \<Rightarrow> commerce_data \<Rightarrow> bool" where
  "allocation t tenant resource n d \<longleftrightarrow>
     (\<exists>sub pv account limit.
        FindSubscriptionByTenant tenant d = Some sub \<and> GetPlanVersion (sub_plan_version_id sub) d = Some pv \<and>
        GetCommercialAccount tenant d = Some account \<and> AllowsAllocation t sub \<and> \<not> account_denies account \<and>
        map_of (Quotas (pv_spec pv)) resource = Some limit \<and>
        n \<le> sub64 limit (activeQuota tenant resource t d))"

definition denied :: "cerror \<Rightarrow> bool" where
  "denied e \<longleftrightarrow> HasCode e PermissionDenied \<or> HasCode e QuotaExceeded"

lemma denied_simps [simp]:
  "denied (Err c m) \<longleftrightarrow> c = PermissionDenied \<or> c = QuotaExceeded"
  "denied (Wrap c m e) \<longleftrightarrow> c = PermissionDenied \<or> c = QuotaExceeded"
  by (simp_all add: denied_def)

definition feature_included :: "entitlement_request \<Rightarrow> commerce_data \<Rightarrow> bool" where
  "feature_included req d \<longleftrightarrow>
     (\<exists>sub pv. FindSubscriptionByTenant (er_tenant req) d = Some sub \<and>
        GetPlanVersion (sub_plan_version_id sub) d = Some pv \<and> Features (pv_spec pv) (er_feature req) = Some True)"

lemma over_limit: "0 < n \<Longrightarrow> max64 0 r < n \<longleftrightarrow> \<not> n \<le> r"
  by (auto simp: max64_def)

lemma decide_allocation:
  assumes "decide req t d = Inr dec" and "er_resource req \<noteq> []" and "0 < er_quantity req"
  shows "ed_allowed dec \<longleftrightarrow>
    feature_included req d \<and> allocation t (er_tenant req) (er_resource req) (er_quantity req) d"
  using assms
  by (auto simp: decide_def feature_included_def allocation_def over_limit Let_def
      split: option.splits if_splits)

lemma decide_exists:
  "decide req t d = Inr dec \<Longrightarrow>
   \<exists>sub pv account. FindSubscriptionByTenant (er_tenant req) d = Some sub \<and>
     GetPlanVersion (sub_plan_version_id sub) d = Some pv \<and> GetCommercialAccount (er_tenant req) d = Some account"
  by (auto simp: decide_def split: option.splits)

lemma decide_remaining:
  assumes "decide req t d = Inr dec" and "ed_allowed dec" and "er_resource req \<noteq> []" and "commerce_ok d"
    and "0 < er_quantity req"
  shows "quota_limit (er_tenant req) (er_resource req) d = Some (ed_limit dec) \<and>
    er_quantity req \<le> ed_remaining dec \<and> ed_remaining dec = ed_limit dec - reserved t (er_tenant req) (er_resource req) d"
proof -
  let ?r = "reserved t (er_tenant req) (er_resource req) d" and ?l = "ed_limit dec"
  let ?a = "activeQuota (er_tenant req) (er_resource req) t d"
  have d: "quota_limit (er_tenant req) (er_resource req) d = Some ?l \<and>
      ed_remaining dec = max64 0 (sub64 ?l ?a) \<and> er_quantity req \<le> ed_remaining dec"
    using assms(1-3)
    by (auto simp: decide_def quota_limit_def Let_def split: option.splits if_splits)
  then have l: "0 \<le> ?l" "int64 ?l" using limit_typed[OF assms(4)] by auto
  have r: "0 \<le> ?r" by (rule reserved_nonneg[OF assms(4)])
  have a: "?a = min MaxInt64 ?r" by (rule activeQuota_exact[OF assms(4,3)])
  with l r have "sub64 ?l ?a = ?l - ?a" by (intro wrap64_id) (auto simp: int64_defs)
  moreover have "0 < sub64 ?l ?a" using d assms(5) by (auto simp: max64_def split: if_splits)
  ultimately have "?a = ?r" using a l by (auto simp: int64_defs min_def split: if_splits)
  with d \<open>sub64 ?l ?a = ?l - ?a\<close> \<open>0 < sub64 ?l ?a\<close> show ?thesis by (auto simp: max64_def)
qed

text \<open>Once the rule has let a reservation through, what still may fail is not a denial.\<close>

definition spares :: "'a cact \<Rightarrow> bool" where
  "spares m \<longleftrightarrow> (\<forall>w e w'. m w = (Inl e, w') \<longrightarrow> \<not> denied e)"

lemma spares_bind: "spares m \<Longrightarrow> (\<And>a. spares (k a)) \<Longrightarrow> spares (bindE m k)"
  unfolding spares_def by (auto simp: bindE_def split: prod.splits sum.splits)

lemma spares_seq: "spares m \<Longrightarrow> spares k \<Longrightarrow> spares (seqE m k)"
  unfolding seqE_def by (rule spares_bind)

lemma spares_basic:
  "spares (ret a)" "spares (newID env p)" "spares (service_now env)"
  by (auto simp: spares_def newID_def service_now_def ret_def split: option.splits)

lemma spares_throw: "\<not> denied e \<Longrightarrow> spares (throw e)"
  by (simp add: spares_def throw_def)

lemma spares_write: "(\<And>d e. f d = Inl e \<Longrightarrow> \<not> denied e) \<Longrightarrow> spares (tx_write f)"
  by (auto simp: spares_def tx_write_def split: sum.splits)

lemma spares_result: "(\<And>e. r = Inl e \<Longrightarrow> \<not> denied e) \<Longrightarrow> spares (of_result r)"
  by (auto simp: spares_def of_result_def)

lemma spares_record: "spares (record_change env tenant topic aggregate payload)"
  by (cases "Marshal payload")
    (auto simp: record_change_def Commerce_AppendOutbox_def Commerce_AppendAudit_def
      intro!: spares_bind spares_seq spares_basic spares_write spares_throw)

definition Reserve_rest :: "cenv \<Rightarrow> quota_request \<Rightarrow> gotime \<Rightarrow> string \<Rightarrow> plan_version \<Rightarrow> quota_contract cact" where
  "Reserve_rest env req t fp pv =
     bindE (newID env ''quota'') (\<lambda>i.
     bindE (of_result (NewQuotaReservation i (qq_tenant req) (qq_resource req) (pv_policy_version pv)
              (qq_key req) fp (qq_quantity req) (qq_expires_at req) t)) (\<lambda>q.
     seqE (tx_write (InsertQuotaReservation q))
     (seqE (record_change env (qq_tenant req) ''commerce.quota.reserved'' (qr_id q) (JQuota (Contract q)))
     (ret (Contract q)))))"

lemma spares_rest: "spares (Reserve_rest env req t fp pv)"
  unfolding Reserve_rest_def
  by (intro spares_bind spares_seq spares_basic spares_result spares_write spares_record)
    (auto simp: NewQuotaReservation_def InsertQuotaReservation_def split: if_splits option.splits)

lemma Reserve_tx_allocates:
  assumes "allocation t (qq_tenant req) (qq_resource req) (qq_quantity req) (db w)"
    and "FindQuotaReservation (qq_tenant req) (qq_key req) (db w) = None"
  shows "\<exists>pv. Reserve_tx env req t fp w = Reserve_rest env req t fp pv w"
  using assms unfolding Reserve_tx_def Reserve_rest_def[symmetric]
  by (auto simp: allocation_def bindE_run tx_get_run)

lemma Reserve_tx_denied:
  assumes run: "Reserve_tx env req t fp w = (r, w')"
    and new: "FindQuotaReservation (qq_tenant req) (qq_key req) (db w) = None"
    and ex: "FindSubscriptionByTenant (qq_tenant req) (db w) = Some sub"
      "GetPlanVersion (sub_plan_version_id sub) (db w) = Some pv"
      "GetCommercialAccount (qq_tenant req) (db w) = Some account"
  shows "(\<exists>e. r = Inl e \<and> denied e) \<longleftrightarrow> \<not> allocation t (qq_tenant req) (qq_resource req) (qq_quantity req) (db w)"
proof (cases "allocation t (qq_tenant req) (qq_resource req) (qq_quantity req) (db w)")
  case False
  with run new ex show ?thesis
    by (auto simp: Reserve_tx_def allocation_def act_simps throw_def bindE_def split: option.splits if_splits)
next
  case True
  then show ?thesis
    using Reserve_tx_allocates[OF True new] run spares_rest unfolding spares_def by metis
qed

section \<open>Through the service\<close>

lemma Check_Inr:
  assumes "Check env req w = (Inr dec, w')"
  shows "decide (req\<lparr>er_tenant := TrimSpace (er_tenant req), er_feature := TrimSpace (er_feature req),
      er_resource := TrimSpace (er_resource req)\<rparr>)
    (if IsZero (er_at req) then cv_clock env (clk_seq w) else er_at req) (db w) = Inr dec \<and>
    cv_store env \<and> cv_ctx env = None \<and> TrimSpace (er_tenant req) \<noteq> []"
  using assms unfolding Check_def seqE_def require_store_def Let_def
  by (auto simp: Commerce_Transact_Inr act_simps split: if_splits)

lemma Reserve_run:
  assumes "cv_store env" and "cv_ctx env = None" and "TrimSpace (qq_tenant req) \<noteq> []"
    and "TrimSpace (qq_resource req) \<noteq> []" and "TrimSpace (qq_key req) \<noteq> []" and "0 < qq_quantity req"
    and t: "t = (if IsZero (qq_at req) then cv_clock env (clk_seq w) else qq_at req)"
    and "t < qq_expires_at req"
  obtains w1 where "db w1 = db w" and "fst (Reserve env req w) =
    fst (Reserve_tx env (Reserve_request req) t (fingerprint env (JQuotaRequest (Reserve_request req))) w1)"
proof
  let ?w = "if IsZero (qq_at req) then w\<lparr>clk_seq := clk_seq w + 1\<rparr> else w"
  show "db ?w = db w" by simp
  show "fst (Reserve env req w) =
      fst (Reserve_tx env (Reserve_request req) t (fingerprint env (JQuotaRequest (Reserve_request req))) ?w)"
    using assms by (cases "IsZero (qq_at req)")
      (simp_all add: Reserve_def require_store_def act_simps Let_def Reserve_request_def Commerce_Transact_def
        split: prod.split sum.split)
qed

definition same_request :: "entitlement_request \<Rightarrow> quota_request \<Rightarrow> bool" where
  "same_request check req \<longleftrightarrow>
     TrimSpace (er_tenant check) = TrimSpace (qq_tenant req) \<and>
     TrimSpace (er_resource check) = TrimSpace (qq_resource req) \<and>
     er_quantity check = qq_quantity req \<and> er_at check = qq_at req"

lemma Check_Reserve:
  assumes check: "Check env check w = (Inr dec, w1)" and same: "same_request check req"
    and req: "TrimSpace (qq_resource req) \<noteq> []" "TrimSpace (qq_key req) \<noteq> []" "0 < qq_quantity req"
    and expires: "\<And>t. t = (if IsZero (qq_at req) then cv_clock env (clk_seq w) else qq_at req) \<Longrightarrow> t < qq_expires_at req"
    and new: "FindQuotaReservation (TrimSpace (qq_tenant req)) (TrimSpace (qq_key req)) (db w) = None"
  shows "ed_allowed dec \<longleftrightarrow> feature_included (check\<lparr>er_tenant := TrimSpace (er_tenant check),
      er_feature := TrimSpace (er_feature check), er_resource := TrimSpace (er_resource check)\<rparr>) (db w) \<and>
    \<not> (\<exists>e w2. Reserve env req w = (Inl e, w2) \<and> denied e)"
    (is "_ \<longleftrightarrow> ?feature \<and> _")
proof -
  let ?t = "if IsZero (qq_at req) then cv_clock env (clk_seq w) else qq_at req" and ?r = "Reserve_request req"
  note c = Check_Inr[OF check]
  note s = same[unfolded same_request_def]
  obtain w0 where w0: "db w0 = db w" and run: "fst (Reserve env req w) =
      fst (Reserve_tx env ?r ?t (fingerprint env (JQuotaRequest ?r)) w0)"
    by (rule Reserve_run[of env req ?t w]) (use c s req expires in auto)
  have "ed_allowed dec \<longleftrightarrow> ?feature \<and> allocation ?t (qq_tenant ?r) (qq_resource ?r) (qq_quantity ?r) (db w0)"
    using decide_allocation[OF conjunct1[OF c]] s req w0 by (simp add: Reserve_request_def)
  also have "allocation ?t (qq_tenant ?r) (qq_resource ?r) (qq_quantity ?r) (db w0) \<longleftrightarrow>
      \<not> (\<exists>e. fst (Reserve env req w) = Inl e \<and> denied e)"
  proof -
    from decide_exists[OF conjunct1[OF c]] s obtain sub pv account where
      "FindSubscriptionByTenant (qq_tenant ?r) (db w0) = Some sub"
      "GetPlanVersion (sub_plan_version_id sub) (db w0) = Some pv"
      "GetCommercialAccount (qq_tenant ?r) (db w0) = Some account"
      by (auto simp: Reserve_request_def w0)
    moreover have "FindQuotaReservation (qq_tenant ?r) (qq_key ?r) (db w0) = None"
      using new by (simp add: Reserve_request_def w0)
    ultimately show ?thesis
      using Reserve_tx_denied[OF surjective_pairing,
        where env = env and req = ?r and t = ?t and fp = "fingerprint env (JQuotaRequest ?r)" and w = w0] run
      by metis
  qed
  finally show ?thesis by (metis fst_conv prod.collapse)
qed

section \<open>The instant of the judgement\<close>

text \<open>What \<open>Reserve_tx\<close> compares, without saturation and wrap-around.\<close>

lemma quota_room:
  assumes ok: "commerce_ok d" and limit: "quota_limit tenant resource d = Some limit" and n: "0 < n"
  shows "n \<le> sub64 limit (activeQuota tenant resource t d) \<longleftrightarrow> reserved t tenant resource d + n \<le> limit"
proof -
  have l: "0 \<le> limit" "int64 limit" "resource \<noteq> []" using limit_typed[OF ok limit] by auto
  have r: "0 \<le> reserved t tenant resource d" by (rule reserved_nonneg[OF ok])
  have a: "activeQuota tenant resource t d = min MaxInt64 (reserved t tenant resource d)"
    by (rule activeQuota_exact[OF ok l(3)])
  with l r have "sub64 limit (activeQuota tenant resource t d) = limit - activeQuota tenant resource t d"
    by (intro wrap64_id) (auto simp: int64_defs)
  with a l r n show ?thesis by (auto simp: int64_defs min_def)
qed

lemma Reserve_rest_reserves:
  assumes "qq_tenant req = TrimSpace (qq_tenant req)" "qq_resource req = TrimSpace (qq_resource req)"
  shows "triple (\<lambda>d. d = d0) (Reserve_rest env req t fp pv) (\<lambda>_ d. \<forall>t' < qq_expires_at req.
    reserved t' (qq_tenant req) (qq_resource req) d =
    reserved t' (qq_tenant req) (qq_resource req) d0 + qq_quantity req)"
  unfolding Reserve_rest_def
proof (intro triple_steps, goal_cases)
  case (1 i q d1 d2)
  then have q: "qr_tenant q = qq_tenant req" "qr_resource q = qq_resource req" "qr_quantity q = qq_quantity req"
    "qr_state q = QuotaReserved" "qr_expires_at q = qq_expires_at req"
    using assms by (auto simp: NewQuotaReservation_def split: if_splits)
  from 1 have "quotas d2 = AList.update (qr_id q) q (quotas d0)" "map_of (quotas d0) (qr_id q) = None"
    by (auto simp: write_Inr dest!: journaled_tables)
  with q show ?case
    by (auto simp: reserved_def sum_rows_insert holds_def CountsAgainstLimit_def)
qed


lemma Reserve_tx_quota:
  assumes ok: "commerce_ok (db w)" and run: "Reserve_tx env req t fp w = (r, w')"
    and new: "FindQuotaReservation (qq_tenant req) (qq_key req) (db w) = None"
    and limit: "quota_limit (qq_tenant req) (qq_resource req) (db w) = Some limit" and n: "0 < qq_quantity req"
    and trimmed: "qq_tenant req = TrimSpace (qq_tenant req)" "qq_resource req = TrimSpace (qq_resource req)"
  shows "case r of
      Inl e \<Rightarrow> HasCode e QuotaExceeded \<longrightarrow> limit < reserved t (qq_tenant req) (qq_resource req) (db w) + qq_quantity req
    | Inr c \<Rightarrow> reserved t (qq_tenant req) (qq_resource req) (db w) + qq_quantity req \<le> limit \<and>
        (\<forall>t' < qq_expires_at req. reserved t' (qq_tenant req) (qq_resource req) (db w') =
           reserved t' (qq_tenant req) (qq_resource req) (db w) + qq_quantity req)"
proof (cases "allocation t (qq_tenant req) (qq_resource req) (qq_quantity req) (db w)")
  case True
  then obtain pv where rest: "Reserve_rest env req t fp pv w = (r, w')"
    using Reserve_tx_allocates[OF True new] run by metis
  have "reserved t (qq_tenant req) (qq_resource req) (db w) + qq_quantity req \<le> limit"
  proof -
    from True obtain sub pv m where "FindSubscriptionByTenant (qq_tenant req) (db w) = Some sub"
      "GetPlanVersion (sub_plan_version_id sub) (db w) = Some pv" "map_of (Quotas (pv_spec pv)) (qq_resource req) = Some m"
      "qq_quantity req \<le> sub64 m (activeQuota (qq_tenant req) (qq_resource req) t (db w))"
      unfolding allocation_def by blast
    moreover from this limit have "m = limit" by (simp add: quota_limit_def)
    ultimately show ?thesis using quota_room[OF ok limit n] by blast
  qed
  moreover have "\<not> HasCode e QuotaExceeded" if "r = Inl e" for e
    using rest spares_rest that unfolding spares_def denied_def by blast
  moreover have "\<forall>t' < qq_expires_at req. reserved t' (qq_tenant req) (qq_resource req) (db w') =
      reserved t' (qq_tenant req) (qq_resource req) (db w) + qq_quantity req" if "r = Inr c" for c
    using tripleD[OF Reserve_rest_reserves[OF trimmed] rest[unfolded that] refl] .
  ultimately show ?thesis by (auto split: sum.split)
next
  case False
  obtain sub pv where plan: "FindSubscriptionByTenant (qq_tenant req) (db w) = Some sub"
    "GetPlanVersion (sub_plan_version_id sub) (db w) = Some pv" "map_of (Quotas (pv_spec pv)) (qq_resource req) = Some limit"
    using limit by (auto simp: quota_limit_def split: option.splits)
  note tx = run[unfolded Reserve_tx_def, simplified bindE_run tx_get_run new plan prod.case sum.case option.case]
  show ?thesis
  proof (cases "GetCommercialAccount (qq_tenant req) (db w)")
    case None
    with tx show ?thesis by (auto simp: throw_def bindE_run tx_get_run plan)
  next
    case (Some account)
    show ?thesis
    proof (cases "\<not> AllowsAllocation t sub \<or> account_denies account")
      case True
      with tx Some show ?thesis by (auto simp: throw_def bindE_run tx_get_run plan)
    next
      case open_account: False
      with False Some plan have "\<not> qq_quantity req \<le> sub64 limit (activeQuota (qq_tenant req) (qq_resource req) t (db w))"
        unfolding allocation_def by blast
      with tx Some open_account quota_room[OF ok limit n, of t] show ?thesis
        by (auto simp: throw_def bindE_run tx_get_run plan)
    qed
  qed
qed

lemma Reserve_quota:
  assumes ok: "commerce_ok (db w)" and at: "\<not> IsZero (qq_at req)" and ctx: "cv_ctx env = None"
    and run: "Reserve env req w = (r, w')"
    and new: "FindQuotaReservation (TrimSpace (qq_tenant req)) (TrimSpace (qq_key req)) (db w) = None"
    and limit: "quota_limit (TrimSpace (qq_tenant req)) (TrimSpace (qq_resource req)) (db w) = Some limit"
  shows "case r of
      Inl e \<Rightarrow> HasCode e QuotaExceeded \<longrightarrow>
        limit < reserved (qq_at req) (TrimSpace (qq_tenant req)) (TrimSpace (qq_resource req)) (db w) + qq_quantity req
    | Inr c \<Rightarrow>
        reserved (qq_at req) (TrimSpace (qq_tenant req)) (TrimSpace (qq_resource req)) (db w) + qq_quantity req \<le> limit \<and>
        (\<forall>t < qq_expires_at req.
           reserved t (TrimSpace (qq_tenant req)) (TrimSpace (qq_resource req)) (db w') =
           reserved t (TrimSpace (qq_tenant req)) (TrimSpace (qq_resource req)) (db w) + qq_quantity req)"
proof -
  let ?r = "Reserve_request req"
  let ?tx = "Reserve_tx env ?r (qq_at req) (fingerprint env (JQuotaRequest ?r))"
  show ?thesis
  proof (cases "(\<exists>m. r = Inl (Err InvalidArgument m)) \<or> (\<exists>e. r = Inl e \<and> require_store env w = (Inl e, w'))")
    case True
    then show ?thesis by (auto simp: require_store_def act_simps throw_def ret_def split: if_splits)
  next
    case False
    then have "Commerce_Transact env ?tx w = (r, w')" and n: "0 < qq_quantity ?r"
      using run at by (auto simp: Reserve_def Let_def seqE_def bindE_def require_store_def ret_def throw_def Reserve_request_def
          split: if_splits)
    then obtain w1 where "?tx w = (r, w1)" "\<And>c. r = Inr c \<Longrightarrow> w1 = w'"
      using ctx by (auto simp: Commerce_Transact_def split: prod.splits sum.splits)
    from Reserve_tx_quota[OF ok this(1) _ _ n] this(2) new limit show ?thesis
      by (auto simp: Reserve_request_def split: sum.splits)
  qed
qed

end
