(* ===== verification/Commerce_Scenario.thy ===== *)
theory Commerce_Scenario
  imports Commerce_Invoice Commerce_Entitlement
begin

text \<open>
  A concrete run of the commerce service: a shop publishes a plan, a tenant subscribes, reserves
  quota and uses resources. The properties of the component are applied to it.
\<close>

section \<open>The shop\<close>

definition shop_env :: cenv where
  "shop_env =
     \<lparr>cv_unicode = ascii_tables, cv_store = True, cv_hash = (\<lambda>_. ''fp''),
      cv_ids = Some (\<lambda>n prefix. prefix @ ''_'' @ replicate (n + 1) (CHR ''x'')),
      cv_clock = (\<lambda>n. 1000 + int n), cv_ownership = Some (\<lambda>_ _ _. Inr True),
      cv_threshold = 0, cv_ctx = None\<rparr>"

definition empty_world :: cworld where
  "empty_world = \<lparr>db = newData, id_seq = 0, clk_seq = 0\<rparr>"

definition starter_spec :: plan_spec where
  "starter_spec =
     \<lparr>Currency = ''USD'', Features = [''deploy'' \<mapsto> True], Quotas = [(''apps'', 3)],
      Prices = [(MeterBuildCPUSeconds, \<lparr>MinorUnits = 2, PerQuantity = 60\<rparr>)],
      Included = [(MeterBuildCPUSeconds, 100)], ChargeUserBuildFailures = False\<rparr>"

definition starter_version :: create_plan_version_command where
  "starter_version =
     \<lparr>cp_id = ''v1'', cp_definition_id = ''starter'', cp_policy_version = ''p1'', cp_number = 1,
      cp_spec = starter_spec, cp_effective_from = 0\<rparr>"

definition start_acme :: start_subscription_command where
  "start_acme =
     \<lparr>ss_id = ''s1'', ss_tenant = ''acme'', ss_plan_version_id = ''v1'', ss_period_id = ''m1'',
      ss_state = SubscriptionActive, ss_trial_ends_at = 0, ss_period_start = 500, ss_period_end = 5000\<rparr>"

definition shop_opening :: "commerce_call list" where
  "shop_opening =
     [CallCreatePlanDefinition ''starter'' ''Starter'', CallCreatePlanVersion starter_version,
      CallActivatePlanVersion ''v1'', CallStartSubscription start_acme]"

definition reserve_apps :: "string \<Rightarrow> int \<Rightarrow> gotime \<Rightarrow> gotime \<Rightarrow> quota_request" where
  "reserve_apps key n expires t =
     \<lparr>qq_tenant = ''acme'', qq_resource = ''apps'', qq_quantity = n, qq_key = key,
      qq_expires_at = expires, qq_at = t\<rparr>"

definition check_apps :: "int \<Rightarrow> gotime \<Rightarrow> entitlement_request" where
  "check_apps n t =
     \<lparr>er_tenant = ''acme'', er_feature = ''deploy'', er_resource = ''apps'', er_quantity = n, er_at = t\<rparr>"

definition build_seconds :: "int \<Rightarrow> usage_event" where
  "build_seconds q =
     \<lparr>ue_id = [], ue_tenant = ''acme'', ue_period = ''m1'', ue_resource_type = ''build'',
      ue_resource_id = ''b1'', ue_meter = MeterBuildCPUSeconds, ue_kind = UsageStandard, ue_quantity = q,
      ue_key = ''u1'', ue_occurred_at = 650, ue_window_start = 600, ue_window_end = 660,
      ue_metadata = Map.empty, ue_version = 0, ue_created_at = 0\<rparr>"

definition observe :: "int \<Rightarrow> gotime \<Rightarrow> reconcile_command" where
  "observe q stop =
     \<lparr>rc_tenant = ''acme'', rc_period = ''m1'', rc_resource_type = ''build'', rc_resource_id = ''b1'',
      rc_meter = MeterBuildCPUSeconds, rc_window_start = 600, rc_window_end = stop, rc_observed = q\<rparr>"

fun run_calls :: "cenv \<Rightarrow> commerce_call list \<Rightarrow> cworld \<Rightarrow> cworld" where
  "run_calls env [] w = w"
| "run_calls env (c # cs) w = run_calls env cs (snd (perform env c w))"

definition open_world :: cworld where
  "open_world = run_calls shop_env shop_opening empty_world"

definition used_world :: cworld where
  "used_world = run_calls shop_env [CallAppend (build_seconds 150)] open_world"

definition full_world :: cworld where
  "full_world = run_calls shop_env [CallReserve (reserve_apps ''k1'' 3 2000 0)] open_world"

lemma run_calls_steps:
  "\<forall>c\<in>set cs. typed_call c \<and> A c \<Longrightarrow> (commerce_step (cv_clock env) A)\<^sup>*\<^sup>* w (run_calls env cs w)"
proof (induction cs arbitrary: w)
  case (Cons c cs)
  then have "commerce_step (cv_clock env) A w (snd (perform env c w))" by (auto simp: commerce_step_def)
  moreover have "(commerce_step (cv_clock env) A)\<^sup>*\<^sup>* (snd (perform env c w)) (run_calls env (c # cs) w)"
    using Cons by simp
  ultimately show ?case by (rule converse_rtranclp_into_rtranclp)
qed simp

section \<open>Running the service\<close>

lemma shop_trims [simp]:
  "TrimSpace ''starter'' = ''starter''" "TrimSpace ''Starter'' = ''Starter''" "TrimSpace ''v1'' = ''v1''"
  "TrimSpace ''p1'' = ''p1''" "TrimSpace ''s1'' = ''s1''" "TrimSpace ''acme'' = ''acme''"
  "TrimSpace ''m1'' = ''m1''" "TrimSpace ''apps'' = ''apps''" "TrimSpace ''deploy'' = ''deploy''"
  "TrimSpace ''build'' = ''build''" "TrimSpace ''b1'' = ''b1''" "TrimSpace ''u1'' = ''u1''"
  "TrimSpace ''k1'' = ''k1''" "TrimSpace ''k2'' = ''k2''"
  by code_simp+

lemma upper_USD: "ToUpper ascii_tables ''USD'' = ''USD''"
  by (simp add: ToUpper_def runes_def encode_rune_def rune_upper_def ascii_tables_def char_of_eq_iff)

lemma json_time_small: "json_time t \<longleftrightarrow> - 31622400000000000 \<le> t \<and> t < 315537897600000000000"
  by (simp add: json_time_def Second_def)

lemma starter_valid: "Spec_Validate ascii_tables starter_spec = Inr ()"
  by (simp add: Spec_Validate_def starter_spec_def upper_USD meter_defs Price_Validate_def)

lemma starter_typed: "spec_typed starter_spec"
  by (simp add: spec_typed_def starter_spec_def int64_defs)

lemmas run_defs = shop_env_def record_change_def Marshal_def json_time_small newID_def service_now_def
  tx_write_def tx_get_def tx_read_def bindE_def seqE_def ret_def throw_def of_result_def
  Commerce_Transact_def require_store_def quiet_def Commerce_AppendOutbox_def Commerce_AppendAudit_def
  IsZero_def Let_def wrap64_def MaxInt64_def

lemmas plan_defs = CreatePlanDefinition_def CreatePlanVersion_def ActivatePlanVersion_def transitionPlan_def
  StartSubscription_def NewPlanDefinition_def NewPlanVersion_def Activate_def NewSubscription_def
  NewBillingPeriod_def NewCommercialAccount_def InsertPlanDefinition_def GetPlanDefinition_def
  ListPlanVersions_def InsertPlanVersion_def GetPlanVersion_def UpdatePlanVersion_def
  FindSubscriptionByTenant_def InsertSubscription_def InsertBillingPeriod_def InsertCommercialAccount_def
  ClonePlanSpec_def starter_valid starter_version_def start_acme_def

lemmas quota_defs = Reserve_def Reserve_request_def Reserve_tx_def FindQuotaReservation_def
  GetCommercialAccount_def FindSubscriptionByTenant_def GetPlanVersion_def AllowsAllocation_def account_denies_def
  activeQuota_def ListQuotaReservations_def NewQuotaReservation_def InsertQuotaReservation_def Contract_def
  fingerprint_def CountsAgainstLimit_def reserve_apps_def

lemmas usage_defs = Append_def normalizeUsage_def trimUsage_def checkOwner_def Owns_def appendUsageTx_def
  choosePeriod_def GetBillingPeriod_def AcceptsUsage_def Contains_def recordUsage_def fingerprint_def
  Commerce_GetIdempotency_def InsertUsage_def InsertIdempotency_def build_seconds_def meter_defs kind_defs

lemma open_tables:
  "map_of (versions (db open_world)) =
     [''v1'' \<mapsto> \<lparr>pv_id = ''v1'', pv_definition_id = ''starter'', pv_policy_version = ''p1'', pv_number = 1,
        pv_spec = starter_spec, pv_state = PlanActive, pv_effective_from = 0, pv_version = 2,
        pv_created_at = 1002, pv_updated_at = 1004\<rparr>] \<and>
   subscriptions (db open_world) =
     [(''s1'', \<lparr>sub_id = ''s1'', sub_tenant = ''acme'', sub_plan_version_id = ''v1'',
        sub_state = SubscriptionActive, sub_trial_ends_at = 0, sub_version = 1,
        sub_created_at = 1006, sub_updated_at = 1006\<rparr>)] \<and>
   periods (db open_world) =
     [(''m1'', \<lparr>bp_id = ''m1'', bp_tenant = ''acme'', bp_subscription_id = ''s1'',
        bp_plan_version_id = ''v1'', bp_start = 500, bp_end = 5000, bp_state = PeriodOpen,
        bp_version = 1, bp_created_at = 1006, bp_updated_at = 1006\<rparr>)] \<and>
   accounts (db open_world) =
     [''acme'' \<mapsto> \<lparr>ca_tenant = ''acme'', ca_state = CommercialActive, ca_version = 1,
        ca_created_at = 1006, ca_updated_at = 1006\<rparr>] \<and>
   quotas (db open_world) = [] \<and> usage (db open_world) = [] \<and>
   idempotency_records (db open_world) = Map.empty \<and> clk_seq open_world = 8 \<and> id_seq open_world = 8"
  by (simp add: open_world_def shop_opening_def empty_world_def newData_def run_defs plan_defs)

lemmas open_table [simp] = open_tables[THEN conjunct1] open_tables[THEN conjunct2, THEN conjunct1]
  open_tables[THEN conjunct2, THEN conjunct2, THEN conjunct1]
  open_tables[THEN conjunct2, THEN conjunct2, THEN conjunct2, THEN conjunct1]
  open_tables[THEN conjunct2, THEN conjunct2, THEN conjunct2, THEN conjunct2, THEN conjunct1]
  open_tables[THEN conjunct2, THEN conjunct2, THEN conjunct2, THEN conjunct2, THEN conjunct2, THEN conjunct1]
  open_tables[THEN conjunct2, THEN conjunct2, THEN conjunct2, THEN conjunct2, THEN conjunct2, THEN conjunct2, THEN conjunct1]
  open_tables[THEN conjunct2, THEN conjunct2, THEN conjunct2, THEN conjunct2, THEN conjunct2, THEN conjunct2, THEN conjunct2]

lemma open_steps: "(commerce_step (cv_clock shop_env) server_timed)\<^sup>*\<^sup>* empty_world open_world"
  unfolding open_world_def
  by (rule run_calls_steps) (simp add: shop_opening_def starter_version_def starter_typed)

lemma used_steps: "(commerce_step (cv_clock shop_env) A)\<^sup>*\<^sup>* open_world used_world" if "A (CallAppend (build_seconds 150))"
  unfolding used_world_def
  by (rule run_calls_steps) (use that in \<open>simp add: build_seconds_def int64_defs\<close>)

lemma quota_ids:
  "TrimSpace (''quota_x'' @ replicate 8 (CHR ''x'')) = ''quota_x'' @ replicate 8 (CHR ''x'')"
  "TrimSpace (''quota_x'' @ replicate 11 (CHR ''x'')) = ''quota_x'' @ replicate 11 (CHR ''x'')"
  by code_simp+

lemmas quota_ids_simplified [simp] = quota_ids[simplified]

text \<open>A tenant that has reserved its whole quota.\<close>

lemma full_tables:
  "map_of (versions (db full_world)) = map_of (versions (db open_world)) \<and>
   subscriptions (db full_world) = subscriptions (db open_world) \<and>
   accounts (db full_world) = accounts (db open_world) \<and>
   quotas (db full_world) =
     [(''quota_x'' @ replicate 8 (CHR ''x''),
       \<lparr>qr_id = ''quota_x'' @ replicate 8 (CHR ''x''), qr_tenant = ''acme'', qr_resource = ''apps'',
        qr_policy_version = ''p1'', qr_reason = [], qr_quantity = 3, qr_state = QuotaReserved,
        qr_key = ''k1'', qr_fingerprint = ''fp'', qr_expires_at = 2000, qr_version = 1,
        qr_created_at = 1008, qr_updated_at = 1008\<rparr>)] \<and>
   clk_seq full_world = 10 \<and> id_seq full_world = 11"
  by (simp add: full_world_def run_defs quota_defs starter_spec_def)

text \<open>A tenant that has used build time.\<close>

lemma used_tables:
  "map_of (versions (db used_world)) = map_of (versions (db open_world)) \<and>
   periods (db used_world) = periods (db open_world) \<and>
   usage (db used_world) =
     [(usageKey ''acme'' ''u1'',
       (build_seconds 150)\<lparr>ue_id := ''usage_x'' @ replicate 8 (CHR ''x''), ue_version := 1, ue_created_at := 1008\<rparr>)] \<and>
   idempotency_records (db used_world) = [idemKey ''acme'' ''usage'' ''u1'' \<mapsto>
     \<lparr>ci_tenant = ''acme'', ci_scope = ''usage'', ci_key = ''u1'', ci_fingerprint = ''fp'',
      ci_resource_id = ''usage_x'' @ replicate 8 (CHR ''x''), ci_created_at = 1009\<rparr>] \<and>
   clk_seq used_world = 11 \<and> id_seq used_world = 11"
  by (simp add: used_world_def run_defs usage_defs)

lemma used_append: "Append shop_env (build_seconds 150) open_world = (Inr (), used_world)"
  by (simp add: used_world_def Append_Inr prod_eq_iff) (simp add: run_defs usage_defs)

end
