(* ===== verification/Commerce_Rating.thy ===== *)
theory Commerce_Rating
  imports Complex_Main Commerce_Arith
begin

text \<open>
  \<open>RateQuantity\<close> against its specification on rational numbers: the exact price, rounded half
  away from zero, refused when it does not fit an \<open>int64\<close>.
\<close>

text \<open>Rounding half away from zero.\<close>

definition round_away :: "rat \<Rightarrow> int" where
  "round_away x = (if x < 0 then - round (- x) else round x)"

lemma half_up_div:
  fixes n d :: int
  assumes "0 \<le> n" and "0 < d"
  shows "(n + d div 2) div d = round (of_int n / of_int d :: rat)"
proof -
  have "of_int n / of_int d + 1 / 2 = (of_int (2 * n + d) / of_int (2 * d) :: rat)"
    using assms(2) by (simp add: field_simps)
  then have "round (of_int n / of_int d :: rat) = (2 * n + d) div (2 * d)"
    unfolding round_def by (simp only: floor_divide_of_int_eq)
  also have "(2 * n + d) div (2 * d) = (n + d div 2) div d"
  proof -
    have "(2 * n + d) div (2 * d) = (2 * n + d) div 2 div d"
      using assms(2) by (simp add: zdiv_zmult2_eq)
    then show ?thesis by simp
  qed
  finally show ?thesis by simp
qed

lemma RateQuantity_exact:
  assumes "0 \<le> MinorUnits p" and "0 < PerQuantity p"
  shows "RateQuantity q p =
    (let r = round_away (of_int (q * MinorUnits p) / of_int (PerQuantity p))
     in if int64 r then Inr r else Inl (Err Overflow ''rated amount overflow''))"
proof -
  define n d where "n = q * MinorUnits p" and "d = PerQuantity p"
  let ?r = "round (of_int \<bar>n\<bar> / of_int d :: rat)"
  have d: "0 < d" using assms(2) by (simp add: d_def)
  then have "quo d 2 = d div 2" by (simp add: quo_nonneg)
  with d have rnd: "quo (\<bar>n\<bar> + quo d 2) d = ?r"
    using half_up_div[OF abs_ge_zero d, of n] by (simp add: quo_nonneg)
  have "RateQuantity q p =
      (let r = if n < 0 then - ?r else ?r
       in if int64 r then Inr r else Inl (Err Overflow ''rated amount overflow''))"
    unfolding RateQuantity_def n_def[symmetric] d_def[symmetric] Let_def rnd[symmetric]
    using assms by (simp add: Price_Validate_def)
  moreover have "round_away (of_int n / of_int d) = (if n < 0 then - ?r else ?r)"
    using d by (auto simp: round_away_def divide_less_0_iff abs_if)
  ultimately show ?thesis by (simp only: n_def d_def)
qed

end
