(* ===== verification/Commerce_Guarantees.thy ===== *)
theory Commerce_Guarantees
  imports Commerce_Scenario Commerce_Metering Commerce_Rating
begin

text \<open>
  The properties of the commerce component: its store, its quotas, its ledger, its invoices and
  its error behaviour, each applied to the run of \<open>Commerce_Scenario\<close>.
\<close>

section \<open>The store\<close>

text \<open>
  C18. Whatever calls the service gets, from whatever services sharing a store, its tables stay
  consistent: plans are valid and stored under their identifiers, a tenant has one subscription
  on a published plan and an account, billing periods of a subscription do not overlap, quota
  reservations are positive and alone under their key, every usage event lies in a period of its
  tenant and has an idempotency record, and events and audit entries tell the same story.
\<close>

theorem commerce_store_stays_consistent:
  assumes "db w0 = newData" and "(commerce_step clock A)\<^sup>*\<^sup>* w0 w"
  shows "commerce_ok (db w)"
  using assms by (rule commerce.reachable_inv)

lemma empty_world_new: "db empty_world = newData"
  by (simp add: empty_world_def)

lemma commerce_store_stays_consistent_witness:
  "db empty_world = newData \<and> commerce_ok (db open_world)"
  using empty_world_new commerce_store_stays_consistent[OF empty_world_new open_steps] by blast

lemma open_ok: "commerce_ok (db open_world)"
  by (rule commerce.reachable_inv[OF empty_world_new open_steps])

lemma used_steps_all: "(commerce_step (cv_clock shop_env) server_timed)\<^sup>*\<^sup>* open_world used_world"
  by (rule used_steps) simp

lemma used_ok: "commerce_ok (db used_world)"
  by (rule commerce.run_inv[OF used_steps_all open_ok])

lemma full_steps: "(commerce_step (cv_clock shop_env) server_timed)\<^sup>*\<^sup>* empty_world full_world"
proof -
  have "(commerce_step (cv_clock shop_env) server_timed)\<^sup>*\<^sup>* open_world full_world"
    unfolding full_world_def by (rule run_calls_steps) (simp add: reserve_apps_def IsZero_def int64_defs)
  with open_steps show ?thesis by simp
qed

text \<open>
  C32. What the service has recorded it never takes back: usage events, billing periods and
  idempotency records stay as they are, events, audit entries and alerts are only appended, and
  a plan version that has left the draft state keeps its specification, a disabled one for ever.
\<close>

theorem commerce_history_only_grows:
  assumes "db w0 = newData" and "(commerce_step clock A)\<^sup>*\<^sup>* w0 w" and "(commerce_step clock B)\<^sup>*\<^sup>* w w'"
  shows "record_kept (db w) (db w')"
  using run_record_kept[OF assms(3)] commerce.reachable_inv[OF assms(1,2)] by blast

lemma commerce_history_only_grows_witness:
  "record_kept (db open_world) (db used_world) \<and> usage (db used_world) \<noteq> []"
  using commerce_history_only_grows[OF empty_world_new open_steps used_steps_all] used_tables by simp

text \<open>
  A call that returns an error leaves the store as it was, whichever operation it was and
  however far it had come.
\<close>

lemma failed_call_changes_nothing:
  assumes "typed_call c" and "perform env c w = (Inl e, w')"
  shows "db w' = db w"
  using perform_effect[OF assms(1)] assms(2) by (rule service_error)

lemma full_refuses:
  "perform shop_env (CallReserve (reserve_apps ''k2'' 1 3000 0)) full_world =
   (Inl (Err QuotaExceeded ''quota exceeded''), full_world\<lparr>clk_seq := 11\<rparr>)"
  by (simp add: full_tables run_defs quota_defs starter_spec_def)

lemma failed_call_changes_nothing_witness:
  "db (full_world\<lparr>clk_seq := 11\<rparr>) = db full_world"
  by (rule failed_call_changes_nothing[OF _ full_refuses]) (simp add: reserve_apps_def int64_defs)

section \<open>Quotas\<close>

text \<open>
  C2. As long as the clock does not run backwards and reservations are timed by the server, the
  reservations of a tenant that count now never exceed the limit of its plan, whatever plans are
  published and whatever is committed, released or left to expire.
\<close>

theorem quota_is_never_overcommitted:
  assumes "db w0 = newData" and "(commerce_step clock server_timed)\<^sup>*\<^sup>* w0 w" and "mono clock"
    and "quota_limit tenant resource (db w) = Some limit"
  shows "reserved (clock (clk_seq w)) tenant resource (db w) \<le> limit"
  using metered.reachable_inv[OF assms(1,2)] assms(3,4) by (simp add: never_over_def within_limits_def)

lemma quota_is_never_overcommitted_witness:
  "quota_limit ''acme'' ''apps'' (db full_world) = Some 3 \<and>
   reserved (cv_clock shop_env (clk_seq full_world)) ''acme'' ''apps'' (db full_world) = 3 \<and>
   (3::int) \<le> 3"
proof -
  have l: "quota_limit ''acme'' ''apps'' (db full_world) = Some 3"
    by (simp add: full_tables quota_limit_def FindSubscriptionByTenant_def GetPlanVersion_def starter_spec_def)
  have r: "reserved (cv_clock shop_env (clk_seq full_world)) ''acme'' ''apps'' (db full_world) = 3"
    by (simp add: full_tables reserved_def sum_rows_def holds_def CountsAgainstLimit_def shop_env_def)
  have "mono (cv_clock shop_env)" by (simp add: shop_env_def mono_def)
  from quota_is_never_overcommitted[OF empty_world_new full_steps this l] r l show ?thesis by simp
qed

text \<open>
  C38. A reservation that names an instant is judged at that instant and never at the clock: for
  a resource of the plan and a new key it is refused as exceeding the quota only when what is
  reserved at that instant leaves no room for it, it is granted only when there is room at that
  instant, and then it counts at every instant before its expiry. So a request for a later instant,
  at which present reservations have expired, takes a tenant beyond its limit now.
\<close>

theorem quota_is_judged_at_the_named_instant:
  assumes "commerce_ok (db w)" and "\<not> IsZero (qq_at req)" and "cv_ctx env = None"
    and "Reserve env req w = (r, w')"
    and "FindQuotaReservation (TrimSpace (qq_tenant req)) (TrimSpace (qq_key req)) (db w) = None"
    and "quota_limit (TrimSpace (qq_tenant req)) (TrimSpace (qq_resource req)) (db w) = Some limit"
  shows "case r of
      Inl e \<Rightarrow> HasCode e QuotaExceeded \<longrightarrow>
        limit < reserved (qq_at req) (TrimSpace (qq_tenant req)) (TrimSpace (qq_resource req)) (db w) + qq_quantity req
    | Inr c \<Rightarrow>
        reserved (qq_at req) (TrimSpace (qq_tenant req)) (TrimSpace (qq_resource req)) (db w) + qq_quantity req \<le> limit \<and>
        (\<forall>t < qq_expires_at req.
           reserved t (TrimSpace (qq_tenant req)) (TrimSpace (qq_resource req)) (db w') =
           reserved t (TrimSpace (qq_tenant req)) (TrimSpace (qq_resource req)) (db w) + qq_quantity req)"
  using assms by (rule Reserve_quota)

lemma late_request: "\<exists>c w'. Reserve shop_env (reserve_apps ''k2'' 3 3000 2500) full_world = (Inr c, w')"
  by (simp add: full_tables run_defs quota_defs starter_spec_def)

lemma full_ok: "commerce_ok (db full_world)"
  by (rule commerce.reachable_inv[OF empty_world_new full_steps])

lemma full_limit: "quota_limit ''acme'' ''apps'' (db full_world) = Some 3"
  by (simp add: full_tables quota_limit_def FindSubscriptionByTenant_def GetPlanVersion_def starter_spec_def)

lemma quota_is_judged_at_the_named_instant_witness:
  "\<exists>c w'. Reserve shop_env (reserve_apps ''k2'' 3 3000 2500) full_world = (Inr c, w') \<and>
     quota_limit ''acme'' ''apps'' (db full_world) = Some 3 \<and> reserved 1500 ''acme'' ''apps'' (db w') = 6"
proof -
  obtain c w' where run: "Reserve shop_env (reserve_apps ''k2'' 3 3000 2500) full_world = (Inr c, w')"
    using late_request by blast
  have "reserved 1500 ''acme'' ''apps'' (db full_world) = 3"
    by (simp add: full_tables reserved_def sum_rows_def holds_def CountsAgainstLimit_def)
  moreover have "FindQuotaReservation ''acme'' ''k2'' (db full_world) = None"
    by (simp add: full_tables FindQuotaReservation_def)
  ultimately show ?thesis
    using quota_is_judged_at_the_named_instant[OF full_ok _ _ run] run full_limit
    by (simp add: reserve_apps_def IsZero_def shop_env_def)
qed

text \<open>
  C27. An entitlement check foretells the reservation: for a resource that the request names, a key
  that is not in use, a positive quantity and an expiry in the future, \<open>Check\<close> allows exactly
  what is a feature of the plan and what \<open>Reserve\<close>, asked for the same at the same moment, does
  not deny, and a quantity it allows fits into what it says remains of the limit. \<open>Reserve\<close> itself
  does not look at features: it may grant what the check refuses for want of the feature.
\<close>

theorem Check_foretells_Reserve:
  assumes "commerce_ok (db w)" and "Check env check w = (Inr dec, w1)" and "same_request check req"
    and "TrimSpace (qq_resource req) \<noteq> []" and "TrimSpace (qq_key req) \<noteq> []" and "0 < qq_quantity req"
    and "(if IsZero (qq_at req) then cv_clock env (clk_seq w) else qq_at req) < qq_expires_at req"
    and "FindQuotaReservation (TrimSpace (qq_tenant req)) (TrimSpace (qq_key req)) (db w) = None"
  shows "(ed_allowed dec \<longleftrightarrow>
      feature_included (check\<lparr>er_tenant := TrimSpace (er_tenant check),
        er_feature := TrimSpace (er_feature check), er_resource := TrimSpace (er_resource check)\<rparr>) (db w) \<and>
      \<not> (\<exists>e w2. Reserve env req w = (Inl e, w2) \<and> denied e)) \<and>
    (ed_allowed dec \<longrightarrow>
      quota_limit (TrimSpace (qq_tenant req)) (TrimSpace (qq_resource req)) (db w) = Some (ed_limit dec) \<and>
      qq_quantity req \<le> ed_remaining dec \<and>
      ed_remaining dec = ed_limit dec -
        reserved (if IsZero (qq_at req) then cv_clock env (clk_seq w) else qq_at req)
          (TrimSpace (qq_tenant req)) (TrimSpace (qq_resource req)) (db w))"
  using Check_Reserve[OF assms(2-6) _ assms(8)]
    decide_remaining[OF conjunct1[OF Check_Inr[OF assms(2)]] _ _ assms(1)] assms(3,4,6,7)
  by (cases "IsZero (qq_at req)") (auto simp: same_request_def)

lemma open_check:
  "Check shop_env (check_apps 2 1500) open_world =
   (Inr \<lparr>ed_allowed = True, ed_reason = ''feature is included in the active plan'',
         ed_policy_version = ''p1'', ed_plan_version_id = ''v1'', ed_limit = 3, ed_remaining = 3\<rparr>, open_world)"
  by (simp add: Check_def decide_def check_apps_def run_defs quota_defs starter_spec_def max64_def)

lemma Check_foretells_Reserve_witness:
  "\<not> (\<exists>e w2. Reserve shop_env (reserve_apps ''k1'' 2 2000 1500) open_world = (Inl e, w2) \<and> denied e)"
  using Check_foretells_Reserve[OF open_ok open_check, of "reserve_apps ''k1'' 2 2000 1500"]
  by (simp add: same_request_def check_apps_def reserve_apps_def IsZero_def FindQuotaReservation_def
      feature_included_def FindSubscriptionByTenant_def GetPlanVersion_def starter_spec_def)

section \<open>The ledger\<close>

text \<open>
  C14. The key of a usage event is used once: after an event has been accepted, no event of the
  tenant under the same key changes anything, at any later time and after any other calls, whatever
  else it says and whatever the service answers. The event itself, sent again, is answered with
  success when it names its instant and its billing period; an instant left out is filled in from
  the clock, so that a repetition may be refused as another payload.
\<close>

theorem usage_is_recorded_once:
  assumes "db w0 = newData" and "(commerce_step clock A)\<^sup>*\<^sup>* w0 w" and "int64 (ue_quantity e)"
    and "Append env e w = (Inr (), w1)"
    and "cv_clock env = clock" and "A (CallAppend e)" and "(commerce_step clock A)\<^sup>*\<^sup>* w1 w2"
  shows "(\<forall>env' e'. TrimSpace (ue_tenant e') = TrimSpace (ue_tenant e) \<longrightarrow> TrimSpace (ue_key e') = TrimSpace (ue_key e) \<longrightarrow>
      db (snd (Append env' e' w2)) = db w2) \<and>
    (\<not> IsZero (ue_occurred_at e) \<longrightarrow> TrimSpace (ue_period e) \<noteq> [] \<longrightarrow> Append env e w2 = (Inr (), w2))"
proof -
  have ok: "commerce_ok (db w)" by (rule commerce.reachable_inv[OF assms(1,2)])
  have "commerce_step clock A w w1"
    unfolding commerce_step_def using assms(3-6)
    by (intro exI[of _ env] exI[of _ "CallAppend e"]) simp
  with ok have "commerce_ok (db w1)" by (blast intro: commerce.inv_step)
  with assms(7) have kept: "record_kept (db w1) (db w2)" by (rule run_record_kept)
  from Append_takes[OF assms(4)] used_key_kept[OF _ kept] Append_taken
  have "db (snd (Append env' e' w2)) = db w2"
    if "TrimSpace (ue_tenant e') = TrimSpace (ue_tenant e)" "TrimSpace (ue_key e') = TrimSpace (ue_key e)" for env' e'
    using that by metis
  with Append_again[OF assms(4) _ _ kept assms(3) ok] show ?thesis by blast
qed

lemma usage_is_recorded_once_witness:
  "Append shop_env (build_seconds 150) used_world = (Inr (), used_world) \<and>
   db (snd (Append shop_env (build_seconds 7) used_world)) = db used_world"
proof -
  have "int64 (ue_quantity (build_seconds 150))" by (simp add: build_seconds_def int64_defs)
  note once = usage_is_recorded_once[OF empty_world_new open_steps this used_append refl _ rtranclp.rtrancl_refl]
  have "ue_tenant (build_seconds 7) = ue_tenant (build_seconds 150)" "ue_key (build_seconds 7) = ue_key (build_seconds 150)"
    by (simp_all add: build_seconds_def)
  moreover have "\<not> IsZero (ue_occurred_at (build_seconds 150))" "TrimSpace (ue_period (build_seconds 150)) \<noteq> []"
    by (simp_all add: build_seconds_def IsZero_def)
  ultimately show ?thesis using once by simp
qed

text \<open>
  C29. A reconciliation whose correction is not on the ledger yet returns the difference between
  the observed quantity and the ledger, and makes the ledger of the window add up to what was
  observed.
\<close>

theorem reconciliation_settles_the_ledger:
  assumes "ReconcileUsage env cmd w = (Inr drift, w')" and "commerce_ok (db w)"
    and "fresh_correction env (trimReconcile cmd) (db w)" and "int64 (rc_observed cmd)"
  shows "drift = rc_observed cmd - sum_list (ledger_quantities (trimReconcile cmd) (db w)) \<and>
    sum_list (ledger_quantities (trimReconcile cmd) (db w')) = rc_observed cmd"
  using assms by (rule ReconcileUsage_settles)

lemmas reconcile_defs = ReconcileUsage_def trimReconcile_def reconcile_tx_def ledger_quantities_def ListUsage_def
  in_scope_def observe_def correctionEvent_def raiseAlert_def safeAdd_def safeSub_def

lemma fresh_observation: "fresh_correction shop_env (trimReconcile (observe 160 700)) (db used_world)"
  by (simp add: fresh_correction_def used_tables Commerce_GetIdempotency_def observe_def trimReconcile_def
      idemKey_def fingerprint_def shop_env_def)

lemma observation:
  "\<exists>w'. ReconcileUsage shop_env (observe 160 700) used_world = (Inr 10, w')"
  by (simp add: used_tables reconcile_defs run_defs usage_defs idemKey_def usageKey_def MinInt64_def)

lemma reconciliation_settles_the_ledger_witness:
  "\<exists>w'. ReconcileUsage shop_env (observe 160 700) used_world = (Inr 10, w') \<and>
     sum_list (ledger_quantities (trimReconcile (observe 160 700)) (db w')) = 160"
proof -
  obtain w' where w': "ReconcileUsage shop_env (observe 160 700) used_world = (Inr 10, w')"
    using observation by blast
  have "int64 (rc_observed (observe 160 700))" and "rc_observed (observe 160 700) = 160"
    by (simp_all add: observe_def int64_defs)
  with reconciliation_settles_the_ledger[OF w' used_ok fresh_observation] w' show ?thesis by auto
qed

text \<open>
  C39. A reconciliation that looks at the whole of a billing period cannot correct it: the
  correction would be dated at the end of the window, which the period does not contain, so that
  the call fails whenever ledger and observation differ.
\<close>

theorem whole_period_cannot_be_corrected:
  assumes "GetBillingPeriod (rc_period (trimReconcile cmd)) (db w) = Some p" and "bp_end p \<le> rc_window_end cmd"
    and "ReconcileUsage env cmd w = (r, w')"
  shows "db w' = db w \<and> (\<forall>drift. r = Inr drift \<longrightarrow> drift = 0)"
proof (cases r)
  case (Inl e)
  with assms(3) show ?thesis using service_error[OF ReconcileUsage_effect] by auto
next
  case (Inr drift)
  let ?c = "trimReconcile cmd"
  have run: "reconcile_tx env ?c w = (Inr drift, w')" and named: "rc_period ?c \<noteq> []"
    using ReconcileUsage_Inr[of env cmd w drift w'] assms(3) Inr by auto
  have "\<not> accepted_by (correctionEvent env ?c n) (db w)" for n
    using assms(1,2) by (simp add: accepted_by_def correctionEvent_def Contains_def) (simp add: trimReconcile_def)
  then have "appendUsageTx env (correctionEvent env ?c n) w \<noteq> (Inr u, v)" for n u v
    using named by (simp add: appendUsageTx_named correctionEvent_def)
  with run have "w' = w \<and> drift = 0"
    unfolding reconcile_tx_def seqE_def by (auto simp: act_simps split: option.splits if_splits sum.splits prod.splits)
  with Inr show ?thesis by simp
qed

lemma period_end_observation:
  "ReconcileUsage shop_env (observe 160 5000) used_world =
   (Inl (Err InvalidArgument ''usage is outside billing period''), used_world)"
  by (simp add: used_tables reconcile_defs run_defs usage_defs idemKey_def MinInt64_def)

lemma whole_period_cannot_be_corrected_witness:
  "\<exists>p. GetBillingPeriod ''m1'' (db used_world) = Some p \<and> bp_end p = 5000 \<and>
     db (snd (ReconcileUsage shop_env (observe 160 5000) used_world)) = db used_world"
proof -
  obtain p where p: "GetBillingPeriod ''m1'' (db used_world) = Some p" and e: "bp_end p = 5000"
    by (auto simp: used_tables GetBillingPeriod_def)
  have "GetBillingPeriod (rc_period (trimReconcile (observe 160 5000))) (db used_world) = Some p"
    and "bp_end p \<le> rc_window_end (observe 160 5000)"
    using p e by (simp_all add: observe_def trimReconcile_def)
  from whole_period_cannot_be_corrected[OF this surjective_pairing] p e show ?thesis by blast
qed

section \<open>Invoices\<close>

text \<open>
  C7. An invoice preview accounts for the ledger of its period: one line per resource, meter and
  kind of usage, in order and with the sum of its events; the allowance of each meter is used up,
  by standard usage only, before anything is billed; every line is rated at the price of its
  meter and the total is the sum of the lines. Looking changes nothing.
\<close>

theorem preview_accounts_for_the_ledger:
  assumes "PreviewInvoice env tenant period w = (Inr preview, w')" and "commerce_ok (db w)"
  shows "w' = w \<and> (\<exists>p pv. GetBillingPeriod (TrimSpace period) (db w) = Some p \<and> bp_tenant p = TrimSpace tenant \<and>
    GetPlanVersion (bp_plan_version_id p) (db w) = Some pv \<and> ip_plan_version_id preview = pv_id pv \<and>
    accounts_for (pv_spec pv) (ListUsage (TrimSpace tenant) (TrimSpace period) (db w)) preview)"
  using PreviewInvoice_Inr[OF assms(1)] invoice_accounts[OF assms(2)] by blast

definition acme_preview :: invoice_preview where
  "acme_preview =
     \<lparr>ip_tenant = ''acme'', ip_period = ''m1'', ip_currency = ''USD'', ip_plan_version_id = ''v1'',
      ip_policy_version = ''p1'',
      ip_lines = [\<lparr>il_resource_type = ''build'', il_resource_id = ''b1'', il_meter = MeterBuildCPUSeconds,
        il_kind = UsageStandard, il_quantity = 150, il_billable = 50, il_amount = 2\<rparr>],
      ip_total = 2\<rparr>"

lemma used_preview: "PreviewInvoice shop_env ''acme'' ''m1'' used_world = (Inr acme_preview, used_world)"
  by (simp add: acme_preview_def PreviewInvoice_def invoice_def used_tables run_defs usage_defs ListUsage_def
      GetPlanVersion_def starter_spec_def usage_key_def quantity_at_def safeAdd_def included_allowance_def
      drawn_def line_amount_def RateQuantity_def Price_Validate_def quo_def Normalize_def MinInt64_def int64_defs)

lemma preview_accounts_for_the_ledger_witness:
  "\<exists>pv :: plan_version. pv_id pv = ''v1'' \<and>
     accounts_for (pv_spec pv) (ListUsage ''acme'' ''m1'' (db used_world)) acme_preview"
  using preview_accounts_for_the_ledger[OF used_preview used_ok]
  by (auto simp: acme_preview_def[THEN arg_cong[of _ _ ip_plan_version_id]])

text \<open>
  C30. \<open>RateQuantity\<close> charges the exact price rounded half away from zero, and reports an
  overflow exactly when that is not an \<open>int64\<close>.
\<close>

theorem rating_rounds_half_away_from_zero:
  assumes "0 \<le> MinorUnits p" and "0 < PerQuantity p"
  shows "RateQuantity q p =
    (let r = round_away (of_int (q * MinorUnits p) / of_int (PerQuantity p))
     in if int64 r then Inr r else Inl (Err Overflow ''rated amount overflow''))"
  using assms by (rule RateQuantity_exact)

lemma rating_rounds_half_away_from_zero_witness:
  "RateQuantity (- 5) \<lparr>MinorUnits = 1, PerQuantity = 2\<rparr> = Inr (- 3) \<and> round_away (- 5 / 2) = - 3"
  using rating_rounds_half_away_from_zero[of "\<lparr>MinorUnits = 1, PerQuantity = 2\<rparr>" "- 5"]
  by (simp add: RateQuantity_def Price_Validate_def quo_def int64_defs Let_def split: if_splits)

section \<open>Arithmetic and metering\<close>

text \<open>
  The checked sums are exact: they return the mathematical result when it is an \<open>int64\<close> and
  report an overflow otherwise, the negation of the least number included; the absolute value
  saturates there.
\<close>

lemma checked_arithmetic_is_exact:
  assumes "int64 a" and "int64 b"
  shows "safeAdd a b = (if int64 (a + b) then Some (a + b) else None) \<and>
    safeSub a b = (if int64 (a - b) then Some (a - b) else None) \<and>
    abs64 a = min \<bar>a\<bar> MaxInt64"
  using safeAdd_exact[OF assms] safeSub_exact[OF assms] abs64_exact[OF assms(1)] assms(1)
  by (auto simp: int64_defs)

lemma checked_arithmetic_is_exact_witness:
  "safeSub (- 1) MinInt64 = Some MaxInt64 \<and> safeSub 0 MinInt64 = None \<and> abs64 MinInt64 = MaxInt64"
  using checked_arithmetic_is_exact[of "- 1" MinInt64] checked_arithmetic_is_exact[of 0 MinInt64]
    checked_arithmetic_is_exact[of MinInt64 0]
  by (simp add: int64_defs)

text \<open>
  C20. \<open>CalculateRuntimeUnitSeconds\<close> follows the observations: it is the sum over the stretches of
  the window in which nothing changes of the whole seconds of the stretch (no more than a \<open>Duration\<close>
  holds) times the units in force at its beginning, cut off at the largest \<open>int64\<close>; an empty window
  counts nothing. When all instants are whole seconds apart this is the sum over the single seconds of
  the units then in force; otherwise each change loses the fraction of a second before it.
\<close>

theorem unit_seconds_follow_the_observations:
  "CalculateRuntimeUnitSeconds obs start stop =
    (if start < stop
     then min MaxInt64 (segment_units (\<lambda>t. unit_rate (in_force t None obs)) (change_points obs start stop))
     else 0) \<and>
   (whole_second_window obs start stop \<longrightarrow>
    CalculateRuntimeUnitSeconds obs start stop =
      min MaxInt64 (unit_seconds obs start (nat ((stop - start) div Second))))"
  using unit_seconds_segments unit_seconds_reference by blast

definition two_observations :: "runtime_observation list" where
  "two_observations =
     [\<lparr>ro_at = 2 * Second, ro_replicas = 3, ro_unit_weight = 2, ro_suspended = False\<rparr>,
      \<lparr>ro_at = 0, ro_replicas = 1, ro_unit_weight = 1, ro_suspended = False\<rparr>]"

lemma unit_seconds_follow_the_observations_witness:
  "CalculateRuntimeUnitSeconds two_observations 0 (5 * Second) = 20"
proof -
  have "whole_second_window two_observations 0 (5 * Second)"
    by (simp add: whole_second_window_def two_observations_def Second_def int64_defs)
  with unit_seconds_follow_the_observations[of two_observations 0 "5 * Second"]
  have "CalculateRuntimeUnitSeconds two_observations 0 (5 * Second) =
      min MaxInt64 (unit_seconds two_observations 0 5)"
    by (simp add: Second_def)
  moreover have "{..<5 :: nat} = {0, 1, 2, 3, 4}" by auto
  then have "unit_seconds two_observations 0 5 = 20"
    by (simp add: unit_seconds_def two_observations_def Second_def unit_rate_def)
  ultimately show ?thesis by (simp add: int64_defs)
qed

end
