(* ===== verification/Runtime_Types.thy ===== *)
theory Runtime_Types
  imports Go_Strings
begin

text \<open>
  The contract of the runtime component (\<open>pkg/contracts/runtime/v1/contracts.go\<close>, and the artifact
  reference of \<open>pkg/contracts/build/v1/contracts.go\<close>): releases, deployments, the custom resource
  \<open>PaaSApp\<close> and the validation of names, together with the errors of
  \<open>internal/runtime/domain/errors.go\<close>. An \<open>int\<close> of Go has 64 bits.

  The code walks strings rune by rune and accepts ASCII only, so that it answers what the walk over
  bytes below answers: every byte of a rune beyond ASCII is refused like the rune itself.
\<close>

section \<open>Errors\<close>

datatype runtime_code =
    RInvalidArgument
  | RNotFound
  | RForbidden
  | RConflict
  | RStaleVersion
  | RPolicyRejected
  | RCapacity
  | RUnavailable
  | RInternal

text \<open>
  An \<open>error\<close> is a domain error, with the error it wraps, or one that some other package made.
  \<open>RPanic\<close> is no value of Go: it stands for the run-time panic of a call that uses a dependency the
  service has not got. A message that quotes a name is given by its format.
\<close>

datatype rerror =
    RErrorString string
  | RDomainError runtime_code string "rerror option"
  | RPanic

definition RErr :: "runtime_code \<Rightarrow> string \<Rightarrow> rerror" where
  "RErr c m = RDomainError c m None"

definition RWrap :: "runtime_code \<Rightarrow> string \<Rightarrow> rerror \<Rightarrow> rerror" where
  "RWrap c m cause = RDomainError c m (Some cause)"

fun RHasCode :: "rerror \<Rightarrow> runtime_code \<Rightarrow> bool" where
  "RHasCode (RDomainError c' _ cause) c \<longleftrightarrow> c' = c"
| "RHasCode _ c \<longleftrightarrow> False"

fun code_text :: "runtime_code \<Rightarrow> string" where
  "code_text RInvalidArgument = ''INVALID_ARGUMENT''"
| "code_text RNotFound = ''NOT_FOUND''"
| "code_text RForbidden = ''FORBIDDEN''"
| "code_text RConflict = ''CONFLICT''"
| "code_text RStaleVersion = ''STALE_VERSION''"
| "code_text RPolicyRejected = ''POLICY_REJECTED''"
| "code_text RCapacity = ''CAPACITY_EXHAUSTED''"
| "code_text RUnavailable = ''UNAVAILABLE''"
| "code_text RInternal = ''INTERNAL''"

text \<open>The method \<open>Error()\<close>.\<close>

fun runtime_error_text :: "rerror \<Rightarrow> string" where
  "runtime_error_text (RErrorString s) = s"
| "runtime_error_text (RDomainError c m None) = code_text c @ '': '' @ m"
| "runtime_error_text (RDomainError c m (Some cause)) = code_text c @ '': '' @ m @ '': '' @ runtime_error_text cause"
| "runtime_error_text RPanic = ''''"

lemma RHasCode_RErr [simp]: "RHasCode (RErr c m) c' \<longleftrightarrow> c = c'"
  by (simp add: RErr_def)

section \<open>States\<close>

text \<open>\<open>IsolationClass\<close> is a string type; a cell orders its classes as strings.\<close>

type_synonym isolation_class = string

definition IsolationSandboxed :: isolation_class where
  "IsolationSandboxed = ''sandboxed''"

definition IsolationDedicated :: isolation_class where
  "IsolationDedicated = ''dedicated''"

datatype lifecycle_state =
    LifecycleActive
  | LifecycleSuspending
  | LifecycleSuspended
  | LifecycleResuming
  | LifecycleDeletingRuntime
  | LifecycleRetaining
  | LifecycleDeleted
  | LifecycleOther string

datatype release_state =
    ReleaseCreated
  | ReleaseValidated
  | ReleaseCommittedToGitOps
  | ReleaseDeploying
  | ReleaseActive
  | ReleaseFailed
  | ReleaseSuperseded

datatype deployment_phase =
    DeploymentPending
  | DeploymentGitCommitted
  | DeploymentArgoSyncing
  | DeploymentRollingOut
  | DeploymentReady
  | DeploymentDegraded
  | DeploymentFailed

section \<open>Artifacts\<close>

record artifact_ref =
  ArtifactID :: string
  Repository :: string
  Digest :: string
  MediaType :: string

definition hex_digit :: "char \<Rightarrow> bool" where
  "hex_digit c \<longleftrightarrow> (CHR ''0'' \<le> c \<and> c \<le> CHR ''9'') \<or> (CHR ''a'' \<le> c \<and> c \<le> CHR ''f'')"

definition ValidDigest :: "string \<Rightarrow> bool" where
  "ValidDigest v \<longleftrightarrow>
     HasPrefix v ''sha256:'' \<and> length v = length ''sha256:'' + 64 \<and>
     list_all hex_digit (drop (length ''sha256:'') v)"

definition Artifact_Validate :: "artifact_ref \<Rightarrow> rerror + unit" where
  "Artifact_Validate r =
     (if blank (ArtifactID r) \<or> blank (Repository r) \<or> \<not> ValidDigest (Digest r) \<or> blank (MediaType r)
      then Inl (RErrorString ''invalid artifact reference'') else Inr ())"

record releasability_decision =
  rd_allowed :: bool
  rd_policy_version :: string
  rd_reasons :: "string list"

section \<open>Names\<close>

definition lower_letter :: "char \<Rightarrow> bool" where
  "lower_letter c \<longleftrightarrow> CHR ''a'' \<le> c \<and> c \<le> CHR ''z''"

definition upper_letter :: "char \<Rightarrow> bool" where
  "upper_letter c \<longleftrightarrow> CHR ''A'' \<le> c \<and> c \<le> CHR ''Z''"

definition decimal_digit :: "char \<Rightarrow> bool" where
  "decimal_digit c \<longleftrightarrow> CHR ''0'' \<le> c \<and> c \<le> CHR ''9''"

definition alphanumeric :: "char \<Rightarrow> bool" where
  "alphanumeric c \<longleftrightarrow> lower_letter c \<or> upper_letter c \<or> decimal_digit c"

text \<open>The loop of \<open>ValidPlatformID\<close>, from position \<open>i\<close> of a string of \<open>n\<close> bytes.\<close>

fun platform_loop :: "nat \<Rightarrow> nat \<Rightarrow> string \<Rightarrow> bool" where
  "platform_loop n i [] \<longleftrightarrow> True"
| "platform_loop n i (c # cs) \<longleftrightarrow>
     (if (i = 0 \<or> i + 1 = n) \<and> \<not> alphanumeric c then False
      else if \<not> alphanumeric c \<and> c \<noteq> CHR ''-'' \<and> c \<noteq> CHR ''_'' \<and> c \<noteq> CHR ''.'' then False
      else platform_loop n (i + 1) cs)"

definition ValidPlatformID :: "string \<Rightarrow> bool" where
  "ValidPlatformID value \<longleftrightarrow>
     \<not> (length value < 1 \<or> 63 < length value) \<and> platform_loop (length value) 0 value"

definition label_char :: "char \<Rightarrow> bool" where
  "label_char c \<longleftrightarrow> lower_letter c \<or> decimal_digit c \<or> c = CHR ''-''"

definition ValidDNSLabel :: "string \<Rightarrow> bool" where
  "ValidDNSLabel value \<longleftrightarrow>
     \<not> (length value < 1 \<or> 63 < length value \<or> hd value = CHR ''-'' \<or> last value = CHR ''-'') \<and>
     list_all label_char value"

definition ValidDNSSubdomain :: "unicode \<Rightarrow> string \<Rightarrow> bool" where
  "ValidDNSSubdomain u value \<longleftrightarrow>
     \<not> (length value < 1 \<or> 253 < length value \<or> value \<noteq> ToLower u value \<or> HasSuffix value ''.'') \<and>
     list_all ValidDNSLabel (Split (CHR ''.'') value)"

definition validScalar :: "string \<Rightarrow> nat \<Rightarrow> bool" where
  "validScalar value limit \<longleftrightarrow>
     TrimSpace value \<noteq> [] \<and> length (TrimSpace value) \<le> limit \<and>
     \<not> ContainsAny (TrimSpace value) [CHR 0x0D, CHR 0x0A, CHR 0x00]"

text \<open>
  A slice of Go that may be \<open>nil\<close> is an option. The reflective comparison of specifications tells
  \<open>nil\<close> from an empty slice; everything else sees the list.
\<close>

type_synonym command = "string list option"

abbreviation strings_of :: "string list option \<Rightarrow> string list" where
  "strings_of c \<equiv> (case c of None \<Rightarrow> [] | Some xs \<Rightarrow> xs)"

text \<open>\<open>append([]string(nil), xs...)\<close>: a copy, \<open>nil\<close> when there is nothing to copy.\<close>

definition copy_strings :: "command \<Rightarrow> command" where
  "copy_strings c = (if strings_of c = [] then None else Some (strings_of c))"

definition validCommand :: "command \<Rightarrow> bool" where
  "validCommand c \<longleftrightarrow> \<not> 64 < length (strings_of c) \<and> list_all (\<lambda>v. validScalar v 4096) (strings_of c)"

text \<open>The parts of an image repository: the registry host with an optional port, and the path.\<close>

definition host_char :: "char \<Rightarrow> bool" where
  "host_char c \<longleftrightarrow> lower_letter c \<or> decimal_digit c \<or> c = CHR ''.'' \<or> c = CHR ''-''"

definition oci_host :: "string \<Rightarrow> bool" where
  "oci_host part \<longleftrightarrow>
     (let colon = LastIndex part (CHR '':'');
          host = (if 0 \<le> colon then take (nat colon) part else part) in
      (0 \<le> colon \<longrightarrow> colon \<noteq> int (length part) - 1 \<and>
         list_all decimal_digit (drop (nat colon + 1) part)) \<and>
      \<not> (host = [] \<or> HasPrefix host ''.'' \<or> HasSuffix host ''.'') \<and> list_all host_char host)"

definition oci_path_part :: "string \<Rightarrow> bool" where
  "oci_path_part part \<longleftrightarrow>
     \<not> (hd part = CHR ''.'' \<or> hd part = CHR ''-'' \<or> last part = CHR ''.'' \<or> last part = CHR ''-'') \<and>
     list_all (\<lambda>c. host_char c \<or> c = CHR ''_'') part"

definition ValidOCIRepository :: "unicode \<Rightarrow> string \<Rightarrow> bool" where
  "ValidOCIRepository u value \<longleftrightarrow>
     \<not> (value \<noteq> ToLower u (TrimSpace value) \<or> length value < 3 \<or> 255 < length value \<or>
        ContainsAny value [CHR ''@'', CHR 0x0D, CHR 0x0A, CHR 0x09, CHR '' ''] \<or>
        str_contains value ''://'' \<or> HasPrefix value ''/'' \<or> HasSuffix value ''/'') \<and>
     (let slash = LastIndex value (CHR ''/'') in
      \<not> (slash < 1 \<or> str_contains (drop (nat slash + 1) value) '':'')) \<and>
     (let parts = Split (CHR ''/'') value in
      list_all (\<lambda>p. \<not> (p = [] \<or> p = ''.'' \<or> p = ''..'')) parts \<and>
      oci_host (hd parts) \<and> list_all oci_path_part (tl parts))"

section \<open>Releases\<close>

record process_spec =
  Command :: command
  Port :: int
  MinReplicas :: int
  MaxReplicas :: int
  HealthPath :: string
  StartupTimeout :: int
  ReadinessTimeout :: int

text \<open>A map of processes is an association list with distinct names, in one order of iteration.\<close>

type_synonym processes = "(string \<times> process_spec) list"

record migration_spec =
  MigrationCommand :: command
  TimeoutSeconds :: int

record release_config =
  rc_region :: string
  rc_isolation :: isolation_class
  rc_unit :: string
  rc_processes :: processes
  rc_hostname :: string
  rc_attachment_snapshot :: string
  rc_migration :: migration_spec
  rc_rollout_timeout :: int
  rc_egress_profile :: string

record deploy_request =
  dr_tenant :: string
  dr_application :: string
  dr_environment :: string
  dr_artifact :: artifact_ref
  dr_configuration :: release_config
  dr_key :: string
  dr_actor :: string

definition Deploy_Validate :: "deploy_request \<Rightarrow> rerror + unit" where
  "Deploy_Validate r =
     (if blank (dr_tenant r) \<or> blank (dr_application r) \<or> blank (dr_environment r) \<or>
         blank (dr_actor r) \<or> blank (dr_key r)
      then Inl (RErrorString ''invalid deploy request: identity and idempotency fields are required'')
      else case Artifact_Validate (dr_artifact r) of
        Inl err \<Rightarrow> Inl (RErrorString (''invalid deploy request: '' @ runtime_error_text err))
      | Inr _ \<Rightarrow>
          if blank (rc_region (dr_configuration r)) \<or> blank (rc_unit (dr_configuration r)) \<or>
             rc_processes (dr_configuration r) = []
          then Inl (RErrorString ''invalid deploy request: release configuration is incomplete'')
          else Inr ())"

definition routable :: "process_spec \<Rightarrow> bool" where
  "routable p \<longleftrightarrow> 0 < Port p \<and> 1 \<le> MinReplicas p"

definition SelectRouteProcess :: "processes \<Rightarrow> string option" where
  "SelectRouteProcess ps =
     (if (case map_of ps ''web'' of None \<Rightarrow> False | Some web \<Rightarrow> routable web) then Some ''web''
      else case sort (map fst (filter (\<lambda>e. routable (snd e)) ps)) of
        [] \<Rightarrow> None
      | n # _ \<Rightarrow> Some n)"

record deployment_ref =
  rf_deployment :: string
  rf_release :: string
  rf_phase :: deployment_phase

record runtime_status =
  st_deployment :: string
  st_phase :: deployment_phase
  st_active_release :: string
  st_url :: string
  st_ready_replicas :: int

section \<open>The custom resource\<close>

record identity_spec =
  is_tenant :: string
  is_project :: string
  is_application :: string
  is_environment_id :: string
  is_environment :: string
  is_release :: string

record image_spec =
  im_repository :: string
  im_digest :: string
  im_media_type :: string

record release_spec =
  Strategy :: string
  Migration :: migration_spec
  RolloutTimeout :: int
  PreviousReleaseID :: string

record app_spec =
  as_identity :: identity_spec
  as_image :: image_spec
  as_isolation :: isolation_class
  as_unit :: string
  as_processes :: processes
  as_release :: release_spec
  as_hostname :: string
  as_route_process :: string
  as_attachment_snapshot :: string
  as_egress_profile :: string
  as_peers :: "string list option"
  as_lifecycle :: lifecycle_state

record owner_reference =
  or_api_version :: string
  or_kind :: string
  or_name :: string
  or_uid :: string
  or_controller :: bool
  or_block_owner_deletion :: bool

record object_meta =
  om_name :: string
  om_namespace :: string
  om_uid :: string
  om_generation :: int
  om_resource_version :: string
  om_labels :: "string \<rightharpoonup> string"
  om_annotations :: "string \<rightharpoonup> string"
  om_owner_references :: "owner_reference list"

record condition =
  cd_type :: string
  cd_status :: string
  cd_reason :: string
  cd_message :: string
  cd_observed_generation :: int
  cd_last_transition :: gotime

record app_status =
  ps_observed_generation :: int
  ps_phase :: string
  ps_active_release :: string
  ps_backend_service :: string
  ps_backend_port :: int
  ps_candidate_release :: string
  ps_candidate_hash :: string
  ps_migrated_release :: string
  ps_url :: string
  ps_ready_replicas :: int
  ps_started_at :: gotime
  ps_conditions :: "condition list"

record paas_app =
  pa_api_version :: string
  pa_kind :: string
  pa_meta :: object_meta
  pa_spec :: app_spec
  pa_status :: app_status

definition APIVersion :: string where
  "APIVersion = ''platform.example.com/v1alpha1''"

definition Kind :: string where
  "Kind = ''PaaSApp''"

text \<open>
  \<open>PaaSApp.Validate\<close>. Each of its errors wraps \<open>ErrInvalidPaaSApp\<close>; for a process the code looks at
  the entries of the map in one order of iteration.
\<close>

definition invalid_app :: "string \<Rightarrow> rerror + unit" where
  "invalid_app m = Inl (RErrorString (''invalid PaaSApp: '' @ m))"

definition process_error :: "string \<times> process_spec \<Rightarrow> string option" where
  "process_error e =
     (let p = snd e in
      if \<not> ValidDNSLabel (fst e) \<or> MinReplicas p < 0 \<or> MaxReplicas p < MinReplicas p \<or>
         1000 < MaxReplicas p \<or> (MinReplicas p < MaxReplicas p \<and> MinReplicas p = 0)
        then Some ''invalid process %q''
      else if \<not> validCommand (Command p) \<or> Port p < 0 \<or> 65535 < Port p
        then Some ''invalid process command or port''
      else if HealthPath p \<noteq> [] \<and>
         (2048 < length (HealthPath p) \<or> \<not> HasPrefix (HealthPath p) ''/'' \<or>
          ContainsAny (HealthPath p) [CHR 0x0D, CHR 0x0A, CHR 0x00])
        then Some ''invalid health path''
      else if StartupTimeout p < 0 \<or> 3600 < StartupTimeout p \<or> ReadinessTimeout p < 0 \<or>
         3600 < ReadinessTimeout p
        then Some ''invalid process timeout''
      else None)"

fun process_loop :: "processes \<Rightarrow> string option" where
  "process_loop [] = None"
| "process_loop (e # es) = (case process_error e of Some m \<Rightarrow> Some m | None \<Rightarrow> process_loop es)"

definition known_lifecycle :: "lifecycle_state \<Rightarrow> bool" where
  "known_lifecycle s \<longleftrightarrow> (case s of LifecycleOther _ \<Rightarrow> False | _ \<Rightarrow> True)"

definition identity_valid :: "identity_spec \<Rightarrow> bool" where
  "identity_valid i \<longleftrightarrow>
     \<not> (\<not> ValidPlatformID (is_tenant i) \<or> \<not> ValidPlatformID (is_project i) \<or>
        \<not> ValidPlatformID (is_application i) \<or> \<not> ValidPlatformID (is_environment_id i) \<or>
        \<not> ValidDNSLabel (is_environment i) \<or> \<not> ValidPlatformID (is_release i))"

text \<open>What follows the checks of metadata, identity, image and processes.\<close>

definition App_Validate_rest :: "unicode \<Rightarrow> app_spec \<Rightarrow> process_spec \<Rightarrow> rerror + unit" where
  "App_Validate_rest u s route =
     (if Port route \<le> 0 \<or> MinReplicas route < 1
        then invalid_app ''route process must expose a port and at least one replica''
      else if \<not> ValidDNSSubdomain u (as_hostname s) then invalid_app ''generated hostname is required''
      else if Strategy (as_release s) \<noteq> ''Rolling'' \<or> RolloutTimeout (as_release s) \<le> 0 \<or>
              86400 < RolloutTimeout (as_release s)
        then invalid_app ''unsupported release strategy or timeout''
      else if strings_of (MigrationCommand (Migration (as_release s))) \<noteq> [] \<and>
              (\<not> validCommand (MigrationCommand (Migration (as_release s))) \<or>
               TimeoutSeconds (Migration (as_release s)) \<le> 0 \<or>
               86400 < TimeoutSeconds (Migration (as_release s)))
        then invalid_app ''migration command and timeout are invalid''
      else if \<not> validScalar (as_attachment_snapshot s) 255
        then invalid_app ''attachment snapshot reference is required''
      else if as_egress_profile s \<noteq> ''public-default'' \<and> as_egress_profile s \<noteq> ''deny-all''
        then invalid_app ''unsupported egress profile''
      else if strings_of (as_peers s) \<noteq> []
        then invalid_app ''network peers are not supported in v1alpha1''
      else if \<not> known_lifecycle (as_lifecycle s) then invalid_app ''unsupported lifecycle state''
      else Inr ())"

definition App_Validate :: "unicode \<Rightarrow> paas_app \<Rightarrow> rerror + unit" where
  "App_Validate u a =
     (let s = pa_spec a in
      if pa_api_version a \<noteq> APIVersion \<or> pa_kind a \<noteq> Kind
        then invalid_app ''unsupported apiVersion or kind''
      else if \<not> ValidDNSLabel (om_name (pa_meta a)) \<or> \<not> ValidDNSLabel (om_namespace (pa_meta a))
        then invalid_app ''metadata name and namespace are required''
      else if \<not> identity_valid (as_identity s)
        then invalid_app ''identity fields must be platform-safe identifiers''
      else if \<not> ValidOCIRepository u (im_repository (as_image s)) \<or>
              \<not> ValidDigest (im_digest (as_image s)) \<or> \<not> validScalar (im_media_type (as_image s)) 255
        then invalid_app ''exact image repository, digest and media type are required''
      else if as_isolation s \<noteq> IsolationSandboxed \<and> as_isolation s \<noteq> IsolationDedicated
        then invalid_app ''unsupported isolation class''
      else if \<not> ValidDNSLabel (as_unit s) \<or> as_processes s = [] \<or> 32 < length (as_processes s)
        then invalid_app ''runtime unit and at least one process are required''
      else case process_loop (as_processes s) of
        Some m \<Rightarrow> invalid_app m
      | None \<Rightarrow>
          (case map_of (as_processes s) (as_route_process s) of
             None \<Rightarrow> invalid_app ''route process is not declared''
           | Some route \<Rightarrow> App_Validate_rest u s route))"

section \<open>Requests and hashed values\<close>

text \<open>The requests of \<open>internal/runtime/application/ports.go\<close>.\<close>

record create_application_request =
  ca_tenant :: string
  ca_project :: string
  ca_name :: string
  ca_actor :: string
  ca_key :: string

record create_environment_request =
  ce_tenant :: string
  ce_application :: string
  ce_name :: string
  ce_actor :: string
  ce_key :: string
  ce_default :: bool

record register_cell_request =
  rg_id :: string
  rg_region :: string
  rg_isolation :: "isolation_class list"
  rg_capacity :: int
  rg_repository :: string
  rg_server :: string
  rg_project :: string
  rg_ingress :: string

record rollback_request =
  rb_tenant :: string
  rb_environment :: string
  rb_target :: string
  rb_actor :: string
  rb_key :: string
  rb_critical :: bool

record explicit_migration_request =
  em_tenant :: string
  em_environment :: string
  em_target_cell :: string
  em_actor :: string

text \<open>
  What the component hands to \<open>json.Marshal\<close>, for a hash or for the payload of an event or audit
  record. The JSON text is represented by the value: the encoder writes the entries of a map in
  the order of their keys, and leaves out an empty command whether it is \<open>nil\<close> or not.
\<close>

datatype json =
    JCreateApplication create_application_request
  | JCreateEnvironment create_environment_request
  | JReleaseRequest string string artifact_ref release_config
  | JReleaseIdentity string artifact_ref release_config
  | JRollback string string bool
  | JFields "(string \<times> string) list"

definition json_process :: "process_spec \<Rightarrow> process_spec" where
  "json_process p = p\<lparr>Command := copy_strings (Command p)\<rparr>"

definition json_config :: "release_config \<Rightarrow> release_config" where
  "json_config c =
     c\<lparr>rc_processes := sort_key fst (map (\<lambda>(n, p). (n, json_process p)) (rc_processes c)),
       rc_migration := (rc_migration c)\<lparr>MigrationCommand := copy_strings (MigrationCommand (rc_migration c))\<rparr>\<rparr>"

text \<open>
  The parameters of names and hashes: the tables of package \<open>unicode\<close>, the SHA-256 of a byte string
  in hexadecimal, and the SHA-256 in hexadecimal of the JSON text of a value.
\<close>

record hashing =
  hs_unicode :: unicode
  hs_sha256 :: "string \<Rightarrow> string"
  hs_json :: "json \<Rightarrow> string"

section \<open>What the checks of names accept\<close>

definition platform_char :: "char \<Rightarrow> bool" where
  "platform_char c \<longleftrightarrow> alphanumeric c \<or> c = CHR ''-'' \<or> c = CHR ''_'' \<or> c = CHR ''.''"

lemma platform_loop_iff:
  "i + length cs = n \<Longrightarrow>
   platform_loop n i cs \<longleftrightarrow>
     list_all platform_char cs \<and> (cs \<noteq> [] \<longrightarrow> (i = 0 \<longrightarrow> alphanumeric (hd cs)) \<and> alphanumeric (last cs))"
proof (induction n i cs rule: platform_loop.induct)
  case (2 n i c cs)
  show ?case
  proof (cases "cs = []")
    case True
    with 2(2) show ?thesis by (auto simp: platform_char_def)
  next
    case False
    with 2(2) have "i + 1 \<noteq> n" by (cases cs) auto
    with 2 False show ?thesis by (auto simp: platform_char_def)
  qed
qed simp

lemma ValidPlatformID_iff:
  "ValidPlatformID s \<longleftrightarrow>
     s \<noteq> [] \<and> length s \<le> 63 \<and> list_all platform_char s \<and> alphanumeric (hd s) \<and> alphanumeric (last s)"
  by (cases s) (auto simp: ValidPlatformID_def platform_loop_iff simp del: platform_loop.simps)

text \<open>A valid identifier has no white space around it, so that trimming it changes nothing.\<close>

lemma alphanumeric_no_space:
  "p \<in> set space_seqs \<Longrightarrow> p \<noteq> [] \<and> \<not> alphanumeric (hd p) \<and> \<not> alphanumeric (last p)"
  by (auto simp: space_seqs_def alphanumeric_def lower_letter_def upper_letter_def decimal_digit_def)

lemma TrimSpace_fixed:
  assumes "s \<noteq> []" and "\<And>p. p \<in> set space_seqs \<Longrightarrow> hd p \<noteq> hd s \<and> last p \<noteq> last s"
  shows "TrimSpace s = s"
proof -
  have l: "strip_seqs space_seqs s = s"
  proof (rule strip_seqs_id)
    fix p assume "p \<in> set space_seqs" and "p \<noteq> []"
    with assms(2) show "\<not> HasPrefix s p" by (fastforce simp: HasPrefix_append)
  qed
  have "strip_seqs (map rev space_seqs) (rev s) = rev s"
  proof (rule strip_seqs_id)
    fix p assume "p \<in> set (map rev space_seqs)" and ne: "p \<noteq> []"
    then obtain q where q: "q \<in> set space_seqs" "p = rev q" by auto
    show "\<not> HasPrefix (rev s) p"
    proof
      assume "HasPrefix (rev s) p"
      then obtain t where "rev s = rev q @ t" using q by (auto simp: HasPrefix_append)
      then have "s = rev t @ q" by (metis rev_append rev_rev_ident)
      with q ne have "last s = last q" by auto
      with assms(2)[OF q(1)] show False by simp
    qed
  qed
  with l show ?thesis by (simp add: TrimSpace_def)
qed

lemma TrimSpace_alphanumeric:
  "s \<noteq> [] \<Longrightarrow> alphanumeric (hd s) \<Longrightarrow> alphanumeric (last s) \<Longrightarrow> TrimSpace s = s"
  by (rule TrimSpace_fixed) (auto dest: alphanumeric_no_space)

lemma TrimSpace_PlatformID: "ValidPlatformID s \<Longrightarrow> TrimSpace s = s"
  by (rule TrimSpace_alphanumeric) (auto simp: ValidPlatformID_iff)

lemma ValidPlatformID_not_Nil: "ValidPlatformID s \<Longrightarrow> s \<noteq> []"
  by (simp add: ValidPlatformID_iff)

end
