(* ===== verification/Runtime_Domain.thy ===== *)
theory Runtime_Domain
  imports Runtime_Types
begin

text \<open>
  The domain of the runtime component (\<open>internal/runtime/domain\<close>): generated names, applications,
  environments, runtime cells with their capacity, placements, releases and deployments with
  their state machines. Version counters are unbounded; capacities are \<open>int\<close>s of 64 bits whose
  sums and differences wrap around.
\<close>

section \<open>Generated names\<close>

text \<open>The loop writes lower case letters and digits, and one dash for a run of other runes.\<close>

definition slug_rune :: "nat \<Rightarrow> bool" where
  "slug_rune r \<longleftrightarrow> (0x61 \<le> r \<and> r \<le> 0x7A) \<or> (0x30 \<le> r \<and> r \<le> 0x39)"

fun dns_loop :: "nat list \<Rightarrow> string \<Rightarrow> bool \<Rightarrow> string" where
  "dns_loop [] b dash = b"
| "dns_loop (r # rs) b dash =
     (if slug_rune r then dns_loop rs (b @ encode_rune r) False
      else if \<not> dash \<and> b \<noteq> [] then dns_loop rs (b @ ''-'') True
      else dns_loop rs b dash)"

definition dnsSlug :: "unicode \<Rightarrow> string \<Rightarrow> string" where
  "dnsSlug u value = Trim_dash (dns_loop (runes (ToLower u (TrimSpace value))) [] False)"

text \<open>The first five bytes of the hash: ten digits. Every value is followed by a zero byte.\<close>

definition shortHash :: "hashing \<Rightarrow> string list \<Rightarrow> string" where
  "shortHash h values = take 10 (hs_sha256 h (concat (map (\<lambda>v. v @ [CHR 0x00]) values)))"

definition boundedDNS :: "hashing \<Rightarrow> string \<Rightarrow> string list \<Rightarrow> string" where
  "boundedDNS h pre values =
     (let slug = dnsSlug (hs_unicode h) (Join values ''-'');
          slug = (if slug = [] then ''app'' else slug);
          suffix = ''-'' @ shortHash h values;
          limit = 63 - int (length pre) - int (length suffix);
          limit = (if limit < 1 then 1 else limit);
          slug = (if limit < int (length slug) then Trim_dash (take (nat limit) slug) else slug);
          slug = (if slug = [] then ''app'' else slug) in
      pre @ slug @ suffix)"

definition EnvironmentNamespace :: "hashing \<Rightarrow> string \<Rightarrow> string \<Rightarrow> string" where
  "EnvironmentNamespace h applicationID environment = boundedDNS h ''app-'' [applicationID, environment]"

definition PaaSAppName :: "hashing \<Rightarrow> string \<Rightarrow> string \<Rightarrow> string" where
  "PaaSAppName h applicationID environment = boundedDNS h ''paas-'' [applicationID, environment]"

definition GeneratedHostname :: "hashing \<Rightarrow> string \<Rightarrow> string \<Rightarrow> string \<Rightarrow> rerror + string" where
  "GeneratedHostname h applicationID environment domain =
     (let domain = ToLower (hs_unicode h) (TrimSpace (TrimSuffix domain ''.'')) in
      if \<not> ValidDNSSubdomain (hs_unicode h) domain
        then Inl (RErr RInvalidArgument ''runtime cell ingress domain is invalid'')
      else let hostname = boundedDNS h [] [applicationID, environment] @ ''.'' @ domain in
      if \<not> ValidDNSSubdomain (hs_unicode h) hostname
        then Inl (RErr RInvalidArgument ''generated hostname is invalid'')
      else Inr hostname)"

section \<open>Applications\<close>

record application =
  app_id :: string
  app_tenant :: string
  app_project :: string
  app_name :: string
  app_lifecycle :: lifecycle_state
  app_version :: int
  app_created_at :: gotime
  app_updated_at :: gotime

definition NewApplication ::
  "hashing \<Rightarrow> string \<Rightarrow> string \<Rightarrow> string \<Rightarrow> string \<Rightarrow> gotime \<Rightarrow> rerror + application" where
  "NewApplication h i tenant project name now =
     (let i = TrimSpace i; tenant = TrimSpace tenant; project = TrimSpace project;
          name = dnsSlug (hs_unicode h) name in
      if \<not> ValidPlatformID i \<or> \<not> ValidPlatformID tenant \<or> \<not> ValidPlatformID project \<or> \<not> ValidDNSLabel name
        then Inl (RErr RInvalidArgument ''application identity is invalid'')
      else Inr \<lparr>app_id = i, app_tenant = tenant, app_project = project, app_name = name,
                app_lifecycle = LifecycleActive, app_version = 1, app_created_at = now,
                app_updated_at = now\<rparr>)"

fun lifecycle_allowed :: "lifecycle_state \<Rightarrow> lifecycle_state list" where
  "lifecycle_allowed LifecycleActive = [LifecycleSuspending, LifecycleDeletingRuntime]"
| "lifecycle_allowed LifecycleSuspending = [LifecycleSuspended, LifecycleActive]"
| "lifecycle_allowed LifecycleSuspended = [LifecycleResuming, LifecycleDeletingRuntime]"
| "lifecycle_allowed LifecycleResuming = [LifecycleActive, LifecycleSuspended]"
| "lifecycle_allowed LifecycleDeletingRuntime = [LifecycleRetaining, LifecycleActive]"
| "lifecycle_allowed LifecycleRetaining = [LifecycleDeleted]"
| "lifecycle_allowed _ = []"

definition TransitionLifecycle :: "lifecycle_state \<Rightarrow> gotime \<Rightarrow> application \<Rightarrow> rerror + application" where
  "TransitionLifecycle target now a =
     (if app_lifecycle a = target then Inr a
      else if \<not> List.member (lifecycle_allowed (app_lifecycle a)) target
        then Inl (RErr RConflict ''invalid application lifecycle transition'')
      else Inr (a\<lparr>app_lifecycle := target, app_version := app_version a + 1, app_updated_at := now\<rparr>))"

section \<open>Environments\<close>

record environment =
  env_id :: string
  env_tenant :: string
  env_application :: string
  env_name :: string
  env_namespace :: string
  env_default :: bool
  env_active_release :: string
  env_placement :: string
  env_version :: int
  env_created_at :: gotime
  env_updated_at :: gotime

definition NewEnvironment ::
  "hashing \<Rightarrow> string \<Rightarrow> string \<Rightarrow> string \<Rightarrow> string \<Rightarrow> bool \<Rightarrow> gotime \<Rightarrow> rerror + environment" where
  "NewEnvironment h i tenant application name isDefault now =
     (let i = TrimSpace i; tenant = TrimSpace tenant; application = TrimSpace application;
          name = dnsSlug (hs_unicode h) name in
      if \<not> ValidPlatformID i \<or> \<not> ValidPlatformID tenant \<or> \<not> ValidPlatformID application \<or>
         \<not> ValidDNSLabel name
        then Inl (RErr RInvalidArgument ''environment identity is invalid'')
      else Inr \<lparr>env_id = i, env_tenant = tenant, env_application = application, env_name = name,
                env_namespace = EnvironmentNamespace h application name, env_default = isDefault,
                env_active_release = [], env_placement = [], env_version = 1, env_created_at = now,
                env_updated_at = now\<rparr>)"

definition SetPlacement :: "string \<Rightarrow> gotime \<Rightarrow> environment \<Rightarrow> rerror + environment" where
  "SetPlacement placement now e =
     (let placement = TrimSpace placement in
      if \<not> ValidPlatformID placement then Inl (RErr RInvalidArgument ''placement id is invalid'')
      else if env_placement e = placement then Inr e
      else if env_placement e \<noteq> []
        then Inl (RErr RConflict ''placement is sticky and requires explicit migration'')
      else Inr (e\<lparr>env_placement := placement, env_version := env_version e + 1, env_updated_at := now\<rparr>))"

definition ActivateRelease :: "string \<Rightarrow> gotime \<Rightarrow> environment \<Rightarrow> rerror + environment" where
  "ActivateRelease release now e =
     (let release = TrimSpace release in
      if \<not> ValidPlatformID release then Inl (RErr RInvalidArgument ''release id is invalid'')
      else if env_active_release e = release then Inr e
      else Inr (e\<lparr>env_active_release := release, env_version := env_version e + 1,
                  env_updated_at := now\<rparr>))"

section \<open>Runtime cells\<close>

datatype cell_state = CellActive | CellDraining | CellOffline

record runtime_cell =
  cell_id :: string
  cell_region :: string
  cell_isolation :: "isolation_class list"
  cell_state :: cell_state
  cell_capacity :: int
  cell_allocated :: int
  cell_repository :: string
  cell_revision :: string
  cell_server :: string
  cell_project :: string
  cell_ingress :: string
  cell_version :: int
  cell_created_at :: gotime
  cell_updated_at :: gotime

fun isolation_loop :: "isolation_class list \<Rightarrow> isolation_class list \<Rightarrow> rerror + isolation_class list" where
  "isolation_loop [] out = Inr out"
| "isolation_loop (v # vs) out =
     (if v \<noteq> IsolationSandboxed \<and> v \<noteq> IsolationDedicated
        then Inl (RErr RInvalidArgument ''runtime cell isolation is invalid'')
      else if \<not> List.member out v then isolation_loop vs (out @ [v])
      else isolation_loop vs out)"

definition NewRuntimeCell ::
  "unicode \<Rightarrow> string \<Rightarrow> string \<Rightarrow> isolation_class list \<Rightarrow> int \<Rightarrow> string \<Rightarrow> string \<Rightarrow> string \<Rightarrow> string \<Rightarrow>
   gotime \<Rightarrow> rerror + runtime_cell" where
  "NewRuntimeCell u i region isolation capacity repository server project ingress now =
     (let i = ToLower u (TrimSpace i); region = ToLower u (TrimSpace region);
          repository = TrimSpace repository; server = TrimSpace server; project = TrimSpace project;
          ingress = ToLower u (TrimSpace (TrimSuffix ingress ''.'')) in
      if \<not> ValidDNSLabel i \<or> \<not> ValidDNSLabel region \<or> capacity \<le> 0 \<or> repository = [] \<or> server = [] \<or>
         \<not> ValidDNSLabel project \<or> \<not> ValidDNSSubdomain u ingress
        then Inl (RErr RInvalidArgument ''runtime cell configuration is invalid'')
      else case isolation_loop isolation [] of
        Inl e \<Rightarrow> Inl e
      | Inr out \<Rightarrow>
          if out = [] then Inl (RErr RInvalidArgument ''runtime cell supports no isolation class'')
          else Inr \<lparr>cell_id = i, cell_region = region, cell_isolation = sort out,
                    cell_state = CellActive, cell_capacity = capacity, cell_allocated = 0,
                    cell_repository = repository, cell_revision = ''main'', cell_server = server,
                    cell_project = project, cell_ingress = ingress, cell_version = 1,
                    cell_created_at = now, cell_updated_at = now\<rparr>)"

definition supports :: "runtime_cell \<Rightarrow> isolation_class \<Rightarrow> bool" where
  "supports c value \<longleftrightarrow> list_ex (\<lambda>item. item = value) (cell_isolation c)"

definition CanPlace :: "unicode \<Rightarrow> runtime_cell \<Rightarrow> string \<Rightarrow> isolation_class \<Rightarrow> int \<Rightarrow> bool" where
  "CanPlace u c region isolation units \<longleftrightarrow>
     cell_state c = CellActive \<and> cell_region c = ToLower u (TrimSpace region) \<and> supports c isolation \<and>
     0 < units \<and> cell_allocated c \<le> sub64 (cell_capacity c) units"

definition Cell_Allocate :: "int \<Rightarrow> gotime \<Rightarrow> runtime_cell \<Rightarrow> rerror + runtime_cell" where
  "Cell_Allocate units now c =
     (if cell_state c \<noteq> CellActive \<or> units \<le> 0 \<or> sub64 (cell_capacity c) units < cell_allocated c
        then Inl (RErr RCapacity ''runtime cell has insufficient capacity'')
      else Inr (c\<lparr>cell_allocated := add64 (cell_allocated c) units, cell_version := cell_version c + 1,
                  cell_updated_at := now\<rparr>))"

definition Cell_Release :: "int \<Rightarrow> gotime \<Rightarrow> runtime_cell \<Rightarrow> rerror + runtime_cell" where
  "Cell_Release units now c =
     (if units \<le> 0 \<or> cell_allocated c < units
        then Inl (RErr RInvalidArgument ''runtime cell release is invalid'')
      else Inr (c\<lparr>cell_allocated := sub64 (cell_allocated c) units, cell_version := cell_version c + 1,
                  cell_updated_at := now\<rparr>))"

definition Drain :: "gotime \<Rightarrow> runtime_cell \<Rightarrow> rerror + runtime_cell" where
  "Drain now c =
     (if cell_state c = CellDraining then Inr c
      else if cell_state c \<noteq> CellActive
        then Inl (RErr RConflict ''runtime cell cannot enter draining state'')
      else Inr (c\<lparr>cell_state := CellDraining, cell_version := cell_version c + 1, cell_updated_at := now\<rparr>))"

definition SameConfiguration :: "runtime_cell \<Rightarrow> runtime_cell \<Rightarrow> bool" where
  "SameConfiguration c d \<longleftrightarrow>
     \<not> (cell_id c \<noteq> cell_id d \<or> cell_region c \<noteq> cell_region d \<or> cell_capacity c \<noteq> cell_capacity d \<or>
        cell_repository c \<noteq> cell_repository d \<or> cell_revision c \<noteq> cell_revision d \<or>
        cell_server c \<noteq> cell_server d \<or> cell_project c \<noteq> cell_project d \<or>
        cell_ingress c \<noteq> cell_ingress d \<or> length (cell_isolation c) \<noteq> length (cell_isolation d)) \<and>
     list_all2 (=) (cell_isolation c) (cell_isolation d)"

section \<open>Placements\<close>

record placement =
  pl_id :: string
  pl_tenant :: string
  pl_environment :: string
  pl_cell :: string
  pl_region :: string
  pl_isolation :: isolation_class
  pl_current :: bool
  pl_units :: int
  pl_version :: int
  pl_created_at :: gotime
  pl_updated_at :: gotime

definition NewPlacement ::
  "unicode \<Rightarrow> string \<Rightarrow> string \<Rightarrow> string \<Rightarrow> runtime_cell \<Rightarrow> isolation_class \<Rightarrow> int \<Rightarrow> gotime \<Rightarrow>
   rerror + placement" where
  "NewPlacement u i tenant environment cell isolation units now =
     (let i = TrimSpace i; tenant = TrimSpace tenant; environment = TrimSpace environment in
      if \<not> ValidPlatformID i \<or> \<not> ValidPlatformID tenant \<or> \<not> ValidPlatformID environment \<or>
         \<not> CanPlace u cell (cell_region cell) isolation units
        then Inl (RErr RInvalidArgument ''placement is invalid or incompatible'')
      else Inr \<lparr>pl_id = i, pl_tenant = tenant, pl_environment = environment, pl_cell = cell_id cell,
                pl_region = cell_region cell, pl_isolation = isolation, pl_current = True,
                pl_units = units, pl_version = 1, pl_created_at = now, pl_updated_at = now\<rparr>)"

definition Resize :: "int \<Rightarrow> gotime \<Rightarrow> placement \<Rightarrow> rerror + placement" where
  "Resize units now p =
     (if units \<le> 0 then Inl (RErr RInvalidArgument ''placement units must be positive'')
      else if pl_units p = units then Inr p
      else Inr (p\<lparr>pl_units := units, pl_version := pl_version p + 1, pl_updated_at := now\<rparr>))"

definition Retire :: "gotime \<Rightarrow> placement \<Rightarrow> placement" where
  "Retire now p =
     (if \<not> pl_current p then p
      else p\<lparr>pl_current := False, pl_version := pl_version p + 1, pl_updated_at := now\<rparr>)"

section \<open>Release configurations\<close>

definition invalid_config :: "string \<Rightarrow> rerror + 'a" where
  "invalid_config m = Inl (RErr RInvalidArgument m)"

text \<open>
  The loop over the processes in the order of their names: defaults are filled in and the name is
  put in lower case; a later process replaces an earlier one whose name became the same.
\<close>

fun normalize_loop :: "unicode \<Rightarrow> processes \<Rightarrow> string list \<Rightarrow> processes \<Rightarrow> rerror + processes" where
  "normalize_loop u inp [] out = Inr out"
| "normalize_loop u inp (key # keys) out =
     (let p = the (map_of inp key);
          name = ToLower u (TrimSpace key) in
      if \<not> ValidDNSLabel name \<or> MinReplicas p < 0 \<or> MaxReplicas p < MinReplicas p \<or>
         1000 < MaxReplicas p \<or> (MinReplicas p < MaxReplicas p \<and> MinReplicas p = 0)
        then invalid_config ''invalid process configuration''
      else if Port p < 0 \<or> 65535 < Port p then invalid_config ''invalid process port''
      else if HealthPath p \<noteq> [] \<and>
              (\<not> HasPrefix (HealthPath p) ''/'' \<or>
               ContainsAny (HealthPath p) [CHR 0x0D, CHR 0x0A, CHR 0x00])
        then invalid_config ''invalid process health path''
      else normalize_loop u inp keys
        (AList.update name
          (p\<lparr>Command := copy_strings (Command p),
             StartupTimeout := (if StartupTimeout p = 0 then 60 else StartupTimeout p),
             ReadinessTimeout := (if ReadinessTimeout p = 0 then 30 else ReadinessTimeout p)\<rparr>) out))"

definition normalize_migration :: "migration_spec \<Rightarrow> migration_spec" where
  "normalize_migration m =
     m\<lparr>MigrationCommand := copy_strings (MigrationCommand m),
       TimeoutSeconds :=
         (if strings_of (MigrationCommand m) \<noteq> [] \<and> TimeoutSeconds m = 0 then 600
          else TimeoutSeconds m)\<rparr>"

text \<open>The scalar fields, before the checks.\<close>

definition normalize_fields :: "unicode \<Rightarrow> release_config \<Rightarrow> release_config" where
  "normalize_fields u c =
     (let snapshot = TrimSpace (rc_attachment_snapshot c);
          egress = ToLower u (TrimSpace (rc_egress_profile c)) in
      c\<lparr>rc_region := ToLower u (TrimSpace (rc_region c)), rc_unit := ToLower u (TrimSpace (rc_unit c)),
        rc_hostname := ToLower u (TrimSpace (rc_hostname c)),
        rc_attachment_snapshot := (if snapshot = [] then ''none'' else snapshot),
        rc_egress_profile := (if egress = [] then ''public-default'' else egress),
        rc_rollout_timeout := (if rc_rollout_timeout c = 0 then 300 else rc_rollout_timeout c)\<rparr>)"

definition NormalizeReleaseConfig :: "unicode \<Rightarrow> release_config \<Rightarrow> rerror + release_config" where
  "NormalizeReleaseConfig u input =
     (let out = normalize_fields u input in
      if rc_region out = [] \<or> \<not> ValidDNSLabel (rc_region out) \<or> \<not> ValidDNSLabel (rc_unit out)
        then invalid_config ''region and runtime unit must be DNS labels''
      else if rc_isolation out \<noteq> IsolationSandboxed \<and> rc_isolation out \<noteq> IsolationDedicated
        then invalid_config ''unsupported isolation class''
      else if rc_processes out = [] \<or> 32 < length (rc_processes out)
        then invalid_config ''at least one process is required''
      else case normalize_loop u (rc_processes out) (sort (map fst (rc_processes out))) [] of
        Inl e \<Rightarrow> Inl e
      | Inr ps \<Rightarrow>
          if SelectRouteProcess ps = None then invalid_config ''release has no routable process''
          else let migration = normalize_migration (rc_migration out) in
          if rc_rollout_timeout out \<le> 0 \<or> 86400 < rc_rollout_timeout out
            then invalid_config ''invalid rollout timeout''
          else if TimeoutSeconds migration < 0 \<or> 86400 < TimeoutSeconds migration
            then invalid_config ''invalid migration timeout''
          else Inr (out\<lparr>rc_processes := ps, rc_migration := migration\<rparr>))"

section \<open>Releases\<close>

definition ReleaseIdentity :: "hashing \<Rightarrow> string \<Rightarrow> artifact_ref \<Rightarrow> release_config \<Rightarrow> rerror + string" where
  "ReleaseIdentity h environmentID artifact config =
     (let environmentID = TrimSpace environmentID in
      if \<not> ValidPlatformID environmentID \<or> Artifact_Validate artifact \<noteq> Inr ()
        then Inl (RErr RInvalidArgument ''release identity input is invalid'')
      else case NormalizeReleaseConfig (hs_unicode h) config of
        Inl e \<Rightarrow> Inl e
      | Inr normalized \<Rightarrow>
          Inr (''sha256:'' @ hs_json h (JReleaseIdentity environmentID artifact (json_config normalized))))"

record release =
  rel_id :: string
  rel_tenant :: string
  rel_application :: string
  rel_environment :: string
  rel_identity :: string
  rel_artifact :: artifact_ref
  rel_configuration :: release_config
  rel_policy_version :: string
  rel_state :: release_state
  rel_rollback_of :: string
  rel_policy_override :: bool
  rel_failure_code :: string
  rel_failure_message :: string
  rel_version :: int
  rel_created_at :: gotime
  rel_updated_at :: gotime

definition NewRelease ::
  "hashing \<Rightarrow> string \<Rightarrow> string \<Rightarrow> string \<Rightarrow> string \<Rightarrow> artifact_ref \<Rightarrow> release_config \<Rightarrow> string \<Rightarrow>
   gotime \<Rightarrow> rerror + release" where
  "NewRelease h i tenant application environment artifact config policy now =
     (let i = TrimSpace i; tenant = TrimSpace tenant; application = TrimSpace application;
          environment = TrimSpace environment; policy = TrimSpace policy in
      if \<not> ValidPlatformID i \<or> \<not> ValidPlatformID tenant \<or> \<not> ValidPlatformID application \<or>
         \<not> ValidPlatformID environment \<or> Artifact_Validate artifact \<noteq> Inr () \<or> policy = []
        then Inl (RErr RInvalidArgument ''release identity is invalid'')
      else case NormalizeReleaseConfig (hs_unicode h) config of
        Inl e \<Rightarrow> Inl e
      | Inr normalized \<Rightarrow>
          (case ReleaseIdentity h environment artifact normalized of
             Inl e \<Rightarrow> Inl e
           | Inr identity \<Rightarrow>
               Inr \<lparr>rel_id = i, rel_tenant = tenant, rel_application = application,
                    rel_environment = environment, rel_identity = identity, rel_artifact = artifact,
                    rel_configuration = normalized, rel_policy_version = policy,
                    rel_state = ReleaseCreated, rel_rollback_of = [], rel_policy_override = False,
                    rel_failure_code = [], rel_failure_message = [], rel_version = 1,
                    rel_created_at = now, rel_updated_at = now\<rparr>))"

fun release_allowed :: "release_state \<Rightarrow> release_state list" where
  "release_allowed ReleaseCreated = [ReleaseValidated]"
| "release_allowed ReleaseValidated = [ReleaseCommittedToGitOps, ReleaseFailed]"
| "release_allowed ReleaseCommittedToGitOps = [ReleaseDeploying, ReleaseFailed]"
| "release_allowed ReleaseDeploying = [ReleaseActive, ReleaseFailed]"
| "release_allowed ReleaseActive = [ReleaseSuperseded]"
| "release_allowed _ = []"

definition Release_Transition :: "release_state \<Rightarrow> gotime \<Rightarrow> release \<Rightarrow> rerror + release" where
  "Release_Transition target now r =
     (if rel_state r = target then Inr r
      else if \<not> List.member (release_allowed (rel_state r)) target
        then Inl (RErr RConflict ''invalid release transition'')
      else Inr (r\<lparr>rel_state := target, rel_version := rel_version r + 1, rel_updated_at := now\<rparr>))"

definition Release_Fail :: "string \<Rightarrow> string \<Rightarrow> gotime \<Rightarrow> release \<Rightarrow> rerror + release" where
  "Release_Fail code message now r =
     (if rel_state r = ReleaseFailed then Inr r
      else case Release_Transition ReleaseFailed now r of
        Inl e \<Rightarrow> Inl e
      | Inr r' \<Rightarrow> Inr (r'\<lparr>rel_failure_code := TrimSpace code, rel_failure_message := TrimSpace message\<rparr>))"

section \<open>Deployments\<close>

record deployment =
  dep_id :: string
  dep_tenant :: string
  dep_application :: string
  dep_environment :: string
  dep_release :: string
  dep_placement :: string
  dep_previous :: string
  dep_phase :: deployment_phase
  dep_commit :: string
  dep_url :: string
  dep_replicas :: int
  dep_failure_code :: string
  dep_failure_message :: string
  dep_version :: int
  dep_created_at :: gotime
  dep_updated_at :: gotime

definition NewDeployment ::
  "string \<Rightarrow> release \<Rightarrow> placement \<Rightarrow> string \<Rightarrow> gotime \<Rightarrow> rerror + deployment" where
  "NewDeployment i r p previous now =
     (let i = TrimSpace i in
      if \<not> ValidPlatformID i \<or> rel_id r = [] \<or> pl_id p = [] \<or> rel_tenant r \<noteq> pl_tenant p \<or>
         rel_environment r \<noteq> pl_environment p
        then Inl (RErr RInvalidArgument ''deployment identity is invalid'')
      else if previous \<noteq> [] \<and> \<not> ValidPlatformID previous
        then Inl (RErr RInvalidArgument ''previous release id is invalid'')
      else Inr \<lparr>dep_id = i, dep_tenant = rel_tenant r, dep_application = rel_application r,
                dep_environment = rel_environment r, dep_release = rel_id r, dep_placement = pl_id p,
                dep_previous = previous, dep_phase = DeploymentPending, dep_commit = [], dep_url = [],
                dep_replicas = 0, dep_failure_code = [], dep_failure_message = [], dep_version = 1,
                dep_created_at = now, dep_updated_at = now\<rparr>)"

fun deployment_allowed :: "deployment_phase \<Rightarrow> deployment_phase list" where
  "deployment_allowed DeploymentPending = [DeploymentGitCommitted, DeploymentFailed]"
| "deployment_allowed DeploymentGitCommitted = [DeploymentArgoSyncing, DeploymentFailed]"
| "deployment_allowed DeploymentArgoSyncing = [DeploymentRollingOut, DeploymentDegraded, DeploymentFailed]"
| "deployment_allowed DeploymentRollingOut = [DeploymentReady, DeploymentDegraded, DeploymentFailed]"
| "deployment_allowed DeploymentDegraded = [DeploymentRollingOut, DeploymentReady, DeploymentFailed]"
| "deployment_allowed _ = []"

definition Deployment_Transition :: "deployment_phase \<Rightarrow> gotime \<Rightarrow> deployment \<Rightarrow> rerror + deployment" where
  "Deployment_Transition target now d =
     (if dep_phase d = target then Inr d
      else if \<not> List.member (deployment_allowed (dep_phase d)) target
        then Inl (RErr RConflict ''invalid deployment transition'')
      else Inr (d\<lparr>dep_phase := target, dep_version := dep_version d + 1, dep_updated_at := now\<rparr>))"

definition RecordGitCommit :: "string \<Rightarrow> gotime \<Rightarrow> deployment \<Rightarrow> rerror + deployment" where
  "RecordGitCommit sha now d =
     (let sha = TrimSpace sha in
      if length sha < 7 \<or> 64 < length sha \<or> ContainsAny sha [CHR 0x0D, CHR 0x0A, CHR 0x00, CHR '' '']
        then Inl (RErr RInvalidArgument ''git commit sha is invalid'')
      else if dep_commit d \<noteq> [] then
        (if dep_commit d = sha then Inr d
         else Inl (RErr RConflict ''deployment Git commit is immutable''))
      else case Deployment_Transition DeploymentGitCommitted now d of
        Inl e \<Rightarrow> Inl e
      | Inr d' \<Rightarrow> Inr (d'\<lparr>dep_commit := sha\<rparr>))"

definition MarkReady :: "string \<Rightarrow> int \<Rightarrow> gotime \<Rightarrow> deployment \<Rightarrow> rerror + deployment" where
  "MarkReady url replicas now d =
     (if replicas < 0 \<or> blank url
        then Inl (RErr RInvalidArgument ''ready deployment status is invalid'')
      else case (if dep_phase d \<noteq> DeploymentReady then Deployment_Transition DeploymentReady now d
                 else Inr d) of
        Inl e \<Rightarrow> Inl e
      | Inr d' \<Rightarrow> Inr (d'\<lparr>dep_url := TrimSpace url, dep_replicas := replicas, dep_failure_code := [],
                         dep_failure_message := []\<rparr>))"

definition MarkDegraded :: "string \<Rightarrow> string \<Rightarrow> gotime \<Rightarrow> deployment \<Rightarrow> rerror + deployment" where
  "MarkDegraded code message now d =
     (case (if dep_phase d \<noteq> DeploymentDegraded then Deployment_Transition DeploymentDegraded now d
            else Inr d) of
        Inl e \<Rightarrow> Inl e
      | Inr d' \<Rightarrow> Inr (d'\<lparr>dep_failure_code := TrimSpace code, dep_failure_message := TrimSpace message\<rparr>))"

end
