(* ===== verification/Runtime_Store.thy ===== *)
theory Runtime_Store
  imports Runtime_Domain Versioned_Store
begin

text \<open>
  The in-memory store of the runtime component: the records of \<open>internal/runtime/domain/records.go\<close>
  and the tables and transaction operations of \<open>internal/runtime/memory/store.go\<close>. A table that the
  code ranges over is an association list, whose order is one iteration order of the map. The
  store copies every value through its JSON text, which is the identity on the values at hand
  (valid UTF-8, instants between the years 0 and 9999, \<open>nil\<close> for an empty command).
\<close>

section \<open>Records\<close>

record runtime_idempotency =
  ri_tenant :: string
  ri_scope :: string
  ri_key :: string
  ri_request_hash :: string
  ri_resource_id :: string
  ri_created_at :: gotime

record runtime_outbox =
  ro_id :: string
  ro_tenant :: string
  ro_topic :: string
  ro_aggregate :: string
  ro_payload :: json
  ro_created_at :: gotime

record runtime_audit =
  ra_id :: string
  ra_tenant :: string
  ra_actor :: string
  ra_action :: string
  ra_resource_type :: string
  ra_resource_id :: string
  ra_data :: json
  ra_created_at :: gotime

record gitops_commit =
  gc_id :: string
  gc_tenant :: string
  gc_cell :: string
  gc_release :: string
  gc_deployment :: string
  gc_path :: string
  gc_manifest_hash :: string
  gc_sha :: string
  gc_created_at :: gotime

record quarantine_record =
  qn_id :: string
  qn_cell :: string
  qn_namespace :: string
  qn_kind :: string
  qn_name :: string
  qn_reason :: string
  qn_observed_at :: gotime

record placement_migration =
  pm_id :: string
  pm_tenant :: string
  pm_environment :: string
  pm_from_placement :: string
  pm_target_cell :: string
  pm_state :: string
  pm_created_at :: gotime

record runtime_data =
  rt_applications :: "(string \<times> application) list"
  rt_environments :: "(string \<times> environment) list"
  rt_cells :: "(string \<times> runtime_cell) list"
  rt_placements :: "(string \<times> placement) list"
  rt_migrations :: "string \<rightharpoonup> placement_migration"
  rt_releases :: "(string \<times> release) list"
  rt_deployments :: "(string \<times> deployment) list"
  rt_commits :: "string \<rightharpoonup> gitops_commit"
  rt_quarantine :: "string \<rightharpoonup> quarantine_record"
  rt_idempotency :: "string \<rightharpoonup> runtime_idempotency"
  rt_outbox :: "runtime_outbox list"
  rt_audit :: "runtime_audit list"

definition runtime_newState :: runtime_data where
  "runtime_newState = \<lparr>rt_applications = [], rt_environments = [], rt_cells = [], rt_placements = [],
               rt_migrations = Map.empty, rt_releases = [], rt_deployments = [],
               rt_commits = Map.empty, rt_quarantine = Map.empty, rt_idempotency = Map.empty,
               rt_outbox = [], rt_audit = []\<rparr>"

section \<open>Applications\<close>

definition GetApplication :: "string \<Rightarrow> runtime_data \<Rightarrow> application option" where
  "GetApplication i d = map_of (rt_applications d) i"

definition FindApplicationByTenantName :: "string \<Rightarrow> string \<Rightarrow> runtime_data \<Rightarrow> application option" where
  "FindApplicationByTenantName tenant name d =
     List.find (\<lambda>v. app_tenant v = tenant \<and> app_name v = name) (map snd (rt_applications d))"

definition InsertApplication :: "application \<Rightarrow> runtime_data \<Rightarrow> rerror + runtime_data" where
  "InsertApplication v d =
     (if GetApplication (app_id v) d \<noteq> None then Inl (RErr RConflict ''application exists'')
      else if FindApplicationByTenantName (app_tenant v) (app_name v) d \<noteq> None
        then Inl (RErr RConflict ''application name exists'')
      else Inr (d\<lparr>rt_applications := AList.update (app_id v) v (rt_applications d)\<rparr>))"

definition UpdateApplication :: "application \<Rightarrow> int \<Rightarrow> runtime_data \<Rightarrow> rerror + runtime_data" where
  "UpdateApplication v expected d =
     (case GetApplication (app_id v) d of
        None \<Rightarrow> Inl (RErr RNotFound ''application not found'')
      | Some old \<Rightarrow>
          if app_version old \<noteq> expected
            then Inl (RErr RStaleVersion ''application version mismatch'')
          else if app_tenant old \<noteq> app_tenant v \<or> app_project old \<noteq> app_project v \<or>
                  app_created_at old \<noteq> app_created_at v
            then Inl (RErr RConflict ''application identity is immutable'')
          else if list_ex (\<lambda>other. app_id other \<noteq> app_id v \<and> app_tenant other = app_tenant v \<and>
                    app_name other = app_name v) (map snd (rt_applications d))
            then Inl (RErr RConflict ''application name exists'')
          else Inr (d\<lparr>rt_applications := AList.update (app_id v) v (rt_applications d)\<rparr>))"

section \<open>Environments\<close>

definition GetEnvironment :: "string \<Rightarrow> runtime_data \<Rightarrow> environment option" where
  "GetEnvironment i d = map_of (rt_environments d) i"

definition FindEnvironmentByApplicationName :: "string \<Rightarrow> string \<Rightarrow> runtime_data \<Rightarrow> environment option" where
  "FindEnvironmentByApplicationName application name d =
     List.find (\<lambda>v. env_application v = application \<and> env_name v = name) (map snd (rt_environments d))"

definition ListEnvironmentsByApplication :: "string \<Rightarrow> runtime_data \<Rightarrow> environment list" where
  "ListEnvironmentsByApplication application d =
     sort_key env_id (filter (\<lambda>v. env_application v = application) (map snd (rt_environments d)))"

text \<open>The loop of an insert: the first other environment that is in the way decides the error.\<close>

fun environment_conflict :: "environment \<Rightarrow> environment list \<Rightarrow> string option" where
  "environment_conflict v [] = None"
| "environment_conflict v (other # others) =
     (if env_application other = env_application v \<and> env_name other = env_name v
        then Some ''environment name exists''
      else if env_default v \<and> env_application other = env_application v \<and> env_default other
        then Some ''default environment exists''
      else if env_namespace other = env_namespace v then Some ''environment namespace exists''
      else environment_conflict v others)"

definition InsertEnvironment :: "environment \<Rightarrow> runtime_data \<Rightarrow> rerror + runtime_data" where
  "InsertEnvironment v d =
     (if GetEnvironment (env_id v) d \<noteq> None then Inl (RErr RConflict ''environment exists'')
      else case environment_conflict v (map snd (rt_environments d)) of
        Some m \<Rightarrow> Inl (RErr RConflict m)
      | None \<Rightarrow> Inr (d\<lparr>rt_environments := AList.update (env_id v) v (rt_environments d)\<rparr>))"

fun environment_update_conflict :: "environment \<Rightarrow> environment list \<Rightarrow> string option" where
  "environment_update_conflict v [] = None"
| "environment_update_conflict v (other # others) =
     (if env_id other = env_id v then environment_update_conflict v others
      else if env_application other = env_application v \<and> env_name other = env_name v
        then Some ''environment name exists''
      else if env_default v \<and> env_application other = env_application v \<and> env_default other
        then Some ''default environment exists''
      else environment_update_conflict v others)"

definition UpdateEnvironment :: "environment \<Rightarrow> int \<Rightarrow> runtime_data \<Rightarrow> rerror + runtime_data" where
  "UpdateEnvironment v expected d =
     (case GetEnvironment (env_id v) d of
        None \<Rightarrow> Inl (RErr RNotFound ''environment not found'')
      | Some old \<Rightarrow>
          if env_version old \<noteq> expected
            then Inl (RErr RStaleVersion ''environment version mismatch'')
          else if env_tenant old \<noteq> env_tenant v \<or> env_application old \<noteq> env_application v \<or>
                  env_namespace old \<noteq> env_namespace v \<or> env_created_at old \<noteq> env_created_at v
            then Inl (RErr RConflict ''environment identity is immutable'')
          else case environment_update_conflict v (map snd (rt_environments d)) of
            Some m \<Rightarrow> Inl (RErr RConflict m)
          | None \<Rightarrow> Inr (d\<lparr>rt_environments := AList.update (env_id v) v (rt_environments d)\<rparr>))"

section \<open>Cells\<close>

definition GetRuntimeCell :: "string \<Rightarrow> runtime_data \<Rightarrow> runtime_cell option" where
  "GetRuntimeCell i d = map_of (rt_cells d) i"

definition ListRuntimeCells :: "runtime_data \<Rightarrow> runtime_cell list" where
  "ListRuntimeCells d = sort_key cell_id (map snd (rt_cells d))"

definition InsertRuntimeCell :: "runtime_cell \<Rightarrow> runtime_data \<Rightarrow> rerror + runtime_data" where
  "InsertRuntimeCell v d =
     (if GetRuntimeCell (cell_id v) d \<noteq> None then Inl (RErr RConflict ''runtime cell exists'')
      else Inr (d\<lparr>rt_cells := AList.update (cell_id v) v (rt_cells d)\<rparr>))"

definition UpdateRuntimeCell :: "runtime_cell \<Rightarrow> int \<Rightarrow> runtime_data \<Rightarrow> rerror + runtime_data" where
  "UpdateRuntimeCell v expected d =
     (case GetRuntimeCell (cell_id v) d of
        None \<Rightarrow> Inl (RErr RNotFound ''runtime cell not found'')
      | Some old \<Rightarrow>
          if cell_version old \<noteq> expected
            then Inl (RErr RStaleVersion ''runtime cell version mismatch'')
          else if old\<lparr>cell_state := cell_state v, cell_allocated := cell_allocated v,
                      cell_capacity := cell_capacity v, cell_version := cell_version v,
                      cell_updated_at := cell_updated_at v\<rparr> \<noteq> v
            then Inl (RErr RConflict ''runtime cell identity is immutable'')
          else Inr (d\<lparr>rt_cells := AList.update (cell_id v) v (rt_cells d)\<rparr>))"

section \<open>Placements\<close>

definition GetPlacement :: "string \<Rightarrow> runtime_data \<Rightarrow> placement option" where
  "GetPlacement i d = map_of (rt_placements d) i"

definition GetCurrentPlacement :: "string \<Rightarrow> runtime_data \<Rightarrow> placement option" where
  "GetCurrentPlacement environment d =
     List.find (\<lambda>v. pl_environment v = environment \<and> pl_current v) (map snd (rt_placements d))"

definition InsertPlacement :: "placement \<Rightarrow> runtime_data \<Rightarrow> rerror + runtime_data" where
  "InsertPlacement v d =
     (if GetPlacement (pl_id v) d \<noteq> None then Inl (RErr RConflict ''placement exists'')
      else if pl_current v \<and> GetCurrentPlacement (pl_environment v) d \<noteq> None
        then Inl (RErr RConflict ''current placement exists'')
      else Inr (d\<lparr>rt_placements := AList.update (pl_id v) v (rt_placements d)\<rparr>))"

definition UpdatePlacement :: "placement \<Rightarrow> int \<Rightarrow> runtime_data \<Rightarrow> rerror + runtime_data" where
  "UpdatePlacement v expected d =
     (case GetPlacement (pl_id v) d of
        None \<Rightarrow> Inl (RErr RNotFound ''placement not found'')
      | Some old \<Rightarrow>
          if pl_version old \<noteq> expected
            then Inl (RErr RStaleVersion ''placement version mismatch'')
          else if pl_tenant old \<noteq> pl_tenant v \<or> pl_environment old \<noteq> pl_environment v \<or>
                  pl_cell old \<noteq> pl_cell v \<or> pl_region old \<noteq> pl_region v \<or>
                  pl_isolation old \<noteq> pl_isolation v \<or> pl_created_at old \<noteq> pl_created_at v
            then Inl (RErr RConflict ''placement identity is immutable'')
          else if pl_current v \<and>
                  list_ex (\<lambda>other. pl_id other \<noteq> pl_id v \<and> pl_environment other = pl_environment v \<and>
                    pl_current other) (map snd (rt_placements d))
            then Inl (RErr RConflict ''current placement exists'')
          else Inr (d\<lparr>rt_placements := AList.update (pl_id v) v (rt_placements d)\<rparr>))"

definition InsertPlacementMigration :: "placement_migration \<Rightarrow> runtime_data \<Rightarrow> rerror + runtime_data" where
  "InsertPlacementMigration v d =
     (if rt_migrations d (pm_id v) \<noteq> None then Inl (RErr RConflict ''placement migration exists'')
      else Inr (d\<lparr>rt_migrations := (rt_migrations d)(pm_id v \<mapsto> v)\<rparr>))"

section \<open>Releases\<close>

text \<open>\<open>reflect.DeepEqual\<close> on configurations: the processes are compared as maps.\<close>

definition config_equal :: "release_config \<Rightarrow> release_config \<Rightarrow> bool" where
  "config_equal c d \<longleftrightarrow>
     c\<lparr>rc_processes := []\<rparr> = d\<lparr>rc_processes := []\<rparr> \<and> set (rc_processes c) = set (rc_processes d)"

definition GetRelease :: "string \<Rightarrow> runtime_data \<Rightarrow> release option" where
  "GetRelease i d = map_of (rt_releases d) i"

definition FindReleaseByIdentity :: "string \<Rightarrow> string \<Rightarrow> string \<Rightarrow> runtime_data \<Rightarrow> release option" where
  "FindReleaseByIdentity tenant environment identity d =
     List.find (\<lambda>v. rel_tenant v = tenant \<and> rel_environment v = environment \<and>
         rel_identity v = identity \<and> rel_rollback_of v = []) (map snd (rt_releases d))"

definition ListReleasesByEnvironment :: "string \<Rightarrow> runtime_data \<Rightarrow> release list" where
  "ListReleasesByEnvironment environment d =
     sort_key rel_created_at (filter (\<lambda>v. rel_environment v = environment) (map snd (rt_releases d)))"

definition active_elsewhere :: "release \<Rightarrow> runtime_data \<Rightarrow> bool" where
  "active_elsewhere v d \<longleftrightarrow>
     list_ex (\<lambda>other. rel_id other \<noteq> rel_id v \<and> rel_environment other = rel_environment v \<and>
       rel_state other = ReleaseActive) (map snd (rt_releases d))"

definition InsertRelease :: "release \<Rightarrow> runtime_data \<Rightarrow> rerror + runtime_data" where
  "InsertRelease v d =
     (if GetRelease (rel_id v) d \<noteq> None then Inl (RErr RConflict ''release exists'')
      else if rel_rollback_of v = [] \<and>
              FindReleaseByIdentity (rel_tenant v) (rel_environment v) (rel_identity v) d \<noteq> None
        then Inl (RErr RConflict ''release identity exists'')
      else if rel_state v = ReleaseActive \<and>
              list_ex (\<lambda>other. rel_environment other = rel_environment v \<and>
                rel_state other = ReleaseActive) (map snd (rt_releases d))
        then Inl (RErr RConflict ''active release exists'')
      else Inr (d\<lparr>rt_releases := AList.update (rel_id v) v (rt_releases d)\<rparr>))"

definition release_identity_kept :: "release \<Rightarrow> release \<Rightarrow> bool" where
  "release_identity_kept old v \<longleftrightarrow>
     old\<lparr>rel_state := rel_state v, rel_version := rel_version v, rel_updated_at := rel_updated_at v,
         rel_failure_code := rel_failure_code v, rel_failure_message := rel_failure_message v,
         rel_configuration := rel_configuration v\<rparr> = v \<and>
     config_equal (rel_configuration old) (rel_configuration v)"

definition UpdateRelease :: "release \<Rightarrow> int \<Rightarrow> runtime_data \<Rightarrow> rerror + runtime_data" where
  "UpdateRelease v expected d =
     (case GetRelease (rel_id v) d of
        None \<Rightarrow> Inl (RErr RNotFound ''release not found'')
      | Some old \<Rightarrow>
          if rel_version old \<noteq> expected then Inl (RErr RStaleVersion ''release version mismatch'')
          else if \<not> release_identity_kept old v
            then Inl (RErr RConflict ''release identity is immutable'')
          else if rel_state v = ReleaseActive \<and> active_elsewhere v d
            then Inl (RErr RConflict ''active release exists'')
          else Inr (d\<lparr>rt_releases := AList.update (rel_id v) v (rt_releases d)\<rparr>))"

section \<open>Deployments\<close>

definition GetDeployment :: "string \<Rightarrow> runtime_data \<Rightarrow> deployment option" where
  "GetDeployment i d = map_of (rt_deployments d) i"

definition FindDeploymentByRelease :: "string \<Rightarrow> runtime_data \<Rightarrow> deployment option" where
  "FindDeploymentByRelease r d = List.find (\<lambda>v. dep_release v = r) (map snd (rt_deployments d))"

definition ListDeploymentsByEnvironment :: "string \<Rightarrow> runtime_data \<Rightarrow> deployment list" where
  "ListDeploymentsByEnvironment environment d =
     sort_key dep_created_at (filter (\<lambda>v. dep_environment v = environment) (map snd (rt_deployments d)))"

definition InsertDeployment :: "deployment \<Rightarrow> runtime_data \<Rightarrow> rerror + runtime_data" where
  "InsertDeployment v d =
     (if GetDeployment (dep_id v) d \<noteq> None then Inl (RErr RConflict ''deployment exists'')
      else if FindDeploymentByRelease (dep_release v) d \<noteq> None
        then Inl (RErr RConflict ''release deployment exists'')
      else Inr (d\<lparr>rt_deployments := AList.update (dep_id v) v (rt_deployments d)\<rparr>))"

definition deployment_identity_kept :: "deployment \<Rightarrow> deployment \<Rightarrow> bool" where
  "deployment_identity_kept old v \<longleftrightarrow>
     old\<lparr>dep_phase := dep_phase v, dep_commit := dep_commit v, dep_url := dep_url v,
         dep_replicas := dep_replicas v, dep_failure_code := dep_failure_code v,
         dep_failure_message := dep_failure_message v, dep_version := dep_version v,
         dep_updated_at := dep_updated_at v\<rparr> = v"

definition UpdateDeployment :: "deployment \<Rightarrow> int \<Rightarrow> runtime_data \<Rightarrow> rerror + runtime_data" where
  "UpdateDeployment v expected d =
     (case GetDeployment (dep_id v) d of
        None \<Rightarrow> Inl (RErr RNotFound ''deployment not found'')
      | Some old \<Rightarrow>
          if dep_version old \<noteq> expected
            then Inl (RErr RStaleVersion ''deployment version mismatch'')
          else if \<not> deployment_identity_kept old v
            then Inl (RErr RConflict ''deployment identity is immutable'')
          else Inr (d\<lparr>rt_deployments := AList.update (dep_id v) v (rt_deployments d)\<rparr>))"

section \<open>Commits, quarantine, idempotency and logs\<close>

definition GetGitOpsCommitByRelease :: "string \<Rightarrow> runtime_data \<Rightarrow> gitops_commit option" where
  "GetGitOpsCommitByRelease r d = rt_commits d r"

definition InsertGitOpsCommit :: "gitops_commit \<Rightarrow> runtime_data \<Rightarrow> rerror + runtime_data" where
  "InsertGitOpsCommit v d =
     (case rt_commits d (gc_release v) of
        Some old \<Rightarrow> if old = v then Inr d else Inl (RErr RConflict ''GitOps commit exists'')
      | None \<Rightarrow> Inr (d\<lparr>rt_commits := (rt_commits d)(gc_release v \<mapsto> v)\<rparr>))"

definition InsertQuarantine :: "quarantine_record \<Rightarrow> runtime_data \<Rightarrow> rerror + runtime_data" where
  "InsertQuarantine v d =
     (if rt_quarantine d (qn_id v) \<noteq> None then Inl (RErr RConflict ''quarantine record exists'')
      else Inr (d\<lparr>rt_quarantine := (rt_quarantine d)(qn_id v \<mapsto> v)\<rparr>))"

definition runtime_idemKey :: "string \<Rightarrow> string \<Rightarrow> string \<Rightarrow> string" where
  "runtime_idemKey tenant scope key = tenant @ [CHR 0x00] @ scope @ [CHR 0x00] @ key"

definition Runtime_GetIdempotency ::
  "string \<Rightarrow> string \<Rightarrow> string \<Rightarrow> runtime_data \<Rightarrow> runtime_idempotency option" where
  "Runtime_GetIdempotency tenant scope key d = rt_idempotency d (runtime_idemKey tenant scope key)"

definition Runtime_InsertIdempotency :: "runtime_idempotency \<Rightarrow> runtime_data \<Rightarrow> rerror + runtime_data" where
  "Runtime_InsertIdempotency v d =
     (let k = runtime_idemKey (ri_tenant v) (ri_scope v) (ri_key v) in
      case rt_idempotency d k of
        Some old \<Rightarrow>
          if ri_request_hash old = ri_request_hash v \<and> ri_resource_id old = ri_resource_id v then Inr d
          else Inl (RErr RConflict ''idempotency record exists'')
      | None \<Rightarrow> Inr (d\<lparr>rt_idempotency := (rt_idempotency d)(k \<mapsto> v)\<rparr>))"

definition Runtime_AppendOutbox :: "runtime_outbox \<Rightarrow> runtime_data \<Rightarrow> rerror + runtime_data" where
  "Runtime_AppendOutbox v d =
     (if list_ex (\<lambda>old. ro_id old = ro_id v) (rt_outbox d)
        then Inl (RErr RConflict ''outbox record exists'')
      else Inr (d\<lparr>rt_outbox := rt_outbox d @ [v]\<rparr>))"

definition Runtime_AppendAudit :: "runtime_audit \<Rightarrow> runtime_data \<Rightarrow> rerror + runtime_data" where
  "Runtime_AppendAudit v d =
     (if list_ex (\<lambda>old. ra_id old = ra_id v) (rt_audit d)
        then Inl (RErr RConflict ''audit record exists'')
      else Inr (d\<lparr>rt_audit := rt_audit d @ [v]\<rparr>))"

end
