(* ===== verification/Runtime_Tables.thy ===== *)
theory Runtime_Tables
  imports Runtime_Store
begin

text \<open>
  What the operations of the runtime store promise: the contract of versioned
  tables, and what each write that succeeds has checked and done.
\<close>

section \<open>The contract of the tables\<close>

interpretation applications: versioned_store
  "\<lambda>d i. GetApplication i d" InsertApplication UpdateApplication app_id app_version
  by unfold_locales (auto simp: GetApplication_def InsertApplication_def UpdateApplication_def
      split: option.splits if_splits)

interpretation environments: versioned_store
  "\<lambda>d i. GetEnvironment i d" InsertEnvironment UpdateEnvironment env_id env_version
  by unfold_locales (auto simp: GetEnvironment_def InsertEnvironment_def UpdateEnvironment_def
      split: option.splits if_splits)

interpretation runtime_cells: versioned_store
  "\<lambda>d i. GetRuntimeCell i d" InsertRuntimeCell UpdateRuntimeCell cell_id cell_version
  by unfold_locales (auto simp: GetRuntimeCell_def InsertRuntimeCell_def UpdateRuntimeCell_def
      split: option.splits if_splits)

interpretation placements: versioned_store
  "\<lambda>d i. GetPlacement i d" InsertPlacement UpdatePlacement pl_id pl_version
  by unfold_locales (auto simp: GetPlacement_def InsertPlacement_def UpdatePlacement_def
      split: option.splits if_splits)

interpretation releases: versioned_store
  "\<lambda>d i. GetRelease i d" InsertRelease UpdateRelease rel_id rel_version
  by unfold_locales (auto simp: GetRelease_def InsertRelease_def UpdateRelease_def
      split: option.splits if_splits)

interpretation deployments: versioned_store
  "\<lambda>d i. GetDeployment i d" InsertDeployment UpdateDeployment dep_id dep_version
  by unfold_locales (auto simp: GetDeployment_def InsertDeployment_def UpdateDeployment_def
      split: option.splits if_splits)

section \<open>Successful writes\<close>

lemma InsertApplication_Inr:
  "InsertApplication v d = Inr d' \<Longrightarrow>
     map_of (rt_applications d) (app_id v) = None \<and>
     FindApplicationByTenantName (app_tenant v) (app_name v) d = None \<and>
     d' = d\<lparr>rt_applications := AList.update (app_id v) v (rt_applications d)\<rparr>"
  by (auto simp: InsertApplication_def GetApplication_def split: if_splits)

lemma InsertEnvironment_Inr:
  "InsertEnvironment v d = Inr d' \<Longrightarrow>
     map_of (rt_environments d) (env_id v) = None \<and>
     environment_conflict v (map snd (rt_environments d)) = None \<and>
     d' = d\<lparr>rt_environments := AList.update (env_id v) v (rt_environments d)\<rparr>"
  by (auto simp: InsertEnvironment_def GetEnvironment_def split: if_splits option.splits)

lemma UpdateEnvironment_Inr:
  "UpdateEnvironment v n d = Inr d' \<Longrightarrow>
     \<exists>old. map_of (rt_environments d) (env_id v) = Some old \<and> env_version old = n \<and>
       env_tenant v = env_tenant old \<and> env_application v = env_application old \<and>
       env_namespace v = env_namespace old \<and> env_created_at v = env_created_at old \<and>
       environment_update_conflict v (map snd (rt_environments d)) = None \<and>
       d' = d\<lparr>rt_environments := AList.update (env_id v) v (rt_environments d)\<rparr>"
  by (auto simp: UpdateEnvironment_def GetEnvironment_def split: if_splits option.splits)

lemma InsertRuntimeCell_Inr:
  "InsertRuntimeCell v d = Inr d' \<Longrightarrow>
     map_of (rt_cells d) (cell_id v) = None \<and>
     d' = d\<lparr>rt_cells := AList.update (cell_id v) v (rt_cells d)\<rparr>"
  by (auto simp: InsertRuntimeCell_def GetRuntimeCell_def split: if_splits)

lemma UpdateRuntimeCell_Inr:
  "UpdateRuntimeCell v n d = Inr d' \<Longrightarrow>
     \<exists>old. map_of (rt_cells d) (cell_id v) = Some old \<and> cell_version old = n \<and>
       d' = d\<lparr>rt_cells := AList.update (cell_id v) v (rt_cells d)\<rparr>"
  by (auto simp: UpdateRuntimeCell_def GetRuntimeCell_def split: if_splits option.splits)

lemma InsertPlacement_Inr:
  "InsertPlacement v d = Inr d' \<Longrightarrow>
     map_of (rt_placements d) (pl_id v) = None \<and>
     (pl_current v \<longrightarrow> GetCurrentPlacement (pl_environment v) d = None) \<and>
     d' = d\<lparr>rt_placements := AList.update (pl_id v) v (rt_placements d)\<rparr>"
  by (auto simp: InsertPlacement_def GetPlacement_def split: if_splits)

lemma UpdatePlacement_Inr:
  "UpdatePlacement v n d = Inr d' \<Longrightarrow>
     \<exists>old. map_of (rt_placements d) (pl_id v) = Some old \<and> pl_version old = n \<and>
       d' = d\<lparr>rt_placements := AList.update (pl_id v) v (rt_placements d)\<rparr>"
  by (auto simp: UpdatePlacement_def GetPlacement_def split: if_splits option.splits)

lemma InsertPlacementMigration_Inr:
  "InsertPlacementMigration v d = Inr d' \<Longrightarrow>
     rt_migrations d (pm_id v) = None \<and> d' = d\<lparr>rt_migrations := (rt_migrations d)(pm_id v \<mapsto> v)\<rparr>"
  by (auto simp: InsertPlacementMigration_def split: if_splits)

lemma InsertRelease_Inr:
  "InsertRelease v d = Inr d' \<Longrightarrow>
     map_of (rt_releases d) (rel_id v) = None \<and>
     (rel_rollback_of v = [] \<longrightarrow>
        FindReleaseByIdentity (rel_tenant v) (rel_environment v) (rel_identity v) d = None) \<and>
     d' = d\<lparr>rt_releases := AList.update (rel_id v) v (rt_releases d)\<rparr>"
  by (auto simp: InsertRelease_def GetRelease_def split: if_splits)

lemma UpdateRelease_Inr:
  "UpdateRelease v n d = Inr d' \<Longrightarrow>
     \<exists>old. map_of (rt_releases d) (rel_id v) = Some old \<and> rel_version old = n \<and>
       release_identity_kept old v \<and> \<not> (rel_state v = ReleaseActive \<and> active_elsewhere v d) \<and>
       d' = d\<lparr>rt_releases := AList.update (rel_id v) v (rt_releases d)\<rparr>"
  by (auto simp: UpdateRelease_def GetRelease_def split: if_splits option.splits)

lemma InsertDeployment_Inr:
  "InsertDeployment v d = Inr d' \<Longrightarrow>
     map_of (rt_deployments d) (dep_id v) = None \<and> FindDeploymentByRelease (dep_release v) d = None \<and>
     d' = d\<lparr>rt_deployments := AList.update (dep_id v) v (rt_deployments d)\<rparr>"
  by (auto simp: InsertDeployment_def GetDeployment_def split: if_splits)

lemma UpdateDeployment_Inr:
  "UpdateDeployment v n d = Inr d' \<Longrightarrow>
     \<exists>old. map_of (rt_deployments d) (dep_id v) = Some old \<and> dep_version old = n \<and>
       deployment_identity_kept old v \<and>
       d' = d\<lparr>rt_deployments := AList.update (dep_id v) v (rt_deployments d)\<rparr>"
  by (auto simp: UpdateDeployment_def GetDeployment_def split: if_splits option.splits)

lemma InsertGitOpsCommit_Inr:
  "InsertGitOpsCommit v d = Inr d' \<Longrightarrow>
     (rt_commits d (gc_release v) = Some v \<and> d' = d) \<or>
     (rt_commits d (gc_release v) = None \<and> d' = d\<lparr>rt_commits := (rt_commits d)(gc_release v \<mapsto> v)\<rparr>)"
  by (auto simp: InsertGitOpsCommit_def split: if_splits option.splits)

lemma InsertQuarantine_Inr:
  "InsertQuarantine v d = Inr d' \<Longrightarrow>
     rt_quarantine d (qn_id v) = None \<and> d' = d\<lparr>rt_quarantine := (rt_quarantine d)(qn_id v \<mapsto> v)\<rparr>"
  by (auto simp: InsertQuarantine_def split: if_splits)

lemma Runtime_InsertIdempotency_Inr:
  "Runtime_InsertIdempotency v d = Inr d' \<Longrightarrow>
     d' = d \<or>
     (rt_idempotency d (runtime_idemKey (ri_tenant v) (ri_scope v) (ri_key v)) = None \<and>
      d' = d\<lparr>rt_idempotency :=
             (rt_idempotency d)(runtime_idemKey (ri_tenant v) (ri_scope v) (ri_key v) \<mapsto> v)\<rparr>)"
  by (auto simp: Runtime_InsertIdempotency_def Let_def split: if_splits option.splits)

lemma Runtime_AppendOutbox_Inr:
  "Runtime_AppendOutbox v d = Inr d' \<Longrightarrow> d' = d\<lparr>rt_outbox := rt_outbox d @ [v]\<rparr>"
  by (auto simp: Runtime_AppendOutbox_def split: if_splits)

lemma Runtime_AppendAudit_Inr:
  "Runtime_AppendAudit v d = Inr d' \<Longrightarrow> d' = d\<lparr>rt_audit := rt_audit d @ [v]\<rparr>"
  by (auto simp: Runtime_AppendAudit_def split: if_splits)

lemmas runtime_write_Inr =
  InsertApplication_Inr InsertEnvironment_Inr UpdateEnvironment_Inr InsertRuntimeCell_Inr
  UpdateRuntimeCell_Inr InsertPlacement_Inr UpdatePlacement_Inr InsertPlacementMigration_Inr
  InsertRelease_Inr UpdateRelease_Inr InsertDeployment_Inr UpdateDeployment_Inr
  InsertGitOpsCommit_Inr InsertQuarantine_Inr Runtime_InsertIdempotency_Inr
  Runtime_AppendOutbox_Inr Runtime_AppendAudit_Inr

end
