(* ===== verification/Runtime_Environment.thy ===== *)
theory Runtime_Environment
  imports Runtime_Store Go_Transactions
begin

text \<open>
  What the runtime service runs on: the ports of \<open>internal/runtime/application/ports.go\<close>, the fields
  of \<open>Service\<close>, and \<open>Transact\<close> of \<open>internal/runtime/memory/store.go\<close>.
\<close>

section \<open>Ports\<close>

record render_input =
  in_application :: application
  in_environment :: environment
  in_release :: release
  in_placement :: placement
  in_cell :: runtime_cell

text \<open>The files of a bundle are represented by the objects they encode, see \<open>Runtime_Rendering\<close>.\<close>

record namespace_manifest =
  nm_api_version :: string
  nm_kind :: string
  nm_meta :: object_meta

record rendered_bundle =
  bu_cell :: string
  bu_release :: string
  bu_path :: string
  bu_manifest_hash :: string
  bu_namespace :: namespace_manifest
  bu_app :: paas_app

record commit_request =
  cr_bundle :: rendered_bundle
  cr_deployment :: string
  cr_actor :: string

record commit_result =
  co_sha :: string
  co_path :: string
  co_manifest_hash :: string

record gitops_repository =
  go_commit :: "commit_request \<Rightarrow> rerror + commit_result"
  go_find :: "string \<Rightarrow> string \<Rightarrow> rerror + commit_result option"

record runtime_object_ref =
  ob_cell :: string
  ob_namespace :: string
  ob_name :: string

section \<open>The service\<close>

text \<open>
  The fields of the service, \<open>None\<close> where a dependency is \<open>nil\<close>, and of the call. A method asks a
  port at most once, so that a function describes what the port answers in this call; another call
  has another environment. \<open>rv_after_push\<close> is the error of the hook \<open>AfterGitPush\<close>, if it is set and
  fails. A transaction is named by the method it stands in: \<open>rv_ctx\<close> is the error of the context
  when the transaction begins, and \<open>rv_others\<close> is what other calls have done to the store between
  the previous transaction of this call and this one.
\<close>

record renv =
  rv_hashing :: hashing
  rv_store :: bool
  rv_clock :: "(nat \<Rightarrow> gotime) option"
  rv_ids :: "(nat \<Rightarrow> string \<Rightarrow> string) option"
  rv_scheduler :: bool
  rv_artifacts :: "(artifact_ref \<Rightarrow> rerror + releasability_decision) option"
  rv_units :: "(string \<Rightarrow> int option) option"
  rv_renderer :: "(render_input \<Rightarrow> rerror + rendered_bundle) option"
  rv_gitops :: "gitops_repository option"
  rv_observer :: "(runtime_object_ref \<Rightarrow> rerror + paas_app option) option"
  rv_after_push :: "rerror option"
  rv_ctx :: "string \<Rightarrow> rerror option"
  rv_others :: "string \<Rightarrow> runtime_data \<Rightarrow> runtime_data"

abbreviation rv_unicode :: "renv \<Rightarrow> unicode" where
  "rv_unicode env \<equiv> hs_unicode (rv_hashing env)"

type_synonym rworld = "runtime_data world"

type_synonym 'a ract = "(runtime_data, rerror, 'a) tx"

definition validateBase :: "renv \<Rightarrow> unit ract" where
  "validateBase env =
     (if \<not> rv_store env \<or> rv_clock env = None \<or> rv_ids env = None
      then throw (RErr RUnavailable ''runtime service dependencies are incomplete'') else ret ())"

definition runtime_now :: "renv \<Rightarrow> gotime ract" where
  "runtime_now env =
     (case rv_clock env of
        None \<Rightarrow> throw RPanic
      | Some clock \<Rightarrow> (\<lambda>w. (Inr (clock (clk_seq w)), w\<lparr>clk_seq := clk_seq w + 1\<rparr>)))"

definition runtime_newID :: "renv \<Rightarrow> string \<Rightarrow> string ract" where
  "runtime_newID env pre =
     (case rv_ids env of
        None \<Rightarrow> throw RPanic
      | Some ids \<Rightarrow> (\<lambda>w. (Inr (ids (id_seq w) pre), w\<lparr>id_seq := id_seq w + 1\<rparr>)))"

text \<open>
  \<open>Transact\<close> looks at the context, runs the function on a copy of the state and keeps the copy
  when the function returns no error.
\<close>

definition Runtime_Transact :: "renv \<Rightarrow> string \<Rightarrow> 'a ract \<Rightarrow> 'a ract" where
  "Runtime_Transact env site fn = (\<lambda>w.
     let w0 = w\<lparr>db := rv_others env site (db w)\<rparr> in
     if \<not> rv_store env then (Inl RPanic, w0)
     else case rv_ctx env site of
       Some e \<Rightarrow> (Inl e, w0)
     | None \<Rightarrow> (case fn w0 of (Inl e, w') \<Rightarrow> (Inl e, w'\<lparr>db := db w0\<rparr>) | (Inr a, w') \<Rightarrow> (Inr a, w')))"

end
