(* ===== verification/Runtime_Service.thy ===== *)
theory Runtime_Service
  imports Runtime_Environment "HOL-Library.Product_Lexorder"
begin

text \<open>
  The operations of \<open>internal/runtime/application/service.go\<close> and the scheduler of
  \<open>scheduler.go\<close>. Where the code returns a value next to an error the model returns the error.
\<close>

section \<open>Hashes, units and the scheduler\<close>

definition releaseRequestHash :: "hashing \<Rightarrow> deploy_request \<Rightarrow> string" where
  "releaseRequestHash h req =
     hs_json h (JReleaseRequest (dr_application req) (dr_environment req) (dr_artifact req)
       (json_config (dr_configuration req)))"

fun replicas_loop :: "processes \<Rightarrow> int \<Rightarrow> int option" where
  "replicas_loop [] replicas = Some replicas"
| "replicas_loop ((_, p) # ps) replicas =
     (if MinReplicas p < 0 \<or> sub64 MaxInt64 (MinReplicas p) < replicas then None
      else replicas_loop ps (add64 replicas (MinReplicas p)))"

definition requestedUnits :: "(string \<Rightarrow> int option) option \<Rightarrow> release_config \<Rightarrow> rerror + int" where
  "requestedUnits catalog config =
     (case catalog of
        None \<Rightarrow> Inl (RErr RUnavailable ''runtime unit catalog is not configured'')
      | Some units \<Rightarrow>
          (case units (rc_unit config) of
             None \<Rightarrow> Inl (RErr RInvalidArgument ''unknown runtime unit'')
           | Some weight \<Rightarrow>
               if weight \<le> 0 then Inl (RErr RInvalidArgument ''unknown runtime unit'')
               else case replicas_loop (rc_processes config) 0 of
                 None \<Rightarrow> Inl (RErr RInvalidArgument ''runtime capacity request overflows'')
               | Some replicas \<Rightarrow>
                   if replicas \<le> 0 \<or> quo MaxInt64 replicas < weight
                     then Inl (RErr RInvalidArgument ''runtime capacity request is invalid'')
                   else Inr (wrap64 (weight * replicas))))"

definition cell_free :: "runtime_cell \<Rightarrow> int" where
  "cell_free c = sub64 (cell_capacity c) (cell_allocated c)"

definition Select ::
  "unicode \<Rightarrow> runtime_cell list \<Rightarrow> string \<Rightarrow> isolation_class \<Rightarrow> int \<Rightarrow> rerror + runtime_cell" where
  "Select u cells region isolation units =
     (case List.find (\<lambda>c. CanPlace u c region isolation units)
             (sort_key (\<lambda>c. (- cell_free c, cell_id c)) cells) of
        Some cell \<Rightarrow> Inr cell
      | None \<Rightarrow> Inl (RErr RCapacity ''no compatible runtime cell has sufficient capacity''))"

section \<open>Applications, environments and cells\<close>

definition trimApplication :: "create_application_request \<Rightarrow> create_application_request" where
  "trimApplication r =
     \<lparr>ca_tenant = TrimSpace (ca_tenant r), ca_project = TrimSpace (ca_project r),
      ca_name = TrimSpace (ca_name r), ca_actor = TrimSpace (ca_actor r), ca_key = TrimSpace (ca_key r)\<rparr>"

text \<open>The answer to a key that was used before.\<close>

definition replayApplication :: "runtime_idempotency \<Rightarrow> string \<Rightarrow> (application \<times> environment) ract" where
  "replayApplication r hash =
     (if ri_request_hash r \<noteq> hash
        then throw (RErr RConflict ''idempotency key reused with different request'')
      else bindE (tx_get (GetApplication (ri_resource_id r))) (\<lambda>found.
        case found of
          None \<Rightarrow> throw (RErr RInternal ''idempotency record points to missing application'')
        | Some app \<Rightarrow>
            bindE (tx_get (FindEnvironmentByApplicationName (app_id app) ''production'')) (\<lambda>found.
            case found of
              None \<Rightarrow> throw (RErr RInternal ''default environment is missing'')
            | Some e \<Rightarrow> ret (app, e))))"

definition CreateApplication_tx ::
  "renv \<Rightarrow> create_application_request \<Rightarrow> gotime \<Rightarrow> string \<Rightarrow> (application \<times> environment) ract" where
  "CreateApplication_tx env req now hash =
     bindE (tx_get (Runtime_GetIdempotency (ca_tenant req) ''runtime.application.create'' (ca_key req)))
     (\<lambda>record. case record of
        Some r \<Rightarrow> replayApplication r hash
      | None \<Rightarrow>
          bindE (tx_get (FindApplicationByTenantName (ca_tenant req) (ToLower (rv_unicode env) (ca_name req))))
          (\<lambda>found. if found \<noteq> None then throw (RErr RConflict ''application name already exists'')
          else
            bindE (runtime_newID env ''app'') (\<lambda>appID.
            bindE (of_result (NewApplication (rv_hashing env) appID (ca_tenant req) (ca_project req) (ca_name req) now)) (\<lambda>app.
            bindE (runtime_newID env ''env'') (\<lambda>envID.
            bindE (of_result (NewEnvironment (rv_hashing env) envID (ca_tenant req) (app_id app) ''production'' True now)) (\<lambda>e.
            seqE (tx_write (InsertApplication app))
            (seqE (tx_write (InsertEnvironment e))
            (seqE (tx_write (Runtime_InsertIdempotency
              \<lparr>ri_tenant = ca_tenant req, ri_scope = ''runtime.application.create'', ri_key = ca_key req,
               ri_request_hash = hash, ri_resource_id = app_id app, ri_created_at = now\<rparr>))
            (bindE (runtime_newID env ''evt'') (\<lambda>evt.
            seqE (tx_write (Runtime_AppendOutbox
              \<lparr>ro_id = evt, ro_tenant = ca_tenant req, ro_topic = ''runtime.application.created.v1'',
               ro_aggregate = app_id app,
               ro_payload = JFields [(''application_id'', app_id app), (''environment_id'', env_id e)],
               ro_created_at = now\<rparr>))
            (bindE (runtime_newID env ''aud'') (\<lambda>aud.
            seqE (tx_write (Runtime_AppendAudit
              \<lparr>ra_id = aud, ra_tenant = ca_tenant req, ra_actor = ca_actor req,
               ra_action = ''runtime.application.create'', ra_resource_type = ''application'',
               ra_resource_id = app_id app,
               ra_data = JFields [(''name'', ca_name req), (''project_id'', ca_project req)],
               ra_created_at = now\<rparr>))
            (ret (app, e))))))))))))))"

definition CreateApplication :: "renv \<Rightarrow> create_application_request \<Rightarrow> (application \<times> environment) ract" where
  "CreateApplication env req0 =
     seqE (validateBase env)
     (let req = trimApplication req0 in
      if ca_tenant req = [] \<or> ca_project req = [] \<or> ca_name req = [] \<or> ca_actor req = [] \<or> ca_key req = []
        then throw (RErr RInvalidArgument ''application request is incomplete'')
      else bindE (runtime_now env) (\<lambda>now.
        Runtime_Transact env ''CreateApplication''
          (CreateApplication_tx env req now (hs_json (rv_hashing env) (JCreateApplication req)))))"

definition CreateEnvironment_tx ::
  "renv \<Rightarrow> create_environment_request \<Rightarrow> gotime \<Rightarrow> string \<Rightarrow> environment ract" where
  "CreateEnvironment_tx env req now hash =
     bindE (tx_get (Runtime_GetIdempotency (ce_tenant req) ''runtime.environment.create'' (ce_key req)))
     (\<lambda>record. case record of
        Some r \<Rightarrow>
          if ri_request_hash r \<noteq> hash
            then throw (RErr RConflict ''idempotency key reused with different request'')
          else bindE (tx_get (GetEnvironment (ri_resource_id r))) (\<lambda>found.
            case found of
              None \<Rightarrow> throw (RErr RInternal ''idempotency record points to missing environment'')
            | Some e \<Rightarrow> ret e)
      | None \<Rightarrow>
          bindE (tx_get (GetApplication (ce_application req))) (\<lambda>app.
          if (case app of None \<Rightarrow> True | Some a \<Rightarrow> app_tenant a \<noteq> ce_tenant req)
            then throw (RErr RNotFound ''application not found'')
          else bindE (tx_get (FindEnvironmentByApplicationName (ce_application req)
                 (ToLower (rv_unicode env) (TrimSpace (ce_name req))))) (\<lambda>found.
          if found \<noteq> None then throw (RErr RConflict ''environment name already exists'')
          else bindE (tx_get (ListEnvironmentsByApplication (ce_application req))) (\<lambda>existing.
          if ce_default req \<and> list_ex env_default existing
            then throw (RErr RConflict ''default environment already exists'')
          else
            bindE (runtime_newID env ''env'') (\<lambda>envID.
            bindE (of_result (NewEnvironment (rv_hashing env) envID (ce_tenant req) (ce_application req)
                     (ce_name req) (ce_default req) now)) (\<lambda>e.
            seqE (tx_write (InsertEnvironment e))
            (seqE (tx_write (Runtime_InsertIdempotency
              \<lparr>ri_tenant = ce_tenant req, ri_scope = ''runtime.environment.create'', ri_key = ce_key req,
               ri_request_hash = hash, ri_resource_id = env_id e, ri_created_at = now\<rparr>))
            (ret e))))))))"

definition CreateEnvironment :: "renv \<Rightarrow> create_environment_request \<Rightarrow> environment ract" where
  "CreateEnvironment env req =
     seqE (validateBase env)
     (if blank (ce_tenant req) \<or> blank (ce_application req) \<or> blank (ce_name req) \<or>
         blank (ce_actor req) \<or> blank (ce_key req)
        then throw (RErr RInvalidArgument ''environment request is incomplete'')
      else bindE (runtime_now env) (\<lambda>now.
        Runtime_Transact env ''CreateEnvironment''
          (CreateEnvironment_tx env req now (hs_json (rv_hashing env) (JCreateEnvironment req)))))"

definition RegisterCell :: "renv \<Rightarrow> register_cell_request \<Rightarrow> runtime_cell ract" where
  "RegisterCell env req =
     seqE (validateBase env)
     (bindE (runtime_now env) (\<lambda>now.
      bindE (of_result (NewRuntimeCell (rv_unicode env) (rg_id req) (rg_region req) (rg_isolation req)
               (rg_capacity req) (rg_repository req) (rg_server req) (rg_project req) (rg_ingress req) now)) (\<lambda>cell.
      Runtime_Transact env ''RegisterCell''
        (bindE (tx_get (GetRuntimeCell (cell_id cell))) (\<lambda>found.
         case found of
           Some existing \<Rightarrow>
             if SameConfiguration existing cell then ret existing
             else throw (RErr RConflict ''runtime cell id already exists with different configuration'')
         | None \<Rightarrow> seqE (tx_write (InsertRuntimeCell cell)) (ret cell))))))"

section \<open>Placements\<close>

definition resizePlacement :: "placement \<Rightarrow> int \<Rightarrow> gotime \<Rightarrow> placement ract" where
  "resizePlacement p units now =
     (if pl_units p = units then ret p
      else bindE (tx_get (GetRuntimeCell (pl_cell p))) (\<lambda>found.
        case found of
          None \<Rightarrow> throw (RErr RInternal ''placement points to missing runtime cell'')
        | Some cell \<Rightarrow>
            (let delta = sub64 units (pl_units p) in
             bindE (of_result (if 0 < delta then Cell_Allocate delta now cell
                               else Cell_Release (wrap64 (- delta)) now cell)) (\<lambda>cell'.
             bindE (of_result (Resize units now p)) (\<lambda>p'.
             seqE (tx_write (UpdateRuntimeCell cell' (cell_version cell)))
             (seqE (tx_write (UpdatePlacement p' (pl_version p)))
             (ret p')))))))"

text \<open>The cell of the environment: that of its placement, or the one the scheduler selects.\<close>

definition resolvePlacement ::
  "renv \<Rightarrow> deploy_request \<Rightarrow> int \<Rightarrow> environment \<Rightarrow> (runtime_cell \<times> placement option) ract" where
  "resolvePlacement env req units e =
     bindE (tx_get (GetCurrentPlacement (env_id e))) (\<lambda>found.
     case found of
       Some current \<Rightarrow>
         bindE (tx_get (GetRuntimeCell (pl_cell current))) (\<lambda>found.
         case found of
           None \<Rightarrow> throw (RErr RInternal ''placement points to missing runtime cell'')
         | Some cell \<Rightarrow>
             if pl_region current \<noteq> rc_region (dr_configuration req) \<or>
                pl_isolation current \<noteq> rc_isolation (dr_configuration req)
               then throw (RErr RConflict ''region or isolation change requires explicit placement migration'')
             else ret (cell, Some current))
     | None \<Rightarrow>
         if \<not> rv_scheduler env then throw RPanic
         else bindE (tx_get ListRuntimeCells) (\<lambda>cells.
           bindE (of_result (Select (rv_unicode env) cells (rc_region (dr_configuration req))
                   (rc_isolation (dr_configuration req)) units)) (\<lambda>cell.
           ret (cell, None))))"

definition placeEnvironment ::
  "renv \<Rightarrow> deploy_request \<Rightarrow> environment \<Rightarrow> runtime_cell \<Rightarrow> int \<Rightarrow> gotime \<Rightarrow> placement ract" where
  "placeEnvironment env req e cell units now =
     bindE (runtime_newID env ''plc'') (\<lambda>plc.
     bindE (of_result (NewPlacement (rv_unicode env) plc (dr_tenant req) (env_id e) cell
              (rc_isolation (dr_configuration req)) units now)) (\<lambda>p.
     bindE (of_result (Cell_Allocate units now cell)) (\<lambda>cell'.
     seqE (tx_write (UpdateRuntimeCell cell' (cell_version cell)))
     (seqE (tx_write (InsertPlacement p))
     (bindE (of_result (SetPlacement (pl_id p) now e)) (\<lambda>e'.
      seqE (tx_write (UpdateEnvironment e' (env_version e)))
      (ret p)))))))"

section \<open>Releases\<close>

text \<open>
  A retry of a release that was created: the transaction at the start of \<open>CreateRelease\<close>.
\<close>

definition replay_tx :: "renv \<Rightarrow> deploy_request \<Rightarrow> (release \<times> placement) option ract" where
  "replay_tx env req =
     bindE (tx_get (Runtime_GetIdempotency (dr_tenant req) ''runtime.release.create'' (dr_key req))) (\<lambda>record.
     case record of
       None \<Rightarrow> ret None
     | Some r \<Rightarrow>
         bindE (tx_get (GetApplication (dr_application req))) (\<lambda>found.
         case found of None \<Rightarrow> throw (RErr RNotFound ''application not found'') | Some app \<Rightarrow>
         if app_tenant app \<noteq> dr_tenant req then throw (RErr RNotFound ''application not found'') else
         bindE (tx_get (GetEnvironment (dr_environment req))) (\<lambda>found.
         case found of None \<Rightarrow> throw (RErr RNotFound ''environment not found'') | Some e \<Rightarrow>
         if env_application e \<noteq> app_id app \<or> env_tenant e \<noteq> dr_tenant req
           then throw (RErr RNotFound ''environment not found'') else
         bindE (tx_get (GetCurrentPlacement (env_id e))) (\<lambda>found.
         case found of None \<Rightarrow> throw (RErr RInternal ''release exists without placement'') | Some p \<Rightarrow>
         bindE (tx_get (GetRuntimeCell (pl_cell p))) (\<lambda>found.
         case found of None \<Rightarrow> throw (RErr RInternal ''placement points to missing runtime cell'') | Some cell \<Rightarrow>
         bindE (of_result (GeneratedHostname (rv_hashing env) (app_id app) (env_name e) (cell_ingress cell))) (\<lambda>hostname.
         if ri_request_hash r \<noteq>
            releaseRequestHash (rv_hashing env)
              (req\<lparr>dr_configuration := (dr_configuration req)\<lparr>rc_hostname := hostname\<rparr>\<rparr>)
           then throw (RErr RConflict ''idempotency key reused with different release request'')
         else bindE (tx_get (GetRelease (ri_resource_id r))) (\<lambda>found.
         case found of None \<Rightarrow> throw (RErr RInternal ''release idempotency record points to invalid release'')
         | Some rel \<Rightarrow>
         if rel_application rel \<noteq> app_id app \<or> rel_environment rel \<noteq> env_id e
           then throw (RErr RInternal ''release idempotency record points to invalid release'')
         else ret (Some (rel, p)))))))))"

definition replayCreateRelease :: "renv \<Rightarrow> deploy_request \<Rightarrow> (release \<times> placement) option ract" where
  "replayCreateRelease env req = Runtime_Transact env ''replayCreateRelease'' (replay_tx env req)"

text \<open>The record of the idempotency key of a release.\<close>

definition release_key_record :: "deploy_request \<Rightarrow> string \<Rightarrow> release \<Rightarrow> gotime \<Rightarrow> runtime_idempotency" where
  "release_key_record req hash rel now =
     \<lparr>ri_tenant = dr_tenant req, ri_scope = ''runtime.release.create'', ri_key = dr_key req,
      ri_request_hash = hash, ri_resource_id = rel_id rel, ri_created_at = now\<rparr>"

text \<open>The placement that goes with a release that exists already.\<close>

definition placement_of_existing :: "environment \<Rightarrow> placement ract" where
  "placement_of_existing e =
     bindE (tx_get (GetCurrentPlacement (env_id e))) (\<lambda>found.
     case found of
       None \<Rightarrow> throw (RErr RInternal ''release exists without placement'')
     | Some p \<Rightarrow> ret p)"

text \<open>A release that no earlier one answers for: its capacity, the release and its records.\<close>

definition newRelease_tx ::
  "renv \<Rightarrow> deploy_request \<Rightarrow> application \<Rightarrow> environment \<Rightarrow> runtime_cell \<Rightarrow> placement option \<Rightarrow> int \<Rightarrow>
   releasability_decision \<Rightarrow> gotime \<Rightarrow> (release \<times> placement) ract" where
  "newRelease_tx env req app e cell current units decision now =
     bindE (case current of
              Some p \<Rightarrow> resizePlacement p units now
            | None \<Rightarrow> placeEnvironment env req e cell units now) (\<lambda>p.
     bindE (runtime_newID env ''rel'') (\<lambda>relID.
     bindE (of_result (NewRelease (rv_hashing env) relID (dr_tenant req) (app_id app) (env_id e)
              (dr_artifact req) (dr_configuration req) (rd_policy_version decision) now)) (\<lambda>created.
     bindE (of_result (Release_Transition ReleaseValidated now created)) (\<lambda>rel.
     seqE (tx_write (InsertRelease rel))
     (seqE (tx_write (Runtime_InsertIdempotency
       (release_key_record req (releaseRequestHash (rv_hashing env) req) rel now)))
     (bindE (runtime_newID env ''aud'') (\<lambda>aud.
      seqE (tx_write (Runtime_AppendAudit
        \<lparr>ra_id = aud, ra_tenant = dr_tenant req, ra_actor = dr_actor req,
         ra_action = ''runtime.release.create'', ra_resource_type = ''release'',
         ra_resource_id = rel_id rel,
         ra_data = JFields [(''artifact_id'', ArtifactID (dr_artifact req)),
                            (''digest'', Digest (dr_artifact req))],
         ra_created_at = now\<rparr>))
      (ret (rel, p)))))))))"

definition CreateRelease_tx ::
  "renv \<Rightarrow> deploy_request \<Rightarrow> int \<Rightarrow> releasability_decision \<Rightarrow> gotime \<Rightarrow> (release \<times> placement) ract" where
  "CreateRelease_tx env req0 units decision now =
     bindE (tx_get (GetApplication (dr_application req0))) (\<lambda>found.
     case found of None \<Rightarrow> throw (RErr RNotFound ''application not found'') | Some app \<Rightarrow>
     if app_tenant app \<noteq> dr_tenant req0 then throw (RErr RNotFound ''application not found'') else
     bindE (tx_get (GetEnvironment (dr_environment req0))) (\<lambda>found.
     case found of None \<Rightarrow> throw (RErr RNotFound ''environment not found'') | Some e \<Rightarrow>
     if env_application e \<noteq> app_id app \<or> env_tenant e \<noteq> dr_tenant req0
       then throw (RErr RNotFound ''environment not found'') else
     bindE (resolvePlacement env req0 units e) (\<lambda>(cell, current).
     bindE (of_result (GeneratedHostname (rv_hashing env) (app_id app) (env_name e) (cell_ingress cell))) (\<lambda>hostname.
     let req = req0\<lparr>dr_configuration := (dr_configuration req0)\<lparr>rc_hostname := hostname\<rparr>\<rparr>;
         commandHash = releaseRequestHash (rv_hashing env) req in
     bindE (tx_get (Runtime_GetIdempotency (dr_tenant req) ''runtime.release.create'' (dr_key req))) (\<lambda>record.
     case record of
       Some r \<Rightarrow>
         if ri_request_hash r \<noteq> commandHash
           then throw (RErr RConflict ''idempotency key reused with different release request'')
         else bindE (tx_get (GetRelease (ri_resource_id r))) (\<lambda>found.
         case found of
           None \<Rightarrow> throw (RErr RInternal ''release idempotency record points to missing release'')
         | Some rel \<Rightarrow> bindE (placement_of_existing e) (\<lambda>p. ret (rel, p)))
     | None \<Rightarrow>
         bindE (of_result (ReleaseIdentity (rv_hashing env) (env_id e) (dr_artifact req) (dr_configuration req))) (\<lambda>identity.
         bindE (tx_get (FindReleaseByIdentity (dr_tenant req) (env_id e) identity)) (\<lambda>existing.
         case existing of
           Some rel \<Rightarrow>
             bindE (placement_of_existing e) (\<lambda>p.
             seqE (tx_write (Runtime_InsertIdempotency (release_key_record req commandHash rel now)))
             (ret (rel, p)))
         | None \<Rightarrow> newRelease_tx env req app e cell current units decision now)))))))"

definition CreateRelease :: "renv \<Rightarrow> deploy_request \<Rightarrow> (release \<times> placement) ract" where
  "CreateRelease env req0 =
     seqE (validateBase env)
     (case rv_artifacts env of
        None \<Rightarrow> throw (RErr RUnavailable ''artifact policy or unit catalog is not configured'')
      | Some isReleasable \<Rightarrow>
      if rv_units env = None
        then throw (RErr RUnavailable ''artifact policy or unit catalog is not configured'')
      else case Deploy_Validate req0 of
        Inl err \<Rightarrow> throw (RErr RInvalidArgument (runtime_error_text err))
      | Inr _ \<Rightarrow>
      bindE (of_result (NormalizeReleaseConfig (rv_unicode env) ((dr_configuration req0)\<lparr>rc_hostname := []\<rparr>)))
      (\<lambda>normalized.
      let req = req0\<lparr>dr_configuration := normalized\<rparr> in
      bindE (replayCreateRelease env req) (\<lambda>replay.
      case replay of Some answer \<Rightarrow> ret answer | None \<Rightarrow>
      bindE (of_result (requestedUnits (rv_units env) (dr_configuration req))) (\<lambda>units.
      bindE (of_result (isReleasable (dr_artifact req))) (\<lambda>decision.
      if \<not> rd_allowed decision
        then throw (RErr RPolicyRejected (''artifact is not releasable: '' @ Join (rd_reasons decision) ''; ''))
      else bindE (runtime_now env) (\<lambda>now.
        Runtime_Transact env ''CreateRelease'' (CreateRelease_tx env req units decision now)))))))"

section \<open>Deployments\<close>

text \<open>
  The transaction of \<open>Deploy\<close> and \<open>deployExistingRelease\<close>, which differ in a message and in when
  they read the clock: the deployment of the release, made now unless there is one.
\<close>

definition deploy_tx ::
  "renv \<Rightarrow> string \<Rightarrow> gotime ract \<Rightarrow> release \<Rightarrow> placement \<Rightarrow>
   (application \<times> environment \<times> runtime_cell \<times> deployment) ract" where
  "deploy_tx env missing_cell clock rel p =
     bindE (tx_get (GetApplication (rel_application rel))) (\<lambda>found.
     case found of None \<Rightarrow> throw (RErr RInternal ''application missing'') | Some app \<Rightarrow>
     bindE (tx_get (GetEnvironment (rel_environment rel))) (\<lambda>found.
     case found of None \<Rightarrow> throw (RErr RInternal ''environment missing'') | Some e \<Rightarrow>
     bindE (tx_get (GetRuntimeCell (pl_cell p))) (\<lambda>found.
     case found of None \<Rightarrow> throw (RErr RInternal missing_cell) | Some cell \<Rightarrow>
     bindE (tx_get (FindDeploymentByRelease (rel_id rel))) (\<lambda>existing.
     case existing of
       Some d \<Rightarrow> ret (app, e, cell, d)
     | None \<Rightarrow>
         bindE (runtime_newID env ''dep'') (\<lambda>depID.
         bindE clock (\<lambda>now.
         bindE (of_result (NewDeployment depID rel p (env_active_release e) now)) (\<lambda>d.
         seqE (tx_write (InsertDeployment d)) (ret (app, e, cell, d)))))))))"

definition recordGitCommit_tx ::
  "renv \<Rightarrow> string \<Rightarrow> string \<Rightarrow> commit_result \<Rightarrow> string \<Rightarrow> gotime \<Rightarrow> unit ract" where
  "recordGitCommit_tx env releaseID deploymentID commit actorID now =
     bindE (tx_get (GetGitOpsCommitByRelease releaseID)) (\<lambda>existing.
     case existing of
       Some old \<Rightarrow>
         if gc_sha old \<noteq> co_sha commit \<or> gc_manifest_hash old \<noteq> co_manifest_hash commit
           then throw (RErr RConflict ''release already points to a different GitOps commit'')
         else ret ()
     | None \<Rightarrow>
         bindE (tx_get (GetRelease releaseID)) (\<lambda>found.
         case found of None \<Rightarrow> throw (RErr RNotFound ''release not found'') | Some rel \<Rightarrow>
         bindE (tx_get (GetDeployment deploymentID)) (\<lambda>found.
         case found of None \<Rightarrow> throw (RErr RNotFound ''deployment not found'') | Some d \<Rightarrow>
         bindE (tx_get (GetPlacement (dep_placement d))) (\<lambda>found.
         case found of None \<Rightarrow> throw (RErr RInternal ''placement not found'') | Some p \<Rightarrow>
         if dep_release d \<noteq> rel_id rel
           then throw (RErr RConflict ''deployment release mismatch'')
         else
           bindE (of_result (RecordGitCommit (co_sha commit) now d)) (\<lambda>d'.
           bindE (of_result (Release_Transition ReleaseCommittedToGitOps now rel)) (\<lambda>rel'.
           bindE (runtime_newID env ''git'') (\<lambda>git.
           seqE (tx_write (InsertGitOpsCommit
             \<lparr>gc_id = git, gc_tenant = rel_tenant rel', gc_cell = pl_cell p, gc_release = rel_id rel',
              gc_deployment = dep_id d', gc_path = co_path commit,
              gc_manifest_hash = co_manifest_hash commit, gc_sha = co_sha commit, gc_created_at = now\<rparr>))
           (seqE (tx_write (UpdateDeployment d' (dep_version d)))
           (seqE (tx_write (UpdateRelease rel' (rel_version rel)))
           (bindE (runtime_newID env ''evt'') (\<lambda>evt.
            seqE (tx_write (Runtime_AppendOutbox
              \<lparr>ro_id = evt, ro_tenant = rel_tenant rel', ro_topic = ''runtime.release.gitops_committed.v1'',
               ro_aggregate = rel_id rel',
               ro_payload = JFields [(''commit_sha'', co_sha commit), (''deployment_id'', dep_id d')],
               ro_created_at = now\<rparr>))
            (bindE (runtime_newID env ''aud'') (\<lambda>aud.
             tx_write (Runtime_AppendAudit
               \<lparr>ra_id = aud, ra_tenant = rel_tenant rel', ra_actor = actorID,
                ra_action = ''runtime.release.commit_gitops'', ra_resource_type = ''release'',
                ra_resource_id = rel_id rel', ra_data = JFields [(''commit_sha'', co_sha commit)],
                ra_created_at = now\<rparr>))))))))))))))"

definition recordGitCommit :: "renv \<Rightarrow> string \<Rightarrow> string \<Rightarrow> commit_result \<Rightarrow> string \<Rightarrow> unit ract" where
  "recordGitCommit env releaseID deploymentID commit actorID =
     bindE (runtime_now env) (\<lambda>now.
       Runtime_Transact env ''recordGitCommit''
         (recordGitCommit_tx env releaseID deploymentID commit actorID now))"

text \<open>
  What follows that transaction in both methods: a pending deployment is rendered, committed and
  recorded. Only \<open>Deploy\<close> calls the hook \<open>AfterGitPush\<close>.
\<close>

definition publishDeployment ::
  "renv \<Rightarrow> bool \<Rightarrow> string \<Rightarrow> release \<Rightarrow> placement \<Rightarrow> application \<times> environment \<times> runtime_cell \<times> deployment \<Rightarrow>
   deployment_ref ract" where
  "publishDeployment env hook actor rel p = (\<lambda>(app, e, cell, d).
     if dep_phase d \<noteq> DeploymentPending
       then ret \<lparr>rf_deployment = dep_id d, rf_release = rel_id rel, rf_phase = dep_phase d\<rparr>
     else case (rv_renderer env, rv_gitops env) of
       (Some render, Some repository) \<Rightarrow>
         bindE (of_result (render
           \<lparr>in_application = app, in_environment = e, in_release = rel, in_placement = p, in_cell = cell\<rparr>)) (\<lambda>bundle.
         bindE (of_result (go_commit repository
           \<lparr>cr_bundle = bundle, cr_deployment = dep_id d, cr_actor = actor\<rparr>)) (\<lambda>commit.
         seqE (if hook then of_result (case rv_after_push env of None \<Rightarrow> Inr () | Some err \<Rightarrow> Inl err) else ret ())
         (seqE (recordGitCommit env (rel_id rel) (dep_id d) commit actor)
         (ret \<lparr>rf_deployment = dep_id d, rf_release = rel_id rel, rf_phase = DeploymentGitCommitted\<rparr>))))
     | _ \<Rightarrow> throw RPanic)"

definition Deploy :: "renv \<Rightarrow> deploy_request \<Rightarrow> deployment_ref ract" where
  "Deploy env req =
     (if rv_renderer env = None \<or> rv_gitops env = None
        then throw (RErr RUnavailable ''GitOps dependencies are incomplete'')
      else bindE (CreateRelease env req) (\<lambda>(rel, p).
        bindE (runtime_now env) (\<lambda>now.
        bindE (Runtime_Transact env ''Deploy'' (deploy_tx env ''runtime cell missing'' (ret now) rel p))
        (publishDeployment env True (dr_actor req) rel p))))"

definition deployExistingRelease ::
  "renv \<Rightarrow> string \<Rightarrow> release \<Rightarrow> placement \<Rightarrow> deployment_ref ract" where
  "deployExistingRelease env actor rel p =
     bindE (Runtime_Transact env ''deployExistingRelease''
       (deploy_tx env ''cell missing'' (runtime_now env) rel p))
     (publishDeployment env False actor rel p)"

definition ReconcileGitOps :: "renv \<Rightarrow> string \<Rightarrow> string \<Rightarrow> unit ract" where
  "ReconcileGitOps env releaseID actorID =
     bindE (Runtime_Transact env ''ReconcileGitOps''
       (bindE (tx_get (GetGitOpsCommitByRelease releaseID)) (\<lambda>existing.
        if existing \<noteq> None then ret None
        else bindE (tx_get (FindDeploymentByRelease releaseID)) (\<lambda>found.
        case found of None \<Rightarrow> throw (RErr RNotFound ''deployment not found'') | Some d \<Rightarrow>
        bindE (tx_get (GetPlacement (dep_placement d))) (\<lambda>found.
        case found of None \<Rightarrow> throw (RErr RInternal ''placement not found'') | Some p \<Rightarrow>
        ret (Some (d, p))))))) (\<lambda>pending.
     case pending of
       None \<Rightarrow> ret ()
     | Some (d, p) \<Rightarrow>
         if dep_id d = [] then ret ()
         else (case rv_gitops env of
           None \<Rightarrow> throw RPanic
         | Some repository \<Rightarrow>
             bindE (of_result (go_find repository (pl_cell p) releaseID)) (\<lambda>found.
             case found of
               None \<Rightarrow> throw (RErr RNotFound ''GitOps commit not found'')
             | Some commit \<Rightarrow> recordGitCommit env releaseID (dep_id d) commit actorID)))"

end
