(* ===== verification/Runtime_Rollback.thy ===== *)
theory Runtime_Rollback
  imports Runtime_Service
begin

text \<open>
  The rest of \<open>internal/runtime/application/service.go\<close>: rollbacks, requests to migrate a placement,
  and the status of a deployment.
\<close>

section \<open>Rollbacks\<close>

definition trimRollback :: "rollback_request \<Rightarrow> rollback_request" where
  "trimRollback r =
     \<lparr>rb_tenant = TrimSpace (rb_tenant r), rb_environment = TrimSpace (rb_environment r),
      rb_target = TrimSpace (rb_target r), rb_actor = TrimSpace (rb_actor r), rb_key = TrimSpace (rb_key r),
      rb_critical = rb_critical r\<rparr>"

definition rollbackHash :: "hashing \<Rightarrow> rollback_request \<Rightarrow> string" where
  "rollbackHash h req = hs_json h (JRollback (rb_environment req) (rb_target req) (rb_critical req))"

text \<open>
  What the first transaction of a rollback finds: the release of an earlier call with the key, or
  the target with the configuration it gets now.
\<close>

datatype rollback_plan =
    RollbackReplay environment release placement application
  | RollbackTarget environment release placement application release_config

definition rollback_replay :: "environment \<Rightarrow> string \<Rightarrow> runtime_idempotency \<Rightarrow> rollback_plan ract" where
  "rollback_replay e hash r =
     (if ri_request_hash r \<noteq> hash
        then throw (RErr RConflict ''idempotency key reused with different rollback request'')
      else bindE (tx_get (GetRelease (ri_resource_id r))) (\<lambda>found.
      case found of None \<Rightarrow> throw (RErr RInternal ''rollback idempotency record points to invalid release'')
      | Some rel \<Rightarrow>
      if rel_environment rel \<noteq> env_id e \<or> rel_rollback_of rel = []
        then throw (RErr RInternal ''rollback idempotency record points to invalid release'')
      else bindE (tx_get (GetCurrentPlacement (env_id e))) (\<lambda>found.
      case found of None \<Rightarrow> throw (RErr RInternal ''placement not found'') | Some p \<Rightarrow>
      bindE (tx_get (GetApplication (env_application e))) (\<lambda>found.
      case found of None \<Rightarrow> throw (RErr RInternal ''application not found'')
      | Some app \<Rightarrow> ret (RollbackReplay e rel p app)))))"

definition rollback_config ::
  "hashing \<Rightarrow> release \<Rightarrow> placement \<Rightarrow> application \<Rightarrow> environment \<Rightarrow> runtime_cell \<Rightarrow> rerror + release_config" where
  "rollback_config h target p app e cell =
     (case GeneratedHostname h (app_id app) (env_name e) (cell_ingress cell) of
        Inl err \<Rightarrow> Inl err
      | Inr hostname \<Rightarrow>
          NormalizeReleaseConfig (hs_unicode h)
            ((rel_configuration target)\<lparr>rc_region := pl_region p, rc_isolation := pl_isolation p,
               rc_hostname := hostname\<rparr>))"

definition rollback_resolve :: "renv \<Rightarrow> rollback_request \<Rightarrow> rollback_plan ract" where
  "rollback_resolve env req =
     bindE (tx_get (GetEnvironment (rb_environment req))) (\<lambda>found.
     case found of None \<Rightarrow> throw (RErr RNotFound ''environment not found'') | Some e \<Rightarrow>
     if rb_tenant req \<noteq> [] \<and> env_tenant e \<noteq> rb_tenant req
       then throw (RErr RNotFound ''environment not found'') else
     bindE (tx_get (Runtime_GetIdempotency (env_tenant e) ''runtime.release.rollback'' (rb_key req))) (\<lambda>record.
     case record of
       Some r \<Rightarrow> rollback_replay e (rollbackHash (rv_hashing env) req) r
     | None \<Rightarrow>
         bindE (tx_get (GetRelease (rb_target req))) (\<lambda>found.
         case found of None \<Rightarrow> throw (RErr RNotFound ''target release not found'') | Some target \<Rightarrow>
         if rel_environment target \<noteq> env_id e then throw (RErr RNotFound ''target release not found'') else
         bindE (tx_get (GetApplication (env_application e))) (\<lambda>found.
         case found of None \<Rightarrow> throw (RErr RInternal ''application not found'') | Some app \<Rightarrow>
         bindE (tx_get (GetCurrentPlacement (env_id e))) (\<lambda>found.
         case found of None \<Rightarrow> throw (RErr RInternal ''placement not found'') | Some p \<Rightarrow>
         bindE (tx_get (GetRuntimeCell (pl_cell p))) (\<lambda>found.
         case found of None \<Rightarrow> throw (RErr RInternal ''placement points to missing runtime cell'') | Some cell \<Rightarrow>
         bindE (of_result (rollback_config (rv_hashing env) target p app e cell)) (\<lambda>config.
         ret (RollbackTarget e target p app config))))))))"

text \<open>The transaction that writes the release of a rollback, unless another call was first.\<close>

definition rollback_tx ::
  "renv \<Rightarrow> rollback_request \<Rightarrow> environment \<Rightarrow> release \<Rightarrow> placement \<Rightarrow> release \<Rightarrow> int \<Rightarrow> gotime \<Rightarrow>
   (release \<times> placement) ract" where
  "rollback_tx env req e target p candidate units now =
     bindE (tx_get (Runtime_GetIdempotency (env_tenant e) ''runtime.release.rollback'' (rb_key req))) (\<lambda>record.
     case record of
       Some r \<Rightarrow>
         if ri_request_hash r \<noteq> rollbackHash (rv_hashing env) req
           then throw (RErr RConflict ''idempotency key reused with different rollback request'')
         else bindE (tx_get (GetRelease (ri_resource_id r))) (\<lambda>found.
         case found of None \<Rightarrow> throw (RErr RInternal ''rollback idempotency record points to missing release'')
         | Some rel \<Rightarrow>
         bindE (tx_get (GetCurrentPlacement (env_id e))) (\<lambda>found.
         case found of None \<Rightarrow> throw (RErr RInternal ''rollback release exists without placement'')
         | Some p' \<Rightarrow> ret (rel, p')))
     | None \<Rightarrow>
         bindE (tx_get (GetCurrentPlacement (env_id e))) (\<lambda>found.
         if (case found of None \<Rightarrow> True | Some current \<Rightarrow> pl_id current \<noteq> pl_id p)
           then throw (RErr RConflict ''placement changed while rollback was being prepared'')
         else let current = the found in
         if pl_region current \<noteq> rc_region (rel_configuration candidate) \<or>
            pl_isolation current \<noteq> rc_isolation (rel_configuration candidate)
           then throw (RErr RConflict ''rollback placement is no longer compatible'')
         else
           bindE (resizePlacement current units now) (\<lambda>p'.
           seqE (tx_write (InsertRelease candidate))
           (seqE (tx_write (Runtime_InsertIdempotency
             \<lparr>ri_tenant = env_tenant e, ri_scope = ''runtime.release.rollback'', ri_key = rb_key req,
              ri_request_hash = rollbackHash (rv_hashing env) req, ri_resource_id = rel_id candidate,
              ri_created_at = now\<rparr>))
           (bindE (runtime_newID env ''aud'') (\<lambda>aud.
            seqE (tx_write (Runtime_AppendAudit
              \<lparr>ra_id = aud, ra_tenant = env_tenant e, ra_actor = rb_actor req,
               ra_action = ''runtime.release.rollback'', ra_resource_type = ''release'',
               ra_resource_id = rel_id candidate,
               ra_data = JFields [(''digest'', Digest (rel_artifact target)),
                                  (''target_release_id'', rel_id target)],
               ra_created_at = now\<rparr>))
            (ret (candidate, p'))))))))"

definition RollbackWithRequest :: "renv \<Rightarrow> rollback_request \<Rightarrow> deployment_ref ract" where
  "RollbackWithRequest env req0 =
     seqE (validateBase env)
     (case rv_artifacts env of
        None \<Rightarrow> throw (RErr RUnavailable ''rollback dependencies are incomplete'')
      | Some isReleasable \<Rightarrow>
      if rv_renderer env = None \<or> rv_gitops env = None
        then throw (RErr RUnavailable ''rollback dependencies are incomplete'')
      else let req = trimRollback req0 in
      if rb_environment req = [] \<or> rb_target req = [] \<or> rb_actor req = [] \<or> rb_key req = []
        then throw (RErr RInvalidArgument ''rollback request is incomplete'')
      else bindE (Runtime_Transact env ''RollbackWithRequest'' (rollback_resolve env req)) (\<lambda>plan.
      case plan of
        RollbackReplay e rel p app \<Rightarrow> deployExistingRelease env (rb_actor req) rel p
      | RollbackTarget e target p app config \<Rightarrow>
          bindE (of_result (requestedUnits (rv_units env) config)) (\<lambda>units.
          bindE (of_result (isReleasable (rel_artifact target))) (\<lambda>decision.
          if \<not> rd_allowed decision \<and> \<not> rb_critical req
            then throw (RErr RPolicyRejected ''rollback artifact is no longer allowed'')
          else
            bindE (runtime_now env) (\<lambda>now.
            bindE (runtime_newID env ''rel'') (\<lambda>relID.
            bindE (of_result (NewRelease (rv_hashing env) relID (env_tenant e) (app_id app) (env_id e)
                     (rel_artifact target) config (rd_policy_version decision) now)) (\<lambda>created.
            bindE (of_result (Release_Transition ReleaseValidated now
                     (created\<lparr>rel_rollback_of := rel_id target, rel_policy_override := rb_critical req\<rparr>))) (\<lambda>candidate.
            bindE (Runtime_Transact env ''RollbackWithRequest.write''
                     (rollback_tx env req e target p candidate units now)) (\<lambda>(rel, p').
            deployExistingRelease env (rb_actor req) rel p')))))))))"

definition Rollback :: "renv \<Rightarrow> string \<Rightarrow> string \<Rightarrow> deployment_ref ract" where
  "Rollback env environmentID targetReleaseID =
     RollbackWithRequest env
       \<lparr>rb_tenant = [], rb_environment = environmentID, rb_target = targetReleaseID,
        rb_actor = ''system'', rb_key = ''rollback-'' @ targetReleaseID, rb_critical = False\<rparr>"

section \<open>Migrations\<close>

definition RequestPlacementMigration :: "renv \<Rightarrow> explicit_migration_request \<Rightarrow> placement_migration ract" where
  "RequestPlacementMigration env req =
     seqE (validateBase env)
     (bindE (runtime_now env) (\<lambda>now.
      Runtime_Transact env ''RequestPlacementMigration''
      (bindE (tx_get (GetEnvironment (em_environment req))) (\<lambda>found.
       case found of None \<Rightarrow> throw (RErr RNotFound ''environment not found'') | Some e \<Rightarrow>
       if em_tenant req \<noteq> [] \<and> env_tenant e \<noteq> em_tenant req
         then throw (RErr RNotFound ''environment not found'') else
       bindE (tx_get (GetCurrentPlacement (env_id e))) (\<lambda>found.
       case found of None \<Rightarrow> throw (RErr RNotFound ''current placement not found'') | Some current \<Rightarrow>
       bindE (tx_get (GetRuntimeCell (em_target_cell req))) (\<lambda>found.
       case found of None \<Rightarrow> throw (RErr RNotFound ''target cell not found'') | Some target \<Rightarrow>
       if cell_id target = pl_cell current
         then throw (RErr RConflict ''target cell is already current'')
       else if \<not> CanPlace (rv_unicode env) target (pl_region current) (pl_isolation current) (pl_units current)
         then throw (RErr RCapacity ''target cell is not compatible'')
       else
         bindE (runtime_newID env ''pmg'') (\<lambda>pmg.
         let operation = \<lparr>pm_id = pmg, pm_tenant = env_tenant e, pm_environment = env_id e,
               pm_from_placement = pl_id current, pm_target_cell = cell_id target,
               pm_state = ''PENDING'', pm_created_at = now\<rparr> in
         seqE (tx_write (InsertPlacementMigration operation)) (ret operation))))))))"

section \<open>Status\<close>

definition status_of :: "deployment \<Rightarrow> runtime_status" where
  "status_of d =
     \<lparr>st_deployment = dep_id d, st_phase = dep_phase d,
      st_active_release = (if dep_phase d = DeploymentReady then dep_release d else dep_previous d),
      st_url = dep_url d, st_ready_replicas = dep_replicas d\<rparr>"

definition Status :: "renv \<Rightarrow> string \<Rightarrow> runtime_status ract" where
  "Status env deploymentID =
     bindE (Runtime_Transact env ''Status''
       (bindE (tx_get (GetDeployment deploymentID)) (\<lambda>found.
        case found of
          None \<Rightarrow> throw (RErr RNotFound ''deployment not found'')
        | Some d \<Rightarrow> ret d)))
     (\<lambda>d. ret (status_of d))"

definition StatusForTenant :: "renv \<Rightarrow> string \<Rightarrow> string \<Rightarrow> runtime_status ract" where
  "StatusForTenant env tenantID deploymentID =
     (if TrimSpace tenantID = [] then throw (RErr RInvalidArgument ''tenant id is required'')
      else bindE (Runtime_Transact env ''StatusForTenant''
        (bindE (tx_get (GetDeployment deploymentID)) (\<lambda>found.
         if (case found of None \<Rightarrow> True | Some d \<Rightarrow> dep_tenant d \<noteq> TrimSpace tenantID)
           then throw (RErr RNotFound ''deployment not found'')
         else ret (the found))))
      (\<lambda>d. ret (status_of d)))"

end
