(* ===== verification/Runtime_Rendering.thy ===== *)
theory Runtime_Rendering
  imports Runtime_Environment
begin

text \<open>
  The manifests of a deployment: \<open>Render\<close> of \<open>internal/runtime/gitops/renderer.go\<close>. The files of a
  bundle are represented by the objects whose canonical JSON they hold; encoding these cannot fail.
\<close>

text \<open>The regular expression \<open>^[a-zA-Z0-9][a-zA-Z0-9._-]*$\<close>.\<close>

definition safeSegment :: "string \<Rightarrow> bool" where
  "safeSegment s \<longleftrightarrow>
     (case s of
        [] \<Rightarrow> False
      | c # cs \<Rightarrow> alphanumeric c \<and>
          list_all (\<lambda>c. alphanumeric c \<or> c = CHR ''.'' \<or> c = CHR ''_'' \<or> c = CHR ''-'') cs)"

definition cloneProcesses :: "processes \<Rightarrow> processes" where
  "cloneProcesses ps = map (\<lambda>(n, p). (n, p\<lparr>Command := copy_strings (Command p)\<rparr>)) ps"

definition previousActive :: "render_input \<Rightarrow> string" where
  "previousActive input = env_active_release (in_environment input)"

definition object_labels :: "application \<Rightarrow> environment \<Rightarrow> string \<rightharpoonup> string" where
  "object_labels a e =
     [''platform.example.com/tenant-id'' \<mapsto> app_tenant a,
      ''platform.example.com/application-id'' \<mapsto> app_id a,
      ''platform.example.com/environment-id'' \<mapsto> env_id e,
      ''platform.example.com/managed-by'' \<mapsto> ''paas-control-plane'']"

definition rendered_meta :: "string \<Rightarrow> string \<Rightarrow> (string \<rightharpoonup> string) \<Rightarrow> (string \<rightharpoonup> string) \<Rightarrow> object_meta" where
  "rendered_meta name namespace labels annotations =
     \<lparr>om_name = name, om_namespace = namespace, om_uid = [], om_generation = 0, om_resource_version = [],
      om_labels = labels, om_annotations = annotations, om_owner_references = []\<rparr>"

definition no_status :: app_status where
  "no_status =
     \<lparr>ps_observed_generation = 0, ps_phase = [], ps_active_release = [], ps_backend_service = [],
      ps_backend_port = 0, ps_candidate_release = [], ps_candidate_hash = [], ps_migrated_release = [],
      ps_url = [], ps_ready_replicas = 0, ps_started_at = 0, ps_conditions = []\<rparr>"

definition rendered_spec :: "render_input \<Rightarrow> string \<Rightarrow> app_spec" where
  "rendered_spec input route =
     (let a = in_application input; e = in_environment input; r = in_release input;
          c = rel_configuration r in
      \<lparr>as_identity = \<lparr>is_tenant = app_tenant a, is_project = app_project a, is_application = app_id a,
         is_environment_id = env_id e, is_environment = env_name e, is_release = rel_id r\<rparr>,
       as_image = \<lparr>im_repository = Repository (rel_artifact r), im_digest = Digest (rel_artifact r),
         im_media_type = MediaType (rel_artifact r)\<rparr>,
       as_isolation = rc_isolation c, as_unit = rc_unit c, as_processes = cloneProcesses (rc_processes c),
       as_release = \<lparr>Strategy = ''Rolling'', Migration = rc_migration c,
         RolloutTimeout = rc_rollout_timeout c, PreviousReleaseID = previousActive input\<rparr>,
       as_hostname = rc_hostname c, as_route_process = route,
       as_attachment_snapshot = rc_attachment_snapshot c, as_egress_profile = rc_egress_profile c,
       as_peers = None, as_lifecycle = app_lifecycle a\<rparr>)"

definition rendered_app :: "hashing \<Rightarrow> render_input \<Rightarrow> string \<Rightarrow> paas_app" where
  "rendered_app h input route =
     (let a = in_application input; e = in_environment input in
      \<lparr>pa_api_version = APIVersion, pa_kind = Kind,
       pa_meta = rendered_meta (PaaSAppName h (app_id a) (env_name e)) (env_namespace e) (object_labels a e)
         [''platform.example.com/release-id'' \<mapsto> rel_id (in_release input)],
       pa_spec = rendered_spec input route, pa_status = no_status\<rparr>)"

text \<open>
  The hash of the files is a parameter \<open>hash\<close>: the SHA-256 of their names and contents. Clean path
  segments are joined with slashes.
\<close>

definition Render ::
  "hashing \<Rightarrow> (namespace_manifest \<Rightarrow> paas_app \<Rightarrow> string) \<Rightarrow> render_input \<Rightarrow> rerror + rendered_bundle" where
  "Render h hash input =
     (let a = in_application input; e = in_environment input; r = in_release input;
          p = in_placement input; c = in_cell input in
      if app_id a = [] \<or> env_id e = [] \<or> rel_id r = [] \<or> pl_id p = [] \<or> cell_id c = []
        then Inl (RErr RInvalidArgument ''render input is incomplete'')
      else if app_tenant a \<noteq> env_tenant e \<or> app_tenant a \<noteq> rel_tenant r \<or> env_id e \<noteq> rel_environment r \<or>
              pl_environment p \<noteq> env_id e \<or> pl_cell p \<noteq> cell_id c
        then Inl (RErr RConflict ''render input ownership mismatch'')
      else if \<not> list_all (\<lambda>segment. safeSegment segment \<and> \<not> str_contains segment ''..'')
                [cell_id c, app_tenant a, app_id a, env_name e]
        then Inl (RErr RInvalidArgument ''GitOps path segment is unsafe'')
      else case SelectRouteProcess (rc_processes (rel_configuration r)) of
        None \<Rightarrow> Inl (RErr RInvalidArgument ''release has no routable process'')
      | Some route \<Rightarrow>
          let namespace = \<lparr>nm_api_version = ''v1'', nm_kind = ''Namespace'',
                nm_meta = rendered_meta (env_namespace e) [] (object_labels a e) Map.empty\<rparr>;
              app = rendered_app h input route in
          (case App_Validate (hs_unicode h) app of
             Inl err \<Rightarrow> Inl (RWrap RInvalidArgument ''rendered PaaSApp is invalid'' err)
           | Inr _ \<Rightarrow>
               Inr \<lparr>bu_cell = cell_id c, bu_release = rel_id r,
                    bu_path = Join [''cells'', cell_id c, ''tenants'', app_tenant a, ''apps'', app_id a, env_name e] ''/'',
                    bu_manifest_hash = ''sha256:'' @ hash namespace app, bu_namespace = namespace,
                    bu_app = app\<rparr>))"

end
