(* ===== verification/Runtime_Status.thy ===== *)
theory Runtime_Status
  imports Runtime_Rollback Runtime_Rendering
begin

text \<open>
  Status reconciliation (\<open>internal/runtime/application/status.go\<close>): what the runtime observes in a
  cluster moves deployments and releases.
\<close>

section \<open>Validation of the observed object\<close>

definition expected_spec :: "application \<Rightarrow> environment \<Rightarrow> deployment \<Rightarrow> release \<Rightarrow> string \<Rightarrow> app_spec" where
  "expected_spec a e d r route =
     (let c = rel_configuration r in
      \<lparr>as_identity = \<lparr>is_tenant = app_tenant a, is_project = app_project a, is_application = app_id a,
         is_environment_id = env_id e, is_environment = env_name e, is_release = rel_id r\<rparr>,
       as_image = \<lparr>im_repository = Repository (rel_artifact r), im_digest = Digest (rel_artifact r),
         im_media_type = MediaType (rel_artifact r)\<rparr>,
       as_isolation = rc_isolation c, as_unit = rc_unit c, as_processes = cloneProcesses (rc_processes c),
       as_release = \<lparr>Strategy = ''Rolling'', Migration = rc_migration c,
         RolloutTimeout = rc_rollout_timeout c, PreviousReleaseID = dep_previous d\<rparr>,
       as_hostname = rc_hostname c, as_route_process = route,
       as_attachment_snapshot = rc_attachment_snapshot c, as_egress_profile = rc_egress_profile c,
       as_peers = None, as_lifecycle = app_lifecycle a\<rparr>)"

text \<open>\<open>reflect.DeepEqual\<close>: processes as maps; \<open>nil\<close> differs from an empty slice.\<close>

definition spec_equal :: "app_spec \<Rightarrow> app_spec \<Rightarrow> bool" where
  "spec_equal s t \<longleftrightarrow>
     s\<lparr>as_processes := []\<rparr> = t\<lparr>as_processes := []\<rparr> \<and> set (as_processes s) = set (as_processes t)"

definition validateObservedPaaSApp ::
  "paas_app \<Rightarrow> application \<Rightarrow> environment \<Rightarrow> deployment \<Rightarrow> release \<Rightarrow> string \<Rightarrow> rerror + unit" where
  "validateObservedPaaSApp object a e d r expectedName =
     (let s = pa_spec object; i = as_identity s in
      if pa_api_version object \<noteq> APIVersion \<or> pa_kind object \<noteq> Kind \<or>
         om_namespace (pa_meta object) \<noteq> env_namespace e \<or> om_name (pa_meta object) \<noteq> expectedName
        then Inl (RErr RConflict ''observed PaaSApp metadata does not match deployment'')
      else if is_tenant i \<noteq> app_tenant a \<or> is_project i \<noteq> app_project a \<or> is_application i \<noteq> app_id a \<or>
              is_environment_id i \<noteq> env_id e \<or> is_environment i \<noteq> env_name e \<or>
              is_release i \<noteq> dep_release d
        then Inl (RErr RConflict ''observed PaaSApp identity does not match deployment'')
      else if as_image s \<noteq> \<lparr>im_repository = Repository (rel_artifact r), im_digest = Digest (rel_artifact r),
                im_media_type = MediaType (rel_artifact r)\<rparr>
        then Inl (RErr RConflict ''observed PaaSApp image does not match release artifact'')
      else case SelectRouteProcess (rc_processes (rel_configuration r)) of
        None \<Rightarrow> Inl (RErr RInternal ''release has no route process'')
      | Some route \<Rightarrow>
          if \<not> spec_equal s (expected_spec a e d r route)
            then Inl (RErr RConflict ''observed PaaSApp spec does not match immutable release'')
          else Inr ())"

section \<open>Progress of a deployment\<close>

definition markArgoSyncing :: "renv \<Rightarrow> string \<Rightarrow> unit ract" where
  "markArgoSyncing env deploymentID =
     bindE (runtime_now env) (\<lambda>now.
     Runtime_Transact env ''markArgoSyncing''
     (bindE (tx_get (GetDeployment deploymentID)) (\<lambda>found.
      case found of None \<Rightarrow> throw (RErr RNotFound ''deployment not found'') | Some d \<Rightarrow>
      if dep_phase d = DeploymentGitCommitted
        then bindE (of_result (Deployment_Transition DeploymentArgoSyncing now d)) (\<lambda>d'.
          tx_write (UpdateDeployment d' (dep_version d)))
      else ret ())))"

text \<open>The writes at the end: what has not changed its version is not written.\<close>

definition save_deployment :: "deployment \<Rightarrow> int \<Rightarrow> unit ract" where
  "save_deployment d expected =
     (if dep_version d \<noteq> expected then tx_write (UpdateDeployment d expected) else ret ())"

definition save_release :: "release \<Rightarrow> int \<Rightarrow> unit ract" where
  "save_release r expected =
     (if rel_version r \<noteq> expected then tx_write (UpdateRelease r expected) else ret ())"

definition save_environment :: "environment \<Rightarrow> int \<Rightarrow> unit ract" where
  "save_environment e expected =
     (if env_version e \<noteq> expected then tx_write (UpdateEnvironment e expected) else ret ())"

definition chain :: "('a \<Rightarrow> rerror + 'a) \<Rightarrow> rerror + 'a \<Rightarrow> rerror + 'a" where
  "chain f r = (case r of Inl e \<Rightarrow> Inl e | Inr a \<Rightarrow> f a)"

definition roll_out :: "gotime \<Rightarrow> deployment \<Rightarrow> rerror + deployment" where
  "roll_out now d =
     (case dep_phase d of
        DeploymentGitCommitted \<Rightarrow>
          chain (Deployment_Transition DeploymentRollingOut now)
            (Deployment_Transition DeploymentArgoSyncing now d)
      | DeploymentArgoSyncing \<Rightarrow> Deployment_Transition DeploymentRollingOut now d
      | DeploymentDegraded \<Rightarrow> Deployment_Transition DeploymentRollingOut now d
      | _ \<Rightarrow> Inr d)"

definition start_deploying :: "gotime \<Rightarrow> release \<Rightarrow> rerror + release" where
  "start_deploying now r =
     (if rel_state r = ReleaseCommittedToGitOps then Release_Transition ReleaseDeploying now r else Inr r)"

definition markRollingOut :: "renv \<Rightarrow> string \<Rightarrow> unit ract" where
  "markRollingOut env deploymentID =
     bindE (runtime_now env) (\<lambda>now.
     Runtime_Transact env ''markRollingOut''
     (bindE (tx_get (GetDeployment deploymentID)) (\<lambda>found.
      case found of None \<Rightarrow> throw (RErr RNotFound ''deployment not found'') | Some d \<Rightarrow>
      bindE (tx_get (GetRelease (dep_release d))) (\<lambda>found.
      case found of None \<Rightarrow> throw (RErr RInternal ''release missing'') | Some r \<Rightarrow>
      bindE (of_result (roll_out now d)) (\<lambda>d'.
      bindE (of_result (start_deploying now r)) (\<lambda>r'.
      seqE (save_deployment d' (dep_version d)) (save_release r' (rel_version r))))))))"

text \<open>The transitions that every observation of the current generation implies.\<close>

definition catch_up :: "gotime \<Rightarrow> deployment \<Rightarrow> rerror + deployment" where
  "catch_up now d =
     chain (\<lambda>d. if dep_phase d = DeploymentArgoSyncing then Deployment_Transition DeploymentRollingOut now d
                else Inr d)
       (if dep_phase d = DeploymentGitCommitted then Deployment_Transition DeploymentArgoSyncing now d
        else Inr d)"

text \<open>The loop that supersedes the releases that were active in the environment.\<close>

fun supersede_loop :: "string \<Rightarrow> gotime \<Rightarrow> release list \<Rightarrow> unit ract" where
  "supersede_loop keep now [] = ret ()"
| "supersede_loop keep now (other # others) =
     (if rel_id other \<noteq> keep \<and> rel_state other = ReleaseActive then
        bindE (of_result (Release_Transition ReleaseSuperseded now other)) (\<lambda>other'.
        seqE (tx_write (UpdateRelease other' (rel_version other)))
        (supersede_loop keep now others))
      else supersede_loop keep now others)"

fun condition_loop :: "condition list \<Rightarrow> string option" where
  "condition_loop [] = None"
| "condition_loop (c # cs) =
     (if cd_type c = ''Ready'' \<and> cd_message c \<noteq> [] then Some (cd_message c) else condition_loop cs)"

definition conditionMessage :: "condition list \<Rightarrow> string" where
  "conditionMessage cs = (case condition_loop cs of Some m \<Rightarrow> m | None \<Rightarrow> ''runtime rollout is degraded'')"

text \<open>The three kinds of observation, and the new values they lead to.\<close>

definition apply_ready ::
  "app_status \<Rightarrow> gotime \<Rightarrow> deployment \<Rightarrow> release \<Rightarrow> environment \<Rightarrow>
   (deployment \<times> release \<times> environment) ract" where
  "apply_ready status now d r e =
     (if ps_active_release status \<noteq> rel_id r
        then throw (RErr RConflict ''PaaSApp reports another active release'')
      else
        bindE (tx_get (ListReleasesByEnvironment (env_id e))) (\<lambda>others.
        seqE (supersede_loop (rel_id r) now others)
        (bindE (of_result (if rel_state r = ReleaseDeploying then Release_Transition ReleaseActive now r
                           else Inr r)) (\<lambda>r'.
         bindE (of_result (MarkReady (ps_url status) (ps_ready_replicas status) now d)) (\<lambda>d'.
         bindE (of_result (ActivateRelease (rel_id r') now e)) (\<lambda>e'.
         ret (d', r', e')))))))"

definition apply_degraded ::
  "app_status \<Rightarrow> gotime \<Rightarrow> deployment \<Rightarrow> rerror + deployment" where
  "apply_degraded status now d =
     (if dep_phase d \<noteq> DeploymentDegraded
        then MarkDegraded ''ROLLOUT_DEGRADED'' (conditionMessage (ps_conditions status)) now d
      else Inr d)"

definition apply_progressing :: "gotime \<Rightarrow> deployment \<Rightarrow> rerror + deployment" where
  "apply_progressing now d =
     (if dep_phase d = DeploymentDegraded then Deployment_Transition DeploymentRollingOut now d else Inr d)"

definition apply_phase ::
  "unicode \<Rightarrow> app_status \<Rightarrow> gotime \<Rightarrow> deployment \<Rightarrow> release \<Rightarrow> environment \<Rightarrow>
   (deployment \<times> release \<times> environment) ract" where
  "apply_phase u status now d r e =
     (let phase = ToLower u (ps_phase status) in
      if phase = ''ready'' then apply_ready status now d r e
      else if phase = ''degraded'' then
        bindE (of_result (apply_degraded status now d)) (\<lambda>d'. ret (d', r, e))
      else bindE (of_result (apply_progressing now d)) (\<lambda>d'. ret (d', r, e)))"

definition applyObserved_tx :: "unicode \<Rightarrow> string \<Rightarrow> app_status \<Rightarrow> gotime \<Rightarrow> unit ract" where
  "applyObserved_tx u deploymentID status now =
     bindE (tx_get (GetDeployment deploymentID)) (\<lambda>found.
     case found of None \<Rightarrow> throw (RErr RNotFound ''deployment not found'') | Some d \<Rightarrow>
     bindE (tx_get (GetRelease (dep_release d))) (\<lambda>found.
     case found of None \<Rightarrow> throw (RErr RInternal ''release missing'') | Some r \<Rightarrow>
     bindE (tx_get (GetEnvironment (dep_environment d))) (\<lambda>found.
     case found of None \<Rightarrow> throw (RErr RInternal ''environment missing'') | Some e \<Rightarrow>
     bindE (of_result (catch_up now d)) (\<lambda>d1.
     bindE (of_result (start_deploying now r)) (\<lambda>r1.
     bindE (apply_phase u status now d1 r1 e) (\<lambda>(d', r', e').
     seqE (save_deployment d' (dep_version d))
     (seqE (save_release r' (rel_version r))
     (save_environment e' (env_version e)))))))))"

definition applyObservedStatus :: "renv \<Rightarrow> string \<Rightarrow> app_status \<Rightarrow> unit ract" where
  "applyObservedStatus env deploymentID status =
     bindE (runtime_now env) (\<lambda>now.
     Runtime_Transact env ''applyObservedStatus''
       (applyObserved_tx (rv_unicode env) deploymentID status now))"

section \<open>Reconciliation\<close>

text \<open>What the first transaction reads: the deployment and what it belongs to.\<close>

record observed_rows =
  ow_deployment :: deployment
  ow_environment :: environment
  ow_cell :: runtime_cell
  ow_application :: application
  ow_release :: release

definition observed_rows_tx :: "string \<Rightarrow> observed_rows ract" where
  "observed_rows_tx deploymentID =
     bindE (tx_get (GetDeployment deploymentID)) (\<lambda>found.
     case found of None \<Rightarrow> throw (RErr RNotFound ''deployment not found'') | Some d \<Rightarrow>
     bindE (tx_get (GetEnvironment (dep_environment d))) (\<lambda>found.
     case found of None \<Rightarrow> throw (RErr RInternal ''environment missing'') | Some e \<Rightarrow>
     bindE (tx_get (GetPlacement (dep_placement d))) (\<lambda>found.
     case found of None \<Rightarrow> throw (RErr RInternal ''placement missing'') | Some p \<Rightarrow>
     bindE (tx_get (GetRuntimeCell (pl_cell p))) (\<lambda>found.
     case found of None \<Rightarrow> throw (RErr RInternal ''cell missing'') | Some c \<Rightarrow>
     bindE (tx_get (GetApplication (dep_application d))) (\<lambda>found.
     case found of None \<Rightarrow> throw (RErr RInternal ''application missing'') | Some a \<Rightarrow>
     bindE (tx_get (GetRelease (dep_release d))) (\<lambda>found.
     case found of None \<Rightarrow> throw (RErr RInternal ''release missing'') | Some r \<Rightarrow>
     ret \<lparr>ow_deployment = d, ow_environment = e, ow_cell = c, ow_application = a, ow_release = r\<rparr>))))))"

definition ReconcileDeploymentStatus :: "renv \<Rightarrow> string \<Rightarrow> unit ract" where
  "ReconcileDeploymentStatus env deploymentID =
     (case rv_observer env of
        None \<Rightarrow> throw (RErr RUnavailable ''runtime observer is not configured'')
      | Some observe \<Rightarrow>
      bindE (Runtime_Transact env ''ReconcileDeploymentStatus'' (observed_rows_tx deploymentID)) (\<lambda>rs.
      let d = ow_deployment rs; e = ow_environment rs; a = ow_application rs;
          expectedName = PaaSAppName (rv_hashing env) (app_id a) (env_name e) in
      bindE (of_result (observe \<lparr>ob_cell = cell_id (ow_cell rs), ob_namespace = env_namespace e,
                                 ob_name = expectedName\<rparr>)) (\<lambda>found.
      case found of
        None \<Rightarrow> markArgoSyncing env (dep_id d)
      | Some object \<Rightarrow>
          bindE (of_result (validateObservedPaaSApp object a e d (ow_release rs) expectedName)) (\<lambda>_.
          if om_generation (pa_meta object) \<le> 0 \<or>
             ps_observed_generation (pa_status object) < om_generation (pa_meta object)
            then markRollingOut env (dep_id d)
          else applyObservedStatus env (dep_id d) (pa_status object)))))"

section \<open>Objects nobody asked for\<close>

record observed_object =
  oo_cell :: string
  oo_namespace :: string
  oo_kind :: string
  oo_name :: string
  oo_labels :: "string \<rightharpoonup> string"

definition owned_tx :: "renv \<Rightarrow> observed_object \<Rightarrow> string \<Rightarrow> bool ract" where
  "owned_tx env object releaseID =
     bindE (tx_get (FindDeploymentByRelease releaseID)) (\<lambda>found.
     case found of None \<Rightarrow> ret False | Some d \<Rightarrow>
     bindE (tx_get (GetPlacement (dep_placement d))) (\<lambda>found.
     case found of None \<Rightarrow> ret False | Some p \<Rightarrow>
     bindE (tx_get (GetEnvironment (dep_environment d))) (\<lambda>found.
     case found of None \<Rightarrow> ret False | Some e \<Rightarrow>
     bindE (tx_get (GetApplication (dep_application d))) (\<lambda>found.
     case found of None \<Rightarrow> ret False | Some a \<Rightarrow>
     ret (oo_kind object = Kind \<and> oo_cell object = pl_cell p \<and> oo_namespace object = env_namespace e \<and>
          oo_name object = PaaSAppName (rv_hashing env) (app_id a) (env_name e))))))"

text \<open>An error of the first transaction is ignored, so that the object counts as unknown.\<close>

definition ObserveRuntimeObject :: "renv \<Rightarrow> observed_object \<Rightarrow> unit ract" where
  "ObserveRuntimeObject env object =
     (let releaseID = (case oo_labels object ''platform.example.com/release-id'' of None \<Rightarrow> [] | Some i \<Rightarrow> i) in
      bindE (if releaseID = [] then ret False
             else bindE (attempt (Runtime_Transact env ''ObserveRuntimeObject'' (owned_tx env object releaseID)))
               (\<lambda>r. case r of Inr known \<Rightarrow> ret known
                 | Inl err \<Rightarrow> if err = RPanic then throw RPanic else ret False)) (\<lambda>known.
      if known then ret ()
      else Runtime_Transact env ''ObserveRuntimeObject.quarantine''
        (bindE (runtime_newID env ''qua'') (\<lambda>qua.
         bindE (runtime_now env) (\<lambda>now.
         tx_write (InsertQuarantine
           \<lparr>qn_id = qua, qn_cell = oo_cell object, qn_namespace = oo_namespace object,
            qn_kind = oo_kind object, qn_name = oo_name object,
            qn_reason = ''object is not owned by a known runtime deployment'', qn_observed_at = now\<rparr>))))))"

end
