(* ===== verification/Runtime_Effects.thy ===== *)
theory Runtime_Effects
  imports Runtime_Tables Runtime_Status "HOL-Library.Sublist"
begin

text \<open>
  What a transaction of the runtime service does to the store, as a chain of small effects, one per
  kind of change and with the guards the service has checked, and what no effect takes back.
\<close>

section \<open>Effects\<close>

text \<open>The phases of a deployment that go with a state of its release.\<close>

fun in_step :: "release_state \<Rightarrow> deployment_phase \<Rightarrow> bool" where
  "in_step ReleaseValidated p \<longleftrightarrow> p = DeploymentPending"
| "in_step ReleaseCommittedToGitOps p \<longleftrightarrow> p = DeploymentGitCommitted \<or> p = DeploymentArgoSyncing"
| "in_step ReleaseDeploying p \<longleftrightarrow> p = DeploymentRollingOut \<or> p = DeploymentDegraded"
| "in_step ReleaseActive p \<longleftrightarrow> p = DeploymentReady"
| "in_step ReleaseSuperseded p \<longleftrightarrow> p = DeploymentReady"
| "in_step _ p \<longleftrightarrow> False"

text \<open>A row is written when its version has changed, and left alone otherwise.\<close>

definition saved ::
  "('v \<Rightarrow> int \<Rightarrow> runtime_data \<Rightarrow> rerror + runtime_data) \<Rightarrow> ('v \<Rightarrow> int) \<Rightarrow> 'v \<Rightarrow> 'v \<Rightarrow>
   runtime_data \<Rightarrow> runtime_data \<Rightarrow> bool" where
  "saved update version v v' d d' \<longleftrightarrow>
     (v' = v \<and> d' = d) \<or> (version v < version v' \<and> update v' (version v) d = Inr d')"

abbreviation release_path :: "release_state \<Rightarrow> release_state \<Rightarrow> bool" where
  "release_path \<equiv> (\<lambda>s t. t \<in> set (release_allowed s))\<^sup>*\<^sup>*"

abbreviation deployment_path :: "deployment_phase \<Rightarrow> deployment_phase \<Rightarrow> bool" where
  "deployment_path \<equiv> (\<lambda>s t. t \<in> set (deployment_allowed s))\<^sup>*\<^sup>*"

text \<open>What is left of a row when the fields that may change are blanked out.\<close>

definition release_frozen :: "release \<Rightarrow> release" where
  "release_frozen r = r\<lparr>rel_state := ReleaseCreated, rel_version := 0, rel_updated_at := 0\<rparr>"

definition deployment_frozen :: "deployment \<Rightarrow> deployment" where
  "deployment_frozen x =
     x\<lparr>dep_phase := DeploymentPending, dep_commit := [], dep_url := [], dep_replicas := 0,
       dep_failure_code := [], dep_failure_message := [], dep_version := 0, dep_updated_at := 0\<rparr>"

definition environment_frozen :: "environment \<Rightarrow> environment" where
  "environment_frozen e =
     e\<lparr>env_placement := [], env_active_release := [], env_version := 0, env_updated_at := 0\<rparr>"

definition cell_frozen :: "runtime_cell \<Rightarrow> runtime_cell" where
  "cell_frozen c = c\<lparr>cell_allocated := 0, cell_version := 0, cell_updated_at := 0\<rparr>"

definition placement_frozen :: "placement \<Rightarrow> placement" where
  "placement_frozen p = p\<lparr>pl_units := 0, pl_version := 0, pl_updated_at := 0\<rparr>"

definition release_moves :: "release \<Rightarrow> release \<Rightarrow> bool" where
  "release_moves r r' \<longleftrightarrow>
     release_frozen r' = release_frozen r \<and>
     rel_version r \<le> rel_version r' \<and> release_path (rel_state r) (rel_state r')"

definition deployment_moves :: "deployment \<Rightarrow> deployment \<Rightarrow> bool" where
  "deployment_moves x x' \<longleftrightarrow>
     deployment_frozen x' = deployment_frozen x \<and> dep_version x \<le> dep_version x' \<and>
     deployment_path (dep_phase x) (dep_phase x') \<and>
     (dep_commit x \<noteq> [] \<longrightarrow> dep_commit x' = dep_commit x) \<and>
     (dep_phase x = DeploymentReady \<longrightarrow> x' = x)"

text \<open>The resource that an idempotency record names.\<close>

definition key_target :: "runtime_idempotency \<Rightarrow> runtime_data \<Rightarrow> bool" where
  "key_target v d \<longleftrightarrow>
     (ri_scope v = ''runtime.application.create'' \<and>
        (\<exists>a. GetApplication (ri_resource_id v) d = Some a \<and> app_tenant a = ri_tenant v)) \<or>
     (ri_scope v = ''runtime.environment.create'' \<and> GetEnvironment (ri_resource_id v) d \<noteq> None) \<or>
     (ri_scope v \<in> {''runtime.release.create'', ''runtime.release.rollback''} \<and>
        (\<exists>r. GetRelease (ri_resource_id v) d = Some r \<and> rel_tenant r = ri_tenant v))"

inductive runtime_effect :: "runtime_data \<Rightarrow> runtime_data \<Rightarrow> bool" where
  application_inserted:
    "ValidPlatformID (app_id a) \<Longrightarrow> ValidPlatformID (app_tenant a) \<Longrightarrow> InsertApplication a d = Inr d' \<Longrightarrow>
     runtime_effect d d'"
| environment_inserted:
    "ValidPlatformID (env_id e) \<Longrightarrow> GetApplication (env_application e) d = Some a \<Longrightarrow>
     app_tenant a = env_tenant e \<Longrightarrow> env_placement e = [] \<Longrightarrow> env_active_release e = [] \<Longrightarrow>
     InsertEnvironment e d = Inr d' \<Longrightarrow> runtime_effect d d'"
| cell_inserted:
    "cell_allocated c = 0 \<Longrightarrow> 0 < cell_capacity c \<Longrightarrow> int64 (cell_capacity c) \<Longrightarrow>
     InsertRuntimeCell c d = Inr d' \<Longrightarrow> runtime_effect d d'"
| placed:
    "GetEnvironment (env_id e) d = Some e \<Longrightarrow> GetRuntimeCell (cell_id c) d = Some c \<Longrightarrow>
     ValidPlatformID (pl_id p) \<Longrightarrow> pl_environment p = env_id e \<Longrightarrow> pl_tenant p = env_tenant e \<Longrightarrow>
     pl_cell p = cell_id c \<Longrightarrow> pl_region p = cell_region c \<Longrightarrow> supports c (pl_isolation p) \<Longrightarrow>
     pl_current p \<Longrightarrow> int64 (pl_units p) \<Longrightarrow> Cell_Allocate (pl_units p) now c = Inr c' \<Longrightarrow>
     UpdateRuntimeCell c' (cell_version c) d = Inr d1 \<Longrightarrow> InsertPlacement p d1 = Inr d2 \<Longrightarrow>
     SetPlacement (pl_id p) now e = Inr e' \<Longrightarrow> UpdateEnvironment e' (env_version e) d2 = Inr d3 \<Longrightarrow>
     runtime_effect d d3"
| resized:
    "GetPlacement (pl_id p) d = Some p \<Longrightarrow> GetRuntimeCell (pl_cell p) d = Some c \<Longrightarrow> cell_id c = pl_cell p \<Longrightarrow>
     int64 units \<Longrightarrow> pl_units p \<noteq> units \<Longrightarrow>
     (if 0 < sub64 units (pl_units p) then Cell_Allocate (sub64 units (pl_units p)) now c
      else Cell_Release (wrap64 (- sub64 units (pl_units p))) now c) = Inr c' \<Longrightarrow>
     Resize units now p = Inr p' \<Longrightarrow> UpdateRuntimeCell c' (cell_version c) d = Inr d1 \<Longrightarrow>
     UpdatePlacement p' (pl_version p) d1 = Inr d2 \<Longrightarrow> runtime_effect d d2"
| release_inserted:
    "ValidPlatformID (rel_id r) \<Longrightarrow> GetEnvironment (rel_environment r) d = Some e \<Longrightarrow>
     rel_tenant r = env_tenant e \<Longrightarrow> rel_application r = env_application e \<Longrightarrow> env_placement e \<noteq> [] \<Longrightarrow>
     rel_state r = ReleaseValidated \<Longrightarrow> InsertRelease r d = Inr d' \<Longrightarrow> runtime_effect d d'"
| deployment_inserted:
    "GetRelease (dep_release x) d = Some r \<Longrightarrow> dep_tenant x = rel_tenant r \<Longrightarrow>
     dep_application x = rel_application r \<Longrightarrow> dep_environment x = rel_environment r \<Longrightarrow>
     GetPlacement (dep_placement x) d = Some p \<Longrightarrow> pl_environment p = dep_environment x \<Longrightarrow>
     dep_phase x = DeploymentPending \<Longrightarrow> dep_commit x = [] \<Longrightarrow> InsertDeployment x d = Inr d' \<Longrightarrow>
     runtime_effect d d'"
| commit_recorded:
    "GetDeployment (dep_id x) d = Some x \<Longrightarrow> GetRelease (dep_release x) d = Some r \<Longrightarrow>
     rel_id r = dep_release x \<Longrightarrow> rt_commits d (dep_release x) = None \<Longrightarrow> gc_release g = dep_release x \<Longrightarrow> gc_deployment g = dep_id x \<Longrightarrow>
     RecordGitCommit (gc_sha g) now x = Inr x' \<Longrightarrow>
     Release_Transition ReleaseCommittedToGitOps now r = Inr r' \<Longrightarrow> InsertGitOpsCommit g d = Inr d1 \<Longrightarrow>
     UpdateDeployment x' (dep_version x) d1 = Inr d2 \<Longrightarrow> UpdateRelease r' (rel_version r) d2 = Inr d3 \<Longrightarrow>
     runtime_effect d d3"
| release_superseded:
    "GetRelease (rel_id r) d = Some r \<Longrightarrow> rel_state r = ReleaseActive \<Longrightarrow>
     Release_Transition ReleaseSuperseded now r = Inr r' \<Longrightarrow> UpdateRelease r' (rel_version r) d = Inr d' \<Longrightarrow>
     runtime_effect d d'"
| deployment_observed:
    "GetDeployment (dep_id x) d = Some x \<Longrightarrow> GetRelease (dep_release x) d = Some r \<Longrightarrow>
     GetEnvironment (dep_environment x) d = Some e \<Longrightarrow> rel_id r = dep_release x \<Longrightarrow>
     env_id e = dep_environment x \<Longrightarrow> deployment_moves x x' \<Longrightarrow> dep_commit x' = dep_commit x \<Longrightarrow> release_moves r r' \<Longrightarrow>
     dep_phase x' = DeploymentPending \<longleftrightarrow> dep_phase x = DeploymentPending \<Longrightarrow>
     in_step (rel_state r') (dep_phase x') \<Longrightarrow>
     (rel_state r' = rel_state r \<and> e' = e) \<or> (rel_state r' = ReleaseDeploying \<and> e' = e) \<or>
     (rel_state r' \<in> {ReleaseActive, ReleaseSuperseded} \<and> ActivateRelease (rel_id r) now e = Inr e' \<and>
      (\<forall>k other. map_of (rt_releases d) k = Some other \<longrightarrow> rel_environment other = env_id e \<longrightarrow>
         rel_state other = ReleaseActive \<longrightarrow> k = rel_id r)) \<Longrightarrow>
     saved UpdateDeployment dep_version x x' d d1 \<Longrightarrow> saved UpdateRelease rel_version r r' d1 d2 \<Longrightarrow>
     saved UpdateEnvironment env_version e e' d2 d3 \<Longrightarrow> runtime_effect d d3"
| migration_requested: "InsertPlacementMigration m d = Inr d' \<Longrightarrow> runtime_effect d d'"
| object_quarantined: "InsertQuarantine q d = Inr d' \<Longrightarrow> runtime_effect d d'"
| key_recorded: "key_target v d \<Longrightarrow> Runtime_InsertIdempotency v d = Inr d' \<Longrightarrow> runtime_effect d d'"
| event_appended: "Runtime_AppendOutbox o1 d = Inr d' \<Longrightarrow> runtime_effect d d'"
| audit_appended: "Runtime_AppendAudit a1 d = Inr d' \<Longrightarrow> runtime_effect d d'"

section \<open>What is never taken back\<close>

definition environment_evolves :: "environment \<Rightarrow> environment \<Rightarrow> bool" where
  "environment_evolves e e' \<longleftrightarrow>
     environment_frozen e' = environment_frozen e \<and>
     (env_placement e \<noteq> [] \<longrightarrow> env_placement e' = env_placement e) \<and> env_version e \<le> env_version e'"

definition cell_evolves :: "runtime_cell \<Rightarrow> runtime_cell \<Rightarrow> bool" where
  "cell_evolves c c' \<longleftrightarrow>
     cell_frozen c' = cell_frozen c \<and> cell_version c \<le> cell_version c'"

definition placement_evolves :: "placement \<Rightarrow> placement \<Rightarrow> bool" where
  "placement_evolves p p' \<longleftrightarrow>
     placement_frozen p' = placement_frozen p \<and> pl_version p \<le> pl_version p'"

definition later :: "runtime_data \<Rightarrow> runtime_data \<Rightarrow> bool" where
  "later d d' \<longleftrightarrow>
     grows (=) (map_of (rt_applications d)) (map_of (rt_applications d')) \<and>
     grows environment_evolves (map_of (rt_environments d)) (map_of (rt_environments d')) \<and>
     grows cell_evolves (map_of (rt_cells d)) (map_of (rt_cells d')) \<and>
     grows placement_evolves (map_of (rt_placements d)) (map_of (rt_placements d')) \<and>
     grows release_moves (map_of (rt_releases d)) (map_of (rt_releases d')) \<and>
     grows deployment_moves (map_of (rt_deployments d)) (map_of (rt_deployments d')) \<and>
     grows (=) (rt_commits d) (rt_commits d') \<and> grows (=) (rt_migrations d) (rt_migrations d') \<and>
     grows (=) (rt_quarantine d) (rt_quarantine d') \<and>
     grows (=) (rt_idempotency d) (rt_idempotency d') \<and>
     prefix (rt_outbox d) (rt_outbox d') \<and> prefix (rt_audit d) (rt_audit d')"

lemma environment_evolves_refl [simp]: "environment_evolves e e"
  by (simp add: environment_evolves_def)

lemma cell_evolves_refl [simp]: "cell_evolves c c"
  by (simp add: cell_evolves_def)

lemma placement_evolves_refl [simp]: "placement_evolves p p"
  by (simp add: placement_evolves_def)

lemma release_moves_refl [simp]: "release_moves r r"
  by (simp add: release_moves_def)

lemma deployment_moves_refl [simp]: "deployment_moves x x"
  by (simp add: deployment_moves_def)

lemma environment_evolves_trans:
  "environment_evolves a b \<Longrightarrow> environment_evolves b c \<Longrightarrow> environment_evolves a c"
  by (auto simp: environment_evolves_def)

lemma cell_evolves_trans: "cell_evolves a b \<Longrightarrow> cell_evolves b c \<Longrightarrow> cell_evolves a c"
  by (auto simp: cell_evolves_def)

lemma placement_evolves_trans: "placement_evolves a b \<Longrightarrow> placement_evolves b c \<Longrightarrow> placement_evolves a c"
  by (auto simp: placement_evolves_def)

lemma release_moves_trans: "release_moves a b \<Longrightarrow> release_moves b c \<Longrightarrow> release_moves a c"
  by (auto simp: release_moves_def)

lemma deployment_moves_trans: "deployment_moves a b \<Longrightarrow> deployment_moves b c \<Longrightarrow> deployment_moves a c"
  unfolding deployment_moves_def
  by (elim conjE, intro conjI) (auto elim: rtranclp_trans)

lemma runtime_later_refl [simp]: "later d d"
  by (simp add: later_def grows_refl)

lemma runtime_later_trans: "later a b \<Longrightarrow> later b c \<Longrightarrow> later a c"
  unfolding later_def
  by (intro conjI; elim conjE)
    (auto elim!: grows_trans[rotated] prefix_order.trans intro: environment_evolves_trans
      cell_evolves_trans placement_evolves_trans release_moves_trans deployment_moves_trans)

section \<open>Steps of the state machines\<close>

lemma Release_Transition_moves: "Release_Transition s now r = Inr r' \<Longrightarrow> release_moves r r'"
  by (auto simp: Release_Transition_def release_moves_def release_frozen_def List.member_iff
      split: if_splits)

lemma Deployment_Transition_Inr:
  "Deployment_Transition s now x = Inr x' \<Longrightarrow>
     x' = x \<and> dep_phase x = s \<or>
     s \<in> set (deployment_allowed (dep_phase x)) \<and>
     x' = x\<lparr>dep_phase := s, dep_version := dep_version x + 1, dep_updated_at := now\<rparr>"
  by (auto simp: Deployment_Transition_def List.member_iff split: if_splits)

lemma Deployment_Transition_moves: "Deployment_Transition s now x = Inr x' \<Longrightarrow> deployment_moves x x'"
  by (drule Deployment_Transition_Inr) (auto simp: deployment_moves_def deployment_frozen_def)

lemma RecordGitCommit_Inr:
  "RecordGitCommit sha now x = Inr x' \<Longrightarrow>
     dep_commit x = TrimSpace sha \<and> x' = x \<and> dep_commit x \<noteq> [] \<or>
     dep_commit x = [] \<and> TrimSpace sha \<noteq> [] \<and>
     (\<exists>y. Deployment_Transition DeploymentGitCommitted now x = Inr y \<and> x' = y\<lparr>dep_commit := TrimSpace sha\<rparr>)"
  by (auto simp: RecordGitCommit_def Let_def split: if_splits sum.splits)

lemma RecordGitCommit_moves: "RecordGitCommit sha now x = Inr x' \<Longrightarrow> deployment_moves x x'"
  by (drule RecordGitCommit_Inr)
    (auto dest!: Deployment_Transition_Inr simp: deployment_moves_def deployment_frozen_def)

lemma SetPlacement_evolves:
  "SetPlacement i now e = Inr e' \<Longrightarrow> environment_evolves e e'"
  by (auto simp: SetPlacement_def Let_def environment_evolves_def environment_frozen_def split: if_splits)

lemma ActivateRelease_evolves: "ActivateRelease i now e = Inr e' \<Longrightarrow> environment_evolves e e'"
  by (auto simp: ActivateRelease_def Let_def environment_evolves_def environment_frozen_def split: if_splits)

lemma Cell_Allocate_evolves: "Cell_Allocate n now c = Inr c' \<Longrightarrow> cell_evolves c c'"
  by (auto simp: Cell_Allocate_def cell_evolves_def cell_frozen_def split: if_splits)

lemma Cell_Release_evolves: "Cell_Release n now c = Inr c' \<Longrightarrow> cell_evolves c c'"
  by (auto simp: Cell_Release_def cell_evolves_def cell_frozen_def split: if_splits)

lemma Resize_evolves: "Resize n now p = Inr p' \<Longrightarrow> placement_evolves p p'"
  by (auto simp: Resize_def placement_evolves_def placement_frozen_def split: if_splits)

text \<open>The keys of a row are among what never changes.\<close>

lemma release_moves_fields:
  "release_moves r r' \<Longrightarrow>
     rel_id r' = rel_id r \<and> rel_tenant r' = rel_tenant r \<and> rel_application r' = rel_application r \<and>
     rel_environment r' = rel_environment r \<and> rel_identity r' = rel_identity r \<and>
     rel_artifact r' = rel_artifact r \<and> rel_configuration r' = rel_configuration r \<and>
     rel_rollback_of r' = rel_rollback_of r \<and> rel_created_at r' = rel_created_at r"
  by (cases r; cases r') (simp add: release_moves_def release_frozen_def)

lemma deployment_moves_fields:
  "deployment_moves x x' \<Longrightarrow>
     dep_id x' = dep_id x \<and> dep_tenant x' = dep_tenant x \<and> dep_application x' = dep_application x \<and>
     dep_environment x' = dep_environment x \<and> dep_release x' = dep_release x \<and>
     dep_placement x' = dep_placement x \<and> dep_previous x' = dep_previous x \<and>
     (dep_commit x \<noteq> [] \<longrightarrow> dep_commit x' = dep_commit x)"
  by (cases x; cases x') (simp add: deployment_moves_def deployment_frozen_def)

lemma environment_evolves_fields:
  "environment_evolves e e' \<Longrightarrow>
     env_id e' = env_id e \<and> env_tenant e' = env_tenant e \<and> env_application e' = env_application e \<and>
     env_name e' = env_name e \<and> env_namespace e' = env_namespace e \<and> env_default e' = env_default e \<and>
     (env_placement e \<noteq> [] \<longrightarrow> env_placement e' = env_placement e)"
  by (cases e; cases e') (simp add: environment_evolves_def environment_frozen_def)

lemma cell_evolves_fields:
  "cell_evolves c c' \<Longrightarrow>
     cell_id c' = cell_id c \<and> cell_region c' = cell_region c \<and> cell_isolation c' = cell_isolation c \<and>
     cell_capacity c' = cell_capacity c \<and> cell_ingress c' = cell_ingress c \<and> cell_state c' = cell_state c"
  by (cases c; cases c') (simp add: cell_evolves_def cell_frozen_def)

lemma placement_evolves_fields:
  "placement_evolves p p' \<Longrightarrow>
     pl_id p' = pl_id p \<and> pl_tenant p' = pl_tenant p \<and> pl_environment p' = pl_environment p \<and>
     pl_cell p' = pl_cell p \<and> pl_region p' = pl_region p \<and> pl_isolation p' = pl_isolation p \<and>
     pl_current p' = pl_current p"
  by (cases p; cases p') (simp add: placement_evolves_def placement_frozen_def)

lemmas row_fields = release_moves_fields deployment_moves_fields environment_evolves_fields
  cell_evolves_fields placement_evolves_fields

section \<open>Every effect makes the store later\<close>

lemmas runtime_get_defs = GetApplication_def GetEnvironment_def GetRuntimeCell_def GetPlacement_def
  GetRelease_def GetDeployment_def

lemma InsertApplication_later: "InsertApplication v d = Inr d' \<Longrightarrow> later d d'"
  by (drule InsertApplication_Inr) (auto simp: later_def grows_refl intro: grows_insert)

lemma InsertEnvironment_later: "InsertEnvironment v d = Inr d' \<Longrightarrow> later d d'"
  by (drule InsertEnvironment_Inr) (auto simp: later_def grows_refl intro!: grows_insert)

lemma UpdateEnvironment_later:
  "UpdateEnvironment v n d = Inr d' \<Longrightarrow> map_of (rt_environments d) (env_id v) = Some w \<Longrightarrow>
   environment_evolves w v \<Longrightarrow> later d d'"
  by (drule UpdateEnvironment_Inr) (auto simp: later_def grows_refl intro: grows_update[where v = w])

lemma InsertRuntimeCell_later: "InsertRuntimeCell v d = Inr d' \<Longrightarrow> later d d'"
  by (drule InsertRuntimeCell_Inr) (auto simp: later_def grows_refl intro!: grows_insert)

lemma UpdateRuntimeCell_later:
  "UpdateRuntimeCell v n d = Inr d' \<Longrightarrow> map_of (rt_cells d) (cell_id v) = Some w \<Longrightarrow>
   cell_evolves w v \<Longrightarrow> later d d'"
  by (drule UpdateRuntimeCell_Inr) (auto simp: later_def grows_refl intro: grows_update[where v = w])

lemma InsertPlacement_later: "InsertPlacement v d = Inr d' \<Longrightarrow> later d d'"
  by (drule InsertPlacement_Inr) (auto simp: later_def grows_refl intro!: grows_insert)

lemma UpdatePlacement_later:
  "UpdatePlacement v n d = Inr d' \<Longrightarrow> map_of (rt_placements d) (pl_id v) = Some w \<Longrightarrow>
   placement_evolves w v \<Longrightarrow> later d d'"
  by (drule UpdatePlacement_Inr) (auto simp: later_def grows_refl intro: grows_update[where v = w])

lemma InsertRelease_later: "InsertRelease v d = Inr d' \<Longrightarrow> later d d'"
  by (drule InsertRelease_Inr) (auto simp: later_def grows_refl intro!: grows_insert)

lemma UpdateRelease_later:
  "UpdateRelease v n d = Inr d' \<Longrightarrow> map_of (rt_releases d) (rel_id v) = Some w \<Longrightarrow>
   release_moves w v \<Longrightarrow> later d d'"
  by (drule UpdateRelease_Inr) (auto simp: later_def grows_refl intro: grows_update[where v = w])

lemma InsertDeployment_later: "InsertDeployment v d = Inr d' \<Longrightarrow> later d d'"
  by (drule InsertDeployment_Inr) (auto simp: later_def grows_refl intro!: grows_insert)

lemma UpdateDeployment_later:
  "UpdateDeployment v n d = Inr d' \<Longrightarrow> map_of (rt_deployments d) (dep_id v) = Some w \<Longrightarrow>
   deployment_moves w v \<Longrightarrow> later d d'"
  by (drule UpdateDeployment_Inr) (auto simp: later_def grows_refl intro: grows_update[where v = w])

lemma table_grows_insert: "m k = None \<Longrightarrow> grows (=) m (m(k \<mapsto> v))"
  by (rule grows_insert) simp_all

lemma InsertGitOpsCommit_later: "InsertGitOpsCommit g d = Inr d' \<Longrightarrow> later d d'"
  by (drule InsertGitOpsCommit_Inr) (auto simp: later_def grows_refl intro!: table_grows_insert)

lemma InsertPlacementMigration_later: "InsertPlacementMigration m d = Inr d' \<Longrightarrow> later d d'"
  by (drule InsertPlacementMigration_Inr) (auto simp: later_def grows_refl intro!: table_grows_insert)

lemma InsertQuarantine_later: "InsertQuarantine q d = Inr d' \<Longrightarrow> later d d'"
  by (drule InsertQuarantine_Inr) (auto simp: later_def grows_refl intro!: table_grows_insert)

lemma InsertIdempotency_later: "Runtime_InsertIdempotency v d = Inr d' \<Longrightarrow> later d d'"
  by (drule Runtime_InsertIdempotency_Inr, erule disjE)
    (simp_all add: later_def grows_refl table_grows_insert)

lemma log_later:
  "Runtime_AppendOutbox o1 d = Inr d' \<Longrightarrow> later d d'"
  "Runtime_AppendAudit a1 d = Inr d' \<Longrightarrow> later d d'"
   apply (drule Runtime_AppendOutbox_Inr, simp add: later_def grows_refl)
  apply (drule Runtime_AppendAudit_Inr, simp add: later_def grows_refl)
  done

lemmas insert_later = InsertApplication_later InsertEnvironment_later InsertRuntimeCell_later
  InsertPlacement_later InsertRelease_later InsertDeployment_later InsertGitOpsCommit_later InsertPlacementMigration_later
  InsertQuarantine_later InsertIdempotency_later log_later

lemma saved_later:
  "saved UpdateDeployment dep_version x x' d d' \<Longrightarrow> map_of (rt_deployments d) (dep_id x) = Some x \<Longrightarrow>
     deployment_moves x x' \<Longrightarrow> later d d'"
  "saved UpdateRelease rel_version r r' d d' \<Longrightarrow> map_of (rt_releases d) (rel_id r) = Some r \<Longrightarrow>
     release_moves r r' \<Longrightarrow> later d d'"
  "saved UpdateEnvironment env_version e e' d d' \<Longrightarrow> map_of (rt_environments d) (env_id e) = Some e \<Longrightarrow>
     environment_evolves e e' \<Longrightarrow> later d d'"
  unfolding saved_def
    apply (elim disjE conjE, simp)
    apply (rule UpdateDeployment_later, assumption, drule deployment_moves_fields, simp, assumption)
   apply (elim disjE conjE, simp)
   apply (rule UpdateRelease_later, assumption, drule release_moves_fields, simp, assumption)
  apply (elim disjE conjE, simp)
  apply (rule UpdateEnvironment_later, assumption, drule environment_evolves_fields, simp, assumption)
  done

text \<open>A write to one table leaves the others.\<close>

lemma UpdateRuntimeCell_others:
  "UpdateRuntimeCell c n d = Inr d' \<Longrightarrow>
     rt_environments d' = rt_environments d \<and> rt_placements d' = rt_placements d \<and>
     rt_applications d' = rt_applications d \<and> rt_releases d' = rt_releases d \<and>
     rt_deployments d' = rt_deployments d \<and> rt_commits d' = rt_commits d \<and>
     rt_idempotency d' = rt_idempotency d"
  by (drule UpdateRuntimeCell_Inr) auto

lemma InsertPlacement_others:
  "InsertPlacement p d = Inr d' \<Longrightarrow>
     rt_environments d' = rt_environments d \<and> rt_cells d' = rt_cells d \<and>
     rt_applications d' = rt_applications d \<and> rt_releases d' = rt_releases d \<and>
     rt_deployments d' = rt_deployments d \<and> rt_commits d' = rt_commits d \<and>
     rt_idempotency d' = rt_idempotency d"
  by (drule InsertPlacement_Inr) auto

lemma InsertGitOpsCommit_others:
  "InsertGitOpsCommit g d = Inr d' \<Longrightarrow>
     rt_environments d' = rt_environments d \<and> rt_cells d' = rt_cells d \<and>
     rt_applications d' = rt_applications d \<and> rt_releases d' = rt_releases d \<and>
     rt_deployments d' = rt_deployments d \<and> rt_placements d' = rt_placements d \<and>
     rt_idempotency d' = rt_idempotency d"
  by (drule InsertGitOpsCommit_Inr) auto

lemma UpdateDeployment_others:
  "UpdateDeployment x n d = Inr d' \<Longrightarrow>
     rt_environments d' = rt_environments d \<and> rt_cells d' = rt_cells d \<and>
     rt_applications d' = rt_applications d \<and> rt_releases d' = rt_releases d \<and>
     rt_placements d' = rt_placements d \<and> rt_commits d' = rt_commits d \<and>
     rt_idempotency d' = rt_idempotency d"
  by (drule UpdateDeployment_Inr) auto

lemma UpdateRelease_others:
  "UpdateRelease r n d = Inr d' \<Longrightarrow>
     rt_environments d' = rt_environments d \<and> rt_cells d' = rt_cells d \<and>
     rt_applications d' = rt_applications d \<and> rt_deployments d' = rt_deployments d \<and>
     rt_placements d' = rt_placements d \<and> rt_commits d' = rt_commits d \<and>
     rt_idempotency d' = rt_idempotency d"
  by (drule UpdateRelease_Inr) auto

lemmas write_others = UpdateRuntimeCell_others InsertPlacement_others InsertGitOpsCommit_others UpdateDeployment_others UpdateRelease_others

lemma saved_others:
  "saved UpdateDeployment dep_version x x' d d' \<Longrightarrow>
     rt_environments d' = rt_environments d \<and> rt_releases d' = rt_releases d"
  "saved UpdateRelease rel_version r r' d d' \<Longrightarrow> rt_environments d' = rt_environments d"
  by (auto simp: saved_def dest: write_others)

lemma effect_later: "runtime_effect d d' \<Longrightarrow> later d d'"
proof (induction rule: runtime_effect.induct)
  case (placed e d c p now c' d1 d2 e' d3)
  note c' = Cell_Allocate_evolves[OF placed.hyps(11)] and e' = SetPlacement_evolves[OF placed.hyps(14)]
  have "later d d1"
    by (rule UpdateRuntimeCell_later[OF placed.hyps(12) _ c'])
      (use placed.hyps(2) row_fields(4)[OF c'] in \<open>simp add: GetRuntimeCell_def\<close>)
  moreover have "later d1 d2" using placed.hyps(13) by (rule InsertPlacement_later)
  moreover have "later d2 d3"
    by (rule UpdateEnvironment_later[OF placed.hyps(15) _ e'])
      (use placed.hyps(1) row_fields(3)[OF e'] write_others(1)[OF placed.hyps(12)]
        write_others(2)[OF placed.hyps(13)] in \<open>simp add: GetEnvironment_def\<close>)
  ultimately show ?case by (blast intro: runtime_later_trans)
next
  case (resized p d c units now c' p' d1 d2)
  have c': "cell_evolves c c'"
    using resized.hyps(6) by (auto intro: Cell_Allocate_evolves Cell_Release_evolves split: if_splits)
  note p' = Resize_evolves[OF resized.hyps(7)]
  have "later d d1"
    by (rule UpdateRuntimeCell_later[OF resized.hyps(8) _ c'])
      (use resized.hyps(2,3) row_fields(4)[OF c'] in \<open>simp add: GetRuntimeCell_def\<close>)
  moreover have "later d1 d2"
    by (rule UpdatePlacement_later[OF resized.hyps(9) _ p'])
      (use resized.hyps(1) row_fields(5)[OF p'] write_others(1)[OF resized.hyps(8)]
        in \<open>simp add: GetPlacement_def\<close>)
  ultimately show ?case by (rule runtime_later_trans)
next
  case (commit_recorded x d r g now x' r' d1 d2 d3)
  note x' = RecordGitCommit_moves[OF commit_recorded.hyps(7)]
    and r' = Release_Transition_moves[OF commit_recorded.hyps(8)]
  note others = write_others(3)[OF commit_recorded.hyps(9)] write_others(4)[OF commit_recorded.hyps(10)]
  have "later d d1" using commit_recorded.hyps(9) by (rule InsertGitOpsCommit_later)
  moreover have "later d1 d2"
    by (rule UpdateDeployment_later[OF commit_recorded.hyps(10) _ x'])
      (use commit_recorded.hyps(1) row_fields(2)[OF x'] others in \<open>simp add: GetDeployment_def\<close>)
  moreover have "later d2 d3"
    by (rule UpdateRelease_later[OF commit_recorded.hyps(11) _ r'])
      (use commit_recorded.hyps(2,3) row_fields(1)[OF r'] others in \<open>simp add: GetRelease_def\<close>)
  ultimately show ?case by (blast intro: runtime_later_trans)
next
  case (release_superseded r d now r' d')
  note r' = Release_Transition_moves[OF release_superseded.hyps(3)]
  show ?case
    by (rule UpdateRelease_later[OF release_superseded.hyps(4) _ r'])
      (use release_superseded.hyps(1) row_fields(1)[OF r'] in \<open>simp add: GetRelease_def\<close>)
next
  case (deployment_observed x d r e x' r' e' now d1 d2 d3)
  have e': "environment_evolves e e'"
    using deployment_observed.hyps(11) by (auto intro: ActivateRelease_evolves)
  have "later d d1" using deployment_observed.hyps
    by (intro saved_later(1)[OF deployment_observed.hyps(12)]) (simp_all add: GetDeployment_def)
  moreover have "later d1 d2" using deployment_observed.hyps saved_others(1)[OF deployment_observed.hyps(12)]
    by (intro saved_later(2)[OF deployment_observed.hyps(13)]) (simp_all add: GetRelease_def)
  moreover have "later d2 d3"
    using deployment_observed.hyps(3,5) saved_others(1)[OF deployment_observed.hyps(12)]
      saved_others(2)[OF deployment_observed.hyps(13)] e'
    by (intro saved_later(3)[OF deployment_observed.hyps(14)]) (simp_all add: GetEnvironment_def)
  ultimately show ?case by (blast intro: runtime_later_trans)
qed (auto intro: insert_later)

lemma effects_later: "runtime_effect\<^sup>*\<^sup>* d d' \<Longrightarrow> later d d'"
  by (induction rule: rtranclp_induct) (auto intro: runtime_later_trans effect_later)

end
