(* ===== verification/Runtime_Invariants.thy ===== *)
theory Runtime_Invariants
  imports Runtime_Effects
begin

text \<open>
  The consistency of the runtime store: references lead to rows that agree, the allocation of a
  cell is the sum of its placements and within its capacity, a deployment is in step with its
  release, and at most one release is active in an environment. Every effect keeps it.
\<close>

section \<open>References\<close>

definition application_row :: "string \<Rightarrow> application \<Rightarrow> bool" where
  "application_row k a \<longleftrightarrow> app_id a = k \<and> ValidPlatformID k \<and> ValidPlatformID (app_tenant a)"

definition environment_row :: "runtime_data \<Rightarrow> string \<Rightarrow> environment \<Rightarrow> bool" where
  "environment_row d k e \<longleftrightarrow>
     env_id e = k \<and> ValidPlatformID k \<and>
     (\<exists>a. map_of (rt_applications d) (env_application e) = Some a \<and> app_tenant a = env_tenant e) \<and>
     (env_placement e \<noteq> [] \<longrightarrow>
        (\<exists>p. map_of (rt_placements d) (env_placement e) = Some p \<and> pl_environment p = k)) \<and>
     (env_active_release e \<noteq> [] \<longrightarrow>
        (\<exists>r. map_of (rt_releases d) (env_active_release e) = Some r \<and> rel_environment r = k \<and>
             rel_state r \<in> {ReleaseActive, ReleaseSuperseded}))"

definition cell_row :: "string \<Rightarrow> runtime_cell \<Rightarrow> bool" where
  "cell_row k c \<longleftrightarrow> cell_id c = k \<and> 0 < cell_capacity c \<and> int64 (cell_capacity c)"

definition placement_row :: "runtime_data \<Rightarrow> string \<Rightarrow> placement \<Rightarrow> bool" where
  "placement_row d k p \<longleftrightarrow>
     pl_id p = k \<and> ValidPlatformID k \<and> pl_current p \<and> 0 < pl_units p \<and> int64 (pl_units p) \<and>
     (\<exists>c. map_of (rt_cells d) (pl_cell p) = Some c \<and> pl_region p = cell_region c \<and>
          supports c (pl_isolation p)) \<and>
     (\<exists>e. map_of (rt_environments d) (pl_environment p) = Some e \<and> env_placement e = k \<and>
          pl_tenant p = env_tenant e)"

definition release_row :: "runtime_data \<Rightarrow> string \<Rightarrow> release \<Rightarrow> bool" where
  "release_row d k r \<longleftrightarrow>
     rel_id r = k \<and> ValidPlatformID k \<and>
     (\<exists>e. map_of (rt_environments d) (rel_environment r) = Some e \<and> rel_tenant r = env_tenant e \<and>
          rel_application r = env_application e \<and> env_placement e \<noteq> []) \<and>
     (rel_state r \<noteq> ReleaseValidated \<longrightarrow>
        (\<exists>i x. map_of (rt_deployments d) i = Some x \<and> dep_release x = k))"

definition deployment_row :: "runtime_data \<Rightarrow> string \<Rightarrow> deployment \<Rightarrow> bool" where
  "deployment_row d k x \<longleftrightarrow>
     dep_id x = k \<and>
     (\<exists>r. map_of (rt_releases d) (dep_release x) = Some r \<and> dep_tenant x = rel_tenant r \<and>
          dep_application x = rel_application r \<and> dep_environment x = rel_environment r) \<and>
     (\<exists>p. map_of (rt_placements d) (dep_placement x) = Some p \<and> pl_environment p = dep_environment x)"

definition commit_row :: "runtime_data \<Rightarrow> string \<Rightarrow> gitops_commit \<Rightarrow> bool" where
  "commit_row d k g \<longleftrightarrow>
     gc_release g = k \<and>
     (\<exists>x. map_of (rt_deployments d) (gc_deployment g) = Some x \<and> dep_release x = k \<and>
          dep_commit x \<noteq> [] \<and> dep_commit x = TrimSpace (gc_sha g))"

definition key_row :: "runtime_data \<Rightarrow> string \<Rightarrow> runtime_idempotency \<Rightarrow> bool" where
  "key_row d k v \<longleftrightarrow> k = runtime_idemKey (ri_tenant v) (ri_scope v) (ri_key v) \<and> key_target v d"

definition linked :: "runtime_data \<Rightarrow> bool" where
  "linked d \<longleftrightarrow>
     rows application_row (map_of (rt_applications d)) \<and>
     rows (environment_row d) (map_of (rt_environments d)) \<and>
     rows cell_row (map_of (rt_cells d)) \<and>
     rows (placement_row d) (map_of (rt_placements d)) \<and>
     rows (release_row d) (map_of (rt_releases d)) \<and>
     rows (deployment_row d) (map_of (rt_deployments d)) \<and>
     rows (commit_row d) (rt_commits d) \<and> rows (key_row d) (rt_idempotency d)"

section \<open>Accounting, phases and uniqueness\<close>

definition accounted :: "runtime_data \<Rightarrow> bool" where
  "accounted d \<longleftrightarrow>
     rows (\<lambda>k c. cell_allocated c = sum_rows (\<lambda>p. pl_cell p = k) pl_units (rt_placements d) \<and>
                 cell_allocated c \<le> cell_capacity c) (map_of (rt_cells d))"

text \<open>A deployment is in step with its release, and committed when there is a record of it.\<close>

definition phased :: "runtime_data \<Rightarrow> bool" where
  "phased d \<longleftrightarrow>
     (\<forall>i x r. map_of (rt_deployments d) i = Some x \<longrightarrow>
        map_of (rt_releases d) (dep_release x) = Some r \<longrightarrow>
        in_step (rel_state r) (dep_phase x) \<and>
        (dep_phase x = DeploymentPending \<longleftrightarrow> dep_commit x = []) \<and>
        (dep_phase x = DeploymentPending \<longleftrightarrow> rt_commits d (dep_release x) = None))"

definition activated :: "runtime_data \<Rightarrow> bool" where
  "activated d \<longleftrightarrow>
     (\<forall>k r e. map_of (rt_releases d) k = Some r \<longrightarrow> rel_state r = ReleaseActive \<longrightarrow>
        map_of (rt_environments d) (rel_environment r) = Some e \<longrightarrow> env_active_release e = k)"

definition applications_apart :: "application \<Rightarrow> application \<Rightarrow> bool" where
  "applications_apart a b \<longleftrightarrow> (app_tenant a = app_tenant b \<longrightarrow> app_name a \<noteq> app_name b)"

definition environments_apart :: "environment \<Rightarrow> environment \<Rightarrow> bool" where
  "environments_apart e f \<longleftrightarrow>
     env_namespace e \<noteq> env_namespace f \<and>
     (env_application e = env_application f \<longrightarrow>
        env_name e \<noteq> env_name f \<and> \<not> (env_default e \<and> env_default f))"

definition releases_apart :: "release \<Rightarrow> release \<Rightarrow> bool" where
  "releases_apart r s \<longleftrightarrow>
     \<not> (rel_tenant r = rel_tenant s \<and> rel_environment r = rel_environment s \<and>
        rel_identity r = rel_identity s \<and> rel_rollback_of r = [] \<and> rel_rollback_of s = [])"

definition deployments_apart :: "deployment \<Rightarrow> deployment \<Rightarrow> bool" where
  "deployments_apart x y \<longleftrightarrow> dep_release x \<noteq> dep_release y"

lemmas apart_defs = applications_apart_def environments_apart_def releases_apart_def deployments_apart_def

definition distinguished :: "runtime_data \<Rightarrow> bool" where
  "distinguished d \<longleftrightarrow>
     apart applications_apart (map_of (rt_applications d)) \<and>
     apart environments_apart (map_of (rt_environments d)) \<and>
     apart releases_apart (map_of (rt_releases d)) \<and>
     apart deployments_apart (map_of (rt_deployments d))"

definition tables_wf :: "runtime_data \<Rightarrow> bool" where
  "tables_wf d \<longleftrightarrow>
     wf_map (rt_applications d) \<and> wf_map (rt_environments d) \<and> wf_map (rt_cells d) \<and>
     wf_map (rt_placements d) \<and> wf_map (rt_releases d) \<and> wf_map (rt_deployments d)"

definition runtime_ok :: "runtime_data \<Rightarrow> bool" where
  "runtime_ok d \<longleftrightarrow> tables_wf d \<and> linked d \<and> accounted d \<and> phased d \<and> activated d \<and> distinguished d"

lemma runtime_ok_newState: "runtime_ok runtime_newState"
  by (simp add: runtime_ok_def runtime_newState_def tables_wf_def linked_def accounted_def phased_def
      activated_def distinguished_def)

section \<open>References survive\<close>

lemma release_path_keeps:
  "release_path s t \<Longrightarrow> s \<in> {ReleaseActive, ReleaseSuperseded} \<Longrightarrow> t \<in> {ReleaseActive, ReleaseSuperseded}"
  by (induction rule: rtranclp_induct) auto

lemma release_path_validated:
  "release_path s t \<Longrightarrow> s \<noteq> ReleaseValidated \<Longrightarrow> s \<noteq> ReleaseCreated \<Longrightarrow>
   t \<noteq> ReleaseValidated \<and> t \<noteq> ReleaseCreated"
proof (induction rule: rtranclp_induct)
  case (step u t)
  then show ?case by (cases u) auto
qed simp

lemma later_application:
  "later d d' \<Longrightarrow> map_of (rt_applications d) k = Some a \<Longrightarrow> map_of (rt_applications d') k = Some a"
  by (auto simp: later_def grows_def)

lemma later_environment:
  "later d d' \<Longrightarrow> map_of (rt_environments d) k = Some e \<Longrightarrow>
   \<exists>e'. map_of (rt_environments d') k = Some e' \<and> environment_evolves e e'"
  by (auto simp: later_def dest: growsD)

lemma later_cell:
  "later d d' \<Longrightarrow> map_of (rt_cells d) k = Some c \<Longrightarrow>
   \<exists>c'. map_of (rt_cells d') k = Some c' \<and> cell_evolves c c'"
  by (auto simp: later_def dest: growsD)

lemma later_placement:
  "later d d' \<Longrightarrow> map_of (rt_placements d) k = Some p \<Longrightarrow>
   \<exists>p'. map_of (rt_placements d') k = Some p' \<and> placement_evolves p p'"
  by (auto simp: later_def dest: growsD)

lemma later_release:
  "later d d' \<Longrightarrow> map_of (rt_releases d) k = Some r \<Longrightarrow>
   \<exists>r'. map_of (rt_releases d') k = Some r' \<and> release_moves r r'"
  by (auto simp: later_def dest: growsD)

lemma later_deployment:
  "later d d' \<Longrightarrow> map_of (rt_deployments d) k = Some x \<Longrightarrow>
   \<exists>x'. map_of (rt_deployments d') k = Some x' \<and> deployment_moves x x'"
  by (auto simp: later_def dest: growsD)

lemma environment_row_later:
  assumes "environment_row d k e" and l: "later d d'"
  shows "environment_row d' k e"
proof -
  have "\<exists>p'. map_of (rt_placements d') (env_placement e) = Some p' \<and> pl_environment p' = k"
    if "env_placement e \<noteq> []"
    using assms(1) that by (auto simp: environment_row_def dest!: later_placement[OF l] placement_evolves_fields)
  moreover have "\<exists>r'. map_of (rt_releases d') (env_active_release e) = Some r' \<and> rel_environment r' = k \<and>
      rel_state r' \<in> {ReleaseActive, ReleaseSuperseded}" if "env_active_release e \<noteq> []"
  proof -
    from assms(1) that obtain r where r: "map_of (rt_releases d) (env_active_release e) = Some r"
      "rel_environment r = k" "rel_state r \<in> {ReleaseActive, ReleaseSuperseded}"
      by (auto simp: environment_row_def)
    from later_release[OF l r(1)] obtain r'
      where r': "map_of (rt_releases d') (env_active_release e) = Some r'" "release_moves r r'" by blast
    with r show ?thesis
      using release_path_keeps[of "rel_state r" "rel_state r'"] release_moves_fields[OF r'(2)]
      by (auto simp: release_moves_def)
  qed
  ultimately show ?thesis
    using assms(1) by (auto simp: environment_row_def dest: later_application[OF l])
qed

lemma placement_row_later:
  assumes "placement_row d k p" and l: "later d d'"
  shows "placement_row d' k p"
proof -
  from assms(1) have k: "k \<noteq> []" by (auto simp: placement_row_def ValidPlatformID_not_Nil)
  from assms(1) obtain c e where c: "map_of (rt_cells d) (pl_cell p) = Some c"
      "pl_region p = cell_region c" "supports c (pl_isolation p)"
    and e: "map_of (rt_environments d) (pl_environment p) = Some e" "env_placement e = k"
      "pl_tenant p = env_tenant e"
    by (auto simp: placement_row_def)
  from later_cell[OF l c(1)] obtain c' where "map_of (rt_cells d') (pl_cell p) = Some c'" "cell_evolves c c'"
    by blast
  moreover from later_environment[OF l e(1)] obtain e'
    where "map_of (rt_environments d') (pl_environment p) = Some e'" "environment_evolves e e'" by blast
  ultimately show ?thesis
    using assms(1) c e k cell_evolves_fields[of c c'] environment_evolves_fields[of e e']
    by (auto simp: placement_row_def supports_def)
qed

lemma release_row_later:
  assumes "release_row d k r" and l: "later d d'"
  shows "release_row d' k r"
proof -
  have "\<exists>i x. map_of (rt_deployments d') i = Some x \<and> dep_release x = k" if "rel_state r \<noteq> ReleaseValidated"
    using assms(1) that
    by (fastforce simp: release_row_def dest!: later_deployment[OF l] deployment_moves_fields)
  with assms(1) show ?thesis
    by (fastforce simp: release_row_def
        dest!: later_environment[OF l] environment_evolves_fields)
qed

lemma deployment_row_later:
  "deployment_row d k x \<Longrightarrow> later d d' \<Longrightarrow> deployment_row d' k x"
  by (fastforce simp: deployment_row_def dest: later_release later_placement release_moves_fields
      placement_evolves_fields)

lemma commit_row_later: "commit_row d k g \<Longrightarrow> later d d' \<Longrightarrow> commit_row d' k g"
  by (fastforce simp: commit_row_def deployment_moves_def dest: later_deployment deployment_moves_fields)

lemma key_target_later:
  assumes "key_target v d" and l: "later d d'"
  shows "key_target v d'"
proof -
  have "\<exists>e'. map_of (rt_environments d') k = Some e'" if "map_of (rt_environments d) k = Some e" for k e
    using later_environment[OF l that] by blast
  moreover have "\<exists>r'. map_of (rt_releases d') k = Some r' \<and> rel_tenant r' = rel_tenant r"
    if "map_of (rt_releases d) k = Some r" for k r
    using later_release[OF l that] release_moves_fields by blast
  ultimately show ?thesis
    using assms(1) later_application[OF l] unfolding key_target_def runtime_get_defs
    by (elim disjE conjE exE) (fastforce+)
qed

lemma key_row_later: "key_row d k v \<Longrightarrow> later d d' \<Longrightarrow> key_row d' k v"
  by (auto simp: key_row_def intro: key_target_later)

lemmas row_later = environment_row_later placement_row_later release_row_later deployment_row_later
  commit_row_later key_row_later

text \<open>References stay linked when every new row is.\<close>

lemma linked_later:
  assumes "linked d" and l: "later d d'"
    and "\<And>k v. map_of (rt_applications d') k = Some v \<Longrightarrow> map_of (rt_applications d) k \<noteq> Some v \<Longrightarrow> application_row k v"
    and "\<And>k v. map_of (rt_environments d') k = Some v \<Longrightarrow> map_of (rt_environments d) k \<noteq> Some v \<Longrightarrow> environment_row d' k v"
    and "\<And>k v. map_of (rt_cells d') k = Some v \<Longrightarrow> map_of (rt_cells d) k \<noteq> Some v \<Longrightarrow> cell_row k v"
    and "\<And>k v. map_of (rt_placements d') k = Some v \<Longrightarrow> map_of (rt_placements d) k \<noteq> Some v \<Longrightarrow> placement_row d' k v"
    and "\<And>k v. map_of (rt_releases d') k = Some v \<Longrightarrow> map_of (rt_releases d) k \<noteq> Some v \<Longrightarrow> release_row d' k v"
    and "\<And>k v. map_of (rt_deployments d') k = Some v \<Longrightarrow> map_of (rt_deployments d) k \<noteq> Some v \<Longrightarrow> deployment_row d' k v"
    and "\<And>k v. rt_commits d' k = Some v \<Longrightarrow> rt_commits d k \<noteq> Some v \<Longrightarrow> commit_row d' k v"
    and "\<And>k v. rt_idempotency d' k = Some v \<Longrightarrow> rt_idempotency d k \<noteq> Some v \<Longrightarrow> key_row d' k v"
  shows "linked d'"
  unfolding linked_def
proof (intro conjI rowsI)
  have old: "rows (environment_row d) (map_of (rt_environments d))"
    "rows (placement_row d) (map_of (rt_placements d))" "rows (release_row d) (map_of (rt_releases d))"
    "rows (deployment_row d) (map_of (rt_deployments d))" "rows (commit_row d) (rt_commits d)"
    "rows (key_row d) (rt_idempotency d)" "rows application_row (map_of (rt_applications d))"
    "rows cell_row (map_of (rt_cells d))"
    using assms(1) by (simp_all add: linked_def)
  fix k
  show "map_of (rt_applications d') k = Some v \<Longrightarrow> application_row k v" for v
    using assms(3) old(7) by (meson rowsD)
  show "map_of (rt_environments d') k = Some v \<Longrightarrow> environment_row d' k v" for v
    using assms(4) old(1) environment_row_later[OF _ l] by (meson rowsD)
  show "map_of (rt_cells d') k = Some v \<Longrightarrow> cell_row k v" for v
    using assms(5) old(8) by (meson rowsD)
  show "map_of (rt_placements d') k = Some v \<Longrightarrow> placement_row d' k v" for v
    using assms(6) old(2) placement_row_later[OF _ l] by (meson rowsD)
  show "map_of (rt_releases d') k = Some v \<Longrightarrow> release_row d' k v" for v
    using assms(7) old(3) release_row_later[OF _ l] by (meson rowsD)
  show "map_of (rt_deployments d') k = Some v \<Longrightarrow> deployment_row d' k v" for v
    using assms(8) old(4) deployment_row_later[OF _ l] by (meson rowsD)
  show "rt_commits d' k = Some v \<Longrightarrow> commit_row d' k v" for v
    using assms(9) old(5) commit_row_later[OF _ l] by (meson rowsD)
  show "rt_idempotency d' k = Some v \<Longrightarrow> key_row d' k v" for v
    using assms(10) old(6) key_row_later[OF _ l] by (meson rowsD)
qed

lemma linkedD:
  "linked d \<Longrightarrow> map_of (rt_environments d) k = Some e \<Longrightarrow> environment_row d k e"
  "linked d \<Longrightarrow> map_of (rt_cells d) k = Some c \<Longrightarrow> cell_row k c"
  "linked d \<Longrightarrow> map_of (rt_placements d) k = Some p \<Longrightarrow> placement_row d k p"
  "linked d \<Longrightarrow> map_of (rt_releases d) k = Some r \<Longrightarrow> release_row d k r"
  "linked d \<Longrightarrow> map_of (rt_deployments d) k = Some x \<Longrightarrow> deployment_row d k x"
  "linked d \<Longrightarrow> rt_commits d k = Some g \<Longrightarrow> commit_row d k g"
  "linked d \<Longrightarrow> map_of (rt_applications d) k = Some a \<Longrightarrow> application_row k a"
  "linked d \<Longrightarrow> rt_idempotency d k = Some v \<Longrightarrow> key_row d k v"
  by (simp_all add: linked_def rows_def)

section \<open>Writes to one table\<close>

text \<open>What the invariant says of the other tables does not change.\<close>

lemma apart_replace:
  assumes "apart R m" and "m k = Some v" and "\<And>w. R v w \<Longrightarrow> R v' w" and "\<And>w. R w v \<Longrightarrow> R w v'"
  shows "apart R (m(k \<mapsto> v'))"
  using assms(1) by (rule apart_update) (use assms in \<open>auto dest: apartD\<close>)

lemma accounted_same:
  "accounted d \<Longrightarrow> rt_cells d' = rt_cells d \<Longrightarrow> rt_placements d' = rt_placements d \<Longrightarrow> accounted d'"
  by (simp add: accounted_def)

lemma phased_same:
  "phased d \<Longrightarrow> rt_deployments d' = rt_deployments d \<Longrightarrow> rt_releases d' = rt_releases d \<Longrightarrow>
   rt_commits d' = rt_commits d \<Longrightarrow> phased d'"
  by (simp only: phased_def)

lemma activated_same:
  "activated d \<Longrightarrow> rt_environments d' = rt_environments d \<Longrightarrow> rt_releases d' = rt_releases d \<Longrightarrow>
   activated d'"
  by (simp add: activated_def)

lemma distinguished_same:
  "distinguished d \<Longrightarrow> rt_applications d' = rt_applications d \<Longrightarrow>
   rt_environments d' = rt_environments d \<Longrightarrow> rt_releases d' = rt_releases d \<Longrightarrow>
   rt_deployments d' = rt_deployments d \<Longrightarrow> distinguished d'"
  by (simp add: distinguished_def)

lemma runtime_okD:
  "runtime_ok d \<Longrightarrow> tables_wf d" "runtime_ok d \<Longrightarrow> linked d" "runtime_ok d \<Longrightarrow> accounted d"
  "runtime_ok d \<Longrightarrow> phased d" "runtime_ok d \<Longrightarrow> activated d" "runtime_ok d \<Longrightarrow> distinguished d"
  by (simp_all add: runtime_ok_def)

lemma runtime_okI:
  "tables_wf d \<Longrightarrow> linked d \<Longrightarrow> accounted d \<Longrightarrow> phased d \<Longrightarrow> activated d \<Longrightarrow> distinguished d \<Longrightarrow>
   runtime_ok d"
  by (simp add: runtime_ok_def)

lemma application_inserted_ok:
  assumes "runtime_ok d" and "InsertApplication a d = Inr d'"
    and "ValidPlatformID (app_id a)" and "ValidPlatformID (app_tenant a)"
  shows "runtime_ok d'"
proof -
  from InsertApplication_Inr[OF assms(2)] have new: "map_of (rt_applications d) (app_id a) = None"
    and name: "FindApplicationByTenantName (app_tenant a) (app_name a) d = None"
    and d': "d' = d\<lparr>rt_applications := AList.update (app_id a) a (rt_applications d)\<rparr>" by auto
  have wf: "tables_wf d" and ok: "linked d" "accounted d" "phased d" "activated d" "distinguished d"
    using assms(1) by (auto simp: runtime_ok_def)
  have "linked d'"
    by (rule linked_later[OF ok(1) InsertApplication_later[OF assms(2)]])
      (use assms(3,4) in \<open>auto simp: d' application_row_def split: if_splits\<close>)
  moreover have "app_tenant v = app_tenant a \<Longrightarrow> app_name v \<noteq> app_name a"
    if "map_of (rt_applications d) k = Some v" for k v
    using name wf that by (auto simp: FindApplicationByTenantName_def find_row_None tables_wf_def
        simp del: map_of_eq_Some_iff)
  then have "distinguished d'"
    using ok(5) by (fastforce simp: distinguished_def apart_defs d' intro!: apart_update)
  ultimately show ?thesis
    using wf by (intro runtime_okI accounted_same[OF ok(2)] phased_same[OF ok(3)] activated_same[OF ok(4)])
      (simp_all add: d' tables_wf_def)
qed

lemma environment_conflict_None:
  "environment_conflict v es = None \<Longrightarrow> f \<in> set es \<Longrightarrow>
     env_namespace f \<noteq> env_namespace v \<and>
     (env_application f = env_application v \<longrightarrow> env_name f \<noteq> env_name v \<and> \<not> (env_default v \<and> env_default f))"
  by (induction es) (auto split: if_splits)

lemma environment_inserted_ok:
  assumes "runtime_ok d" and "InsertEnvironment e d = Inr d'" and "ValidPlatformID (env_id e)"
    and "map_of (rt_applications d) (env_application e) = Some a" and "app_tenant a = env_tenant e"
    and "env_placement e = []" and "env_active_release e = []"
  shows "runtime_ok d'"
proof -
  from InsertEnvironment_Inr[OF assms(2)] have new: "map_of (rt_environments d) (env_id e) = None"
    and free: "environment_conflict e (map snd (rt_environments d)) = None"
    and d': "d' = d\<lparr>rt_environments := AList.update (env_id e) e (rt_environments d)\<rparr>" by auto
  have wf: "tables_wf d" and ok: "linked d" "accounted d" "phased d" "activated d" "distinguished d"
    using assms(1) by (auto simp: runtime_ok_def)
  have "linked d'"
    by (rule linked_later[OF ok(1) InsertEnvironment_later[OF assms(2)]])
      (use assms(3-) in \<open>auto simp: d' environment_row_def split: if_splits\<close>)
  moreover have "distinguished d'"
    using ok(5) wf environment_conflict_None[OF free]
    by (fastforce simp: distinguished_def apart_defs d' tables_wf_def intro!: apart_update
        dest: map_of_SomeD)
  moreover have "activated d'"
  proof -
    have "rel_environment r \<noteq> env_id e" if "map_of (rt_releases d) k = Some r" for k r
      using linkedD(4)[OF ok(1) that] new by (auto simp: release_row_def)
    with ok(4) show ?thesis by (auto simp: activated_def d')
  qed
  ultimately show ?thesis
    using wf by (intro runtime_okI accounted_same[OF ok(2)] phased_same[OF ok(3)]) (simp_all add: d' tables_wf_def)
qed

lemma cell_inserted_ok:
  assumes "runtime_ok d" and "InsertRuntimeCell c d = Inr d'"
    and "cell_allocated c = 0" and "0 < cell_capacity c" and "int64 (cell_capacity c)"
  shows "runtime_ok d'"
proof -
  from InsertRuntimeCell_Inr[OF assms(2)] have new: "map_of (rt_cells d) (cell_id c) = None"
    and d': "d' = d\<lparr>rt_cells := AList.update (cell_id c) c (rt_cells d)\<rparr>" by auto
  note ok = runtime_okD[OF assms(1)]
  have "linked d'"
    by (rule linked_later[OF ok(2) InsertRuntimeCell_later[OF assms(2)]])
      (use assms(4,5) in \<open>auto simp: d' cell_row_def split: if_splits\<close>)
  moreover have "accounted d'"
  proof -
    have "pl_cell p \<noteq> cell_id c" if "(k, p) \<in> set (rt_placements d)" for k p
      using linkedD(3)[OF ok(2), of k p] that ok(1) new by (auto simp: placement_row_def tables_wf_def)
    then have "sum_rows (\<lambda>p. pl_cell p = cell_id c) pl_units (rt_placements d) = 0"
      by (intro sum_rows_none) auto
    with ok(3) assms(3,4) show ?thesis by (auto simp: accounted_def d' intro!: rows_update)
  qed
  ultimately show ?thesis
    using ok(1) by (intro runtime_okI phased_same[OF ok(4)] activated_same[OF ok(5)] distinguished_same[OF ok(6)])
      (simp_all add: d' tables_wf_def)
qed

section \<open>Placements\<close>

text \<open>The allocation of a cell is not negative, and additions within its capacity do not wrap.\<close>

lemma placement_units_pos:
  "linked d \<Longrightarrow> tables_wf d \<Longrightarrow> v \<in> snd ` set (rt_placements d) \<Longrightarrow> 0 < pl_units v"
  by (auto simp: tables_wf_def dest: linkedD(3) simp: placement_row_def)

lemma cell_allocated_nonneg:
  assumes "runtime_ok d" and "map_of (rt_cells d) k = Some c"
  shows "0 \<le> cell_allocated c" "cell_allocated c \<le> cell_capacity c" "int64 (cell_capacity c)" "cell_id c = k"
    "cell_allocated c = sum_rows (\<lambda>p. pl_cell p = k) pl_units (rt_placements d)"
proof -
  note ok = runtime_okD[OF assms(1)]
  have "0 \<le> sum_rows (\<lambda>p. pl_cell p = k) pl_units (rt_placements d)"
    using placement_units_pos[OF ok(2,1)] by (intro sum_rows_nonneg) force
  moreover from ok(3) assms(2) show "cell_allocated c \<le> cell_capacity c"
    and "cell_allocated c = sum_rows (\<lambda>p. pl_cell p = k) pl_units (rt_placements d)"
    by (auto simp: accounted_def dest: rowsD)
  ultimately show "0 \<le> cell_allocated c" by simp
  from linkedD(2)[OF ok(2) assms(2)] show "int64 (cell_capacity c)" "cell_id c = k"
    by (auto simp: cell_row_def)
qed

lemma Cell_Allocate_Inr:
  assumes "Cell_Allocate n now c = Inr c'" and "0 \<le> cell_allocated c"
    and "cell_allocated c \<le> cell_capacity c" and "int64 (cell_capacity c)" and "int64 n"
  shows "0 < n \<and> cell_state c = CellActive \<and> cell_allocated c + n \<le> cell_capacity c \<and>
    c' = c\<lparr>cell_allocated := cell_allocated c + n, cell_version := cell_version c + 1, cell_updated_at := now\<rparr>"
proof -
  from assms(1) have n: "0 < n" "cell_allocated c \<le> sub64 (cell_capacity c) n" "cell_state c = CellActive"
    and c': "c' = c\<lparr>cell_allocated := add64 (cell_allocated c) n, cell_version := cell_version c + 1,
               cell_updated_at := now\<rparr>"
    by (auto simp: Cell_Allocate_def split: if_splits)
  have "int64 (cell_capacity c - n)" using assms(2-5) n(1) by (auto simp: int64_defs)
  then have "sub64 (cell_capacity c) n = cell_capacity c - n" by (rule wrap64_id)
  with n(2) have le: "cell_allocated c + n \<le> cell_capacity c" by simp
  then have "int64 (cell_allocated c + n)" using assms(2,4) n(1) by (auto simp: int64_defs)
  then have "add64 (cell_allocated c) n = cell_allocated c + n" by (rule wrap64_id)
  with le n(1,3) c' show ?thesis by simp
qed

lemma Cell_Release_Inr:
  assumes "Cell_Release n now c = Inr c'" and "cell_allocated c \<le> cell_capacity c"
    and "int64 (cell_capacity c)"
  shows "0 < n \<and> n \<le> cell_allocated c \<and>
    c' = c\<lparr>cell_allocated := cell_allocated c - n, cell_version := cell_version c + 1, cell_updated_at := now\<rparr>"
proof -
  from assms(1) have n: "0 < n" "n \<le> cell_allocated c"
    and c': "c' = c\<lparr>cell_allocated := sub64 (cell_allocated c) n, cell_version := cell_version c + 1,
               cell_updated_at := now\<rparr>"
    by (auto simp: Cell_Release_def split: if_splits)
  then have "int64 (cell_allocated c - n)" using assms(2,3) by (auto simp: int64_defs)
  then show ?thesis using n c' by (simp add: wrap64_id)
qed

text \<open>The cell of a placement that is resized: its allocation moves by the difference.\<close>

lemma resize_cell:
  assumes "(if 0 < sub64 units n then Cell_Allocate (sub64 units n) now c
            else Cell_Release (wrap64 (- sub64 units n)) now c) = Inr c'"
    and "0 < units" and "int64 units" and "0 < n" and "int64 n" and "0 \<le> cell_allocated c"
    and "cell_allocated c \<le> cell_capacity c" and "int64 (cell_capacity c)"
  shows "cell_allocated c + (units - n) \<le> cell_capacity c \<and>
    c' = c\<lparr>cell_allocated := cell_allocated c + (units - n), cell_version := cell_version c + 1,
           cell_updated_at := now\<rparr>"
proof -
  have "int64 (units - n)" and "int64 (n - units)" using assms(2-5) by (auto simp: int64_defs)
  then have d: "sub64 units n = units - n" "wrap64 (- (units - n)) = n - units"
    by (simp_all add: wrap64_id)
  show ?thesis
  proof (cases "0 < units - n")
    case True
    with assms(1) d have "Cell_Allocate (units - n) now c = Inr c'" by simp
    from Cell_Allocate_Inr[OF this assms(6,7,8) \<open>int64 (units - n)\<close>] show ?thesis by simp
  next
    case False
    with assms(1) d have "Cell_Release (n - units) now c = Inr c'" by simp
    from Cell_Release_Inr[OF this assms(7,8)] assms(7) show ?thesis by (simp add: algebra_simps)
  qed
qed

lemma SetPlacement_Inr:
  "SetPlacement i now e = Inr e' \<Longrightarrow> ValidPlatformID i \<Longrightarrow>
     (env_placement e = i \<and> e' = e) \<or>
     (env_placement e = [] \<and>
      e' = e\<lparr>env_placement := i, env_version := env_version e + 1, env_updated_at := now\<rparr>)"
  by (auto simp: SetPlacement_def Let_def TrimSpace_PlatformID split: if_splits)

lemma placed_ok:
  assumes "runtime_ok d" and "later d d3" and hyps:
    "map_of (rt_environments d) (env_id e) = Some e" "map_of (rt_cells d) (cell_id c) = Some c"
    "ValidPlatformID (pl_id p)" "pl_environment p = env_id e" "pl_tenant p = env_tenant e"
    "pl_cell p = cell_id c" "pl_region p = cell_region c" "supports c (pl_isolation p)"
    "pl_current p" "int64 (pl_units p)" "Cell_Allocate (pl_units p) now c = Inr c'"
    "UpdateRuntimeCell c' (cell_version c) d = Inr d1" "InsertPlacement p d1 = Inr d2"
    "SetPlacement (pl_id p) now e = Inr e'" "UpdateEnvironment e' (env_version e) d2 = Inr d3"
  shows "runtime_ok d3"
proof -
  note ok = runtime_okD[OF assms(1)]
  note cell = cell_allocated_nonneg[OF assms(1) hyps(2)]
  note c' = Cell_Allocate_Inr[OF hyps(11) cell(1,2,3) hyps(10)]
  have d1: "d1 = d\<lparr>rt_cells := AList.update (cell_id c) c' (rt_cells d)\<rparr>"
    using UpdateRuntimeCell_Inr[OF hyps(12)] c' by auto
  have new: "map_of (rt_placements d) (pl_id p) = None"
    and d2: "d2 = d1\<lparr>rt_placements := AList.update (pl_id p) p (rt_placements d)\<rparr>"
    using InsertPlacement_Inr[OF hyps(13)] d1 by auto
  have "env_placement e \<noteq> pl_id p"
    using linkedD(1)[OF ok(2) hyps(1)] new ValidPlatformID_not_Nil[OF hyps(3)]
    by (auto simp: environment_row_def)
  with SetPlacement_Inr[OF hyps(14,3)] have unplaced: "env_placement e = []"
    and e': "e' = e\<lparr>env_placement := pl_id p, env_version := env_version e + 1, env_updated_at := now\<rparr>"
    by auto
  have d3: "d3 = d\<lparr>rt_cells := AList.update (cell_id c) c' (rt_cells d),
                   rt_placements := AList.update (pl_id p) p (rt_placements d),
                   rt_environments := AList.update (env_id e) e' (rt_environments d)\<rparr>"
    using UpdateEnvironment_Inr[OF hyps(15)] e' d1 d2 by auto
  have "linked d3"
  proof (rule linked_later[OF ok(2) assms(2)], goal_cases)
    case (2 k v)
    with linkedD(1)[OF ok(2) hyps(1)] hyps(3,4) show ?case
      by (auto simp: d3 e' environment_row_def split: if_splits)
  next
    case (3 k v)
    with linkedD(2)[OF ok(2) hyps(2)] c' show ?case by (auto simp: d3 cell_row_def split: if_splits)
  next
    case (4 k v)
    with hyps c' show ?case by (auto simp: d3 e' placement_row_def supports_def split: if_splits)
  qed (auto simp: d3)
  moreover have "accounted d3"
    unfolding accounted_def
  proof (rule rowsI)
    fix k v assume v: "map_of (rt_cells d3) k = Some v"
    show "cell_allocated v = sum_rows (\<lambda>p. pl_cell p = k) pl_units (rt_placements d3) \<and>
          cell_allocated v \<le> cell_capacity v"
    proof (cases "k = cell_id c")
      case True
      with v c' cell(5) new hyps(6) show ?thesis by (auto simp: d3 sum_rows_insert)
    next
      case False
      with v have "map_of (rt_cells d) k = Some v" by (simp add: d3)
      with False new hyps(6) cell_allocated_nonneg[OF assms(1)] show ?thesis
        by (simp add: d3 sum_rows_insert)
    qed
  qed
  moreover have "activated d3"
    using ok(5) hyps(1) by (fastforce simp: activated_def d3 e' split: if_splits)
  moreover have "distinguished d3"
    using ok(6) apart_replace[of environments_apart "map_of (rt_environments d)" "env_id e" e e'] hyps(1)
    by (simp add: distinguished_def d3 e' environments_apart_def)
  ultimately show ?thesis
    using ok(1) by (intro runtime_okI phased_same[OF ok(4)]) (simp_all add: d3 tables_wf_def)
qed

lemma resized_ok:
  assumes "runtime_ok d" and "later d d2" and hyps:
    "map_of (rt_placements d) (pl_id p) = Some p" "map_of (rt_cells d) (pl_cell p) = Some c"
    "cell_id c = pl_cell p" "int64 units" "pl_units p \<noteq> units"
    "(if 0 < sub64 units (pl_units p) then Cell_Allocate (sub64 units (pl_units p)) now c
      else Cell_Release (wrap64 (- sub64 units (pl_units p))) now c) = Inr c'"
    "Resize units now p = Inr p'" "UpdateRuntimeCell c' (cell_version c) d = Inr d1"
    "UpdatePlacement p' (pl_version p) d1 = Inr d2"
  shows "runtime_ok d2"
proof -
  note ok = runtime_okD[OF assms(1)]
  note cell = cell_allocated_nonneg[OF assms(1) hyps(2)]
  have row: "placement_row d (pl_id p) p" using linkedD(3)[OF ok(2) hyps(1)] .
  have units: "0 < units" and p': "p' = p\<lparr>pl_units := units, pl_version := pl_version p + 1, pl_updated_at := now\<rparr>"
    using hyps(5,7) by (auto simp: Resize_def split: if_splits)
  have pos: "0 < pl_units p" "int64 (pl_units p)" using row by (auto simp: placement_row_def)
  note c' = resize_cell[OF hyps(6) units hyps(4) pos cell(1,2,3)]
  have d2: "d2 = d\<lparr>rt_cells := AList.update (pl_cell p) c' (rt_cells d),
                   rt_placements := AList.update (pl_id p) p' (rt_placements d)\<rparr>"
    using UpdateRuntimeCell_Inr[OF hyps(8)] UpdatePlacement_Inr[OF hyps(9)] c' p' hyps(3) by auto
  have "linked d2"
  proof (rule linked_later[OF ok(2) assms(2)], goal_cases)
    case (3 k v)
    with linkedD(2)[OF ok(2) hyps(2)] c' show ?case by (auto simp: d2 cell_row_def split: if_splits)
  next
    case (4 k v)
    then have "k = pl_id p" and v: "v = p'" by (auto simp: d2 split: if_splits)
    with placement_row_later[OF row assms(2)] units hyps(4) show ?case
      by (simp add: p' placement_row_def)
  qed (auto simp: d2)
  moreover have "accounted d2"
    unfolding accounted_def
  proof (rule rowsI)
    fix k v assume v: "map_of (rt_cells d2) k = Some v"
    have sum: "sum_rows (\<lambda>p. pl_cell p = k) pl_units (rt_placements d2) =
        sum_rows (\<lambda>p. pl_cell p = k) pl_units (rt_placements d)
        + (if pl_cell p = k then units - pl_units p else 0)"
      using ok(1) by (simp add: d2 p' sum_rows_update[OF _ hyps(1)] tables_wf_def)
    show "cell_allocated v = sum_rows (\<lambda>p. pl_cell p = k) pl_units (rt_placements d2) \<and>
          cell_allocated v \<le> cell_capacity v"
    proof (cases "k = pl_cell p")
      case True
      with v c' cell(5) sum show ?thesis by (auto simp: d2)
    next
      case False
      with v have "map_of (rt_cells d) k = Some v" by (simp add: d2)
      with False sum cell_allocated_nonneg[OF assms(1)] show ?thesis by simp
    qed
  qed
  ultimately show ?thesis
    using ok(1) by (intro runtime_okI phased_same[OF ok(4)] activated_same[OF ok(5)] distinguished_same[OF ok(6)])
      (simp_all add: d2 tables_wf_def)
qed

section \<open>Releases and deployments\<close>

text \<open>A release without a deployment has only been validated.\<close>

lemma undeployed_release:
  "runtime_ok d \<Longrightarrow> map_of (rt_releases d) k = Some r \<Longrightarrow> FindDeploymentByRelease k d = None \<Longrightarrow>
   rel_state r = ReleaseValidated"
  by (frule runtime_okD(1), drule runtime_okD(2), drule (1) linkedD(4))
    (auto simp: FindDeploymentByRelease_def find_row_None tables_wf_def release_row_def
      simp del: map_of_eq_Some_iff)

lemma phasedD:
  "runtime_ok d \<Longrightarrow> map_of (rt_deployments d) i = Some x \<Longrightarrow> map_of (rt_releases d) (dep_release x) = Some r \<Longrightarrow>
   in_step (rel_state r) (dep_phase x) \<and> (dep_phase x = DeploymentPending \<longleftrightarrow> dep_commit x = []) \<and>
   (dep_phase x = DeploymentPending \<longleftrightarrow> rt_commits d (dep_release x) = None)"
  by (auto simp: runtime_ok_def phased_def)

lemma deployment_release:
  "runtime_ok d \<Longrightarrow> map_of (rt_deployments d) i = Some x \<Longrightarrow>
   \<exists>r. map_of (rt_releases d) (dep_release x) = Some r"
  by (drule runtime_okD(2), drule (1) linkedD(5)) (auto simp: deployment_row_def)

lemma one_deployment:
  "runtime_ok d \<Longrightarrow> map_of (rt_deployments d) i = Some x \<Longrightarrow> map_of (rt_deployments d) j = Some y \<Longrightarrow>
   dep_release x = dep_release y \<Longrightarrow> i = j"
  by (auto simp: runtime_ok_def distinguished_def deployments_apart_def dest: apartD)

lemma release_inserted_ok:
  assumes "runtime_ok d" and "InsertRelease r d = Inr d'" and hyps:
    "ValidPlatformID (rel_id r)" "map_of (rt_environments d) (rel_environment r) = Some e"
    "rel_tenant r = env_tenant e" "rel_application r = env_application e" "env_placement e \<noteq> []"
    "rel_state r = ReleaseValidated"
  shows "runtime_ok d'"
proof -
  from InsertRelease_Inr[OF assms(2)] have new: "map_of (rt_releases d) (rel_id r) = None"
    and unique: "rel_rollback_of r = [] \<longrightarrow>
        FindReleaseByIdentity (rel_tenant r) (rel_environment r) (rel_identity r) d = None"
    and d': "d' = d\<lparr>rt_releases := AList.update (rel_id r) r (rt_releases d)\<rparr>" by auto
  note ok = runtime_okD[OF assms(1)]
  have "linked d'"
    by (rule linked_later[OF ok(2) InsertRelease_later[OF assms(2)]])
      (use hyps in \<open>auto simp: d' release_row_def split: if_splits\<close>)
  moreover have "phased d'"
  proof -
    have "dep_release x \<noteq> rel_id r" if "map_of (rt_deployments d) i = Some x" for i x
      using deployment_release[OF assms(1) that] new by auto
    with ok(4) show ?thesis unfolding phased_def by (auto simp: d')
  qed
  moreover have "activated d'" using ok(5) hyps(6) by (auto simp: activated_def d')
  moreover have "\<not> (rel_tenant s = rel_tenant r \<and> rel_environment s = rel_environment r \<and>
      rel_identity s = rel_identity r \<and> rel_rollback_of s = [] \<and> rel_rollback_of r = [])"
    if "map_of (rt_releases d) k = Some s" for k s
    using unique ok(1) that by (auto simp: FindReleaseByIdentity_def find_row_None tables_wf_def
        simp del: map_of_eq_Some_iff)
  then have "distinguished d'" using ok(6) by (fastforce simp: distinguished_def apart_defs d' intro!: apart_update)
  ultimately show ?thesis
    using ok(1) by (intro runtime_okI accounted_same[OF ok(3)]) (simp_all add: d' tables_wf_def)
qed

lemma deployment_inserted_ok:
  assumes "runtime_ok d" and "InsertDeployment x d = Inr d'" and hyps:
    "map_of (rt_releases d) (dep_release x) = Some r" "dep_tenant x = rel_tenant r"
    "dep_application x = rel_application r" "dep_environment x = rel_environment r"
    "map_of (rt_placements d) (dep_placement x) = Some p" "pl_environment p = dep_environment x"
    "dep_phase x = DeploymentPending" "dep_commit x = []"
  shows "runtime_ok d'"
proof -
  from InsertDeployment_Inr[OF assms(2)] have new: "map_of (rt_deployments d) (dep_id x) = None"
    and first: "FindDeploymentByRelease (dep_release x) d = None"
    and d': "d' = d\<lparr>rt_deployments := AList.update (dep_id x) x (rt_deployments d)\<rparr>" by auto
  note ok = runtime_okD[OF assms(1)]
  have others: "dep_release y \<noteq> dep_release x" if "map_of (rt_deployments d) k = Some y" for k y
    using first ok(1) that by (auto simp: FindDeploymentByRelease_def find_row_None tables_wf_def
        simp del: map_of_eq_Some_iff)
  have "linked d'"
    by (rule linked_later[OF ok(2) InsertDeployment_later[OF assms(2)]])
      (use hyps in \<open>auto simp: d' deployment_row_def split: if_splits\<close>)
  moreover have "phased d'"
  proof -
    have "rel_state r = ReleaseValidated" using undeployed_release[OF assms(1) hyps(1) first] .
    moreover have "rt_commits d (dep_release x) = None"
    proof (rule ccontr)
      assume "rt_commits d (dep_release x) \<noteq> None"
      then obtain g where "rt_commits d (dep_release x) = Some g" by blast
      from linkedD(6)[OF ok(2) this] others show False by (auto simp: commit_row_def)
    qed
    ultimately show ?thesis using ok(4) hyps(1,7,8) unfolding phased_def by (auto simp: d')
  qed
  moreover have "distinguished d'"
    using ok(6) others by (fastforce simp: distinguished_def apart_defs d' intro!: apart_update)
  ultimately show ?thesis
    using ok(1) by (intro runtime_okI accounted_same[OF ok(3)] activated_same[OF ok(5)])
      (simp_all add: d' tables_wf_def)
qed

text \<open>
  A deployment, its release and its environment move together: the new rows are in step, and what
  the environment points to is or was active.
\<close>

definition sole_active :: "runtime_data \<Rightarrow> environment \<Rightarrow> release \<Rightarrow> bool" where
  "sole_active d e r \<longleftrightarrow>
     (\<forall>k other. map_of (rt_releases d) k = Some other \<longrightarrow> rel_environment other = env_id e \<longrightarrow>
        rel_state other = ReleaseActive \<longrightarrow> k = rel_id r)"

definition moved :: "runtime_data \<Rightarrow> runtime_data \<Rightarrow> deployment \<Rightarrow> release \<Rightarrow> environment \<Rightarrow>
    deployment \<Rightarrow> release \<Rightarrow> environment \<Rightarrow> bool" where
  "moved d d' x r e x' r' e' \<longleftrightarrow>
     map_of (rt_deployments d) (dep_id x) = Some x \<and> map_of (rt_releases d) (rel_id r) = Some r \<and>
     map_of (rt_environments d) (env_id e) = Some e \<and> rel_id r = dep_release x \<and>
     env_id e = rel_environment r \<and>
     map_of (rt_deployments d') = (map_of (rt_deployments d))(dep_id x \<mapsto> x') \<and>
     map_of (rt_releases d') = (map_of (rt_releases d))(rel_id r \<mapsto> r') \<and>
     map_of (rt_environments d') = (map_of (rt_environments d))(env_id e \<mapsto> e') \<and>
     rt_applications d' = rt_applications d \<and> rt_cells d' = rt_cells d \<and>
     rt_placements d' = rt_placements d \<and> rt_idempotency d' = rt_idempotency d \<and> tables_wf d'"

lemma moved_ok:
  assumes "runtime_ok d" and l: "later d d'" and m: "moved d d' x r e x' r' e'"
    and x': "deployment_moves x x'" and r': "release_moves r r'" and e': "environment_evolves e e'"
    and step: "in_step (rel_state r') (dep_phase x')"
    and commit: "dep_phase x' = DeploymentPending \<longleftrightarrow> dep_commit x' = []"
      "dep_phase x' = DeploymentPending \<longleftrightarrow> rt_commits d' (dep_release x) = None"
      "rt_commits d' = rt_commits d \<or>
       (\<exists>g. rt_commits d' = (rt_commits d)(dep_release x \<mapsto> g) \<and> gc_release g = dep_release x \<and>
            gc_deployment g = dep_id x \<and> dep_commit x' = TrimSpace (gc_sha g) \<and> dep_commit x' \<noteq> [])"
    and active: "rel_state r' = ReleaseActive \<Longrightarrow> env_active_release e' = rel_id r"
      "env_active_release e' = env_active_release e \<or>
       (env_active_release e' = rel_id r \<and> rel_state r' \<in> {ReleaseActive, ReleaseSuperseded} \<and>
        sole_active d e r)"
    and placement: "env_placement e' = env_placement e"
  shows "runtime_ok d'"
proof -
  note ok = runtime_okD[OF assms(1)]
  have rows: "map_of (rt_deployments d) (dep_id x) = Some x" "map_of (rt_releases d) (rel_id r) = Some r"
    "map_of (rt_environments d) (env_id e) = Some e" and ids: "rel_id r = dep_release x" "env_id e = rel_environment r"
    and d': "map_of (rt_deployments d') = (map_of (rt_deployments d))(dep_id x \<mapsto> x')"
      "map_of (rt_releases d') = (map_of (rt_releases d))(rel_id r \<mapsto> r')"
      "map_of (rt_environments d') = (map_of (rt_environments d))(env_id e \<mapsto> e')"
    and same: "rt_applications d' = rt_applications d" "rt_cells d' = rt_cells d"
      "rt_placements d' = rt_placements d" "rt_idempotency d' = rt_idempotency d" and wf: "tables_wf d'"
    using m unfolding moved_def by blast+
  note fx = deployment_moves_fields[OF x'] and fr = release_moves_fields[OF r']
    and fe = environment_evolves_fields[OF e']
  have "linked d'"
  proof (rule linked_later[OF ok(2) l], goal_cases)
    case (2 k v)
    then have k: "k = env_id e" "v = e'" by (auto simp: d' split: if_splits)
    from environment_row_later[OF linkedD(1)[OF ok(2) rows(3)] l] active(2) ids fe fr placement
    show ?case unfolding k by (auto simp: environment_row_def d')
  next
    case (5 k v)
    then have k: "k = rel_id r" "v = r'" by (auto simp: d' split: if_splits)
    have "map_of (rt_deployments d') (dep_id x) = Some x'" "dep_release x' = rel_id r"
      using fx ids by (simp_all add: d')
    with release_row_later[OF linkedD(4)[OF ok(2) rows(2)] l] fr show ?case
      unfolding k release_row_def by auto
  next
    case (6 k v)
    then have k: "k = dep_id x" "v = x'" by (auto simp: d' split: if_splits)
    from deployment_row_later[OF linkedD(5)[OF ok(2) rows(1)] l] fx show ?case
      unfolding k by (simp add: deployment_row_def)
  next
    case (7 k v)
    with commit(3) fx show ?case by (auto simp: commit_row_def d' split: if_splits)
  qed (auto simp: same)
  moreover have "phased d'"
    unfolding phased_def
  proof (intro allI impI, goal_cases)
    case (1 i y s)
    show ?case
    proof (cases "i = dep_id x")
      case True
      with 1 fx ids step commit(1,2) show ?thesis by (auto simp: d')
    next
      case False
      with 1(1) have y: "map_of (rt_deployments d) i = Some y" by (simp add: d')
      with False one_deployment[OF assms(1) y rows(1)] have "dep_release y \<noteq> dep_release x" by blast
      with 1(2) y commit(3) ids phasedD[OF assms(1) y, of s] show ?thesis by (auto simp: d')
    qed
  qed
  moreover have "activated d'"
    unfolding activated_def
  proof (intro allI impI, goal_cases)
    case (1 k s f)
    show ?case
    proof (cases "k = rel_id r")
      case True
      with 1 active(1) ids fr show ?thesis by (auto simp: d')
    next
      case False
      with 1(1) have s: "map_of (rt_releases d) k = Some s" by (simp add: d')
      show ?thesis
      proof (cases "rel_environment s = env_id e")
        case True
        with 1(3) have "f = e'" by (simp add: d')
        moreover from True s 1(2) rows(3) ok(5) have "env_active_release e = k" by (auto simp: activated_def)
        ultimately show ?thesis using active(2) s 1(2) True False by (auto simp: sole_active_def)
      next
        case False
        with 1(3) s 1(2) ok(5) show ?thesis by (auto simp: activated_def d')
      qed
    qed
  qed
  moreover have "distinguished d'"
    using ok(6) unfolding distinguished_def same d'
  proof (elim conjE, intro conjI)
    show "apart environments_apart (map_of (rt_environments d)) \<Longrightarrow>
        apart environments_apart ((map_of (rt_environments d))(env_id e \<mapsto> e'))"
      by (erule apart_replace) (use rows(3) fe in \<open>auto simp: apart_defs\<close>)
    show "apart releases_apart (map_of (rt_releases d)) \<Longrightarrow>
        apart releases_apart ((map_of (rt_releases d))(rel_id r \<mapsto> r'))"
      by (erule apart_replace) (use rows(2) fr in \<open>auto simp: apart_defs\<close>)
    show "apart deployments_apart (map_of (rt_deployments d)) \<Longrightarrow>
        apart deployments_apart ((map_of (rt_deployments d))(dep_id x \<mapsto> x'))"
      by (erule apart_replace) (use rows(1) fx in \<open>auto simp: apart_defs\<close>)
  qed
  ultimately show ?thesis
    using wf accounted_same[OF ok(3), of d'] same by (intro runtime_okI) simp_all
qed

lemma release_has_deployment:
  assumes "runtime_ok d" and "map_of (rt_releases d) k = Some r" and "rel_state r \<noteq> ReleaseValidated"
  shows "\<exists>x. map_of (rt_deployments d) (dep_id x) = Some x \<and> dep_release x = k"
proof -
  note ok = runtime_okD[OF assms(1)]
  from linkedD(4)[OF ok(2) assms(2)] assms(3) obtain i x
    where x: "map_of (rt_deployments d) i = Some x" "dep_release x = k" by (auto simp: release_row_def)
  with linkedD(5)[OF ok(2) x(1)] show ?thesis by (intro exI[of _ x]) (simp add: deployment_row_def)
qed

lemma release_environment:
  assumes "runtime_ok d" and "map_of (rt_releases d) k = Some r"
  shows "\<exists>e. map_of (rt_environments d) (env_id e) = Some e \<and> env_id e = rel_environment r"
proof -
  note ok = runtime_okD[OF assms(1)]
  from linkedD(4)[OF ok(2) assms(2)] obtain e where e: "map_of (rt_environments d) (rel_environment r) = Some e"
    by (auto simp: release_row_def)
  with linkedD(1)[OF ok(2) e] show ?thesis by (intro exI[of _ e]) (simp add: environment_row_def)
qed

lemma superseded_ok:
  assumes "runtime_ok d" and "later d d'" and hyps: "map_of (rt_releases d) (rel_id r) = Some r"
    "rel_state r = ReleaseActive" "Release_Transition ReleaseSuperseded now r = Inr r'"
    "UpdateRelease r' (rel_version r) d = Inr d'"
  shows "runtime_ok d'"
proof -
  obtain x where x: "map_of (rt_deployments d) (dep_id x) = Some x" "dep_release x = rel_id r"
    using release_has_deployment[OF assms(1) hyps(1)] hyps(2) by auto
  obtain e where e: "map_of (rt_environments d) (env_id e) = Some e" "env_id e = rel_environment r"
    using release_environment[OF assms(1) hyps(1)] by auto
  have r': "release_moves r r'" "rel_state r' = ReleaseSuperseded"
    using Release_Transition_moves[OF hyps(3)] hyps(2,3) by (auto simp: Release_Transition_def)
  note phase = phasedD[OF assms(1) x(1), of r]
  have d': "d' = d\<lparr>rt_releases := AList.update (rel_id r) r' (rt_releases d)\<rparr>"
    using UpdateRelease_Inr[OF hyps(4)] release_moves_fields[OF r'(1)] by auto
  show ?thesis
  proof (rule moved_ok[OF assms(1,2), of x r e x r' e])
    show "moved d d' x r e x r' e"
      using x e hyps(1) runtime_okD(1)[OF assms(1)]
      by (auto simp: moved_def d' tables_wf_def fun_upd_idem simp del: map_of_eq_Some_iff)
  qed (use x r' hyps(1,2) phase in \<open>auto simp: d'\<close>)
qed

lemma committed_ok:
  assumes "runtime_ok d" and "later d d3" and hyps:
    "map_of (rt_deployments d) (dep_id x) = Some x" "map_of (rt_releases d) (dep_release x) = Some r"
    "rel_id r = dep_release x" "rt_commits d (dep_release x) = None" "gc_release g = dep_release x"
    "gc_deployment g = dep_id x" "RecordGitCommit (gc_sha g) now x = Inr x'"
    "Release_Transition ReleaseCommittedToGitOps now r = Inr r'" "InsertGitOpsCommit g d = Inr d1"
    "UpdateDeployment x' (dep_version x) d1 = Inr d2" "UpdateRelease r' (rel_version r) d2 = Inr d3"
  shows "runtime_ok d3"
proof -
  obtain e where e: "map_of (rt_environments d) (env_id e) = Some e" "env_id e = rel_environment r"
    using release_environment[OF assms(1) hyps(2)] by auto
  note x' = RecordGitCommit_moves[OF hyps(7)] and r' = Release_Transition_moves[OF hyps(8)]
  note phase = phasedD[OF assms(1) hyps(1,2)]
  from phase hyps(4) have "dep_phase x = DeploymentPending" "dep_commit x = []" by auto
  with RecordGitCommit_Inr[OF hyps(7)] have x'': "dep_phase x' = DeploymentGitCommitted"
      "dep_commit x' = TrimSpace (gc_sha g)" "dep_commit x' \<noteq> []"
    by (auto dest!: Deployment_Transition_Inr)
  have r'': "rel_state r' = ReleaseCommittedToGitOps"
    using hyps(8) by (auto simp: Release_Transition_def split: if_splits)
  have d1: "d1 = d\<lparr>rt_commits := (rt_commits d)(dep_release x \<mapsto> g)\<rparr>"
    using InsertGitOpsCommit_Inr[OF hyps(9)] hyps(4,5) by auto
  have d3: "d3 = d\<lparr>rt_commits := (rt_commits d)(dep_release x \<mapsto> g),
                   rt_deployments := AList.update (dep_id x) x' (rt_deployments d),
                   rt_releases := AList.update (rel_id r) r' (rt_releases d)\<rparr>"
    using UpdateDeployment_Inr[OF hyps(10)] UpdateRelease_Inr[OF hyps(11)] d1
      deployment_moves_fields[OF x'] release_moves_fields[OF r'] by auto
  show ?thesis
  proof (rule moved_ok[OF assms(1,2), of x r e x' r' e])
    show "moved d d3 x r e x' r' e"
      using e hyps(1-3) runtime_okD(1)[OF assms(1)]
      by (auto simp: moved_def d3 tables_wf_def fun_upd_idem simp del: map_of_eq_Some_iff)
  qed (use x' r' x'' r'' hyps(5,6) in \<open>auto simp: d3\<close>)
qed

lemma saved_maps:
  "saved UpdateDeployment dep_version x x' d d' \<Longrightarrow> map_of (rt_deployments d) (dep_id x) = Some x \<Longrightarrow>
     deployment_moves x x' \<Longrightarrow>
     \<exists>t. d' = d\<lparr>rt_deployments := t\<rparr> \<and> map_of t = (map_of (rt_deployments d))(dep_id x \<mapsto> x') \<and>
         (wf_map (rt_deployments d) \<longrightarrow> wf_map t)"
  "saved UpdateRelease rel_version r r' d d' \<Longrightarrow> map_of (rt_releases d) (rel_id r) = Some r \<Longrightarrow>
     release_moves r r' \<Longrightarrow>
     \<exists>t. d' = d\<lparr>rt_releases := t\<rparr> \<and> map_of t = (map_of (rt_releases d))(rel_id r \<mapsto> r') \<and>
         (wf_map (rt_releases d) \<longrightarrow> wf_map t)"
  "saved UpdateEnvironment env_version e e' d d' \<Longrightarrow> map_of (rt_environments d) (env_id e) = Some e \<Longrightarrow>
     environment_evolves e e' \<Longrightarrow>
     \<exists>t. d' = d\<lparr>rt_environments := t\<rparr> \<and> map_of t = (map_of (rt_environments d))(env_id e \<mapsto> e') \<and>
         (wf_map (rt_environments d) \<longrightarrow> wf_map t)"
  unfolding saved_def
    apply (elim disjE conjE)
     apply (rule exI[of _ "rt_deployments d"], simp add: fun_upd_idem)
    apply (drule deployment_moves_fields, drule UpdateDeployment_Inr)
    apply (rule exI[of _ "AList.update (dep_id x) x' (rt_deployments d)"], auto)[1]
   apply (elim disjE conjE)
    apply (rule exI[of _ "rt_releases d"], simp add: fun_upd_idem)
   apply (drule release_moves_fields, drule UpdateRelease_Inr)
   apply (rule exI[of _ "AList.update (rel_id r) r' (rt_releases d)"], auto)[1]
  apply (elim disjE conjE)
   apply (rule exI[of _ "rt_environments d"], simp add: fun_upd_idem)
  apply (drule environment_evolves_fields, drule UpdateEnvironment_Inr)
  apply (rule exI[of _ "AList.update (env_id e) e' (rt_environments d)"], auto)[1]
  done

lemma ActivateRelease_Inr:
  "ActivateRelease i now e = Inr e' \<Longrightarrow> ValidPlatformID i \<Longrightarrow>
     env_active_release e' = i \<and> env_placement e' = env_placement e"
  by (auto simp: ActivateRelease_def Let_def TrimSpace_PlatformID split: if_splits)

lemma observed_ok:
  assumes "runtime_ok d" and "later d d3" and hyps:
    "map_of (rt_deployments d) (dep_id x) = Some x" "map_of (rt_releases d) (dep_release x) = Some r"
    "map_of (rt_environments d) (dep_environment x) = Some e" "rel_id r = dep_release x"
    "env_id e = dep_environment x" "deployment_moves x x'" "dep_commit x' = dep_commit x"
    "release_moves r r'" "dep_phase x' = DeploymentPending \<longleftrightarrow> dep_phase x = DeploymentPending"
    "in_step (rel_state r') (dep_phase x')"
    "(rel_state r' = rel_state r \<and> e' = e) \<or> (rel_state r' = ReleaseDeploying \<and> e' = e) \<or>
     (rel_state r' \<in> {ReleaseActive, ReleaseSuperseded} \<and> ActivateRelease (rel_id r) now e = Inr e' \<and>
      (\<forall>k other. map_of (rt_releases d) k = Some other \<longrightarrow> rel_environment other = env_id e \<longrightarrow>
         rel_state other = ReleaseActive \<longrightarrow> k = rel_id r))"
    "saved UpdateDeployment dep_version x x' d d1" "saved UpdateRelease rel_version r r' d1 d2"
    "saved UpdateEnvironment env_version e e' d2 d3"
  shows "runtime_ok d3"
proof -
  note ok = runtime_okD[OF assms(1)]
  have rel: "map_of (rt_releases d) (rel_id r) = Some r" using hyps(2,4) by simp
  have env: "map_of (rt_environments d) (env_id e) = Some e" using hyps(3,5) by simp
  have ids: "env_id e = rel_environment r"
    using linkedD(5)[OF ok(2) hyps(1)] hyps(2,5) by (auto simp: deployment_row_def)
  have id: "ValidPlatformID (rel_id r)" using linkedD(4)[OF ok(2) rel] by (simp add: release_row_def)
  have e': "environment_evolves e e'" using hyps(11) by (auto intro: ActivateRelease_evolves)
  obtain tx where d1: "d1 = d\<lparr>rt_deployments := tx\<rparr>"
    and tx: "map_of tx = (map_of (rt_deployments d))(dep_id x \<mapsto> x')" "wf_map (rt_deployments d) \<longrightarrow> wf_map tx"
    using saved_maps(1)[OF hyps(12,1,6)] by blast
  have "map_of (rt_releases d1) (rel_id r) = Some r" using rel d1 by simp
  then obtain tr where d2: "d2 = d1\<lparr>rt_releases := tr\<rparr>"
    and tr: "map_of tr = (map_of (rt_releases d1))(rel_id r \<mapsto> r')" "wf_map (rt_releases d1) \<longrightarrow> wf_map tr"
    using saved_maps(2)[OF hyps(13) _ hyps(8)] by blast
  have "map_of (rt_environments d2) (env_id e) = Some e" using env d1 d2 by simp
  then obtain te where d3: "d3 = d2\<lparr>rt_environments := te\<rparr>"
    and te: "map_of te = (map_of (rt_environments d2))(env_id e \<mapsto> e')" "wf_map (rt_environments d2) \<longrightarrow> wf_map te"
    using saved_maps(3)[OF hyps(14) _ e'] by blast
  note phase = phasedD[OF assms(1) hyps(1,2)]
  have active: "rel_state r = ReleaseActive \<Longrightarrow> env_active_release e = rel_id r"
    using ok(5) rel env ids by (auto simp: activated_def)
  show ?thesis
  proof (rule moved_ok[OF assms(1,2), of x r e x' r' e'])
    show "moved d d3 x r e x' r' e'"
      using hyps(1,4) rel env ids tx tr te ok(1) unfolding moved_def by (simp add: d3 d2 d1 tables_wf_def)
    show "env_active_release e' = env_active_release e \<or>
        (env_active_release e' = rel_id r \<and> rel_state r' \<in> {ReleaseActive, ReleaseSuperseded} \<and>
         sole_active d e r)"
      using hyps(11) ActivateRelease_Inr[OF _ id] by (auto simp: sole_active_def)
    show "rel_state r' = ReleaseActive \<Longrightarrow> env_active_release e' = rel_id r"
      using hyps(11) ActivateRelease_Inr[OF _ id] active by auto
    show "env_placement e' = env_placement e" using hyps(11) ActivateRelease_Inr[OF _ id] by auto
  qed (use hyps(6-10) e' phase in \<open>auto simp: d3 d2 d1\<close>)
qed

section \<open>Every effect keeps the store consistent\<close>

text \<open>Writes to the tables that no other row refers to.\<close>

lemma side_write_ok:
  assumes "runtime_ok d" and "later d d'" and "rt_applications d' = rt_applications d"
    and "rt_environments d' = rt_environments d" and "rt_cells d' = rt_cells d"
    and "rt_placements d' = rt_placements d" and "rt_releases d' = rt_releases d"
    and "rt_deployments d' = rt_deployments d" and "rt_commits d' = rt_commits d"
    and "\<And>k v. rt_idempotency d' k = Some v \<Longrightarrow> rt_idempotency d k \<noteq> Some v \<Longrightarrow> key_row d' k v"
  shows "runtime_ok d'"
proof -
  note ok = runtime_okD[OF assms(1)]
  have "linked d'" by (rule linked_later[OF ok(2) assms(2)]) (use assms in auto)
  moreover have "tables_wf d'" using ok(1) assms by (simp add: tables_wf_def)
  ultimately show ?thesis
    using assms by (intro runtime_okI accounted_same[OF ok(3)] phased_same[OF ok(4)]
        activated_same[OF ok(5)] distinguished_same[OF ok(6)])
qed

lemma key_recorded_ok:
  assumes "runtime_ok d" and "key_target v d" and w: "Runtime_InsertIdempotency v d = Inr d'"
  shows "runtime_ok d'"
proof -
  have l: "later d d'" using w by (rule InsertIdempotency_later)
  note target = key_target_later[OF assms(2) l]
  from Runtime_InsertIdempotency_Inr[OF w] show ?thesis
  proof (elim disjE conjE)
    assume d': "d' = d\<lparr>rt_idempotency :=
        (rt_idempotency d)(runtime_idemKey (ri_tenant v) (ri_scope v) (ri_key v) \<mapsto> v)\<rparr>"
    show ?thesis
      by (rule side_write_ok[OF assms(1) l]) (use target in \<open>auto simp: d' key_row_def split: if_splits\<close>)
  qed (use assms(1) in simp)
qed

lemma effect_ok: "runtime_effect d d' \<Longrightarrow> runtime_ok d \<Longrightarrow> runtime_ok d'"
proof (induction rule: runtime_effect.induct)
  case (application_inserted a d d')
  then show ?case by (auto intro: application_inserted_ok)
next
  case (environment_inserted e d a d')
  then show ?case by (auto intro: environment_inserted_ok simp: runtime_get_defs)
next
  case (cell_inserted c d d')
  then show ?case by (auto intro: cell_inserted_ok)
next
  case (placed e d c p now c' d1 d2 e' d3)
  have "later d d3" by (rule effect_later, rule runtime_effect.placed[OF placed.hyps])
  from placed_ok[OF placed.prems this placed.hyps[unfolded runtime_get_defs]] show ?case .
next
  case (resized p d c units now c' p' d1 d2)
  have "later d d2" by (rule effect_later, rule runtime_effect.resized[OF resized.hyps])
  from resized_ok[OF resized.prems this resized.hyps[unfolded runtime_get_defs]] show ?case .
next
  case (release_inserted r d e d')
  then show ?case by (auto intro: release_inserted_ok simp: runtime_get_defs)
next
  case (deployment_inserted x d r p d')
  from deployment_inserted_ok[OF deployment_inserted.prems deployment_inserted.hyps(9)
      deployment_inserted.hyps(1-8)[unfolded runtime_get_defs]] show ?case .
next
  case (commit_recorded x d r g now x' r' d1 d2 d3)
  have "later d d3" by (rule effect_later, rule runtime_effect.commit_recorded[OF commit_recorded.hyps])
  from committed_ok[OF commit_recorded.prems this commit_recorded.hyps[unfolded runtime_get_defs]]
  show ?case .
next
  case (release_superseded r d now r' d')
  have "later d d'" by (rule effect_later, rule runtime_effect.release_superseded[OF release_superseded.hyps])
  from superseded_ok[OF release_superseded.prems this release_superseded.hyps[unfolded runtime_get_defs]]
  show ?case .
next
  case (deployment_observed x d r e x' r' e' now d1 d2 d3)
  have "later d d3"
    by (rule effect_later, rule runtime_effect.deployment_observed[OF deployment_observed.hyps])
  from observed_ok[OF deployment_observed.prems this deployment_observed.hyps[unfolded runtime_get_defs]]
  show ?case .
next
  case (migration_requested m d d')
  from InsertPlacementMigration_Inr[OF migration_requested.hyps] show ?case
    by (intro side_write_ok[OF migration_requested.prems InsertPlacementMigration_later[OF migration_requested.hyps]])
      auto
next
  case (object_quarantined q d d')
  from InsertQuarantine_Inr[OF object_quarantined.hyps] show ?case
    by (intro side_write_ok[OF object_quarantined.prems InsertQuarantine_later[OF object_quarantined.hyps]]) auto
next
  case (key_recorded v d d')
  then show ?case by (auto intro: key_recorded_ok)
next
  case (event_appended o1 d d')
  from Runtime_AppendOutbox_Inr[OF event_appended.hyps] show ?case
    by (intro side_write_ok[OF event_appended.prems log_later(1)[OF event_appended.hyps]]) auto
next
  case (audit_appended a1 d d')
  from Runtime_AppendAudit_Inr[OF audit_appended.hyps] show ?case
    by (intro side_write_ok[OF audit_appended.prems log_later(2)[OF audit_appended.hyps]]) auto
qed

lemma effects_ok: "runtime_effect\<^sup>*\<^sup>* d d' \<Longrightarrow> runtime_ok d \<Longrightarrow> runtime_ok d'"
  by (induction rule: rtranclp_induct) (auto intro: effect_ok)

interpretation runtime_store: safe_machine "\<lambda>d. d = runtime_newState" runtime_effect runtime_ok
  by unfold_locales (auto intro: effect_ok simp: runtime_ok_newState)

end
