(* ===== verification/Go_Calls.thy ===== *)
theory Go_Calls
  imports Go_Transactions
begin

text \<open>
  Calls of a service that run several transactions on a store that other calls share. What a call
  knows about the store has to survive what the others do, so it reasons with facts that are stable
  under the steps that any call may take.
\<close>

section \<open>Transactions of a shared store\<close>

text \<open>
  A transaction of a call: \<open>others\<close> is what other calls have done to the store before it, \<open>ctx\<close>
  the error of the context when it begins, and \<open>panic\<close> what a missing store leads to.
\<close>

definition shared_transact ::
  "bool \<Rightarrow> 'e \<Rightarrow> 'e option \<Rightarrow> ('db \<Rightarrow> 'db) \<Rightarrow> ('db, 'e, 'a) tx \<Rightarrow> ('db, 'e, 'a) tx" where
  "shared_transact present panic ctx others fn = (\<lambda>w.
     let w0 = w\<lparr>db := others (db w)\<rparr> in
     if \<not> present then (Inl panic, w0)
     else case ctx of
       Some e \<Rightarrow> (Inl e, w0)
     | None \<Rightarrow> (case fn w0 of (Inl e, w') \<Rightarrow> (Inl e, w'\<lparr>db := db w0\<rparr>) | (Inr a, w') \<Rightarrow> (Inr a, w')))"

section \<open>Calls\<close>

text \<open>
  The steps of a store and an invariant that they keep. \<open>calls P m Q\<close> says that \<open>m\<close>, from a store
  with the invariant and \<open>P\<close>, changes the store by steps only, and that \<open>Q\<close> holds when it returns
  a value.
\<close>

locale shared_store =
  fixes effect :: "'db \<Rightarrow> 'db \<Rightarrow> bool"
    and ok :: "'db \<Rightarrow> bool"
  assumes effect_keeps: "effect d d' \<Longrightarrow> ok d \<Longrightarrow> ok d'"
begin

definition stays :: "('db \<Rightarrow> bool) \<Rightarrow> bool" where
  "stays P \<longleftrightarrow> (\<forall>d d'. ok d \<longrightarrow> P d \<longrightarrow> effect\<^sup>*\<^sup>* d d' \<longrightarrow> P d')"

definition calls :: "('db \<Rightarrow> bool) \<Rightarrow> ('db, 'e, 'a) tx \<Rightarrow> ('a \<Rightarrow> 'db \<Rightarrow> bool) \<Rightarrow> bool" where
  "calls P m Q \<longleftrightarrow>
     (\<forall>w. ok (db w) \<longrightarrow> P (db w) \<longrightarrow>
        effect\<^sup>*\<^sup>* (db w) (db (snd (m w))) \<and> (\<forall>a. fst (m w) = Inr a \<longrightarrow> Q a (db (snd (m w)))))"

lemma effects_keep: "effect\<^sup>*\<^sup>* d d' \<Longrightarrow> ok d \<Longrightarrow> ok d'"
  by (induction rule: rtranclp_induct) (auto intro: effect_keeps)

lemma calls_effects: "calls P m Q \<Longrightarrow> ok (db w) \<Longrightarrow> P (db w) \<Longrightarrow> effect\<^sup>*\<^sup>* (db w) (db (snd (m w)))"
  unfolding calls_def by blast

lemma calls_result:
  "calls P m Q \<Longrightarrow> ok (db w) \<Longrightarrow> P (db w) \<Longrightarrow> m w = (Inr a, w') \<Longrightarrow> Q a (db w')"
  unfolding calls_def by (metis fst_conv snd_conv)

lemma stays_fact [simp]: "stays (\<lambda>_. F)"
  by (simp add: stays_def)

lemma stays_conj: "stays P \<Longrightarrow> stays Q \<Longrightarrow> stays (\<lambda>d. P d \<and> Q d)"
  unfolding stays_def by blast

lemma calls_ret: "(\<And>d. P d \<Longrightarrow> Q a d) \<Longrightarrow> calls P (ret a) Q"
  by (simp add: calls_def ret_def)

lemma calls_throw: "calls P (throw e) Q"
  by (simp add: calls_def throw_def)

lemma calls_bind:
  assumes "calls P m R" and "\<And>a. calls (R a) (k a) Q"
  shows "calls P (bindE m k) Q"
  unfolding calls_def
proof (intro allI impI)
  fix w :: "'db world" assume ok: "ok (db w)" "P (db w)"
  obtain r w1 where m: "m w = (r, w1)" by (cases "m w")
  have e: "effect\<^sup>*\<^sup>* (db w) (db w1)" using calls_effects[OF assms(1) ok] m by simp
  show "effect\<^sup>*\<^sup>* (db w) (db (snd (bindE m k w))) \<and>
      (\<forall>b. fst (bindE m k w) = Inr b \<longrightarrow> Q b (db (snd (bindE m k w))))"
  proof (cases r)
    case (Inl err)
    with m e show ?thesis by (simp add: bindE_def)
  next
    case (Inr a)
    have "R a (db w1)" using calls_result[OF assms(1) ok] m Inr by simp
    then have "effect\<^sup>*\<^sup>* (db w1) (db (snd (k a w1))) \<and>
        (\<forall>b. fst (k a w1) = Inr b \<longrightarrow> Q b (db (snd (k a w1))))"
      using assms(2)[of a] effects_keep[OF e ok(1)] unfolding calls_def by blast
    with m Inr e show ?thesis by (auto simp: bindE_def intro: rtranclp_trans)
  qed
qed

lemma calls_seq: "calls P m (\<lambda>_. R) \<Longrightarrow> calls R k Q \<Longrightarrow> calls P (seqE m k) Q"
  unfolding seqE_def by (rule calls_bind)

lemma calls_frame: "calls P m Q \<Longrightarrow> stays R \<Longrightarrow> calls (\<lambda>d. R d \<and> P d) m (\<lambda>a d. R d \<and> Q a d)"
  unfolding calls_def stays_def by metis

lemma calls_post: "calls P m R \<Longrightarrow> (\<And>a d. R a d \<Longrightarrow> Q a d) \<Longrightarrow> calls P m Q"
  unfolding calls_def by blast

lemma calls_pre: "calls R m Q \<Longrightarrow> (\<And>d. P d \<Longrightarrow> R d) \<Longrightarrow> calls P m Q"
  unfolding calls_def by blast

text \<open>A fact that no store occurs in may be moved out of the precondition, and kept.\<close>

lemma calls_fact: "(F \<Longrightarrow> calls P m Q) \<Longrightarrow> calls (\<lambda>d. P d \<and> F) m Q"
  by (cases F) (auto simp: calls_def)

lemma calls_keep_fact: "calls P m Q \<Longrightarrow> calls (\<lambda>d. P d \<and> F) m (\<lambda>a d. Q a d \<and> F)"
  by (cases F) (auto simp: calls_def)

text \<open>Steps that do not touch the store, and branches.\<close>

lemma calls_bind_result: "(\<And>a. r = Inr a \<Longrightarrow> calls P (k a) Q) \<Longrightarrow> calls P (bindE (of_result r) k) Q"
  by (cases r) (auto simp: calls_def bindE_def of_result_def)

lemma calls_if: "(b \<Longrightarrow> calls P m Q) \<Longrightarrow> (\<not> b \<Longrightarrow> calls P k Q) \<Longrightarrow> calls P (if b then m else k) Q"
  by simp

lemma calls_case_option:
  "(x = None \<Longrightarrow> calls P m Q) \<Longrightarrow> (\<And>a. x = Some a \<Longrightarrow> calls P (k a) Q) \<Longrightarrow>
   calls P (case x of None \<Rightarrow> m | Some a \<Rightarrow> k a) Q"
  by (cases x) auto

lemma calls_case_sum:
  "(\<And>e. r = Inl e \<Longrightarrow> calls P (m e) Q) \<Longrightarrow> (\<And>a. r = Inr a \<Longrightarrow> calls P (k a) Q) \<Longrightarrow>
   calls P (case r of Inl e \<Rightarrow> m e | Inr a \<Rightarrow> k a) Q"
  by (cases r) auto

lemma calls_case_prod:
  "(\<And>a b. x = (a, b) \<Longrightarrow> calls P (k a b) Q) \<Longrightarrow> calls P (case x of (a, b) \<Rightarrow> k a b) Q"
  by (cases x) auto

lemma calls_let: "(\<And>x. x = e \<Longrightarrow> calls P (k x) Q) \<Longrightarrow> calls P (let x = e in k x) Q"
  by (simp add: Let_def)

text \<open>
  A transaction: the others come first, then the function runs from a consistent store that still
  has \<open>P\<close>.
\<close>

lemma calls_transact:
  assumes others: "\<And>d. ok d \<Longrightarrow> effect\<^sup>*\<^sup>* d (others d)" and "stays P"
    and fn: "\<And>d0. ok d0 \<Longrightarrow> P d0 \<Longrightarrow> triple (\<lambda>d. d = d0) fn (\<lambda>a d. effect\<^sup>*\<^sup>* d0 d \<and> Q a d)"
  shows "calls P (shared_transact present panic ctx others fn) Q"
  unfolding calls_def
proof (intro allI impI)
  let ?t = "shared_transact present panic ctx others fn"
  fix w :: "'db world" assume ok: "ok (db w)" "P (db w)"
  let ?w = "w\<lparr>db := others (db w)\<rparr>"
  have e: "effect\<^sup>*\<^sup>* (db w) (db ?w)" using others[OF ok(1)] by simp
  have ok': "ok (db ?w)" using effects_keep[OF e ok(1)] .
  have p': "P (db ?w)" using assms(2) ok e unfolding stays_def by blast
  obtain r w1 where run: "fn ?w = (r, w1)" by (cases "fn ?w")
  show "effect\<^sup>*\<^sup>* (db w) (db (snd (?t w))) \<and> (\<forall>a. fst (?t w) = Inr a \<longrightarrow> Q a (db (snd (?t w))))"
  proof (cases "present \<and> ctx = None \<and> (\<exists>a. r = Inr a)")
    case True
    then obtain a where a: "r = Inr a" by blast
    with fn[OF ok' p'] run have "effect\<^sup>*\<^sup>* (db ?w) (db w1) \<and> Q a (db w1)" by (auto dest: tripleD)
    with True a run e show ?thesis by (auto simp: shared_transact_def Let_def intro: rtranclp_trans)
  next
    case False
    with run e show ?thesis
      by (cases r) (auto simp: shared_transact_def Let_def split: option.splits)
  qed
qed

end

end
