(* ===== verification/Runtime_Calls.thy ===== *)
theory Runtime_Calls
  imports Runtime_Invariants Go_Calls
begin

text \<open>
  Calls of the runtime service. A call runs several transactions, and other calls run in between:
  what a call knows about the store must survive what the others do. \<open>call P m Q\<close> says that \<open>m\<close>,
  from a consistent store with \<open>P\<close>, changes the store by effects only, and that \<open>Q\<close> holds when it
  returns a value.
\<close>

section \<open>Transactions and calls\<close>

definition rely :: "renv \<Rightarrow> bool" where
  "rely env \<longleftrightarrow> (\<forall>site d. runtime_ok d \<longrightarrow> runtime_effect\<^sup>*\<^sup>* d (rv_others env site d))"

interpretation runtime_calls: shared_store runtime_effect runtime_ok
  by unfold_locales (rule effect_ok)

abbreviation stable :: "(runtime_data \<Rightarrow> bool) \<Rightarrow> bool" where
  "stable \<equiv> runtime_calls.stays"

abbreviation call :: "(runtime_data \<Rightarrow> bool) \<Rightarrow> 'a ract \<Rightarrow> ('a \<Rightarrow> runtime_data \<Rightarrow> bool) \<Rightarrow> bool" where
  "call \<equiv> runtime_calls.calls"

lemmas stable_def = runtime_calls.stays_def

lemmas call_def = runtime_calls.calls_def

lemmas stable_fact = runtime_calls.stays_fact

lemmas stable_conj = runtime_calls.stays_conj

lemmas callD = runtime_calls.calls_effects runtime_calls.calls_result

lemmas call_ret = runtime_calls.calls_ret

lemmas call_throw = runtime_calls.calls_throw

lemmas call_bind = runtime_calls.calls_bind

lemmas call_seq = runtime_calls.calls_seq

lemmas call_post = runtime_calls.calls_post

lemmas call_pre = runtime_calls.calls_pre

lemmas call_bind_result = runtime_calls.calls_bind_result

lemmas call_if = runtime_calls.calls_if

lemmas call_case_option = runtime_calls.calls_case_option

lemmas call_case_sum = runtime_calls.calls_case_sum

lemmas call_case_prod = runtime_calls.calls_case_prod

lemmas call_let = runtime_calls.calls_let

lemma stable_True [simp]: "stable (\<lambda>_. True)"
  by simp

lemma call_frame: "call P m Q \<Longrightarrow> stable P \<Longrightarrow> call P m (\<lambda>a d. P d \<and> Q a d)"
  using runtime_calls.calls_frame[of P m Q P] by simp

text \<open>Steps that do not touch the store.\<close>

lemma call_seq_result: "(r = Inr () \<Longrightarrow> call P k Q) \<Longrightarrow> call P (seqE (of_result r) k) Q"
  unfolding seqE_def by (rule call_bind_result) simp

lemma runtime_now_db: "db (snd (runtime_now env w)) = db w"
  by (simp add: runtime_now_def throw_def split: option.splits)

lemma runtime_newID_db: "db (snd (runtime_newID env pre w)) = db w"
  by (simp add: runtime_newID_def throw_def split: option.splits)

lemma call_now: "call P (runtime_now env) (\<lambda>_. P)"
  by (simp add: call_def runtime_now_db)

lemma call_newID: "call P (runtime_newID env pre) (\<lambda>_. P)"
  by (simp add: call_def runtime_newID_db)

lemma call_bind_now: "(\<And>t. call P (k t) Q) \<Longrightarrow> call P (bindE (runtime_now env) k) Q"
  by (rule call_bind[OF call_now])

lemma call_bind_newID: "(\<And>i. call P (k i) Q) \<Longrightarrow> call P (bindE (runtime_newID env pre) k) Q"
  by (rule call_bind[OF call_newID])

lemma call_validateBase: "call P k Q \<Longrightarrow> call P (seqE (validateBase env) k) Q"
  by (rule call_seq) (simp_all add: call_def validateBase_def ret_def throw_def)

lemmas call_steps = call_validateBase call_bind_now call_bind_newID call_bind_result call_throw
  call_seq_result call_let call_if call_case_option call_case_sum call_case_prod

text \<open>
  A transaction of a call: the others come first, then the function runs from a consistent store
  that still has \<open>P\<close>.
\<close>

lemma call_Transact:
  assumes "rely env" and "stable P"
    and fn: "\<And>d0. runtime_ok d0 \<Longrightarrow> P d0 \<Longrightarrow>
      triple (\<lambda>d. d = d0) fn (\<lambda>a d. runtime_effect\<^sup>*\<^sup>* d0 d \<and> Q a d)"
  shows "call P (Runtime_Transact env site fn) Q"
proof -
  have "Runtime_Transact env site fn =
      shared_transact (rv_store env) RPanic (rv_ctx env site) (rv_others env site) fn"
    by (simp add: Runtime_Transact_def shared_transact_def)
  then show ?thesis
    using assms by (auto intro!: runtime_calls.calls_transact simp: rely_def)
qed

section \<open>Steps of a transaction\<close>

lemma triple_bind_runtime_now: "(\<And>t. triple P (k t) Q) \<Longrightarrow> triple P (bindE (runtime_now env) k) Q"
  by (rule triple_bind[where R = "\<lambda>_. P"])
    (auto simp: triple_def runtime_now_def throw_def split: option.splits)

lemma triple_bind_runtime_newID:
  "(\<And>i. triple P (k i) Q) \<Longrightarrow> triple P (bindE (runtime_newID env pre) k) Q"
  by (rule triple_bind[where R = "\<lambda>_. P"])
    (auto simp: triple_def runtime_newID_def throw_def split: option.splits)

lemmas run_steps = triple_get triple_insert triple_throw triple_bind_runtime_now
  triple_bind_runtime_newID triple_bind_result triple_let triple_branches triple_case_prod triple_stay
  triple_last_write

text \<open>Chains of effects.\<close>

lemma effect_chain:
  "runtime_effect d d1 \<Longrightarrow> runtime_effect\<^sup>*\<^sup>* d d1"
  "runtime_effect d d1 \<Longrightarrow> runtime_effect\<^sup>*\<^sup>* d1 d2 \<Longrightarrow> runtime_effect\<^sup>*\<^sup>* d d2"
  by (auto intro: converse_rtranclp_into_rtranclp)

section \<open>Facts that survive\<close>

text \<open>What a call remembers of the rows it has read.\<close>

definition known_release :: "release \<Rightarrow> runtime_data \<Rightarrow> bool" where
  "known_release r d \<longleftrightarrow> (\<exists>r'. map_of (rt_releases d) (rel_id r) = Some r' \<and> release_moves r r')"

definition known_placement :: "placement \<Rightarrow> runtime_data \<Rightarrow> bool" where
  "known_placement p d \<longleftrightarrow> (\<exists>p'. map_of (rt_placements d) (pl_id p) = Some p' \<and> placement_evolves p p')"

definition known_environment :: "environment \<Rightarrow> runtime_data \<Rightarrow> bool" where
  "known_environment e d \<longleftrightarrow>
     (\<exists>e'. map_of (rt_environments d) (env_id e) = Some e' \<and> environment_evolves e e')"

definition known_application :: "application \<Rightarrow> runtime_data \<Rightarrow> bool" where
  "known_application a d \<longleftrightarrow> map_of (rt_applications d) (app_id a) = Some a"

lemma stable_known [simp]:
  "stable (known_release r)" "stable (known_placement p)" "stable (known_environment e)"
  "stable (known_application a)"
  by (auto simp: stable_def known_release_def known_placement_def known_environment_def
      known_application_def dest!: effects_later dest: later_release later_placement
      later_environment later_application
      intro: release_moves_trans placement_evolves_trans environment_evolves_trans) 
 
end
