(* ===== verification/Runtime_Refinement.thy ===== *)
theory Runtime_Refinement
  imports Runtime_Calls
begin

text \<open>
  Every method of the runtime service changes the store by effects only, whatever other calls do in
  between, and leaves behind what the next method of a longer call needs to know.
\<close>

section \<open>Keys and references of a consistent store\<close>

lemma ok_rows:
  "runtime_ok d \<Longrightarrow> map_of (rt_environments d) k = Some e \<Longrightarrow> environment_row d k e"
  "runtime_ok d \<Longrightarrow> map_of (rt_cells d) k = Some c \<Longrightarrow> cell_row k c"
  "runtime_ok d \<Longrightarrow> map_of (rt_placements d) k = Some p \<Longrightarrow> placement_row d k p"
  "runtime_ok d \<Longrightarrow> map_of (rt_releases d) k = Some r \<Longrightarrow> release_row d k r"
  "runtime_ok d \<Longrightarrow> map_of (rt_deployments d) k = Some x \<Longrightarrow> deployment_row d k x"
  "runtime_ok d \<Longrightarrow> rt_commits d k = Some g \<Longrightarrow> commit_row d k g"
  "runtime_ok d \<Longrightarrow> map_of (rt_applications d) k = Some a \<Longrightarrow> application_row k a"
  "runtime_ok d \<Longrightarrow> rt_idempotency d k = Some v \<Longrightarrow> key_row d k v"
  by (auto dest: runtime_okD(2) linkedD)

lemma got_application:
  "GetApplication i d = Some a \<Longrightarrow> runtime_ok d \<Longrightarrow>
   app_id a = i \<and> ValidPlatformID i \<and> ValidPlatformID (app_tenant a)"
  by (auto simp: GetApplication_def application_row_def dest: ok_rows(7))

lemma got_environment:
  "GetEnvironment i d = Some e \<Longrightarrow> runtime_ok d \<Longrightarrow>
   env_id e = i \<and> ValidPlatformID i \<and> ValidPlatformID (env_tenant e) \<and>
   (\<exists>a. GetApplication (env_application e) d = Some a \<and> app_tenant a = env_tenant e)"
  unfolding runtime_get_defs
  by (frule (1) ok_rows(1)[rotated]) (auto simp: environment_row_def application_row_def dest: ok_rows(7))

lemma got_cell: "GetRuntimeCell i d = Some c \<Longrightarrow> runtime_ok d \<Longrightarrow> cell_id c = i"
  by (auto simp: GetRuntimeCell_def cell_row_def dest: ok_rows(2))

lemma got_release: "GetRelease i d = Some r \<Longrightarrow> runtime_ok d \<Longrightarrow> rel_id r = i \<and> ValidPlatformID i"
  by (auto simp: GetRelease_def release_row_def dest: ok_rows(4))

lemma got_deployment: "GetDeployment i d = Some x \<Longrightarrow> runtime_ok d \<Longrightarrow> dep_id x = i"
  by (auto simp: GetDeployment_def deployment_row_def dest: ok_rows(5))

lemma current_placement:
  assumes "GetCurrentPlacement i d = Some p" and "runtime_ok d"
  shows "GetPlacement (pl_id p) d = Some p \<and> pl_environment p = i \<and> pl_id p \<noteq> [] \<and>
    (\<exists>e. GetEnvironment i d = Some e \<and> env_placement e = pl_id p)"
proof -
  have "wf_map (rt_placements d)" using assms(2) by (simp add: runtime_ok_def tables_wf_def)
  from find_row_Some[OF this assms(1)[unfolded GetCurrentPlacement_def]] obtain k
    where "map_of (rt_placements d) k = Some p" "pl_environment p = i" by blast
  with ok_rows(3)[OF assms(2), of k p] show ?thesis
    by (auto simp: runtime_get_defs placement_row_def ValidPlatformID_not_Nil)
qed

lemma found_release:
  assumes "FindReleaseByIdentity t i k d = Some r" and "runtime_ok d"
  shows "GetRelease (rel_id r) d = Some r \<and> rel_environment r = i \<and> rel_tenant r = t \<and> rel_identity r = k"
proof -
  have "wf_map (rt_releases d)" using assms(2) by (simp add: runtime_ok_def tables_wf_def)
  from find_row_Some[OF this assms(1)[unfolded FindReleaseByIdentity_def]] obtain j
    where "map_of (rt_releases d) j = Some r" "rel_environment r = i" "rel_tenant r = t" "rel_identity r = k"
    by blast
  with ok_rows(4)[OF assms(2), of j r] show ?thesis by (auto simp: GetRelease_def release_row_def)
qed

lemma found_deployment:
  assumes "FindDeploymentByRelease i d = Some x" and "runtime_ok d"
  shows "GetDeployment (dep_id x) d = Some x \<and> dep_release x = i"
proof -
  have "wf_map (rt_deployments d)" using assms(2) by (simp add: runtime_ok_def tables_wf_def)
  from find_row_Some[OF this assms(1)[unfolded FindDeploymentByRelease_def]] obtain j
    where "map_of (rt_deployments d) j = Some x" "dep_release x = i" by blast
  with ok_rows(5)[OF assms(2), of j x] show ?thesis by (auto simp: GetDeployment_def deployment_row_def)
qed

section \<open>Applications, environments and cells\<close>

lemma NewApplication_Inr:
  "NewApplication h i t p n now = Inr a \<Longrightarrow>
     ValidPlatformID (app_id a) \<and> ValidPlatformID (app_tenant a) \<and> app_tenant a = TrimSpace t"
  by (auto simp: NewApplication_def Let_def split: if_splits)

lemma NewEnvironment_Inr:
  "NewEnvironment h i t a n b now = Inr e \<Longrightarrow>
     ValidPlatformID (env_id e) \<and> env_tenant e = TrimSpace t \<and> env_application e = TrimSpace a \<and>
     env_placement e = [] \<and> env_active_release e = []"
  by (auto simp: NewEnvironment_def Let_def split: if_splits)

lemma inserted_application:
  "InsertApplication a d = Inr d' \<Longrightarrow> GetApplication (app_id a) d' = Some a"
  by (rule applications.ins_get)

lemma InsertEnvironment_applications:
  "InsertEnvironment e d = Inr d' \<Longrightarrow> GetApplication i d' = GetApplication i d"
  by (auto dest: InsertEnvironment_Inr simp: GetApplication_def)

lemma replayApplication_run:
  "triple (\<lambda>d. d = d0) (replayApplication r hash) (\<lambda>a d. runtime_effect\<^sup>*\<^sup>* d0 d \<and> True)"
  unfolding replayApplication_def by (intro run_steps) simp_all

lemma CreateApplication_run:
  assumes "runtime_ok d0" and "TrimSpace (ca_tenant req) = ca_tenant req"
  shows "triple (\<lambda>d. d = d0) (CreateApplication_tx env req now hash) (\<lambda>a d. runtime_effect\<^sup>*\<^sup>* d0 d \<and> True)"
  unfolding CreateApplication_tx_def
proof (intro run_steps replayApplication_run conjI TrueI, goal_cases)
  case (1 i app j e d1 d2 d3 o1 d4 a1 d5)
  note app = NewApplication_Inr[OF 1(3)] and e = NewEnvironment_Inr[OF 1(4)]
  have app1: "GetApplication (app_id app) d1 = Some app" using inserted_application[OF 1(5)] .
  have "runtime_effect d0 d1" using app 1(5) by (auto intro: application_inserted)
  moreover have "runtime_effect d1 d2"
    by (rule environment_inserted[of e d1 app]) (use app e app1 1(6) assms(2) TrimSpace_PlatformID in auto)
  moreover have "runtime_effect d2 d3"
    by (rule key_recorded[OF _ 1(7)])
      (use app app1 InsertEnvironment_applications[OF 1(6)] assms(2) in \<open>auto simp: key_target_def\<close>)
  moreover have "runtime_effect d3 d4" using 1(8) by (rule event_appended)
  moreover have "runtime_effect d4 d5" using 1(9) by (rule audit_appended)
  ultimately show ?case by (blast intro: effect_chain)
qed

lemma CreateApplication_call:
  "rely env \<Longrightarrow> call (\<lambda>_. True) (CreateApplication env req) (\<lambda>_ _. True)"
  unfolding CreateApplication_def
  by (intro call_steps call_Transact CreateApplication_run) (simp_all add: trimApplication_def)

lemma CreateEnvironment_run:
  assumes "runtime_ok d0"
  shows "triple (\<lambda>d. d = d0) (CreateEnvironment_tx env req now hash) (\<lambda>a d. runtime_effect\<^sup>*\<^sup>* d0 d \<and> True)"
  unfolding CreateEnvironment_tx_def
proof (intro run_steps conjI TrueI, goal_cases)
  case (1 i e d1 d2)
  then obtain a where a: "GetApplication (ce_application req) d0 = Some a" "app_tenant a = ce_tenant req"
    by (auto split: option.splits)
  note new = got_application[OF a(1) assms] and e = NewEnvironment_Inr[OF 1(5)]
  have "runtime_effect d0 d1"
    by (rule environment_inserted[of e d0 a]) (use a new e 1(6) TrimSpace_PlatformID in auto)
  moreover have "runtime_effect d1 d2"
    by (rule key_recorded[OF _ 1(7)]) (use environments.ins_get[OF 1(6)] in \<open>auto simp: key_target_def\<close>)
  ultimately show ?case by (blast intro: effect_chain)
qed simp_all

lemma CreateEnvironment_call:
  "rely env \<Longrightarrow> call (\<lambda>_. True) (CreateEnvironment env req) (\<lambda>_ _. True)"
  unfolding CreateEnvironment_def by (intro call_steps call_Transact CreateEnvironment_run) simp_all

lemma NewRuntimeCell_Inr:
  "NewRuntimeCell u i rg cls cap repo srv pr ing now = Inr c \<Longrightarrow>
     cell_allocated c = 0 \<and> 0 < cell_capacity c \<and> cell_capacity c = cap"
  by (auto simp: NewRuntimeCell_def Let_def split: if_splits sum.splits)

lemma RegisterCell_call:
  assumes "rely env" and "int64 (rg_capacity req)"
  shows "call (\<lambda>_. True) (RegisterCell env req) (\<lambda>_ _. True)"
  unfolding RegisterCell_def
proof (intro call_steps call_Transact[OF assms(1)] run_steps conjI TrueI, goal_cases)
  case (2 t c d0 d1)
  with NewRuntimeCell_Inr[OF 2(1)] assms(2) have "runtime_effect d0 d1" by (auto intro: cell_inserted)
  then show ?case by (rule effect_chain)
qed simp_all

section \<open>Placements\<close>

text \<open>Resizing: the placement stays known, and nothing else moves.\<close>

lemma resizePlacement_run:
  assumes "runtime_ok d0" and "GetPlacement (pl_id p) d0 = Some p" and "int64 units"
  shows "triple (\<lambda>d. d = d0) (resizePlacement p units now)
    (\<lambda>p' d. runtime_effect\<^sup>*\<^sup>* d0 d \<and> placement_evolves p p' \<and> GetPlacement (pl_id p) d = Some p')"
  unfolding resizePlacement_def
proof (intro run_steps, goal_cases)
  case 1
  with assms(2) show ?case by simp
next
  case (2 c delta c' p' d1 d2)
  note p' = Resize_evolves[OF 2(5)]
  have "runtime_effect d0 d2"
    by (rule resized[OF assms(2) 2(2) got_cell[OF 2(2) assms(1)] assms(3) 2(1) _ 2(5,6,7)])
      (use 2(3,4) in \<open>simp split: if_splits\<close>)
  moreover have "GetPlacement (pl_id p) d2 = Some p'"
    using placements.save_get[OF 2(7)] placement_evolves_fields[OF p'] by simp
  ultimately show ?case using p' effect_chain(1) by simp
qed

lemma NewPlacement_Inr:
  "NewPlacement u i t e c cls n now = Inr p \<Longrightarrow>
     ValidPlatformID (pl_id p) \<and> pl_tenant p = TrimSpace t \<and> pl_environment p = TrimSpace e \<and>
     pl_cell p = cell_id c \<and> pl_region p = cell_region c \<and> pl_isolation p = cls \<and> supports c cls \<and>
     pl_current p \<and> pl_units p = n"
  by (auto simp: NewPlacement_def Let_def CanPlace_def split: if_splits)

lemma placeEnvironment_run:
  assumes "runtime_ok d0" and "GetEnvironment (env_id e) d0 = Some e" and "env_tenant e = dr_tenant req"
    and "GetRuntimeCell (cell_id c) d0 = Some c" and "int64 units"
  shows "triple (\<lambda>d. d = d0) (placeEnvironment env req e c units now)
    (\<lambda>p d. runtime_effect\<^sup>*\<^sup>* d0 d \<and> GetPlacement (pl_id p) d = Some p \<and> pl_environment p = env_id e)"
  unfolding placeEnvironment_def
proof (intro run_steps, goal_cases)
  case (1 i p c' d1 d2 e' d3)
  note p = NewPlacement_Inr[OF 1(1)] and got = got_environment[OF assms(2,1)]
  have "pl_tenant p = env_tenant e" "pl_environment p = env_id e"
    using p got assms(3) by (auto simp: TrimSpace_PlatformID)
  then have "runtime_effect d0 d3"
    by (intro placed[OF assms(2,4)]) (use p 1 assms(5) in auto)
  moreover have "GetPlacement (pl_id p) d3 = Some p"
    using placements.ins_get[OF 1(4)] UpdateEnvironment_Inr[OF 1(6)] by (auto simp: GetPlacement_def)
  ultimately show ?case using effect_chain(1) \<open>pl_environment p = env_id e\<close> by blast
qed

section \<open>Releases\<close>

definition known_pair :: "release \<Rightarrow> placement \<Rightarrow> runtime_data \<Rightarrow> bool" where
  "known_pair rel p d \<longleftrightarrow> known_release rel d \<and> known_placement p d"

lemma stable_known_pair [simp]: "stable (known_pair rel p)"
  unfolding known_pair_def by (intro stable_conj) simp_all

lemma got_known:
  "GetRelease (rel_id r) d = Some r \<Longrightarrow> known_release r d"
  "GetPlacement (pl_id p) d = Some p \<Longrightarrow> known_placement p d"
  "GetEnvironment (env_id e) d = Some e \<Longrightarrow> known_environment e d"
  by (auto simp: known_release_def known_placement_def known_environment_def runtime_get_defs)

lemma replay_run:
  assumes "runtime_ok d0"
  shows "triple (\<lambda>d. d = d0) (replay_tx env req)
    (\<lambda>r d. runtime_effect\<^sup>*\<^sup>* d0 d \<and> (\<forall>rel p. r = Some (rel, p) \<longrightarrow> known_pair rel p d))"
  unfolding replay_tx_def
  apply (intro run_steps)
  subgoal by simp
  subgoal for r app e p cell hostname rel
    using current_placement[OF _ assms] got_release[OF _ assms]
    by (fastforce simp: known_pair_def intro: got_known)
  done

lemma replayCreateRelease_call:
  "rely env \<Longrightarrow>
   call (\<lambda>_. True) (replayCreateRelease env req) (\<lambda>r d. \<forall>rel p. r = Some (rel, p) \<longrightarrow> known_pair rel p d)"
  unfolding replayCreateRelease_def by (intro call_Transact replay_run) simp_all

lemma NewRelease_Inr:
  "NewRelease h i t a e art c pol now = Inr r \<Longrightarrow>
     ValidPlatformID (rel_id r) \<and> rel_tenant r = TrimSpace t \<and> rel_application r = TrimSpace a \<and>
     rel_environment r = TrimSpace e \<and> rel_state r = ReleaseCreated \<and> rel_artifact r = art"
  by (auto simp: NewRelease_def Let_def split: if_splits sum.splits)

lemma Release_validated:
  "Release_Transition ReleaseValidated now r = Inr r' \<Longrightarrow> rel_state r' = ReleaseValidated"
  by (auto simp: Release_Transition_def split: if_splits)

text \<open>The environment of a placement that is there is placed.\<close>

lemma placement_environment:
  assumes "runtime_ok d" and "GetPlacement (pl_id p) d = Some p"
  shows "\<exists>e. GetEnvironment (pl_environment p) d = Some e \<and> env_placement e \<noteq> []"
  using ok_rows(3)[OF assms(1) assms(2)[unfolded GetPlacement_def]]
  by (auto simp: placement_row_def GetEnvironment_def ValidPlatformID_not_Nil)

lemma insert_release_effect:
  assumes "runtime_ok d" and "known_environment e d" and "GetPlacement (pl_id p) d = Some p"
    and "pl_environment p = env_id e" and "ValidPlatformID (rel_id r)" and "rel_environment r = env_id e"
    and "rel_tenant r = env_tenant e" and "rel_application r = env_application e"
    and "rel_state r = ReleaseValidated" and "InsertRelease r d = Inr d'"
  shows "runtime_effect d d'"
proof -
  obtain e' where "GetEnvironment (env_id e) d = Some e'" "env_placement e' \<noteq> []"
    using placement_environment[OF assms(1,3)] assms(4) by auto
  moreover from this assms(2) have "environment_evolves e e'"
    by (auto simp: known_environment_def GetEnvironment_def)
  ultimately show ?thesis
    using assms environment_evolves_fields by (intro release_inserted[of r d e']) auto
qed

text \<open>The records that follow a new release.\<close>

lemma release_recorded:
  assumes "runtime_effect d0 d1" and "InsertRelease r d0 = Inr d1" and "Runtime_InsertIdempotency v d1 = Inr d2"
    and "Runtime_AppendAudit a1 d2 = Inr d3" and "ri_resource_id v = rel_id r" and "ri_tenant v = rel_tenant r"
    and "ri_scope v \<in> {''runtime.release.create'', ''runtime.release.rollback''}"
  shows "runtime_effect\<^sup>*\<^sup>* d0 d3" and "known_release r d3"
proof -
  have r: "GetRelease (rel_id r) d1 = Some r" using releases.ins_get[OF assms(2)] .
  then have "key_target v d1" using assms(5,6,7) by (simp add: key_target_def)
  then have e: "runtime_effect d1 d2" "runtime_effect d2 d3"
    using assms(3,4) by (auto intro: key_recorded audit_appended)
  with assms(1) show "runtime_effect\<^sup>*\<^sup>* d0 d3" by (blast intro: effect_chain)
  have "later d1 d3" using e by (blast intro: effect_later runtime_later_trans)
  with r show "known_release r d3" by (auto simp: known_release_def GetRelease_def dest: later_release)
qed

lemma known_placement_effects:
  "GetPlacement (pl_id p) d = Some p \<Longrightarrow> runtime_effect\<^sup>*\<^sup>* d d' \<Longrightarrow> known_placement p d'"
  by (auto simp: known_placement_def GetPlacement_def dest: effects_later later_placement)

lemma known_environment_effects:
  "GetEnvironment (env_id e) d = Some e \<Longrightarrow> runtime_effect\<^sup>*\<^sup>* d d' \<Longrightarrow> known_environment e d'"
  by (auto simp: known_environment_def GetEnvironment_def dest: effects_later later_environment)

lemma newRelease_run:
  assumes "runtime_ok d0" and e: "GetEnvironment (env_id e) d0 = Some e"
    and app: "env_application e = app_id app" "env_tenant e = dr_tenant req" and "int64 units"
    and current: "\<And>p. current = Some p \<Longrightarrow> GetPlacement (pl_id p) d0 = Some p \<and> pl_environment p = env_id e"
    and cell: "current = None \<Longrightarrow> GetRuntimeCell (cell_id cell) d0 = Some cell"
  shows "triple (\<lambda>d. d = d0) (newRelease_tx env req app e cell current units decision now)
    (\<lambda>(rel, p) d. runtime_effect\<^sup>*\<^sup>* d0 d \<and> known_pair rel p d)"
  unfolding newRelease_tx_def
proof (rule triple_part[where R = "\<lambda>p d. runtime_effect\<^sup>*\<^sup>* d0 d \<and> GetPlacement (pl_id p) d = Some p \<and>
      pl_environment p = env_id e"], goal_cases)
  case 1
  show ?case
  proof (cases current)
    case None
    with placeEnvironment_run[OF assms(1) e app(2) cell[OF None] assms(5)] show ?thesis by simp
  next
    case (Some p)
    then show ?thesis
      using current[OF Some] by (auto intro!: triple_post[OF resizePlacement_run[OF assms(1) _ assms(5)]]
          dest: placement_evolves_fields)
  qed
next
  case (2 p d1)
  note got = got_environment[OF e assms(1)]
  have ok: "runtime_ok d1" using 2 assms(1) by (blast intro: effects_ok)
  have env: "known_environment e d1" using 2 e by (blast intro: known_environment_effects)
  have appid: "ValidPlatformID (app_id app)" "ValidPlatformID (dr_tenant req)"
    using got got_application[OF _ assms(1)] app by auto
  show ?case
  proof (intro run_steps, goal_cases)
    case (1 i created rel d2 d3 j d4)
    note created = NewRelease_Inr[OF 1(1)]
    have rel: "release_moves created rel" using 1(2) by (rule Release_Transition_moves)
    note f = release_moves_fields[OF rel]
    have fields: "rel_environment rel = env_id e" "rel_tenant rel = env_tenant e"
      "rel_application rel = env_application e" "ValidPlatformID (rel_id rel)"
      using created f got app appid by (simp_all add: TrimSpace_PlatformID)
    have "runtime_effect d1 d2"
      by (rule insert_release_effect[OF ok env _ _ fields(4,1,2,3) Release_validated[OF 1(2)] 1(3)])
        (use 2 in auto)
    note rest = release_recorded[OF this 1(3,4,5)]
    have "runtime_effect\<^sup>*\<^sup>* d1 d4" "known_release rel d4"
      using rest fields app by (simp_all add: release_key_record_def)
    moreover from this have "known_placement p d4" using 2 by (blast intro: known_placement_effects)
    ultimately show ?case using 2 by (auto simp: known_pair_def intro: rtranclp_trans)
  qed
qed

end
