(* ===== verification/Runtime_Deployments.thy ===== *)
theory Runtime_Deployments
  imports Runtime_Refinement
begin

text \<open>
  The calls that make releases and deployments, and what they know between their transactions.
\<close>

section \<open>Creating a release\<close>

lemma known_release_effects:
  "GetRelease (rel_id r) d = Some r \<Longrightarrow> runtime_effect\<^sup>*\<^sup>* d d' \<Longrightarrow> known_release r d'"
  by (auto simp: known_release_def GetRelease_def dest: effects_later later_release)

lemma requestedUnits_int64: "requestedUnits catalog c = Inr n \<Longrightarrow> int64 n"
  by (auto simp: requestedUnits_def split: option.splits if_splits)

lemma Select_member: "Select u cells region i n = Inr c \<Longrightarrow> c \<in> set cells \<and> CanPlace u c region i n"
  by (auto simp: Select_def find_Some_iff split: option.splits) (metis nth_mem set_sort length_sort)

lemma listed_cell:
  "c \<in> set (ListRuntimeCells d) \<Longrightarrow> runtime_ok d \<Longrightarrow> GetRuntimeCell (cell_id c) d = Some c"
  unfolding ListRuntimeCells_def GetRuntimeCell_def
  by (auto simp: runtime_ok_def tables_wf_def map_of_eq_Some_iff dest!: linkedD(2) simp: cell_row_def)

lemma resolvePlacement_run:
  assumes "runtime_ok d0"
  shows "triple (\<lambda>d. d = d0) (resolvePlacement env req units e) (\<lambda>(cell, current) d. d = d0 \<and>
     (\<forall>p. current = Some p \<longrightarrow> GetPlacement (pl_id p) d0 = Some p \<and> pl_environment p = env_id e) \<and>
     (current = None \<longrightarrow> GetRuntimeCell (cell_id cell) d0 = Some cell))"
  unfolding resolvePlacement_def
  by (intro run_steps)
    (auto dest: current_placement[OF _ assms] Select_member intro: listed_cell[OF _ assms])

lemma placement_of_existing_run:
  assumes "runtime_ok d0"
  shows "triple (\<lambda>d. d = d0) (placement_of_existing e)
    (\<lambda>p d. d = d0 \<and> GetPlacement (pl_id p) d0 = Some p \<and> pl_environment p = env_id e)"
  unfolding placement_of_existing_def
  by (intro run_steps) (auto dest: current_placement[OF _ assms])

lemma CreateRelease_run:
  assumes ok: "runtime_ok d0" and "int64 units"
  shows "triple (\<lambda>d. d = d0) (CreateRelease_tx env req units decision now)
    (\<lambda>r d. runtime_effect\<^sup>*\<^sup>* d0 d \<and> known_pair (fst r) (snd r) d)"
  unfolding CreateRelease_tx_def
proof (intro run_steps, goal_cases)
  case (1 app e)
  note row = 1(3) and env = got_environment[OF 1(3) ok] and tenant = 1(4)
  show ?case
  proof (rule triple_part[OF resolvePlacement_run[OF ok]], goal_cases)
    case (1 r d1)
    then obtain cell current where r: "r = (cell, current)" "d1 = d0"
      "\<And>p. current = Some p \<Longrightarrow> GetPlacement (pl_id p) d0 = Some p \<and> pl_environment p = env_id e"
      "current = None \<Longrightarrow> GetRuntimeCell (cell_id cell) d0 = Some cell" by auto
    show ?case unfolding r prod.case
    proof (intro run_steps triple_part[OF placement_of_existing_run[OF ok]], goal_cases)
      case (1 hostname req1 hash identity)
      have "env_tenant e = dr_tenant req1" "env_application e = app_id app"
        using "1"(2) tenant by simp_all
      moreover have "env_id e = dr_environment req" using env by simp
      ultimately show ?case
        by (intro triple_post[OF newRelease_run[OF ok _ _ _ assms(2) r(3,4)]]) (use env row in auto)
    next
      case (2 hostname req1 hash identity rel p d2 d3)
      note rel = found_release[OF 2(6) ok]
      have "key_target (release_key_record req1 hash rel now) d0"
        using rel by (auto simp: key_target_def release_key_record_def)
      then have e: "runtime_effect\<^sup>*\<^sup>* d0 d3" using 2(7,8) by (auto intro: key_recorded effect_chain)
      then have "known_release rel d3" using rel by (auto intro: known_release_effects)
      moreover have "known_placement p d3" using 2(7) e by (blast intro: known_placement_effects)
      ultimately show ?case using e by (simp add: known_pair_def)
    next
      case (3 hostname req1 hash k rel p d2)
      then show ?case using got_release[OF _ ok] by (auto simp: known_pair_def intro: got_known)
    qed
  qed
qed

lemma CreateRelease_call:
  "rely env \<Longrightarrow> call (\<lambda>_. True) (CreateRelease env req) (\<lambda>r. known_pair (fst r) (snd r))"
  unfolding CreateRelease_def
  apply (intro call_steps call_bind[OF replayCreateRelease_call])
    apply simp
   apply (rule call_Transact)
     apply simp
    apply simp
   apply (rule CreateRelease_run)
    apply simp
   apply (simp add: requestedUnits_int64)
  apply (rule call_ret)
  apply (simp add: split_paired_all)
  done

section \<open>Deployments and commits\<close>

lemma deploy_run:
  assumes "runtime_ok d0" and known: "known_pair rel p d0"
    and clock: "\<And>d. triple (\<lambda>x. x = d) clock (\<lambda>_ x. x = d)"
  shows "triple (\<lambda>d. d = d0) (deploy_tx env missing clock rel p) (\<lambda>r d. runtime_effect\<^sup>*\<^sup>* d0 d \<and> True)"
  unfolding deploy_tx_def
proof (intro run_steps triple_part[OF clock], goal_cases)
  case (1 app e cell i now d1 x d2)
  obtain r where r: "GetRelease (rel_id rel) d0 = Some r" "release_moves rel r"
    using known by (auto simp: known_pair_def known_release_def GetRelease_def)
  obtain q where q: "GetPlacement (pl_id p) d0 = Some q" "placement_evolves p q"
    using known by (auto simp: known_pair_def known_placement_def GetPlacement_def)
  have "runtime_effect d0 d2"
    by (rule deployment_inserted[of x d0 r q])
      (use 1 r q release_moves_fields[OF r(2)] placement_evolves_fields[OF q(2)] in
        \<open>auto simp: NewDeployment_def Let_def split: if_splits\<close>)
  then show ?case by (simp add: effect_chain)
qed simp_all

lemma recordGitCommit_run:
  assumes ok: "runtime_ok d0"
  shows "triple (\<lambda>d. d = d0) (recordGitCommit_tx env i k commit actor now)
    (\<lambda>_ d. runtime_effect\<^sup>*\<^sup>* d0 d \<and> True)"
  unfolding recordGitCommit_tx_def
proof (intro run_steps conjI TrueI, goal_cases)
  case (1 r x p x' r' j d1 d2 d3 j1 d4 j2 d5)
  have x: "GetDeployment (dep_id x) d0 = Some x" using got_deployment[OF 1(3) ok] 1(3) by simp
  have r: "GetRelease (dep_release x) d0 = Some r" "rel_id r = dep_release x" "rt_commits d0 (dep_release x) = None"
    using got_release[OF 1(2) ok] 1(1,2,5) by (simp_all add: GetGitOpsCommitByRelease_def)
  have "runtime_effect d0 d3"
    by (rule commit_recorded[OF x r _ _ _ 1(7,8,9,10)])
      (use 1(6) r deployment_moves_fields[OF RecordGitCommit_moves[OF 1(6)]]
        release_moves_fields[OF Release_Transition_moves[OF 1(7)]] in auto)
  moreover have "runtime_effect d3 d4" using 1(11) by (rule event_appended)
  moreover have "runtime_effect d4 d5" using 1(12) by (rule audit_appended)
  ultimately show ?case by (blast intro: effect_chain)
qed simp_all

lemma recordGitCommit_call:
  "rely env \<Longrightarrow> stable P \<Longrightarrow> call P (recordGitCommit env i k commit actor) (\<lambda>_ _. True)"
  unfolding recordGitCommit_def by (intro call_steps call_Transact recordGitCommit_run)

lemma call_skip: "call P k Q \<Longrightarrow> call P (seqE (ret ()) k) Q"
  by (rule call_seq[OF call_ret])

lemma publishDeployment_call:
  assumes "rely env"
  shows "call (\<lambda>_. True) (publishDeployment env hook actor rel p found) (\<lambda>_ _. True)"
proof (cases found)
  case (fields a e c x)
  show ?thesis
    unfolding publishDeployment_def fields prod.case
    by (cases hook; simp; intro call_steps call_ret conjI impI call_skip
        call_seq[OF recordGitCommit_call[OF assms stable_True]]) simp_all
qed

lemma same_clock:
  "triple (\<lambda>x. x = d) (ret now) (\<lambda>_ x. x = d)" "triple (\<lambda>x. x = d) (runtime_now env) (\<lambda>_ x. x = d)"
  by (auto simp: triple_def ret_def runtime_now_def throw_def split: option.splits)

lemma Deploy_call:
  "rely env \<Longrightarrow> call (\<lambda>_. True) (Deploy env req) (\<lambda>_ _. True)"
  unfolding Deploy_def
  apply (intro call_steps call_bind[OF CreateRelease_call] call_bind[OF call_Transact[OF _ _ deploy_run]]
      publishDeployment_call same_clock)
  apply (simp_all)
  done

lemma deployExistingRelease_call:
  "rely env \<Longrightarrow> call (known_pair rel p) (deployExistingRelease env actor rel p) (\<lambda>_ _. True)"
  unfolding deployExistingRelease_def
  by (intro call_bind[OF call_Transact[OF _ _ deploy_run]] publishDeployment_call same_clock) simp_all

lemma ReconcileGitOps_call:
  "rely env \<Longrightarrow> call (\<lambda>_. True) (ReconcileGitOps env i actor) (\<lambda>_ _. True)"
  unfolding ReconcileGitOps_def
  apply (rule call_bind[OF call_Transact[where Q = "\<lambda>_ _. True"]])
     apply (simp, simp)
   apply (intro run_steps)
     apply (simp_all)[3]
  apply (intro call_steps call_ret recordGitCommit_call)
  apply simp_all
  done

section \<open>Rollbacks and migrations\<close>

definition plan_known :: "rollback_plan \<Rightarrow> runtime_data \<Rightarrow> bool" where
  "plan_known plan d \<longleftrightarrow>
     (case plan of
        RollbackReplay e rel p app \<Rightarrow> known_pair rel p d
      | RollbackTarget e target p app config \<Rightarrow>
          known_environment e d \<and> ValidPlatformID (env_id e) \<and> ValidPlatformID (app_id app) \<and>
          ValidPlatformID (env_tenant e) \<and> env_application e = app_id app)"

lemma rollback_resolve_run:
  assumes ok: "runtime_ok d0"
  shows "triple (\<lambda>d. d = d0) (rollback_resolve env req) (\<lambda>plan d. runtime_effect\<^sup>*\<^sup>* d0 d \<and> plan_known plan d)"
  unfolding rollback_resolve_def rollback_replay_def
proof (intro run_steps, goal_cases)
  case (1 e target app p cell config)
  then show ?case
    using got_environment[OF 1(1) ok] got_application[OF _ ok]
    by (auto simp: plan_known_def intro!: got_known)
next
  case (2 e r rel p app)
  then show ?case
    using current_placement[OF _ ok] got_release[OF _ ok]
    by (fastforce simp: plan_known_def known_pair_def intro: got_known)
qed

lemma rollback_run:
  assumes ok: "runtime_ok d0" and env: "known_environment e d0" and "int64 units"
    and new: "ValidPlatformID (rel_id candidate)" "rel_environment candidate = env_id e"
      "rel_tenant candidate = env_tenant e" "rel_application candidate = env_application e"
      "rel_state candidate = ReleaseValidated"
  shows "triple (\<lambda>d. d = d0) (rollback_tx env req e target p candidate units now)
    (\<lambda>r d. runtime_effect\<^sup>*\<^sup>* d0 d \<and> known_pair (fst r) (snd r) d)"
  unfolding rollback_tx_def
proof (intro run_steps, goal_cases)
  case (1 current)
  then obtain q where q: "GetCurrentPlacement (env_id e) d0 = Some q" "current = q"
    by (auto split: option.splits)
  note place = current_placement[OF q(1) ok]
  show ?case
  proof (rule triple_part[OF resizePlacement_run[OF ok _ assms(3)]], goal_cases)
    case 1
    with place q show ?case by simp
  next
    case (2 p' d1)
    have ok1: "runtime_ok d1" and env1: "known_environment e d1"
      using 2 ok env by (blast intro: effects_ok, auto simp: stable_def intro: stable_known(3)[unfolded stable_def, rule_format])
    note p' = placement_evolves_fields
    show ?case
    proof (intro run_steps, goal_cases)
      case (1 d2 d3 j d4)
      have "runtime_effect d1 d2"
        by (rule insert_release_effect[OF ok1 env1 _ _ new 1(1), of p'])
          (use 2 q place p'[of q p'] in auto)
      note rest = release_recorded[OF this 1]
      have "runtime_effect\<^sup>*\<^sup>* d1 d4" "known_release candidate d4" using rest new by simp_all
      moreover from this have "known_placement p' d4"
        using 2 q p'[of q p'] by (auto intro: known_placement_effects)
      ultimately show ?case using 2 by (auto simp: known_pair_def intro: rtranclp_trans)
    qed
  qed
next
  case (2 r rel p')
  then show ?case
    using current_placement[OF _ ok] got_release[OF _ ok]
    by (fastforce simp: known_pair_def intro: got_known)
qed

lemma stable_target: "stable (plan_known (RollbackTarget e target p app config))"
  unfolding plan_known_def rollback_plan.case by (intro stable_conj) simp_all

lemma rollback_candidate:
  assumes "plan_known (RollbackTarget e target p app config) d"
    and "NewRelease h i (env_tenant e) (app_id app) (env_id e) art c pol now = Inr created"
    and "Release_Transition ReleaseValidated now (created\<lparr>rel_rollback_of := t, rel_policy_override := b\<rparr>) = Inr r"
  shows "known_environment e d \<and> ValidPlatformID (rel_id r) \<and> rel_environment r = env_id e \<and>
     rel_tenant r = env_tenant e \<and> rel_application r = env_application e \<and> rel_state r = ReleaseValidated"
  using assms(1) NewRelease_Inr[OF assms(2)] Release_validated[OF assms(3)]
    release_moves_fields[OF Release_Transition_moves[OF assms(3)]]
  by (simp add: plan_known_def TrimSpace_PlatformID)

lemma RollbackWithRequest_call:
  assumes "rely env"
  shows "call (\<lambda>_. True) (RollbackWithRequest env req) (\<lambda>_ _. True)"
  unfolding RollbackWithRequest_def
proof (intro call_steps call_bind[OF call_Transact[OF assms stable_True rollback_resolve_run]], goal_cases)
  case (1 isReleasable request d0)
  then show ?case by simp
next
  case (2 isReleasable request plan)
  show ?case
  proof (cases plan)
    case (RollbackReplay e rel p app)
    then show ?thesis
      using deployExistingRelease_call[OF assms] by (simp add: plan_known_def)
  next
    case (RollbackTarget e target p app config)
    show ?thesis unfolding RollbackTarget rollback_plan.case
    proof (intro call_steps, goal_cases)
      case (1 units decision now i created candidate)
      show ?case
        apply (rule call_bind[where R = "\<lambda>r. known_pair (fst r) (snd r)"])
         apply (rule call_Transact[OF assms stable_target])
        subgoal for d0
          using rollback_candidate[OF _ 1(4,5), of target p config d0] requestedUnits_int64[OF 1(1)]
          by (intro rollback_run) auto
        subgoal for r
          using deployExistingRelease_call[OF assms] by (cases r) simp
        done
    qed
  qed
qed

lemma Rollback_call: "rely env \<Longrightarrow> call (\<lambda>_. True) (Rollback env i target) (\<lambda>_ _. True)"
  unfolding Rollback_def by (rule RollbackWithRequest_call)

lemma RequestPlacementMigration_call:
  assumes "rely env"
  shows "call (\<lambda>_. True) (RequestPlacementMigration env req) (\<lambda>_ _. True)"
  unfolding RequestPlacementMigration_def
  by (intro call_steps call_Transact[OF assms stable_True] run_steps conjI)
    (auto intro: migration_requested effect_chain)

lemma reads_call:
  assumes "rely env" and "\<And>d0. triple (\<lambda>d. d = d0) fn (\<lambda>_ d. d = d0)"
  shows "call (\<lambda>_. True) (Runtime_Transact env site fn) (\<lambda>_ _. True)"
  by (intro call_Transact[OF assms(1) stable_True] triple_post[OF assms(2)]) simp

lemma Status_call: "rely env \<Longrightarrow> call (\<lambda>_. True) (Status env i) (\<lambda>_ _. True)"
  unfolding Status_def by (intro call_bind[OF reads_call] run_steps call_ret) simp_all

lemma StatusForTenant_call:
  "rely env \<Longrightarrow> call (\<lambda>_. True) (StatusForTenant env tenant i) (\<lambda>_ _. True)"
  unfolding StatusForTenant_def
  by (intro call_steps call_bind[OF reads_call] run_steps call_ret) simp_all

end
