(* ===== verification/Runtime_Observations.thy ===== *)
theory Runtime_Observations
  imports Runtime_Deployments
begin

text \<open>
  What the runtime reports about a deployment moves it, its release and its environment together.
\<close>

section \<open>Moves of a deployment that is observed\<close>

definition observed_move :: "deployment \<Rightarrow> deployment \<Rightarrow> bool" where
  "observed_move x x' \<longleftrightarrow>
     x' = x \<or>
     (dep_version x < dep_version x' \<and> deployment_moves x x' \<and> dep_commit x' = dep_commit x \<and>
      (dep_phase x' = DeploymentPending \<longleftrightarrow> dep_phase x = DeploymentPending))"

definition release_bumped :: "release \<Rightarrow> release \<Rightarrow> bool" where
  "release_bumped r r' \<longleftrightarrow> r' = r \<or> (rel_version r < rel_version r' \<and> release_moves r r')"

lemma observed_move_refl [simp]: "observed_move x x"
  by (simp add: observed_move_def)

lemma observed_move_trans: "observed_move x y \<Longrightarrow> observed_move y z \<Longrightarrow> observed_move x z"
  by (auto simp: observed_move_def intro: deployment_moves_trans)

lemma release_bumped_trans: "release_bumped r s \<Longrightarrow> release_bumped s t \<Longrightarrow> release_bumped r t"
  by (auto simp: release_bumped_def intro: release_moves_trans)

lemma Deployment_Transition_observed:
  assumes "Deployment_Transition s now x = Inr x'"
    and "s \<in> {DeploymentArgoSyncing, DeploymentRollingOut, DeploymentReady, DeploymentDegraded}"
  shows "observed_move x x' \<and> dep_phase x' = s"
  using Deployment_Transition_Inr[OF assms(1)] Deployment_Transition_moves[OF assms(1)] assms(2)
  by (cases "dep_phase x") (auto simp: observed_move_def)

lemma Release_Transition_bumped:
  "Release_Transition s now r = Inr r' \<Longrightarrow> release_bumped r r' \<and> rel_state r' = s"
  using Release_Transition_moves[of s now r r']
  by (auto simp: Release_Transition_def release_bumped_def split: if_splits)

lemma chain_Inr: "chain f r = Inr b \<longleftrightarrow> (\<exists>a. r = Inr a \<and> f a = Inr b)"
  by (cases r) (auto simp: chain_def)

lemma roll_out_observed:
  assumes "roll_out now x = Inr x'"
  shows "observed_move x x' \<and>
    dep_phase x' = (if dep_phase x \<in> {DeploymentGitCommitted, DeploymentArgoSyncing, DeploymentDegraded}
                    then DeploymentRollingOut else dep_phase x)"
  using assms
  by (cases "dep_phase x")
    (auto simp: roll_out_def chain_Inr dest!: Deployment_Transition_observed intro: observed_move_trans)

lemma catch_up_observed:
  assumes "catch_up now x = Inr x'"
  shows "observed_move x x' \<and>
    dep_phase x' = (if dep_phase x \<in> {DeploymentGitCommitted, DeploymentArgoSyncing}
                    then DeploymentRollingOut else dep_phase x)"
  using assms
  by (auto simp: catch_up_def chain_Inr dest!: Deployment_Transition_observed intro: observed_move_trans
      split: if_splits)

lemma start_deploying_bumped:
  assumes "start_deploying now r = Inr r'"
  shows "release_bumped r r' \<and>
    rel_state r' = (if rel_state r = ReleaseCommittedToGitOps then ReleaseDeploying else rel_state r)"
  using assms by (auto simp: start_deploying_def release_bumped_def dest!: Release_Transition_bumped split: if_splits)

lemma MarkReady_observed:
  assumes "MarkReady url n now x = Inr x'"
  shows "dep_phase x' = DeploymentReady \<and>
    (dep_version x' = dep_version x \<and> dep_phase x = DeploymentReady \<or>
     observed_move x x' \<and> dep_phase x \<in> {DeploymentRollingOut, DeploymentDegraded})"
proof (cases "dep_phase x = DeploymentReady")
  case True
  with assms show ?thesis by (auto simp: MarkReady_def split: if_splits)
next
  case False
  with assms obtain y where y: "Deployment_Transition DeploymentReady now x = Inr y"
    "x' = y\<lparr>dep_url := TrimSpace url, dep_replicas := n, dep_failure_code := [], dep_failure_message := []\<rparr>"
    by (auto simp: MarkReady_def split: if_splits sum.splits)
  with False Deployment_Transition_Inr[OF y(1)] show ?thesis
    by (cases "dep_phase x") (auto simp: observed_move_def deployment_moves_def deployment_frozen_def)
qed

lemma MarkDegraded_observed:
  assumes "MarkDegraded c m now x = Inr x'" and "dep_phase x \<noteq> DeploymentDegraded"
  shows "dep_phase x' = DeploymentDegraded \<and> observed_move x x' \<and> dep_phase x \<in> {DeploymentArgoSyncing, DeploymentRollingOut}"
proof -
  from assms obtain y where y: "Deployment_Transition DeploymentDegraded now x = Inr y"
    "x' = y\<lparr>dep_failure_code := TrimSpace c, dep_failure_message := TrimSpace m\<rparr>"
    by (auto simp: MarkDegraded_def split: if_splits sum.splits)
  with assms(2) Deployment_Transition_Inr[OF y(1)] show ?thesis
    by (cases "dep_phase x") (auto simp: observed_move_def deployment_moves_def deployment_frozen_def)
qed

section \<open>Saving what an observation has changed\<close>

lemma save_run:
  "triple (\<lambda>s. s = d) (save_deployment y n)
     (\<lambda>_ s. dep_version y = n \<and> s = d \<or> dep_version y \<noteq> n \<and> UpdateDeployment y n d = Inr s)"
  "triple (\<lambda>s. s = d) (save_release t n)
     (\<lambda>_ s. rel_version t = n \<and> s = d \<or> rel_version t \<noteq> n \<and> UpdateRelease t n d = Inr s)"
  "triple (\<lambda>s. s = d) (save_environment f n)
     (\<lambda>_ s. env_version f = n \<and> s = d \<or> env_version f \<noteq> n \<and> UpdateEnvironment f n d = Inr s)"
  unfolding save_deployment_def save_release_def save_environment_def
  by (intro run_steps; simp)+

lemma saved_observation:
  "observed_move x y \<or> dep_version y = dep_version x \<and> dep_phase y = dep_phase x \<Longrightarrow>
   dep_version y = dep_version x \<and> s = d \<or> dep_version y \<noteq> dep_version x \<and> UpdateDeployment y (dep_version x) d = Inr s \<Longrightarrow>
   \<exists>x'. observed_move x x' \<and> dep_phase x' = dep_phase y \<and> saved UpdateDeployment dep_version x x' d s"
  by (cases "dep_version y = dep_version x")
    (auto simp: observed_move_def saved_def)

lemma saved_release:
  "release_bumped r t \<Longrightarrow>
   rel_version t = rel_version r \<and> s = d \<or> rel_version t \<noteq> rel_version r \<and> UpdateRelease t (rel_version r) d = Inr s \<Longrightarrow>
   saved UpdateRelease rel_version r t d s"
  by (auto simp: release_bumped_def saved_def)

lemma saved_environment:
  "f = e \<or> env_version e < env_version f \<Longrightarrow>
   env_version f = env_version e \<and> s = d \<or> env_version f \<noteq> env_version e \<and> UpdateEnvironment f (env_version e) d = Inr s \<Longrightarrow>
   saved UpdateEnvironment env_version e f d s"
  by (auto simp: saved_def)

lemma ActivateRelease_version:
  "ActivateRelease i now e = Inr f \<Longrightarrow> f = e \<or> env_version e < env_version f"
  by (auto simp: ActivateRelease_def Let_def split: if_splits)

text \<open>An observation that has been saved is one effect.\<close>

lemma observed_effect:
  assumes got: "GetDeployment (dep_id x) d = Some x" "GetRelease (dep_release x) d = Some r"
      "GetEnvironment (dep_environment x) d = Some e" "rel_id r = dep_release x" "env_id e = dep_environment x"
    and y: "observed_move x y \<or> dep_version y = dep_version x \<and> dep_phase y = dep_phase x"
    and t: "release_bumped r t" and f: "f = e \<or> env_version e < env_version f"
    and step: "in_step (rel_state t) (dep_phase y)"
    and moved: "(rel_state t = rel_state r \<and> f = e) \<or> (rel_state t = ReleaseDeploying \<and> f = e) \<or>
      (rel_state t \<in> {ReleaseActive, ReleaseSuperseded} \<and> ActivateRelease (rel_id r) now e = Inr f \<and>
       (\<forall>k other. map_of (rt_releases d) k = Some other \<longrightarrow> rel_environment other = env_id e \<longrightarrow>
          rel_state other = ReleaseActive \<longrightarrow> k = rel_id r))"
    and saves: "dep_version y = dep_version x \<and> d1 = d \<or>
        dep_version y \<noteq> dep_version x \<and> UpdateDeployment y (dep_version x) d = Inr d1"
      "rel_version t = rel_version r \<and> d2 = d1 \<or>
        rel_version t \<noteq> rel_version r \<and> UpdateRelease t (rel_version r) d1 = Inr d2"
      "env_version f = env_version e \<and> d3 = d2 \<or>
        env_version f \<noteq> env_version e \<and> UpdateEnvironment f (env_version e) d2 = Inr d3"
  shows "runtime_effect d d3"
proof -
  from saved_observation[OF y saves(1)] obtain x' where x': "observed_move x x'" "dep_phase x' = dep_phase y"
    "saved UpdateDeployment dep_version x x' d d1" by blast
  have "deployment_moves x x' \<and> dep_commit x' = dep_commit x \<and>
      (dep_phase x' = DeploymentPending \<longleftrightarrow> dep_phase x = DeploymentPending)"
    using x'(1) by (auto simp: observed_move_def)
  moreover have "release_moves r t" using t by (auto simp: release_bumped_def)
  ultimately show ?thesis
    using got moved step x'
    by (intro deployment_observed[OF got _ _ _ _ _ moved x'(3) saved_release[OF t saves(2)]
        saved_environment[OF f saves(3)]]) simp_all
qed

section \<open>Moves from a consistent store\<close>

lemma observed_rows_ok:
  assumes ok: "runtime_ok d" and x: "GetDeployment i d = Some x"
  obtains r e where "GetRelease (dep_release x) d = Some r" and "rel_id r = dep_release x"
    and "GetEnvironment (dep_environment x) d = Some e" and "env_id e = dep_environment x"
    and "GetDeployment (dep_id x) d = Some x" and "in_step (rel_state r) (dep_phase x)"
proof -
  have i: "dep_id x = i" using got_deployment[OF x ok] .
  obtain r where r: "GetRelease (dep_release x) d = Some r"
    using deployment_release[OF ok x[unfolded GetDeployment_def]] by (auto simp: GetRelease_def)
  have "dep_environment x = rel_environment r"
    using ok_rows(5)[OF ok x[unfolded GetDeployment_def]] r by (auto simp: deployment_row_def GetRelease_def)
  then obtain e where "GetEnvironment (dep_environment x) d = Some e" "env_id e = dep_environment x"
    using release_environment[OF ok r[unfolded GetRelease_def]] by (auto simp: GetEnvironment_def)
  moreover have "in_step (rel_state r) (dep_phase x)"
    using phasedD[OF ok x[unfolded GetDeployment_def] r[unfolded GetRelease_def]] by simp
  ultimately show ?thesis using that r got_release[OF r ok] i x by blast
qed

lemma markArgoSyncing_call:
  assumes "rely env"
  shows "call (\<lambda>_. True) (markArgoSyncing env i) (\<lambda>_ _. True)"
  unfolding markArgoSyncing_def
proof (intro call_steps call_Transact[OF assms stable_True] run_steps conjI TrueI, goal_cases)
  case (1 now d0 x x' d1)
  from 1(1,3) obtain r e where rows: "GetRelease (dep_release x) d0 = Some r" "rel_id r = dep_release x"
    "GetEnvironment (dep_environment x) d0 = Some e" "env_id e = dep_environment x"
    "GetDeployment (dep_id x) d0 = Some x" "in_step (rel_state r) (dep_phase x)"
    by (rule observed_rows_ok)
  have x': "observed_move x x'" "dep_phase x' = DeploymentArgoSyncing"
    using Deployment_Transition_observed[OF 1(5)] by simp_all
  then have "dep_version x < dep_version x'" using 1(4) by (auto simp: observed_move_def)
  moreover have "in_step (rel_state r) (dep_phase x')" using rows(6) 1(4) x'(2) by (cases "rel_state r") simp_all
  ultimately have "runtime_effect d0 d1"
    using x' 1 rows
    by (intro deployment_observed[of x d0 r e x' r e _ d1 d1 d1]) (auto simp: observed_move_def saved_def)
  then show ?case by (rule effect_chain)
qed simp_all

lemma markRollingOut_call:
  assumes "rely env"
  shows "call (\<lambda>_. True) (markRollingOut env i) (\<lambda>_ _. True)"
  unfolding markRollingOut_def
proof (intro call_steps call_Transact[OF assms stable_True] run_steps, goal_cases)
  case (1 now d0 x r x' r')
  from 1(1,3) obtain q e where rows: "GetRelease (dep_release x) d0 = Some q" "rel_id q = dep_release x"
    "GetEnvironment (dep_environment x) d0 = Some e" "env_id e = dep_environment x"
    "GetDeployment (dep_id x) d0 = Some x" "in_step (rel_state q) (dep_phase x)"
    by (rule observed_rows_ok)
  with 1(4) have q: "q = r" by simp
  note x' = roll_out_observed[OF 1(5)] and r' = start_deploying_bumped[OF 1(6)]
  have "in_step (rel_state r') (dep_phase x')"
    using rows(6) x' r' by (cases "rel_state r"; cases "dep_phase x") (simp_all add: q)
  moreover have "rel_state r' = rel_state r \<or> rel_state r' = ReleaseDeploying" using r' by simp
  ultimately have effect: "runtime_effect d0 d2"
    if "dep_version x' = dep_version x \<and> d1 = d0 \<or>
        dep_version x' \<noteq> dep_version x \<and> UpdateDeployment x' (dep_version x) d0 = Inr d1"
      "rel_version r' = rel_version r \<and> d2 = d1 \<or>
        rel_version r' \<noteq> rel_version r \<and> UpdateRelease r' (rel_version r) d1 = Inr d2" for d1 d2
    using rows x' r' that
    by (intro observed_effect[of x d0 r e x' r' e _ d1 d2 d2]) (simp_all add: q)
  then show ?case
    by (intro triple_part_unit[OF save_run(1)] triple_post[OF save_run(2)] conjI TrueI effect_chain(1))
qed

section \<open>Superseding\<close>

definition superseded :: "string \<Rightarrow> release list \<Rightarrow> runtime_data \<Rightarrow> runtime_data \<Rightarrow> bool" where
  "superseded keep others d s \<longleftrightarrow>
     runtime_effect\<^sup>*\<^sup>* d s \<and> rt_deployments s = rt_deployments d \<and> rt_environments s = rt_environments d \<and>
     (\<forall>k. k = keep \<or> k \<notin> rel_id ` set others \<longrightarrow> map_of (rt_releases s) k = map_of (rt_releases d) k) \<and>
     (\<forall>k r. k \<in> rel_id ` set others \<longrightarrow> k \<noteq> keep \<longrightarrow> map_of (rt_releases s) k = Some r \<longrightarrow>
        rel_state r \<noteq> ReleaseActive)"

lemma supersededD:
  "superseded keep others d s \<Longrightarrow> k = keep \<or> k \<notin> rel_id ` set others \<Longrightarrow>
     map_of (rt_releases s) k = map_of (rt_releases d) k"
  "superseded keep others d s \<Longrightarrow> k \<in> rel_id ` set others \<Longrightarrow> k \<noteq> keep \<Longrightarrow>
     map_of (rt_releases s) k = Some r \<Longrightarrow> rel_state r \<noteq> ReleaseActive"
  by (simp_all only: superseded_def, blast+)

lemma supersede_run:
  assumes "distinct (map rel_id others)" and "\<forall>other\<in>set others. GetRelease (rel_id other) d = Some other"
  shows "triple (\<lambda>s. s = d) (supersede_loop keep now others) (\<lambda>_. superseded keep others d)"
  using assms
proof (induction others arbitrary: d)
  case Nil
  then show ?case by (auto simp: superseded_def intro!: triple_stay)
next
  case (Cons other others)
  note got = Cons.prems(2)[unfolded GetRelease_def]
  show ?case
  proof (cases "rel_id other \<noteq> keep \<and> rel_state other = ReleaseActive")
    case False
    have "triple (\<lambda>s. s = d) (supersede_loop keep now others) (\<lambda>_. superseded keep others d)"
      using Cons by simp
    moreover have "superseded keep (other # others) d s" if "superseded keep others d s" for s
    proof -
      have "rel_id other \<notin> rel_id ` set others" using Cons.prems(1) by simp
      with that have "rel_id other \<noteq> keep \<Longrightarrow> map_of (rt_releases s) (rel_id other) = Some other"
        using got by (simp add: superseded_def)
      with that False show ?thesis by (auto simp: superseded_def)
    qed
    ultimately show ?thesis unfolding supersede_loop.simps if_not_P[OF False] by (rule triple_post)
  next
    case True
    show ?thesis unfolding supersede_loop.simps if_P[OF True]
    proof (intro run_steps, goal_cases)
      case (1 other' d1)
      note b = Release_Transition_bumped[OF 1(1)]
      have moved: "release_moves other other'" using b by (auto simp: release_bumped_def)
      note f = release_moves_fields[OF moved] and w = UpdateRelease_Inr[OF 1(2)]
      have e: "runtime_effect d d1"
        by (rule release_superseded[OF _ _ 1]) (use Cons.prems True in simp_all)
      have look: "map_of (rt_releases d1) k = (if k = rel_id other then Some other' else map_of (rt_releases d) k)"
        for k using w f by (auto simp: update_conv')
      have rest: "\<forall>o'\<in>set others. GetRelease (rel_id o') d1 = Some o'"
      proof
        fix o' assume o': "o' \<in> set others"
        with Cons.prems(1) have "rel_id o' \<noteq> rel_id other" by (metis distinct.simps(2) image_eqI list.set_map list.simps(9))
        moreover from o' Cons.prems(2) have "map_of (rt_releases d) (rel_id o') = Some o'"
          by (simp add: GetRelease_def)
        ultimately show "GetRelease (rel_id o') d1 = Some o'" by (simp add: GetRelease_def look)
      qed
      have "triple (\<lambda>s. s = d1) (supersede_loop keep now others) (\<lambda>_. superseded keep others d1)"
        using Cons.IH[OF _ rest] Cons.prems by simp
      moreover have "superseded keep (other # others) d s" if "superseded keep others d1 s" for s
        unfolding superseded_def
      proof (intro conjI allI impI)
        have new: "rel_id other \<notin> rel_id ` set others" using Cons.prems(1) by simp
        show "runtime_effect\<^sup>*\<^sup>* d s"
          using that e unfolding superseded_def by (blast intro: effect_chain)
        show "rt_deployments s = rt_deployments d" "rt_environments s = rt_environments d"
          using that w by (auto simp: superseded_def)
        show "map_of (rt_releases s) k = map_of (rt_releases d) k"
          if "k = keep \<or> k \<notin> rel_id ` set (other # others)" for k
        proof -
          have "k \<noteq> rel_id other" "k = keep \<or> k \<notin> rel_id ` set others" using that True by auto
          with supersededD(1)[OF \<open>superseded keep others d1 s\<close>] look[of k] show ?thesis by simp
        qed
        show "rel_state r \<noteq> ReleaseActive"
          if "k \<in> rel_id ` set (other # others)" "k \<noteq> keep" "map_of (rt_releases s) k = Some r" for k r
        proof (cases "k = rel_id other")
          case True
          with supersededD(1)[OF \<open>superseded keep others d1 s\<close>, of k] look[of k] new that(3) b
          show ?thesis by simp
        next
          case False
          with that have "k \<in> rel_id ` set others" by auto
          with supersededD(2)[OF \<open>superseded keep others d1 s\<close>] that show ?thesis by blast
        qed
      qed
      ultimately show ?case by (rule triple_post)
    qed
  qed
qed

lemma listed_releases:
  assumes "runtime_ok d"
  shows "distinct (map rel_id (ListReleasesByEnvironment i d))"
    and "r \<in> set (ListReleasesByEnvironment i d) \<longleftrightarrow> GetRelease (rel_id r) d = Some r \<and> rel_environment r = i"
proof -
  have wf: "wf_map (rt_releases d)" using assms by (simp add: runtime_ok_def tables_wf_def)
  have keys: "rel_id v = k" if "(k, v) \<in> set (rt_releases d)" for k v
    using that ok_rows(4)[OF assms, of k v] wf by (simp add: release_row_def)
  then have "map rel_id (map snd (rt_releases d)) = map fst (rt_releases d)" by auto
  with wf have "distinct (map rel_id (map snd (rt_releases d)))" by metis
  then show "distinct (map rel_id (ListReleasesByEnvironment i d))"
    unfolding ListReleasesByEnvironment_def distinct_map distinct_sort set_sort
    unfolding distinct_map[symmetric] by (rule distinct_map_filter)
  have "r \<in> snd ` set (rt_releases d) \<longleftrightarrow> map_of (rt_releases d) (rel_id r) = Some r"
  proof
    assume "r \<in> snd ` set (rt_releases d)"
    then obtain k where k: "(k, r) \<in> set (rt_releases d)" by auto
    from keys[OF k] map_of_is_SomeI[OF wf k] show "map_of (rt_releases d) (rel_id r) = Some r" by simp
  next
    assume "map_of (rt_releases d) (rel_id r) = Some r"
    from map_of_SomeD[OF this] show "r \<in> snd ` set (rt_releases d)" by force
  qed
  then show "r \<in> set (ListReleasesByEnvironment i d) \<longleftrightarrow> GetRelease (rel_id r) d = Some r \<and> rel_environment r = i"
    unfolding ListReleasesByEnvironment_def set_sort set_filter set_map GetRelease_def by blast
qed

section \<open>Applying a reported status\<close>

text \<open>What has been decided about the rows \<open>x\<close>, \<open>r\<close> and \<open>e\<close> may be saved in \<open>d\<close>.\<close>

definition rows_decided ::
  "deployment \<Rightarrow> release \<Rightarrow> environment \<Rightarrow> gotime \<Rightarrow> deployment \<times> release \<times> environment \<Rightarrow> runtime_data \<Rightarrow> bool" where
  "rows_decided x r e now new d \<longleftrightarrow>
     GetDeployment (dep_id x) d = Some x \<and> GetRelease (dep_release x) d = Some r \<and>
     GetEnvironment (dep_environment x) d = Some e \<and>
     (case new of (y, t, f) \<Rightarrow>
       (observed_move x y \<or> dep_version y = dep_version x \<and> dep_phase y = dep_phase x) \<and>
       release_bumped r t \<and> (f = e \<or> env_version e < env_version f) \<and> in_step (rel_state t) (dep_phase y) \<and>
       ((rel_state t = rel_state r \<and> f = e) \<or> (rel_state t = ReleaseDeploying \<and> f = e) \<or>
        (rel_state t \<in> {ReleaseActive, ReleaseSuperseded} \<and> ActivateRelease (rel_id r) now e = Inr f \<and>
         (\<forall>k other. map_of (rt_releases d) k = Some other \<longrightarrow> rel_environment other = env_id e \<longrightarrow>
            rel_state other = ReleaseActive \<longrightarrow> k = rel_id r))))"

lemma superseded_all:
  assumes ok: "runtime_ok d0" and s: "superseded keep (ListReleasesByEnvironment i d0) d0 d"
    and k: "map_of (rt_releases d) k = Some other" "rel_environment other = i" "rel_state other = ReleaseActive"
  shows "k = keep"
proof (rule ccontr)
  assume "k \<noteq> keep"
  with supersededD(2)[OF s _ this k(1)] k(3) have "k \<notin> rel_id ` set (ListReleasesByEnvironment i d0)" by blast
  moreover from this supersededD(1)[OF s] k(1) have "map_of (rt_releases d0) k = Some other" by simp
  then have "other \<in> set (ListReleasesByEnvironment i d0)" "rel_id other = k"
    using listed_releases(2)[OF ok] ok_rows(4)[OF ok] k(2) by (auto simp: GetRelease_def release_row_def)
  ultimately show False by blast
qed

lemma apply_ready_run:
  assumes ok: "runtime_ok d0" and x: "GetDeployment i d0 = Some x"
    and rows: "GetRelease (dep_release x) d0 = Some r" "GetEnvironment (dep_environment x) d0 = Some e"
    and x1: "catch_up now x = Inr x1" and r1: "start_deploying now r = Inr r1"
  shows "triple (\<lambda>s. s = d0) (apply_ready status now x1 r1 e)
    (\<lambda>new s. runtime_effect\<^sup>*\<^sup>* d0 s \<and> rows_decided x r e now new s)"
  unfolding apply_ready_def
proof (intro run_steps triple_part_unit[OF supersede_run], goal_cases)
  case 1
  show ?case using listed_releases(1)[OF ok] .
next
  case 2
  show ?case using listed_releases(2)[OF ok] by blast
next
  case (3 d1 t y f)
  from ok x obtain q g where q: "GetRelease (dep_release x) d0 = Some q" "rel_id q = dep_release x"
    "GetEnvironment (dep_environment x) d0 = Some g" "env_id g = dep_environment x"
    "GetDeployment (dep_id x) d0 = Some x" "in_step (rel_state q) (dep_phase x)"
    by (rule observed_rows_ok)
  with rows have q': "q = r" "g = e" by simp_all
  note x1' = catch_up_observed[OF x1] and r1' = start_deploying_bumped[OF r1]
  note y = MarkReady_observed[OF 3(4)]
  have ids: "rel_id r1 = rel_id r" using r1' by (auto simp: release_bumped_def dest: release_moves_fields)
  have t: "release_bumped r1 t \<and> rel_id t = rel_id r1 \<and> rel_state t = (if rel_state r1 = ReleaseDeploying then ReleaseActive else rel_state r1)"
    using 3(3) by (auto simp: release_bumped_def dest!: Release_Transition_bumped dest: release_moves_fields split: if_splits)
  have "rel_state t \<in> {ReleaseActive, ReleaseSuperseded}"
    using q(6) x1' r1' y t by (cases "rel_state r"; cases "dep_phase x") (auto simp: q')
  moreover from this have "in_step (rel_state t) (dep_phase y)" using y by auto
  moreover have "observed_move x y \<or> dep_version y = dep_version x \<and> dep_phase y = dep_phase x"
  proof (cases "dep_phase x1 = DeploymentReady")
    case True
    then have "dep_phase x = DeploymentReady" using x1' by (auto split: if_splits)
    then have "x1 = x" using x1' by (auto simp: observed_move_def deployment_moves_def)
    with y show ?thesis by auto
  next
    case False
    with y x1' show ?thesis by (auto intro: observed_move_trans)
  qed
  moreover have "release_bumped r t" using t r1' by (blast intro: release_bumped_trans)
  moreover have "f = e \<or> env_version e < env_version f" using ActivateRelease_version[OF 3(5)] .
  moreover have "ActivateRelease (rel_id r) now e = Inr f" using 3(5) t ids by simp
  moreover have "k = rel_id r" if "map_of (rt_releases d1) k = Some other" "rel_environment other = env_id e"
      "rel_state other = ReleaseActive" for k other
    using superseded_all[OF ok 3(2)] that ids by simp
  moreover have "GetDeployment (dep_id x) d1 = Some x" "GetEnvironment (dep_environment x) d1 = Some e"
    "GetRelease (dep_release x) d1 = Some r"
    using 3(2) q supersededD(1)[OF 3(2), of "rel_id r1"] ids
    by (simp_all add: superseded_def runtime_get_defs q')
  moreover have "runtime_effect\<^sup>*\<^sup>* d0 d1" using 3(2) by (simp add: superseded_def)
  ultimately show ?case unfolding rows_decided_def prod.case by blast
qed

lemma apply_phase_run:
  assumes ok: "runtime_ok d0" and x: "GetDeployment i d0 = Some x"
    and rows: "GetRelease (dep_release x) d0 = Some r" "GetEnvironment (dep_environment x) d0 = Some e"
    and x1: "catch_up now x = Inr x1" and r1: "start_deploying now r = Inr r1"
  shows "triple (\<lambda>s. s = d0) (apply_phase u status now x1 r1 e)
    (\<lambda>new s. runtime_effect\<^sup>*\<^sup>* d0 s \<and> rows_decided x r e now new s)"
proof -
  from ok x obtain q g where q: "GetRelease (dep_release x) d0 = Some q" "rel_id q = dep_release x"
    "GetEnvironment (dep_environment x) d0 = Some g" "env_id g = dep_environment x"
    "GetDeployment (dep_id x) d0 = Some x" "in_step (rel_state q) (dep_phase x)"
    by (rule observed_rows_ok)
  with rows have q': "q = r" "g = e" by simp_all
  note x1' = catch_up_observed[OF x1] and r1' = start_deploying_bumped[OF r1]
  have "in_step (rel_state r1) (dep_phase x1)"
    using q(6) x1' r1' by (cases "rel_state r"; cases "dep_phase x") (simp_all add: q')
  then have rest: "rows_decided x r e now (y, r1, e) d0"
    if "observed_move x1 y" "dep_phase y = dep_phase x1 \<or>
      {dep_phase y, dep_phase x1} \<subseteq> {DeploymentRollingOut, DeploymentDegraded}" for y
  proof -
    have "in_step (rel_state r1) (dep_phase y)"
      using that(2) \<open>in_step (rel_state r1) (dep_phase x1)\<close> by (cases "rel_state r1") auto
    moreover have "observed_move x y" using x1' that(1) by (blast intro: observed_move_trans)
    moreover have "rel_state r1 = rel_state r \<or> rel_state r1 = ReleaseDeploying" using r1' by simp
    ultimately show ?thesis using q r1' by (simp add: rows_decided_def q')
  qed
  have syncing: "dep_phase x1 \<noteq> DeploymentArgoSyncing" using x1' by simp
  show ?thesis
    unfolding apply_phase_def
  proof (intro run_steps apply_ready_run[OF assms], goal_cases)
    case (1 ph y)
    have "dep_phase x1 \<noteq> DeploymentDegraded \<Longrightarrow>
        MarkDegraded ''ROLLOUT_DEGRADED'' (conditionMessage (ps_conditions status)) now x1 = Inr y"
      using 1 by (simp add: apply_degraded_def)
    moreover have "dep_phase x1 = DeploymentDegraded \<Longrightarrow> y = x1" using 1 by (simp add: apply_degraded_def)
    ultimately show ?case
      using syncing MarkDegraded_observed[of _ _ now x1 y]
      by (cases "dep_phase x1 = DeploymentDegraded") (auto intro!: rest)
  next
    case (2 ph y)
    then show ?case
      by (auto simp: apply_progressing_def intro!: rest dest!: Deployment_Transition_observed split: if_splits)
  qed
qed

lemma applyObserved_run:
  assumes ok: "runtime_ok d0"
  shows "triple (\<lambda>s. s = d0) (applyObserved_tx u i status now) (\<lambda>_ s. runtime_effect\<^sup>*\<^sup>* d0 s \<and> True)"
  unfolding applyObserved_tx_def
proof (intro run_steps, goal_cases)
  case (1 x r e x1 r1)
  note got = got_deployment[OF 1(1) ok] got_release[OF 1(2) ok] got_environment[OF 1(3) ok]
  show ?case
  proof (rule triple_part[OF apply_phase_run[OF ok 1]], goal_cases)
    case (1 result d1)
    obtain y t f where new: "result = (y, t, f)" by (cases result)
    with 1 have n: "rows_decided x r e now (y, t, f) d1" by simp
    note n = n[unfolded rows_decided_def prod.case]
    have ids: "rel_id r = dep_release x" "env_id e = dep_environment x" using got by simp_all
    show ?case
      unfolding new prod.case
    proof (intro triple_part_unit[OF save_run(1)] triple_part_unit[OF save_run(2)]
        triple_post[OF save_run(3)], goal_cases)
      case (1 d2 d3 u d4)
      have "runtime_effect d1 d4"
        by (rule observed_effect[of x d1 r e y t f now, OF _ _ _ ids _ _ _ _ _ 1]) (use n in blast)+
      with \<open>runtime_effect\<^sup>*\<^sup>* d0 d1 \<and> _\<close> show ?case by (auto intro: rtranclp.rtrancl_into_rtrancl)
    qed
  qed
qed

lemma applyObservedStatus_call:
  "rely env \<Longrightarrow> call (\<lambda>_. True) (applyObservedStatus env i status) (\<lambda>_ _. True)"
  unfolding applyObservedStatus_def by (intro call_steps call_Transact applyObserved_run) simp_all

lemma observed_rows_tx_run: "triple (\<lambda>s. s = d0) (observed_rows_tx i) (\<lambda>_ s. s = d0)"
  unfolding observed_rows_tx_def by (intro run_steps refl)

lemma ReconcileDeploymentStatus_call:
  assumes "rely env"
  shows "call (\<lambda>_. True) (ReconcileDeploymentStatus env i) (\<lambda>_ _. True)"
  unfolding ReconcileDeploymentStatus_def Let_def
  by (intro call_steps call_bind[OF reads_call[OF assms observed_rows_tx_run]]
      markArgoSyncing_call[OF assms] markRollingOut_call[OF assms] applyObservedStatus_call[OF assms])

lemma owned_tx_run: "triple (\<lambda>s. s = d0) (owned_tx env object i) (\<lambda>_ s. s = d0)"
  unfolding owned_tx_def by (intro run_steps refl)

lemma call_attempt: "call P m (\<lambda>_ _. True) \<Longrightarrow> call P (attempt m) (\<lambda>_ _. True)"
  by (auto simp: call_def attempt_def split: prod.splits)

lemma ObserveRuntimeObject_call:
  assumes "rely env"
  shows "call (\<lambda>_. True) (ObserveRuntimeObject env object) (\<lambda>_ _. True)"
  unfolding ObserveRuntimeObject_def
  apply (intro call_let)
  apply (rule call_bind[where R = "\<lambda>_ _. True"])
   apply (intro call_steps call_ret call_bind[OF call_attempt[OF reads_call[OF assms owned_tx_run]]]; simp)
  apply (intro call_steps call_ret call_Transact[OF assms stable_True] run_steps conjI TrueI)
  apply (auto intro: object_quarantined effect_chain)
  done

end
