(* ===== verification/Runtime_Machine.thy ===== *)
theory Runtime_Machine
  imports Runtime_Observations
begin

text \<open>
  The runtime service as a machine: any of its methods, called in any environment, with other calls
  between its transactions.
\<close>

section \<open>Calls\<close>

datatype runtime_call =
    CallCreateApplication create_application_request
  | CallCreateEnvironment create_environment_request
  | CallRegisterCell register_cell_request
  | CallCreateRelease deploy_request
  | CallDeploy deploy_request
  | CallReconcileGitOps string string
  | CallRollbackWithRequest rollback_request
  | CallRollback string string
  | CallRequestPlacementMigration explicit_migration_request
  | CallStatus string
  | CallStatusForTenant string string
  | CallReconcileDeploymentStatus string
  | CallObserveRuntimeObject observed_object

definition discard :: "'a ract \<Rightarrow> unit ract" where
  "discard m = bindE m (\<lambda>_. ret ())"

fun runtime_perform :: "renv \<Rightarrow> runtime_call \<Rightarrow> unit ract" where
  "runtime_perform env (CallCreateApplication req) = discard (CreateApplication env req)"
| "runtime_perform env (CallCreateEnvironment req) = discard (CreateEnvironment env req)"
| "runtime_perform env (CallRegisterCell req) = discard (RegisterCell env req)"
| "runtime_perform env (CallCreateRelease req) = discard (CreateRelease env req)"
| "runtime_perform env (CallDeploy req) = discard (Deploy env req)"
| "runtime_perform env (CallReconcileGitOps releaseID actor) = ReconcileGitOps env releaseID actor"
| "runtime_perform env (CallRollbackWithRequest req) = discard (RollbackWithRequest env req)"
| "runtime_perform env (CallRollback e target) = discard (Rollback env e target)"
| "runtime_perform env (CallRequestPlacementMigration req) = discard (RequestPlacementMigration env req)"
| "runtime_perform env (CallStatus i) = discard (Status env i)"
| "runtime_perform env (CallStatusForTenant tenant i) = discard (StatusForTenant env tenant i)"
| "runtime_perform env (CallReconcileDeploymentStatus i) = ReconcileDeploymentStatus env i"
| "runtime_perform env (CallObserveRuntimeObject object) = ObserveRuntimeObject env object"

text \<open>The capacity of a cell is an \<open>int64\<close>, as its type says.\<close>

fun runtime_typed :: "runtime_call \<Rightarrow> bool" where
  "runtime_typed (CallRegisterCell req) \<longleftrightarrow> int64 (rg_capacity req)"
| "runtime_typed _ \<longleftrightarrow> True"

lemma discard_call: "call P m (\<lambda>_ _. True) \<Longrightarrow> call P (discard m) (\<lambda>_ _. True)"
  unfolding discard_def by (rule call_bind) (auto intro: call_ret)

lemma runtime_perform_call:
  assumes "rely env" and "runtime_typed c"
  shows "call (\<lambda>_. True) (runtime_perform env c) (\<lambda>_ _. True)"
  using assms
  by (cases c) (auto intro!: discard_call intro: CreateApplication_call CreateEnvironment_call
      RegisterCell_call call_post[OF CreateRelease_call] Deploy_call ReconcileGitOps_call RollbackWithRequest_call
      Rollback_call RequestPlacementMigration_call Status_call StatusForTenant_call
      ReconcileDeploymentStatus_call ObserveRuntimeObject_call)

lemma runtime_perform_effects:
  "rely env \<Longrightarrow> runtime_typed c \<Longrightarrow> runtime_ok (db w) \<Longrightarrow>
   runtime_effect\<^sup>*\<^sup>* (db w) (db (snd (runtime_perform env c w)))"
  using runtime_perform_call by (auto simp: call_def)

section \<open>Steps\<close>

text \<open>
  A step is a call that nothing interrupts: interference inside a call is what \<open>rely\<close> allows, and
  whatever other calls do is allowed.
\<close>

definition runtime_step :: "rworld \<Rightarrow> rworld \<Rightarrow> bool" where
  "runtime_step w w' \<longleftrightarrow>
     (\<exists>env c. rely env \<and> runtime_typed c \<and> w' = snd (runtime_perform env c w))"

lemma runtime_stepI: "rely env \<Longrightarrow> runtime_typed c \<Longrightarrow> runtime_step w (snd (runtime_perform env c w))"
  by (auto simp: runtime_step_def)

lemma runtime_step_effects: "runtime_step w w' \<Longrightarrow> runtime_ok (db w) \<Longrightarrow> runtime_effect\<^sup>*\<^sup>* (db w) (db w')"
  by (auto simp: runtime_step_def intro: runtime_perform_effects)

interpretation runtime: safe_machine "\<lambda>w. db w = runtime_newState" runtime_step "\<lambda>w. runtime_ok (db w)"
  by unfold_locales (auto simp: runtime_ok_newState dest: runtime_step_effects intro: effects_ok)

lemma runtime_run_effects:
  assumes "runtime_step\<^sup>*\<^sup>* w w'" and "runtime_ok (db w)"
  shows "runtime_effect\<^sup>*\<^sup>* (db w) (db w')"
  using assms(1)
proof (induction rule: rtranclp_induct)
  case (step y z)
  have "runtime_ok (db y)" using runtime.run_inv[OF step.hyps(1)] assms(2) by simp
  with step show ?case by (auto dest: runtime_step_effects intro: rtranclp_trans)
qed simp

text \<open>What other calls have done is what a call may find between its transactions.\<close>

lemma rely_calls:
  assumes "\<And>site d. \<exists>w w'. d = db w \<and> rv_others env site d = db w' \<and> runtime_step\<^sup>*\<^sup>* w w'"
  shows "rely env"
  unfolding rely_def
proof (intro allI impI)
  fix site d assume "runtime_ok d"
  moreover obtain w w' where "d = db w" "rv_others env site d = db w'" "runtime_step\<^sup>*\<^sup>* w w'"
    using assms by blast
  ultimately show "runtime_effect\<^sup>*\<^sup>* d (rv_others env site d)" using runtime_run_effects by metis
qed

lemma rely_quiet: "rv_others env = (\<lambda>_ d. d) \<Longrightarrow> rely env"
  by (simp add: rely_def)

end
