(* ===== verification/Runtime_Names.thy ===== *)
theory Runtime_Names
  imports Runtime_Domain
begin

text \<open>
  The names the runtime component generates: strings of plain characters, slugs, and names that are
  valid DNS labels whatever the identifiers they are made from.
\<close>

section \<open>Plain strings\<close>

definition plain_char :: "char \<Rightarrow> bool" where
  "plain_char c \<longleftrightarrow> of_char c < (128 :: nat) \<and> \<not> (65 \<le> (of_char c :: nat) \<and> (of_char c :: nat) \<le> 90)"

lemma runes_Cons: "of_char c < (128 :: nat) \<Longrightarrow> runes (c # s) = of_char c # runes s"
  by (simp add: runes_def)

lemma runes_Nil [simp]: "runes [] = []"
  by (simp add: runes_def)

lemma encode_rune_ascii: "r < 128 \<Longrightarrow> encode_rune r = [char_of r]"
  by (simp add: encode_rune_def)

lemma ToLower_plain: "list_all plain_char s \<Longrightarrow> ToLower u s = s"
proof (induction s)
  case (Cons c s)
  then have c: "of_char c < (128 :: nat)" "rune_lower u (of_char c) = of_char c"
    by (auto simp: plain_char_def rune_lower_def)
  with Cons show ?case by (simp add: ToLower_def runes_Cons encode_rune_ascii)
qed (simp add: ToLower_def runes_def)

section \<open>Slugs\<close>

lemma slug_rune_char:
  assumes "slug_rune r"
  shows "encode_rune r = [char_of r]" and "label_char (char_of r)"
proof -
  have r: "(97 \<le> r \<and> r \<le> 122) \<or> (48 \<le> r \<and> r \<le> 57)" using assms by (simp add: slug_rune_def)
  then have "r < 128" and "r mod 256 = r" by auto
  then show "encode_rune r = [char_of r]" "label_char (char_of r)"
    using r by (simp add: encode_rune_ascii, auto simp: label_char_def lower_letter_def decimal_digit_def less_eq_char_def)
qed

lemma label_dash [simp]: "label_char (CHR ''-'')"
  by (simp add: label_char_def)

lemma dns_loop_label: "list_all label_char b \<Longrightarrow> list_all label_char (dns_loop rs b dash)"
  by (induction rs b dash rule: dns_loop.induct) (simp_all add: slug_rune_char)

lemma list_all_subset: "set s \<subseteq> set t \<Longrightarrow> list_all P t \<Longrightarrow> list_all P s"
  by (auto simp: list_all_iff)

lemma dnsSlug_label: "list_all label_char (dnsSlug u s)"
  unfolding dnsSlug_def by (rule list_all_subset[OF set_Trim_dash dns_loop_label]) simp

text \<open>A slug is a DNS label, unless it is empty or too long.\<close>

lemma ValidDNSLabel_dnsSlug: "ValidDNSLabel (dnsSlug u s) \<longleftrightarrow> dnsSlug u s \<noteq> [] \<and> length (dnsSlug u s) \<le> 63"
  using Trim_dash_ends[of "dns_loop (runes (ToLower u (TrimSpace s))) [] False"] dnsSlug_label[of u s]
  by (cases "dnsSlug u s") (auto simp: ValidDNSLabel_def dnsSlug_def)

section \<open>Bounded names\<close>

definition hexadecimal :: "hashing \<Rightarrow> bool" where
  "hexadecimal h \<longleftrightarrow> (\<forall>s. 10 \<le> length (hs_sha256 h s) \<and> list_all hex_digit (hs_sha256 h s))"

lemma hex_label: "hex_digit c \<Longrightarrow> label_char c \<and> c \<noteq> CHR ''-''"
  by (auto simp: hex_digit_def label_char_def lower_letter_def decimal_digit_def less_eq_char_def)

lemma shortHash_hex:
  assumes "hexadecimal h"
  shows "length (shortHash h vs) = 10" and "list_all hex_digit (shortHash h vs)"
  using assms by (auto simp: hexadecimal_def shortHash_def list_all_iff dest: in_set_takeD)

lemma label_of_parts:
  assumes pre: "list_all label_char pre" "pre \<noteq> [] \<Longrightarrow> hd pre \<noteq> CHR ''-''"
    and slug: "list_all label_char slug" "slug \<noteq> []" "hd slug \<noteq> CHR ''-''"
    and hash: "list_all hex_digit hash" "length hash = 10"
    and size: "length pre + length slug \<le> 52"
  shows "ValidDNSLabel (pre @ slug @ ''-'' @ hash)"
proof -
  have ne: "hash \<noteq> []" using hash(2) by auto
  have "list_all label_char hash" using hash(1) by (auto simp: list_all_iff hex_label)
  moreover have "last hash \<noteq> CHR ''-''" using hash(1) ne by (auto simp: list_all_iff hex_label)
  moreover have "hd (pre @ slug @ ''-'' @ hash) \<noteq> CHR ''-''" using pre(2) slug by (cases pre) auto
  ultimately show ?thesis using pre slug hash(2) size ne by (simp add: ValidDNSLabel_def)
qed

lemma boundedDNS_label:
  assumes "hexadecimal h" and pre: "list_all label_char pre" "pre \<noteq> [] \<Longrightarrow> hd pre \<noteq> CHR ''-''" "length pre \<le> 40"
  shows "ValidDNSLabel (boundedDNS h pre vs)"
proof -
  note hash = shortHash_hex[OF assms(1), of vs]
  define s0 where "s0 = dnsSlug (hs_unicode h) (Join vs ''-'')"
  define s1 where "s1 = (if s0 = [] then ''app'' else s0)"
  define s2 where "s2 = (if 52 - length pre < length s1 then Trim_dash (take (52 - length pre) s1) else s1)"
  define s3 where "s3 = (if s2 = [] then ''app'' else s2)"
  have app: "list_all label_char ''app''" by code_simp
  have s1: "list_all label_char s1" "s1 \<noteq> []" "hd s1 \<noteq> CHR ''-''"
    using app dnsSlug_label[of "hs_unicode h"] Trim_dash_ends
    by (auto simp: s1_def s0_def dnsSlug_def)
  have "list_all label_char s2"
    using s1(1) by (auto simp: s2_def intro: list_all_subset[OF subset_trans[OF set_Trim_dash set_take_subset]])
  moreover have "s2 \<noteq> [] \<Longrightarrow> hd s2 \<noteq> CHR ''-''" using s1 Trim_dash_ends by (auto simp: s2_def)
  moreover have "length s2 \<le> 52 - length pre"
    using length_Trim_dash[of "take (52 - length pre) s1"] by (auto simp: s2_def)
  ultimately have s3: "list_all label_char s3" "s3 \<noteq> []" "hd s3 \<noteq> CHR ''-''" "length pre + length s3 \<le> 52"
    using app pre(3) by (auto simp: s3_def)
  define m where "m = 52 - length pre"
  have limit: "63 - int (length pre) - int (length (''-'' @ shortHash h vs)) = int m" "\<not> int m < 1"
    using hash(1) pre(3) by (simp_all add: m_def)
  have "boundedDNS h pre vs = pre @ s3 @ ''-'' @ shortHash h vs"
    unfolding boundedDNS_def Let_def s0_def[symmetric] s1_def[symmetric] limit(1) if_not_P[OF limit(2)]
    by (simp add: s2_def s3_def m_def[symmetric])
  then show ?thesis using label_of_parts[OF pre(1,2) s3(1-3) hash(2,1) s3(4)] by simp
qed

end
