(* ===== verification/Runtime_Scenario.thy ===== *)
theory Runtime_Scenario
  imports Runtime_Machine Runtime_Names
begin

definition site_hashing :: hashing where
  "site_hashing =
     \<lparr>hs_unicode = ascii_tables, hs_sha256 = (\<lambda>_. ''0123456789abcdef''),
      hs_json = (\<lambda>j. case j of JReleaseIdentity e a c \<Rightarrow> ArtifactID a | _ \<Rightarrow> ''h'')\<rparr>"

definition site_repository :: gitops_repository where
  "site_repository =
     \<lparr>go_commit = (\<lambda>r. Inr \<lparr>co_sha = ''0123456789'' @ cr_deployment r, co_path = ''p'', co_manifest_hash = ''m''\<rparr>),
      go_find = (\<lambda>_ _. Inr None)\<rparr>"

definition site_env :: renv where
  "site_env =
     \<lparr>rv_hashing = site_hashing, rv_store = True, rv_clock = Some (\<lambda>n. 1000 + int n),
      rv_ids = Some (\<lambda>n pre. pre @ [''abcdefghijklmnopqrstuvwxyz'' ! n]), rv_scheduler = True,
      rv_artifacts = Some (\<lambda>_. Inr \<lparr>rd_allowed = True, rd_policy_version = ''p1'', rd_reasons = []\<rparr>),
      rv_units = Some (\<lambda>_. Some 2), rv_renderer = Some (Render site_hashing (\<lambda>_ _. ''m'')),
      rv_gitops = Some site_repository, rv_observer = None, rv_after_push = None,
      rv_ctx = (\<lambda>_. None), rv_others = (\<lambda>_ d. d)\<rparr>"

definition site_app :: create_application_request where
  "site_app = \<lparr>ca_tenant = ''acme'', ca_project = ''p1'', ca_name = ''shop'', ca_actor = ''ann'', ca_key = ''k1''\<rparr>"

definition site_cell :: register_cell_request where
  "site_cell =
     \<lparr>rg_id = ''c1'', rg_region = ''eu'', rg_isolation = [''sandboxed''], rg_capacity = 10, rg_repository = ''git'',
      rg_server = ''https'', rg_project = ''prod'', rg_ingress = ''apps.io''\<rparr>"

definition site_digest :: string where
  "site_digest = ''sha256:'' @ replicate 64 (CHR ''a'')"

definition site_config :: "int \<Rightarrow> release_config" where
  "site_config n =
     \<lparr>rc_region = ''eu'', rc_isolation = ''sandboxed'', rc_unit = ''small'',
      rc_processes = [(''web'', \<lparr>Command = None, Port = 80, MinReplicas = n, MaxReplicas = n, HealthPath = [],
         StartupTimeout = 0, ReadinessTimeout = 0\<rparr>)],
      rc_hostname = [], rc_attachment_snapshot = [],
      rc_migration = \<lparr>MigrationCommand = None, TimeoutSeconds = 0\<rparr>, rc_rollout_timeout = 0, rc_egress_profile = []\<rparr>"

definition site_deploy :: "string \<Rightarrow> string \<Rightarrow> int \<Rightarrow> deploy_request" where
  "site_deploy artifact key n =
     \<lparr>dr_tenant = ''acme'', dr_application = ''appa'', dr_environment = ''envb'',
      dr_artifact = \<lparr>ArtifactID = artifact, Repository = ''reg.io/shop'', Digest = site_digest, MediaType = ''oci''\<rparr>,
      dr_configuration = site_config n, dr_key = key, dr_actor = ''ann''\<rparr>"

definition empty_site :: rworld where
  "empty_site = \<lparr>db = runtime_newState, id_seq = 0, clk_seq = 0\<rparr>"


definition site_world :: rworld where
  "site_world = snd (RegisterCell site_env site_cell (snd (CreateApplication site_env site_app empty_site)))"

lemma site_trims [simp]:
  "TrimSpace ''acme'' = ''acme''" "TrimSpace ''p1'' = ''p1''" "TrimSpace ''shop'' = ''shop''"
  "TrimSpace ''ann'' = ''ann''" "TrimSpace ''k1'' = ''k1''" "TrimSpace ''production'' = ''production''"
  "TrimSpace ''appa'' = ''appa''" "TrimSpace ''envb'' = ''envb''" "TrimSpace ''c1'' = ''c1''"
  "TrimSpace ''eu'' = ''eu''" "TrimSpace ''git'' = ''git''" "TrimSpace ''https'' = ''https''" 
  "TrimSpace ''prod'' = ''prod''" "TrimSpace ''apps.io'' = ''apps.io''"
  "TrimSpace ''appa-production'' = ''appa-production''"
  by code_simp+

lemma site_lower [simp]:
  "ToLower u ''shop'' = ''shop''" "ToLower u ''production'' = ''production''" "ToLower u ''c1'' = ''c1''"
  "ToLower u ''eu'' = ''eu''" "ToLower u ''apps.io'' = ''apps.io''" "ToLower u ''appa-production'' = ''appa-production''"
  by (simp_all add: ToLower_plain plain_char_def)

lemma site_ids [simp]:
  "ValidPlatformID ''acme''" "ValidPlatformID ''p1''" "ValidPlatformID ''appa''" "ValidPlatformID ''envb''"
  by code_simp+

lemma site_labels [simp]:
  "ValidDNSLabel ''shop''" "ValidDNSLabel ''production''" "ValidDNSLabel ''c1''" "ValidDNSLabel ''eu''"
  "ValidDNSLabel ''prod''" "ValidDNSLabel ''apps''" "ValidDNSLabel ''io''" "ValidDNSLabel ''appa-production-0123456789''"
  by code_simp+

lemma site_domain [simp]:
  "TrimSuffix ''apps.io'' ''.'' = ''apps.io''" "\<not> HasSuffix ''apps.io'' ''.''"
  "\<not> HasSuffix ''appa-production-0123456789.apps.io'' ''.''"
  by code_simp+

lemma site_slugs [simp]:
  "dnsSlug u ''shop'' = ''shop''" "dnsSlug u ''production'' = ''production''" "dnsSlug u ''appa-production'' = ''appa-production''"
  by (simp_all add: dnsSlug_def runes_Cons runes_Nil slug_rune_def encode_rune_ascii Trim_dash_def char_of_eq_iff)

lemmas site_run_defs = tx_write_def tx_get_def tx_read_def bindE_def seqE_def ret_def throw_def of_result_def
  Runtime_Transact_def validateBase_def runtime_now_def runtime_newID_def Let_def

lemmas application_defs = CreateApplication_def trimApplication_def CreateApplication_tx_def
  Runtime_GetIdempotency_def FindApplicationByTenantName_def NewApplication_def NewEnvironment_def
  EnvironmentNamespace_def boundedDNS_def shortHash_def InsertApplication_def InsertEnvironment_def
  Runtime_InsertIdempotency_def Runtime_AppendOutbox_def Runtime_AppendAudit_def environment_conflict.simps
  GetApplication_def GetEnvironment_def RegisterCell_def NewRuntimeCell_def GetRuntimeCell_def InsertRuntimeCell_def
  ValidDNSSubdomain_def IsolationSandboxed_def

definition shop_config :: release_config where
  "shop_config =
     (site_config 2)\<lparr>rc_processes := [(''web'', \<lparr>Command = None, Port = 80, MinReplicas = 2, MaxReplicas = 2,
         HealthPath = [], StartupTimeout = 60, ReadinessTimeout = 30\<rparr>)],
      rc_attachment_snapshot := ''none'', rc_rollout_timeout := 300, rc_egress_profile := ''public-default''\<rparr>"

lemma new_ids [simp]:
  "TrimSpace ''evtc'' = ''evtc''" "TrimSpace ''audd'' = ''audd''" "TrimSpace ''plce'' = ''plce''" "TrimSpace ''relf'' = ''relf''" "TrimSpace ''audg'' = ''audg''" "TrimSpace ''deph'' = ''deph''" "TrimSpace ''giti'' = ''giti''" "TrimSpace ''evtj'' = ''evtj''" "TrimSpace ''audk'' = ''audk''"
  "ValidPlatformID ''evtc''" "ValidPlatformID ''audd''" "ValidPlatformID ''plce''" "ValidPlatformID ''relf''" "ValidPlatformID ''audg''" "ValidPlatformID ''deph''" "ValidPlatformID ''giti''" "ValidPlatformID ''evtj''" "ValidPlatformID ''audk''"
  by code_simp+

lemma more_trims [simp]:
  "TrimSpace ''small'' = ''small''" "TrimSpace ''web'' = ''web''" "TrimSpace ''none'' = ''none''"
  "TrimSpace ''public-default'' = ''public-default''" "TrimSpace [] = []"
  "TrimSpace ''appa-production-0123456789.apps.io'' = ''appa-production-0123456789.apps.io''"
  "TrimSpace ''art1'' = ''art1''" "TrimSpace ''art2'' = ''art2''" "TrimSpace ''reg.io/shop'' = ''reg.io/shop''" "TrimSpace ''oci'' = ''oci''"
  "TrimSpace ''k2'' = ''k2''" "TrimSpace ''k3'' = ''k3''"
  by code_simp+

lemma more_lower [simp]:
  "ToLower u ''small'' = ''small''" "ToLower u ''web'' = ''web''" "ToLower u [] = []"
  "ToLower u ''public-default'' = ''public-default''"
  "ToLower u ''appa-production-0123456789.apps.io'' = ''appa-production-0123456789.apps.io''"
  by (simp_all add: ToLower_plain plain_char_def)

lemma more_labels [simp]:
  "ValidDNSLabel ''small''" "ValidDNSLabel ''web''" "ValidDigest site_digest"
  by code_simp+

lemmas normalize_defs = NormalizeReleaseConfig_def normalize_fields_def normalize_migration_def
  IsolationSandboxed_def SelectRouteProcess_def routable_def copy_strings_def

lemma shop_normalized [simp]:
  "NormalizeReleaseConfig u (site_config 2\<lparr>rc_hostname := host\<rparr>) = Inr (shop_config\<lparr>rc_hostname := ToLower u (TrimSpace host)\<rparr>)"
  "NormalizeReleaseConfig u (shop_config\<lparr>rc_hostname := host\<rparr>) = Inr (shop_config\<lparr>rc_hostname := ToLower u (TrimSpace host)\<rparr>)"
  by (simp_all add: normalize_defs site_config_def shop_config_def)

lemma shop_fields [simp]:
  "rc_region (site_config n) = ''eu''" "rc_unit (site_config n) = ''small''" "rc_processes (site_config n) \<noteq> []"
  "rc_region shop_config = ''eu''" "rc_isolation shop_config = ''sandboxed''"
  by (simp_all add: site_config_def shop_config_def)

lemma shop_units [simp]: "requestedUnits (Some (\<lambda>_. Some 2)) (shop_config\<lparr>rc_hostname := h\<rparr>) = Inr 4"
  by (simp add: requestedUnits_def shop_config_def quo_def MaxInt64_def wrap64_def)

lemma shop_hostname [simp]:
  "GeneratedHostname site_hashing ''appa'' ''production'' ''apps.io'' = Inr ''appa-production-0123456789.apps.io''"
  by (simp add: GeneratedHostname_def boundedDNS_def shortHash_def site_hashing_def Let_def ValidDNSSubdomain_def)

lemma site_tables:
  "rt_applications (db site_world) =
     [(''appa'', \<lparr>app_id = ''appa'', app_tenant = ''acme'', app_project = ''p1'', app_name = ''shop'',
        app_lifecycle = LifecycleActive, app_version = 1, app_created_at = 1000, app_updated_at = 1000\<rparr>)] \<and>
   rt_environments (db site_world) =
     [(''envb'', \<lparr>env_id = ''envb'', env_tenant = ''acme'', env_application = ''appa'',
        env_name = ''production'', env_namespace = ''app-appa-production-0123456789'', env_default = True,
        env_active_release = [], env_placement = [], env_version = 1, env_created_at = 1000,
        env_updated_at = 1000\<rparr>)] \<and>
   rt_cells (db site_world) =
     [(''c1'', \<lparr>cell_id = ''c1'', cell_region = ''eu'', cell_isolation = [''sandboxed''], cell_state = CellActive,
        cell_capacity = 10, cell_allocated = 0, cell_repository = ''git'', cell_revision = ''main'',
        cell_server = ''https'', cell_project = ''prod'', cell_ingress = ''apps.io'', cell_version = 1,
        cell_created_at = 1001, cell_updated_at = 1001\<rparr>)] \<and>
   rt_placements (db site_world) = [] \<and> rt_releases (db site_world) = [] \<and>
   rt_deployments (db site_world) = [] \<and> rt_commits (db site_world) = Map.empty \<and>
   rt_outbox (db site_world) =
     [\<lparr>ro_id = ''evtc'', ro_tenant = ''acme'', ro_topic = ''runtime.application.created.v1'',
       ro_aggregate = ''appa'', ro_payload = JFields [(''application_id'', ''appa''), (''environment_id'', ''envb'')],
       ro_created_at = 1000\<rparr>] \<and>
   rt_audit (db site_world) =
     [\<lparr>ra_id = ''audd'', ra_tenant = ''acme'', ra_actor = ''ann'', ra_action = ''runtime.application.create'',
       ra_resource_type = ''application'', ra_resource_id = ''appa'',
       ra_data = JFields [(''name'', ''shop''), (''project_id'', ''p1'')], ra_created_at = 1000\<rparr>] \<and>
   rt_idempotency (db site_world) (runtime_idemKey ''acme'' ''runtime.release.create'' ''k2'') = None \<and>
   clk_seq site_world = 2 \<and> id_seq site_world = 4"
  by (simp add: site_world_def site_env_def site_hashing_def site_app_def site_cell_def empty_site_def
      runtime_newState_def site_run_defs application_defs runtime_idemKey_def)

lemmas site_table [simp] = site_tables[THEN conjunct1]
  site_tables[THEN conjunct2, THEN conjunct1]
  site_tables[THEN conjunct2, THEN conjunct2, THEN conjunct1]
  site_tables[THEN conjunct2, THEN conjunct2, THEN conjunct2, THEN conjunct1]
  site_tables[THEN conjunct2, THEN conjunct2, THEN conjunct2, THEN conjunct2, THEN conjunct1]
  site_tables[THEN conjunct2, THEN conjunct2, THEN conjunct2, THEN conjunct2, THEN conjunct2, THEN conjunct1]
  site_tables[THEN conjunct2, THEN conjunct2, THEN conjunct2, THEN conjunct2, THEN conjunct2, THEN conjunct2, THEN conjunct1]
  site_tables[THEN conjunct2, THEN conjunct2, THEN conjunct2, THEN conjunct2, THEN conjunct2, THEN conjunct2, THEN conjunct2, THEN conjunct1]
  site_tables[THEN conjunct2, THEN conjunct2, THEN conjunct2, THEN conjunct2, THEN conjunct2, THEN conjunct2, THEN conjunct2, THEN conjunct2, THEN conjunct1]
  site_tables[THEN conjunct2, THEN conjunct2, THEN conjunct2, THEN conjunct2, THEN conjunct2, THEN conjunct2, THEN conjunct2, THEN conjunct2, THEN conjunct2, THEN conjunct1]
  site_tables[THEN conjunct2, THEN conjunct2, THEN conjunct2, THEN conjunct2, THEN conjunct2, THEN conjunct2, THEN conjunct2, THEN conjunct2, THEN conjunct2, THEN conjunct2]

lemmas release_defs = CreateRelease_def Deploy_Validate_def Artifact_Validate_def replayCreateRelease_def replay_tx_def
  Runtime_GetIdempotency_def CreateRelease_tx_def GetApplication_def GetEnvironment_def
  resolvePlacement_def GetCurrentPlacement_def ListRuntimeCells_def Select_def CanPlace_def supports_def
  ReleaseIdentity_def FindReleaseByIdentity_def newRelease_tx_def placeEnvironment_def NewPlacement_def
  Cell_Allocate_def UpdateRuntimeCell_def GetRuntimeCell_def InsertPlacement_def GetPlacement_def SetPlacement_def
  UpdateEnvironment_def environment_update_conflict.simps NewRelease_def Release_Transition_def InsertRelease_def
  GetRelease_def release_key_record_def Runtime_InsertIdempotency_def Runtime_AppendAudit_def

section \<open>A release\<close>

definition shop_release :: release where
  "shop_release =
     \<lparr>rel_id = ''relf'', rel_tenant = ''acme'', rel_application = ''appa'', rel_environment = ''envb'',
      rel_identity = ''sha256:art1'',
      rel_artifact = \<lparr>ArtifactID = ''art1'', Repository = ''reg.io/shop'', Digest = site_digest, MediaType = ''oci''\<rparr>,
      rel_configuration = shop_config\<lparr>rc_hostname := ''appa-production-0123456789.apps.io''\<rparr>,
      rel_policy_version = ''p1'', rel_state = ReleaseValidated, rel_rollback_of = [],
      rel_policy_override = False, rel_failure_code = [], rel_failure_message = [], rel_version = 2,
      rel_created_at = 1002, rel_updated_at = 1002\<rparr>"

definition shop_placement :: placement where
  "shop_placement =
     \<lparr>pl_id = ''plce'', pl_tenant = ''acme'', pl_environment = ''envb'', pl_cell = ''c1'', pl_region = ''eu'',
      pl_isolation = ''sandboxed'', pl_current = True, pl_units = 4, pl_version = 1, pl_created_at = 1002,
      pl_updated_at = 1002\<rparr>"

definition shop_environment :: environment where
  "shop_environment =
     \<lparr>env_id = ''envb'', env_tenant = ''acme'', env_application = ''appa'', env_name = ''production'',
      env_namespace = ''app-appa-production-0123456789'', env_default = True, env_active_release = [],
      env_placement = ''plce'', env_version = 2, env_created_at = 1000, env_updated_at = 1002\<rparr>"

definition shop_cell :: runtime_cell where
  "shop_cell =
     \<lparr>cell_id = ''c1'', cell_region = ''eu'', cell_isolation = [''sandboxed''], cell_state = CellActive,
      cell_capacity = 10, cell_allocated = 4, cell_repository = ''git'', cell_revision = ''main'',
      cell_server = ''https'', cell_project = ''prod'', cell_ingress = ''apps.io'', cell_version = 2,
      cell_created_at = 1001, cell_updated_at = 1002\<rparr>"

definition shop_key :: runtime_idempotency where
  "shop_key =
     \<lparr>ri_tenant = ''acme'', ri_scope = ''runtime.release.create'', ri_key = ''k2'', ri_request_hash = ''h'',
      ri_resource_id = ''relf'', ri_created_at = 1002\<rparr>"

definition created_world :: rworld where
  "created_world = snd (CreateRelease site_env (site_deploy ''art1'' ''k2'' 2) site_world)"

lemmas site_params = site_env_def site_hashing_def[THEN arg_cong[of _ _ hs_unicode]]
  site_hashing_def[THEN arg_cong[of _ _ hs_json]] site_run_defs

lemma created_eval:
  "fst (CreateRelease site_env (site_deploy ''art1'' ''k2'' 2) site_world) = Inr (shop_release, shop_placement) \<and>
   rt_applications (db created_world) = rt_applications (db site_world) \<and>
   rt_environments (db created_world) = [(''envb'', shop_environment)] \<and>
   rt_cells (db created_world) = [(''c1'', shop_cell)] \<and>
   rt_placements (db created_world) = [(''plce'', shop_placement)] \<and>
   rt_releases (db created_world) = [(''relf'', shop_release)] \<and>
   rt_deployments (db created_world) = [] \<and> rt_commits (db created_world) = Map.empty \<and>
   rt_outbox (db created_world) = rt_outbox (db site_world) \<and>
   map ra_id (rt_audit (db created_world)) = [''audd'', ''audg''] \<and>
   rt_idempotency (db created_world) (runtime_idemKey ''acme'' ''runtime.release.create'' ''k2'') = Some shop_key \<and>
   clk_seq created_world = 3 \<and> id_seq created_world = 7"
  unfolding created_world_def
  by (simp add: release_defs site_params site_deploy_def wrap64_def shop_release_def shop_placement_def
      shop_environment_def shop_cell_def shop_key_def releaseRequestHash_def)

lemmas created_table [simp] = created_eval[THEN conjunct2, THEN conjunct1]
  created_eval[THEN conjunct2, THEN conjunct2, THEN conjunct1]
  created_eval[THEN conjunct2, THEN conjunct2, THEN conjunct2, THEN conjunct1]
  created_eval[THEN conjunct2, THEN conjunct2, THEN conjunct2, THEN conjunct2, THEN conjunct1]
  created_eval[THEN conjunct2, THEN conjunct2, THEN conjunct2, THEN conjunct2, THEN conjunct2, THEN conjunct1]
  created_eval[THEN conjunct2, THEN conjunct2, THEN conjunct2, THEN conjunct2, THEN conjunct2, THEN conjunct2, THEN conjunct1]
  created_eval[THEN conjunct2, THEN conjunct2, THEN conjunct2, THEN conjunct2, THEN conjunct2, THEN conjunct2, THEN conjunct2, THEN conjunct1]
  created_eval[THEN conjunct2, THEN conjunct2, THEN conjunct2, THEN conjunct2, THEN conjunct2, THEN conjunct2, THEN conjunct2, THEN conjunct2, THEN conjunct1]
  created_eval[THEN conjunct2, THEN conjunct2, THEN conjunct2, THEN conjunct2, THEN conjunct2, THEN conjunct2, THEN conjunct2, THEN conjunct2, THEN conjunct2, THEN conjunct1]
  created_eval[THEN conjunct2, THEN conjunct2, THEN conjunct2, THEN conjunct2, THEN conjunct2, THEN conjunct2, THEN conjunct2, THEN conjunct2, THEN conjunct2, THEN conjunct2, THEN conjunct1]
  created_eval[THEN conjunct2, THEN conjunct2, THEN conjunct2, THEN conjunct2, THEN conjunct2, THEN conjunct2, THEN conjunct2, THEN conjunct2, THEN conjunct2, THEN conjunct2, THEN conjunct2, THEN conjunct1]
  created_eval[THEN conjunct2, THEN conjunct2, THEN conjunct2, THEN conjunct2, THEN conjunct2, THEN conjunct2, THEN conjunct2, THEN conjunct2, THEN conjunct2, THEN conjunct2, THEN conjunct2, THEN conjunct2]

lemma created:
  "CreateRelease site_env (site_deploy ''art1'' ''k2'' 2) site_world =
   (Inr (shop_release, shop_placement), created_world)"
  using created_eval unfolding created_world_def by (metis prod.collapse)

section \<open>A deployment\<close>

definition deployed_world :: rworld where
  "deployed_world = snd (Deploy site_env (site_deploy ''art1'' ''k2'' 2) site_world)"

lemma site_fields:
  "rv_hashing site_env = site_hashing" "rv_store site_env" "rv_clock site_env = Some (\<lambda>n. 1000 + int n)"
  "rv_ids site_env = Some (\<lambda>n pre. pre @ [''abcdefghijklmnopqrstuvwxyz'' ! n])" "rv_after_push site_env = None"
  "rv_renderer site_env = Some (Render site_hashing (\<lambda>_ _. ''m''))" "rv_gitops site_env = Some site_repository"
  "rv_ctx site_env site = None" "rv_others site_env site d = d"
  by (simp_all add: site_env_def)

lemma shop_names [simp]:
  "PaaSAppName site_hashing ''appa'' ''production'' = ''paas-appa-production-0123456789''"
  by (simp add: PaaSAppName_def boundedDNS_def shortHash_def site_hashing_def)

lemma shop_repository [simp]: "ValidOCIRepository u ''reg.io/shop''"
proof -
  have "ToLower u ''reg.io/shop'' = ''reg.io/shop''" by (simp add: ToLower_plain plain_char_def)
  moreover have "\<not> ContainsAny ''reg.io/shop'' [CHR ''@'', CHR 0x0D, CHR 0x0A, CHR 0x09, CHR '' '']"
    "\<not> str_contains ''reg.io/shop'' ''://''" "\<not> HasPrefix ''reg.io/shop'' ''/''" "\<not> HasSuffix ''reg.io/shop'' ''/''"
    "LastIndex ''reg.io/shop'' (CHR ''/'') = 6" "\<not> str_contains ''shop'' '':''"
    "Split (CHR ''/'') ''reg.io/shop'' = [''reg.io'', ''shop'']" "oci_host ''reg.io''" "oci_path_part ''shop''"
    by code_simp+
  ultimately show ?thesis by (simp add: ValidOCIRepository_def Let_def)
qed

definition shop_input :: render_input where
  "shop_input =
     \<lparr>in_application = \<lparr>app_id = ''appa'', app_tenant = ''acme'', app_project = ''p1'', app_name = ''shop'',
        app_lifecycle = LifecycleActive, app_version = 1, app_created_at = 1000, app_updated_at = 1000\<rparr>,
      in_environment = shop_environment, in_release = shop_release, in_placement = shop_placement,
      in_cell = shop_cell\<rparr>"

lemma shop_checks [simp]:
  "ValidDNSLabel ''paas-appa-production-0123456789''" "ValidDNSLabel ''app-appa-production-0123456789''"
  "validScalar ''oci'' 255" "validScalar ''none'' 255" "safeSegment ''c1''" "safeSegment ''acme''" "safeSegment ''appa''" "safeSegment ''production''"
  "ValidPlatformID ''relf''"
  by code_simp+

lemma shop_route [simp]: "SelectRouteProcess (rc_processes shop_config) = Some ''web''"
  by (simp add: SelectRouteProcess_def routable_def shop_config_def)

lemma shop_app_valid: "App_Validate ascii_tables (rendered_app site_hashing shop_input ''web'') = Inr ()"
  by (simp add: App_Validate_def rendered_app_def rendered_spec_def rendered_meta_def shop_input_def
      shop_environment_def shop_release_def shop_config_def site_config_def identity_valid_def process_error_def
      validCommand_def cloneProcesses_def copy_strings_def IsolationSandboxed_def App_Validate_rest_def
      known_lifecycle_def ValidDNSSubdomain_def Let_def)

lemma shop_input_fields:
  "app_id (in_application shop_input) = ''appa''" "app_tenant (in_application shop_input) = ''acme''"
  "env_id (in_environment shop_input) = ''envb''" "env_tenant (in_environment shop_input) = ''acme''"
  "env_name (in_environment shop_input) = ''production''" "rel_id (in_release shop_input) = ''relf''"
  "rel_tenant (in_release shop_input) = ''acme''" "rel_environment (in_release shop_input) = ''envb''"
  "rel_configuration (in_release shop_input) = shop_config\<lparr>rc_hostname := ''appa-production-0123456789.apps.io''\<rparr>"
  "pl_id (in_placement shop_input) = ''plce''" "pl_environment (in_placement shop_input) = ''envb''"
  "pl_cell (in_placement shop_input) = ''c1''" "cell_id (in_cell shop_input) = ''c1''"
  by (simp_all add: shop_input_def shop_environment_def shop_release_def shop_placement_def shop_cell_def)

lemma shop_render: "\<exists>b. Render site_hashing (\<lambda>_ _. ''m'') shop_input = Inr b"
proof -
  have "hs_unicode site_hashing = ascii_tables" by (simp add: site_hashing_def)
  then show ?thesis by (simp add: Render_def Let_def shop_app_valid shop_input_fields HasPrefix_def)
qed

text \<open>The deployment before and after its commit.\<close>

definition shop_pending :: deployment where
  "shop_pending =
     \<lparr>dep_id = ''deph'', dep_tenant = ''acme'', dep_application = ''appa'', dep_environment = ''envb'',
      dep_release = ''relf'', dep_placement = ''plce'', dep_previous = [], dep_phase = DeploymentPending,
      dep_commit = [], dep_url = [], dep_replicas = 0, dep_failure_code = [], dep_failure_message = [],
      dep_version = 1, dep_created_at = 1003, dep_updated_at = 1003\<rparr>"

lemmas deploy_defs = deploy_tx_def GetApplication_def GetEnvironment_def GetRuntimeCell_def FindDeploymentByRelease_def
  NewDeployment_def InsertDeployment_def GetDeployment_def

lemma deploy_eval:
  "deploy_tx site_env m (\<lambda>w. (Inr 1003, w)) shop_release shop_placement (created_world\<lparr>clk_seq := 4\<rparr>) =
   (Inr (in_application shop_input, shop_environment, shop_cell, shop_pending),
    created_world\<lparr>clk_seq := 4, id_seq := 8, db := (db created_world)\<lparr>rt_deployments := [(''deph'', shop_pending)]\<rparr>\<rparr>)"
  by (simp add: deploy_defs site_fields site_run_defs shop_release_def shop_placement_def
      shop_environment_def shop_cell_def shop_pending_def shop_input_def)

lemma audit_ids: "list_ex (\<lambda>old. ra_id old = x) l \<longleftrightarrow> list_ex (\<lambda>i. i = x) (map ra_id l)"
  by (auto simp: list_ex_iff)

lemma same_config [simp]: "config_equal c c"
  by (simp add: config_equal_def)

definition shop_committed :: deployment where
  "shop_committed =
     shop_pending\<lparr>dep_phase := DeploymentGitCommitted, dep_commit := ''0123456789deph'', dep_version := 2,
       dep_updated_at := 1004\<rparr>"

definition shop_commit_release :: release where
  "shop_commit_release =
     shop_release\<lparr>rel_state := ReleaseCommittedToGitOps, rel_version := 3, rel_updated_at := 1004\<rparr>"

lemma shop_sha [simp]:
  "TrimSpace ''0123456789deph'' = ''0123456789deph''"
  "\<not> ContainsAny ''0123456789deph'' [CHR 0x0D, CHR 0x0A, CHR 0x00, CHR '' '']"
  by code_simp+

lemmas commit_defs = publishDeployment_def recordGitCommit_def recordGitCommit_tx_def GetGitOpsCommitByRelease_def
  GetRelease_def GetDeployment_def GetPlacement_def RecordGitCommit_def Deployment_Transition_def
  Release_Transition_def InsertGitOpsCommit_def UpdateDeployment_def UpdateRelease_def deployment_identity_kept_def
  release_identity_kept_def Runtime_AppendOutbox_def Runtime_AppendAudit_def site_repository_def

lemma shop_row_fields:
  "dep_phase shop_pending = DeploymentPending" "dep_id shop_pending = ''deph''" "rel_id shop_release = ''relf''"
  by (simp_all add: shop_pending_def shop_release_def)

definition pending_world :: rworld where
  "pending_world =
     created_world\<lparr>clk_seq := 4, id_seq := 8, db := (db created_world)\<lparr>rt_deployments := [(''deph'', shop_pending)]\<rparr>\<rparr>"

definition shop_commit :: commit_result where
  "shop_commit = \<lparr>co_sha = ''0123456789deph'', co_path = ''p'', co_manifest_hash = ''m''\<rparr>"

lemma publish_eval:
  "publishDeployment site_env hook actor shop_release shop_placement
     (in_application shop_input, shop_environment, shop_cell, shop_pending) w =
   seqE (recordGitCommit site_env ''relf'' ''deph'' shop_commit actor)
     (ret \<lparr>rf_deployment = ''deph'', rf_release = ''relf'', rf_phase = DeploymentGitCommitted\<rparr>) w"
proof -
  obtain b where b: "Render site_hashing (\<lambda>_ _. ''m'') shop_input = Inr b" using shop_render by blast
  have input: "\<lparr>in_application = in_application shop_input, in_environment = shop_environment,
      in_release = shop_release, in_placement = shop_placement, in_cell = shop_cell\<rparr> = shop_input"
    by (simp add: shop_input_def)
  show ?thesis
    by (simp add: publishDeployment_def shop_row_fields site_fields input b site_repository_def shop_commit_def
        bindE_def seqE_def of_result_def ret_def)
qed

definition shop_deployed :: "rworld \<Rightarrow> bool" where
  "shop_deployed w \<longleftrightarrow>
     rt_environments (db w) = [(''envb'', shop_environment)] \<and>
     rt_releases (db w) = [(''relf'', shop_commit_release)] \<and>
     rt_deployments (db w) = [(''deph'', shop_committed)] \<and>
     rt_placements (db w) = [(''plce'', shop_placement)] \<and> rt_cells (db w) = [(''c1'', shop_cell)] \<and>
     rt_applications (db w) = rt_applications (db site_world) \<and>
     rt_idempotency (db w) (runtime_idemKey ''acme'' ''runtime.release.create'' ''k2'') = Some shop_key \<and>
     clk_seq w = 5 \<and> id_seq w = 11"

lemma commit_eval:
  "\<exists>w. recordGitCommit site_env ''relf'' ''deph'' shop_commit actor pending_world = (Inr (), w) \<and> shop_deployed w"
  unfolding shop_deployed_def
  using audit_ids[of _ "rt_audit (db created_world)"]
  by (simp add: site_fields site_run_defs commit_defs pending_world_def shop_commit_def shop_release_def
      shop_pending_def shop_placement_def shop_commit_release_def shop_committed_def)

lemma pending:
  "deploy_tx site_env m (\<lambda>w. (Inr 1003, w)) shop_release shop_placement (created_world\<lparr>clk_seq := 4\<rparr>) =
   (Inr (in_application shop_input, shop_environment, shop_cell, shop_pending), pending_world)"
  using deploy_eval by (simp add: pending_world_def)

definition shop_ref :: deployment_ref where
  "shop_ref = \<lparr>rf_deployment = ''deph'', rf_release = ''relf'', rf_phase = DeploymentGitCommitted\<rparr>"

lemma deployed:
  "Deploy site_env (site_deploy ''art1'' ''k2'' 2) site_world = (Inr shop_ref, deployed_world) \<and>
   shop_deployed deployed_world"
proof -
  obtain w where w: "recordGitCommit site_env ''relf'' ''deph'' shop_commit
      (dr_actor (site_deploy ''art1'' ''k2'' 2)) pending_world = (Inr (), w)" "shop_deployed w"
    using commit_eval by blast
  have "Deploy site_env (site_deploy ''art1'' ''k2'' 2) site_world = (Inr shop_ref, w)"
    by (simp add: Deploy_def site_fields created bindE_def ret_def runtime_now_def Runtime_Transact_def
        pending publish_eval seqE_def w shop_ref_def)
  with w(2) show ?thesis by (simp add: deployed_world_def)
qed

lemmas deployed_tables = deployed[THEN conjunct2, unfolded shop_deployed_def]

section \<open>Steps\<close>

lemma site_rely: "rely site_env"
  by (simp add: rely_quiet site_env_def)

lemma discard_world: "snd (discard m w) = snd (m w)"
  by (simp add: discard_def bindE_def ret_def split: prod.splits sum.splits)

lemma site_steps: "runtime_step\<^sup>*\<^sup>* empty_site site_world"
proof -
  let ?w = "snd (CreateApplication site_env site_app empty_site)"
  have "runtime_step empty_site ?w"
    using runtime_stepI[OF site_rely, of "CallCreateApplication site_app" empty_site] by (simp add: discard_world)
  moreover have "runtime_step ?w site_world"
    using runtime_stepI[OF site_rely, of "CallRegisterCell site_cell" ?w]
    by (simp add: discard_world site_world_def site_cell_def int64_defs)
  ultimately show ?thesis by (meson rtranclp.simps)
qed

lemma deployed_step: "runtime_step site_world deployed_world"
  using runtime_stepI[OF site_rely, of "CallDeploy (site_deploy ''art1'' ''k2'' 2)" site_world]
  by (simp add: discard_world deployed_world_def)

lemma deployed_steps: "runtime_step\<^sup>*\<^sup>* empty_site deployed_world"
  using site_steps deployed_step by (rule rtranclp.rtrancl_into_rtrancl)

lemma empty_site_new: "db empty_site = runtime_newState"
  by (simp add: empty_site_def)

end
