(* ===== verification/Runtime_Liveness.thy ===== *)
theory Runtime_Liveness
  imports Runtime_Observations
begin

text \<open>
  A report that a rollout is ready is applied: nothing in the store can make its writes fail.
\<close>

section \<open>Runs that succeed\<close>

definition succeeds :: "runtime_data \<Rightarrow> 'a ract \<Rightarrow> ('a \<Rightarrow> runtime_data \<Rightarrow> bool) \<Rightarrow> bool" where
  "succeeds d m Q \<longleftrightarrow> (\<forall>w. db w = d \<longrightarrow> (\<exists>a w'. m w = (Inr a, w') \<and> Q a (db w')))"

lemma succeeds_ret: "Q a d \<Longrightarrow> succeeds d (ret a) Q"
  by (simp add: succeeds_def ret_def)

lemma succeeds_get: "succeeds d (k (f d)) Q \<Longrightarrow> succeeds d (bindE (tx_get f) k) Q"
  by (auto simp: succeeds_def tx_get_def bindE_def)

lemma succeeds_result: "r = Inr a \<Longrightarrow> succeeds d (k a) Q \<Longrightarrow> succeeds d (bindE (of_result r) k) Q"
  by (auto simp: succeeds_def of_result_def bindE_def)

lemma succeeds_bind:
  "succeeds d m R \<Longrightarrow> (\<And>a d1. R a d1 \<Longrightarrow> succeeds d1 (k a) Q) \<Longrightarrow> succeeds d (bindE m k) Q"
  by (fastforce simp: succeeds_def bindE_def)

lemma succeeds_seq:
  "succeeds d m (\<lambda>_. R) \<Longrightarrow> (\<And>d1. R d1 \<Longrightarrow> succeeds d1 k Q) \<Longrightarrow> succeeds d (seqE m k) Q"
  unfolding seqE_def by (rule succeeds_bind)

lemma succeeds_write: "f d = Inr d1 \<Longrightarrow> Q () d1 \<Longrightarrow> succeeds d (tx_write f) Q"
  by (auto simp: succeeds_def tx_write_def)

lemma succeeds_seq_write: "f d = Inr d1 \<Longrightarrow> succeeds d1 k Q \<Longrightarrow> succeeds d (seqE (tx_write f) k) Q"
  by (rule succeeds_seq[where R = "\<lambda>d. d = d1"]) (auto intro: succeeds_write)

lemma succeeds_triple:
  "succeeds d m R \<Longrightarrow> triple (\<lambda>s. s = d) m Q \<Longrightarrow> succeeds d m (\<lambda>a s. R a s \<and> Q a s)"
  unfolding succeeds_def triple_def by blast

lemma succeeds_post: "succeeds d m R \<Longrightarrow> (\<And>a s. R a s \<Longrightarrow> Q a s) \<Longrightarrow> succeeds d m Q"
  unfolding succeeds_def by blast

section \<open>Writes that succeed\<close>

lemma moves_kept: "release_moves r t \<Longrightarrow> release_identity_kept r t"
  by (cases r; cases t) (simp add: release_moves_def release_frozen_def release_identity_kept_def config_equal_def)

lemma deployment_moves_kept: "deployment_moves x y \<Longrightarrow> deployment_identity_kept x y"
  by (cases x; cases y) (simp add: deployment_moves_def deployment_frozen_def deployment_identity_kept_def)

lemma UpdateRelease_succeeds:
  assumes "GetRelease (rel_id r) d = Some r" and t: "release_moves r t"
    and "rel_state t = ReleaseActive \<Longrightarrow> \<not> active_elsewhere t d"
  shows "UpdateRelease t (rel_version r) d = Inr (d\<lparr>rt_releases := AList.update (rel_id r) t (rt_releases d)\<rparr>)"
  using assms moves_kept[OF t] release_moves_fields[OF t] by (auto simp: UpdateRelease_def)

lemma UpdateDeployment_succeeds:
  assumes "GetDeployment (dep_id x) d = Some x" and y: "deployment_moves x y"
  shows "UpdateDeployment y (dep_version x) d = Inr (d\<lparr>rt_deployments := AList.update (dep_id x) y (rt_deployments d)\<rparr>)"
  using assms deployment_moves_kept[OF y] deployment_moves_fields[OF y] by (simp add: UpdateDeployment_def)

lemma no_update_conflict:
  "\<forall>other\<in>set others. env_id other \<noteq> env_id v \<longrightarrow> environments_apart v other \<Longrightarrow>
   environment_update_conflict v others = None"
  by (induction others) (auto simp: environments_apart_def)

lemma UpdateEnvironment_succeeds:
  assumes ok: "runtime_ok d0" and same: "rt_environments d = rt_environments d0" and e: "GetEnvironment (env_id e) d = Some e" and f: "ActivateRelease i now e = Inr f"
  shows "UpdateEnvironment f (env_version e) d = Inr (d\<lparr>rt_environments := AList.update (env_id e) f (rt_environments d)\<rparr>)"
proof -
  note ff = environment_evolves_fields[OF ActivateRelease_evolves[OF f]]
  have created: "env_created_at f = env_created_at e"
    using f by (auto simp: ActivateRelease_def Let_def split: if_splits)
  have "environment_update_conflict f (map snd (rt_environments d)) = None"
  proof (rule no_update_conflict, intro ballI impI)
    fix other assume o': "other \<in> set (map snd (rt_environments d))" "env_id other \<noteq> env_id f"
    then obtain k where k: "(k, other) \<in> set (rt_environments d)" by auto
    moreover have wf: "wf_map (rt_environments d)" using ok same by (simp add: runtime_ok_def tables_wf_def)
    ultimately have get: "map_of (rt_environments d) k = Some other" by simp
    with ok_rows(1)[OF ok, of k other] get same o' ff have "k \<noteq> env_id e" by (auto simp: environment_row_def)
    moreover have "apart environments_apart (map_of (rt_environments d))"
      using ok same by (simp add: runtime_ok_def distinguished_def)
    ultimately have "environments_apart e other"
      using get e by (auto simp: GetEnvironment_def dest: apartD)
    then show "environments_apart f other" using ff by (simp add: environments_apart_def)
  qed
  with e ff created show ?thesis by (simp add: UpdateEnvironment_def)
qed

lemma supersede_succeeds:
  assumes "distinct (map rel_id others)" and "\<forall>other\<in>set others. GetRelease (rel_id other) d = Some other"
  shows "succeeds d (supersede_loop keep now others) (\<lambda>_ _. True)"
  using assms
proof (induction others arbitrary: d)
  case (Cons other others)
  show ?case
  proof (cases "rel_id other \<noteq> keep \<and> rel_state other = ReleaseActive")
    case False
    have "succeeds d (supersede_loop keep now others) (\<lambda>_ _. True)" using Cons by simp
    then show ?thesis unfolding supersede_loop.simps if_not_P[OF False] .
  next
    case True
    define other' where "other' = other\<lparr>rel_state := ReleaseSuperseded, rel_version := rel_version other + 1, rel_updated_at := now\<rparr>"
    have t: "Release_Transition ReleaseSuperseded now other = Inr other'"
      using True by (simp add: Release_Transition_def other'_def)
    define d1 where "d1 = d\<lparr>rt_releases := AList.update (rel_id other) other' (rt_releases d)\<rparr>"
    have w: "UpdateRelease other' (rel_version other) d = Inr d1"
      unfolding d1_def using Cons.prems Release_Transition_moves[OF t]
      by (intro UpdateRelease_succeeds) (simp_all add: other'_def)
    have "\<forall>o'\<in>set others. GetRelease (rel_id o') d1 = Some o'"
    proof
      fix o' assume o': "o' \<in> set others"
      with Cons.prems(1) have "rel_id o' \<noteq> rel_id other" by (metis distinct.simps(2) image_eqI list.set_map list.simps(9))
      with o' Cons.prems(2) show "GetRelease (rel_id o') d1 = Some o'"
        by (simp add: GetRelease_def d1_def update_conv')
    qed
    then have "succeeds d1 (supersede_loop keep now others) (\<lambda>_ _. True)" using Cons by simp
    then show ?thesis
      unfolding supersede_loop.simps if_P[OF True]
      by (intro succeeds_result[OF t] succeeds_seq_write) (rule w)
  qed
qed (auto intro: succeeds_ret)

section \<open>A ready report\<close>

lemma save_succeeds:
  "dep_version y = n \<Longrightarrow> Q () d \<Longrightarrow> succeeds d (save_deployment y n) Q"
  "dep_version y \<noteq> n \<Longrightarrow> UpdateDeployment y n d = Inr d1 \<Longrightarrow> Q () d1 \<Longrightarrow> succeeds d (save_deployment y n) Q"
  "rel_version t = n \<Longrightarrow> Q () d \<Longrightarrow> succeeds d (save_release t n) Q"
  "rel_version t \<noteq> n \<Longrightarrow> UpdateRelease t n d = Inr d1 \<Longrightarrow> Q () d1 \<Longrightarrow> succeeds d (save_release t n) Q"
  "env_version f = n \<Longrightarrow> Q () d \<Longrightarrow> succeeds d (save_environment f n) Q"
  "env_version f \<noteq> n \<Longrightarrow> UpdateEnvironment f n d = Inr d1 \<Longrightarrow> Q () d1 \<Longrightarrow> succeeds d (save_environment f n) Q"
  unfolding save_deployment_def save_release_def save_environment_def
  by (auto intro: succeeds_ret succeeds_write)

lemma catch_up_succeeds:
  assumes "dep_phase x \<in> {DeploymentGitCommitted, DeploymentArgoSyncing, DeploymentRollingOut, DeploymentDegraded, DeploymentReady}"
  shows "\<exists>x1. catch_up now x = Inr x1"
  using assms by (auto simp: catch_up_def chain_def Deployment_Transition_def)

lemma start_deploying_succeeds: "\<exists>r1. start_deploying now r = Inr r1"
  by (auto simp: start_deploying_def Release_Transition_def)

text \<open>What the report says of the deployment of release \<open>release\<close>.\<close>

definition ready_report :: "unicode \<Rightarrow> app_status \<Rightarrow> string \<Rightarrow> bool" where
  "ready_report u status release \<longleftrightarrow>
     ToLower u (ps_phase status) = ''ready'' \<and> ps_active_release status = release \<and>
     0 \<le> ps_ready_replicas status \<and> \<not> blank (ps_url status)"

lemma MarkReady_succeeds:
  assumes "0 \<le> n" and "\<not> blank url" and "dep_phase x \<in> {DeploymentRollingOut, DeploymentDegraded, DeploymentReady}"
  shows "\<exists>y. MarkReady url n now x = Inr y \<and> dep_phase y = DeploymentReady \<and>
    dep_url y = TrimSpace url \<and> dep_replicas y = n \<and> dep_id y = dep_id x"
  using assms by (auto simp: MarkReady_def Deployment_Transition_def)

definition ready_rows :: "app_status \<Rightarrow> release \<Rightarrow> deployment \<times> release \<times> environment \<Rightarrow> bool" where
  "ready_rows status r = (\<lambda>(y, t, f).
     dep_phase y = DeploymentReady \<and> dep_url y = TrimSpace (ps_url status) \<and>
     dep_replicas y = ps_ready_replicas status \<and>
     rel_state t = (if rel_state r = ReleaseSuperseded then ReleaseSuperseded else ReleaseActive) \<and>
     env_active_release f = rel_id r)"

lemma ActivateRelease_succeeds:
  "ValidPlatformID i \<Longrightarrow> \<exists>f. ActivateRelease i now e = Inr f \<and> env_active_release f = i"
  by (auto simp: ActivateRelease_def TrimSpace_PlatformID)

lemma apply_ready_succeeds:
  assumes ok: "runtime_ok d0" and x: "GetDeployment i d0 = Some x"
    and rows: "GetRelease (dep_release x) d0 = Some r" "GetEnvironment (dep_environment x) d0 = Some e"
    and x1: "catch_up now x = Inr x1" and r1: "start_deploying now r = Inr r1"
    and report: "ready_report u status (dep_release x)" and live: "dep_phase x \<noteq> DeploymentPending"
  shows "succeeds d0 (apply_phase u status now x1 r1 e)
    (\<lambda>new d. ready_rows status r new \<and> runtime_effect\<^sup>*\<^sup>* d0 d \<and> rows_decided x r e now new d)"
proof -
  from ok x obtain q g where q: "GetRelease (dep_release x) d0 = Some q" "rel_id q = dep_release x"
    "in_step (rel_state q) (dep_phase x)"
    by (rule observed_rows_ok)
  with rows have q': "q = r" by simp
  note x1' = catch_up_observed[OF x1] and r1' = start_deploying_bumped[OF r1]
  have ids: "rel_id r1 = dep_release x"
    using r1' q(2) q' by (auto simp: release_bumped_def dest: release_moves_fields)
  have states: "rel_state r1 \<in> {ReleaseDeploying, ReleaseActive, ReleaseSuperseded} \<and>
      dep_phase x1 \<in> {DeploymentRollingOut, DeploymentDegraded, DeploymentReady}"
    using q(3) x1' r1' live by (cases "rel_state r"; cases "dep_phase x") (simp_all add: q')
  obtain t where t: "(if rel_state r1 = ReleaseDeploying then Release_Transition ReleaseActive now r1 else Inr r1) = Inr t"
    "rel_id t = rel_id r1"
    "rel_state t = (if rel_state r = ReleaseSuperseded then ReleaseSuperseded else ReleaseActive)"
    using states r1' q(3) live by (cases "rel_state r") (auto simp: Release_Transition_def q')
  obtain y where y: "MarkReady (ps_url status) (ps_ready_replicas status) now x1 = Inr y"
    "dep_phase y = DeploymentReady" "dep_url y = TrimSpace (ps_url status)" "dep_replicas y = ps_ready_replicas status"
    using MarkReady_succeeds[of "ps_ready_replicas status" "ps_url status" x1] states report
    by (auto simp: ready_report_def)
  have "ValidPlatformID (rel_id t)" using got_release[OF rows(1) ok] q q' t(2) ids by simp
  then obtain f where f: "ActivateRelease (rel_id t) now e = Inr f" "env_active_release f = rel_id t"
    using ActivateRelease_succeeds by blast
  have same: "\<not> ps_active_release status \<noteq> rel_id r1" using report ids by (simp add: ready_report_def)
  have new: "ready_rows status r (y, t, f)"
    using y t(2,3) f(2) ids q(2) q' by (simp add: ready_rows_def)
  have "succeeds d0 (apply_ready status now x1 r1 e) (\<lambda>new _. ready_rows status r new)"
    unfolding apply_ready_def if_not_P[OF same]
  proof (intro succeeds_get succeeds_seq[OF supersede_succeeds])
    show "distinct (map rel_id (ListReleasesByEnvironment (env_id e) d0))" using listed_releases(1)[OF ok] .
    show "\<forall>other\<in>set (ListReleasesByEnvironment (env_id e) d0). GetRelease (rel_id other) d0 = Some other"
      using listed_releases(2)[OF ok] by blast
    show "succeeds d1 (bindE (of_result (if rel_state r1 = ReleaseDeploying then Release_Transition ReleaseActive now r1 else Inr r1))
        (\<lambda>r'. bindE (of_result (MarkReady (ps_url status) (ps_ready_replicas status) now x1))
          (\<lambda>d'. bindE (of_result (ActivateRelease (rel_id r') now e)) (\<lambda>e'. ret (d', r', e')))))
        (\<lambda>new _. ready_rows status r new)" for d1
      by (rule succeeds_result[OF t(1)], rule succeeds_result[OF y(1)], rule succeeds_result[OF f(1)],
          rule succeeds_ret, rule new)
  qed
  from succeeds_triple[OF this apply_ready_run[OF ok x rows x1 r1]] show ?thesis
    using report by (simp add: apply_phase_def ready_report_def Let_def)
qed

lemma sole_active:
  assumes ok: "runtime_ok d" and r: "GetRelease (rel_id r) d = Some r" "rel_state r = ReleaseActive"
    and s: "map_of (rt_releases d) k = Some s" "rel_environment s = rel_environment r" "rel_state s = ReleaseActive"
  shows "k = rel_id r"
proof -
  obtain e where e: "map_of (rt_environments d) (rel_environment r) = Some e"
    using release_environment[OF ok r(1)[unfolded GetRelease_def]] by auto
  have "activated d" using ok by (simp add: runtime_ok_def)
  then show ?thesis
    using e r s unfolding activated_def GetRelease_def by metis
qed

text \<open>The rows after a ready report for a deployment \<open>x\<close> of release \<open>r\<close>.\<close>

definition rollout_settled :: "app_status \<Rightarrow> deployment \<Rightarrow> release \<Rightarrow> runtime_data \<Rightarrow> bool" where
  "rollout_settled status x r d \<longleftrightarrow>
     (\<exists>y t f. GetDeployment (dep_id x) d = Some y \<and> GetRelease (dep_release x) d = Some t \<and>
       GetEnvironment (dep_environment x) d = Some f \<and> dep_phase y = DeploymentReady \<and>
       (dep_phase x \<noteq> DeploymentReady \<longrightarrow>
          dep_url y = TrimSpace (ps_url status) \<and> dep_replicas y = ps_ready_replicas status) \<and>
       rel_state t = (if rel_state r = ReleaseSuperseded then ReleaseSuperseded else ReleaseActive) \<and>
       env_active_release f = dep_release x)"

lemma save_deployment_ready:
  assumes "GetDeployment (dep_id x) d = Some x" and "dep_phase y = DeploymentReady"
    and "observed_move x y \<or> dep_version y = dep_version x \<and> dep_phase y = dep_phase x"
  shows "\<exists>d1 x'. succeeds d (save_deployment y (dep_version x)) (\<lambda>_ s. s = d1) \<and>
    GetDeployment (dep_id x) d1 = Some x' \<and> dep_phase x' = DeploymentReady \<and>
    (dep_phase x \<noteq> DeploymentReady \<longrightarrow> x' = y) \<and>
    rt_releases d1 = rt_releases d \<and> rt_environments d1 = rt_environments d"
proof (cases "dep_version y = dep_version x")
  case True
  with assms have "dep_phase x = DeploymentReady" by (auto simp: observed_move_def)
  with True assms(1) show ?thesis by (intro exI[of _ d] exI[of _ x]) (auto intro: save_succeeds(1))
next
  case False
  with assms(3) have y: "deployment_moves x y" by (auto simp: observed_move_def)
  have "succeeds d (save_deployment y (dep_version x))
      (\<lambda>_ s. s = d\<lparr>rt_deployments := AList.update (dep_id x) y (rt_deployments d)\<rparr>)"
    by (rule save_succeeds(2)[OF False UpdateDeployment_succeeds[OF assms(1) y] refl])
  with assms(2) show ?thesis by (fastforce simp: GetDeployment_def update_conv')
qed

lemma save_release_active:
  assumes "GetRelease (rel_id r) d = Some r" and "release_bumped r t"
    and "rel_state t = ReleaseActive \<Longrightarrow> \<not> active_elsewhere t d"
  shows "\<exists>d1. succeeds d (save_release t (rel_version r)) (\<lambda>_ s. s = d1) \<and>
    GetRelease (rel_id r) d1 = Some t \<and>
    rt_deployments d1 = rt_deployments d \<and> rt_environments d1 = rt_environments d"
proof (cases "rel_version t = rel_version r")
  case True
  with assms have "t = r" by (auto simp: release_bumped_def)
  with True assms(1) show ?thesis by (intro exI[of _ d]) (auto intro: save_succeeds(3))
next
  case False
  with assms(2) have t: "release_moves r t" by (auto simp: release_bumped_def)
  have "succeeds d (save_release t (rel_version r))
      (\<lambda>_ s. s = d\<lparr>rt_releases := AList.update (rel_id r) t (rt_releases d)\<rparr>)"
    by (rule save_succeeds(4)[OF False UpdateRelease_succeeds[OF assms(1) t assms(3)] refl])
  then show ?thesis by (fastforce simp: GetRelease_def update_conv')
qed

lemma save_environment_active:
  assumes "runtime_ok d0" and "rt_environments d = rt_environments d0" and "GetEnvironment (env_id e) d = Some e"
    and "f = e \<or> ActivateRelease i now e = Inr f"
  shows "\<exists>d1. succeeds d (save_environment f (env_version e)) (\<lambda>_ s. s = d1) \<and>
    GetEnvironment (env_id e) d1 = Some f \<and>
    rt_deployments d1 = rt_deployments d \<and> rt_releases d1 = rt_releases d"
proof (cases "env_version f = env_version e")
  case True
  with assms(4) ActivateRelease_version have "f = e" by fastforce
  with True assms(3) show ?thesis by (intro exI[of _ d]) (auto intro: save_succeeds(5))
next
  case False
  with assms(4) have f: "ActivateRelease i now e = Inr f" by auto
  have "succeeds d (save_environment f (env_version e))
      (\<lambda>_ s. s = d\<lparr>rt_environments := AList.update (env_id e) f (rt_environments d)\<rparr>)"
    by (rule save_succeeds(6)[OF False UpdateEnvironment_succeeds[OF assms(1-3) f] refl])
  then show ?thesis by (fastforce simp: GetEnvironment_def update_conv')
qed

lemma saves_succeed:
  assumes ok: "runtime_ok d" and new: "rows_decided x r e now (y, t, f) d" "ready_rows status r (y, t, f)"
    and ids: "rel_id r = dep_release x" "env_id e = dep_environment x" "rel_environment r = dep_environment x"
  shows "succeeds d (seqE (save_deployment y (dep_version x)) (seqE (save_release t (rel_version r))
     (save_environment f (env_version e)))) (\<lambda>_. rollout_settled status x r)"
proof -
  note n = new(1)[unfolded rows_decided_def prod.case] and rr = new(2)[unfolded ready_rows_def prod.case]
  have r: "GetRelease (rel_id r) d = Some r" using n ids by simp
  obtain d1 x' where d1: "succeeds d (save_deployment y (dep_version x)) (\<lambda>_ s. s = d1)"
    "GetDeployment (dep_id x) d1 = Some x'" "dep_phase x' = DeploymentReady"
    "dep_phase x \<noteq> DeploymentReady \<longrightarrow> x' = y" "rt_releases d1 = rt_releases d"
    "rt_environments d1 = rt_environments d"
    using save_deployment_ready[of x d y] n rr by blast
  have "\<not> active_elsewhere t d1" if "rel_state t = ReleaseActive"
  proof
    assume "active_elsewhere t d1"
    then obtain k s where s: "(k, s) \<in> set (rt_releases d)" "rel_id s \<noteq> rel_id t" "rel_environment s = rel_environment t"
      "rel_state s = ReleaseActive" by (auto simp: active_elsewhere_def list_ex_iff d1(5))
    have wf: "wf_map (rt_releases d)" using ok by (simp add: runtime_ok_def tables_wf_def)
    from s(1) wf have k: "map_of (rt_releases d) k = Some s" by simp
    have t: "rel_id t = rel_id r" "rel_environment t = rel_environment r"
      using n by (auto simp: release_bumped_def dest: release_moves_fields)
    have "k = rel_id r"
    proof (cases "rel_state r = ReleaseActive")
      case True
      show ?thesis by (rule sole_active[OF ok r True k]) (use s t in simp_all)
    next
      case False
      with n that have "\<forall>k other. map_of (rt_releases d) k = Some other \<longrightarrow> rel_environment other = env_id e \<longrightarrow>
          rel_state other = ReleaseActive \<longrightarrow> k = rel_id r" by auto
      with k s t ids show ?thesis by auto
    qed
    with ok_rows(4)[OF ok k] s(2) t show False by (simp add: release_row_def)
  qed
  moreover have "release_bumped r t" and "GetRelease (rel_id r) d1 = Some r"
    using n r d1(5) by (auto simp: GetRelease_def)
  ultimately obtain d2 where d2: "succeeds d1 (save_release t (rel_version r)) (\<lambda>_ s. s = d2)"
    "GetRelease (rel_id r) d2 = Some t" "rt_deployments d2 = rt_deployments d1" "rt_environments d2 = rt_environments d1"
    using save_release_active by blast
  have "f = e \<or> ActivateRelease (rel_id r) now e = Inr f" using n by blast
  moreover have "GetEnvironment (env_id e) d2 = Some e" using n ids d1(6) d2(4) by (simp add: GetEnvironment_def)
  ultimately obtain d3 where d3: "succeeds d2 (save_environment f (env_version e)) (\<lambda>_ s. s = d3)"
    "GetEnvironment (env_id e) d3 = Some f" "rt_deployments d3 = rt_deployments d2" "rt_releases d3 = rt_releases d2"
    using save_environment_active[OF ok, of d2 e f] d1(6) d2(4) by auto
  have "rollout_settled status x r d3"
    unfolding rollout_settled_def using d1 d2 d3 rr ids
    by (intro exI[of _ x'] exI[of _ t] exI[of _ f]) (auto simp: runtime_get_defs)
  then show ?thesis
    using d1(1) d2(1) d3(1) by (blast intro: succeeds_seq succeeds_post)
qed

lemma applyObserved_succeeds:
  assumes ok: "runtime_ok d" and x: "GetDeployment i d = Some x" and r: "GetRelease (dep_release x) d = Some r"
    and live: "dep_phase x \<noteq> DeploymentPending" and report: "ready_report u status (dep_release x)"
  shows "succeeds d (applyObserved_tx u i status now) (\<lambda>_. rollout_settled status x r)"
proof -
  from ok x obtain q e where rows: "GetRelease (dep_release x) d = Some q" "rel_id q = dep_release x"
    "GetEnvironment (dep_environment x) d = Some e" "env_id e = dep_environment x"
    "in_step (rel_state q) (dep_phase x)"
    by (rule observed_rows_ok)
  with r have q: "q = r" by simp
  have env: "rel_environment r = dep_environment x"
    using ok_rows(5)[OF ok x[unfolded GetDeployment_def]] r by (auto simp: deployment_row_def GetRelease_def)
  have "dep_phase x \<in> {DeploymentGitCommitted, DeploymentArgoSyncing, DeploymentRollingOut, DeploymentDegraded, DeploymentReady}"
    using rows(5) live by (cases "rel_state q") auto
  then obtain x1 where x1: "catch_up now x = Inr x1" using catch_up_succeeds by blast
  obtain r1 where r1: "start_deploying now r = Inr r1" using start_deploying_succeeds by blast
  note phase = apply_ready_succeeds[OF ok x r rows(3) x1 r1 report live]
  have rest: "succeeds d1 (seqE (save_deployment (fst new) (dep_version x)) (seqE (save_release (fst (snd new)) (rel_version r))
     (save_environment (snd (snd new)) (env_version e)))) (\<lambda>_. rollout_settled status x r)"
    if "ready_rows status r new \<and> runtime_effect\<^sup>*\<^sup>* d d1 \<and> rows_decided x r e now new d1" for new d1
    using that saves_succeed[OF effects_ok[OF _ ok], of d1 x r e now "fst new" "fst (snd new)" "snd (snd new)" status]
      rows(2,4) env q by simp
  show ?thesis
    unfolding applyObserved_tx_def
    by (rule succeeds_get, simp add: x, rule succeeds_get, simp add: r, rule succeeds_get, simp add: rows(3),
        rule succeeds_result[OF x1], rule succeeds_result[OF r1], rule succeeds_bind[OF phase])
      (use rest in \<open>simp add: case_prod_unfold\<close>)
qed

text \<open>
  Whatever else was active in the environment is superseded: its releases only move on along their
  state machine, and an active release is the one that the environment points to.
\<close>

lemma settled_supersedes:
  assumes ok: "runtime_ok d" and run: "runtime_effect\<^sup>*\<^sup>* d d'" and settled: "rollout_settled status x r d'"
    and s: "GetRelease k d = Some s" "rel_environment s = dep_environment x" "rel_state s = ReleaseActive"
    and k: "k \<noteq> dep_release x"
  shows "\<exists>s'. GetRelease k d' = Some s' \<and> rel_state s' = ReleaseSuperseded"
proof -
  have ok': "runtime_ok d'" by (rule effects_ok[OF run ok])
  have "later d d'" using effects_later[OF run] .
  with s(1) obtain s' where s': "GetRelease k d' = Some s'" "release_moves s s'"
    by (auto simp: later_def GetRelease_def dest: growsD)
  then have env: "rel_environment s' = dep_environment x" using s(2) by (auto dest: release_moves_fields)
  have "release_path ReleaseActive (rel_state s')" using s'(2) s(3) by (simp add: release_moves_def)
  then have "rel_state s' \<in> {ReleaseActive, ReleaseSuperseded}"
    by (induction rule: rtranclp_induct) auto
  moreover have "rel_state s' \<noteq> ReleaseActive"
  proof
    assume "rel_state s' = ReleaseActive"
    moreover obtain f where "GetEnvironment (dep_environment x) d' = Some f" "env_active_release f = dep_release x"
      using settled by (auto simp: rollout_settled_def)
    ultimately have "k = dep_release x"
      using ok' s'(1) env unfolding runtime_ok_def activated_def GetRelease_def GetEnvironment_def by metis
    with k show False ..
  qed
  ultimately show ?thesis using s'(1) by blast
qed

text \<open>The call, when no other call comes in between.\<close>

lemma applyObservedStatus_settles:
  assumes ok: "runtime_ok (db w)" and x: "GetDeployment i (db w) = Some x" and r: "GetRelease (dep_release x) (db w) = Some r"
    and live: "dep_phase x \<noteq> DeploymentPending" and report: "ready_report (rv_unicode env) status (dep_release x)"
    and env: "rv_store env" "rv_clock env \<noteq> None" "rv_ctx env ''applyObservedStatus'' = None"
      "rv_others env ''applyObservedStatus'' = (\<lambda>d. d)"
  shows "\<exists>w'. applyObservedStatus env i status w = (Inr (), w') \<and> rollout_settled status x r (db w') \<and>
    runtime_effect\<^sup>*\<^sup>* (db w) (db w')"
proof -
  obtain clock where clock: "rv_clock env = Some clock" using env(2) by blast
  let ?w = "w\<lparr>clk_seq := clk_seq w + 1\<rparr>"
  have "db ?w = db w" by simp
  then obtain u w' where w': "applyObserved_tx (rv_unicode env) i status (clock (clk_seq w)) ?w = (Inr u, w')"
    "rollout_settled status x r (db w')" "runtime_effect\<^sup>*\<^sup>* (db w) (db w')"
    using succeeds_triple[OF applyObserved_succeeds[OF ok x r live report] applyObserved_run[OF ok], of "clock (clk_seq w)"]
    unfolding succeeds_def by blast
  then show ?thesis
    using env clock
    by (simp add: applyObservedStatus_def bindE_def runtime_now_def Runtime_Transact_def Let_def)
qed


end
