(* ===== verification/Runtime_Keys.thy ===== *)
theory Runtime_Keys
  imports Runtime_Observations
begin

text \<open>
  An idempotency key of a release request names one release, and a release has one deployment,
  whatever happens between two calls with the key.
\<close>

section \<open>Facts about answers\<close>

definition release_keyed :: "deploy_request \<Rightarrow> string \<Rightarrow> runtime_data \<Rightarrow> bool" where
  "release_keyed req i d \<longleftrightarrow>
     (\<exists>v. Runtime_GetIdempotency (dr_tenant req) ''runtime.release.create'' (dr_key req) d = Some v \<and>
          ri_resource_id v = i)"

definition deployed_as :: "string \<Rightarrow> string \<Rightarrow> runtime_data \<Rightarrow> bool" where
  "deployed_as i r d \<longleftrightarrow> (\<exists>x. GetDeployment i d = Some x \<and> dep_release x = r)"

lemma later_keyed: "later d d' \<Longrightarrow> release_keyed req i d \<Longrightarrow> release_keyed req i d'"
  by (auto simp: release_keyed_def Runtime_GetIdempotency_def later_def grows_def)

lemma later_deployed_as: "later d d' \<Longrightarrow> deployed_as i r d \<Longrightarrow> deployed_as i r d'"
  unfolding deployed_as_def GetDeployment_def
  by (auto dest!: later_deployment dest: deployment_moves_fields)

lemma stable_keyed [simp]: "stable (release_keyed req i)"
  by (auto simp: stable_def intro: later_keyed effects_later)

lemma stable_deployed_as [simp]: "stable (deployed_as i r)"
  by (auto simp: stable_def intro: later_deployed_as effects_later)

lemma keyed_config [simp]: "release_keyed (req\<lparr>dr_configuration := c\<rparr>) = release_keyed req"
  by (rule ext)+ (simp add: release_keyed_def)

lemma release_keyed_unique: "release_keyed req i d \<Longrightarrow> release_keyed req' j d \<Longrightarrow> dr_tenant req' = dr_tenant req \<Longrightarrow> dr_key req' = dr_key req \<Longrightarrow> i = j"
  by (auto simp: release_keyed_def)

lemma triple_after: "(\<And>a. triple (\<lambda>_. True) (k a) Q) \<Longrightarrow> triple P (bindE m k) Q"
  by (rule triple_bind[where R = "\<lambda>_ _. True"]) (auto simp: triple_def)

lemma triple_after_unit: "triple (\<lambda>_. True) k Q \<Longrightarrow> triple P (seqE m k) Q"
  unfolding seqE_def by (rule triple_after)

section \<open>The release of a key\<close>

lemma replay_keyed:
  assumes ok: "runtime_ok d0"
  shows "triple (\<lambda>d. d = d0) (replay_tx env req)
    (\<lambda>r d. d = d0 \<and> (\<forall>rel p. r = Some (rel, p) \<longrightarrow> release_keyed req (rel_id rel) d))"
  unfolding replay_tx_def
  by (intro run_steps) (auto simp: release_keyed_def dest: got_release[OF _ ok])

lemma InsertIdempotency_keyed:
  "Runtime_InsertIdempotency (release_key_record req hash rel now) d = Inr d' \<Longrightarrow> release_keyed req (rel_id rel) d'"
  by (auto simp: Runtime_InsertIdempotency_def release_keyed_def Runtime_GetIdempotency_def release_key_record_def Let_def
      split: option.splits if_splits)

lemma AppendAudit_keyed: "Runtime_AppendAudit a d = Inr d' \<Longrightarrow> release_keyed req i d \<Longrightarrow> release_keyed req i d'"
  by (auto dest!: Runtime_AppendAudit_Inr simp: release_keyed_def Runtime_GetIdempotency_def)

lemma newRelease_keyed:
  "triple P (newRelease_tx env req app e cell current units decision now) (\<lambda>r. release_keyed req (rel_id (fst r)))"
  unfolding newRelease_tx_def
  apply ((rule triple_after)+, rule triple_after_unit)
  apply (rule triple_seq[OF triple_write])
  apply (erule InsertIdempotency_keyed)
  apply (intro triple_bind_runtime_newID)
  apply (rule triple_seq[OF triple_write])
  apply (erule (1) AppendAudit_keyed)
  apply (rule triple_ret, simp)
  done

lemma CreateRelease_tx_keyed:
  assumes ok: "runtime_ok d0"
  shows "triple (\<lambda>d. d = d0) (CreateRelease_tx env req units decision now) (\<lambda>r. release_keyed req (rel_id (fst r)))"
  unfolding CreateRelease_tx_def
proof (intro run_steps triple_part[OF resolvePlacement_run[OF ok]], goal_cases)
  case (1 app e a d1 cell current host req1 hash identity)
  then show ?case using newRelease_keyed[of _ env req1] by simp
next
  case (2 app e a d1 cell current host req1 hash identity rel)
  have "triple (\<lambda>d. d = d1) (bindE (placement_of_existing e) (\<lambda>p.
      seqE (tx_write (Runtime_InsertIdempotency (release_key_record req1 hash rel now))) (ret (rel, p))))
      (\<lambda>r. release_keyed req1 (rel_id (fst r)))"
    by (rule triple_after, rule triple_seq, rule triple_write, erule InsertIdempotency_keyed, rule triple_ret) simp
  then show ?case using 2(8) by simp
next
  case (3 app e a d1 cell current host req1 hash k rel)
  then have "release_keyed req (rel_id rel) d0" using got_release[OF _ ok] by (auto simp: release_keyed_def)
  moreover have "d1 = d0" using 3(5,6) by simp
  ultimately show ?case
    by (auto intro!: triple_part[OF placement_of_existing_run[OF ok]] triple_stay)
qed

lemma call_conj: "call P m Q \<Longrightarrow> call P m R \<Longrightarrow> call P m (\<lambda>a d. Q a d \<and> R a d)"
  by (auto simp: call_def)

lemma triple_conj: "triple P m Q \<Longrightarrow> triple P m R \<Longrightarrow> triple P m (\<lambda>a d. Q a d \<and> R a d)"
  by (auto simp: triple_def)

lemma CreateRelease_keyed:
  assumes "rely env"
  shows "call (\<lambda>_. True) (CreateRelease env req) (\<lambda>r. release_keyed req (rel_id (fst r)))"
proof -
  have replay: "call (\<lambda>_. True) (replayCreateRelease env req') (\<lambda>r d. \<forall>rel p. r = Some (rel, p) \<longrightarrow> release_keyed req' (rel_id rel) d)" for req'
    unfolding replayCreateRelease_def
    by (intro call_Transact[OF assms stable_True]) (auto intro: triple_post[OF replay_keyed])
  have tx: "call (\<lambda>_. True) (Runtime_Transact env s (CreateRelease_tx env req' units decision now)) (\<lambda>r. release_keyed req' (rel_id (fst r)))"
    if "int64 units" for s req' units decision now
    using that
    by (intro call_Transact[OF assms stable_True])
      (auto intro: triple_post[OF triple_conj[OF CreateRelease_run CreateRelease_tx_keyed]])
  show ?thesis
    unfolding CreateRelease_def
    apply (intro call_steps call_bind[OF replay])
    subgoal for isReleasable x c req1 r units decision t
      using tx[OF requestedUnits_int64, of _ _ units _ req1 decision t] by simp
    subgoal for isReleasable x c req1 r answer
      by (cases answer) (auto intro!: call_ret)
    done
qed

section \<open>The deployment of a release\<close>

lemma deploy_deployed:
  assumes "runtime_ok d0" and clock: "\<And>d. triple (\<lambda>x. x = d) clock (\<lambda>_ x. x = d)"
  shows "triple (\<lambda>d. d = d0) (deploy_tx env missing clock rel p) (\<lambda>(app, e, cell, x). deployed_as (dep_id x) (rel_id rel))"
  unfolding deploy_tx_def
proof (intro run_steps triple_part[OF clock], goal_cases)
  case (1 app e cell i now d1 x d2)
  then show ?case
    using deployments.ins_get[OF 1(7)]
    by (auto simp: deployed_as_def NewDeployment_def Let_def split: if_splits)
next
  case (2 app e cell x)
  then show ?case using found_deployment[OF _ assms(1)] by (auto simp: deployed_as_def)
qed

lemma publishDeployment_fields:
  "publishDeployment env hook actor rel p (app, e, cell, x) w = (Inr ref, w') \<Longrightarrow>
     rf_deployment ref = dep_id x \<and> rf_release ref = rel_id rel"
  by (auto simp: publishDeployment_def ret_def throw_def bindE_Inr seqE_def of_result_def split: if_splits option.splits)

lemma call_answer:
  "call P m (\<lambda>_ _. True) \<Longrightarrow> (\<And>w a w'. m w = (Inr a, w') \<Longrightarrow> F a) \<Longrightarrow> call P m (\<lambda>a _. F a)"
  unfolding call_def by (metis prod.collapse)

lemma publishDeployment_answer:
  assumes "rely env" and "stable P"
  shows "call P (publishDeployment env hook actor rel p (app, e, cell, x))
    (\<lambda>ref d. P d \<and> rf_deployment ref = dep_id x \<and> rf_release ref = rel_id rel)"
  by (rule call_frame[OF call_answer[OF call_pre[OF publishDeployment_call[OF assms(1)]]] assms(2)])
    (auto dest: publishDeployment_fields)

lemma Deploy_answer:
  assumes "rely env"
  shows "call (\<lambda>_. True) (Deploy env req)
    (\<lambda>ref d. release_keyed req (rf_release ref) d \<and> deployed_as (rf_deployment ref) (rf_release ref) d)"
  unfolding Deploy_def
proof (intro call_steps call_bind[OF call_conj[OF CreateRelease_call[OF assms] CreateRelease_keyed[OF assms]]], goal_cases)
  case (1 r rel p now)
  let ?P = "\<lambda>d. known_pair rel p d \<and> release_keyed req (rel_id rel) d"
  have P: "stable ?P" by (intro stable_conj) simp_all
  have "call ?P (Runtime_Transact env ''Deploy'' (deploy_tx env ''runtime cell missing'' (ret now) rel p))
      (\<lambda>(app, e, cell, x) d. ?P d \<and> deployed_as (dep_id x) (rel_id rel) d)"
    apply (rule call_post[OF call_frame[OF call_Transact[OF assms P] P]])
     apply (rule triple_conj[OF triple_post[OF deploy_run] deploy_deployed])
    apply (auto intro: same_clock)
    done
  moreover have "call (\<lambda>d. ?P d \<and> deployed_as (dep_id x) (rel_id rel) d)
      (publishDeployment env True (dr_actor req) rel p (app, e, cell, x))
      (\<lambda>ref d. release_keyed req (rf_release ref) d \<and> deployed_as (rf_deployment ref) (rf_release ref) d)" for app e cell x
    by (rule call_post[OF publishDeployment_answer[OF assms]]) (auto intro!: stable_conj)
  ultimately show ?case
    using 1 by (auto intro!: call_bind)
qed

end
