(* ===== verification/Runtime_Guarantees.thy ===== *)
theory Runtime_Guarantees
  imports Runtime_Scenario Runtime_Liveness Runtime_Keys
begin

text \<open>
  The properties of the runtime component, each applied to the run of \<open>Runtime_Scenario\<close>.
\<close>

section \<open>The store\<close>

text \<open>
  C3. Whatever methods of the runtime service are called, in whatever environments and with other
  calls between their transactions, its store stays consistent: references agree, the allocation
  of a cell is the sum of its placements and within its capacity, a deployment is in step with its
  release, and names, namespaces, identities of releases and deployments are unique.
\<close>

theorem runtime_store_stays_consistent:
  assumes "db w0 = runtime_newState" and "runtime_step\<^sup>*\<^sup>* w0 w"
  shows "runtime_ok (db w)"
  using assms by (rule runtime.reachable_inv)

lemma runtime_store_stays_consistent_witness:
  "db empty_site = runtime_newState \<and> runtime_ok (db deployed_world)"
  using runtime_store_stays_consistent[OF empty_site_new deployed_steps] empty_site_new by simp

lemma deployed_ok: "runtime_ok (db deployed_world)"
  by (rule runtime.reachable_inv[OF empty_site_new deployed_steps])

lemma site_ok: "runtime_ok (db site_world)"
  by (rule runtime.reachable_inv[OF empty_site_new site_steps])

text \<open>
  C8. No cell is ever overbooked: what is allocated on a cell is the sum of the units of the
  placements on it and at most its capacity, and every placement lies in the region of its cell
  and has an isolation class that the cell supports.
\<close>

theorem cells_are_never_overbooked:
  assumes "db w0 = runtime_newState" and "runtime_step\<^sup>*\<^sup>* w0 w" and "GetRuntimeCell i (db w) = Some c"
  shows "cell_allocated c = sum_rows (\<lambda>p. pl_cell p = i) pl_units (rt_placements (db w)) \<and>
    cell_allocated c \<le> cell_capacity c \<and>
    (\<forall>k p. GetPlacement k (db w) = Some p \<longrightarrow> pl_cell p = i \<longrightarrow>
       0 < pl_units p \<and> pl_region p = cell_region c \<and> supports c (pl_isolation p))"
proof -
  have ok: "runtime_ok (db w)" using assms(1,2) by (rule runtime.reachable_inv)
  then have "accounted (db w)" by (simp add: runtime_ok_def)
  moreover have "0 < pl_units p \<and> pl_region p = cell_region c \<and> supports c (pl_isolation p)"
    if "GetPlacement k (db w) = Some p" "pl_cell p = i" for k p
    using ok_rows(3)[OF ok, of k p] that assms(3) by (auto simp: placement_row_def runtime_get_defs)
  ultimately show ?thesis using assms(3) by (auto simp: accounted_def GetRuntimeCell_def dest: rowsD)
qed

lemma cells_are_never_overbooked_witness:
  "GetRuntimeCell ''c1'' (db deployed_world) = Some shop_cell \<and> cell_allocated shop_cell = 4 \<and>
   sum_rows (\<lambda>p. pl_cell p = ''c1'') pl_units (rt_placements (db deployed_world)) = 4 \<and> 4 \<le> cell_capacity shop_cell"
proof -
  have c: "GetRuntimeCell ''c1'' (db deployed_world) = Some shop_cell"
    by (simp add: GetRuntimeCell_def deployed_tables)
  moreover have "cell_allocated shop_cell = 4" by (simp add: shop_cell_def)
  ultimately show ?thesis using cells_are_never_overbooked[OF empty_site_new deployed_steps c] by simp
qed

text \<open>
  C23. What the runtime service has recorded it never takes back: an environment keeps its placement,
  releases and deployments move along their state machines only and keep everything else, a
  deployment that is ready does not change any more, commits, migrations and idempotency records
  stay as they are, and events and audit entries are only appended.
\<close>

theorem runtime_history_only_grows:
  assumes "db w0 = runtime_newState" and "runtime_step\<^sup>*\<^sup>* w0 w" and "runtime_step\<^sup>*\<^sup>* w w'"
  shows "later (db w) (db w')"
  using effects_later[OF runtime_run_effects[OF assms(3)]] runtime.reachable_inv[OF assms(1,2)] by blast

lemma deployed_run: "runtime_step\<^sup>*\<^sup>* site_world deployed_world"
  by (rule r_into_rtranclp) (rule deployed_step)

lemma runtime_history_only_grows_witness:
  "later (db site_world) (db deployed_world) \<and> rt_releases (db deployed_world) \<noteq> []"
  using runtime_history_only_grows[OF empty_site_new site_steps deployed_run]
  by (simp add: deployed_tables)

section \<open>Rendering and observing\<close>

lemma rendered_accepted:
  assumes "SelectRouteProcess (rc_processes (rel_configuration r)) = Some route"
    and "release_moves (in_release input) r" and "environment_evolves (in_environment input) e"
    and "dep_release x = rel_id r" and "pa_spec object = pa_spec (rendered_app h input route)"
    and "pa_api_version object = APIVersion" and "pa_kind object = Kind"
    and "om_name (pa_meta object) = om_name (pa_meta (rendered_app h input route))"
    and "om_namespace (pa_meta object) = om_namespace (pa_meta (rendered_app h input route))"
  shows "validateObservedPaaSApp object (in_application input) e x r
      (PaaSAppName h (app_id (in_application input)) (env_name e)) =
    (if env_active_release (in_environment input) = dep_previous x then Inr ()
     else Inl (RErr RConflict ''observed PaaSApp spec does not match immutable release''))"
  using release_moves_fields[OF assms(2)] environment_evolves_fields[OF assms(3)] assms
  by (simp add: validateObservedPaaSApp_def rendered_app_def rendered_meta_def rendered_spec_def
      expected_spec_def spec_equal_def previousActive_def Let_def)

text \<open>The rendered object of the shop, with the status of a finished rollout.\<close>

definition shop_status :: app_status where
  "shop_status =
     no_status\<lparr>ps_observed_generation := 1, ps_phase := ''ready'', ps_active_release := ''relf'',
       ps_url := ''u'', ps_ready_replicas := 2\<rparr>"

definition shop_object :: paas_app where
  "shop_object =
     (rendered_app site_hashing shop_input ''web'')
       \<lparr>pa_meta := (pa_meta (rendered_app site_hashing shop_input ''web''))\<lparr>om_generation := 1\<rparr>,
        pa_status := shop_status\<rparr>"

lemma shop_moves: "release_moves (in_release shop_input) shop_commit_release"
  by (simp add: shop_input_def shop_commit_release_def shop_release_def release_moves_def release_frozen_def
      r_into_rtranclp)

lemma shop_object_fields:
  "pa_spec shop_object = pa_spec (rendered_app site_hashing shop_input ''web'')"
  "pa_api_version shop_object = APIVersion" "pa_kind shop_object = Kind"
  "om_name (pa_meta shop_object) = om_name (pa_meta (rendered_app site_hashing shop_input ''web''))"
  "om_namespace (pa_meta shop_object) = om_namespace (pa_meta (rendered_app site_hashing shop_input ''web''))"
  by (simp_all add: shop_object_def, simp_all add: rendered_app_def Let_def)

lemma shop_route_committed: "SelectRouteProcess (rc_processes (rel_configuration shop_commit_release)) = Some ''web''"
  by (simp add: shop_commit_release_def shop_release_def)

lemma shop_premises:
  "environment_evolves (in_environment shop_input) shop_environment" "dep_release shop_committed = rel_id shop_commit_release"
  "env_name shop_environment = ''production''" "app_id (in_application shop_input) = ''appa''"
  "env_active_release (in_environment shop_input) = []" "dep_previous shop_committed = []"
  by (simp_all add: shop_input_def shop_environment_def shop_committed_def shop_pending_def shop_commit_release_def
      shop_release_def)

lemma shop_accepted:
  "validateObservedPaaSApp shop_object (in_application shop_input) shop_environment shop_committed
     shop_commit_release ''paas-appa-production-0123456789'' = Inr ()"
  using rendered_accepted[OF shop_route_committed shop_moves shop_premises(1,2) shop_object_fields]
  by (simp add: shop_premises)

text \<open>
  C21. Rendering and observing fit together: a rendered object that comes back with the
  specification it was rendered with passes the validation of its deployment, whatever has become
  of the release and the environment since, exactly when the release that was active at rendering
  is the one the deployment has recorded as its predecessor; otherwise it is refused as a conflict.
\<close>

theorem rendered_object_is_accepted:
  assumes "SelectRouteProcess (rc_processes (rel_configuration r)) = Some route"
    and "release_moves (in_release input) r" and "environment_evolves (in_environment input) e"
    and "dep_release x = rel_id r" and "pa_spec object = pa_spec (rendered_app h input route)"
    and "pa_api_version object = APIVersion" and "pa_kind object = Kind"
    and "om_name (pa_meta object) = om_name (pa_meta (rendered_app h input route))"
    and "om_namespace (pa_meta object) = om_namespace (pa_meta (rendered_app h input route))"
  shows "validateObservedPaaSApp object (in_application input) e x r
      (PaaSAppName h (app_id (in_application input)) (env_name e)) =
    (if env_active_release (in_environment input) = dep_previous x then Inr ()
     else Inl (RErr RConflict ''observed PaaSApp spec does not match immutable release''))"
  using assms by (rule rendered_accepted)

lemma rendered_object_is_accepted_witness:
  "validateObservedPaaSApp shop_object (in_application shop_input) shop_environment shop_committed
     shop_commit_release (PaaSAppName site_hashing ''appa'' ''production'') = Inr ()"
  using rendered_object_is_accepted[OF shop_route_committed shop_moves shop_premises(1,2) shop_object_fields]
  by (simp add: shop_premises)

section \<open>A finished rollout\<close>

definition ready_env :: renv where
  "ready_env = site_env\<lparr>rv_observer := Some (\<lambda>_. Inr (Some shop_object))\<rparr>"

definition ready_world :: rworld where
  "ready_world = snd (ReconcileDeploymentStatus ready_env ''deph'' deployed_world)"

lemma ready_fields:
  "rv_observer ready_env = Some (\<lambda>_. Inr (Some shop_object))" "rv_hashing ready_env = site_hashing"
  "rv_store ready_env" "rv_ctx ready_env site = None" "rv_others ready_env site d = d" "rv_clock ready_env \<noteq> None"
  by (simp_all add: ready_env_def site_env_def)

lemma ready_observed:
  "ReconcileDeploymentStatus ready_env ''deph'' deployed_world =
   applyObservedStatus ready_env ''deph'' shop_status deployed_world"
proof -
  have "observed_rows_tx ''deph'' deployed_world =
      (Inr \<lparr>ow_deployment = shop_committed, ow_environment = shop_environment, ow_cell = shop_cell,
            ow_application = in_application shop_input, ow_release = shop_commit_release\<rparr>, deployed_world)"
    by (simp add: observed_rows_tx_def runtime_get_defs deployed_tables site_run_defs shop_committed_def
        shop_pending_def shop_input_def shop_placement_def)
  moreover have "om_generation (pa_meta shop_object) = 1" "ps_observed_generation (pa_status shop_object) = 1"
    "pa_status shop_object = shop_status" "dep_id shop_committed = ''deph''"
    by (simp_all add: shop_object_def shop_status_def shop_committed_def shop_pending_def)
  ultimately show ?thesis
    by (simp add: ReconcileDeploymentStatus_def ready_fields Runtime_Transact_def bindE_def Let_def of_result_def
        ret_def shop_accepted shop_premises)
qed

lemma ready_shop: "ready_report u shop_status ''relf''"
proof -
  have "ToLower u ''ready'' = ''ready''" by (simp add: ToLower_plain plain_char_def)
  moreover have "TrimSpace ''u'' = ''u''" by code_simp
  ultimately show ?thesis by (simp add: ready_report_def shop_status_def)
qed

lemma deployed_rows:
  "GetDeployment ''deph'' (db deployed_world) = Some shop_committed"
  "GetRelease (dep_release shop_committed) (db deployed_world) = Some shop_commit_release"
  "dep_phase shop_committed \<noteq> DeploymentPending" "dep_release shop_committed = ''relf''"
  by (simp_all add: runtime_get_defs deployed_tables shop_committed_def shop_pending_def)

lemma ready_settled: "rollout_settled shop_status shop_committed shop_commit_release (db ready_world)"
proof -
  have r: "ready_report (rv_unicode ready_env) shop_status (dep_release shop_committed)"
    using ready_shop by (simp add: deployed_rows)
  have q: "rv_others ready_env ''applyObservedStatus'' = (\<lambda>d. d)" by (simp add: ready_env_def site_env_def)
  from applyObservedStatus_settles[OF deployed_ok deployed_rows(1-3) r ready_fields(3,6,4) q]
  show ?thesis by (auto simp: ready_world_def ready_observed)
qed

lemma ready_steps: "runtime_step\<^sup>*\<^sup>* empty_site ready_world"
proof -
  have "rely ready_env" by (rule rely_quiet) (simp add: ready_env_def site_env_def)
  from runtime_stepI[OF this, of "CallReconcileDeploymentStatus ''deph''" deployed_world]
  have "runtime_step deployed_world ready_world" by (simp add: ready_world_def)
  with deployed_steps show ?thesis by (rule rtranclp.rtrancl_into_rtrancl)
qed

lemma ready_release: "\<exists>r. GetRelease ''relf'' (db ready_world) = Some r \<and> rel_state r = ReleaseActive"
  using ready_settled by (auto simp: rollout_settled_def deployed_rows shop_commit_release_def)

section \<open>Releases\<close>

text \<open>
  C6. At most one release of an environment is active; the environment points to it, and its
  deployment is ready and committed.
\<close>

theorem at_most_one_active_release:
  assumes "db w0 = runtime_newState" and "runtime_step\<^sup>*\<^sup>* w0 w"
    and "GetRelease i (db w) = Some r" and "rel_state r = ReleaseActive"
  shows "(\<exists>e. GetEnvironment (rel_environment r) (db w) = Some e \<and> env_active_release e = i) \<and>
    (\<exists>x. GetDeployment (dep_id x) (db w) = Some x \<and> dep_release x = i \<and> dep_phase x = DeploymentReady \<and>
       dep_commit x \<noteq> []) \<and>
    (\<forall>k s. GetRelease k (db w) = Some s \<longrightarrow> rel_environment s = rel_environment r \<longrightarrow>
       rel_state s = ReleaseActive \<longrightarrow> k = i)"
proof -
  have ok: "runtime_ok (db w)" using assms(1,2) by (rule runtime.reachable_inv)
  have i: "rel_id r = i" using got_release[OF assms(3) ok] by simp
  note r = assms(3)[unfolded GetRelease_def]
  obtain e where e: "map_of (rt_environments (db w)) (rel_environment r) = Some e"
    using release_environment[OF ok r] by auto
  have "env_active_release e = i"
    using ok e r assms(4) unfolding runtime_ok_def activated_def by blast
  moreover obtain x where x: "map_of (rt_deployments (db w)) (dep_id x) = Some x" "dep_release x = i"
    using release_has_deployment[OF ok r] assms(4) by auto
  moreover have "dep_phase x = DeploymentReady" "dep_commit x \<noteq> []"
    using phasedD[OF ok x(1), of r] x(2) r assms(4) by auto
  moreover have "k = i" if "GetRelease k (db w) = Some s" "rel_environment s = rel_environment r" "rel_state s = ReleaseActive" for k s
    using sole_active[OF ok, of r k s] assms(3,4) i that by (simp add: GetRelease_def)
  ultimately show ?thesis using e by (auto simp: GetEnvironment_def GetDeployment_def)
qed

lemma at_most_one_active_release_witness:
  "\<exists>r. GetRelease ''relf'' (db ready_world) = Some r \<and> rel_state r = ReleaseActive \<and>
     (\<exists>e. GetEnvironment (rel_environment r) (db ready_world) = Some e \<and> env_active_release e = ''relf'')"
proof -
  from ready_release obtain r where r: "GetRelease ''relf'' (db ready_world) = Some r" "rel_state r = ReleaseActive"
    by blast
  from at_most_one_active_release[OF empty_site_new ready_steps r] r show ?thesis by blast
qed

text \<open>
  C12. Deploying is idempotent: a second successful \<open>Deploy\<close> with the same tenant and idempotency
  key, at any later time and in any environment of the service, answers with the same release and
  the same deployment.
\<close>

theorem Deploy_is_idempotent:
  assumes "db w0 = runtime_newState" and "runtime_step\<^sup>*\<^sup>* w0 w" and "rely env" and "Deploy env req w = (Inr ref, w1)"
    and "runtime_step\<^sup>*\<^sup>* w1 w2" and "rely env'" and "Deploy env' req' w2 = (Inr ref', w3)"
    and "dr_tenant req' = dr_tenant req" and "dr_key req' = dr_key req"
  shows "rf_release ref' = rf_release ref \<and> rf_deployment ref' = rf_deployment ref"
proof -
  have ok: "runtime_ok (db w)" using assms(1,2) by (rule runtime.reachable_inv)
  note first = callD(2)[OF Deploy_answer[OF assms(3)] ok TrueI assms(4)]
  have e1: "runtime_effect\<^sup>*\<^sup>* (db w) (db w1)" using callD(1)[OF Deploy_answer[OF assms(3)] ok TrueI, of req] assms(4) by simp
  note ok1 = effects_ok[OF e1 ok]
  note ok2 = runtime.run_inv[OF assms(5) ok1]
  note second = callD(2)[OF Deploy_answer[OF assms(6)] ok2 TrueI assms(7)]
  have e3: "runtime_effect\<^sup>*\<^sup>* (db w2) (db w3)" using callD(1)[OF Deploy_answer[OF assms(6)] ok2 TrueI, of req'] assms(7) by simp
  have "later (db w1) (db w3)"
    using effects_later[OF runtime_run_effects[OF assms(5) ok1]] effects_later[OF e3] by (rule runtime_later_trans)
  with first have "release_keyed req (rf_release ref) (db w3)" "deployed_as (rf_deployment ref) (rf_release ref) (db w3)"
    by (auto intro: later_keyed later_deployed_as)
  moreover from this second have "rf_release ref' = rf_release ref"
    using release_keyed_unique[OF _ _ assms(8,9)] by metis
  ultimately show ?thesis
    using second one_deployment[OF effects_ok[OF e3 ok2]] by (auto simp: deployed_as_def GetDeployment_def)
qed

text \<open>
  C19. A report that a committed deployment is ready is applied when no other call comes in between:
  the deployment gets ready with the address and the replicas of the report (one that was ready
  keeps its own), the environment points to its release, which becomes active unless it has been
  superseded before (then it stays so), and every other release of the environment that was active
  is superseded.
\<close>

theorem ready_report_activates_release:
  assumes "db w0 = runtime_newState" and "runtime_step\<^sup>*\<^sup>* w0 w"
    and "GetDeployment i (db w) = Some x" and "GetRelease (dep_release x) (db w) = Some r"
    and "dep_phase x \<noteq> DeploymentPending" and "ready_report (rv_unicode env) status (dep_release x)"
    and "rv_store env" and "rv_clock env \<noteq> None" and "rv_ctx env ''applyObservedStatus'' = None"
    and "rv_others env ''applyObservedStatus'' = (\<lambda>d. d)"
  shows "\<exists>w'. applyObservedStatus env i status w = (Inr (), w') \<and> rollout_settled status x r (db w') \<and>
    (\<forall>k s. GetRelease k (db w) = Some s \<longrightarrow> rel_environment s = dep_environment x \<longrightarrow>
       rel_state s = ReleaseActive \<longrightarrow> k \<noteq> dep_release x \<longrightarrow>
       (\<exists>s'. GetRelease k (db w') = Some s' \<and> rel_state s' = ReleaseSuperseded))"
  using applyObservedStatus_settles[OF runtime.reachable_inv[OF assms(1,2)] assms(3-)]
    settled_supersedes[OF runtime.reachable_inv[OF assms(1,2)]] by blast

lemma ready_report_activates_release_witness:
  "\<exists>w'. applyObservedStatus ready_env ''deph'' shop_status deployed_world = (Inr (), w') \<and>
     rollout_settled shop_status shop_committed shop_commit_release (db w')"
proof -
  have r: "ready_report (rv_unicode ready_env) shop_status (dep_release shop_committed)"
    using ready_shop by (simp add: deployed_rows)
  have q: "rv_others ready_env ''applyObservedStatus'' = (\<lambda>d. d)" by (simp add: ready_env_def site_env_def)
  from ready_report_activates_release[OF empty_site_new deployed_steps deployed_rows(1-3) r ready_fields(3,6,4) q]
  show ?thesis by blast
qed

lemma again_created:
  "CreateRelease site_env (site_deploy ''art1'' ''k2'' 2) deployed_world =
   (Inr (shop_commit_release, shop_placement), deployed_world)"
  by (simp add: release_defs site_params site_deploy_def deployed_tables releaseRequestHash_def shop_key_def
      shop_commit_release_def shop_release_def shop_placement_def shop_environment_def shop_cell_def)

lemma deployed_again: "\<exists>w. Deploy site_env (site_deploy ''art1'' ''k2'' 2) deployed_world = (Inr shop_ref, w)"
  by (simp add: Deploy_def site_fields again_created bindE_def ret_def runtime_now_def Runtime_Transact_def)
    (simp add: deploy_tx_def runtime_get_defs deployed_tables site_run_defs FindDeploymentByRelease_def
      publishDeployment_def shop_ref_def shop_commit_release_def shop_release_def shop_placement_def
      shop_committed_def shop_pending_def shop_environment_def shop_cell_def)

lemma Deploy_is_idempotent_witness:
  "\<exists>w. Deploy site_env (site_deploy ''art1'' ''k2'' 2) deployed_world = (Inr shop_ref, w) \<and>
     rf_release shop_ref = ''relf''"
proof -
  from deployed_again obtain w where w: "Deploy site_env (site_deploy ''art1'' ''k2'' 2) deployed_world = (Inr shop_ref, w)"
    by blast
  from Deploy_is_idempotent[OF empty_site_new site_steps site_rely deployed[THEN conjunct1]
      rtranclp.rtrancl_refl site_rely w refl refl] w
  show ?thesis by (simp add: shop_ref_def)
qed

text \<open>
  C36. A deployment that is ready never changes again, whatever is observed of it later: its phase,
  its address and its replica count stay as the first ready report left them.
\<close>

theorem ready_deployment_is_final:
  assumes "db w0 = runtime_newState" and "runtime_step\<^sup>*\<^sup>* w0 w" and "runtime_step\<^sup>*\<^sup>* w w'"
    and "GetDeployment i (db w) = Some x" and "dep_phase x = DeploymentReady"
  shows "GetDeployment i (db w') = Some x"
proof -
  have "later (db w) (db w')"
    using effects_later[OF runtime_run_effects[OF assms(3)]] runtime.reachable_inv[OF assms(1,2)] by blast
  with assms(4,5) show ?thesis
    by (auto simp: later_def grows_def deployment_moves_def GetDeployment_def)
qed

lemma ready_deployment_is_final_witness:
  "\<exists>x. GetDeployment ''deph'' (db ready_world) = Some x \<and> dep_phase x = DeploymentReady"
proof -
  obtain x where x: "GetDeployment ''deph'' (db ready_world) = Some x" "dep_phase x = DeploymentReady"
    using ready_settled deployed_rows by (auto simp: rollout_settled_def shop_committed_def shop_pending_def)
  from ready_deployment_is_final[OF empty_site_new ready_steps rtranclp.rtrancl_refl x] x(2)
  show ?thesis by blast
qed

section \<open>Placement and names\<close>

lemma find_sorted_key:
  assumes "List.find P (sort_key f cs) = Some c"
  shows "c \<in> set cs \<and> P c \<and> (\<forall>x\<in>set cs. P x \<longrightarrow> f c \<le> f x)"
proof -
  obtain i where i: "i < length (sort_key f cs)" "P (sort_key f cs ! i)" "c = sort_key f cs ! i"
    "\<forall>j<i. \<not> P (sort_key f cs ! j)"
    using assms by (auto simp: find_Some_iff)
  have "f c \<le> f x" if "x \<in> set cs" "P x" for x
  proof -
    obtain j where j: "j < length (sort_key f cs)" "x = sort_key f cs ! j"
      using \<open>x \<in> set cs\<close> by (metis in_set_conv_nth set_sort)
    with i(4) \<open>P x\<close> have "i \<le> j" by (metis not_less)
    with j i(1,3) sorted_nth_mono[OF sorted_sort_key, of i j f cs] show ?thesis by simp
  qed
  moreover have "c \<in> set cs" using nth_mem[OF i(1)] i(3) by simp
  ultimately show ?thesis using i(2,3) by simp
qed

text \<open>
  The scheduler answers with a cell that can take the placement and among those with one that
  has the most free units, the smallest id deciding between equals; it fails with a capacity error
  exactly when no cell can take it.
\<close>

lemma Select_picks_the_freest_cell:
  "(case Select u cells region n units of
      Inr c \<Rightarrow> c \<in> set cells \<and> CanPlace u c region n units \<and>
        (\<forall>d\<in>set cells. CanPlace u d region n units \<longrightarrow>
           cell_free d < cell_free c \<or> cell_free d = cell_free c \<and> cell_id c \<le> cell_id d)
    | Inl e \<Rightarrow> e = RErr RCapacity ''no compatible runtime cell has sufficient capacity'' \<and>
        (\<forall>d\<in>set cells. \<not> CanPlace u d region n units))"
proof (cases "List.find (\<lambda>c. CanPlace u c region n units) (sort_key (\<lambda>c. (- cell_free c, cell_id c)) cells)")
  case None
  then have "\<forall>d\<in>set cells. \<not> CanPlace u d region n units" by (auto simp: find_None_iff)
  then show ?thesis by (simp add: Select_def None)
next
  case (Some c)
  from find_sorted_key[OF this] Some show ?thesis by (auto simp: Select_def less_eq_prod_def)
qed

lemma shop_fits: "CanPlace ascii_tables shop_cell ''eu'' ''sandboxed'' 6"
proof -
  have "TrimSpace ''eu'' = ''eu''" by code_simp
  then have "ToLower ascii_tables (TrimSpace ''eu'') = ''eu''" by (simp add: ToLower_plain plain_char_def)
  then show ?thesis by (simp add: CanPlace_def shop_cell_def supports_def wrap64_def)
qed

lemma Select_picks_the_freest_cell_witness:
  "\<exists>c. Select ascii_tables [shop_cell] ''eu'' ''sandboxed'' 6 = Inr c \<and> c = shop_cell"
  using Select_picks_the_freest_cell[where u = ascii_tables and cells = "[shop_cell]" and region = "''eu''" and
      n = "''sandboxed''" and units = 6] shop_fits
  by (auto split: sum.splits)

text \<open>
  C37. The names the runtime generates for an application and environment are DNS labels, whatever
  the identifiers are, as long as the digest is printed in hexadecimal.
\<close>

theorem generated_names_are_DNS_labels:
  assumes "hexadecimal h"
  shows "ValidDNSLabel (EnvironmentNamespace h a e) \<and> ValidDNSLabel (PaaSAppName h a e)"
proof -
  have "list_all label_char ''app-''" by code_simp
  moreover have "list_all label_char ''paas-''" by code_simp
  ultimately show ?thesis
    unfolding EnvironmentNamespace_def PaaSAppName_def by (auto intro!: boundedDNS_label[OF assms])
qed

lemma generated_names_are_DNS_labels_witness:
  "hexadecimal site_hashing \<and> ValidDNSLabel (PaaSAppName site_hashing ''appa'' ''production'')"
proof -
  have "hexadecimal site_hashing"
    unfolding hexadecimal_def site_hashing_def by (simp add: hex_digit_def less_eq_char_def)
  with generated_names_are_DNS_labels[OF this] show ?thesis by blast
qed

end
