(* ===== verification/Build_Types.thy ===== *)
theory Build_Types
  imports Runtime_Types
begin

text \<open>
  The data of the build component: the errors of \<open>internal/build/domain/errors.go\<close>, source revisions
  (\<open>pkg/contracts/source/v1\<close>), build configurations with their normal form, and the identity of a
  build (\<open>internal/build/domain/identity.go\<close>).
\<close>

section \<open>Errors\<close>

datatype build_code =
    BInvalidArgument
  | BNotFound
  | BForbidden
  | BConflict
  | BStaleVersion
  | BUserFailure
  | BPlatformFailure
  | BTimeout
  | BPolicyRejected
  | BUnavailable

text \<open>
  A domain error, an error that another package made, with the error it unwraps to, or the run-time
  panic of a call that uses a dependency the service has not got.
\<close>

datatype berror =
    BDomainError build_code string bool "berror option"
  | BOtherError string "berror option"
  | BPanic

definition BErr :: "build_code \<Rightarrow> string \<Rightarrow> berror" where
  "BErr c m = BDomainError c m False None"

definition BRetryable :: "build_code \<Rightarrow> string \<Rightarrow> berror \<Rightarrow> berror" where
  "BRetryable c m cause = BDomainError c m True (Some cause)"

definition BWrap :: "build_code \<Rightarrow> string \<Rightarrow> berror \<Rightarrow> berror" where
  "BWrap c m cause = BDomainError c m False (Some cause)"

fun build_code_text :: "build_code \<Rightarrow> string" where
  "build_code_text BInvalidArgument = ''INVALID_ARGUMENT''"
| "build_code_text BNotFound = ''NOT_FOUND''"
| "build_code_text BForbidden = ''FORBIDDEN''"
| "build_code_text BConflict = ''CONFLICT''"
| "build_code_text BStaleVersion = ''STALE_VERSION''"
| "build_code_text BUserFailure = ''USER_FAILURE''"
| "build_code_text BPlatformFailure = ''PLATFORM_FAILURE''"
| "build_code_text BTimeout = ''TIMEOUT''"
| "build_code_text BPolicyRejected = ''POLICY_REJECTED''"
| "build_code_text BUnavailable = ''UNAVAILABLE''"

text \<open>The method \<open>Error()\<close>.\<close>

fun build_error_text :: "berror \<Rightarrow> string" where
  "build_error_text (BDomainError c m r None) = build_code_text c @ '': '' @ m"
| "build_error_text (BDomainError c m r (Some cause)) =
     build_code_text c @ '': '' @ m @ '': '' @ build_error_text cause"
| "build_error_text (BOtherError m cause) = m"
| "build_error_text BPanic = []"

text \<open>\<open>errors.As\<close> for a domain error: the first one along the chain, with code, message and flag.\<close>

fun as_domain_error :: "berror \<Rightarrow> (build_code \<times> string \<times> bool) option" where
  "as_domain_error (BDomainError c m r cause) = Some (c, m, r)"
| "as_domain_error (BOtherError m (Some cause)) = as_domain_error cause"
| "as_domain_error (BOtherError m None) = None"
| "as_domain_error BPanic = None"

definition BHasCode :: "berror \<Rightarrow> build_code \<Rightarrow> bool" where
  "BHasCode e c \<longleftrightarrow> (case as_domain_error e of None \<Rightarrow> False | Some (c', _, _) \<Rightarrow> c' = c)"

definition IsRetryable :: "berror \<Rightarrow> bool" where
  "IsRetryable e \<longleftrightarrow> (case as_domain_error e of None \<Rightarrow> False | Some (_, _, r) \<Rightarrow> r)"

section \<open>Source revisions\<close>

record source_revision =
  sr_project :: string
  sr_repository :: string
  sr_branch :: string
  sr_commit :: string
  sr_root :: string

definition commit_char :: "char \<Rightarrow> bool" where
  "commit_char c \<longleftrightarrow>
     decimal_digit c \<or> (CHR ''a'' \<le> c \<and> c \<le> CHR ''f'') \<or> (CHR ''A'' \<le> c \<and> c \<le> CHR ''F'')"

definition ValidCommitSHA :: "string \<Rightarrow> bool" where
  "ValidCommitSHA v \<longleftrightarrow> \<not> (length v < 7 \<or> 64 < length v) \<and> list_all commit_char v"

definition Source_Validate :: "source_revision \<Rightarrow> berror + unit" where
  "Source_Validate r =
     (let root = (if sr_root r = ''.'' then [] else sr_root r) in
      if blank (sr_project r) \<or> blank (sr_repository r) \<or> blank (sr_branch r) \<or> \<not> ValidCommitSHA (sr_commit r)
        then Inl (BOtherError ''invalid source revision'' None)
      else if HasPrefix root ''/'' \<or> str_contains root ''..''
        then Inl (BOtherError ''invalid source revision'' None)
      else Inr ())"

section \<open>Relative paths\<close>

text \<open>\<open>path.Clean\<close>: empty and \<open>.\<close> elements go, \<open>..\<close> removes the element before it.\<close>

fun clean_loop :: "bool \<Rightarrow> string list \<Rightarrow> string list \<Rightarrow> string list" where
  "clean_loop rooted [] out = rev out"
| "clean_loop rooted (s # ss) out =
     (if s = [] \<or> s = ''.'' then clean_loop rooted ss out
      else if s = ''..'' then
        (case out of
           [] \<Rightarrow> clean_loop rooted ss (if rooted then [] else [s])
         | t # ts \<Rightarrow> clean_loop rooted ss (if t = ''..'' then s # out else ts))
      else clean_loop rooted ss (s # out))"

definition path_Clean :: "string \<Rightarrow> string" where
  "path_Clean p =
     (let rooted = HasPrefix p ''/'';
          body = Join (clean_loop rooted (Split (CHR ''/'') p) []) ''/'' in
      if rooted then ''/'' @ body else if body = [] then ''.'' else body)"

definition hasWindowsDrivePrefix :: "string \<Rightarrow> bool" where
  "hasWindowsDrivePrefix s \<longleftrightarrow>
     (case s of c # d # _ \<Rightarrow> (upper_letter c \<or> lower_letter c) \<and> d = CHR '':'' | _ \<Rightarrow> False)"

definition normalizeRelativePath :: "string \<Rightarrow> bool \<Rightarrow> berror + string" where
  "normalizeRelativePath value0 allowEmpty =
     (let value = TrimSpace (map (\<lambda>c. if c = CHR 0x5C then CHR ''/'' else c) value0) in
      if value = [] \<or> value = ''.'' then
        (if allowEmpty then Inr [] else Inl (BErr BInvalidArgument ''relative path is required''))
      else if List.member value (CHR 0x00) \<or> HasPrefix value ''/'' \<or> hasWindowsDrivePrefix value
        then Inl (BErr BInvalidArgument ''path must be relative'')
      else if list_ex (\<lambda>segment. segment = ''..'') (Split (CHR ''/'') value)
        then Inl (BErr BInvalidArgument ''path traversal is not allowed'')
      else let cleaned = path_Clean value in
      if cleaned = ''..'' \<or> HasPrefix cleaned ''../'' \<or> cleaned = ''.''
        then Inl (BErr BInvalidArgument ''path traversal is not allowed'')
      else Inr cleaned)"

section \<open>Configurations\<close>

type_synonym build_type = string

definition BuildTypeAuto :: build_type where
  "BuildTypeAuto = ''auto''"

definition BuildTypeDockerfile :: build_type where
  "BuildTypeDockerfile = ''dockerfile''"

text \<open>
  The environment is an association list with distinct keys, in one order of iteration. The slices
  are \<open>nil\<close> whenever they are empty: they are copies that \<open>append\<close> made.
\<close>

record build_config =
  bc_type :: build_type
  bc_runtime :: string
  bc_root :: string
  bc_dockerfile :: string
  bc_command :: "string list"
  bc_env :: "(string \<times> string) list"
  bc_secret_refs :: "string list"

definition validEnvKey :: "string \<Rightarrow> bool" where
  "validEnvKey s \<longleftrightarrow>
     (case s of
        [] \<Rightarrow> False
      | c # cs \<Rightarrow> (upper_letter c \<or> lower_letter c \<or> c = CHR ''_'') \<and>
          list_all (\<lambda>c. alphanumeric c \<or> c = CHR ''_'') cs)"

definition looksSensitive :: "string \<Rightarrow> bool" where
  "looksSensitive key \<longleftrightarrow>
     list_ex (str_contains key) [''SECRET'', ''TOKEN'', ''PASSWORD'', ''PRIVATE_KEY'', ''API_KEY'', ''CREDENTIAL'']"

fun env_loop :: "unicode \<Rightarrow> (string \<times> string) list \<Rightarrow> berror + unit" where
  "env_loop u [] = Inr ()"
| "env_loop u ((key, v) # es) =
     (if key \<noteq> TrimSpace key \<or> \<not> validEnvKey key \<or> List.member v (CHR 0x00)
        then Inl (BErr BInvalidArgument ''invalid build environment'')
      else if looksSensitive (ToUpper u key)
        then Inl (BErr BInvalidArgument ''secret values must use build secret references'')
      else env_loop u es)"

fun refs_loop :: "string list \<Rightarrow> berror + string list" where
  "refs_loop [] = Inr []"
| "refs_loop (r # rs) =
     (let r = TrimSpace r in
      if r = [] \<or> ContainsAny r [CHR 0x00, CHR 0x0A, CHR 0x0D]
        then Inl (BErr BInvalidArgument ''invalid build secret reference'')
      else case refs_loop rs of Inl e \<Rightarrow> Inl e | Inr rs' \<Rightarrow> Inr (r # rs'))"

fun dedupe :: "string list \<Rightarrow> string list" where
  "dedupe (v # w # vs) = (if v = w then dedupe (w # vs) else v # dedupe (w # vs))"
| "dedupe vs = vs"

definition NormalizeConfig :: "unicode \<Rightarrow> build_config \<Rightarrow> berror + build_config" where
  "NormalizeConfig u c =
     (let type = (if bc_type c = [] then BuildTypeAuto else bc_type c) in
      if type \<noteq> BuildTypeAuto \<and> type \<noteq> BuildTypeDockerfile
        then Inl (BErr BInvalidArgument ''unsupported build type'')
      else case normalizeRelativePath (bc_root c) True of
        Inl _ \<Rightarrow> Inl (BErr BInvalidArgument ''source root escapes repository'')
      | Inr root \<Rightarrow>
      case normalizeRelativePath
             (if bc_dockerfile c = [] \<and> type = BuildTypeDockerfile then ''Dockerfile'' else bc_dockerfile c) True of
        Inl _ \<Rightarrow> Inl (BErr BInvalidArgument ''dockerfile path escapes source root'')
      | Inr dockerfile \<Rightarrow>
      if type = BuildTypeDockerfile \<and> dockerfile = []
        then Inl (BErr BInvalidArgument ''dockerfile path is required'')
      else case env_loop u (bc_env c) of
        Inl e \<Rightarrow> Inl e
      | Inr _ \<Rightarrow>
      case refs_loop (bc_secret_refs c) of
        Inl e \<Rightarrow> Inl e
      | Inr refs \<Rightarrow>
      if list_ex (\<lambda>item. item = [] \<or> List.member item (CHR 0x00)) (bc_command c)
        then Inl (BErr BInvalidArgument ''invalid build command'')
      else Inr \<lparr>bc_type = type, bc_runtime = ToLower u (TrimSpace (bc_runtime c)), bc_root = root,
                bc_dockerfile = dockerfile, bc_command = bc_command c, bc_env = bc_env c,
                bc_secret_refs = dedupe (sort refs)\<rparr>)"

definition NormalizeBuildInput ::
  "unicode \<Rightarrow> source_revision \<Rightarrow> build_config \<Rightarrow> berror + source_revision \<times> build_config" where
  "NormalizeBuildInput u source config =
     (case Source_Validate source of
        Inl _ \<Rightarrow> Inl (BErr BInvalidArgument ''invalid source revision'')
      | Inr _ \<Rightarrow>
      case NormalizeConfig u config of
        Inl e \<Rightarrow> Inl e
      | Inr normalized \<Rightarrow>
      case normalizeRelativePath (sr_root source) True of
        Inl _ \<Rightarrow> Inl (BErr BInvalidArgument ''source root escapes repository'')
      | Inr root \<Rightarrow>
      if root \<noteq> [] \<and> bc_root normalized \<noteq> [] \<and> root \<noteq> bc_root normalized
        then Inl (BErr BInvalidArgument ''source revision and build config specify different source roots'')
      else Inr (source\<lparr>sr_root := (if bc_root normalized \<noteq> [] then bc_root normalized else root)\<rparr>,
                normalized\<lparr>bc_root := []\<rparr>))"

section \<open>The identity of a build\<close>

text \<open>
  What is hashed for an identity: the configuration lists its environment by key. The digests of
  JSON texts are a parameter, on the values that they encode.
\<close>

definition canonicalConfig :: "build_config \<Rightarrow> build_config" where
  "canonicalConfig c = c\<lparr>bc_env := sort_key fst (bc_env c)\<rparr>"

record identity_input =
  ii_project :: string
  ii_repository :: string
  ii_commit :: string
  ii_root :: string
  ii_config :: build_config
  ii_builder :: string
  ii_run_image :: string
  ii_platform :: string

datatype build_json =
    JIdentity identity_input
  | JObject "(string \<times> val) list"

record build_hashing =
  bh_unicode :: unicode
  bh_json :: "build_json \<Rightarrow> string"

definition ComputeBuildIdentity ::
  "build_hashing \<Rightarrow> source_revision \<Rightarrow> build_config \<Rightarrow> string \<Rightarrow> string \<Rightarrow> string \<Rightarrow> berror + string" where
  "ComputeBuildIdentity h source config builder runImage platform =
     (case NormalizeBuildInput (bh_unicode h) source config of
        Inl e \<Rightarrow> Inl e
      | Inr (source, config) \<Rightarrow>
      if \<not> ValidDigest builder \<or> \<not> ValidDigest runImage \<or> blank platform
        then Inl (BErr BInvalidArgument ''builder, run image and platform version are required'')
      else Inr (''bldid_'' @ bh_json h (JIdentity
        \<lparr>ii_project = sr_project source, ii_repository = sr_repository source,
         ii_commit = ToLower (bh_unicode h) (sr_commit source), ii_root = sr_root source,
         ii_config = canonicalConfig config, ii_builder = builder, ii_run_image = runImage,
         ii_platform = TrimSpace platform\<rparr>)))"

end
