(* ===== verification/Build_Domain.thy ===== *)
theory Build_Domain
  imports Build_Types
begin

text \<open>
  Builds and artifacts with their state machines (\<open>internal/build/domain/build.go\<close> and
  \<open>artifact.go\<close>).
\<close>

section \<open>Builds\<close>

datatype build_state =
    BuildQueued
  | BuildFetchingSource
  | BuildDetecting
  | BuildBuilding
  | BuildExporting
  | BuildScanning
  | BuildSigning
  | BuildSucceeded
  | BuildFailedUserCode
  | BuildFailedPlatform
  | BuildCanceled
  | BuildSuperseded
  | BuildTimedOut

fun build_state_text :: "build_state \<Rightarrow> string" where
  "build_state_text BuildQueued = ''QUEUED''"
| "build_state_text BuildFetchingSource = ''FETCHING_SOURCE''"
| "build_state_text BuildDetecting = ''DETECTING''"
| "build_state_text BuildBuilding = ''BUILDING''"
| "build_state_text BuildExporting = ''EXPORTING''"
| "build_state_text BuildScanning = ''SCANNING''"
| "build_state_text BuildSigning = ''SIGNING''"
| "build_state_text BuildSucceeded = ''SUCCEEDED''"
| "build_state_text BuildFailedUserCode = ''FAILED_USER_CODE''"
| "build_state_text BuildFailedPlatform = ''FAILED_PLATFORM''"
| "build_state_text BuildCanceled = ''CANCELED''"
| "build_state_text BuildSuperseded = ''SUPERSEDED''"
| "build_state_text BuildTimedOut = ''TIMED_OUT''"

type_synonym execution_backend = string

definition ExecutionBuildpacks :: execution_backend where
  "ExecutionBuildpacks = ''buildpacks''"

definition ExecutionDockerfile :: execution_backend where
  "ExecutionDockerfile = ''dockerfile-vm''"

record build =
  bd_id :: string
  bd_tenant :: string
  bd_identity :: string
  bd_source :: source_revision
  bd_config :: build_config
  bd_builder_digest :: string
  bd_run_image_digest :: string
  bd_platform_version :: string
  bd_runtime :: string
  bd_backend :: execution_backend
  bd_buildpack :: string
  bd_state :: build_state
  bd_correlation :: string
  bd_original_correlation :: string
  bd_artifact :: string
  bd_failure_code :: string
  bd_failure_message :: string
  bd_retryable :: bool
  bd_attempt :: int
  bd_version :: int
  bd_created_at :: gotime
  bd_updated_at :: gotime
  bd_started_at :: gotime
  bd_completed_at :: gotime

definition NewBuild ::
  "unicode \<Rightarrow> string \<Rightarrow> string \<Rightarrow> string \<Rightarrow> string \<Rightarrow> source_revision \<Rightarrow> build_config \<Rightarrow> string \<Rightarrow> string \<Rightarrow> string \<Rightarrow>
   gotime \<Rightarrow> berror + build" where
  "NewBuild u i tenant identity correlation source config builder runImage platform now =
     (if blank i \<or> blank tenant \<or> blank identity \<or> blank correlation
        then Inl (BErr BInvalidArgument ''build identity fields are required'')
      else case NormalizeBuildInput u source config of
        Inl e \<Rightarrow> Inl e
      | Inr (source, config) \<Rightarrow>
          Inr \<lparr>bd_id = i, bd_tenant = tenant, bd_identity = identity, bd_source = source, bd_config = config,
               bd_builder_digest = builder, bd_run_image_digest = runImage, bd_platform_version = platform,
               bd_runtime = [], bd_backend = [], bd_buildpack = [], bd_state = BuildQueued,
               bd_correlation = correlation, bd_original_correlation = correlation, bd_artifact = [],
               bd_failure_code = [], bd_failure_message = [], bd_retryable = False, bd_attempt = 1,
               bd_version = 1, bd_created_at = now, bd_updated_at = now, bd_started_at = 0,
               bd_completed_at = 0\<rparr>)"

definition terminal_state :: "build_state \<Rightarrow> bool" where
  "terminal_state s \<longleftrightarrow>
     (case s of
        BuildSucceeded \<Rightarrow> True
      | BuildFailedUserCode \<Rightarrow> True
      | BuildFailedPlatform \<Rightarrow> True
      | BuildCanceled \<Rightarrow> True
      | BuildSuperseded \<Rightarrow> True
      | BuildTimedOut \<Rightarrow> True
      | _ \<Rightarrow> False)"

definition Build_Terminal :: "build \<Rightarrow> bool" where
  "Build_Terminal b \<longleftrightarrow> terminal_state (bd_state b)"

definition while_running :: "build_state list" where
  "while_running = [BuildFailedUserCode, BuildFailedPlatform, BuildCanceled, BuildTimedOut]"

fun build_allowed :: "build_state \<Rightarrow> build_state list" where
  "build_allowed BuildQueued = [BuildFetchingSource, BuildCanceled, BuildSuperseded]"
| "build_allowed BuildFetchingSource = BuildDetecting # BuildSuperseded # while_running"
| "build_allowed BuildDetecting = BuildBuilding # BuildSuperseded # while_running"
| "build_allowed BuildBuilding = BuildExporting # BuildSuperseded # while_running"
| "build_allowed BuildExporting = BuildScanning # BuildSuperseded # while_running"
| "build_allowed BuildScanning = BuildSigning # while_running"
| "build_allowed BuildSigning = BuildSucceeded # while_running"
| "build_allowed _ = []"

definition Build_Transition :: "build_state \<Rightarrow> gotime \<Rightarrow> build \<Rightarrow> berror + build" where
  "Build_Transition to now b =
     (if Build_Terminal b then
        (if bd_state b = to then Inr b else Inl (BErr BConflict ''terminal build state is immutable''))
      else if \<not> List.member (build_allowed (bd_state b)) to
        then Inl (BErr BConflict ''invalid build transition'')
      else Inr (b\<lparr>bd_state := to, bd_version := bd_version b + 1, bd_updated_at := now,
                  bd_started_at := (if IsZero (bd_started_at b) \<and> to = BuildFetchingSource then now
                                    else bd_started_at b),
                  bd_completed_at := (if terminal_state to then now else bd_completed_at b)\<rparr>))"

definition SelectExecution ::
  "unicode \<Rightarrow> string \<Rightarrow> execution_backend \<Rightarrow> string \<Rightarrow> gotime \<Rightarrow> build \<Rightarrow> berror + build" where
  "SelectExecution u runtime backend buildpack now b =
     (if bd_state b \<noteq> BuildDetecting
        then Inl (BErr BConflict ''execution backend can only be selected while detecting'')
      else let runtime = TrimSpace (ToLower u runtime); buildpack = TrimSpace buildpack in
      if runtime = [] then Inl (BErr BInvalidArgument ''runtime is required'')
      else if backend = ExecutionBuildpacks \<and> buildpack = []
        then Inl (BErr BInvalidArgument ''buildpack id is required'')
      else if backend = ExecutionDockerfile \<and> buildpack \<noteq> []
        then Inl (BErr BInvalidArgument ''dockerfile backend cannot have a buildpack id'')
      else if backend \<noteq> ExecutionBuildpacks \<and> backend \<noteq> ExecutionDockerfile
        then Inl (BErr BInvalidArgument ''unsupported execution backend'')
      else Build_Transition BuildBuilding now
        (b\<lparr>bd_runtime := runtime, bd_backend := backend, bd_buildpack := buildpack\<rparr>))"

definition Build_Cancel :: "gotime \<Rightarrow> build \<Rightarrow> berror + build" where
  "Build_Cancel now b = (if bd_state b = BuildCanceled then Inr b else Build_Transition BuildCanceled now b)"

definition Supersede :: "bool \<Rightarrow> gotime \<Rightarrow> build \<Rightarrow> berror + build" where
  "Supersede allowRunning now b =
     (if bd_state b = BuildSuperseded then Inr b
      else if bd_state b \<noteq> BuildQueued \<and> \<not> allowRunning
        then Inl (BErr BConflict ''running build cannot be superseded by policy'')
      else Build_Transition BuildSuperseded now b)"

definition truncate_text :: "string \<Rightarrow> nat \<Rightarrow> string" where
  "truncate_text v limit = (if length v \<le> limit then v else take limit v)"

definition Build_Fail ::
  "build_state \<Rightarrow> string \<Rightarrow> string \<Rightarrow> bool \<Rightarrow> gotime \<Rightarrow> build \<Rightarrow> berror + build" where
  "Build_Fail state code message retryable now b =
     (if state \<noteq> BuildFailedUserCode \<and> state \<noteq> BuildFailedPlatform \<and> state \<noteq> BuildTimedOut
        then Inl (BErr BInvalidArgument ''invalid failure state'')
      else case Build_Transition state now b of
        Inl e \<Rightarrow> Inl e
      | Inr b' \<Rightarrow> Inr (b'\<lparr>bd_failure_code := truncate_text code 128, bd_failure_message := truncate_text message 2048,
                          bd_retryable := retryable\<rparr>))"

definition Succeed :: "string \<Rightarrow> gotime \<Rightarrow> build \<Rightarrow> berror + build" where
  "Succeed artifact now b =
     (if blank artifact then Inl (BErr BInvalidArgument ''artifact id required'')
      else case Build_Transition BuildSucceeded now b of
        Inl e \<Rightarrow> Inl e
      | Inr b' \<Rightarrow> Inr (b'\<lparr>bd_artifact := artifact\<rparr>))"

definition Retry :: "unicode \<Rightarrow> string \<Rightarrow> string \<Rightarrow> gotime \<Rightarrow> build \<Rightarrow> berror + build" where
  "Retry u i correlation now b =
     (if \<not> Build_Terminal b \<or> bd_state b = BuildSucceeded
        then Inl (BErr BConflict ''only failed terminal build can be retried'')
      else case NewBuild u i (bd_tenant b) (bd_identity b) correlation (bd_source b) (bd_config b)
                  (bd_builder_digest b) (bd_run_image_digest b) (bd_platform_version b) now of
        Inl e \<Rightarrow> Inl e
      | Inr r \<Rightarrow> Inr (r\<lparr>bd_original_correlation := bd_original_correlation b, bd_attempt := bd_attempt b + 1\<rparr>))"

section \<open>Artifacts\<close>

datatype artifact_state =
    ArtifactDiscovered
  | ArtifactQuarantined
  | ArtifactScanned
  | ArtifactSigned
  | ArtifactReleasable
  | ArtifactRejected

fun artifact_state_text :: "artifact_state \<Rightarrow> string" where
  "artifact_state_text ArtifactDiscovered = ''DISCOVERED''"
| "artifact_state_text ArtifactQuarantined = ''QUARANTINED''"
| "artifact_state_text ArtifactScanned = ''SCANNED''"
| "artifact_state_text ArtifactSigned = ''SIGNED''"
| "artifact_state_text ArtifactReleasable = ''RELEASABLE''"
| "artifact_state_text ArtifactRejected = ''REJECTED''"

record scan_result =
  sc_scanner :: string
  sc_policy_version :: string
  sc_passed :: bool
  sc_highest_severity :: string
  sc_findings_digest :: string
  sc_reasons :: "string list"
  sc_scanned_at :: gotime

record signature_record =
  sg_issuer :: string
  sg_algorithm :: string
  sg_digest :: string
  sg_signature :: string
  sg_attachment_digest :: string
  sg_signed_at :: gotime

record artifact =
  ar_id :: string
  ar_tenant :: string
  ar_build :: string
  ar_repository :: string
  ar_digest :: string
  ar_media_type :: string
  ar_state :: artifact_state
  ar_sbom_digest :: string
  ar_sbom_media_type :: string
  ar_scan :: "scan_result option"
  ar_signature :: "signature_record option"
  ar_rejection_code :: string
  ar_rejection_notes :: "string list"
  ar_version :: int
  ar_created_at :: gotime
  ar_updated_at :: gotime

definition NewArtifact ::
  "string \<Rightarrow> string \<Rightarrow> string \<Rightarrow> string \<Rightarrow> string \<Rightarrow> string \<Rightarrow> gotime \<Rightarrow> berror + artifact" where
  "NewArtifact i tenant build repository digest mediaType now =
     (if blank tenant \<or> blank build \<or>
         Artifact_Validate \<lparr>ArtifactID = i, Repository = repository, Digest = digest, MediaType = mediaType\<rparr> \<noteq> Inr ()
        then Inl (BErr BInvalidArgument ''invalid artifact'')
      else Inr \<lparr>ar_id = i, ar_tenant = tenant, ar_build = build, ar_repository = repository,
                ar_digest = digest, ar_media_type = mediaType, ar_state = ArtifactDiscovered,
                ar_sbom_digest = [], ar_sbom_media_type = [], ar_scan = None, ar_signature = None,
                ar_rejection_code = [], ar_rejection_notes = [], ar_version = 1,
                ar_created_at = now, ar_updated_at = now\<rparr>)"

definition Ref :: "artifact \<Rightarrow> artifact_ref" where
  "Ref a = \<lparr>ArtifactID = ar_id a, Repository = ar_repository a, Digest = ar_digest a, MediaType = ar_media_type a\<rparr>"

definition bump :: "gotime \<Rightarrow> artifact \<Rightarrow> artifact" where
  "bump now a = a\<lparr>ar_version := ar_version a + 1, ar_updated_at := now\<rparr>"

definition Quarantine :: "gotime \<Rightarrow> artifact \<Rightarrow> berror + artifact" where
  "Quarantine now a =
     (if ar_state a = ArtifactQuarantined then Inr a
      else if ar_state a \<noteq> ArtifactDiscovered
        then Inl (BErr BConflict ''artifact cannot enter quarantine'')
      else Inr (bump now (a\<lparr>ar_state := ArtifactQuarantined\<rparr>)))"

definition AttachSBOM :: "string \<Rightarrow> string \<Rightarrow> gotime \<Rightarrow> artifact \<Rightarrow> berror + artifact" where
  "AttachSBOM digest mediaType0 now a =
     (if ar_state a \<noteq> ArtifactQuarantined
        then Inl (BErr BConflict ''SBOM can only attach to quarantined artifact'')
      else let mediaType = TrimSpace mediaType0 in
      if \<not> ValidDigest digest \<or> mediaType = []
        then Inl (BErr BInvalidArgument ''invalid SBOM reference'')
      else if ar_sbom_digest a \<noteq> [] then
        (if ar_sbom_digest a = digest \<and> ar_sbom_media_type a = mediaType then Inr a
         else Inl (BErr BConflict ''artifact SBOM reference is immutable''))
      else Inr (bump now (a\<lparr>ar_sbom_digest := digest, ar_sbom_media_type := mediaType\<rparr>)))"

text \<open>\<open>Truncate(time.Microsecond)\<close>: down to a multiple of a microsecond since the zero time.\<close>

definition to_microsecond :: "gotime \<Rightarrow> gotime" where
  "to_microsecond t = t - t mod 1000"

definition ApplyScan :: "scan_result \<Rightarrow> gotime \<Rightarrow> artifact \<Rightarrow> berror + artifact" where
  "ApplyScan result now a =
     (if ar_state a \<noteq> ArtifactQuarantined then Inl (BErr BConflict ''artifact is not quarantined'')
      else if \<not> ValidDigest (ar_sbom_digest a) \<or> blank (ar_sbom_media_type a)
        then Inl (BErr BConflict ''artifact must have an immutable SBOM before scanning'')
      else if blank (sc_scanner result) \<or> blank (sc_policy_version result) \<or>
              \<not> ValidDigest (sc_findings_digest result) \<or> IsZero (sc_scanned_at result)
        then Inl (BErr BInvalidArgument ''invalid scan result'')
      else let scanned = a\<lparr>ar_scan := Some (result\<lparr>sc_scanned_at := to_microsecond (sc_scanned_at result)\<rparr>)\<rparr> in
      Inr (bump now
        (if sc_passed result then scanned\<lparr>ar_state := ArtifactScanned\<rparr>
         else scanned\<lparr>ar_state := ArtifactRejected, ar_rejection_code := build_code_text BPolicyRejected,
                      ar_rejection_notes := sc_reasons result\<rparr>)))"

definition AttachSignature :: "signature_record \<Rightarrow> gotime \<Rightarrow> artifact \<Rightarrow> berror + artifact" where
  "AttachSignature s now a =
     (if ar_state a \<noteq> ArtifactScanned
        then Inl (BErr BConflict ''artifact must be scanned before signing'')
      else if sg_digest s \<noteq> ar_digest a \<or> blank (sg_issuer s) \<or> blank (sg_algorithm s) \<or>
              blank (sg_signature s) \<or> IsZero (sg_signed_at s)
        then Inl (BErr BInvalidArgument ''signature does not bind artifact digest'')
      else Inr (bump now
        (a\<lparr>ar_signature := Some (s\<lparr>sg_signed_at := to_microsecond (sg_signed_at s)\<rparr>),
           ar_state := ArtifactSigned\<rparr>)))"

definition trust_chain :: "artifact \<Rightarrow> bool" where
  "trust_chain a \<longleftrightarrow>
     (case (ar_signature a, ar_scan a) of
        (Some s, Some scan) \<Rightarrow>
          \<not> (sg_digest s \<noteq> ar_digest a \<or> blank (sg_issuer s) \<or> blank (sg_algorithm s) \<or> blank (sg_signature s) \<or>
             \<not> ValidDigest (sg_attachment_digest s) \<or> \<not> ValidDigest (ar_sbom_digest a) \<or>
             blank (ar_sbom_media_type a) \<or> \<not> sc_passed scan)
      | _ \<Rightarrow> False)"

definition MarkReleasable :: "gotime \<Rightarrow> artifact \<Rightarrow> berror + artifact" where
  "MarkReleasable now a =
     (if ar_state a = ArtifactReleasable then Inr a
      else if ar_state a \<noteq> ArtifactSigned \<or> \<not> trust_chain a
        then Inl (BErr BConflict ''artifact trust chain is incomplete'')
      else Inr (bump now (a\<lparr>ar_state := ArtifactReleasable\<rparr>)))"

end
