(* ===== verification/Build_Store.thy ===== *)
theory Build_Store
  imports Build_Domain Go_Transactions Versioned_Store
begin

text \<open>
  The tables of the build component and the operations of a transaction
  (\<open>internal/build/memory/store.go\<close>, and the records of \<open>internal/build/application/ports.go\<close>).
\<close>

section \<open>Records and tables\<close>

text \<open>The answer of a command, which its idempotency record holds as JSON.\<close>

record request_build_result =
  rq_build :: build
  rq_artifact :: "artifact option"
  rq_reused :: bool

record build_idempotency =
  bi_tenant :: string
  bi_key :: string
  bi_command :: string
  bi_request_hash :: string
  bi_result :: request_build_result
  bi_completed :: bool
  bi_created_at :: gotime
  bi_completed_at :: gotime

record build_outbox =
  bo_id :: string
  bo_topic :: string
  bo_aggregate :: string
  bo_payload :: build_json
  bo_created_at :: gotime

record build_audit =
  ba_id :: string
  ba_tenant :: string
  ba_actor :: string
  ba_action :: string
  ba_resource_type :: string
  ba_resource :: string
  ba_data :: build_json
  ba_created_at :: gotime

record build_data =
  bt_builds :: "(string \<times> build) list"
  bt_artifacts :: "(string \<times> artifact) list"
  bt_idempotency :: "string \<rightharpoonup> build_idempotency"
  bt_outbox :: "build_outbox list"
  bt_audit :: "build_audit list"

definition build_newState :: build_data where
  "build_newState =
     \<lparr>bt_builds = [], bt_artifacts = [], bt_idempotency = Map.empty, bt_outbox = [], bt_audit = []\<rparr>"

section \<open>Builds\<close>

definition tx_GetBuild :: "string \<Rightarrow> build_data \<Rightarrow> build option" where
  "tx_GetBuild i d = map_of (bt_builds d) i"

text \<open>The loop keeps the latest attempt; between equal attempts the later creation counts.\<close>

fun latest_loop :: "string \<Rightarrow> string \<Rightarrow> build list \<Rightarrow> build option \<Rightarrow> build option" where
  "latest_loop tenant identity [] latest = latest"
| "latest_loop tenant identity (v # vs) latest =
     (if bd_tenant v \<noteq> tenant \<or> bd_identity v \<noteq> identity then latest_loop tenant identity vs latest
      else if (case latest of None \<Rightarrow> True | Some l \<Rightarrow>
                 bd_attempt l < bd_attempt v \<or>
                 (bd_attempt v = bd_attempt l \<and> bd_created_at l < bd_created_at v))
        then latest_loop tenant identity vs (Some v)
      else latest_loop tenant identity vs latest)"

definition FindBuildByIdentity :: "string \<Rightarrow> string \<Rightarrow> build_data \<Rightarrow> build option" where
  "FindBuildByIdentity tenant identity d = latest_loop tenant identity (map snd (bt_builds d)) None"

definition InsertBuild :: "build \<Rightarrow> build_data \<Rightarrow> berror + build_data" where
  "InsertBuild v d =
     (if tx_GetBuild (bd_id v) d \<noteq> None then Inl (BErr BConflict ''build exists'')
      else case FindBuildByIdentity (bd_tenant v) (bd_identity v) d of
        Some latest \<Rightarrow>
          if bd_attempt v \<noteq> bd_attempt latest + 1
            then Inl (BErr BConflict ''build attempt already exists'')
          else if \<not> Build_Terminal latest \<or> bd_state latest = BuildSucceeded
            then Inl (BErr BConflict ''build identity has an active or successful attempt'')
          else Inr (d\<lparr>bt_builds := AList.update (bd_id v) v (bt_builds d)\<rparr>)
      | None \<Rightarrow>
          if bd_attempt v \<noteq> 1 then Inl (BErr BConflict ''first build attempt must be one'')
          else Inr (d\<lparr>bt_builds := AList.update (bd_id v) v (bt_builds d)\<rparr>))"

text \<open>\<open>reflect.DeepEqual\<close> on configurations: the environments are maps.\<close>

definition build_config_equal :: "build_config \<Rightarrow> build_config \<Rightarrow> bool" where
  "build_config_equal c c' \<longleftrightarrow> c\<lparr>bc_env := []\<rparr> = c'\<lparr>bc_env := []\<rparr> \<and> set (bc_env c) = set (bc_env c')"

definition build_identity_kept :: "build \<Rightarrow> build \<Rightarrow> bool" where
  "build_identity_kept old v \<longleftrightarrow>
     \<not> (bd_tenant old \<noteq> bd_tenant v \<or> bd_identity old \<noteq> bd_identity v \<or> bd_attempt old \<noteq> bd_attempt v \<or>
        bd_source old \<noteq> bd_source v \<or> \<not> build_config_equal (bd_config old) (bd_config v) \<or>
        bd_builder_digest old \<noteq> bd_builder_digest v \<or> bd_run_image_digest old \<noteq> bd_run_image_digest v \<or>
        bd_platform_version old \<noteq> bd_platform_version v \<or> bd_created_at old \<noteq> bd_created_at v \<or>
        bd_correlation old \<noteq> bd_correlation v \<or> bd_original_correlation old \<noteq> bd_original_correlation v)"

definition requiresExecutionSelection :: "build_state \<Rightarrow> bool" where
  "requiresExecutionSelection s \<longleftrightarrow>
     List.member [BuildBuilding, BuildExporting, BuildScanning, BuildSigning, BuildSucceeded] s"

text \<open>The store has a table of its own; it agrees with the one of the domain.\<close>

fun persisted_allowed :: "build_state \<Rightarrow> build_state list" where
  "persisted_allowed BuildQueued = [BuildFetchingSource, BuildCanceled, BuildSuperseded]"
| "persisted_allowed BuildFetchingSource =
     [BuildDetecting, BuildFailedUserCode, BuildFailedPlatform, BuildCanceled, BuildSuperseded, BuildTimedOut]"
| "persisted_allowed BuildDetecting =
     [BuildBuilding, BuildFailedUserCode, BuildFailedPlatform, BuildCanceled, BuildSuperseded, BuildTimedOut]"
| "persisted_allowed BuildBuilding =
     [BuildExporting, BuildFailedUserCode, BuildFailedPlatform, BuildCanceled, BuildSuperseded, BuildTimedOut]"
| "persisted_allowed BuildExporting =
     [BuildScanning, BuildFailedUserCode, BuildFailedPlatform, BuildCanceled, BuildSuperseded, BuildTimedOut]"
| "persisted_allowed BuildScanning =
     [BuildSigning, BuildFailedUserCode, BuildFailedPlatform, BuildCanceled, BuildTimedOut]"
| "persisted_allowed BuildSigning =
     [BuildSucceeded, BuildFailedUserCode, BuildFailedPlatform, BuildCanceled, BuildTimedOut]"
| "persisted_allowed _ = []"

definition validBuildStateChange :: "build_state \<Rightarrow> build_state \<Rightarrow> bool" where
  "validBuildStateChange s t \<longleftrightarrow> s = t \<or> List.member (persisted_allowed s) t"

lemma persisted_allowed_set: "set (persisted_allowed s) = set (build_allowed s)"
  by (cases s) (auto simp: while_running_def)

definition UpdateBuild :: "build \<Rightarrow> int \<Rightarrow> build_data \<Rightarrow> berror + build_data" where
  "UpdateBuild v expected d =
     (case tx_GetBuild (bd_id v) d of
        None \<Rightarrow> Inl (BErr BNotFound ''build not found'')
      | Some old \<Rightarrow>
      if bd_version old \<noteq> expected then Inl (BErr BStaleVersion ''build version mismatch'')
      else if bd_version v \<noteq> bd_version old + 1
        then Inl (BErr BConflict ''build version must increment exactly once'')
      else if \<not> build_identity_kept old v then Inl (BErr BConflict ''build identity is immutable'')
      else if bd_backend old \<noteq> [] \<and>
              (bd_backend old \<noteq> bd_backend v \<or> bd_runtime old \<noteq> bd_runtime v \<or> bd_buildpack old \<noteq> bd_buildpack v)
        then Inl (BErr BConflict ''build execution selection is immutable'')
      else if \<not> validBuildStateChange (bd_state old) (bd_state v)
        then Inl (BErr BConflict ''invalid persisted build transition'')
      else if requiresExecutionSelection (bd_state v) \<and> (bd_runtime v = [] \<or> bd_backend v = [])
        then Inl (BErr BConflict ''running build requires persisted execution selection'')
      else if requiresExecutionSelection (bd_state v) \<and> bd_backend v = ExecutionBuildpacks \<and> bd_buildpack v = []
        then Inl (BErr BConflict ''buildpacks backend requires buildpack id'')
      else if requiresExecutionSelection (bd_state v) \<and> bd_backend v = ExecutionDockerfile \<and> bd_buildpack v \<noteq> []
        then Inl (BErr BConflict ''dockerfile backend cannot have buildpack id'')
      else if bd_state v = BuildSucceeded \<and> bd_artifact v = []
        then Inl (BErr BConflict ''successful build requires artifact id'')
      else Inr (d\<lparr>bt_builds := AList.update (bd_id v) v (bt_builds d)\<rparr>))"

definition ListBuildsByProject :: "string \<Rightarrow> string \<Rightarrow> build_data \<Rightarrow> build list" where
  "ListBuildsByProject tenant project d =
     filter (\<lambda>v. bd_tenant v = tenant \<and> sr_project (bd_source v) = project) (map snd (bt_builds d))"

section \<open>Artifacts\<close>

definition GetArtifact :: "string \<Rightarrow> build_data \<Rightarrow> artifact option" where
  "GetArtifact i d = map_of (bt_artifacts d) i"

definition FindArtifactByBuild :: "string \<Rightarrow> build_data \<Rightarrow> artifact option" where
  "FindArtifactByBuild buildID d = List.find (\<lambda>v. ar_build v = buildID) (map snd (bt_artifacts d))"

definition InsertArtifact :: "artifact \<Rightarrow> build_data \<Rightarrow> berror + build_data" where
  "InsertArtifact v d =
     (if GetArtifact (ar_id v) d \<noteq> None then Inl (BErr BConflict ''artifact exists'')
      else if FindArtifactByBuild (ar_build v) d \<noteq> None then Inl (BErr BConflict ''build artifact exists'')
      else Inr (d\<lparr>bt_artifacts := AList.update (ar_id v) v (bt_artifacts d)\<rparr>))"

definition validArtifactStateChange :: "artifact_state \<Rightarrow> artifact_state \<Rightarrow> bool" where
  "validArtifactStateChange s t \<longleftrightarrow>
     s = t \<or>
     (case s of
        ArtifactDiscovered \<Rightarrow> t = ArtifactQuarantined
      | ArtifactQuarantined \<Rightarrow> t = ArtifactScanned \<or> t = ArtifactRejected
      | ArtifactScanned \<Rightarrow> t = ArtifactSigned \<or> t = ArtifactReleasable
      | ArtifactSigned \<Rightarrow> t = ArtifactReleasable
      | _ \<Rightarrow> False)"

definition artifact_identity_kept :: "artifact \<Rightarrow> artifact \<Rightarrow> bool" where
  "artifact_identity_kept old v \<longleftrightarrow>
     \<not> (ar_tenant old \<noteq> ar_tenant v \<or> ar_build old \<noteq> ar_build v \<or> ar_digest old \<noteq> ar_digest v \<or>
        ar_repository old \<noteq> ar_repository v \<or> ar_media_type old \<noteq> ar_media_type v \<or>
        ar_created_at old \<noteq> ar_created_at v)"

definition persisted_trust :: "artifact \<Rightarrow> bool" where
  "persisted_trust v \<longleftrightarrow>
     (case (ar_scan v, ar_signature v) of
        (Some scan, Some s) \<Rightarrow>
          \<not> (\<not> sc_passed scan \<or> sc_scanner scan = [] \<or> sc_policy_version scan = [] \<or> sg_issuer s = [] \<or>
             sg_algorithm s = [] \<or> sg_signature s = [] \<or> \<not> ValidDigest (sg_attachment_digest s) \<or>
             \<not> ValidDigest (ar_sbom_digest v) \<or> ar_sbom_media_type v = [])
      | _ \<Rightarrow> False)"

definition UpdateArtifact :: "artifact \<Rightarrow> int \<Rightarrow> build_data \<Rightarrow> berror + build_data" where
  "UpdateArtifact v expected d =
     (case GetArtifact (ar_id v) d of
        None \<Rightarrow> Inl (BErr BNotFound ''artifact not found'')
      | Some old \<Rightarrow>
      if ar_version old \<noteq> expected then Inl (BErr BStaleVersion ''artifact version mismatch'')
      else if ar_version v \<le> ar_version old
        then Inl (BErr BConflict ''artifact version must advance'')
      else if \<not> artifact_identity_kept old v then Inl (BErr BConflict ''artifact identity immutable'')
      else if ar_sbom_digest old \<noteq> [] \<and>
              (ar_sbom_digest old \<noteq> ar_sbom_digest v \<or> ar_sbom_media_type old \<noteq> ar_sbom_media_type v)
        then Inl (BErr BConflict ''artifact SBOM reference is immutable'')
      else if (ar_sbom_digest old \<noteq> ar_sbom_digest v \<or> ar_sbom_media_type old \<noteq> ar_sbom_media_type v) \<and>
              ar_state old \<noteq> ArtifactQuarantined
        then Inl (BErr BConflict ''SBOM can only attach while artifact is quarantined'')
      else if ar_sbom_digest v \<noteq> [] \<and> ar_sbom_media_type v = []
        then Inl (BErr BConflict ''SBOM media type is required'')
      else if ar_scan old \<noteq> None \<and> ar_scan old \<noteq> ar_scan v
        then Inl (BErr BConflict ''scan result is immutable'')
      else if ar_signature old \<noteq> None \<and> ar_signature old \<noteq> ar_signature v
        then Inl (BErr BConflict ''signature record is immutable'')
      else if \<not> validArtifactStateChange (ar_state old) (ar_state v)
        then Inl (BErr BConflict ''invalid persisted artifact transition'')
      else if ar_state v = ArtifactReleasable \<and> \<not> persisted_trust v
        then Inl (BErr BConflict ''artifact trust chain is incomplete'')
      else Inr (d\<lparr>bt_artifacts := AList.update (ar_id v) v (bt_artifacts d)\<rparr>))"

section \<open>Idempotency records, events and audit\<close>

definition build_idemKey :: "string \<Rightarrow> string \<Rightarrow> string" where
  "build_idemKey tenant key = tenant @ [CHR 0x00] @ key"

definition Build_GetIdempotency :: "string \<Rightarrow> string \<Rightarrow> build_data \<Rightarrow> build_idempotency option" where
  "Build_GetIdempotency tenant key d = bt_idempotency d (build_idemKey tenant key)"

definition PutIdempotency :: "build_idempotency \<Rightarrow> build_data \<Rightarrow> berror + build_data" where
  "PutIdempotency v d =
     (let k = build_idemKey (bi_tenant v) (bi_key v) in
      if (case bt_idempotency d k of
            None \<Rightarrow> False
          | Some old \<Rightarrow> bi_command old \<noteq> bi_command v \<or> bi_request_hash old \<noteq> bi_request_hash v)
        then Inl (BErr BConflict ''idempotency conflict'')
      else Inr (d\<lparr>bt_idempotency := (bt_idempotency d)(k \<mapsto> v)\<rparr>))"

definition Build_AppendOutbox :: "build_outbox \<Rightarrow> build_data \<Rightarrow> berror + build_data" where
  "Build_AppendOutbox v d = Inr (d\<lparr>bt_outbox := bt_outbox d @ [v]\<rparr>)"

definition Build_AppendAudit :: "build_audit \<Rightarrow> build_data \<Rightarrow> berror + build_data" where
  "Build_AppendAudit v d = Inr (d\<lparr>bt_audit := bt_audit d @ [v]\<rparr>)"

end
