(* ===== verification/Build_Paths.thy ===== *)
theory Build_Paths
  imports Build_Domain
begin

text \<open>
  What the normal form of a path promises: no segment of it is empty, \<open>.\<close> or \<open>..\<close>, so that it
  names something below the directory it is joined to.
\<close>

section \<open>Segments\<close>

definition inside_segment :: "string \<Rightarrow> bool" where
  "inside_segment s \<longleftrightarrow> s \<noteq> [] \<and> s \<noteq> ''.'' \<and> s \<noteq> ''..'' \<and> CHR ''/'' \<notin> set s"

definition inside_path :: "string \<Rightarrow> bool" where
  "inside_path p \<longleftrightarrow> p = [] \<or> list_all inside_segment (Split (CHR ''/'') p)"

text \<open>Without \<open>..\<close> the loop of \<open>path.Clean\<close> is a filter.\<close>

lemma clean_loop_plain:
  "''..'' \<notin> set ss \<Longrightarrow> clean_loop rooted ss out = rev out @ filter (\<lambda>s. s \<noteq> [] \<and> s \<noteq> ''.'') ss"
  by (induction ss arbitrary: out) auto

lemma Split_Join:
  "ss \<noteq> [] \<Longrightarrow> list_all (\<lambda>p. c \<notin> set p) ss \<Longrightarrow> Split c (Join ss [c]) = ss"
  by (induction ss "[c]" rule: Join.induct) (auto simp: Split_single Split_append)

lemma Join_Nil: "[] \<notin> set ss \<Longrightarrow> Join ss sep = [] \<Longrightarrow> ss = []"
  by (induction ss sep rule: Join.induct) auto

section \<open>The normal form\<close>

lemma path_Clean_inside:
  assumes "\<not> HasPrefix p ''/''" and "''..'' \<notin> set (Split (CHR ''/'') p)" and "path_Clean p \<noteq> ''.''"
  shows "inside_path (path_Clean p)"
proof -
  define ss where "ss = filter (\<lambda>s. s \<noteq> [] \<and> s \<noteq> ''.'') (Split (CHR ''/'') p)"
  have seg: "list_all inside_segment ss"
    using assms(2) Split_parts[of _ "CHR ''/''" p]
    by (auto simp: ss_def list_all_iff inside_segment_def)
  have clean: "path_Clean p = (if Join ss ''/'' = [] then ''.'' else Join ss ''/'')"
    using assms(1) clean_loop_plain[OF assms(2), of False "[]"] by (simp add: path_Clean_def Let_def ss_def)
  then have "ss \<noteq> []" using assms(3) by auto
  moreover have "list_all (\<lambda>p. CHR ''/'' \<notin> set p) ss"
    using seg by (simp add: list_all_iff inside_segment_def)
  ultimately have "Split (CHR ''/'') (Join ss ''/'') = ss" by (rule Split_Join)
  with clean assms(3) seg show ?thesis by (auto simp: inside_path_def split: if_splits)
qed

lemma normalizeRelativePath_Inr:
  assumes "normalizeRelativePath v e = Inr p"
  shows "inside_path p" "e \<or> p \<noteq> []"
proof -
  define s where "s = TrimSpace (map (\<lambda>c. if c = CHR 0x5C then CHR ''/'' else c) v)"
  have "(p = [] \<and> e) \<or>
      (p = path_Clean s \<and> \<not> HasPrefix s ''/'' \<and> ''..'' \<notin> set (Split (CHR ''/'') s) \<and> path_Clean s \<noteq> ''.'')"
    using assms unfolding normalizeRelativePath_def Let_def s_def[symmetric]
    by (auto simp: list_ex_iff split: if_splits)
  moreover have "path_Clean s \<noteq> []"
    by (simp add: path_Clean_def Let_def)
  ultimately show "inside_path p" "e \<or> p \<noteq> []"
    using path_Clean_inside[of s] by (auto simp: inside_path_def)
qed

text \<open>What a build is asked to fetch and to read stays below the repository.\<close>

lemma NormalizeBuildInput_inside:
  assumes "NormalizeBuildInput u source config = Inr (source', config')"
  shows "inside_path (sr_root source') \<and> inside_path (bc_dockerfile config') \<and> bc_root config' = [] \<and>
    (bc_type config' = BuildTypeDockerfile \<longrightarrow> bc_dockerfile config' \<noteq> [])"
proof -
  obtain n root where n: "NormalizeConfig u config = Inr n" "normalizeRelativePath (sr_root source) True = Inr root"
    "source' = source\<lparr>sr_root := if bc_root n \<noteq> [] then bc_root n else root\<rparr>" "config' = n\<lparr>bc_root := []\<rparr>"
    using assms by (auto simp: NormalizeBuildInput_def split: sum.splits if_splits)
  have "inside_path (bc_root n) \<and> inside_path (bc_dockerfile n) \<and>
      (bc_type n = BuildTypeDockerfile \<longrightarrow> bc_dockerfile n \<noteq> [])"
    using n(1) normalizeRelativePath_Inr(1)
    unfolding NormalizeConfig_def Let_def
    by (auto split: sum.splits if_split_asm)
  with n(2-4) normalizeRelativePath_Inr(1)[OF n(2)] show ?thesis by simp
qed

definition inside_build :: "build \<Rightarrow> bool" where
  "inside_build b \<longleftrightarrow> inside_path (sr_root (bd_source b)) \<and> inside_path (bc_dockerfile (bd_config b))"

lemma NewBuild_inside:
  "NewBuild u i tenant identity correlation source config builder runImage platform now = Inr b \<Longrightarrow> inside_build b"
  by (auto simp: inside_build_def NewBuild_def split: if_splits sum.splits dest!: NormalizeBuildInput_inside)

text \<open>The normal form is not always its own normal form: space after \<open>./\<close> is kept once only.\<close>

lemma normal_form_once:
  "normalizeRelativePath ''./ /x'' True = Inr '' /x''"
  "normalizeRelativePath '' /x'' True = Inl (BErr BInvalidArgument ''path must be relative'')"
  by code_simp+

end
