(* ===== verification/Build_Effects.thy ===== *)
theory Build_Effects
  imports Build_Store Build_Paths "HOL-Library.Sublist"
begin

text \<open>
  An abstract description of what the build service does to its store: the steps that builds and
  artifacts take, the changes of the tables as a step relation \<open>build_effect\<close>, and the order
  \<open>build_later\<close> of stores along it.
\<close>

section \<open>The contract of the tables\<close>

lemma InsertBuild_Inr:
  "InsertBuild v d = Inr d' \<Longrightarrow>
     map_of (bt_builds d) (bd_id v) = None \<and> d' = d\<lparr>bt_builds := AList.update (bd_id v) v (bt_builds d)\<rparr> \<and>
     (case FindBuildByIdentity (bd_tenant v) (bd_identity v) d of
        Some l \<Rightarrow> bd_attempt v = bd_attempt l + 1 \<and> Build_Terminal l \<and> bd_state l \<noteq> BuildSucceeded
      | None \<Rightarrow> bd_attempt v = 1)"
  by (auto simp: InsertBuild_def tx_GetBuild_def split: option.splits if_splits)

lemma UpdateBuild_Inr:
  "UpdateBuild v n d = Inr d' \<Longrightarrow>
     d' = d\<lparr>bt_builds := AList.update (bd_id v) v (bt_builds d)\<rparr> \<and>
     (\<exists>old. map_of (bt_builds d) (bd_id v) = Some old \<and> bd_version old = n \<and> bd_version v = n + 1 \<and>
        validBuildStateChange (bd_state old) (bd_state v)) \<and>
     (requiresExecutionSelection (bd_state v) \<longrightarrow> bd_runtime v \<noteq> [] \<and> bd_backend v \<noteq> [])"
  unfolding UpdateBuild_def tx_GetBuild_def by (simp split: option.splits if_split_asm)

lemma InsertArtifact_Inr:
  "InsertArtifact v d = Inr d' \<Longrightarrow>
     map_of (bt_artifacts d) (ar_id v) = None \<and> FindArtifactByBuild (ar_build v) d = None \<and>
     d' = d\<lparr>bt_artifacts := AList.update (ar_id v) v (bt_artifacts d)\<rparr>"
  by (auto simp: InsertArtifact_def GetArtifact_def split: option.splits if_splits)

lemma UpdateArtifact_Inr:
  "UpdateArtifact v n d = Inr d' \<Longrightarrow>
     d' = d\<lparr>bt_artifacts := AList.update (ar_id v) v (bt_artifacts d)\<rparr> \<and>
     (\<exists>old. map_of (bt_artifacts d) (ar_id v) = Some old \<and> ar_version old = n \<and> n < ar_version v)"
  unfolding UpdateArtifact_def GetArtifact_def by (simp split: option.splits if_split_asm)

interpretation builds: versioned_store
  "\<lambda>d i. tx_GetBuild i d" InsertBuild UpdateBuild bd_id bd_version
  by unfold_locales
    (auto simp: tx_GetBuild_def dest!: InsertBuild_Inr UpdateBuild_Inr)

interpretation artifacts: versioned_store
  "\<lambda>d i. GetArtifact i d" InsertArtifact UpdateArtifact ar_id ar_version
  by unfold_locales
    (auto simp: GetArtifact_def dest!: InsertArtifact_Inr UpdateArtifact_Inr)

section \<open>Steps of builds and artifacts\<close>

text \<open>What never changes of a build.\<close>

definition build_frozen :: "build \<Rightarrow> build" where
  "build_frozen b =
     b\<lparr>bd_runtime := [], bd_backend := [], bd_buildpack := [], bd_state := BuildQueued, bd_artifact := [],
       bd_failure_code := [], bd_failure_message := [], bd_retryable := False, bd_version := 0,
       bd_updated_at := 0, bd_started_at := 0, bd_completed_at := 0\<rparr>"

definition build_step :: "build \<Rightarrow> build \<Rightarrow> bool" where
  "build_step b b' \<longleftrightarrow>
     build_frozen b' = build_frozen b \<and> bd_version b' = bd_version b + 1 \<and> \<not> Build_Terminal b \<and>
     bd_state b' \<in> set (build_allowed (bd_state b)) \<and>
     (bd_state b' \<noteq> BuildSucceeded \<longrightarrow> bd_artifact b' = bd_artifact b)"

definition build_moves :: "build \<Rightarrow> build \<Rightarrow> bool" where
  "build_moves b b' \<longleftrightarrow>
     b' = b \<or> (build_frozen b' = build_frozen b \<and> bd_version b < bd_version b' \<and> \<not> Build_Terminal b)"

definition artifact_frozen :: "artifact \<Rightarrow> string \<times> string \<times> string \<times> string \<times> string \<times> string \<times> gotime" where
  "artifact_frozen a =
     (ar_id a, ar_tenant a, ar_build a, ar_repository a, ar_digest a, ar_media_type a, ar_created_at a)"

definition artifact_done :: "artifact \<Rightarrow> bool" where
  "artifact_done a \<longleftrightarrow> ar_state a = ArtifactReleasable \<or> ar_state a = ArtifactRejected"

definition artifact_moves :: "artifact \<Rightarrow> artifact \<Rightarrow> bool" where
  "artifact_moves a a' \<longleftrightarrow>
     a' = a \<or>
     (artifact_frozen a' = artifact_frozen a \<and> ar_version a < ar_version a' \<and> \<not> artifact_done a \<and>
      (ar_sbom_digest a \<noteq> [] \<longrightarrow>
         ar_sbom_digest a' = ar_sbom_digest a \<and> ar_sbom_media_type a' = ar_sbom_media_type a) \<and>
      (ar_scan a \<noteq> None \<longrightarrow> ar_scan a' = ar_scan a))"

lemma build_moves_refl [simp]: "build_moves b b"
  by (simp add: build_moves_def)

lemma artifact_moves_refl [simp]: "artifact_moves a a"
  by (simp add: artifact_moves_def)

lemma build_moves_trans: "build_moves a b \<Longrightarrow> build_moves b c \<Longrightarrow> build_moves a c"
  by (auto simp: build_moves_def)

lemma artifact_moves_trans: "artifact_moves a b \<Longrightarrow> artifact_moves b c \<Longrightarrow> artifact_moves a c"
  by (auto simp: artifact_moves_def)

lemma build_frozenD:
  "build_frozen b' = build_frozen b \<Longrightarrow>
     bd_id b' = bd_id b \<and> bd_tenant b' = bd_tenant b \<and> bd_identity b' = bd_identity b \<and>
     bd_source b' = bd_source b \<and> bd_config b' = bd_config b \<and> bd_attempt b' = bd_attempt b \<and>
     bd_created_at b' = bd_created_at b \<and> bd_original_correlation b' = bd_original_correlation b"
  by (cases b; cases b') (simp add: build_frozen_def)

lemma build_moves_fields:
  "build_moves b b' \<Longrightarrow>
     bd_id b' = bd_id b \<and> bd_tenant b' = bd_tenant b \<and> bd_identity b' = bd_identity b \<and>
     bd_attempt b' = bd_attempt b \<and> (Build_Terminal b \<longrightarrow> b' = b) \<and> (bd_version b' = bd_version b \<longrightarrow> b' = b)"
  by (auto simp: build_moves_def dest: build_frozenD)

lemma inside_build_moves: "build_moves b b' \<Longrightarrow> inside_build b \<Longrightarrow> inside_build b'"
  by (auto simp: build_moves_def inside_build_def dest: build_frozenD)

lemma artifact_moves_fields:
  "artifact_moves a a' \<Longrightarrow>
     ar_id a' = ar_id a \<and> ar_tenant a' = ar_tenant a \<and> ar_build a' = ar_build a \<and> ar_digest a' = ar_digest a \<and>
     (artifact_done a \<longrightarrow> a' = a) \<and> (ar_version a' = ar_version a \<longrightarrow> a' = a)"
  by (auto simp: artifact_moves_def artifact_frozen_def)

lemma build_step_moves: "build_step b b' \<Longrightarrow> build_moves b b'"
  by (simp add: build_step_def build_moves_def)

text \<open>The methods of a build take steps.\<close>

lemma Build_Transition_step:
  "Build_Transition to now b = Inr b' \<Longrightarrow> b' = b \<or> (build_step b b' \<and> bd_state b' = to \<and> bd_artifact b' = bd_artifact b)"
  by (auto simp: Build_Transition_def build_step_def build_frozen_def List.member_iff split: if_splits)

lemma SelectExecution_step:
  "SelectExecution u runtime backend buildpack now b = Inr b' \<Longrightarrow> build_step b b' \<and> bd_state b' = BuildBuilding"
proof -
  assume "SelectExecution u runtime backend buildpack now b = Inr b'"
  then obtain r p where s: "bd_state b = BuildDetecting"
    "Build_Transition BuildBuilding now (b\<lparr>bd_runtime := r, bd_backend := backend, bd_buildpack := p\<rparr>) = Inr b'"
    by (auto simp: SelectExecution_def Let_def split: if_splits)
  then show ?thesis
    by (auto simp: Build_Transition_def build_step_def build_frozen_def Build_Terminal_def terminal_state_def
        split: if_splits)
qed

lemma Build_Cancel_step:
  "Build_Cancel now b = Inr b' \<Longrightarrow> b' = b \<or> (build_step b b' \<and> bd_state b' = BuildCanceled)"
  by (auto simp: Build_Cancel_def dest: Build_Transition_step split: if_splits)

lemma build_step_update:
  "build_step b b' \<Longrightarrow> build_step b (b'\<lparr>bd_failure_code := c, bd_failure_message := m, bd_retryable := r\<rparr>)"
  by (simp add: build_step_def build_frozen_def)

lemma Build_Fail_step:
  "Build_Fail s c m r now b = Inr b' \<Longrightarrow> \<not> Build_Terminal b \<Longrightarrow>
     build_step b b' \<and> bd_state b' \<in> {BuildFailedUserCode, BuildFailedPlatform, BuildTimedOut}"
  by (auto simp: Build_Fail_def Build_Transition_def build_step_def build_frozen_def List.member_iff
      split: if_splits sum.splits)

lemma Succeed_step:
  "Succeed i now b = Inr b' \<Longrightarrow> \<not> Build_Terminal b \<Longrightarrow>
     build_step b b' \<and> bd_state b' = BuildSucceeded \<and> bd_artifact b' = i"
  by (auto simp: Succeed_def Build_Transition_def build_step_def build_frozen_def List.member_iff
      split: if_splits sum.splits)

section \<open>Changes of the store\<close>

definition new_build :: "build \<Rightarrow> bool" where
  "new_build v \<longleftrightarrow> bd_state v = BuildQueued \<and> bd_version v = 1 \<and> bd_artifact v = [] \<and> inside_build v"

inductive build_effect :: "build_data \<Rightarrow> build_data \<Rightarrow> bool" where
  build_inserted: "new_build v \<Longrightarrow> InsertBuild v d = Inr d' \<Longrightarrow> build_effect d d'"
| build_moved:
    "tx_GetBuild (bd_id b) d = Some b \<Longrightarrow> build_step b b' \<Longrightarrow> bd_state b' \<noteq> BuildSucceeded \<Longrightarrow>
     UpdateBuild b' (bd_version b) d = Inr d' \<Longrightarrow> build_effect d d'"
| artifact_inserted:
    "NewArtifact i tenant bld repository digest mediaType t = Inr c \<Longrightarrow> Quarantine now c = Inr a \<Longrightarrow>
     tx_GetBuild bld d = Some b \<Longrightarrow> bd_tenant b = tenant \<Longrightarrow>
     InsertArtifact a d = Inr d' \<Longrightarrow> build_effect d d'"
| sbom_attached:
    "GetArtifact (ar_id a) d = Some a \<Longrightarrow> AttachSBOM digest mediaType now a = Inr a' \<Longrightarrow>
     UpdateArtifact a' (ar_version a) d = Inr d' \<Longrightarrow> build_effect d d'"
| scan_applied:
    "GetArtifact (ar_id a) d = Some a \<Longrightarrow> ApplyScan scan now a = Inr a' \<Longrightarrow>
     UpdateArtifact a' (ar_version a) d = Inr d' \<Longrightarrow> build_effect d d'"
| build_completed:
    "GetArtifact (ar_id a) d = Some a \<Longrightarrow> AttachSignature s t a = Inr a1 \<Longrightarrow> MarkReleasable now a1 = Inr a' \<Longrightarrow>
     tx_GetBuild (bd_id b) d = Some b \<Longrightarrow> ar_build a = bd_id b \<Longrightarrow>
     build_step b b' \<Longrightarrow> bd_state b' = BuildSucceeded \<Longrightarrow> bd_artifact b' = ar_id a \<Longrightarrow>
     UpdateArtifact a' (ar_version a) d = Inr d1 \<Longrightarrow> UpdateBuild b' (bd_version b) d1 = Inr d' \<Longrightarrow>
     build_effect d d'"
| build_key_recorded:
    "Build_GetIdempotency (bi_tenant v) (bi_key v) d = None \<Longrightarrow> bi_completed v \<Longrightarrow>
     tx_GetBuild (bd_id (rq_build (bi_result v))) d = Some b \<Longrightarrow> build_moves (rq_build (bi_result v)) b \<Longrightarrow>
     bd_tenant b = bi_tenant v \<Longrightarrow> PutIdempotency v d = Inr d' \<Longrightarrow> build_effect d d'"
| build_event: "Build_AppendOutbox v d = Inr d' \<Longrightarrow> build_effect d d'"
| build_audited: "Build_AppendAudit v d = Inr d' \<Longrightarrow> build_effect d d'"

inductive_simps build_effect_simps: "build_effect d d'"

section \<open>History\<close>

definition build_later :: "build_data \<Rightarrow> build_data \<Rightarrow> bool" where
  "build_later d d' \<longleftrightarrow>
     grows build_moves (map_of (bt_builds d)) (map_of (bt_builds d')) \<and>
     grows artifact_moves (map_of (bt_artifacts d)) (map_of (bt_artifacts d')) \<and>
     grows (=) (bt_idempotency d) (bt_idempotency d') \<and>
     prefix (bt_outbox d) (bt_outbox d') \<and> prefix (bt_audit d) (bt_audit d')"

lemma build_later_refl [simp]: "build_later d d"
  by (simp add: build_later_def grows_refl)

lemma build_later_trans: "build_later a b \<Longrightarrow> build_later b c \<Longrightarrow> build_later a c"
  unfolding build_later_def
  by (intro conjI; elim conjE)
    (auto elim!: grows_trans[rotated] prefix_order.trans intro: build_moves_trans artifact_moves_trans)

lemma UpdateBuild_later:
  "UpdateBuild v n d = Inr d' \<Longrightarrow> map_of (bt_builds d) (bd_id v) = Some w \<Longrightarrow> build_moves w v \<Longrightarrow> build_later d d'"
  by (drule UpdateBuild_Inr) (auto simp: build_later_def grows_refl intro: grows_update[where v = w])

lemma UpdateArtifact_later:
  "UpdateArtifact v n d = Inr d' \<Longrightarrow> map_of (bt_artifacts d) (ar_id v) = Some w \<Longrightarrow> artifact_moves w v \<Longrightarrow>
   build_later d d'"
  by (drule UpdateArtifact_Inr) (auto simp: build_later_def grows_refl intro: grows_update[where v = w])

lemma AttachSBOM_moves:
  "AttachSBOM digest mt now a = Inr a' \<Longrightarrow>
     artifact_moves a a' \<and> ar_state a' = ArtifactQuarantined \<and> ar_scan a' = ar_scan a \<and> ar_state a = ArtifactQuarantined"
  by (auto simp: AttachSBOM_def Let_def artifact_moves_def artifact_frozen_def artifact_done_def bump_def
      split: if_splits)

lemma ApplyScan_moves:
  "ApplyScan scan now a = Inr a' \<Longrightarrow> ar_scan a = None \<Longrightarrow>
     artifact_moves a a' \<and> (\<exists>s. ar_scan a' = Some s \<and> sc_passed s = sc_passed scan) \<and>
     ar_state a' = (if sc_passed scan then ArtifactScanned else ArtifactRejected)"
  by (auto simp: ApplyScan_def Let_def artifact_moves_def artifact_frozen_def artifact_done_def bump_def
      split: if_splits)

lemma released_moves:
  "AttachSignature s t a = Inr a1 \<Longrightarrow> MarkReleasable now a1 = Inr a' \<Longrightarrow>
     artifact_moves a a' \<and> ar_state a' = ArtifactReleasable \<and> trust_chain a' \<and> ar_scan a' = ar_scan a \<and>
     ar_state a = ArtifactScanned"
  by (auto simp: AttachSignature_def MarkReleasable_def artifact_moves_def artifact_frozen_def
      artifact_done_def bump_def trust_chain_def split: if_splits option.splits)

end
