(* ===== verification/Build_Invariants.thy ===== *)
theory Build_Invariants
  imports Build_Effects
begin

text \<open>
  What always holds of the store of the build component: how builds, artifacts and recorded answers
  refer to each other, how the attempts of one identity are ordered, and what an artifact has gone
  through in each of its states.
\<close>

section \<open>The invariant\<close>

definition build_row :: "string \<Rightarrow> build \<Rightarrow> bool" where
  "build_row k b \<longleftrightarrow>
     bd_id b = k \<and> inside_build b \<and>
     (requiresExecutionSelection (bd_state b) \<longrightarrow> bd_runtime b \<noteq> [] \<and> bd_backend b \<noteq> [])"

text \<open>An artifact in the store is never merely discovered, nor signed and not yet releasable.\<close>

definition artifact_trust :: "artifact \<Rightarrow> bool" where
  "artifact_trust a \<longleftrightarrow>
     (case ar_state a of
        ArtifactQuarantined \<Rightarrow> ar_scan a = None \<and> ar_signature a = None
      | ArtifactScanned \<Rightarrow> ar_signature a = None \<and> (\<exists>s. ar_scan a = Some s \<and> sc_passed s)
      | ArtifactRejected \<Rightarrow> ar_signature a = None \<and> (\<exists>s. ar_scan a = Some s \<and> \<not> sc_passed s)
      | ArtifactReleasable \<Rightarrow> trust_chain a
      | _ \<Rightarrow> False)"

definition artifact_row :: "build_data \<Rightarrow> string \<Rightarrow> artifact \<Rightarrow> bool" where
  "artifact_row d k a \<longleftrightarrow>
     ar_id a = k \<and> ValidDigest (ar_digest a) \<and> artifact_trust a \<and>
     (\<exists>b. map_of (bt_builds d) (ar_build a) = Some b \<and> bd_tenant b = ar_tenant a \<and>
        (ar_state a = ArtifactReleasable \<longrightarrow> bd_state b = BuildSucceeded \<and> bd_artifact b = k))"

definition success_row :: "build_data \<Rightarrow> string \<Rightarrow> build \<Rightarrow> bool" where
  "success_row d k b \<longleftrightarrow>
     (bd_state b = BuildSucceeded \<longrightarrow>
        (\<exists>a. map_of (bt_artifacts d) (bd_artifact b) = Some a \<and> ar_build a = k \<and>
           ar_state a = ArtifactReleasable))"

text \<open>A recorded answer names a build as it once was.\<close>

definition answer_row :: "build_data \<Rightarrow> string \<Rightarrow> build_idempotency \<Rightarrow> bool" where
  "answer_row d k v \<longleftrightarrow>
     k = build_idemKey (bi_tenant v) (bi_key v) \<and> bi_completed v \<and>
     (\<exists>b. map_of (bt_builds d) (bd_id (rq_build (bi_result v))) = Some b \<and>
        build_moves (rq_build (bi_result v)) b \<and> bd_tenant b = bi_tenant v)"

text \<open>Of two attempts of an identity the earlier one has failed.\<close>

definition attempts_apart :: "build \<Rightarrow> build \<Rightarrow> bool" where
  "attempts_apart b c \<longleftrightarrow>
     (bd_tenant b = bd_tenant c \<and> bd_identity b = bd_identity c \<longrightarrow>
        bd_attempt b \<noteq> bd_attempt c \<and>
        (bd_attempt b < bd_attempt c \<longrightarrow> Build_Terminal b \<and> bd_state b \<noteq> BuildSucceeded))"

definition artifacts_apart :: "artifact \<Rightarrow> artifact \<Rightarrow> bool" where
  "artifacts_apart a c \<longleftrightarrow> ar_build a \<noteq> ar_build c"

definition build_ok :: "build_data \<Rightarrow> bool" where
  "build_ok d \<longleftrightarrow>
     wf_map (bt_builds d) \<and> wf_map (bt_artifacts d) \<and>
     rows build_row (map_of (bt_builds d)) \<and>
     rows (artifact_row d) (map_of (bt_artifacts d)) \<and>
     rows (success_row d) (map_of (bt_builds d)) \<and>
     rows (answer_row d) (bt_idempotency d) \<and>
     apart attempts_apart (map_of (bt_builds d)) \<and>
     apart artifacts_apart (map_of (bt_artifacts d))"

lemma build_ok_newState: "build_ok build_newState"
  by (simp add: build_ok_def build_newState_def)

lemma build_okD:
  assumes "build_ok d"
  shows "wf_map (bt_builds d)" "wf_map (bt_artifacts d)" "rows build_row (map_of (bt_builds d))"
    "rows (artifact_row d) (map_of (bt_artifacts d))" "rows (success_row d) (map_of (bt_builds d))"
    "rows (answer_row d) (bt_idempotency d)" "apart attempts_apart (map_of (bt_builds d))"
    "apart artifacts_apart (map_of (bt_artifacts d))"
  using assms by (simp_all add: build_ok_def)

section \<open>Lookups\<close>

text \<open>The loop of \<open>FindBuildByIdentity\<close> finds an attempt that no other attempt is later than.\<close>

lemma latest_loop_spec:
  "(case latest_loop tenant identity vs l of
      None \<Rightarrow> l = None \<and> (\<forall>v\<in>set vs. \<not> (bd_tenant v = tenant \<and> bd_identity v = identity))
    | Some m \<Rightarrow>
        (l = Some m \<or> (m \<in> set vs \<and> bd_tenant m = tenant \<and> bd_identity m = identity)) \<and>
        (\<forall>w. l = Some w \<longrightarrow> bd_attempt w \<le> bd_attempt m) \<and>
        (\<forall>v\<in>set vs. bd_tenant v = tenant \<and> bd_identity v = identity \<longrightarrow> bd_attempt v \<le> bd_attempt m))"
proof (induction vs arbitrary: l)
  case Nil
  show ?case by (cases l) auto
next
  case (Cons v vs)
  show ?case
  proof (cases "bd_tenant v = tenant \<and> bd_identity v = identity")
    case False
    with Cons.IH[of l] show ?thesis by (auto split: option.splits)
  next
    case True
    with Cons.IH[of l] Cons.IH[of "Some v"] show ?thesis
      by (cases l) (auto split: option.splits)
  qed
qed

lemma FindBuildByIdentity_None:
  "wf_map (bt_builds d) \<Longrightarrow> FindBuildByIdentity tenant identity d = None \<Longrightarrow>
   map_of (bt_builds d) k = Some v \<Longrightarrow> \<not> (bd_tenant v = tenant \<and> bd_identity v = identity)"
  using latest_loop_spec[where tenant = tenant and identity = identity and vs = "map snd (bt_builds d)" and l = None]
  by (force simp: FindBuildByIdentity_def)

lemma FindBuildByIdentity_Some:
  assumes "wf_map (bt_builds d)" and "FindBuildByIdentity tenant identity d = Some l"
  shows "\<exists>k. map_of (bt_builds d) k = Some l" "bd_tenant l = tenant" "bd_identity l = identity"
    "map_of (bt_builds d) k = Some v \<Longrightarrow> bd_tenant v = tenant \<Longrightarrow> bd_identity v = identity \<Longrightarrow>
       bd_attempt v \<le> bd_attempt l"
proof -
  have s: "l \<in> set (map snd (bt_builds d)) \<and> bd_tenant l = tenant \<and> bd_identity l = identity \<and>
      (\<forall>v\<in>set (map snd (bt_builds d)). bd_tenant v = tenant \<and> bd_identity v = identity \<longrightarrow>
         bd_attempt v \<le> bd_attempt l)"
    using latest_loop_spec[where tenant = tenant and identity = identity and vs = "map snd (bt_builds d)" and l = None] assms(2)
    by (simp add: FindBuildByIdentity_def)
  then show "\<exists>k. map_of (bt_builds d) k = Some l" using assms(1) by auto
  show "bd_tenant l = tenant" "bd_identity l = identity" using s by simp_all
  show "bd_attempt v \<le> bd_attempt l"
    if "map_of (bt_builds d) k = Some v" "bd_tenant v = tenant" "bd_identity v = identity"
    using s that by (force dest: map_of_SomeD)
qed

lemma got_build: "tx_GetBuild i d = Some b \<Longrightarrow> build_ok d \<Longrightarrow> bd_id b = i"
  using rowsD[OF build_okD(3)] by (simp add: tx_GetBuild_def build_row_def)

lemma got_artifact: "GetArtifact i d = Some a \<Longrightarrow> build_ok d \<Longrightarrow> ar_id a = i \<and> artifact_row d i a"
  using rowsD[OF build_okD(4)] by (fastforce simp: GetArtifact_def artifact_row_def)

lemma found_artifact:
  "FindArtifactByBuild i d = Some a \<Longrightarrow> build_ok d \<Longrightarrow>
     GetArtifact (ar_id a) d = Some a \<and> ar_build a = i"
  using find_row_Some[OF build_okD(2)] got_artifact by (fastforce simp: FindArtifactByBuild_def GetArtifact_def)

lemma no_artifact:
  "FindArtifactByBuild i d = None \<Longrightarrow> build_ok d \<Longrightarrow> map_of (bt_artifacts d) k = Some a \<Longrightarrow> ar_build a \<noteq> i"
  using find_row_None[OF build_okD(2)] by (force simp: FindArtifactByBuild_def)

section \<open>The invariant is kept\<close>

text \<open>Rows that refer to builds keep their target when builds move and nothing succeeds.\<close>

lemma answer_row_grows:
  assumes "answer_row d k v" and "grows build_moves (map_of (bt_builds d)) (map_of (bt_builds d'))"
  shows "answer_row d' k v"
proof -
  from assms(1) obtain b where b: "map_of (bt_builds d) (bd_id (rq_build (bi_result v))) = Some b"
    "build_moves (rq_build (bi_result v)) b" "bd_tenant b = bi_tenant v"
    by (auto simp: answer_row_def)
  from growsD[OF assms(2) b(1)] obtain b' where
    b': "map_of (bt_builds d') (bd_id (rq_build (bi_result v))) = Some b'" "build_moves b b'" by blast
  then show ?thesis
    using assms(1) b build_moves_trans[OF b(2) b'(2)] build_moves_fields[OF b'(2)]
    by (auto simp: answer_row_def)
qed

lemma artifact_row_grows:
  assumes "artifact_row d k a" and "grows build_moves (map_of (bt_builds d)) (map_of (bt_builds d'))"
  shows "artifact_row d' k a"
proof -
  from assms(1) obtain b where b: "map_of (bt_builds d) (ar_build a) = Some b" "bd_tenant b = ar_tenant a"
    "ar_state a = ArtifactReleasable \<longrightarrow> bd_state b = BuildSucceeded \<and> bd_artifact b = k"
    by (auto simp: artifact_row_def)
  from growsD[OF assms(2) b(1)] obtain b' where
    b': "map_of (bt_builds d') (ar_build a) = Some b'" "build_moves b b'" by blast
  then have "bd_tenant b' = ar_tenant a \<and>
      (ar_state a = ArtifactReleasable \<longrightarrow> bd_state b' = BuildSucceeded \<and> bd_artifact b' = k)"
    using b(2,3) build_moves_fields[OF b'(2)] by (auto simp: Build_Terminal_def terminal_state_def)
  then show ?thesis using assms(1) b'(1) by (auto simp: artifact_row_def)
qed

lemma success_row_grows:
  assumes "success_row d k b" and "grows artifact_moves (map_of (bt_artifacts d)) (map_of (bt_artifacts d'))"
  shows "success_row d' k b"
  unfolding success_row_def
proof
  assume "bd_state b = BuildSucceeded"
  with assms(1) obtain a where a: "map_of (bt_artifacts d) (bd_artifact b) = Some a" "ar_build a = k"
    "ar_state a = ArtifactReleasable" by (auto simp: success_row_def)
  from growsD[OF assms(2) a(1)] obtain a' where
    a': "map_of (bt_artifacts d') (bd_artifact b) = Some a'" "artifact_moves a a'" by blast
  then show "\<exists>a. map_of (bt_artifacts d') (bd_artifact b) = Some a \<and> ar_build a = k \<and>
      ar_state a = ArtifactReleasable"
    using a artifact_moves_fields[OF a'(2)] by (auto simp: artifact_done_def)
qed

text \<open>
  A step has to establish the rows that it has changed, and that rows are apart; the rest follows
  from the order of the tables.
\<close>

lemma build_okI:
  assumes ok: "build_ok d" and wf: "wf_map (bt_builds d')" "wf_map (bt_artifacts d')"
    and b: "grows build_moves (map_of (bt_builds d)) (map_of (bt_builds d'))"
    and a: "grows artifact_moves (map_of (bt_artifacts d)) (map_of (bt_artifacts d'))"
    and builds: "\<And>k v. map_of (bt_builds d') k = Some v \<Longrightarrow>
      map_of (bt_builds d) k = Some v \<or> (build_row k v \<and> success_row d' k v)"
    and artifacts: "\<And>k v. map_of (bt_artifacts d') k = Some v \<Longrightarrow>
      map_of (bt_artifacts d) k = Some v \<or> artifact_row d' k v"
    and answers: "\<And>k v. bt_idempotency d' k = Some v \<Longrightarrow> bt_idempotency d k = Some v \<or> answer_row d' k v"
    and aparts: "apart attempts_apart (map_of (bt_builds d'))" "apart artifacts_apart (map_of (bt_artifacts d'))"
  shows "build_ok d'"
  unfolding build_ok_def
proof (intro conjI rowsI)
  fix k v
  assume v: "map_of (bt_builds d') k = Some v"
  show "build_row k v" using builds[OF v] rowsD[OF build_okD(3)[OF ok]] by blast
  show "success_row d' k v" using builds[OF v] rowsD[OF build_okD(5)[OF ok]] success_row_grows[OF _ a] by blast
next
  fix k v
  assume v: "map_of (bt_artifacts d') k = Some v"
  show "artifact_row d' k v" using artifacts[OF v] rowsD[OF build_okD(4)[OF ok]] artifact_row_grows[OF _ b] by blast
next
  fix k v
  assume v: "bt_idempotency d' k = Some v"
  show "answer_row d' k v" using answers[OF v] rowsD[OF build_okD(6)[OF ok]] answer_row_grows[OF _ b] by blast
qed (use wf aparts in simp_all)

lemma build_inserted_ok:
  assumes ok: "build_ok d" and new: "new_build v" and ins: "InsertBuild v d = Inr d'"
  shows "build_ok d'"
proof -
  have d': "d' = d\<lparr>bt_builds := AList.update (bd_id v) v (bt_builds d)\<rparr>" "map_of (bt_builds d) (bd_id v) = None"
    and l: "case FindBuildByIdentity (bd_tenant v) (bd_identity v) d of
        Some l \<Rightarrow> bd_attempt v = bd_attempt l + 1 \<and> Build_Terminal l \<and> bd_state l \<noteq> BuildSucceeded
      | None \<Rightarrow> bd_attempt v = 1"
    using InsertBuild_Inr[OF ins] by blast+
  have "apart attempts_apart ((map_of (bt_builds d))(bd_id v \<mapsto> v))"
  proof (rule apart_update[OF build_okD(7)[OF ok]])
    fix i w assume w: "map_of (bt_builds d) i = Some w" "i \<noteq> bd_id v"
    show "attempts_apart v w \<and> attempts_apart w v"
    proof (cases "bd_tenant w = bd_tenant v \<and> bd_identity w = bd_identity v")
      case True
      then obtain l where f: "FindBuildByIdentity (bd_tenant v) (bd_identity v) d = Some l"
        using FindBuildByIdentity_None[OF build_okD(1)[OF ok] _ w(1)] by fastforce
      note s = FindBuildByIdentity_Some[OF build_okD(1)[OF ok] f]
      obtain j where j: "map_of (bt_builds d) j = Some l" using s(1) by blast
      have le: "bd_attempt w \<le> bd_attempt l" using s(4)[OF w(1)] True by simp
      have "Build_Terminal w \<and> bd_state w \<noteq> BuildSucceeded"
      proof (cases "i = j")
        case True
        then show ?thesis using j w(1) l f by simp
      next
        case False
        then show ?thesis
          using apartD[OF build_okD(7)[OF ok] w(1) j] le True s(2,3) by (auto simp: attempts_apart_def)
      qed
      with le l f True show ?thesis by (auto simp: attempts_apart_def)
    qed (auto simp: attempts_apart_def)
  qed
  then show ?thesis
    using build_okD(1,2,8)[OF ok] new d'
    by (intro build_okI[OF ok])
      (auto simp: build_row_def requiresExecutionSelection_def List.member_iff new_build_def success_row_def
        grows_refl intro!: grows_insert split: if_splits)
qed

lemma attempts_apart_step:
  "build_step b b' \<Longrightarrow> attempts_apart b w \<Longrightarrow> attempts_apart w b \<Longrightarrow>
     attempts_apart b' w \<and> attempts_apart w b'"
  using build_frozenD[of b' b] by (auto simp: attempts_apart_def build_step_def)

lemma apart_build_step:
  assumes "build_ok d" and "map_of (bt_builds d) k = Some b" and "build_step b b'"
  shows "apart attempts_apart ((map_of (bt_builds d))(k \<mapsto> b'))"
proof (rule apart_update[OF build_okD(7)[OF assms(1)]])
  fix i w assume w: "map_of (bt_builds d) i = Some w" "i \<noteq> k"
  show "attempts_apart b' w \<and> attempts_apart w b'"
    using apartD[OF build_okD(7)[OF assms(1)] assms(2) w(1)] apartD[OF build_okD(7)[OF assms(1)] w(1) assms(2)]
      w(2) attempts_apart_step[OF assms(3)] by blast
qed

lemma build_moved_ok:
  assumes ok: "build_ok d" and got: "tx_GetBuild (bd_id b) d = Some b" and step: "build_step b b'"
    and "bd_state b' \<noteq> BuildSucceeded" and upd: "UpdateBuild b' n d = Inr d'"
  shows "build_ok d'"
proof -
  have i: "bd_id b' = bd_id b" using step build_moves_fields[OF build_step_moves] by blast
  have old: "map_of (bt_builds d) (bd_id b) = Some b" using got by (simp add: tx_GetBuild_def)
  show ?thesis
    using UpdateBuild_Inr[OF upd] i assms(4) build_okD(1,2,8)[OF ok] apart_build_step[OF ok old step]
      build_step_moves[OF step] old inside_build_moves[OF build_step_moves[OF step]]
      rowsD[OF build_okD(3)[OF ok] old]
    by (intro build_okI[OF ok])
      (auto simp: build_row_def success_row_def grows_refl intro: grows_update split: if_splits)
qed

lemma new_artifact:
  assumes "NewArtifact i tenant bld repository digest mediaType t = Inr c" and "Quarantine now c = Inr a"
  shows "ar_id a = i \<and> ar_tenant a = tenant \<and> ar_build a = bld \<and> ValidDigest (ar_digest a) \<and>
    ar_state a = ArtifactQuarantined \<and> ar_scan a = None \<and> ar_signature a = None"
  using assms
  by (auto simp: NewArtifact_def Quarantine_def bump_def Artifact_Validate_def split: if_splits)

lemma artifact_inserted_ok:
  assumes ok: "build_ok d" and new: "NewArtifact i tenant bld repository digest mediaType t = Inr c"
    "Quarantine now c = Inr a" and b: "tx_GetBuild bld d = Some b" "bd_tenant b = tenant"
    and ins: "InsertArtifact a d = Inr d'"
  shows "build_ok d'"
proof -
  note a = new_artifact[OF new]
  note d' = InsertArtifact_Inr[OF ins]
  have row: "artifact_row d' i a"
    using a b d' by (simp add: artifact_row_def artifact_trust_def tx_GetBuild_def)
  have "apart artifacts_apart ((map_of (bt_artifacts d))(i \<mapsto> a))"
    using no_artifact[OF _ ok, of bld] d' a
    by (intro apart_update[OF build_okD(8)[OF ok]]) (force simp: artifacts_apart_def)
  then show ?thesis
    using a d' row build_okD(1,2,7)[OF ok]
    by (intro build_okI[OF ok]) (auto simp: grows_refl intro: grows_insert split: if_splits)
qed

text \<open>An artifact that is saved in a state that is not yet, or never, releasable.\<close>

lemma artifact_saved_ok:
  assumes ok: "build_ok d" and got: "GetArtifact (ar_id a) d = Some a" and moves: "artifact_moves a a'"
    and trust: "artifact_trust a'" "ar_state a' \<noteq> ArtifactReleasable" and upd: "UpdateArtifact a' n d = Inr d'"
  shows "build_ok d'"
proof -
  have f: "ar_id a' = ar_id a" "ar_build a' = ar_build a" "ar_tenant a' = ar_tenant a" "ar_digest a' = ar_digest a"
    using artifact_moves_fields[OF moves] by simp_all
  have old: "map_of (bt_artifacts d) (ar_id a) = Some a" using got by (simp add: GetArtifact_def)
  have d': "d' = d\<lparr>bt_artifacts := AList.update (ar_id a) a' (bt_artifacts d)\<rparr>"
    using UpdateArtifact_Inr[OF upd] f by simp
  have row: "artifact_row d' (ar_id a) a'"
    using got_artifact[OF got ok] trust f d' by (auto simp: artifact_row_def)
  have "apart artifacts_apart ((map_of (bt_artifacts d))(ar_id a \<mapsto> a'))"
    by (rule apart_update[OF build_okD(8)[OF ok]])
      (use apartD[OF build_okD(8)[OF ok]] old f in \<open>fastforce simp: artifacts_apart_def\<close>)
  then show ?thesis
    using d' row old moves build_okD(1,2,7)[OF ok]
    by (intro build_okI[OF ok]) (auto simp: grows_refl intro: grows_update split: if_splits)
qed

lemma sbom_attached_ok:
  assumes ok: "build_ok d" and got: "GetArtifact (ar_id a) d = Some a"
    and att: "AttachSBOM digest mt now a = Inr a'" and upd: "UpdateArtifact a' n d = Inr d'"
  shows "build_ok d'"
proof (rule artifact_saved_ok[OF ok got _ _ _ upd])
  note m = AttachSBOM_moves[OF att]
  show "artifact_moves a a'" "ar_state a' \<noteq> ArtifactReleasable" using m by simp_all
  have "ar_signature a' = ar_signature a"
    using att by (auto simp: AttachSBOM_def Let_def bump_def split: if_splits)
  then show "artifact_trust a'"
    using m got_artifact[OF got ok] by (simp add: artifact_row_def artifact_trust_def)
qed

lemma quarantined_unscanned:
  "GetArtifact (ar_id a) d = Some a \<Longrightarrow> build_ok d \<Longrightarrow> ApplyScan scan now a = Inr a' \<Longrightarrow>
     ar_scan a = None \<and> ar_signature a = None"
  by (drule (1) got_artifact)
    (auto simp: artifact_row_def artifact_trust_def ApplyScan_def split: if_splits)

lemma scan_applied_ok:
  assumes ok: "build_ok d" and got: "GetArtifact (ar_id a) d = Some a"
    and app: "ApplyScan scan now a = Inr a'" and upd: "UpdateArtifact a' n d = Inr d'"
  shows "build_ok d'"
proof (rule artifact_saved_ok[OF ok got _ _ _ upd])
  note q = quarantined_unscanned[OF got ok app]
  note m = ApplyScan_moves[OF app conjunct1[OF q]]
  show "artifact_moves a a'" using m by blast
  show "ar_state a' \<noteq> ArtifactReleasable" using m by simp
  have "ar_signature a' = ar_signature a"
    using app by (auto simp: ApplyScan_def Let_def bump_def split: if_splits)
  with m q show "artifact_trust a'" by (auto simp: artifact_trust_def)
qed

lemma build_completed_ok:
  assumes ok: "build_ok d" and got: "GetArtifact (ar_id a) d = Some a"
    and sign: "AttachSignature s t a = Inr a1" "MarkReleasable now a1 = Inr a'"
    and b: "tx_GetBuild (bd_id b) d = Some b" "ar_build a = bd_id b"
    and step: "build_step b b'" "bd_state b' = BuildSucceeded" "bd_artifact b' = ar_id a"
    and upd: "UpdateArtifact a' n d = Inr d1" "UpdateBuild b' m d1 = Inr d'"
  shows "build_ok d'"
proof -
  note rel = released_moves[OF sign]
  have f: "ar_id a' = ar_id a" "ar_build a' = ar_build a" "ar_tenant a' = ar_tenant a" "ar_digest a' = ar_digest a"
    using artifact_moves_fields rel by blast+
  have fb: "bd_id b' = bd_id b" "bd_tenant b' = bd_tenant b"
    using build_moves_fields[OF build_step_moves[OF step(1)]] by simp_all
  have old: "map_of (bt_artifacts d) (ar_id a) = Some a" "map_of (bt_builds d) (bd_id b) = Some b"
    using got b by (simp_all add: GetArtifact_def tx_GetBuild_def)
  have d': "d' = d\<lparr>bt_artifacts := AList.update (ar_id a) a' (bt_artifacts d),
      bt_builds := AList.update (bd_id b) b' (bt_builds d)\<rparr>"
    using UpdateArtifact_Inr[OF upd(1)] UpdateBuild_Inr[OF upd(2)] f fb by simp
  have sel: "bd_runtime b' \<noteq> [] \<and> bd_backend b' \<noteq> []"
    using UpdateBuild_Inr[OF upd(2)] step(2) by (simp add: requiresExecutionSelection_def List.member_iff)
  have arow: "artifact_row d' (ar_id a) a'"
    using got_artifact[OF got ok] rel f fb d' old(2) b(2) step(2,3)
    by (auto simp: artifact_row_def artifact_trust_def)
  have brow: "build_row (bd_id b) b' \<and> success_row d' (bd_id b) b'"
    using sel fb step rel f b(2) d' inside_build_moves[OF build_step_moves[OF step(1)]]
      rowsD[OF build_okD(3)[OF ok] old(2)] by (simp add: build_row_def success_row_def)
  have "apart artifacts_apart ((map_of (bt_artifacts d))(ar_id a \<mapsto> a'))"
    by (rule apart_update[OF build_okD(8)[OF ok]])
      (use apartD[OF build_okD(8)[OF ok]] old(1) f in \<open>fastforce simp: artifacts_apart_def\<close>)
  then show ?thesis
    using d' arow brow old rel build_step_moves[OF step(1)] build_okD(1,2)[OF ok] apart_build_step[OF ok old(2) step(1)]
    by (intro build_okI[OF ok]) (auto intro: grows_update split: if_splits)
qed

text \<open>Writes outside the tables of builds and artifacts.\<close>

lemma side_write_keeps:
  "build_ok d \<Longrightarrow> bt_builds d' = bt_builds d \<Longrightarrow> bt_artifacts d' = bt_artifacts d \<Longrightarrow>
   rows (answer_row d) (bt_idempotency d') \<Longrightarrow> build_ok d'"
  unfolding build_ok_def
  by (auto intro: rows_mono simp: artifact_row_def success_row_def answer_row_def)

lemma build_effect_keeps: "build_effect d d' \<Longrightarrow> build_ok d \<Longrightarrow> build_ok d'"
proof (induction rule: build_effect.induct)
  case (build_key_recorded v d d')
  then show ?case
    using build_okD(6)[of d]
    by (auto intro!: side_write_keeps[of d] rows_update simp: PutIdempotency_def Let_def answer_row_def tx_GetBuild_def
        split: if_splits)
next
  case (build_event v d d')
  then show ?case using build_okD(6)[of d]
    by (auto intro!: side_write_keeps[of d] simp: Build_AppendOutbox_def)
next
  case (build_audited v d d')
  then show ?case using build_okD(6)[of d]
    by (auto intro!: side_write_keeps[of d] simp: Build_AppendAudit_def)
qed (blast intro: build_inserted_ok build_moved_ok artifact_inserted_ok sbom_attached_ok scan_applied_ok
    build_completed_ok)+

section \<open>Steps and the order of stores\<close>

lemma build_effect_later:
  assumes "build_effect d d'" and "build_ok d"
  shows "build_later d d'"
  using assms
proof (induction rule: build_effect.induct)
  case (build_inserted v d d')
  then show ?case by (auto dest!: InsertBuild_Inr simp: build_later_def grows_refl intro!: grows_insert)
next
  case (build_moved b d b' d')
  then show ?case
    using build_moves_fields[OF build_step_moves]
    by (auto intro!: UpdateBuild_later[of b' _ d d' b] simp: tx_GetBuild_def intro: build_step_moves)
next
  case (artifact_inserted i tenant bld repository digest mediaType t c now a d b d')
  then show ?case by (auto dest!: InsertArtifact_Inr simp: build_later_def grows_refl intro!: grows_insert)
next
  case (sbom_attached a d digest mediaType now a' d')
  note m = AttachSBOM_moves[OF sbom_attached.hyps(2)]
  with sbom_attached.hyps show ?case
    using artifact_moves_fields[of a a'] by (intro UpdateArtifact_later[of a' _ d d' a]) (auto simp: GetArtifact_def)
next
  case (scan_applied a d scan now a' d')
  note q = quarantined_unscanned[OF scan_applied.hyps(1) scan_applied.prems scan_applied.hyps(2)]
  note m = ApplyScan_moves[OF scan_applied.hyps(2) conjunct1[OF q]]
  with scan_applied.hyps show ?case
    using artifact_moves_fields[of a a'] by (intro UpdateArtifact_later[of a' _ d d' a]) (auto simp: GetArtifact_def)
next
  case (build_completed a d s t a1 now a' b b' d1 d')
  note m = released_moves[OF build_completed.hyps(2,3)]
  have "build_later d d1"
    using build_completed.hyps m artifact_moves_fields[of a a']
    by (intro UpdateArtifact_later[of a' _ d d1 a]) (auto simp: GetArtifact_def)
  moreover have "build_later d1 d'"
    using build_completed.hyps build_moves_fields[OF build_step_moves] UpdateArtifact_Inr[OF build_completed.hyps(9)]
    by (intro UpdateBuild_later[of b' _ d1 d' b]) (auto simp: tx_GetBuild_def intro: build_step_moves)
  ultimately show ?case by (rule build_later_trans)
next
  case (build_key_recorded v d b d')
  then show ?case
    by (auto simp: PutIdempotency_def Let_def build_later_def grows_refl Build_GetIdempotency_def intro: grows_insert)
next
  case (build_event v d d')
  then show ?case by (auto simp: Build_AppendOutbox_def build_later_def grows_refl)
next
  case (build_audited v d d')
  then show ?case by (auto simp: Build_AppendAudit_def build_later_def grows_refl)
qed

end
