(* ===== verification/Build_Environment.thy ===== *)
theory Build_Environment
  imports Build_Store Go_Calls
begin

text \<open>
  What the build service runs on: the ports of \<open>internal/build/application/ports.go\<close>, the fields of
  \<open>Service\<close>, and \<open>Transact\<close> of \<open>internal/build/memory/store.go\<close>.
\<close>

section \<open>Ports\<close>

record source_limits =
  sl_max_bytes :: int
  sl_max_files :: int
  sl_submodules :: bool

text \<open>The function that removes a snapshot from the file system is left out.\<close>

record source_snapshot =
  ss_revision :: source_revision
  ss_path :: string
  ss_size :: int
  ss_files :: int

record detection =
  dt_runtime :: string
  dt_backend :: string
  dt_buildpack :: string
  dt_entrypoint :: "string list"
  dt_evidence :: "string list"

datatype build_phase =
    PhaseFetch
  | PhaseDetect
  | PhaseBuild
  | PhaseExport

record build_secret =
  se_name :: string
  se_value :: string
  se_phases :: "build_phase list"

record build_output =
  ou_path :: string
  ou_digest :: string
  ou_media_type :: string
  ou_metadata :: "(string \<times> string) list"

text \<open>The writer that takes the log of a build is left out of the request.\<close>

record build_execution_request =
  ex_build :: string
  ex_tenant :: string
  ex_builder_digest :: string
  ex_run_image_digest :: string
  ex_source :: source_snapshot
  ex_detection :: detection
  ex_config :: build_config
  ex_environment :: "(string \<times> string) list"
  ex_secrets :: "build_secret list"
  ex_repository :: string

record builder =
  bl_build :: "build_execution_request \<Rightarrow> berror + build_output"
  bl_cancel :: "string \<Rightarrow> berror + unit"

record published_artifact =
  pb_repository :: string
  pb_digest :: string
  pb_media_type :: string

record sbom_result =
  sb_digest :: string
  sb_media_type :: string
  sb_document :: string

text \<open>What is stored next to an image: a document, or the JSON text of a signature.\<close>

datatype attachment =
    AttachedDocument string
  | AttachedSignature signature_record

record image_registry =
  ry_publish :: "string \<Rightarrow> string \<Rightarrow> build_output \<Rightarrow> berror + published_artifact"
  ry_resolve :: "string \<Rightarrow> string \<Rightarrow> berror + published_artifact"
  ry_attach :: "string \<Rightarrow> string \<Rightarrow> string \<Rightarrow> attachment \<Rightarrow> berror + string"

section \<open>The service\<close>

text \<open>
  The fields of the service, \<open>None\<close> where a dependency is \<open>nil\<close>, and of the call: a port is a
  function of what it is asked, and another call has another environment. A transaction is named by
  the step it belongs to: \<open>bv_ctx\<close> is the error of the context when it begins, and \<open>bv_others\<close> is
  what other calls have done to the store since the transaction before it.
\<close>

record benv =
  bv_hashing :: build_hashing
  bv_store :: bool
  bv_clock :: "(nat \<Rightarrow> gotime) option"
  bv_ids :: "(nat \<Rightarrow> string \<Rightarrow> string) option"
  bv_fetcher :: "(string \<Rightarrow> source_revision \<Rightarrow> source_limits \<Rightarrow> berror + source_snapshot) option"
  bv_detector :: "(string \<Rightarrow> build_config \<Rightarrow> berror + detection) option"
  bv_buildpacks :: "builder option"
  bv_dockerfile :: "builder option"
  bv_registry :: "image_registry option"
  bv_sbom :: "(source_snapshot \<Rightarrow> published_artifact \<Rightarrow> berror + sbom_result) option"
  bv_scanner :: "(artifact_ref \<Rightarrow> sbom_result \<Rightarrow> berror + scan_result) option"
  bv_signer :: "(string \<Rightarrow> string \<Rightarrow> berror + signature_record) option"
  bv_verifier :: "(string \<Rightarrow> signature_record \<Rightarrow> berror + unit) option"
  bv_secrets :: "(string \<Rightarrow> string list \<Rightarrow> berror + build_secret list) option"
  bv_logs :: "(string \<Rightarrow> berror + string) option"
  bv_limits :: source_limits
  bv_repository_base :: string
  bv_ctx :: "string \<Rightarrow> berror option"
  bv_others :: "string \<Rightarrow> build_data \<Rightarrow> build_data"

abbreviation bv_unicode :: "benv \<Rightarrow> unicode" where
  "bv_unicode env \<equiv> bh_unicode (bv_hashing env)"

type_synonym bworld = "build_data world"

type_synonym 'a bact = "(build_data, berror, 'a) tx"

definition build_now :: "benv \<Rightarrow> gotime bact" where
  "build_now env =
     (case bv_clock env of
        None \<Rightarrow> throw BPanic
      | Some clock \<Rightarrow> (\<lambda>w. (Inr (clock (clk_seq w)), w\<lparr>clk_seq := clk_seq w + 1\<rparr>)))"

definition build_newID :: "benv \<Rightarrow> string \<Rightarrow> string bact" where
  "build_newID env pre =
     (case bv_ids env of
        None \<Rightarrow> throw BPanic
      | Some ids \<Rightarrow> (\<lambda>w. (Inr (ids (id_seq w) pre), w\<lparr>id_seq := id_seq w + 1\<rparr>)))"

definition Build_Transact :: "benv \<Rightarrow> string \<Rightarrow> 'a bact \<Rightarrow> 'a bact" where
  "Build_Transact env site fn =
     shared_transact (bv_store env) BPanic (bv_ctx env site) (bv_others env site) fn"

end
