(* ===== verification/Build_Service.thy ===== *)
theory Build_Service
  imports Build_Environment
begin

text \<open>
  The commands and queries of the build service (\<open>internal/build/application/service.go\<close>), and the
  trust policy that the runtime consults (\<open>policy.go\<close>).
\<close>

section \<open>Requests\<close>

record request_build_command =
  qb_tenant :: string
  qb_actor :: string
  qb_correlation :: string
  qb_key :: string
  qb_source :: source_revision
  qb_config :: build_config
  qb_builder_digest :: string
  qb_run_image_digest :: string
  qb_platform_version :: string

definition build_configured :: "benv \<Rightarrow> unit bact" where
  "build_configured env =
     (if \<not> bv_store env \<or> bv_clock env = None \<or> bv_ids env = None
        then throw (BErr BUnavailable ''build service is not configured'') else ret ())"

text \<open>The answer to a key that was used before.\<close>

definition build_replay :: "string \<Rightarrow> string \<Rightarrow> string \<Rightarrow> build_idempotency \<Rightarrow> request_build_result bact" where
  "build_replay command hash progress r =
     (if bi_command r \<noteq> command \<or> bi_request_hash r \<noteq> hash
        then throw (BErr BConflict ''idempotency key was used for another request'')
      else if \<not> bi_completed r then throw (BErr BConflict progress)
      else ret (bi_result r))"

definition completeIdempotency ::
  "benv \<Rightarrow> request_build_command \<Rightarrow> string \<Rightarrow> request_build_result \<Rightarrow> unit bact" where
  "completeIdempotency env cmd hash result =
     bindE (build_now env) (\<lambda>now.
     tx_write (PutIdempotency
       \<lparr>bi_tenant = qb_tenant cmd, bi_key = qb_key cmd, bi_command = ''build.request.v1'',
        bi_request_hash = hash, bi_result = result, bi_completed = True,
        bi_created_at = now, bi_completed_at = now\<rparr>))"

definition reused_build :: "build \<Rightarrow> artifact option \<Rightarrow> request_build_result" where
  "reused_build existing found =
     \<lparr>rq_build = existing, rq_artifact = found,
      rq_reused = (bd_state existing = BuildSucceeded \<and>
        (case found of None \<Rightarrow> False | Some a \<Rightarrow> ar_state a = ArtifactReleasable))\<rparr>"

definition RequestBuild_tx ::
  "benv \<Rightarrow> request_build_command \<Rightarrow> string \<Rightarrow> string \<Rightarrow> request_build_result bact" where
  "RequestBuild_tx env cmd identity hash =
     bindE (tx_get (Build_GetIdempotency (qb_tenant cmd) (qb_key cmd))) (\<lambda>record.
     case record of
       Some r \<Rightarrow> build_replay ''build.request.v1'' hash ''build request is in progress'' r
     | None \<Rightarrow>
     bindE (tx_get (FindBuildByIdentity (qb_tenant cmd) identity)) (\<lambda>existing.
     case existing of
       Some b \<Rightarrow>
         bindE (tx_get (FindArtifactByBuild (bd_id b))) (\<lambda>found.
         seqE (completeIdempotency env cmd hash (reused_build b found)) (ret (reused_build b found)))
     | None \<Rightarrow>
         bindE (build_now env) (\<lambda>now.
         bindE (build_newID env ''bld'') (\<lambda>bld.
         bindE (of_result (NewBuild (bv_unicode env) bld (qb_tenant cmd) identity (qb_correlation cmd)
           (qb_source cmd) (qb_config cmd) (qb_builder_digest cmd) (qb_run_image_digest cmd)
           (qb_platform_version cmd) now)) (\<lambda>b.
         let result = \<lparr>rq_build = b, rq_artifact = None, rq_reused = False\<rparr> in
         seqE (tx_write (InsertBuild b))
         (seqE (completeIdempotency env cmd hash result)
         (bindE (build_newID env ''evt'') (\<lambda>evt.
         seqE (tx_write (Build_AppendOutbox
           \<lparr>bo_id = evt, bo_topic = ''build.requested.v1'', bo_aggregate = bd_id b,
            bo_payload = JObject [(''build_id'', VStr (bd_id b)), (''commit_sha'', VStr (sr_commit (bd_source b))),
              (''identity'', VStr (bd_identity b)), (''tenant_id'', VStr (bd_tenant b))],
            bo_created_at = now\<rparr>))
         (bindE (build_newID env ''aud'') (\<lambda>aud.
         seqE (tx_write (Build_AppendAudit
           \<lparr>ba_id = aud, ba_tenant = qb_tenant cmd, ba_actor = qb_actor cmd, ba_action = ''build.request'',
            ba_resource_type = ''build'', ba_resource = bd_id b,
            ba_data = JObject [(''source'', VStr ''exact-revision'')], ba_created_at = now\<rparr>))
         (ret result)))))))))))"

definition RequestBuild :: "benv \<Rightarrow> request_build_command \<Rightarrow> request_build_result bact" where
  "RequestBuild env cmd =
     seqE (build_configured env)
     (if blank (qb_tenant cmd) \<or> blank (qb_actor cmd) \<or> blank (qb_correlation cmd) \<or> blank (qb_key cmd)
        then throw (BErr BInvalidArgument ''missing request-build fields'')
      else
        bindE (of_result (ComputeBuildIdentity (bv_hashing env) (qb_source cmd) (qb_config cmd)
          (qb_builder_digest cmd) (qb_run_image_digest cmd) (qb_platform_version cmd))) (\<lambda>identity.
        Build_Transact env ''RequestBuild''
          (RequestBuild_tx env cmd identity (bh_json (bv_hashing env) (JObject [(''identity'', VStr identity)])))))"

record retry_build_command =
  yb_tenant :: string
  yb_actor :: string
  yb_correlation :: string
  yb_key :: string
  yb_build :: string

definition RetryBuild_tx :: "benv \<Rightarrow> retry_build_command \<Rightarrow> string \<Rightarrow> request_build_result bact" where
  "RetryBuild_tx env cmd hash =
     bindE (tx_get (Build_GetIdempotency (yb_tenant cmd) (yb_key cmd))) (\<lambda>record.
     case record of
       Some r \<Rightarrow> build_replay ''build.retry.v1'' hash ''build retry is in progress'' r
     | None \<Rightarrow>
     bindE (tx_get (tx_GetBuild (yb_build cmd))) (\<lambda>found.
     case found of None \<Rightarrow> throw (BErr BNotFound ''build not found'') | Some original \<Rightarrow>
     if bd_tenant original \<noteq> yb_tenant cmd then throw (BErr BNotFound ''build not found'') else
     bindE (tx_get (FindBuildByIdentity (yb_tenant cmd) (bd_identity original))) (\<lambda>latest.
     if (case latest of None \<Rightarrow> False | Some l \<Rightarrow> bd_attempt original < bd_attempt l)
       then throw (BErr BConflict ''a newer retry attempt already exists'')
     else
       bindE (build_newID env ''bld'') (\<lambda>bld.
       bindE (build_now env) (\<lambda>created.
       bindE (of_result (Retry (bv_unicode env) bld (yb_correlation cmd) created original)) (\<lambda>retry.
       let result = \<lparr>rq_build = retry, rq_artifact = None, rq_reused = False\<rparr> in
       seqE (tx_write (InsertBuild retry))
       (bindE (build_now env) (\<lambda>now.
       seqE (tx_write (PutIdempotency
         \<lparr>bi_tenant = yb_tenant cmd, bi_key = yb_key cmd, bi_command = ''build.retry.v1'',
          bi_request_hash = hash, bi_result = result, bi_completed = True,
          bi_created_at = now, bi_completed_at = now\<rparr>))
       (bindE (build_newID env ''evt'') (\<lambda>evt.
       seqE (tx_write (Build_AppendOutbox
         \<lparr>bo_id = evt, bo_topic = ''build.requested.v1'', bo_aggregate = bd_id retry,
          bo_payload = JObject [(''attempt'', VInt (bd_attempt retry)), (''build_id'', VStr (bd_id retry)),
            (''original_correlation_id'', VStr (bd_original_correlation retry)),
            (''retry_of'', VStr (bd_id original))],
          bo_created_at = now\<rparr>))
       (bindE (build_newID env ''aud'') (\<lambda>aud.
       seqE (tx_write (Build_AppendAudit
         \<lparr>ba_id = aud, ba_tenant = yb_tenant cmd, ba_actor = yb_actor cmd, ba_action = ''build.retry'',
          ba_resource_type = ''build'', ba_resource = bd_id retry,
          ba_data = JObject [(''retry'', VBool True)], ba_created_at = now\<rparr>))
       (ret result)))))))))))))"

definition RetryBuild :: "benv \<Rightarrow> retry_build_command \<Rightarrow> request_build_result bact" where
  "RetryBuild env cmd =
     seqE (build_configured env)
     (if blank (yb_tenant cmd) \<or> blank (yb_actor cmd) \<or> blank (yb_correlation cmd) \<or> blank (yb_key cmd) \<or>
         blank (yb_build cmd)
        then throw (BErr BInvalidArgument ''missing retry-build fields'')
      else Build_Transact env ''RetryBuild'' (RetryBuild_tx env cmd
        (bh_json (bv_hashing env) (JObject [(''build_id'', VStr (yb_build cmd))]))))"

section \<open>Queries\<close>

text \<open>The transaction is named by the command that loads.\<close>

definition load_build :: "benv \<Rightarrow> string \<Rightarrow> string \<Rightarrow> string \<Rightarrow> (build \<times> artifact option) bact" where
  "load_build env site tenant buildID =
     Build_Transact env site
     (bindE (tx_get (tx_GetBuild buildID)) (\<lambda>found.
      case found of None \<Rightarrow> throw (BErr BNotFound ''build not found'') | Some b \<Rightarrow>
      if bd_tenant b \<noteq> tenant then throw (BErr BNotFound ''build not found'')
      else bindE (tx_get (FindArtifactByBuild (bd_id b))) (\<lambda>a. ret (b, a))))"

definition Service_GetBuild :: "benv \<Rightarrow> string \<Rightarrow> string \<Rightarrow> (build \<times> artifact option) bact" where
  "Service_GetBuild env tenant buildID = load_build env ''GetBuild'' tenant buildID"

definition StreamBuildLogs :: "benv \<Rightarrow> string \<Rightarrow> string \<Rightarrow> string bact" where
  "StreamBuildLogs env tenant buildID =
     (case bv_logs env of
        None \<Rightarrow> throw (BErr BUnavailable ''build log store is unavailable'')
      | Some read \<Rightarrow>
          bindE (load_build env ''StreamBuildLogs'' tenant buildID) (\<lambda>_. of_result (read buildID)))"

definition EvaluateArtifact :: "benv \<Rightarrow> string \<Rightarrow> string \<Rightarrow> releasability_decision bact" where
  "EvaluateArtifact env tenant artifactID =
     bindE (Build_Transact env ''EvaluateArtifact''
       (bindE (tx_get (GetArtifact artifactID)) (\<lambda>found.
        case found of None \<Rightarrow> throw (BErr BNotFound ''artifact not found'') | Some a \<Rightarrow>
        if ar_tenant a \<noteq> tenant then throw (BErr BNotFound ''artifact not found'') else ret a))) (\<lambda>a.
     ret (if ar_state a = ArtifactReleasable
            then \<lparr>rd_allowed = True, rd_policy_version = ''artifact-trust-v1'', rd_reasons = []\<rparr>
          else \<lparr>rd_allowed = False, rd_policy_version = ''artifact-trust-v1'',
                rd_reasons = (''artifact state is '' @ artifact_state_text (ar_state a)) # ar_rejection_notes a\<rparr>))"

section \<open>The trust policy\<close>

text \<open>What the policy demands of the row; the registry and the verifier are asked afterwards.\<close>

definition policy_trusts :: "artifact \<Rightarrow> bool" where
  "policy_trusts a \<longleftrightarrow>
     \<not> (ar_state a \<noteq> ArtifactReleasable \<or>
        (case ar_scan a of None \<Rightarrow> True | Some scan \<Rightarrow> \<not> sc_passed scan) \<or>
        (case ar_signature a of None \<Rightarrow> True
         | Some s \<Rightarrow> sg_digest s \<noteq> ar_digest a \<or> \<not> ValidDigest (sg_attachment_digest s)) \<or>
        \<not> ValidDigest (ar_sbom_digest a))"

definition policy_verdict ::
  "image_registry \<Rightarrow> (string \<Rightarrow> signature_record \<Rightarrow> berror + unit) \<Rightarrow> string \<Rightarrow> artifact_ref \<Rightarrow> artifact \<Rightarrow>
   berror + releasability_decision" where
  "policy_verdict registry verify version r a =
     (let refuse = (\<lambda>m. Inr \<lparr>rd_allowed = False, rd_policy_version = version, rd_reasons = [m]\<rparr>) in
      if ar_repository a \<noteq> Repository r \<or> ar_digest a \<noteq> Digest r \<or> ar_media_type a \<noteq> MediaType r
        then refuse ''artifact identity mismatch''
      else if \<not> policy_trusts a then refuse ''artifact trust chain is incomplete''
      else case ry_resolve registry (ar_tenant a) (ar_repository a @ ''@'' @ ar_digest a) of
        Inl e \<Rightarrow> Inl e
      | Inr resolved \<Rightarrow>
      if pb_repository resolved \<noteq> ar_repository a \<or> pb_digest resolved \<noteq> ar_digest a \<or>
         pb_media_type resolved \<noteq> ar_media_type a
        then refuse ''registry identity mismatch''
      else case verify (ar_repository a) (the (ar_signature a)) of
        Inl e \<Rightarrow>
          (case as_domain_error e of
             Some (c, m, _) \<Rightarrow> if c = BPolicyRejected then refuse m else Inl e
           | None \<Rightarrow> Inl e)
      | Inr _ \<Rightarrow> Inr \<lparr>rd_allowed = True, rd_policy_version = version, rd_reasons = []\<rparr>)"

definition IsReleasable :: "benv \<Rightarrow> string \<Rightarrow> artifact_ref \<Rightarrow> releasability_decision bact" where
  "IsReleasable env policyVersion r =
     (if Artifact_Validate r \<noteq> Inr () then throw (BErr BInvalidArgument ''invalid artifact reference'')
      else case (bv_registry env, bv_verifier env) of
        (Some registry, Some verify) \<Rightarrow>
          if \<not> bv_store env then throw (BErr BUnavailable ''artifact trust policy is not configured'')
          else
            bindE (Build_Transact env ''IsReleasable''
              (bindE (tx_get (GetArtifact (ArtifactID r))) (\<lambda>found.
               case found of None \<Rightarrow> throw (BErr BNotFound ''artifact not found'') | Some a \<Rightarrow> ret a))) (\<lambda>a.
            of_result (policy_verdict registry verify
              (if policyVersion = [] then ''artifact-trust-v1'' else policyVersion) r a))
      | _ \<Rightarrow> throw (BErr BUnavailable ''artifact trust policy is not configured''))"

end
