(* ===== verification/Build_Run.thy ===== *)
theory Build_Run
  imports Build_Service
begin

text \<open>
  Running and cancelling a build (the rest of \<open>internal/build/application/service.go\<close>). A run is a
  sequence of transactions with calls of the engines in between; the values that the code keeps in
  local variables are the arguments of the stages below.
\<close>

section \<open>Steps that are saved\<close>

text \<open>
  A change of a build or artifact is made on the local value and written when the stored row still
  has the version that the change started from; the transaction is named by the step.
\<close>

definition updateBuild :: "benv \<Rightarrow> string \<Rightarrow> build \<Rightarrow> (gotime \<Rightarrow> build \<Rightarrow> berror + build) \<Rightarrow> build bact" where
  "updateBuild env site b mutate =
     bindE (build_now env) (\<lambda>now.
     bindE (of_result (mutate now b)) (\<lambda>b'.
     seqE (Build_Transact env site (tx_write (UpdateBuild b' (bd_version b)))) (ret b')))"

definition advance :: "benv \<Rightarrow> build \<Rightarrow> build_state \<Rightarrow> build bact" where
  "advance env b state = updateBuild env (''advance '' @ build_state_text state) b (Build_Transition state)"

text \<open>The code asks the clock only after its checks; that leaves the store alone.\<close>

definition selectExecution :: "benv \<Rightarrow> build \<Rightarrow> detection \<Rightarrow> build bact" where
  "selectExecution env b detected =
     updateBuild env ''selectExecution'' b
       (SelectExecution (bv_unicode env) (dt_runtime detected) (dt_backend detected) (dt_buildpack detected))"

definition updateArtifact ::
  "benv \<Rightarrow> string \<Rightarrow> artifact \<Rightarrow> (gotime \<Rightarrow> artifact \<Rightarrow> berror + artifact) \<Rightarrow> artifact bact" where
  "updateArtifact env site a mutate =
     bindE (build_now env) (\<lambda>now.
     bindE (of_result (mutate now a)) (\<lambda>a'.
     seqE (Build_Transact env site (tx_write (UpdateArtifact a' (ar_version a)))) (ret a')))"

definition startBuild :: "benv \<Rightarrow> string \<Rightarrow> build \<Rightarrow> build bact" where
  "startBuild env actor b =
     bindE (build_now env) (\<lambda>started.
     bindE (of_result (Build_Transition BuildFetchingSource started b)) (\<lambda>b'.
     seqE (Build_Transact env ''startBuild''
       (bindE (build_now env) (\<lambda>now.
        seqE (tx_write (UpdateBuild b' (bd_version b)))
        (bindE (build_newID env ''evt'') (\<lambda>evt.
        seqE (tx_write (Build_AppendOutbox
          \<lparr>bo_id = evt, bo_topic = ''build.started.v1'', bo_aggregate = bd_id b',
           bo_payload = JObject [(''attempt'', VInt (bd_attempt b')), (''build_id'', VStr (bd_id b')),
             (''commit_sha'', VStr (sr_commit (bd_source b')))],
           bo_created_at = now\<rparr>))
        (bindE (build_newID env ''aud'') (\<lambda>aud.
         tx_write (Build_AppendAudit
           \<lparr>ba_id = aud, ba_tenant = bd_tenant b', ba_actor = actor, ba_action = ''build.start'',
            ba_resource_type = ''build'', ba_resource = bd_id b',
            ba_data = JObject [(''exact_revision'', VBool True)], ba_created_at = now\<rparr>))))))))
     (ret b')))"

section \<open>Failures\<close>

definition classifyFailure :: "berror \<Rightarrow> build_state \<times> string \<times> bool" where
  "classifyFailure e =
     (case as_domain_error e of
        Some (c, _, retryable) \<Rightarrow>
          if c = BUserFailure \<or> c = BInvalidArgument \<or> c = BPolicyRejected
            then (BuildFailedUserCode, build_code_text c, retryable)
          else if c = BTimeout then (BuildTimedOut, build_code_text c, False)
          else (BuildFailedPlatform, build_code_text c, retryable)
      | None \<Rightarrow> (BuildFailedPlatform, ''UNCLASSIFIED_PLATFORM_FAILURE'', False))"

definition failed_payload :: "build \<Rightarrow> build_json" where
  "failed_payload b =
     JObject [(''build_id'', VStr (bd_id b)), (''failure_code'', VStr (bd_failure_code b)),
       (''retryable'', VBool (bd_retryable b)), (''state'', VStr (build_state_text (bd_state b)))]"

definition fail_tx :: "benv \<Rightarrow> string \<Rightarrow> build \<Rightarrow> int \<Rightarrow> artifact option \<Rightarrow> unit bact" where
  "fail_tx env actor b expected a =
     bindE (build_now env) (\<lambda>now.
     seqE (tx_write (UpdateBuild b expected))
     (bindE (build_newID env ''evt'') (\<lambda>evt.
     seqE (tx_write (Build_AppendOutbox
       \<lparr>bo_id = evt, bo_topic = ''build.failed.v1'', bo_aggregate = bd_id b,
        bo_payload = failed_payload b, bo_created_at = now\<rparr>))
     (seqE
       (case a of None \<Rightarrow> ret () | Some a \<Rightarrow>
        if ar_state a \<noteq> ArtifactRejected then ret ()
        else bindE (build_newID env ''evt'') (\<lambda>evt.
          tx_write (Build_AppendOutbox
            \<lparr>bo_id = evt, bo_topic = ''artifact.rejected.v1'', bo_aggregate = ar_id a,
             bo_payload = JObject [(''artifact_id'', VStr (ar_id a)), (''build_id'', VStr (bd_id b)),
               (''reasons'', VStrs (ar_rejection_notes a))],
             bo_created_at = now\<rparr>)))
     (bindE (build_newID env ''aud'') (\<lambda>aud.
      tx_write (Build_AppendAudit
        \<lparr>ba_id = aud, ba_tenant = bd_tenant b, ba_actor = actor, ba_action = ''build.failed'',
         ba_resource_type = ''build'', ba_resource = bd_id b, ba_data = failed_payload b,
         ba_created_at = now\<rparr>)))))))"

text \<open>A failure always ends with an error: the cause, once it has been recorded.\<close>

definition fail_build :: "benv \<Rightarrow> string \<Rightarrow> build \<Rightarrow> artifact option \<Rightarrow> berror \<Rightarrow> 'a bact" where
  "fail_build env actor b a cause =
     (if Build_Terminal b then throw cause
      else case classifyFailure cause of (state, code, retryable) \<Rightarrow>
        bindE (build_now env) (\<lambda>now.
        bindE (of_result (Build_Fail state code (build_error_text cause) retryable now b)) (\<lambda>b'.
        seqE (Build_Transact env ''fail'' (fail_tx env actor b' (bd_version b) a))
        (throw cause))))"

definition or_fail ::
  "benv \<Rightarrow> string \<Rightarrow> build \<Rightarrow> artifact option \<Rightarrow> berror + 'b \<Rightarrow> ('b \<Rightarrow> 'a bact) \<Rightarrow> 'a bact" where
  "or_fail env actor b a r k = (case r of Inl e \<Rightarrow> fail_build env actor b a e | Inr v \<Rightarrow> k v)"

section \<open>The stages of a run\<close>

record pipeline =
  pi_fetch :: "string \<Rightarrow> source_revision \<Rightarrow> source_limits \<Rightarrow> berror + source_snapshot"
  pi_detect :: "string \<Rightarrow> build_config \<Rightarrow> berror + detection"
  pi_registry :: image_registry
  pi_sbom :: "source_snapshot \<Rightarrow> published_artifact \<Rightarrow> berror + sbom_result"
  pi_scan :: "artifact_ref \<Rightarrow> sbom_result \<Rightarrow> berror + scan_result"
  pi_sign :: "string \<Rightarrow> string \<Rightarrow> berror + signature_record"
  pi_verify :: "string \<Rightarrow> signature_record \<Rightarrow> berror + unit"

definition pipeline_of :: "benv \<Rightarrow> pipeline option" where
  "pipeline_of env =
     (case (bv_fetcher env, bv_detector env, bv_registry env, bv_sbom env, bv_scanner env, bv_signer env,
            bv_verifier env, bv_logs env) of
        (Some fetch, Some detect, Some registry, Some sbom, Some scan, Some sign, Some verify, Some logs) \<Rightarrow>
          Some \<lparr>pi_fetch = fetch, pi_detect = detect, pi_registry = registry, pi_sbom = sbom,
                pi_scan = scan, pi_sign = sign, pi_verify = verify\<rparr>
      | _ \<Rightarrow> None)"

definition completed_payload :: "build \<Rightarrow> artifact \<Rightarrow> build_json" where
  "completed_payload b a =
     JObject [(''artifact_id'', VStr (ar_id a)), (''build_id'', VStr (bd_id b)),
       (''digest'', VStr (ar_digest a)), (''repository'', VStr (ar_repository a))]"

definition complete_tx :: "benv \<Rightarrow> string \<Rightarrow> build \<Rightarrow> int \<Rightarrow> artifact \<Rightarrow> int \<Rightarrow> unit bact" where
  "complete_tx env actor b buildExpected a artifactExpected =
     seqE (tx_write (UpdateArtifact a artifactExpected))
     (seqE (tx_write (UpdateBuild b buildExpected))
     (bindE (build_now env) (\<lambda>now.
      bindE (build_newID env ''evt'') (\<lambda>evt.
      seqE (tx_write (Build_AppendOutbox
        \<lparr>bo_id = evt, bo_topic = ''build.completed.v1'', bo_aggregate = bd_id b,
         bo_payload = completed_payload b a, bo_created_at = now\<rparr>))
      (bindE (build_newID env ''evt'') (\<lambda>evt.
      seqE (tx_write (Build_AppendOutbox
        \<lparr>bo_id = evt, bo_topic = ''artifact.releasable.v1'', bo_aggregate = ar_id a,
         bo_payload = completed_payload b a, bo_created_at = now\<rparr>))
      (bindE (build_newID env ''aud'') (\<lambda>aud.
       tx_write (Build_AppendAudit
         \<lparr>ba_id = aud, ba_tenant = bd_tenant b, ba_actor = actor, ba_action = ''artifact.releasable'',
          ba_resource_type = ''artifact'', ba_resource = ar_id a,
          ba_data = JObject [(''digest_bound'', VBool True)], ba_created_at = now\<rparr>)))))))))"

text \<open>From the signature to the end.\<close>

definition sign_stage :: "benv \<Rightarrow> pipeline \<Rightarrow> string \<Rightarrow> build \<Rightarrow> artifact \<Rightarrow> (build \<times> artifact) bact" where
  "sign_stage env p actor b a =
     or_fail env actor b (Some a) (pi_sign p (ar_repository a) (ar_digest a)) (\<lambda>s.
     or_fail env actor b (Some a)
       (case pi_verify p (ar_repository a) s of
          Inl e \<Rightarrow> Inl (BWrap BPlatformFailure ''platform signature failed verification'' e)
        | Inr _ \<Rightarrow> Inr ()) (\<lambda>_.
     or_fail env actor b (Some a)
       (ry_attach (pi_registry p) (bd_tenant b) (ar_repository a)
          ''application/vnd.dev.cosign.simplesigning.v1+json'' (AttachedSignature s)) (\<lambda>attached.
     or_fail env actor b (Some a)
       (if ValidDigest attached then Inr ()
        else Inl (BErr BPlatformFailure ''registry returned invalid signature attachment digest'')) (\<lambda>_.
     bindE (build_now env) (\<lambda>now1.
     or_fail env actor b (Some a) (AttachSignature (s\<lparr>sg_attachment_digest := attached\<rparr>) now1 a) (\<lambda>a1.
     bindE (build_now env) (\<lambda>now2.
     or_fail env actor b (Some a1) (MarkReleasable now2 a1) (\<lambda>a2.
     bindE (build_now env) (\<lambda>now3.
     bindE (of_result (Succeed (ar_id a2) now3 b)) (\<lambda>b'.
     seqE (Build_Transact env ''RunBuild.complete'' (complete_tx env actor b' (bd_version b) a2 (ar_version a)))
     (ret (b', a2))))))))))))"

definition scan_stage ::
  "benv \<Rightarrow> pipeline \<Rightarrow> string \<Rightarrow> sbom_result \<Rightarrow> build \<Rightarrow> artifact \<Rightarrow> (build \<times> artifact) bact" where
  "scan_stage env p actor sbom b a =
     or_fail env actor b (Some a) (pi_scan p (Ref a) sbom) (\<lambda>scan.
     bindE (updateArtifact env ''ApplyScan'' a (ApplyScan scan)) (\<lambda>a1.
     if ar_state a1 = ArtifactRejected
       then fail_build env actor b (Some a1) (BErr BPolicyRejected (Join (ar_rejection_notes a1) ''; ''))
     else bindE (advance env b BuildSigning) (\<lambda>b1. sign_stage env p actor b1 a1)))"

text \<open>From the image in the registry to the scan; \<open>old\<close> is the artifact that was loaded with the build.\<close>

definition publish_stage ::
  "benv \<Rightarrow> pipeline \<Rightarrow> string \<Rightarrow> artifact option \<Rightarrow> source_snapshot \<Rightarrow> string \<Rightarrow> build_output \<Rightarrow> build \<Rightarrow>
   (build \<times> artifact) bact" where
  "publish_stage env p actor old snapshot repository out b =
     or_fail env actor b old (ry_publish (pi_registry p) (bd_tenant b) repository out) (\<lambda>published.
     bindE (build_newID env ''art'') (\<lambda>art.
     bindE (build_now env) (\<lambda>now.
     or_fail env actor b old (NewArtifact art (bd_tenant b) (bd_id b) (pb_repository published)
       (pb_digest published) (pb_media_type published) now) (\<lambda>created.
     bindE (build_now env) (\<lambda>now.
     or_fail env actor b old (Quarantine now created) (\<lambda>a.
     seqE (Build_Transact env ''insertArtifact'' (tx_write (InsertArtifact a)))
     (or_fail env actor b (Some a) (pi_sbom p snapshot published) (\<lambda>sbom.
      or_fail env actor b (Some a)
        (ry_attach (pi_registry p) (bd_tenant b) (pb_repository published) (sb_media_type sbom)
           (AttachedDocument (sb_document sbom))) (\<lambda>stored.
      or_fail env actor b (Some a)
        (if stored = sb_digest sbom then Inr ()
         else Inl (BErr BPlatformFailure ''registry changed SBOM digest'')) (\<lambda>_.
      bindE (updateArtifact env ''AttachSBOM'' a (AttachSBOM (sb_digest sbom) (sb_media_type sbom))) (\<lambda>a1.
      bindE (advance env b BuildScanning) (\<lambda>b1.
      scan_stage env p actor sbom b1 a1))))))))))))"

definition resolveSecrets :: "benv \<Rightarrow> build \<Rightarrow> berror + build_secret list" where
  "resolveSecrets env b =
     (if bc_secret_refs (bd_config b) = [] then Inr []
      else case bv_secrets env of
        None \<Rightarrow> Inl (BErr BUnavailable ''build secret provider is unavailable'')
      | Some resolve \<Rightarrow> resolve (bd_tenant b) (bc_secret_refs (bd_config b)))"

definition secretsForPhase :: "build_secret list \<Rightarrow> build_phase \<Rightarrow> build_secret list" where
  "secretsForPhase secrets phase = filter (\<lambda>s. List.member (se_phases s) phase) secrets"

definition repository_of :: "benv \<Rightarrow> build \<Rightarrow> string" where
  "repository_of env b =
     (let base = TrimSuffix (TrimSpace (bv_repository_base env)) ''/'' in
      (if base = [] then ''registry.local/tenants'' else base) @ ''/'' @ bd_tenant b @ ''/apps/'' @
      sr_project (bd_source b))"

text \<open>From the snapshot of the source to the image.\<close>

definition build_stage ::
  "benv \<Rightarrow> pipeline \<Rightarrow> string \<Rightarrow> artifact option \<Rightarrow> source_snapshot \<Rightarrow> build \<Rightarrow> (build \<times> artifact) bact" where
  "build_stage env p actor old snapshot b =
     bindE (advance env b BuildDetecting) (\<lambda>b1.
     or_fail env actor b1 old (pi_detect p (ss_path snapshot) (bd_config b1)) (\<lambda>detected.
     bindE (selectExecution env b1 detected) (\<lambda>b2.
     or_fail env actor b2 old (resolveSecrets env b2) (\<lambda>secrets.
     case (if dt_backend detected = ''dockerfile-vm'' then bv_dockerfile env else bv_buildpacks env) of
       None \<Rightarrow> fail_build env actor b2 old (BErr BUnavailable ''selected build backend is unavailable'')
     | Some engine \<Rightarrow>
     or_fail env actor b2 old (bl_build engine
       \<lparr>ex_build = bd_id b2, ex_tenant = bd_tenant b2, ex_builder_digest = bd_builder_digest b2,
        ex_run_image_digest = bd_run_image_digest b2, ex_source = snapshot, ex_detection = detected,
        ex_config = bd_config b2, ex_environment = bc_env (bd_config b2),
        ex_secrets = secretsForPhase secrets PhaseBuild, ex_repository = repository_of env b2\<rparr>) (\<lambda>out.
     bindE (advance env b2 BuildExporting) (\<lambda>b3.
     publish_stage env p actor old snapshot (repository_of env b2) out b3))))))"

definition RunBuild :: "benv \<Rightarrow> string \<Rightarrow> string \<Rightarrow> string \<Rightarrow> (build \<times> artifact option) bact" where
  "RunBuild env tenant actor buildID =
     bindE (load_build env ''RunBuild'' tenant buildID) (\<lambda>(b, old).
     if Build_Terminal b then ret (b, old)
     else if bd_state b \<noteq> BuildQueued
       then throw (BErr BConflict ''automatic resume of partial build is not implemented'')
     else case pipeline_of env of
       None \<Rightarrow> throw (BErr BUnavailable ''build pipeline is not configured'')
     | Some p \<Rightarrow>
     bindE (startBuild env actor b) (\<lambda>b1.
     or_fail env actor b1 old (pi_fetch p (bd_tenant b1) (bd_source b1) (bv_limits env)) (\<lambda>snapshot.
     bindE (build_stage env p actor old snapshot b1) (\<lambda>(b2, a). ret (b2, Some a)))))"

section \<open>Cancellation\<close>

definition builderForBackend :: "benv \<Rightarrow> execution_backend \<Rightarrow> builder option" where
  "builderForBackend env backend =
     (if backend = ExecutionBuildpacks then bv_buildpacks env
      else if backend = ExecutionDockerfile then bv_dockerfile env else None)"

definition CancelBuild :: "benv \<Rightarrow> string \<Rightarrow> string \<Rightarrow> build bact" where
  "CancelBuild env tenant buildID =
     bindE (load_build env ''CancelBuild'' tenant buildID) (\<lambda>(b, _).
     if Build_Terminal b then ret b
     else seqE
       (if bd_state b \<noteq> BuildQueued \<and> bd_backend b \<noteq> [] then
          (case builderForBackend env (bd_backend b) of
             None \<Rightarrow> throw (BErr BUnavailable ''selected build backend is unavailable'')
           | Some engine \<Rightarrow>
               (case bl_cancel engine (bd_id b) of
                  Inl e \<Rightarrow> throw (BWrap BPlatformFailure ''cancel build backend'' e)
                | Inr _ \<Rightarrow> ret ()))
        else ret ())
       (updateBuild env ''CancelBuild.write'' b Build_Cancel))"

end
