(* ===== verification/Build_Refinement.thy ===== *)
theory Build_Refinement
  imports Build_Invariants Build_Run
begin

text \<open>
  Every command of the build service is a sequence of steps of the abstract store, whatever other
  calls do between its transactions.
\<close>

section \<open>Calls\<close>

interpretation building: shared_store build_effect build_ok
  by unfold_locales (rule build_effect_keeps)

definition build_rely :: "benv \<Rightarrow> bool" where
  "build_rely env \<longleftrightarrow> (\<forall>site d. build_ok d \<longrightarrow> build_effect\<^sup>*\<^sup>* d (bv_others env site d))"

lemma build_effects_later: "build_effect\<^sup>*\<^sup>* d d' \<Longrightarrow> build_ok d \<Longrightarrow> build_later d d'"
proof (induction rule: rtranclp_induct)
  case (step y z)
  then show ?case using building.effects_keep build_effect_later build_later_trans by blast
qed simp

lemma build_calls_transact:
  assumes "build_rely env" and "building.stays P"
    and "\<And>d0. build_ok d0 \<Longrightarrow> P d0 \<Longrightarrow> triple (\<lambda>d. d = d0) fn (\<lambda>a d. build_effect\<^sup>*\<^sup>* d0 d \<and> Q a d)"
  shows "building.calls P (Build_Transact env site fn) Q"
  unfolding Build_Transact_def
  using assms by (intro building.calls_transact) (simp_all add: build_rely_def)

lemma build_now_db: "db (snd (build_now env w)) = db w"
  by (simp add: build_now_def throw_def split: option.splits)

lemma build_newID_db: "db (snd (build_newID env pre w)) = db w"
  by (simp add: build_newID_def throw_def split: option.splits)

lemma build_calls_now: "(\<And>t. building.calls P (k t) Q) \<Longrightarrow> building.calls P (bindE (build_now env) k) Q"
  by (rule building.calls_bind[where R = "\<lambda>_. P"]) (simp_all add: building.calls_def build_now_db)

lemma build_calls_newID:
  "(\<And>i. building.calls P (k i) Q) \<Longrightarrow> building.calls P (bindE (build_newID env pre) k) Q"
  by (rule building.calls_bind[where R = "\<lambda>_. P"]) (simp_all add: building.calls_def build_newID_db)

lemma build_calls_configured: "building.calls P k Q \<Longrightarrow> building.calls P (seqE (build_configured env) k) Q"
  by (rule building.calls_seq) (simp_all add: building.calls_def build_configured_def ret_def throw_def)

lemmas build_calls_steps = build_calls_configured build_calls_now build_calls_newID
  building.calls_bind_result building.calls_throw building.calls_let building.calls_if
  building.calls_case_option building.calls_case_sum building.calls_case_prod

lemma triple_bind_build_now: "(\<And>t. triple P (k t) Q) \<Longrightarrow> triple P (bindE (build_now env) k) Q"
  by (rule triple_bind[where R = "\<lambda>_. P"])
    (auto simp: triple_def build_now_def throw_def split: option.splits)

lemma triple_bind_build_newID: "(\<And>i. triple P (k i) Q) \<Longrightarrow> triple P (bindE (build_newID env pre) k) Q"
  by (rule triple_bind[where R = "\<lambda>_. P"])
    (auto simp: triple_def build_newID_def throw_def split: option.splits)

lemmas build_run_steps = triple_get triple_insert triple_throw triple_bind_build_now
  triple_bind_build_newID triple_bind_result triple_let triple_branches triple_case_prod triple_stay
  triple_last_write

lemma build_effect_chain:
  "build_effect d d1 \<Longrightarrow> build_effect\<^sup>*\<^sup>* d d1"
  "build_effect d d1 \<Longrightarrow> build_effect\<^sup>*\<^sup>* d1 d2 \<Longrightarrow> build_effect\<^sup>*\<^sup>* d d2"
  by (auto intro: converse_rtranclp_into_rtranclp)

section \<open>What a call knows\<close>

definition known_build :: "build \<Rightarrow> build_data \<Rightarrow> bool" where
  "known_build b d \<longleftrightarrow> (\<exists>x. tx_GetBuild (bd_id b) d = Some x \<and> build_moves b x)"

definition known_artifact :: "artifact \<Rightarrow> build_data \<Rightarrow> bool" where
  "known_artifact a d \<longleftrightarrow> (\<exists>x. GetArtifact (ar_id a) d = Some x \<and> artifact_moves a x)"

lemma known_build_later: "known_build b d \<Longrightarrow> build_later d d' \<Longrightarrow> known_build b d'"
  unfolding known_build_def tx_GetBuild_def build_later_def by (blast dest: growsD intro: build_moves_trans)

lemma known_artifact_later: "known_artifact a d \<Longrightarrow> build_later d d' \<Longrightarrow> known_artifact a d'"
  unfolding known_artifact_def GetArtifact_def build_later_def by (blast dest: growsD intro: artifact_moves_trans)

lemma stays_known [simp]: "building.stays (known_build b)" "building.stays (known_artifact a)"
  unfolding building.stays_def
  by (blast intro: known_build_later known_artifact_later dest: build_effects_later)+

lemma got_known_build: "tx_GetBuild i d = Some b \<Longrightarrow> build_ok d \<Longrightarrow> known_build b d"
  using got_build[of i d b] by (auto simp: known_build_def)

lemma known_build_effects: "known_build b d \<Longrightarrow> build_effect\<^sup>*\<^sup>* d d' \<Longrightarrow> build_ok d \<Longrightarrow> known_build b d'"
  by (blast intro: known_build_later dest: build_effects_later)

lemma known_artifact_effects:
  "known_artifact a d \<Longrightarrow> build_effect\<^sup>*\<^sup>* d d' \<Longrightarrow> build_ok d \<Longrightarrow> known_artifact a d'"
  by (blast intro: known_artifact_later dest: build_effects_later)

text \<open>The version tells that the stored row is the known one.\<close>

lemma known_build_current:
  assumes "known_build b d" and "UpdateBuild b' (bd_version b) d = Inr d'" and "bd_id b' = bd_id b"
  shows "tx_GetBuild (bd_id b) d = Some b \<and> bd_version b' = bd_version b + 1"
  using UpdateBuild_Inr[OF assms(2)] assms(1,3) build_moves_fields
  by (fastforce simp: known_build_def tx_GetBuild_def)

lemma known_artifact_current:
  assumes "known_artifact a d" and "UpdateArtifact a' (ar_version a) d = Inr d'" and "ar_id a' = ar_id a"
  shows "GetArtifact (ar_id a) d = Some a \<and> ar_version a < ar_version a'"
  using UpdateArtifact_Inr[OF assms(2)] assms(1,3) artifact_moves_fields
  by (fastforce simp: known_artifact_def GetArtifact_def)

lemma save_build_effect:
  assumes "known_build b d" and "UpdateBuild b' (bd_version b) d = Inr d'"
    and "build_step b b'" and "bd_state b' \<noteq> BuildSucceeded"
  shows "build_effect d d' \<and> known_build b' d'"
proof -
  have i: "bd_id b' = bd_id b" using build_moves_fields[OF build_step_moves[OF assms(3)]] by simp
  note cur = known_build_current[OF assms(1,2) i]
  have "build_effect d d'" using cur assms by (blast intro: build_moved)
  then show ?thesis using UpdateBuild_Inr[OF assms(2)] by (auto simp: known_build_def tx_GetBuild_def)
qed

section \<open>Steps that are saved\<close>

lemma updateBuild_saves:
  assumes "build_rely env"
    and step: "\<And>now b'. mutate now b = Inr b' \<Longrightarrow> b' = b \<or> (build_step b b' \<and> bd_state b' \<noteq> BuildSucceeded)"
  shows "building.calls (known_build b) (updateBuild env site b mutate)
    (\<lambda>b' d. known_build b' d \<and> build_step b b' \<and> (\<exists>now. mutate now b = Inr b'))"
  unfolding updateBuild_def
proof (intro build_calls_steps, goal_cases)
  case (1 now b')
  have "building.calls (known_build b) (Build_Transact env site (tx_write (UpdateBuild b' (bd_version b))))
      (\<lambda>_ d. known_build b' d \<and> build_step b b' \<and> (\<exists>now. mutate now b = Inr b'))"
  proof (rule build_calls_transact[OF assms(1) stays_known(1)], rule triple_last_write, goal_cases)
    case (1 d0 d1)
    have "b' \<noteq> b" using known_build_current[OF 1(2,3)] by force
    then have s: "build_step b b' \<and> bd_state b' \<noteq> BuildSucceeded" using step[OF \<open>mutate now b = Inr b'\<close>] by blast
    with save_build_effect[OF 1(2,3)] \<open>mutate now b = Inr b'\<close> show ?case
      by (blast intro: build_effect_chain)
  qed
  then show ?case by (rule building.calls_seq) (auto intro: building.calls_ret)
qed

lemma updateBuild_calls:
  assumes "build_rely env"
    and "\<And>now b'. mutate now b = Inr b' \<Longrightarrow> b' = b \<or> (build_step b b' \<and> bd_state b' \<noteq> BuildSucceeded)"
  shows "building.calls (known_build b) (updateBuild env site b mutate) (\<lambda>b' d. known_build b' d \<and> build_step b b')"
  by (rule building.calls_post[OF updateBuild_saves[OF assms]]) simp_all

lemma advance_calls:
  assumes "build_rely env" and "state \<noteq> BuildSucceeded"
  shows "building.calls (known_build b) (advance env b state) (\<lambda>b' d. known_build b' d \<and> build_step b b')"
  unfolding advance_def
  by (rule updateBuild_calls[OF assms(1)]) (use assms(2) in \<open>auto dest: Build_Transition_step\<close>)

lemma selectExecution_calls:
  "build_rely env \<Longrightarrow>
     building.calls (known_build b) (selectExecution env b detected) (\<lambda>b' d. known_build b' d \<and> build_step b b')"
  unfolding selectExecution_def by (rule updateBuild_calls) (auto dest: SelectExecution_step)

text \<open>Steps of an artifact; the build of the call is known throughout.\<close>

lemma updateArtifact_calls:
  assumes "build_rely env"
    and eff: "\<And>now a' d d'. build_ok d \<Longrightarrow> GetArtifact (ar_id a) d = Some a \<Longrightarrow> mutate now a = Inr a' \<Longrightarrow>
      UpdateArtifact a' (ar_version a) d = Inr d' \<Longrightarrow> build_effect d d'"
    and same: "\<And>now a'. mutate now a = Inr a' \<Longrightarrow> ar_id a' = ar_id a \<and> ar_build a' = ar_build a"
  shows "building.calls (known_artifact a) (updateArtifact env site a mutate)
    (\<lambda>a' d. known_artifact a' d \<and> ar_build a' = ar_build a)"
  unfolding updateArtifact_def
proof (intro build_calls_steps, goal_cases)
  case (1 now a')
  have "building.calls (known_artifact a) (Build_Transact env site (tx_write (UpdateArtifact a' (ar_version a))))
      (\<lambda>_ d. known_artifact a' d)"
  proof (rule build_calls_transact[OF assms(1) stays_known(2)], rule triple_last_write, goal_cases)
    case (1 d0 d1)
    have "GetArtifact (ar_id a) d0 = Some a"
      using known_artifact_current[OF 1(2,3)] same[OF \<open>mutate now a = Inr a'\<close>] by blast
    then have "build_effect d0 d1" using eff 1 \<open>mutate now a = Inr a'\<close> by blast
    then show ?case
      using UpdateArtifact_Inr[OF 1(3)] by (auto simp: known_artifact_def GetArtifact_def intro: build_effect_chain)
  qed
  then show ?case by (rule building.calls_seq) (use same[OF 1] in \<open>auto intro: building.calls_ret\<close>)
qed

lemma AttachSBOM_calls:
  "build_rely env \<Longrightarrow> building.calls (known_artifact a) (updateArtifact env site a (AttachSBOM digest mt))
     (\<lambda>a' d. known_artifact a' d \<and> ar_build a' = ar_build a)"
  by (rule updateArtifact_calls)
    (auto dest: AttachSBOM_moves artifact_moves_fields intro: sbom_attached)

lemma ApplyScan_same: "ApplyScan scan now a = Inr a' \<Longrightarrow> ar_id a' = ar_id a \<and> ar_build a' = ar_build a"
  by (auto simp: ApplyScan_def Let_def bump_def split: if_splits)

lemma ApplyScan_calls:
  "build_rely env \<Longrightarrow> building.calls (known_artifact a) (updateArtifact env site a (ApplyScan scan))
     (\<lambda>a' d. known_artifact a' d \<and> ar_build a' = ar_build a)"
  by (rule updateArtifact_calls) (auto dest: ApplyScan_same intro: scan_applied)

end
