(* ===== verification/Build_Pipeline.thy ===== *)
theory Build_Pipeline
  imports Build_Refinement
begin

text \<open>
  The stages of a run, its failures, and the other commands of the service as calls of the abstract
  store.
\<close>

section \<open>Start and failure of a run\<close>

lemma startBuild_calls:
  assumes "build_rely env"
  shows "building.calls (known_build b) (startBuild env actor b) (\<lambda>b' d. known_build b' d \<and> build_step b b')"
  unfolding startBuild_def
proof (intro build_calls_steps, goal_cases)
  case (1 started b')
  let ?fn = "bindE (build_now env) (\<lambda>now. seqE (tx_write (UpdateBuild b' (bd_version b)))
    (bindE (build_newID env ''evt'') (\<lambda>evt. seqE (tx_write (Build_AppendOutbox
      \<lparr>bo_id = evt, bo_topic = ''build.started.v1'', bo_aggregate = bd_id b',
       bo_payload = JObject [(''attempt'', VInt (bd_attempt b')), (''build_id'', VStr (bd_id b')),
         (''commit_sha'', VStr (sr_commit (bd_source b')))], bo_created_at = now\<rparr>))
    (bindE (build_newID env ''aud'') (\<lambda>aud. tx_write (Build_AppendAudit
      \<lparr>ba_id = aud, ba_tenant = bd_tenant b', ba_actor = actor, ba_action = ''build.start'',
       ba_resource_type = ''build'', ba_resource = bd_id b',
       ba_data = JObject [(''exact_revision'', VBool True)], ba_created_at = now\<rparr>))))))"
  have "building.calls (known_build b) (Build_Transact env ''startBuild'' ?fn)
      (\<lambda>_ d. known_build b' d \<and> build_step b b')"
  proof (intro build_calls_transact[OF assms stays_known(1)] build_run_steps, goal_cases)
    case (1 d0 now d1 evt d2 aud d3)
    have "b' \<noteq> b" using known_build_current[OF 1(2,3)] by force
    then have s: "build_step b b' \<and> bd_state b' \<noteq> BuildSucceeded"
      using Build_Transition_step[OF \<open>Build_Transition BuildFetchingSource started b = Inr b'\<close>] by auto
    note u = save_build_effect[OF 1(2,3) conjunct1[OF s] conjunct2[OF s]]
    have "build_effect d1 d2" "build_effect d2 d3" using 1 by (blast intro: build_event build_audited)+
    with u have e: "build_effect\<^sup>*\<^sup>* d0 d3" "build_effect\<^sup>*\<^sup>* d1 d3" by (blast intro: build_effect_chain)+
    have "build_ok d1" using u 1(1) by (blast intro: build_effect_keeps)
    with e u s show ?case by (blast intro: known_build_effects)
  qed
  then show ?case by (rule building.calls_seq) (auto intro: building.calls_ret)
qed

lemma triple_effects:
  assumes "triple (\<lambda>d. d = d0) m (\<lambda>_. build_effect\<^sup>*\<^sup>* d0)"
    and "\<And>d1. build_effect\<^sup>*\<^sup>* d0 d1 \<Longrightarrow> triple (\<lambda>d. d = d1) k Q"
  shows "triple (\<lambda>d. d = d0) (seqE m k) Q"
  using assms by (rule triple_part_unit)

lemma fail_run:
  assumes "known_build b d0" and "build_step b b'" and "bd_state b' \<noteq> BuildSucceeded"
  shows "triple (\<lambda>d. d = d0) (fail_tx env actor b' (bd_version b) a) (\<lambda>_. build_effect\<^sup>*\<^sup>* d0)"
  unfolding fail_tx_def
proof (intro build_run_steps, goal_cases)
  case (1 now d1 evt d2)
  have e: "build_effect d0 d1" "build_effect d1 d2"
    using save_build_effect[OF assms(1) 1(1) assms(2,3)] 1(2) by (blast intro: build_event)+
  show ?case
  proof (rule triple_effects)
    show "build_effect\<^sup>*\<^sup>* d2 d3 \<Longrightarrow> triple (\<lambda>d. d = d3) (bindE (build_newID env ''aud'') (\<lambda>aud.
        tx_write (Build_AppendAudit \<lparr>ba_id = aud, ba_tenant = bd_tenant b', ba_actor = actor,
          ba_action = ''build.failed'', ba_resource_type = ''build'', ba_resource = bd_id b',
          ba_data = failed_payload b', ba_created_at = now\<rparr>))) (\<lambda>_. build_effect\<^sup>*\<^sup>* d0)" for d3
      using e by (intro build_run_steps) (meson build_audited build_effect_chain rtranclp_trans)
  qed (intro build_run_steps; auto intro: build_effect_chain build_event)
qed

lemma fail_build_calls:
  assumes "build_rely env" and "building.stays P" and known: "\<And>d. P d \<Longrightarrow> known_build b d"
  shows "building.calls P (fail_build env actor b a cause) Q"
  unfolding fail_build_def
proof (intro build_calls_steps building.calls_seq[where R = "\<lambda>_. True"] build_calls_transact[OF assms(1,2)],
    goal_cases)
  case (1 state code r retryable now b' d0)
  then show ?case
    using Build_Fail_step[of state _ _ retryable now b b'] known[of d0] by (auto intro!: triple_post[OF fail_run[of b]])
qed

lemma or_fail_calls:
  assumes "build_rely env" and "building.stays P" and "\<And>d. P d \<Longrightarrow> known_build b d"
    and "\<And>v. r = Inr v \<Longrightarrow> building.calls P (k v) Q"
  shows "building.calls P (or_fail env actor b a r k) Q"
  unfolding or_fail_def by (intro build_calls_steps fail_build_calls assms)

section \<open>The stages\<close>

text \<open>What a finished run promises of the build and the artifact that it returns.\<close>

definition trusted_artifact :: "build \<Rightarrow> artifact \<Rightarrow> bool" where
  "trusted_artifact b a \<longleftrightarrow>
     bd_artifact b = ar_id a \<and> ar_build a = bd_id b \<and> ar_state a = ArtifactReleasable \<and> trust_chain a"

definition run_succeeded :: "build \<Rightarrow> build \<times> artifact \<Rightarrow> build_data \<Rightarrow> bool" where
  "run_succeeded b0 = (\<lambda>(b, a) d.
     bd_id b = bd_id b0 \<and> bd_tenant b = bd_tenant b0 \<and> bd_state b = BuildSucceeded \<and> trusted_artifact b a \<and>
     known_build b d \<and> known_artifact a d)"

lemma run_succeeded_step: "run_succeeded b r d \<Longrightarrow> build_step b0 b \<Longrightarrow> run_succeeded b0 r d"
  using build_moves_fields[OF build_step_moves, of b0 b] by (auto simp: run_succeeded_def)

definition known_build_pair :: "build \<Rightarrow> artifact \<Rightarrow> build_data \<Rightarrow> bool" where
  "known_build_pair b a d \<longleftrightarrow> known_build b d \<and> known_artifact a d \<and> ar_build a = bd_id b"

lemma stays_known_pair [simp]: "building.stays (known_build_pair b a)"
  unfolding known_build_pair_def by (intro building.stays_conj) simp_all

lemma known_pair_build: "known_build_pair b a d \<Longrightarrow> known_build b d"
  by (simp add: known_build_pair_def)

text \<open>Steps of one of the two keep what is known of the other.\<close>

lemma build_step_pair:
  assumes "building.calls (known_build b) m (\<lambda>b' d. known_build b' d \<and> build_step b b')"
  shows "building.calls (known_build_pair b a) m (\<lambda>b' d. known_build_pair b' a d \<and> build_step b b')"
proof -
  have "building.calls (\<lambda>d. (known_artifact a d \<and> ar_build a = bd_id b) \<and> known_build b d) m
      (\<lambda>b' d. (known_artifact a d \<and> ar_build a = bd_id b) \<and> known_build b' d \<and> build_step b b')"
    by (intro building.calls_frame assms building.stays_conj) simp_all
  then show ?thesis
    by (rule building.calls_post[OF building.calls_pre])
      (use build_moves_fields[OF build_step_moves, of b] in \<open>auto simp: known_build_pair_def\<close>)
qed

lemma artifact_step_pair:
  assumes "building.calls (known_artifact a) m (\<lambda>a' d. known_artifact a' d \<and> ar_build a' = ar_build a)"
  shows "building.calls (known_build_pair b a) m (\<lambda>a' d. known_build_pair b a' d)"
proof -
  have "building.calls (\<lambda>d. (known_build b d \<and> ar_build a = bd_id b) \<and> known_artifact a d) m
      (\<lambda>a' d. (known_build b d \<and> ar_build a = bd_id b) \<and> known_artifact a' d \<and> ar_build a' = ar_build a)"
    by (intro building.calls_frame assms building.stays_conj) simp_all
  then show ?thesis by (rule building.calls_post[OF building.calls_pre]) (auto simp: known_build_pair_def)
qed

lemma complete_run:
  assumes known: "known_build_pair b a d0" and sign: "AttachSignature s t a = Inr a1" "MarkReleasable now a1 = Inr a2"
    and succ: "Succeed (ar_id a2) now' b = Inr b'"
  shows "triple (\<lambda>d. d = d0) (complete_tx env actor b' (bd_version b) a2 (ar_version a))
    (\<lambda>_ d. build_effect\<^sup>*\<^sup>* d0 d \<and> run_succeeded b (b', a2) d)"
  unfolding complete_tx_def
proof (intro build_run_steps, goal_cases)
  case (1 d1 d2 now'' evt d3 evt' d4 aud d5)
  note rel = released_moves[OF sign]
  have fa: "ar_id a2 = ar_id a" "ar_build a2 = ar_build a" using rel artifact_moves_fields[of a a2] by simp_all
  have a: "GetArtifact (ar_id a) d0 = Some a"
    using known_artifact_current[OF _ 1(1) fa(1)] known by (simp add: known_build_pair_def)
  have b1: "tx_GetBuild i d1 = tx_GetBuild i d0" for i
    using UpdateArtifact_Inr[OF 1(1)] by (auto simp: tx_GetBuild_def)
  have ib: "bd_id b' = bd_id b" using succ
    by (auto simp: Succeed_def Build_Transition_def split: if_splits sum.splits)
  have kb: "known_build b d1" using known b1 by (simp add: known_build_def known_build_pair_def)
  note cur = known_build_current[OF kb 1(2) ib]
  then have nt: "\<not> Build_Terminal b"
    using succ by (auto simp: Succeed_def Build_Transition_def split: if_splits sum.splits)
  note step = Succeed_step[OF succ nt]
  have "build_effect d0 d2"
    using build_completed[OF a sign _ _ _ _ _ 1(1,2)] cur b1 known step fa by (simp add: known_build_pair_def)
  moreover have "build_effect d2 d3" "build_effect d3 d4" "build_effect d4 d5"
    using 1 by (blast intro: build_event build_audited)+
  ultimately have e: "build_effect\<^sup>*\<^sup>* d0 d5" by (blast intro: build_effect_chain)
  have "known_build b' d5 \<and> known_artifact a2 d5"
    using UpdateArtifact_Inr[OF 1(1)] UpdateBuild_Inr[OF 1(2)] 1(3-5) fa ib
    by (auto simp: known_build_def known_artifact_def tx_GetBuild_def GetArtifact_def Build_AppendOutbox_def
        Build_AppendAudit_def)
  with e step rel fa ib known build_moves_fields[OF build_step_moves[OF conjunct1[OF step]]] show ?case
    by (simp add: run_succeeded_def trusted_artifact_def known_build_pair_def)
qed

lemma sign_stage_calls:
  assumes "build_rely env"
  shows "building.calls (known_build_pair b a) (sign_stage env p actor b a) (run_succeeded b)"
  unfolding sign_stage_def
proof (intro or_fail_calls[OF assms] build_calls_steps known_pair_build stays_known_pair, assumption+, goal_cases)
  case (1 s u attached u' now1 a1 now2 a2 now3 b')
  have "building.calls (known_build_pair b a)
      (Build_Transact env ''RunBuild.complete'' (complete_tx env actor b' (bd_version b) a2 (ar_version a)))
      (\<lambda>_. run_succeeded b (b', a2))"
    using 1 by (intro build_calls_transact[OF assms stays_known_pair] complete_run) simp_all
  then show ?case by (rule building.calls_seq) (auto intro: building.calls_ret)
qed

lemma scan_stage_calls:
  assumes "build_rely env"
  shows "building.calls (known_build_pair b a) (scan_stage env p actor sbom b a) (run_succeeded b)"
  unfolding scan_stage_def
proof (intro or_fail_calls[OF assms] known_pair_build stays_known_pair, assumption, goal_cases)
  case (1 scan)
  show ?case
  proof (rule building.calls_bind[OF artifact_step_pair[OF ApplyScan_calls[OF assms]]], rule building.calls_if)
    fix a1
    show "building.calls (known_build_pair b a1) (fail_build env actor b (Some a1)
        (BErr BPolicyRejected (Join (ar_rejection_notes a1) ''; ''))) (run_succeeded b)"
      by (rule fail_build_calls[OF assms]) (auto intro: known_pair_build)
    show "building.calls (known_build_pair b a1)
        (bindE (advance env b BuildSigning) (\<lambda>b1. sign_stage env p actor b1 a1)) (run_succeeded b)"
    proof (rule building.calls_bind[OF build_step_pair[OF advance_calls[OF assms]]])
      show "building.calls (\<lambda>d. known_build_pair b1 a1 d \<and> build_step b b1) (sign_stage env p actor b1 a1)
          (run_succeeded b)" for b1
        by (intro building.calls_fact building.calls_post[OF sign_stage_calls[OF assms]])
          (rule run_succeeded_step)
    qed simp
  qed
qed

lemma inserted_pair:
  assumes "build_ok d0" and "known_build b d0"
    and "NewArtifact i (bd_tenant b) (bd_id b) repository digest mt t = Inr c" and "Quarantine now c = Inr a"
    and "InsertArtifact a d0 = Inr d1"
  shows "build_effect d0 d1 \<and> known_build_pair b a d1"
proof -
  obtain x where x: "tx_GetBuild (bd_id b) d0 = Some x" "build_moves b x"
    using assms(2) by (auto simp: known_build_def)
  then have e: "build_effect d0 d1"
    using build_moves_fields[OF x(2)] assms by (blast intro: artifact_inserted)
  then have "known_build b d1" using assms(1,2) known_build_effects by blast
  moreover have "known_artifact a d1"
    using InsertArtifact_Inr[OF assms(5)] by (simp add: known_artifact_def GetArtifact_def)
  ultimately show ?thesis using e new_artifact[OF assms(3,4)] by (simp add: known_build_pair_def)
qed

lemma publish_stage_calls:
  assumes "build_rely env"
  shows "building.calls (known_build b) (publish_stage env p actor old snapshot repository out b) (run_succeeded b)"
  unfolding publish_stage_def
proof (intro or_fail_calls[OF assms] build_calls_steps stays_known, assumption+, goal_cases)
  case (1 published art now created now' a)
  have "building.calls (known_build b) (Build_Transact env ''insertArtifact'' (tx_write (InsertArtifact a)))
      (\<lambda>_. known_build_pair b a)"
    by (intro build_calls_transact[OF assms stays_known(1)] triple_last_write)
      (use 1 inserted_pair in \<open>blast intro: build_effect_chain\<close>)
  then show ?case
  proof (rule building.calls_seq, goal_cases)
    case 1
    show ?case
    proof (intro or_fail_calls[OF assms] known_pair_build stays_known_pair, assumption+, goal_cases)
      case (1 sbom stored u)
      show ?case
      proof (rule building.calls_bind[OF artifact_step_pair[OF AttachSBOM_calls[OF assms]]],
          rule building.calls_bind[OF build_step_pair[OF advance_calls[OF assms]]])
        show "building.calls (\<lambda>d. known_build_pair b1 a1 d \<and> build_step b b1) (scan_stage env p actor sbom b1 a1)
            (run_succeeded b)" for b1 a1
          by (intro building.calls_fact building.calls_post[OF scan_stage_calls[OF assms]])
            (rule run_succeeded_step)
      qed simp
    qed
  qed
qed

lemma build_stage_calls:
  assumes "build_rely env"
  shows "building.calls (known_build b) (build_stage env p actor old snapshot b) (run_succeeded b)"
  unfolding build_stage_def
proof (rule building.calls_bind[OF advance_calls[OF assms]], simp, goal_cases)
  case (1 b1)
  let ?P = "\<lambda>b' d. known_build b' d \<and> build_step b b1"
  have st: "building.stays (\<lambda>d. known_build b' d \<and> F)" for b' F by (intro building.stays_conj) simp_all
  show ?case
  proof (intro or_fail_calls[OF assms] st, blast, goal_cases)
    case (1 detected)
    have sel: "building.calls (\<lambda>d. known_build b1 d \<and> build_step b b1) (selectExecution env b1 detected)
        (\<lambda>b2 d. known_build b2 d \<and> build_step b b1 \<and> build_step b1 b2)"
      by (rule building.calls_post[OF building.calls_keep_fact[OF selectExecution_calls[OF assms]]]) auto
    show ?case
    proof (rule building.calls_bind[OF sel], intro or_fail_calls[OF assms] build_calls_steps
        fail_build_calls[OF assms] st, blast, goal_cases)
      case (3 b2 secrets engine out)
      let ?F = "build_step b b1 \<and> build_step b1 b2"
      have adv: "building.calls (\<lambda>d. known_build b2 d \<and> ?F) (advance env b2 BuildExporting)
          (\<lambda>b3 d. known_build b3 d \<and> ?F \<and> build_step b2 b3)"
        by (rule building.calls_post[OF building.calls_keep_fact[OF advance_calls[OF assms]]]) simp_all
      show ?case
      proof (rule building.calls_bind[OF adv])
        show "building.calls (\<lambda>d. known_build b3 d \<and> ?F \<and> build_step b2 b3)
            (publish_stage env p actor old snapshot (repository_of env b2) out b3) (run_succeeded b)" for b3
          by (intro building.calls_fact building.calls_post[OF publish_stage_calls[OF assms]])
            (meson run_succeeded_step)
      qed
    qed blast+
  qed
qed

end
