(* ===== verification/Build_Commands.thy ===== *)
theory Build_Commands
  imports Build_Pipeline
begin

text \<open>
  The commands and queries of the build service as calls of the abstract store, with what they
  promise of the values that they return.
\<close>

section \<open>Loading, running and cancelling\<close>

text \<open>A build and its artifact as they were read.\<close>

definition loaded :: "string \<Rightarrow> string \<Rightarrow> build \<times> artifact option \<Rightarrow> build_data \<Rightarrow> bool" where
  "loaded tenant buildID = (\<lambda>(b, x) d.
     known_build b d \<and> bd_id b = buildID \<and> bd_tenant b = tenant \<and>
     (bd_state b = BuildSucceeded \<longrightarrow> (\<exists>a. x = Some a \<and> trusted_artifact b a \<and> known_artifact a d)))"

lemma succeeded_artifact:
  assumes ok: "build_ok d" and got: "tx_GetBuild i d = Some b" and "bd_state b = BuildSucceeded"
  shows "\<exists>a. FindArtifactByBuild (bd_id b) d = Some a \<and> trusted_artifact b a \<and> known_artifact a d"
proof -
  have i: "bd_id b = i" using got_build[OF got ok] .
  then obtain a where a: "map_of (bt_artifacts d) (bd_artifact b) = Some a" "ar_build a = i"
    "ar_state a = ArtifactReleasable"
    using rowsD[OF build_okD(5)[OF ok]] got assms(3) by (fastforce simp: tx_GetBuild_def success_row_def)
  obtain c where c: "FindArtifactByBuild i d = Some c"
    using no_artifact[OF _ ok a(1), of i] a(2) by (cases "FindArtifactByBuild i d") auto
  have ra: "ar_id a = bd_artifact b \<and> artifact_row d (bd_artifact b) a"
    using got_artifact[of "bd_artifact b" d a] a(1) ok by (simp add: GetArtifact_def)
  note fc = found_artifact[OF c ok]
  have "ar_id c = bd_artifact b"
    using apartD[OF build_okD(8)[OF ok], of "ar_id c" c "bd_artifact b" a] fc a
    by (auto simp: GetArtifact_def artifacts_apart_def)
  then have "c = a" using fc a(1) by (simp add: GetArtifact_def)
  then show ?thesis
    using c i a ra fc
    by (auto simp: trusted_artifact_def artifact_row_def artifact_trust_def known_artifact_def)
qed

lemma load_build_calls:
  assumes "build_rely env"
  shows "building.calls (\<lambda>_. True) (load_build env site tenant buildID) (loaded tenant buildID)"
  unfolding load_build_def
proof (intro build_calls_transact[OF assms building.stays_fact] build_run_steps, goal_cases)
  case (1 d0 b)
  then show ?case
    using succeeded_artifact[OF 1(1,3)] got_build[OF 1(3,1)] got_known_build[OF 1(3,1)]
    by (auto simp: loaded_def)
qed

lemma stays_loaded: "building.stays (loaded tenant buildID r)"
proof (cases r)
  case (Pair b x)
  have "loaded tenant buildID r = (\<lambda>d. known_build b d \<and> (bd_id b = buildID \<and> bd_tenant b = tenant) \<and>
      (bd_state b = BuildSucceeded \<longrightarrow> (\<exists>a. x = Some a \<and> trusted_artifact b a \<and> known_artifact a d)))"
    by (simp add: loaded_def Pair)
  moreover have "building.stays (\<lambda>d. bd_state b = BuildSucceeded \<longrightarrow>
      (\<exists>a. x = Some a \<and> trusted_artifact b a \<and> known_artifact a d))"
    unfolding building.stays_def using known_artifact_effects by blast
  ultimately show ?thesis by (simp add: building.stays_conj)
qed

text \<open>
  A run that returns a value has run the build to its end, or found it ended: then the build is
  terminal, and a success comes with a trusted artifact.
\<close>

lemma RunBuild_calls:
  assumes "build_rely env"
  shows "building.calls (\<lambda>_. True) (RunBuild env tenant actor buildID)
    (\<lambda>r d. loaded tenant buildID r d \<and> Build_Terminal (fst r))"
  unfolding RunBuild_def
proof (rule building.calls_bind[OF load_build_calls[OF assms]], intro build_calls_steps, goal_cases)
  case (1 r b old)
  then show ?case by (intro building.calls_ret) simp
next
  case (2 r b old p)
  let ?F = "bd_id b = buildID \<and> bd_tenant b = tenant"
  have start: "building.calls (loaded tenant buildID (b, old)) (startBuild env actor b)
      (\<lambda>b1 d. known_build b1 d \<and> build_step b b1 \<and> ?F)"
    by (rule building.calls_post[OF building.calls_pre[OF building.calls_keep_fact[OF startBuild_calls[OF assms]]]])
      (auto simp: loaded_def)
  show ?case
    unfolding \<open>r = (b, old)\<close>
  proof (rule building.calls_bind[OF start], rule building.calls_fact,
      intro or_fail_calls[OF assms] stays_known, assumption, goal_cases)
    case (1 b1 snapshot)
    then have f: "bd_id b1 = buildID" "bd_tenant b1 = tenant"
      using build_moves_fields[OF build_step_moves, of b b1] by auto
    show ?case
    proof (rule building.calls_bind[OF build_stage_calls[OF assms]], rule building.calls_case_prod)
      fix r :: "build \<times> artifact" and b2 a assume "r = (b2, a)"
      then show "building.calls (run_succeeded b1 r) (ret (b2, Some a))
          (\<lambda>r d. loaded tenant buildID r d \<and> Build_Terminal (fst r))"
        by (intro building.calls_ret)
          (simp add: run_succeeded_def loaded_def Build_Terminal_def terminal_state_def f)
    qed
  qed
qed

lemma CancelBuild_calls:
  assumes "build_rely env"
  shows "building.calls (\<lambda>_. True) (CancelBuild env tenant buildID)
    (\<lambda>b d. known_build b d \<and> bd_id b = buildID \<and> Build_Terminal b)"
  unfolding CancelBuild_def
proof (rule building.calls_bind[OF load_build_calls[OF assms]], intro build_calls_steps, goal_cases)
  case (1 r b x)
  then show ?case by (intro building.calls_ret) (simp add: loaded_def)
next
  case (2 r b x)
  have cancel: "building.calls (known_build b) (updateBuild env ''CancelBuild.write'' b Build_Cancel)
      (\<lambda>b' d. known_build b' d \<and> build_step b b' \<and> bd_state b' = BuildCanceled)"
    by (rule building.calls_post[OF updateBuild_saves[OF assms]])
      (auto dest: Build_Cancel_step simp: build_step_def)
  show ?case
  proof (rule building.calls_seq[where R = "\<lambda>d. known_build b d \<and> bd_id b = buildID"])
    show "building.calls (loaded tenant buildID r)
        (if bd_state b \<noteq> BuildQueued \<and> bd_backend b \<noteq> [] then
           case builderForBackend env (bd_backend b) of
             None \<Rightarrow> throw (BErr BUnavailable ''selected build backend is unavailable'')
           | Some engine \<Rightarrow>
               (case bl_cancel engine (bd_id b) of
                  Inl e \<Rightarrow> throw (BWrap BPlatformFailure ''cancel build backend'' e)
                | Inr _ \<Rightarrow> ret ())
         else ret ()) (\<lambda>_ d. known_build b d \<and> bd_id b = buildID)"
      by (intro build_calls_steps building.calls_ret) (simp_all add: loaded_def \<open>r = (b, x)\<close>)
  next
    show "building.calls (\<lambda>d. known_build b d \<and> bd_id b = buildID)
        (updateBuild env ''CancelBuild.write'' b Build_Cancel)
        (\<lambda>b d. known_build b d \<and> bd_id b = buildID \<and> Build_Terminal b)"
      by (rule building.calls_post[OF building.calls_keep_fact[OF cancel]])
        (use build_moves_fields[OF build_step_moves, of b] in
          \<open>auto simp: Build_Terminal_def terminal_state_def\<close>)
  qed
qed

section \<open>Requests\<close>

text \<open>A recorded answer, which nothing changes.\<close>

definition build_answered ::
  "string \<Rightarrow> string \<Rightarrow> string \<Rightarrow> string \<Rightarrow> request_build_result \<Rightarrow> build_data \<Rightarrow> bool" where
  "build_answered tenant key command hash r d \<longleftrightarrow>
     (\<exists>v. Build_GetIdempotency tenant key d = Some v \<and> bi_command v = command \<and> bi_request_hash v = hash \<and>
        bi_completed v \<and> bi_result v = r)"

lemma build_answered_later: "build_answered tenant key command hash r d \<Longrightarrow> build_later d d' \<Longrightarrow> build_answered tenant key command hash r d'"
  unfolding build_answered_def Build_GetIdempotency_def build_later_def by (fastforce dest: growsD)

lemma stays_answered [simp]: "building.stays (build_answered tenant key command hash r)"
  unfolding building.stays_def by (blast intro: build_answered_later dest: build_effects_later)

lemma build_replay_run:
  "Build_GetIdempotency tenant key d0 = Some v \<Longrightarrow>
   triple (\<lambda>d. d = d0) (build_replay command hash progress v)
     (\<lambda>r d. build_effect\<^sup>*\<^sup>* d0 d \<and> build_answered tenant key command hash r d)"
  unfolding build_replay_def by (intro build_run_steps) (auto simp: build_answered_def)

lemma NewBuild_Inr:
  "NewBuild u i tenant identity correlation source config builder runImage platform now = Inr b \<Longrightarrow>
     bd_id b = i \<and> bd_tenant b = tenant \<and> bd_identity b = identity \<and> bd_attempt b = 1 \<and> new_build b"
  using NewBuild_inside by (fastforce simp: NewBuild_def new_build_def split: if_splits sum.splits)

lemma Retry_Inr:
  "Retry u i correlation now b = Inr r \<Longrightarrow>
     bd_id r = i \<and> bd_tenant r = bd_tenant b \<and> bd_identity r = bd_identity b \<and>
     bd_attempt r = bd_attempt b + 1 \<and> new_build r \<and> Build_Terminal b \<and> bd_state b \<noteq> BuildSucceeded"
  by (auto simp: Retry_def new_build_def inside_build_def dest!: NewBuild_Inr split: if_splits sum.splits)

lemma put_answer:
  assumes "Build_GetIdempotency (bi_tenant v) (bi_key v) d = None" and "bi_completed v"
    and "tx_GetBuild (bd_id (rq_build (bi_result v))) d = Some (rq_build (bi_result v))"
    and "bd_tenant (rq_build (bi_result v)) = bi_tenant v" and "PutIdempotency v d = Inr d'"
  shows "build_effect d d' \<and> build_answered (bi_tenant v) (bi_key v) (bi_command v) (bi_request_hash v) (bi_result v) d'"
proof -
  have "build_effect d d'" by (rule build_key_recorded[OF assms(1-3) _ assms(4,5)]) simp
  moreover have "Build_GetIdempotency (bi_tenant v) (bi_key v) d' = Some v"
    using assms(5) by (auto simp: PutIdempotency_def Let_def Build_GetIdempotency_def split: if_splits)
  ultimately show ?thesis using assms(2) by (auto simp: build_answered_def)
qed

text \<open>An inserted build and the answer that names it.\<close>

lemma insert_answer:
  assumes "new_build b" and "InsertBuild b d0 = Inr d1" and "PutIdempotency v d1 = Inr d2"
    and "Build_AppendOutbox o1 d2 = Inr d3" and "Build_AppendAudit a1 d3 = Inr d4"
    and "Build_GetIdempotency (bi_tenant v) (bi_key v) d0 = None" and "bi_completed v"
    and "rq_build (bi_result v) = b" and "bd_tenant b = bi_tenant v" and ok: "build_ok d0"
  shows "build_effect\<^sup>*\<^sup>* d0 d4 \<and>
    build_answered (bi_tenant v) (bi_key v) (bi_command v) (bi_request_hash v) (bi_result v) d4"
proof -
  have e1: "build_effect d0 d1" using assms(1,2) by (rule build_inserted)
  have "Build_GetIdempotency (bi_tenant v) (bi_key v) d1 = None"
    using InsertBuild_Inr[OF assms(2)] assms(6) by (auto simp: Build_GetIdempotency_def)
  moreover have "tx_GetBuild (bd_id b) d1 = Some b" using builds.ins_get[OF assms(2)] .
  ultimately have e2: "build_effect d1 d2 \<and>
      build_answered (bi_tenant v) (bi_key v) (bi_command v) (bi_request_hash v) (bi_result v) d2"
    using assms(3,7-9) by (intro put_answer) simp_all
  have e3: "build_effect d2 d3" "build_effect d3 d4" using assms(4,5) by (blast intro: build_event build_audited)+
  have "build_ok d2" using e1 e2 ok by (blast intro: build_effect_keeps)
  then have "build_later d2 d4" using e3 by (blast intro: build_effects_later build_effect_chain)
  with e1 e2 e3 show ?thesis by (blast intro: build_effect_chain build_answered_later)
qed

lemma seqE_bindE: "seqE (bindE m k) l = bindE m (\<lambda>a. seqE (k a) l)"
  by (simp add: seqE_def bindE_assoc)

lemma RequestBuild_run:
  assumes ok: "build_ok d0"
  shows "triple (\<lambda>d. d = d0) (RequestBuild_tx env cmd identity hash)
    (\<lambda>r d. build_effect\<^sup>*\<^sup>* d0 d \<and> build_answered (qb_tenant cmd) (qb_key cmd) ''build.request.v1'' hash r d)"
  unfolding RequestBuild_tx_def completeIdempotency_def seqE_bindE
proof (intro build_run_steps build_replay_run, goal_cases)
  case (1 now bld b j d1 now' d2 evt d3 aud d4)
  note new = NewBuild_Inr[OF 1(3)]
  show ?case
    using insert_answer[OF _ 1(5,6,7,8)] new 1(1,4) ok by simp
next
  case (2 b now d1)
  obtain k where k: "map_of (bt_builds d0) k = Some b" "bd_tenant b = qb_tenant cmd"
    using FindBuildByIdentity_Some(1,2)[OF build_okD(1)[OF ok] 2(2)] by blast
  then have "tx_GetBuild (bd_id b) d0 = Some b"
    using got_build[of k d0 b] ok by (simp add: tx_GetBuild_def)
  with put_answer[OF _ _ _ _ 2(3)] 2(1) k(2) show ?case
    by (auto simp: reused_build_def intro: build_effect_chain)
qed

lemma RetryBuild_run:
  assumes ok: "build_ok d0"
  shows "triple (\<lambda>d. d = d0) (RetryBuild_tx env cmd hash)
    (\<lambda>r d. build_effect\<^sup>*\<^sup>* d0 d \<and> build_answered (yb_tenant cmd) (yb_key cmd) ''build.retry.v1'' hash r d)"
  unfolding RetryBuild_tx_def
proof (intro build_run_steps build_replay_run, goal_cases)
  case (1 b bld created r j d1 now d2 evt d3 aud d4)
  note new = Retry_Inr[OF 1(5)]
  show ?case
    using insert_answer[OF _ 1(7,8,9,10)] new 1(1,3,6) ok by simp
qed

text \<open>The digests of the requests, which the answers are recorded with.\<close>

definition request_hash :: "benv \<Rightarrow> request_build_command \<Rightarrow> string \<Rightarrow> bool" where
  "request_hash env cmd hash \<longleftrightarrow>
     (\<exists>identity. ComputeBuildIdentity (bv_hashing env) (qb_source cmd) (qb_config cmd) (qb_builder_digest cmd)
        (qb_run_image_digest cmd) (qb_platform_version cmd) = Inr identity \<and>
      hash = bh_json (bv_hashing env) (JObject [(''identity'', VStr identity)]))"

lemma RequestBuild_calls:
  assumes "build_rely env"
  shows "building.calls (\<lambda>_. True) (RequestBuild env cmd)
    (\<lambda>r d. \<exists>hash. request_hash env cmd hash \<and>
       build_answered (qb_tenant cmd) (qb_key cmd) ''build.request.v1'' hash r d)"
  unfolding RequestBuild_def
proof (intro build_calls_steps, goal_cases)
  case (1 identity)
  have "building.calls (\<lambda>_. True) (Build_Transact env ''RequestBuild'' (RequestBuild_tx env cmd identity
      (bh_json (bv_hashing env) (JObject [(''identity'', VStr identity)]))))
    (build_answered (qb_tenant cmd) (qb_key cmd) ''build.request.v1''
      (bh_json (bv_hashing env) (JObject [(''identity'', VStr identity)])))"
    by (intro build_calls_transact[OF assms building.stays_fact] RequestBuild_run)
  then show ?case by (rule building.calls_post) (use 1 in \<open>auto simp: request_hash_def\<close>)
qed

lemma RetryBuild_calls:
  assumes "build_rely env"
  shows "building.calls (\<lambda>_. True) (RetryBuild env cmd)
    (build_answered (yb_tenant cmd) (yb_key cmd) ''build.retry.v1''
      (bh_json (bv_hashing env) (JObject [(''build_id'', VStr (yb_build cmd))])))"
  unfolding RetryBuild_def
  by (intro build_calls_steps build_calls_transact[OF assms building.stays_fact] RetryBuild_run)

section \<open>Queries\<close>

lemma StreamBuildLogs_calls:
  "build_rely env \<Longrightarrow> building.calls (\<lambda>_. True) (StreamBuildLogs env tenant buildID) (\<lambda>_ _. True)"
  unfolding StreamBuildLogs_def
  by (intro build_calls_steps building.calls_bind[OF load_build_calls])
    (simp_all add: building.calls_def of_result_def)

lemma got_artifact_run:
  "build_ok d0 \<Longrightarrow> GetArtifact i d0 = Some a \<Longrightarrow> known_artifact a d0 \<and> ar_id a = i \<and>
     (ar_state a = ArtifactReleasable \<longrightarrow> trust_chain a)"
  using got_artifact[of i d0 a] by (auto simp: known_artifact_def artifact_row_def artifact_trust_def)

text \<open>An artifact that the decision allows is in the store, releasable and trusted, for good.\<close>

definition releasable_row :: "string \<Rightarrow> build_data \<Rightarrow> bool" where
  "releasable_row i d \<longleftrightarrow>
     (\<exists>a. GetArtifact i d = Some a \<and> ar_state a = ArtifactReleasable \<and> trust_chain a)"

lemma known_releasable:
  "known_artifact a d \<Longrightarrow> ar_state a = ArtifactReleasable \<Longrightarrow> trust_chain a \<Longrightarrow> releasable_row (ar_id a) d"
  using artifact_moves_fields by (fastforce simp: known_artifact_def releasable_row_def artifact_done_def)

lemma known_done: "known_artifact a d \<Longrightarrow> ar_state a = ArtifactReleasable \<Longrightarrow> GetArtifact (ar_id a) d = Some a"
  using artifact_moves_fields by (fastforce simp: known_artifact_def artifact_done_def)

lemma EvaluateArtifact_calls:
  assumes "build_rely env"
  shows "building.calls (\<lambda>_. True) (EvaluateArtifact env tenant i) (\<lambda>r d. rd_allowed r \<longrightarrow> releasable_row i d)"
  unfolding EvaluateArtifact_def
proof (rule building.calls_bind)
  show "building.calls (\<lambda>_. True) (Build_Transact env ''EvaluateArtifact''
      (bindE (tx_get (GetArtifact i)) (\<lambda>found.
        case found of None \<Rightarrow> throw (BErr BNotFound ''artifact not found'') | Some a \<Rightarrow>
        if ar_tenant a \<noteq> tenant then throw (BErr BNotFound ''artifact not found'') else ret a)))
    (\<lambda>a d. known_artifact a d \<and> ar_id a = i \<and> (ar_state a = ArtifactReleasable \<longrightarrow> trust_chain a))"
    by (intro build_calls_transact[OF assms building.stays_fact] build_run_steps)
      (auto dest: got_artifact_run)
qed (auto intro!: building.calls_ret known_releasable)

lemma policy_verdict_allowed:
  "policy_verdict registry verify version r a = Inr x \<Longrightarrow> rd_allowed x \<Longrightarrow>
     policy_trusts a \<and> ar_repository a = Repository r \<and> ar_digest a = Digest r \<and> ar_media_type a = MediaType r \<and>
     (\<exists>s. ar_signature a = Some s \<and> verify (ar_repository a) s = Inr ())"
  by (auto simp: policy_verdict_def Let_def policy_trusts_def split: if_splits sum.splits option.splits)

definition policy_grants :: "benv \<Rightarrow> artifact_ref \<Rightarrow> build_data \<Rightarrow> bool" where
  "policy_grants env r d \<longleftrightarrow>
     (\<exists>a s verify. GetArtifact (ArtifactID r) d = Some a \<and> Ref a = r \<and> ar_state a = ArtifactReleasable \<and>
        trust_chain a \<and> ar_signature a = Some s \<and> bv_verifier env = Some verify \<and>
        verify (Repository r) s = Inr ())"

lemma IsReleasable_calls:
  assumes "build_rely env"
  shows "building.calls (\<lambda>_. True) (IsReleasable env version r)
    (\<lambda>x d. rd_allowed x \<longrightarrow> policy_grants env r d)"
  unfolding IsReleasable_def
proof (intro build_calls_steps, goal_cases)
  case (1 rg vf registry verify)
  then have pv: "bv_verifier env = Some verify" by simp
  show ?case
  proof (rule building.calls_bind)
    show "building.calls (\<lambda>_. True) (Build_Transact env ''IsReleasable''
        (bindE (tx_get (GetArtifact (ArtifactID r))) (\<lambda>found.
          case found of None \<Rightarrow> throw (BErr BNotFound ''artifact not found'') | Some a \<Rightarrow> ret a)))
      (\<lambda>a d. known_artifact a d \<and> ar_id a = ArtifactID r \<and> (ar_state a = ArtifactReleasable \<longrightarrow> trust_chain a))"
      by (intro build_calls_transact[OF assms building.stays_fact] build_run_steps)
        (auto dest: got_artifact_run)
  next
    fix a
    show "building.calls
        (\<lambda>d. known_artifact a d \<and> ar_id a = ArtifactID r \<and> (ar_state a = ArtifactReleasable \<longrightarrow> trust_chain a))
        (of_result (policy_verdict registry verify
          (if version = [] then ''artifact-trust-v1'' else version) r a))
        (\<lambda>x d. rd_allowed x \<longrightarrow> policy_grants env r d)"
    proof (unfold building.calls_def of_result_def, intro allI impI, goal_cases)
      case (1 w)
      have "policy_grants env r (db w)"
        if "policy_verdict registry verify v r a = Inr x" "rd_allowed x" for v x
        using policy_verdict_allowed[OF that] 1 known_done[of a "db w"] pv
        by (cases r) (auto simp: policy_grants_def policy_trusts_def Ref_def)
      then show ?case by auto
    qed
  qed
qed

end
