(* ===== verification/Build_Machine.thy ===== *)
theory Build_Machine
  imports Build_Commands
begin

text \<open>
  The build service as a machine: any of its methods, called in any environment, with other calls
  between its transactions.
\<close>

datatype build_call =
    CallRequestBuild request_build_command
  | CallRetryBuild retry_build_command
  | CallGetBuild string string
  | CallStreamBuildLogs string string
  | CallEvaluateArtifact string string
  | CallIsReleasable string artifact_ref
  | CallRunBuild string string string
  | CallCancelBuild string string

definition build_discard :: "'a bact \<Rightarrow> unit bact" where
  "build_discard m = bindE m (\<lambda>_. ret ())"

fun build_perform :: "benv \<Rightarrow> build_call \<Rightarrow> unit bact" where
  "build_perform env (CallRequestBuild cmd) = build_discard (RequestBuild env cmd)"
| "build_perform env (CallRetryBuild cmd) = build_discard (RetryBuild env cmd)"
| "build_perform env (CallGetBuild tenant i) = build_discard (Service_GetBuild env tenant i)"
| "build_perform env (CallStreamBuildLogs tenant i) = build_discard (StreamBuildLogs env tenant i)"
| "build_perform env (CallEvaluateArtifact tenant i) = build_discard (EvaluateArtifact env tenant i)"
| "build_perform env (CallIsReleasable version r) = build_discard (IsReleasable env version r)"
| "build_perform env (CallRunBuild tenant actor i) = build_discard (RunBuild env tenant actor i)"
| "build_perform env (CallCancelBuild tenant i) = build_discard (CancelBuild env tenant i)"

lemma build_discard_snd [simp]: "snd (build_discard m w) = snd (m w)"
  by (cases "m w"; cases "fst (m w)") (auto simp: build_discard_def bindE_def ret_def)

lemma build_discard_calls:
  "building.calls P m Q \<Longrightarrow> building.calls P (build_discard m) (\<lambda>_ _. True)"
  unfolding build_discard_def by (rule building.calls_bind) (auto intro: building.calls_ret)

lemma build_perform_calls:
  "build_rely env \<Longrightarrow> building.calls (\<lambda>_. True) (build_perform env c) (\<lambda>_ _. True)"
  by (cases c) (auto simp: Service_GetBuild_def intro: build_discard_calls RequestBuild_calls RetryBuild_calls
      load_build_calls StreamBuildLogs_calls EvaluateArtifact_calls IsReleasable_calls RunBuild_calls
      CancelBuild_calls)

definition build_machine_step :: "bworld \<Rightarrow> bworld \<Rightarrow> bool" where
  "build_machine_step w w' \<longleftrightarrow> (\<exists>env c. build_rely env \<and> w' = snd (build_perform env c w))"

lemma build_machine_stepI: "build_rely env \<Longrightarrow> build_machine_step w (snd (build_perform env c w))"
  by (auto simp: build_machine_step_def)

lemma build_machine_effects:
  "build_machine_step w w' \<Longrightarrow> build_ok (db w) \<Longrightarrow> build_effect\<^sup>*\<^sup>* (db w) (db w')"
  by (auto simp: build_machine_step_def intro: building.calls_effects[OF build_perform_calls])

interpretation builder_machine: safe_machine
  "\<lambda>w. db w = build_newState" build_machine_step "\<lambda>w. build_ok (db w)"
  by unfold_locales (auto simp: build_ok_newState dest: build_machine_effects intro: building.effects_keep)

lemma build_run_effects:
  assumes "build_machine_step\<^sup>*\<^sup>* w w'" and "build_ok (db w)"
  shows "build_effect\<^sup>*\<^sup>* (db w) (db w')"
  using assms(1)
proof (induction rule: rtranclp_induct)
  case (step y z)
  have "build_ok (db y)" using builder_machine.run_inv[OF step.hyps(1)] assms(2) by simp
  with step show ?case by (auto dest: build_machine_effects intro: rtranclp_trans)
qed simp

text \<open>What other calls have done is what a call may find between its transactions.\<close>

lemma build_rely_calls:
  assumes "\<And>site d. \<exists>w w'. d = db w \<and> bv_others env site d = db w' \<and> build_machine_step\<^sup>*\<^sup>* w w'"
  shows "build_rely env"
  unfolding build_rely_def
proof (intro allI impI)
  fix site d assume "build_ok d"
  moreover obtain w w' where "d = db w" "bv_others env site d = db w'" "build_machine_step\<^sup>*\<^sup>* w w'"
    using assms by blast
  ultimately show "build_effect\<^sup>*\<^sup>* d (bv_others env site d)" using build_run_effects by metis
qed

lemma build_rely_quiet: "bv_others env = (\<lambda>_ d. d) \<Longrightarrow> build_rely env"
  by (simp add: build_rely_def)

end
