(* ===== verification/Build_Scenario.thy ===== *)
theory Build_Scenario
  imports Build_Machine Runtime_Names
begin

text \<open>
  A build that is requested, run to its end and evaluated, computed on a concrete environment: a
  state in which the hypotheses of the properties hold.
\<close>

section \<open>The environment\<close>

definition forge_digest :: string where
  "forge_digest = ''sha256:'' @ replicate 64 (CHR ''b'')"

definition forge_published :: published_artifact where
  "forge_published = \<lparr>pb_repository = ''reg/app'', pb_digest = forge_digest, pb_media_type = ''oci''\<rparr>"

definition forge_registry :: image_registry where
  "forge_registry =
     \<lparr>ry_publish = (\<lambda>_ _ _. Inr forge_published), ry_resolve = (\<lambda>_ _. Inr forge_published),
      ry_attach = (\<lambda>_ _ _ _. Inr forge_digest)\<rparr>"

definition forge_scan :: "bool \<Rightarrow> scan_result" where
  "forge_scan passed =
     \<lparr>sc_scanner = ''s'', sc_policy_version = ''p'', sc_passed = passed, sc_highest_severity = [],
      sc_findings_digest = forge_digest, sc_reasons = (if passed then [] else [''bad'']), sc_scanned_at = 5000\<rparr>"

definition forge_signature :: signature_record where
  "forge_signature =
     \<lparr>sg_issuer = ''i'', sg_algorithm = ''a'', sg_digest = forge_digest, sg_signature = ''x'',
      sg_attachment_digest = [], sg_signed_at = 6000\<rparr>"

definition forge_env :: "bool \<Rightarrow> benv" where
  "forge_env passed =
     \<lparr>bv_hashing = \<lparr>bh_unicode = ascii_tables, bh_json = (\<lambda>_. ''h'')\<rparr>, bv_store = True,
      bv_clock = Some (\<lambda>n. 1000 + int n),
      bv_ids = Some (\<lambda>n pre. pre @ [''abcdefghijklmnopqrstuvwxyz'' ! n]),
      bv_fetcher = Some (\<lambda>_ r _. Inr \<lparr>ss_revision = r, ss_path = ''/w'', ss_size = 1, ss_files = 1\<rparr>),
      bv_detector = Some (\<lambda>_ _. Inr \<lparr>dt_runtime = ''go'', dt_backend = ExecutionBuildpacks, dt_buildpack = ''bp'',
        dt_entrypoint = [], dt_evidence = []\<rparr>),
      bv_buildpacks = Some \<lparr>bl_build = (\<lambda>_. Inr \<lparr>ou_path = ''o'', ou_digest = forge_digest,
        ou_media_type = ''oci'', ou_metadata = []\<rparr>), bl_cancel = (\<lambda>_. Inr ())\<rparr>,
      bv_dockerfile = None, bv_registry = Some forge_registry,
      bv_sbom = Some (\<lambda>_ _. Inr \<lparr>sb_digest = forge_digest, sb_media_type = ''spdx'', sb_document = ''d''\<rparr>),
      bv_scanner = Some (\<lambda>_ _. Inr (forge_scan passed)), bv_signer = Some (\<lambda>_ _. Inr forge_signature),
      bv_verifier = Some (\<lambda>_ _. Inr ()), bv_secrets = None, bv_logs = Some (\<lambda>_. Inr ''log''),
      bv_limits = \<lparr>sl_max_bytes = 10, sl_max_files = 10, sl_submodules = False\<rparr>, bv_repository_base = [],
      bv_ctx = (\<lambda>_. None), bv_others = (\<lambda>_ d. d)\<rparr>"

definition forge_source :: source_revision where
  "forge_source =
     \<lparr>sr_project = ''p1'', sr_repository = ''repo'', sr_branch = ''main'', sr_commit = ''0123456'', sr_root = ''./app''\<rparr>"

definition forge_config :: build_config where
  "forge_config =
     \<lparr>bc_type = [], bc_runtime = ''go'', bc_root = [], bc_dockerfile = [], bc_command = [], bc_env = [],
      bc_secret_refs = []\<rparr>"

definition forge_request :: "string \<Rightarrow> request_build_command" where
  "forge_request key =
     \<lparr>qb_tenant = ''acme'', qb_actor = ''ann'', qb_correlation = ''c1'', qb_key = key, qb_source = forge_source,
      qb_config = forge_config, qb_builder_digest = forge_digest, qb_run_image_digest = forge_digest,
      qb_platform_version = ''v1''\<rparr>"

definition forge_empty :: bworld where
  "forge_empty = \<lparr>db = build_newState, id_seq = 0, clk_seq = 0\<rparr>"

lemma forge_rely [simp]: "build_rely (forge_env passed)"
  by (rule build_rely_quiet) (simp add: forge_env_def)

lemma forge_trims [simp]:
  "TrimSpace ''acme'' = ''acme''" "TrimSpace ''ann'' = ''ann''" "TrimSpace ''c1'' = ''c1''" "TrimSpace ''k1'' = ''k1''"
  "TrimSpace ''k2'' = ''k2''" "TrimSpace ''p1'' = ''p1''" "TrimSpace ''repo'' = ''repo''" "TrimSpace ''main'' = ''main''"
  "TrimSpace ''v1'' = ''v1''" "TrimSpace ''go'' = ''go''" "TrimSpace ''bp'' = ''bp''" "TrimSpace ''bldid_h'' = ''bldid_h''"
  "TrimSpace ''blda'' = ''blda''" "TrimSpace ''artf'' = ''artf''" "TrimSpace ''reg/app'' = ''reg/app''"
  "TrimSpace ''oci'' = ''oci''" "TrimSpace ''spdx'' = ''spdx''" "TrimSpace ''s'' = ''s''" "TrimSpace ''p'' = ''p''"
  "TrimSpace ''i'' = ''i''" "TrimSpace ''a'' = ''a''" "TrimSpace ''x'' = ''x''"
  by code_simp+

lemma forge_valid [simp]: "ValidDigest forge_digest"
  by code_simp

lemma forge_digest_nonempty [simp]: "forge_digest \<noteq> []"
  by (simp add: forge_digest_def)

lemma forge_lower [simp]: "ToLower u ''go'' = ''go''" "ToLower u ''0123456'' = ''0123456''"
  by (simp_all add: ToLower_plain plain_char_def)

definition forge_normal :: build_config where
  "forge_normal = forge_config\<lparr>bc_type := ''auto''\<rparr>"

lemma forge_normalized [simp]:
  "NormalizeBuildInput u forge_source forge_config = Inr (forge_source\<lparr>sr_root := ''app''\<rparr>, forge_normal)"
proof -
  have "Source_Validate forge_source = Inr ()" by code_simp
  moreover have "normalizeRelativePath ''./app'' True = Inr ''app''" "normalizeRelativePath [] True = Inr []"
    by code_simp+
  moreover have "NormalizeConfig u forge_config = Inr forge_normal"
    using \<open>normalizeRelativePath [] True = Inr []\<close>
    by (simp add: NormalizeConfig_def forge_config_def forge_normal_def BuildTypeAuto_def BuildTypeDockerfile_def)
  ultimately show ?thesis
    by (simp add: NormalizeBuildInput_def forge_source_def forge_normal_def forge_config_def)
qed

lemma forge_identity [simp]:
  "ComputeBuildIdentity (bv_hashing (forge_env passed)) forge_source forge_config forge_digest forge_digest ''v1'' =
     Inr ''bldid_h''"
  by (simp add: ComputeBuildIdentity_def forge_env_def)

section \<open>A request\<close>

definition queued_build :: build where
  "queued_build =
     \<lparr>bd_id = ''blda'', bd_tenant = ''acme'', bd_identity = ''bldid_h'', bd_source = forge_source\<lparr>sr_root := ''app''\<rparr>,
      bd_config = forge_normal, bd_builder_digest = forge_digest, bd_run_image_digest = forge_digest,
      bd_platform_version = ''v1'', bd_runtime = [], bd_backend = [], bd_buildpack = [], bd_state = BuildQueued,
      bd_correlation = ''c1'', bd_original_correlation = ''c1'', bd_artifact = [], bd_failure_code = [],
      bd_failure_message = [], bd_retryable = False, bd_attempt = 1, bd_version = 1, bd_created_at = 1000,
      bd_updated_at = 1000, bd_started_at = 0, bd_completed_at = 0\<rparr>"

definition queued_answer :: request_build_result where
  "queued_answer = \<lparr>rq_build = queued_build, rq_artifact = None, rq_reused = False\<rparr>"

definition requested_world :: "bool \<Rightarrow> bworld" where
  "requested_world passed = snd (RequestBuild (forge_env passed) (forge_request ''k1'') forge_empty)"

lemmas forge_run_defs = tx_write_def tx_get_def bindE_def seqE_def ret_def throw_def of_result_def
  Build_Transact_def shared_transact_def build_configured_def build_now_def build_newID_def Let_def

lemmas forge_store_defs = Build_GetIdempotency_def PutIdempotency_def Build_AppendOutbox_def Build_AppendAudit_def
  tx_GetBuild_def GetArtifact_def InsertBuild_def InsertArtifact_def FindBuildByIdentity_def FindArtifactByBuild_def

lemma requested_eval:
  "fst (RequestBuild (forge_env passed) (forge_request ''k1'') forge_empty) = Inr queued_answer \<and>
   bt_builds (db (requested_world passed)) = [(''blda'', queued_build)] \<and>
   bt_artifacts (db (requested_world passed)) = [] \<and>
   bt_idempotency (db (requested_world passed)) =
     Map.empty(build_idemKey ''acme'' ''k1'' \<mapsto>
       \<lparr>bi_tenant = ''acme'', bi_key = ''k1'', bi_command = ''build.request.v1'', bi_request_hash = ''h'',
        bi_result = queued_answer, bi_completed = True, bi_created_at = 1001, bi_completed_at = 1001\<rparr>) \<and>
   id_seq (requested_world passed) = 3 \<and> clk_seq (requested_world passed) = 2"
  unfolding requested_world_def
  by (simp add: RequestBuild_def RequestBuild_tx_def completeIdempotency_def forge_run_defs forge_store_defs
      NewBuild_def forge_request_def forge_empty_def build_newState_def queued_build_def queued_answer_def
      ComputeBuildIdentity_def forge_env_def)

lemmas requested_table [simp] = requested_eval[THEN conjunct1]
  requested_eval[THEN conjunct2, THEN conjunct1]
  requested_eval[THEN conjunct2, THEN conjunct2, THEN conjunct1]
  requested_eval[THEN conjunct2, THEN conjunct2, THEN conjunct2, THEN conjunct1]
  requested_eval[THEN conjunct2, THEN conjunct2, THEN conjunct2, THEN conjunct2, THEN conjunct1]
  requested_eval[THEN conjunct2, THEN conjunct2, THEN conjunct2, THEN conjunct2, THEN conjunct2]

section \<open>A run\<close>

definition ran_world :: "bool \<Rightarrow> bworld" where
  "ran_world passed = snd (RunBuild (forge_env passed) ''acme'' ''ann'' ''blda'' (requested_world passed))"

lemmas forge_stage_defs = RunBuild_def load_build_def startBuild_def build_stage_def publish_stage_def scan_stage_def
  sign_stage_def complete_tx_def advance_def updateBuild_def updateArtifact_def selectExecution_def or_fail_def
  resolveSecrets_def pipeline_of_def

lemmas forge_step_defs = Build_Transition_def SelectExecution_def Succeed_def NewArtifact_def Artifact_Validate_def
  Quarantine_def AttachSBOM_def ApplyScan_def AttachSignature_def MarkReleasable_def bump_def trust_chain_def
  Build_Terminal_def terminal_state_def while_running_def List.member_iff IsZero_def

lemmas forge_save_defs = UpdateBuild_def UpdateArtifact_def build_identity_kept_def build_config_equal_def
  validBuildStateChange_def requiresExecutionSelection_def artifact_identity_kept_def validArtifactStateChange_def
  persisted_trust_def

lemma forge_refs [simp]: "bc_secret_refs forge_normal = []"
  by (simp add: forge_normal_def forge_config_def)

lemmas forge_params = forge_env_def queued_build_def forge_registry_def forge_published_def forge_scan_def
  forge_signature_def ExecutionBuildpacks_def ExecutionDockerfile_def Ref_def

text \<open>A run whose scan passes.\<close>

lemma run_eval:
  "\<exists>b a. RunBuild (forge_env True) ''acme'' ''ann'' ''blda'' (requested_world True) = (Inr (b, Some a), ran_world True) \<and>
     bt_builds (db (ran_world True)) = [(''blda'', b)] \<and> bt_artifacts (db (ran_world True)) = [(''artf'', a)] \<and>
     bd_state b = BuildSucceeded \<and> ar_state a = ArtifactReleasable \<and>
     Ref a = \<lparr>ArtifactID = ''artf'', Repository = ''reg/app'', Digest = forge_digest, MediaType = ''oci''\<rparr> \<and>
     ar_tenant a = ''acme''"
  unfolding ran_world_def
  by (simp add: forge_stage_defs forge_step_defs forge_save_defs forge_run_defs forge_store_defs forge_params)

text \<open>A run whose scan does not.\<close>

lemmas forge_fail_defs = fail_build_def classifyFailure_def Build_Fail_def fail_tx_def BHasCode_def BErr_def

lemma forge_again [simp]:
  "NormalizeBuildInput u (forge_source\<lparr>sr_root := ''app''\<rparr>) forge_normal =
     Inr (forge_source\<lparr>sr_root := ''app''\<rparr>, forge_normal)"
proof -
  have "Source_Validate (forge_source\<lparr>sr_root := ''app''\<rparr>) = Inr ()" by code_simp
  moreover have "normalizeRelativePath ''app'' True = Inr ''app''" "normalizeRelativePath [] True = Inr []"
    by code_simp+
  ultimately show ?thesis
    by (simp add: NormalizeBuildInput_def NormalizeConfig_def forge_source_def forge_normal_def forge_config_def
        BuildTypeAuto_def BuildTypeDockerfile_def)
qed

definition rejected_build :: "build \<Rightarrow> bool" where
  "rejected_build b \<longleftrightarrow>
     bd_id b = ''blda'' \<and> bd_tenant b = ''acme'' \<and> bd_identity b = ''bldid_h'' \<and>
     bd_source b = forge_source\<lparr>sr_root := ''app''\<rparr> \<and> bd_config b = forge_normal \<and> bd_attempt b = 1 \<and>
     bd_state b = BuildFailedUserCode \<and> bd_failure_code b = ''POLICY_REJECTED''"

lemma failed_eval:
  "\<exists>b a. RunBuild (forge_env False) ''acme'' ''ann'' ''blda'' (requested_world False) =
       (Inl (BErr BPolicyRejected ''bad''), ran_world False) \<and>
     bt_builds (db (ran_world False)) = [(''blda'', b)] \<and> bt_artifacts (db (ran_world False)) = [(''artf'', a)] \<and>
     rejected_build b \<and> ar_state a = ArtifactRejected \<and>
     bt_idempotency (db (ran_world False)) (build_idemKey ''acme'' ''k2'') = None \<and>
     id_seq (ran_world False) = 9"
  unfolding ran_world_def
  by (simp add: forge_stage_defs forge_step_defs forge_save_defs forge_run_defs forge_store_defs forge_params
      forge_fail_defs truncate_text_def rejected_build_def build_idemKey_def)

section \<open>A second attempt\<close>

definition forge_retry :: retry_build_command where
  "forge_retry =
     \<lparr>yb_tenant = ''acme'', yb_actor = ''ann'', yb_correlation = ''c1'', yb_key = ''k2'', yb_build = ''blda''\<rparr>"

definition retried_world :: bworld where
  "retried_world = snd (RetryBuild (forge_env False) forge_retry (ran_world False))"

lemma forge_retried_id [simp]: "TrimSpace ''bldj'' = ''bldj''" "TrimSpace ''blda'' = ''blda''"
  by code_simp+

lemma retry_eval:
  "\<exists>b c. bt_builds (db retried_world) = [(''blda'', b), (''bldj'', c)] \<and> rejected_build b \<and>
     bd_tenant c = ''acme'' \<and> bd_identity c = ''bldid_h'' \<and> bd_attempt c = 2 \<and> bd_state c = BuildQueued"
proof -
  obtain b where b: "bt_builds (db (ran_world False)) = [(''blda'', b)]" "rejected_build b"
    "bt_idempotency (db (ran_world False)) (build_idemKey ''acme'' ''k2'') = None" "id_seq (ran_world False) = 9"
    using failed_eval by blast
  then show ?thesis
    unfolding retried_world_def
    by (simp add: RetryBuild_def RetryBuild_tx_def forge_run_defs forge_store_defs forge_retry_def
        forge_env_def Retry_def NewBuild_def Build_Terminal_def terminal_state_def rejected_build_def)
qed

section \<open>Steps\<close>

lemma forge_requested: "build_machine_step\<^sup>*\<^sup>* forge_empty (requested_world passed)"
proof -
  have "build_machine_step forge_empty (snd (build_perform (forge_env passed) (CallRequestBuild (forge_request ''k1'')) forge_empty))"
    by (rule build_machine_stepI) simp
  then show ?thesis by (simp add: build_discard_snd requested_world_def r_into_rtranclp)
qed

lemma forge_ran: "build_machine_step\<^sup>*\<^sup>* forge_empty (ran_world passed)"
proof -
  have "build_machine_step (requested_world passed)
      (snd (build_perform (forge_env passed) (CallRunBuild ''acme'' ''ann'' ''blda'') (requested_world passed)))"
    by (rule build_machine_stepI) simp
  with forge_requested[of passed] show ?thesis by (simp add: build_discard_snd ran_world_def)
qed

lemma forge_ran_later: "build_machine_step\<^sup>*\<^sup>* (requested_world passed) (ran_world passed)"
proof -
  have "build_machine_step (requested_world passed)
      (snd (build_perform (forge_env passed) (CallRunBuild ''acme'' ''ann'' ''blda'') (requested_world passed)))"
    by (rule build_machine_stepI) simp
  then show ?thesis by (simp add: build_discard_snd ran_world_def r_into_rtranclp)
qed

lemma forge_retried: "build_machine_step\<^sup>*\<^sup>* forge_empty retried_world"
proof -
  have "build_machine_step (ran_world False)
      (snd (build_perform (forge_env False) (CallRetryBuild forge_retry) (ran_world False)))"
    by (rule build_machine_stepI) simp
  with forge_ran[of False] show ?thesis by (simp add: build_discard_snd retried_world_def)
qed

lemma forge_new: "db forge_empty = build_newState"
  by (simp add: forge_empty_def)

end
