(* ===== verification/Build_Guarantees.thy ===== *)
theory Build_Guarantees
  imports Build_Scenario
begin

text \<open>
  The properties of the build component, each applied to the runs of \<open>Build_Scenario\<close>.
\<close>

section \<open>The store\<close>

text \<open>
  C9. Whatever methods of the build service are called, in whatever environments and with other
  calls between their transactions, its store stays consistent: artifacts belong to builds of their
  tenant, an artifact is releasable exactly when its build has succeeded with it, its state says
  what it has gone through, builds that run have selected how, attempts of one identity follow each
  other, and recorded answers name builds that exist.
\<close>

theorem build_store_stays_consistent:
  assumes "db w0 = build_newState" and "build_machine_step\<^sup>*\<^sup>* w0 w"
  shows "build_ok (db w)"
  using assms by (rule builder_machine.reachable_inv)

lemma build_store_stays_consistent_witness:
  "db forge_empty = build_newState \<and> build_ok (db retried_world)"
  using build_store_stays_consistent[OF forge_new forge_retried] forge_new by simp

lemma reached_ok: "build_machine_step\<^sup>*\<^sup>* forge_empty w \<Longrightarrow> build_ok (db w)"
  using builder_machine.reachable_inv[OF forge_new] .

text \<open>
  C5. Only what has been scanned, described and signed becomes releasable: a releasable artifact has a
  scan that passed, a valid description (SBOM) and a signature bound to its digest and stored at a
  valid digest, and it is the artifact of a build of the same tenant that has succeeded.
\<close>

theorem releasable_artifacts_are_trusted:
  assumes "db w0 = build_newState" and "build_machine_step\<^sup>*\<^sup>* w0 w"
    and "GetArtifact i (db w) = Some a" and "ar_state a = ArtifactReleasable"
  shows "ValidDigest (ar_digest a) \<and> ValidDigest (ar_sbom_digest a) \<and>
    (\<exists>scan. ar_scan a = Some scan \<and> sc_passed scan) \<and>
    (\<exists>s. ar_signature a = Some s \<and> sg_digest s = ar_digest a \<and> ValidDigest (sg_attachment_digest s)) \<and>
    (\<exists>b. tx_GetBuild (ar_build a) (db w) = Some b \<and> bd_tenant b = ar_tenant a \<and>
       bd_state b = BuildSucceeded \<and> bd_artifact b = i)"
proof -
  have ok: "build_ok (db w)" using assms(1,2) by (rule builder_machine.reachable_inv)
  show ?thesis
    using got_artifact[OF assms(3) ok] assms(4)
    by (auto simp: artifact_row_def artifact_trust_def trust_chain_def tx_GetBuild_def split: option.splits)
qed

lemma releasable_artifacts_are_trusted_witness:
  "\<exists>a. GetArtifact ''artf'' (db (ran_world True)) = Some a \<and> ar_state a = ArtifactReleasable \<and>
     ValidDigest (ar_sbom_digest a) \<and> (\<exists>scan. ar_scan a = Some scan \<and> sc_passed scan)"
proof -
  obtain a where "bt_artifacts (db (ran_world True)) = [(''artf'', a)]" "ar_state a = ArtifactReleasable"
    using run_eval by blast
  then have a: "GetArtifact ''artf'' (db (ran_world True)) = Some a" "ar_state a = ArtifactReleasable"
    by (simp_all add: GetArtifact_def)
  show ?thesis using releasable_artifacts_are_trusted[OF forge_new forge_ran a] a by blast
qed

text \<open>
  C10. What is built once is not built again: of two attempts for the same tenant and identity the
  earlier one has ended without success, so no identity has two builds that run or have succeeded.
\<close>

theorem attempts_follow_failures:
  assumes "db w0 = build_newState" and "build_machine_step\<^sup>*\<^sup>* w0 w"
    and "tx_GetBuild i (db w) = Some b" and "tx_GetBuild j (db w) = Some c" and "i \<noteq> j"
    and "bd_tenant b = bd_tenant c" and "bd_identity b = bd_identity c"
  shows "bd_attempt b < bd_attempt c \<and> Build_Terminal b \<and> bd_state b \<noteq> BuildSucceeded \<or>
    bd_attempt c < bd_attempt b \<and> Build_Terminal c \<and> bd_state c \<noteq> BuildSucceeded"
proof -
  have "build_ok (db w)" using assms(1,2) by (rule builder_machine.reachable_inv)
  note ap = apartD[OF build_okD(7)[OF this]]
  have "attempts_apart b c" "attempts_apart c b"
    using ap[of i b j c] ap[of j c i b] assms(3-5) by (simp_all add: tx_GetBuild_def)
  with assms(6,7) show ?thesis by (auto simp: attempts_apart_def)
qed

lemma attempts_follow_failures_witness:
  "\<exists>b c. tx_GetBuild ''blda'' (db retried_world) = Some b \<and> tx_GetBuild ''bldj'' (db retried_world) = Some c \<and>
     bd_attempt c = 2 \<and> Build_Terminal b"
proof -
  obtain b c where r: "bt_builds (db retried_world) = [(''blda'', b), (''bldj'', c)]" "rejected_build b"
    "bd_tenant c = ''acme''" "bd_identity c = ''bldid_h''" "bd_attempt c = 2" using retry_eval by blast
  then have "tx_GetBuild ''blda'' (db retried_world) = Some b" "tx_GetBuild ''bldj'' (db retried_world) = Some c"
    by (simp_all add: tx_GetBuild_def)
  with attempts_follow_failures[OF forge_new forge_retried this] r show ?thesis
    by (auto simp: rejected_build_def)
qed

text \<open>
  C24. The store of the build service only grows: no build or artifact is lost, a build keeps its
  tenant, identity, source and attempt, a build that has ended and an artifact that is releasable or
  rejected never change again, recorded answers stay, and events and audit entries are appended only.
\<close>

theorem build_history_only_grows:
  assumes "db w0 = build_newState" and "build_machine_step\<^sup>*\<^sup>* w0 w" and "build_machine_step\<^sup>*\<^sup>* w w'"
  shows "build_later (db w) (db w')"
  using build_effects_later[OF build_run_effects[OF assms(3)]] builder_machine.reachable_inv[OF assms(1,2)] by blast

lemma build_history_only_grows_witness:
  "build_later (db (requested_world True)) (db (ran_world True)) \<and> bt_artifacts (db (ran_world True)) \<noteq> []"
  using build_history_only_grows[OF forge_new forge_requested forge_ran_later[of True]] run_eval by auto

section \<open>Requests and runs\<close>

text \<open>
  C25. A request that is repeated, by the same tenant and with the same key, at any later time, is
  answered as it was the first time, when it is answered.
\<close>

theorem RequestBuild_is_idempotent:
  assumes "db w0 = build_newState" and "build_machine_step\<^sup>*\<^sup>* w0 w"
    and "build_rely env" and "RequestBuild env cmd w = (Inr r, w1)"
    and "build_machine_step\<^sup>*\<^sup>* w1 w2"
    and "build_rely env'" and "RequestBuild env' cmd' w2 = (Inr r', w3)"
    and "qb_tenant cmd' = qb_tenant cmd" and "qb_key cmd' = qb_key cmd"
  shows "r' = r"
proof -
  have ok: "build_ok (db w)" using assms(1,2) by (rule builder_machine.reachable_inv)
  have e1: "build_effect\<^sup>*\<^sup>* (db w) (db w1)"
    using building.calls_effects[OF RequestBuild_calls[OF assms(3)] ok, of cmd] assms(4) by simp
  have ok1: "build_ok (db w1)" using building.effects_keep[OF e1 ok] .
  have e2: "build_effect\<^sup>*\<^sup>* (db w1) (db w2)" by (rule build_run_effects[OF assms(5) ok1])
  have ok2: "build_ok (db w2)" using building.effects_keep[OF e2 ok1] .
  have "build_effect\<^sup>*\<^sup>* (db w2) (db w3)"
    using building.calls_effects[OF RequestBuild_calls[OF assms(6)] ok2, of cmd'] assms(7) by simp
  with e2 have l: "build_later (db w1) (db w3)" using ok1 by (blast intro: build_effects_later rtranclp_trans)
  obtain hash where "build_answered (qb_tenant cmd) (qb_key cmd) ''build.request.v1'' hash r (db w1)"
    using building.calls_result[OF RequestBuild_calls[OF assms(3)] ok _ assms(4)] by blast
  then have "build_answered (qb_tenant cmd) (qb_key cmd) ''build.request.v1'' hash r (db w3)"
    using l by (rule build_answered_later)
  moreover obtain hash' where "build_answered (qb_tenant cmd) (qb_key cmd) ''build.request.v1'' hash' r' (db w3)"
    using building.calls_result[OF RequestBuild_calls[OF assms(6)] ok2 _ assms(7)] assms(8,9) by auto
  ultimately show ?thesis by (auto simp: build_answered_def)
qed

lemma same_db [simp]: "w\<lparr>db := db w\<rparr> = w"
  by (cases w) simp

lemma forge_requested_run:
  "RequestBuild (forge_env passed) (forge_request ''k1'') forge_empty = (Inr queued_answer, requested_world passed)"
  using requested_eval[of passed] unfolding requested_world_def by (metis prod.collapse)

lemma forge_replay:
  "RequestBuild (forge_env True) (forge_request ''k1'') (requested_world True) =
   (Inr queued_answer, requested_world True)"
  by (simp add: RequestBuild_def RequestBuild_tx_def build_replay_def forge_run_defs Build_GetIdempotency_def
      forge_request_def ComputeBuildIdentity_def forge_env_def)

lemma RequestBuild_is_idempotent_witness:
  "\<exists>r. RequestBuild (forge_env True) (forge_request ''k1'') forge_empty = (Inr queued_answer, requested_world True) \<and>
     RequestBuild (forge_env True) (forge_request ''k1'') (requested_world True) = (Inr r, requested_world True) \<and>
     r = queued_answer"
  using RequestBuild_is_idempotent[OF forge_new _ _ forge_requested_run _ _ forge_replay]
    forge_requested_run[of True] forge_replay by simp

text \<open>
  C15. A run that returns without an error has run the build to its end, or found it ended: the build is
  terminal, and a build that has succeeded comes with its artifact, releasable and trusted, both as
  they are in the store.
\<close>

theorem finished_run_is_trusted:
  assumes "db w0 = build_newState" and "build_machine_step\<^sup>*\<^sup>* w0 w"
    and "build_rely env" and "RunBuild env tenant actor i w = (Inr (b, x), w')"
  shows "tx_GetBuild i (db w') = Some b \<and> bd_tenant b = tenant \<and> Build_Terminal b \<and>
    (bd_state b = BuildSucceeded \<longrightarrow>
       (\<exists>a. x = Some a \<and> GetArtifact (bd_artifact b) (db w') = Some a \<and> ar_build a = i \<and>
          ar_state a = ArtifactReleasable \<and> trust_chain a))"
proof -
  have ok: "build_ok (db w)" using assms(1,2) by (rule builder_machine.reachable_inv)
  have l: "loaded tenant i (b, x) (db w')" "Build_Terminal b"
    using building.calls_result[OF RunBuild_calls[OF assms(3)] ok _ assms(4)] by auto
  then have "tx_GetBuild i (db w') = Some b"
    using build_moves_fields by (fastforce simp: loaded_def known_build_def)
  moreover have "GetArtifact (bd_artifact b) (db w') = Some a"
    if "trusted_artifact b a" "known_artifact a (db w')" for a
    using known_done[OF that(2)] that(1) by (simp add: trusted_artifact_def)
  ultimately show ?thesis using l by (auto simp: loaded_def trusted_artifact_def)
qed

lemma finished_run_is_trusted_witness:
  "\<exists>b a. RunBuild (forge_env True) ''acme'' ''ann'' ''blda'' (requested_world True) = (Inr (b, Some a), ran_world True) \<and>
     Build_Terminal b \<and> bd_state b = BuildSucceeded \<and> trust_chain a"
proof -
  obtain b a where r: "RunBuild (forge_env True) ''acme'' ''ann'' ''blda'' (requested_world True) =
      (Inr (b, Some a), ran_world True)" "bd_state b = BuildSucceeded" using run_eval by blast
  show ?thesis
    using finished_run_is_trusted[OF forge_new forge_requested forge_rely r(1)] r by auto
qed

section \<open>Releasing\<close>

text \<open>
  C16. The trust policy allows a reference only if the store holds an artifact with exactly this
  identity, repository, digest and media type that is releasable, with a complete chain of trust,
  and whose signature the verifier has accepted.
\<close>

theorem allowed_references_are_trusted:
  assumes "db w0 = build_newState" and "build_machine_step\<^sup>*\<^sup>* w0 w"
    and "build_rely env" and "IsReleasable env version r w = (Inr x, w')" and "rd_allowed x"
  shows "\<exists>a s verify. GetArtifact (ArtifactID r) (db w') = Some a \<and> Ref a = r \<and>
    ar_state a = ArtifactReleasable \<and> trust_chain a \<and> ar_signature a = Some s \<and>
    bv_verifier env = Some verify \<and> verify (Repository r) s = Inr ()"
proof -
  have "build_ok (db w)" using assms(1,2) by (rule builder_machine.reachable_inv)
  then show ?thesis
    using building.calls_result[OF IsReleasable_calls[OF assms(3)] _ _ assms(4)] assms(5)
    by (auto simp: policy_grants_def)
qed

definition forge_ref :: artifact_ref where
  "forge_ref = \<lparr>ArtifactID = ''artf'', Repository = ''reg/app'', Digest = forge_digest, MediaType = ''oci''\<rparr>"

lemma forge_allowed:
  "IsReleasable (forge_env True) ''p1'' forge_ref (ran_world True) =
   (Inr \<lparr>rd_allowed = True, rd_policy_version = ''p1'', rd_reasons = []\<rparr>, ran_world True)"
proof -
  obtain a where a: "bt_artifacts (db (ran_world True)) = [(''artf'', a)]" "ar_state a = ArtifactReleasable"
    "Ref a = forge_ref" using run_eval by (auto simp: forge_ref_def)
  have "policy_trusts a"
    using got_artifact[OF _ reached_ok[OF forge_ran], of "''artf''" True a] a
    by (auto simp: GetArtifact_def artifact_row_def artifact_trust_def trust_chain_def policy_trusts_def
        split: option.splits)
  with a show ?thesis
    by (auto simp: IsReleasable_def policy_verdict_def forge_run_defs forge_store_defs forge_ref_def Ref_def
        Artifact_Validate_def forge_env_def forge_registry_def forge_published_def)
qed

lemma allowed_references_are_trusted_witness:
  "\<exists>a. GetArtifact ''artf'' (db (ran_world True)) = Some a \<and> Ref a = forge_ref \<and> trust_chain a"
  using allowed_references_are_trusted[OF forge_new forge_ran forge_rely forge_allowed]
  by (auto simp: forge_ref_def)

text \<open>
  C31. Whatever path a source revision or a configuration names, what a build keeps of it lies inside
  the repository: a normal form has no segment that is empty, \<open>.\<close> or \<open>..\<close>, and it does not begin
  with a slash.
\<close>

theorem normalized_path_stays_inside:
  assumes "normalizeRelativePath v e = Inr p"
  shows "(p = [] \<and> e) \<or>
    (\<forall>s\<in>set (Split (CHR ''/'') p). s \<noteq> [] \<and> s \<noteq> ''.'' \<and> s \<noteq> ''..'' \<and> CHR ''/'' \<notin> set s)"
  using normalizeRelativePath_Inr[OF assms] by (auto simp: inside_path_def list_all_iff inside_segment_def)

lemma normalized_path_stays_inside_witness:
  "normalizeRelativePath ''./a//b'' False = Inr ''a/b'' \<and> ''..'' \<notin> set (Split (CHR ''/'') ''a/b'')"
proof -
  have n: "normalizeRelativePath ''./a//b'' False = Inr ''a/b''" by code_simp
  with normalized_path_stays_inside[OF n] show ?thesis by auto
qed

end
