(* ===== verification/Delivery.thy ===== *)
theory Delivery
  imports Runtime_Guarantees Build_Guarantees
begin

text \<open>
  How the runtime and the build component meet: the trust policy of the build component
  (\<open>internal/build/application/policy.go\<close>) is the policy that the runtime asks before it makes a
  release (\<open>ArtifactPolicy\<close> of \<open>pkg/contracts/build/v1\<close>).
\<close>

section \<open>The policy as a port of the runtime\<close>

text \<open>The policy on a store of builds; errors of the other package keep their text only.\<close>

definition build_policy ::
  "benv \<Rightarrow> string \<Rightarrow> bworld \<Rightarrow> artifact_ref \<Rightarrow> rerror + releasability_decision" where
  "build_policy env version w r =
     (case fst (IsReleasable env version r w) of
        Inl e \<Rightarrow> Inl (RErrorString (build_error_text e))
      | Inr x \<Rightarrow> Inr x)"

lemma CreateRelease_allowed:
  assumes "CreateRelease env req w = (Inr a, w')"
    and "NormalizeReleaseConfig (rv_unicode env) ((dr_configuration req)\<lparr>rc_hostname := []\<rparr>) = Inr n"
    and "fst (replayCreateRelease env (req\<lparr>dr_configuration := n\<rparr>) w) = Inr None"
  shows "\<exists>policy x. rv_artifacts env = Some policy \<and> policy (dr_artifact req) = Inr x \<and> rd_allowed x"
proof -
  obtain w1 where "replayCreateRelease env (req\<lparr>dr_configuration := n\<rparr>) w = (Inr None, w1)"
    using assms(3) by (cases "replayCreateRelease env (req\<lparr>dr_configuration := n\<rparr>) w") auto
  then show ?thesis
    using assms(1,2)
    by (auto simp: CreateRelease_def bindE_def seqE_def validateBase_def of_result_def throw_def ret_def Let_def
        split: option.splits sum.splits if_splits)
qed

section \<open>Releases\<close>

text \<open>
  C11. With the trust policy of the build component, the runtime makes a release only of what has been
  built and is trusted: when it answers a request that it has not build_answered before, the store of
  builds holds an artifact with exactly the requested reference that is releasable and has a
  complete chain of trust.
\<close>

theorem released_references_are_trusted:
  assumes "db b0 = build_newState" and "build_machine_step\<^sup>*\<^sup>* b0 b" and "build_rely benv"
    and "rv_artifacts env = Some (build_policy benv version b)"
    and "NormalizeReleaseConfig (rv_unicode env) ((dr_configuration req)\<lparr>rc_hostname := []\<rparr>) = Inr n"
    and "fst (replayCreateRelease env (req\<lparr>dr_configuration := n\<rparr>) w) = Inr None"
    and "CreateRelease env req w = (Inr (rel, p), w')"
  shows "\<exists>a. GetArtifact (ArtifactID (dr_artifact req)) (db (snd (IsReleasable benv version (dr_artifact req) b))) =
      Some a \<and> Ref a = dr_artifact req \<and> ar_state a = ArtifactReleasable \<and> trust_chain a"
proof -
  obtain x where "build_policy benv version b (dr_artifact req) = Inr x" "rd_allowed x"
    using CreateRelease_allowed[OF assms(7,5,6)] assms(4) by auto
  then obtain b' where b': "IsReleasable benv version (dr_artifact req) b = (Inr x, b')" "rd_allowed x"
    by (cases "IsReleasable benv version (dr_artifact req) b") (auto simp: build_policy_def split: sum.splits)
  have "build_ok (db b)" using assms(1,2) by (rule builder_machine.reachable_inv)
  then have "policy_grants benv (dr_artifact req) (db b')"
    using building.calls_result[OF IsReleasable_calls[OF assms(3)] _ _ b'(1)] b'(2) by simp
  with b'(1) show ?thesis by (auto simp: policy_grants_def)
qed

text \<open>The shop of \<open>Runtime_Scenario\<close> releases the artifact of \<open>Build_Scenario\<close>.\<close>

definition joined_env :: renv where
  "joined_env = site_env\<lparr>rv_artifacts := Some (build_policy (forge_env True) ''p1'' (ran_world True))\<rparr>"

definition joined_request :: deploy_request where
  "joined_request = (site_deploy ''artf'' ''k2'' 2)\<lparr>dr_artifact := forge_ref\<rparr>"

lemma joined_policy [simp]:
  "build_policy (forge_env True) ''p1'' (ran_world True) forge_ref =
     Inr \<lparr>rd_allowed = True, rd_policy_version = ''p1'', rd_reasons = []\<rparr>"
  by (simp add: build_policy_def forge_allowed)

lemma joined_ref [simp]: "ArtifactID forge_ref = ''artf''" "Artifact_Validate forge_ref = Inr ()"
  by (simp_all add: forge_ref_def Artifact_Validate_def)

lemmas joined_defs = CreateRelease_def Deploy_Validate_def replayCreateRelease_def replay_tx_def
  Runtime_GetIdempotency_def CreateRelease_tx_def GetApplication_def GetEnvironment_def
  resolvePlacement_def GetCurrentPlacement_def ListRuntimeCells_def Select_def CanPlace_def supports_def
  ReleaseIdentity_def FindReleaseByIdentity_def newRelease_tx_def placeEnvironment_def NewPlacement_def
  Cell_Allocate_def UpdateRuntimeCell_def GetRuntimeCell_def InsertPlacement_def GetPlacement_def SetPlacement_def
  UpdateEnvironment_def environment_update_conflict.simps NewRelease_def Release_Transition_def InsertRelease_def
  GetRelease_def release_key_record_def Runtime_InsertIdempotency_def Runtime_AppendAudit_def

lemma joined_eval:
  "\<exists>rel p. fst (CreateRelease joined_env joined_request site_world) = Inr (rel, p) \<and> rel_artifact rel = forge_ref"
  by (simp add: joined_defs site_params site_deploy_def wrap64_def releaseRequestHash_def joined_env_def
      joined_request_def)

lemma joined_replay:
  "fst (replayCreateRelease joined_env (joined_request\<lparr>dr_configuration := shop_config\<lparr>rc_hostname := []\<rparr>\<rparr>) site_world) = Inr None"
  by (simp add: joined_defs site_params site_deploy_def joined_env_def joined_request_def)

lemma joined_normal:
  "NormalizeReleaseConfig (rv_unicode joined_env) ((dr_configuration joined_request)\<lparr>rc_hostname := []\<rparr>) =
     Inr (shop_config\<lparr>rc_hostname := []\<rparr>)"
  by (simp add: joined_request_def site_deploy_def)

lemma released_references_are_trusted_witness:
  "\<exists>rel p w' a. CreateRelease joined_env joined_request site_world = (Inr (rel, p), w') \<and>
     rel_artifact rel = Ref a \<and> ar_state a = ArtifactReleasable \<and> trust_chain a"
proof -
  obtain rel p w' where c: "CreateRelease joined_env joined_request site_world = (Inr (rel, p), w')"
    "rel_artifact rel = forge_ref" using joined_eval by (metis prod.collapse)
  have "dr_artifact joined_request = forge_ref" by (simp add: joined_request_def)
  moreover have "rv_artifacts joined_env = Some (build_policy (forge_env True) ''p1'' (ran_world True))"
    by (simp add: joined_env_def)
  ultimately show ?thesis
    using released_references_are_trusted[OF forge_new forge_ran forge_rely _ joined_normal joined_replay c(1)] c
    by metis
qed

end
