(* ===== verification/Spec2Isabelle.thy ===== *)
theory Spec2Isabelle
  imports Kernel_Messaging Commerce_Guarantees Runtime_Guarantees Build_Guarantees Delivery
begin

text \<open>
  Verification of the AI-native PaaS, a modular monolith in Go. Each module has a domain package
  of value types and their state machines, an application package with a service whose commands
  run in transactions, and stores that implement the transactions; the modules talk through
  published contracts. This development models modules from the contract types up to the commands
  of their service, over the in-memory store, and proves what the commands guarantee.

  \<^bold>\<open>The layers.\<close>
  \<^item> \<open>Go_Prelude\<close>: byte strings and package \<open>strings\<close>, UTF-8, instants and durations of package
    \<open>time\<close>, \<open>int64\<close> arithmetic with its wrap-around, computations that return an error or a value
    and a new state, tables, and the locales \<open>safe_machine\<close> (an invariant over a step relation)
    and \<open>versioned_machine\<close> (objects with a version counter and final states).
  \<^item> \<open>Go_Transactions\<close>: the state of any service (its store and the counters of its clock and of
    its identifier generator), the operations of a transaction, and a calculus for what the
    successful runs of a transaction leave behind.
  \<^item> \<open>Go_Calls\<close>: the locale \<open>shared_store\<close>, for calls that run several transactions on a store that
    other calls share: what a call does is a sequence of steps, and what it knows has to be stable
    under them. The runtime and the build component are interpretations of it.
  \<^item> \<open>Versioned_Store\<close>: the locale for tables under optimistic locking; the tables of the
    modules are interpretations of it.

  \<^bold>\<open>The kernel\<close> (\<open>contracts/kernel/v1\<close>, \<open>internal/kernel\<close>, \<open>internal/kernel/memory\<close>).
  \<open>Kernel_Types\<close> holds the contracts and errors, \<open>Kernel_Organization\<close> memberships and
  organizations, \<open>Kernel_Operation\<close> the operations, \<open>Kernel_Authorization\<close> the policy,
  \<open>Kernel_Audit\<close> the redaction, \<open>Kernel_Store\<close> and \<open>Kernel_Runtime\<close> the store and its
  transactions, \<open>Kernel_Service\<close> every command of \<open>service.go\<close>, and \<open>Kernel_Messaging\<close> the outbox
  dispatcher and the inbox processor. \<open>Kernel_History\<close> states what the commands do as a step
  relation on stores; \<open>Kernel_Recording\<close>, \<open>Kernel_Commands\<close> and \<open>Kernel_Guarantees\<close> prove the
  contract that all commands share as the locale \<open>run_once\<close>; \<open>Kernel_Progress\<close> proves that
  commands return and that a membership command is the verdict of the policy, of the guard on
  owners and of the organization.

  \<^bold>\<open>Commerce\<close> (\<open>pkg/contracts/commerce/v1\<close>, \<open>internal/commerce/domain\<close>,
  \<open>internal/commerce/application\<close>, \<open>internal/commerce/memory\<close>).
  \<^item> \<open>Commerce_Types\<close> and \<open>Commerce_Domain\<close>: contract types, errors, plans, subscriptions, billing
    periods, accounts and quota reservations with their state machines.
  \<^item> \<open>Commerce_Arith\<close>, \<open>Commerce_Rating\<close>, \<open>Commerce_Metering\<close>: checked sums, the rating of a
    quantity against its specification on rationals, and the metering of runtime units against the
    sum over the stretches of a window and, for whole seconds, over its single seconds.
  \<^item> \<open>Commerce_Store\<close> and \<open>Commerce_Runtime\<close>: the tables, the transactions and the journal.
  \<^item> \<open>Commerce_Service\<close> and \<open>Commerce_Billing\<close>: the methods of \<open>service.go\<close>, one definition each.
  \<^item> \<open>Commerce_Effects\<close>: an abstract step relation \<open>commerce_effect\<close> on stores, the proof that
    every method refines it, and the calls of the service as steps.
  \<^item> \<open>Commerce_Invariants\<close>, \<open>Commerce_Quota\<close>, \<open>Commerce_History\<close>: the invariant of the tables, the
    limits of quotas, and what is never rewritten, each shown for the abstract steps.
  \<^item> \<open>Commerce_Usage\<close>, \<open>Commerce_Invoice\<close>, \<open>Commerce_Entitlement\<close>: retries and reconciliation of
    the ledger, the specification of an invoice, the rule that \<open>Check\<close> and \<open>Reserve\<close> share and the
    instant at which a reservation is judged.
  \<^item> \<open>Commerce_Scenario\<close> runs the service on a small shop; \<open>Commerce_Guarantees\<close> states the
    properties and applies them to it.

  \<^bold>\<open>The runtime\<close> (\<open>pkg/contracts/runtime/v1\<close>, \<open>internal/runtime/domain\<close>,
  \<open>internal/runtime/application\<close>, \<open>internal/runtime/memory\<close>, \<open>internal/runtime/gitops/renderer.go\<close>).
  \<^item> \<open>Runtime_Types\<close> and \<open>Runtime_Domain\<close>: contract types, the checks of names, the custom resource
    \<open>PaaSApp\<close>; applications, environments, cells, placements, releases and deployments with their
    state machines, and the normal form of a configuration. \<open>Runtime_Names\<close>: generated names.
  \<^item> \<open>Runtime_Store\<close> and \<open>Runtime_Environment\<close>: the tables, the ports and the transactions.
  \<^item> \<open>Runtime_Service\<close>, \<open>Runtime_Rollback\<close>, \<open>Runtime_Rendering\<close>, \<open>Runtime_Status\<close>: the methods of
    \<open>service.go\<close> and \<open>status.go\<close>, the scheduler, and the manifests of a deployment.
  \<^item> \<open>Runtime_Tables\<close>, \<open>Runtime_Effects\<close>, \<open>Runtime_Invariants\<close>: an abstract step relation
    \<open>runtime_effect\<close> on stores, the invariant \<open>runtime_ok\<close> that it keeps, and the order \<open>later\<close> of
    stores along it. \<open>Runtime_Calls\<close>, \<open>Runtime_Refinement\<close>, \<open>Runtime_Deployments\<close> and
    \<open>Runtime_Observations\<close> prove that every transaction of every method is a run of such steps;
    \<open>Runtime_Machine\<close> makes the calls of the service a \<open>safe_machine\<close>.
  \<^item> \<open>Runtime_Keys\<close> follows the idempotency key of a release and \<open>Runtime_Liveness\<close> shows that a ready
    report is applied. \<open>Runtime_Scenario\<close> runs the service up to a committed deployment, and
    \<open>Runtime_Guarantees\<close> states the properties and applies them to it.

  \<^bold>\<open>Builds\<close> (\<open>pkg/contracts/build/v1\<close>, \<open>internal/build/domain\<close>, \<open>internal/build/application\<close>,
  \<open>internal/build/memory\<close>).
  \<^item> \<open>Build_Types\<close> and \<open>Build_Domain\<close>: errors, source revisions, configurations with their normal form
    and identity, builds and artifacts with their state machines. \<open>Build_Paths\<close>: what the normal form
    of a path promises.
  \<^item> \<open>Build_Store\<close> and \<open>Build_Environment\<close>: the tables, the ports and the transactions.
  \<^item> \<open>Build_Service\<close> and \<open>Build_Run\<close>: the methods of \<open>service.go\<close> and the trust policy of \<open>policy.go\<close>;
    a run is split into the stages that its local variables pass through.
  \<^item> \<open>Build_Effects\<close> and \<open>Build_Invariants\<close>: the abstract step relation \<open>build_effect\<close>, the invariant
    \<open>build_ok\<close> and the order \<open>build_later\<close>. \<open>Build_Refinement\<close>, \<open>Build_Pipeline\<close> and \<open>Build_Commands\<close>
    prove that every method is a run of such steps, and what it promises of its answer;
    \<open>Build_Machine\<close> makes the calls a \<open>safe_machine\<close>.
  \<^item> \<open>Build_Scenario\<close> runs builds that succeed, fail and are retried; \<open>Build_Guarantees\<close> states the
    properties and applies them to it.
  \<open>Delivery\<close> joins the two components: the policy of builds is the one that the runtime asks.

  A method of the runtime runs several transactions, with a Git commit or an observation of the cluster in
  between, and a run of a build calls its engines between its transactions. The environment of a call
  (\<open>renv\<close>, \<open>benv\<close>) names each transaction and says what other calls have
  done to the store before it (\<open>rv_others\<close>, \<open>bv_others\<close>); the properties hold for every interference that is itself
  a run of steps (\<open>rely\<close>, \<open>build_rely\<close>), so for every interleaving of calls at their transactions. Only the progress of
  a ready report assumes that nothing comes in between. A dependency that is \<open>nil\<close> makes a call fail
  or panic (\<open>RPanic\<close>, \<open>BPanic\<close>) as it does in Go.

  \<^bold>\<open>How the code is represented.\<close> A method is a function from the state of the service to an
  error or a value and the next state; each early return is a branch. A transaction works on a copy
  of the store, which is kept when the function returns no error. The clock and the identifier
  generator are functions of the number of times they have been asked, so a theorem about all of
  them covers every sequence of instants and identifiers. Instants are integers of nanoseconds, in
  UTC: two values of a Go instant that differ in their location are the same. A Go map is a map; where
  the code ranges over one it is an association list, whose order is one order of iteration. Numbers
  of type \<open>int64\<close> are integers with the wrap-around written out; version counters are unbounded.
  JSON texts that are stored and read back, or fingerprinted, are represented by the value they
  encode. The value that a Go function returns next to a non-nil error is left out, as no caller
  uses it.

  \<^bold>\<open>Parameters.\<close> Code outside the repository and values of the environment are arguments of the
  definitions: the tables of package \<open>unicode\<close> beyond ASCII, the SHA-256 of a text, the identifier
  generator, the clock, the ownership service, the publisher and handlers of events, the error of
  the context; for the runtime the artifact policy, the catalog of units, the Git repository, the
  observer of a cluster and the digest of a JSON text; for builds the fetcher, detector, engines,
  registry, SBOM generator, scanner, signer, verifier and secret provider, each a function of what it is asked. No theorem assumes that a hash has no collisions. Where a theorem needs more of
  them it says so: fresh identifiers for the progress of the kernel's commands (\<open>healthy\<close>), a clock that
  does not run backwards for quotas (\<open>mono\<close>). No definition uses fuel: every loop is structural.

  \<^bold>\<open>What the properties show.\<close> For the kernel: a command runs once under its key, is audited once,
  and changes an organization only with authority; organizations keep an active owner; history only
  grows; of the claimed events exactly the delivered ones are marked as published; redaction leaks nothing. For commerce: the tables
  stay consistent under any interleaving of calls, an error changes nothing, quotas are never
  overcommitted, a key of usage is recorded once, reconciliation settles the ledger, an invoice accounts for
  the ledger of its period, rating and metering equal their references. For the runtime: its tables stay
  consistent under interleaved calls, cells are never overbooked, an environment has at most one
  active release, deploying is idempotent, a rendered object passes validation when it is observed, a ready
  report activates its release and supersedes the others, and history only grows. For builds: the tables stay consistent under
  interleaved calls, only what is scanned, described and signed becomes releasable, an identity is not
  built again while an attempt runs or has succeeded, requests are idempotent, a run ends with a trusted
  artifact, the policy allows trusted references only, and paths stay inside the repository; with this
  policy the runtime releases trusted artifacts only. Some properties state what
  the code does where that is not what it means to do: an admin can invite an owner, a request
  that names an instant is judged at that instant only, which defeats the quota, a change of the
  observed units loses a fraction of a second, a whole period cannot be corrected, the redaction of events
  misses keys, a ready deployment never leaves its state.

  \<^bold>\<open>Not modelled\<close>, and why. The PostgreSQL stores, whose meaning lies in SQL; the in-memory stores
  that implement the same interfaces are modelled instead. HTTP handlers, token verification, the
  Kubernetes and GitLab clients, git processes, the build engines and the commands under \<open>cmd\<close>:
  input and output around the services. Fakes and fixtures for tests. In the kernel the JSON decoder
  of the contract and the random identifiers. In the runtime the encoding of manifests, the Git
  repository and the reconciler that runs in the cluster (\<open>internal/runtime/operator\<close>), of which the
  service sees the status only. In the build component the log writer and the clean-up of a snapshot. The
  services for agent and source follow the pattern of the modules here and are left out.
\<close>

end
